(* ===== verification/Prelude.thy ===== *)
theory Prelude
  imports Main
begin

text \<open>
  The shared vocabulary of the development.

  \<^item> \<open>pyerr\<close>: one constructor per exception class the modelled code raises, carrying the pieces
    of its message (an f-string is the list of its parts). \<open>OutOfFuel\<close> is not a Python error: it
    marks a fuel-driven model that ran out, and is proved never to occur.
  \<^item> \<open>check\<close>: one guard of the source, \<open>if not cond: raise err\<close>. A \<open>validate()\<close> method is the list
    of its guards in source order; \<open>checked\<close> runs such a list and continues with the rest of the
    function, stopping at the first guard that fails; \<open>all_ok\<close> says that none of them raises.
  \<^item> \<open>bindE\<close>: sequencing of computations that may raise.

  Static typing replaces the source's \<open>isinstance\<close> guards: a value of the wrong Python type is not
  a value of the model, except at the JSON boundary (theory \<open>Json\<close>), where the type tests are kept.
\<close>

section \<open>Exceptions\<close>

datatype pyerr =
    ArtifactHoldExpiryConflict "string list"
  | ValueError "string list"
  | TypeError "string list"
  | KeyError
  | RuntimeError "string list"
  | UnicodeError
  | CanonicalizationError
  | JSONDecodeError
  | OutOfFuel
  | BindingValidationError "string list"
  | InvalidParamsError "string list"
  | InvalidRequestError "string list"
  | InvalidAgentResponseError "string list"
  | RequiredSlotError "string list"
  | BindingTransportError "string list"
  | JsonRpcError int "string list"
  | SerializeToJsonError

type_synonym 'a result = "pyerr + 'a"

fun bindE :: "'a result \<Rightarrow> ('a \<Rightarrow> 'b result) \<Rightarrow> 'b result" where
  "bindE (Inl e) f = Inl e"
| "bindE (Inr x) f = f x"

fun returns :: "'a result \<Rightarrow> bool" where
  "returns (Inl e) = False"
| "returns (Inr x) = True"

lemma bindE_eq_Inr [simp]: "bindE m f = Inr y \<longleftrightarrow> (\<exists>x. m = Inr x \<and> f x = Inr y)"
  by (cases m) auto

lemma bindE_eq_Inl [simp]: "bindE m f = Inl e \<longleftrightarrow> m = Inl e \<or> (\<exists>x. m = Inr x \<and> f x = Inl e)"
  by (cases m) auto

lemma returns_iff: "returns m \<longleftrightarrow> (\<exists>x. m = Inr x)"
  by (cases m) auto

text \<open>A comprehension or generator whose element may raise, evaluated in order.\<close>

fun mapE :: "('a \<Rightarrow> 'b result) \<Rightarrow> 'a list \<Rightarrow> 'b list result" where
  "mapE f [] = Inr []"
| "mapE f (x # xs) = bindE (f x) (\<lambda>y. bindE (mapE f xs) (\<lambda>ys. Inr (y # ys)))"

lemma mapE_eq_Inr: "mapE f xs = Inr ys \<longleftrightarrow> list_all2 (\<lambda>x y. f x = Inr y) xs ys"
  by (induction xs arbitrary: ys) (auto simp: list_all2_Cons1)

lemma mapE_map_Inr: "(\<And>x. x \<in> set xs \<Longrightarrow> f x = Inr (g x)) \<Longrightarrow> mapE f xs = Inr (map g xs)"
  by (induction xs) auto

section \<open>Guards\<close>

datatype check = Check bool pyerr

text \<open>Simplification leaves the error of a guard alone: only its condition is ever of interest.\<close>

lemma Check_weak_cong [cong]: "c = c' \<Longrightarrow> Check c e = Check c' e"
  by simp

fun checked :: "check list \<Rightarrow> 'a result \<Rightarrow> 'a result" where
  "checked [] r = r"
| "checked (Check c e # cs) r = (if c then checked cs r else Inl e)"

fun all_ok :: "check list \<Rightarrow> bool" where
  "all_ok [] = True"
| "all_ok (Check c e # cs) = (c \<and> all_ok cs)"

text \<open>A computation used as a guard: it must not raise.\<close>

fun no_raise :: "'a result \<Rightarrow> check list" where
  "no_raise (Inl e) = [Check False e]"
| "no_raise (Inr x) = []"

text \<open>The recurring \<open>if value != computed_digest: raise\<close>, where computing the digest may raise.\<close>

fun digest_match :: "'a result \<Rightarrow> 'a \<Rightarrow> pyerr \<Rightarrow> check list" where
  "digest_match (Inl e') x e = [Check False e']"
| "digest_match (Inr d) x e = [Check (x = d) e]"

named_theorems check_simps

lemma all_ok_append [simp]: "all_ok (xs @ ys) \<longleftrightarrow> all_ok xs \<and> all_ok ys"
  by (induction xs rule: all_ok.induct) auto

lemma all_ok_concat [simp]: "all_ok (concat xss) \<longleftrightarrow> (\<forall>xs \<in> set xss. all_ok xs)"
  by (induction xss) auto

lemma all_ok_no_raise [simp]: "all_ok (no_raise m) \<longleftrightarrow> returns m"
  by (cases m) auto

lemma all_ok_digest_match [simp]: "all_ok (digest_match m x e) \<longleftrightarrow> m = Inr x"
  by (cases m) auto

lemma checked_eq_Inr [simp]: "checked cs r = Inr x \<longleftrightarrow> all_ok cs \<and> r = Inr x"
  by (induction cs rule: all_ok.induct) auto

lemma checked_all_ok: "all_ok cs \<Longrightarrow> checked cs r = r"
  by (induction cs rule: all_ok.induct) auto

lemma checked_append: "checked (xs @ ys) r = checked xs (checked ys r)"
  by (induction xs rule: all_ok.induct) auto

lemma checked_fails: "\<not> all_ok cs \<Longrightarrow> \<exists>e. checked cs r = Inl e"
  by (induction cs rule: all_ok.induct) auto

text \<open>A guard list that fails raises the error of its first failing guard, whatever follows.\<close>

lemma checked_fails_indep: "\<not> all_ok cs \<Longrightarrow> checked cs r = Inl e \<Longrightarrow> checked cs r' = Inl e"
  by (induction cs rule: all_ok.induct) (auto split: if_splits)

lemma returns_checked [simp]: "returns (checked cs r) \<longleftrightarrow> all_ok cs \<and> returns r"
  by (auto simp: returns_iff)

lemma returns_bindE [simp]: "returns (bindE m f) \<longleftrightarrow> (\<exists>x. m = Inr x \<and> returns (f x))"
  by (auto simp: returns_iff)

text \<open>From here on \<open>checked\<close> is reasoned about through \<open>all_ok\<close>; the equations are used where the
  error itself matters.\<close>

declare checked.simps(2) [simp del]

lemmas checked_Cons = checked.simps(2)

section \<open>Lists\<close>

text \<open>The keyed lookups of the source that insist on exactly one match.\<close>

fun the_only :: "'a list \<Rightarrow> 'a option" where
  "the_only [x] = Some x"
| "the_only xs = None"

lemma the_only_eq_Some [simp]: "the_only xs = Some x \<longleftrightarrow> xs = [x]"
  by (cases xs rule: the_only.cases) auto

lemma distinct_filter_key:
  assumes "distinct (map f xs)" and "x \<in> set xs"
  shows "filter (\<lambda>y. f y = f x) xs = [x]"
  using assms
proof (induction xs)
  case Nil
  then show ?case by simp
next
  case (Cons y ys)
  show ?case
  proof (cases "x = y")
    case True
    with Cons.prems have "f x \<notin> f ` set ys" by simp
    then have "\<forall>z \<in> set ys. f z \<noteq> f x" by (metis imageI)
    then have "filter (\<lambda>z. f z = f x) ys = []" by (simp add: filter_empty_conv)
    with True show ?thesis by simp
  next
    case False
    with Cons show ?thesis by force
  qed
qed

lemma sorted_wrt_less_distinct:
  "sorted_wrt (<) (map f xs) \<Longrightarrow> distinct (map f xs)" for f :: "'a \<Rightarrow> 'b :: linorder"
  by (simp add: strict_sorted_iff)

lemma sort_key_map: "sort_key f (map g xs) = map g (sort_key (f \<circ> g) xs)"
proof -
  have "insort_key f (g x) (map g ys) = map g (insort_key (f \<circ> g) x ys)" for x ys by (induction ys) auto
  then show ?thesis by (induction xs) simp_all
qed

lemma index_split:
  "x \<in> set xs \<Longrightarrow> \<exists>ys zs. xs = ys @ x # zs \<and> x \<notin> set ys"
  by (rule split_list_first)

end
