(* ===== verification/PyText.thy ===== *)
theory PyText
  imports Prelude "HOL-Library.Word"
begin

text \<open>
  Python text and bytes as the modelled code uses them.

  A \<open>str\<close> is the list of its code points (\<open>ustr\<close>), so that lengths, the control-character
  tests and the encodings mean what they mean in Python; \<open>u ''...''\<close> is an ASCII literal. A
  \<open>bytes\<close> object is a list of 8-bit words. The theory models \<open>str.encode\<close> (UTF-8 and ASCII),
  \<open>bytes.decode("utf-8")\<close>, \<open>str.strip\<close>, \<open>str(int)\<close>, \<open>bytes.join\<close> with the NUL separator, and the
  regular-expression character classes of the source, and proves that each encoding used in a
  hash preimage is injective.
\<close>

type_synonym ustr = "nat list"
type_synonym byte = "8 word"
type_synonym bytes = "byte list"

definition u :: "string \<Rightarrow> ustr" where
  "u s = map of_char s"

lemma u_eq_iff [simp]: "u s = u t \<longleftrightarrow> s = t"
  by (auto simp: u_def inj_map_eq_map inj_def)

lemma u_Nil [simp]: "u [] = []"
  by (simp add: u_def)

text \<open>The byte with a given value; below 256 it is the value itself.\<close>

definition byte_of :: "nat \<Rightarrow> byte" where
  "byte_of n = word_of_nat n"

lemma unat_byte_of [simp]: "n < 256 \<Longrightarrow> unat (byte_of n) = n"
  by (simp add: byte_of_def unat_of_nat)

lemma byte_of_unat [simp]: "byte_of (unat b) = b"
  by (simp add: byte_of_def)

lemma byte_of_eq_iff: "m < 256 \<Longrightarrow> n < 256 \<Longrightarrow> byte_of m = byte_of n \<longleftrightarrow> m = n"
  by (metis unat_byte_of)

section \<open>Encodings\<close>

text \<open>\<open>str.encode("utf-8")\<close>: a surrogate cannot be encoded; no code point exceeds 0x10FFFF.\<close>

definition utf8_char :: "nat \<Rightarrow> bytes option" where
  "utf8_char c =
     (if c < 0x80 then Some [byte_of c]
      else if c < 0x800 then
        Some [byte_of (0xC0 + c div 64), byte_of (0x80 + c mod 64)]
      else if 0xD800 \<le> c \<and> c < 0xE000 then None
      else if c < 0x10000 then
        Some [byte_of (0xE0 + c div 4096), byte_of (0x80 + c div 64 mod 64),
              byte_of (0x80 + c mod 64)]
      else if c < 0x110000 then
        Some [byte_of (0xF0 + c div 262144), byte_of (0x80 + c div 4096 mod 64),
              byte_of (0x80 + c div 64 mod 64), byte_of (0x80 + c mod 64)]
      else None)"

fun utf8_encode :: "ustr \<Rightarrow> bytes option" where
  "utf8_encode [] = Some []"
| "utf8_encode (c # cs) =
     (case utf8_char c of None \<Rightarrow> None
      | Some b \<Rightarrow> (case utf8_encode cs of None \<Rightarrow> None | Some bs \<Rightarrow> Some (b @ bs)))"

definition scalar_value :: "nat \<Rightarrow> bool" where
  "scalar_value c \<longleftrightarrow> c < 0xD800 \<or> 0xE000 \<le> c \<and> c < 0x110000"

text \<open>\<open>bytes.decode("utf-8")\<close> in strict mode: overlong forms, surrogates and code points past
  0x10FFFF are rejected.\<close>

definition cont_byte :: "byte \<Rightarrow> bool" where
  "cont_byte b \<longleftrightarrow> 0x80 \<le> unat b \<and> unat b < 0xC0"

definition cont_bits :: "byte \<Rightarrow> nat" where
  "cont_bits b = unat b - 0x80"

definition decode2 :: "byte \<Rightarrow> byte \<Rightarrow> nat option" where
  "decode2 b c =
     (if 0xC2 \<le> unat b \<and> unat b < 0xE0 \<and> cont_byte c
      then Some ((unat b - 0xC0) * 64 + cont_bits c) else None)"

definition decode3 :: "byte \<Rightarrow> byte \<Rightarrow> byte \<Rightarrow> nat option" where
  "decode3 b c d =
     (let v = (unat b - 0xE0) * 4096 + cont_bits c * 64 + cont_bits d in
      if 0xE0 \<le> unat b \<and> unat b < 0xF0 \<and> cont_byte c \<and> cont_byte d \<and> 0x800 \<le> v
         \<and> \<not> (0xD800 \<le> v \<and> v < 0xE000)
      then Some v else None)"

definition decode4 :: "byte \<Rightarrow> byte \<Rightarrow> byte \<Rightarrow> byte \<Rightarrow> nat option" where
  "decode4 b c d e =
     (let v = (unat b - 0xF0) * 262144 + cont_bits c * 4096 + cont_bits d * 64 + cont_bits e in
      if 0xF0 \<le> unat b \<and> unat b < 0xF5 \<and> cont_byte c \<and> cont_byte d \<and> cont_byte e
         \<and> 0x10000 \<le> v \<and> v < 0x110000
      then Some v else None)"

fun utf8_decode :: "bytes \<Rightarrow> ustr option" where
  "utf8_decode [] = Some []"
| "utf8_decode (b # bs) =
     (if unat b < 0x80 then map_option (Cons (unat b)) (utf8_decode bs)
      else (case bs of [] \<Rightarrow> None
      | c # cs \<Rightarrow>
         (case decode2 b c of Some v \<Rightarrow> map_option (Cons v) (utf8_decode cs)
          | None \<Rightarrow>
            (case cs of [] \<Rightarrow> None
             | d # ds \<Rightarrow>
               (case decode3 b c d of Some v \<Rightarrow> map_option (Cons v) (utf8_decode ds)
                | None \<Rightarrow>
                  (case ds of [] \<Rightarrow> None
                   | e # es \<Rightarrow>
                     (case decode4 b c d e of Some v \<Rightarrow> map_option (Cons v) (utf8_decode es)
                      | None \<Rightarrow> None)))))))"

text \<open>\<open>str.encode("ascii")\<close>.\<close>

definition ascii_encode :: "ustr \<Rightarrow> bytes option" where
  "ascii_encode s = (if list_all (\<lambda>c. c < 0x80) s then Some (map byte_of s) else None)"

lemma utf8_char_scalar: "utf8_char c \<noteq> None \<longleftrightarrow> scalar_value c"
  by (auto simp: utf8_char_def scalar_value_def)

lemma utf8_encode_scalar: "utf8_encode s \<noteq> None \<longleftrightarrow> list_all scalar_value s"
proof (induction s)
  case Nil
  then show ?case by simp
next
  case (Cons c cs)
  then show ?case using utf8_char_scalar [of c] by (auto split: option.splits)
qed

lemma cont_byte_code [simp]: "m < 64 \<Longrightarrow> cont_byte (byte_of (0x80 + m))"
  by (simp add: cont_byte_def)

lemma cont_bits_code [simp]: "m < 64 \<Longrightarrow> cont_bits (byte_of (0x80 + m)) = m"
  by (simp add: cont_bits_def)

lemma split2: "c div 64 * 64 + c mod 64 = c" for c :: nat
  by simp

lemma regroup3: "q = p * 64 + s \<Longrightarrow> c = q * 64 + r \<Longrightarrow> p * 4096 + s * 64 + r = c" for c :: nat
  by simp

lemma split3: "c div 4096 * 4096 + c div 64 mod 64 * 64 + c mod 64 = c" for c :: nat
proof (rule regroup3)
  have "c div 4096 = c div 64 div 64" by (simp flip: div_mult2_eq)
  then show "c div 64 = c div 4096 * 64 + c div 64 mod 64" by (simp only: div_mult_mod_eq)
  show "c = c div 64 * 64 + c mod 64" by (simp only: div_mult_mod_eq)
qed

lemma regroup4: "q = p * 64 + s \<Longrightarrow> q * 4096 + t * 64 + r = c \<Longrightarrow>
    p * 262144 + s * 4096 + t * 64 + r = c" for c :: nat
  by simp

lemma split4:
  "c div 262144 * 262144 + c div 4096 mod 64 * 4096 + c div 64 mod 64 * 64 + c mod 64 = c" for c :: nat
proof (rule regroup4)
  have "c div 262144 = c div 4096 div 64" by (simp flip: div_mult2_eq)
  then show "c div 4096 = c div 262144 * 64 + c div 4096 mod 64" by (simp only: div_mult_mod_eq)
  show "c div 4096 * 4096 + c div 64 mod 64 * 64 + c mod 64 = c" by (rule split3)
qed

text \<open>Decoding inverts encoding, one character at a time.\<close>

lemma decode2_code:
  assumes "0x80 \<le> c" and "c < 0x800"
  shows "decode2 (byte_of (0xC0 + c div 64)) (byte_of (0x80 + c mod 64)) = Some c"
proof -
  have "2 \<le> c div 64" "c div 64 < 32" using assms by auto
  then show ?thesis using split2 [of c] by (simp add: decode2_def)
qed

lemma decode2_none: "0xE0 \<le> unat b \<Longrightarrow> decode2 b c = None"
  by (simp add: decode2_def)

lemma decode3_code:
  assumes "0x800 \<le> c" and "c < 0x10000" and "\<not> (0xD800 \<le> c \<and> c < 0xE000)"
  shows "decode3 (byte_of (0xE0 + c div 4096)) (byte_of (0x80 + c div 64 mod 64))
           (byte_of (0x80 + c mod 64)) = Some c"
proof -
  have "c div 4096 < 16" using assms by auto
  then show ?thesis using split3 [of c] assms by (simp add: decode3_def Let_def)
qed

lemma decode3_none: "0xF0 \<le> unat b \<Longrightarrow> decode3 b c d = None"
  by (simp add: decode3_def)

lemma decode4_code:
  assumes "0x10000 \<le> c" and "c < 0x110000"
  shows "decode4 (byte_of (0xF0 + c div 262144)) (byte_of (0x80 + c div 4096 mod 64))
           (byte_of (0x80 + c div 64 mod 64)) (byte_of (0x80 + c mod 64)) = Some c"
proof -
  have "c div 262144 < 5" using assms by auto
  then show ?thesis using split4 [of c] assms by (simp add: decode4_def Let_def)
qed

lemma utf8_decode_char:
  assumes "utf8_char c = Some b"
  shows "utf8_decode (b @ bs) = map_option (Cons c) (utf8_decode bs)"
proof -
  consider "c < 0x80" | "0x80 \<le> c" "c < 0x800"
    | "0x800 \<le> c" "c < 0x10000" "\<not> (0xD800 \<le> c \<and> c < 0xE000)"
    | "0x10000 \<le> c" "c < 0x110000"
    using assms by (auto simp: utf8_char_def split: if_splits)
  then show ?thesis
  proof cases
    case 1
    with assms show ?thesis by (auto simp: utf8_char_def)
  next
    case 2
    have "c div 64 < 32" using 2 by auto
    then show ?thesis using 2 assms decode2_code [of c] by (auto simp: utf8_char_def)
  next
    case 3
    have "c div 4096 < 16" using 3 by auto
    then show ?thesis using 3 assms decode3_code [of c] by (auto simp: utf8_char_def decode2_none)
  next
    case 4
    have "c div 262144 < 5" using 4 by auto
    then show ?thesis using 4 assms decode4_code [of c]
      by (auto simp: utf8_char_def decode2_none decode3_none)
  qed
qed

lemma utf8_decode_encode: "utf8_encode s = Some bs \<Longrightarrow> utf8_decode bs = Some s"
proof (induction s arbitrary: bs)
  case Nil
  then show ?case by simp
next
  case (Cons c cs)
  then show ?case by (auto simp: utf8_decode_char simp del: utf8_decode.simps split: option.splits)
qed

lemma utf8_encode_inj: "utf8_encode s = Some bs \<Longrightarrow> utf8_encode t = Some bs \<Longrightarrow> s = t"
  by (metis utf8_decode_encode option.inject)

lemma utf8_char_no_nul: "utf8_char c = Some b \<Longrightarrow> 0 < c \<Longrightarrow> byte_of 0 \<notin> set b"
  by (auto simp: utf8_char_def byte_of_eq_iff less_mult_imp_div_less split: if_splits)

lemma utf8_encode_no_nul: "utf8_encode s = Some bs \<Longrightarrow> 0 \<notin> set s \<Longrightarrow> byte_of 0 \<notin> set bs"
proof (induction s arbitrary: bs)
  case Nil
  then show ?case by simp
next
  case (Cons c cs)
  then show ?case using utf8_char_no_nul [of c] by (auto split: option.splits)
qed

lemma ascii_encode_inj: "ascii_encode s = Some bs \<Longrightarrow> ascii_encode t = Some bs \<Longrightarrow> s = t"
proof -
  have "list_all (\<lambda>c. c < 0x80) s \<Longrightarrow> map (unat \<circ> byte_of) s = s" for s
    by (induction s) auto
  moreover assume "ascii_encode s = Some bs" "ascii_encode t = Some bs"
  ultimately show ?thesis
    by (metis ascii_encode_def map_map not_Some_eq option.inject)
qed

lemma ascii_encode_no_nul:
  assumes "ascii_encode s = Some bs" and "0 \<notin> set s"
  shows "byte_of 0 \<notin> set bs"
proof -
  from assms(1) have s: "\<forall>c \<in> set s. c < 0x80" "bs = map byte_of s"
    by (auto simp: ascii_encode_def list_all_iff split: if_splits)
  then have "byte_of c \<noteq> byte_of 0" if "c \<in> set s" for c
    using that assms(2) byte_of_eq_iff [of c 0] by fastforce
  with s(2) show ?thesis by force
qed

lemma utf8_encode_ascii: "list_all (\<lambda>c. c < 0x80) s \<Longrightarrow> utf8_encode s = Some (map byte_of s)"
  by (induction s) (auto simp: utf8_char_def)

section \<open>Decimal text\<close>

text \<open>\<open>str(n)\<close> for a Python integer.\<close>

fun dec_nat :: "nat \<Rightarrow> ustr" where
  "dec_nat n = (if n < 10 then [48 + n] else dec_nat (n div 10) @ [48 + n mod 10])"

declare dec_nat.simps [simp del]

definition str_int :: "int \<Rightarrow> ustr" where
  "str_int n = (if n < 0 then 45 # dec_nat (nat (- n)) else dec_nat (nat n))"

definition dec_value :: "ustr \<Rightarrow> nat" where
  "dec_value s = foldl (\<lambda>a c. a * 10 + (c - 48)) 0 s"

lemma dec_value_dec_nat [simp]: "dec_value (dec_nat n) = n"
proof (induction n rule: dec_nat.induct)
  case (1 n)
  then show ?case by (auto simp: dec_value_def dec_nat.simps [of n])
qed

lemma dec_nat_digits: "list_all (\<lambda>c. 48 \<le> c \<and> c < 58) (dec_nat n)"
proof (induction n rule: dec_nat.induct)
  case (1 n)
  then show ?case by (auto simp: dec_nat.simps [of n])
qed

lemma dec_nat_nonempty [simp]: "dec_nat n \<noteq> []"
  by (subst dec_nat.simps) simp

lemma dec_nat_eq_iff [simp]: "dec_nat m = dec_nat n \<longleftrightarrow> m = n"
  by (metis dec_value_dec_nat)

lemma dec_nat_not_minus: "dec_nat n \<noteq> 45 # s"
  using dec_nat_digits [of n] by auto

lemma str_int_eq_iff [simp]: "str_int m = str_int n \<longleftrightarrow> m = n"
  using dec_nat_not_minus dec_nat_not_minus [symmetric] by (auto simp: str_int_def)

lemma str_int_ascii: "list_all (\<lambda>c. 44 < c \<and> c < 0x80) (str_int n)"
  using dec_nat_digits [of "nat n"] dec_nat_digits [of "nat (- n)"]
  by (auto simp: str_int_def list_all_iff)

section \<open>The NUL-separated join of a hash preimage\<close>

text \<open>\<open>_SEPARATOR.join(parts)\<close> with \<open>_SEPARATOR = b"\x00"\<close>.\<close>

fun join_nul :: "bytes list \<Rightarrow> bytes" where
  "join_nul [] = []"
| "join_nul [x] = x"
| "join_nul (x # y # zs) = x @ byte_of 0 # join_nul (y # zs)"

lemma split_at_sep:
  "x \<notin> set a \<Longrightarrow> x \<notin> set c \<Longrightarrow> a @ x # b = c @ x # d \<longleftrightarrow> a = c \<and> b = d"
proof (induction a arbitrary: c)
  case Nil
  then show ?case by (cases c) auto
next
  case (Cons y ys)
  then show ?case by (cases c) auto
qed

lemma join_nul_inj:
  assumes "\<forall>x \<in> set xs. byte_of 0 \<notin> set x" and "\<forall>y \<in> set ys. byte_of 0 \<notin> set y"
    and "xs \<noteq> []" and "ys \<noteq> []" and "join_nul xs = join_nul ys"
  shows "xs = ys"
  using assms
proof (induction xs arbitrary: ys rule: join_nul.induct)
  case 1
  then show ?case by simp
next
  case (2 x)
  then show ?case by (cases ys rule: join_nul.cases) auto
next
  case (3 x y zs)
  show ?case
  proof (cases ys rule: join_nul.cases)
    case (3 x' y' zs')
    with "3.prems" have "x = x'" "join_nul (y # zs) = join_nul (y' # zs')"
      by (auto simp: split_at_sep)
    moreover have "y # zs = y' # zs'"
      by (rule "3.IH") (use "3.prems" 3 calculation in auto)
    ultimately show ?thesis using 3 by simp
  qed (use "3.prems" in auto)
qed

section \<open>Text guards\<close>

text \<open>The characters \<open>str.strip()\<close> removes: those with \<open>str.isspace()\<close>.\<close>

definition is_space :: "nat \<Rightarrow> bool" where
  "is_space c \<longleftrightarrow> 9 \<le> c \<and> c \<le> 13 \<or> 28 \<le> c \<and> c \<le> 32 \<or> c = 0x85 \<or> c = 0xA0 \<or> c = 0x1680
     \<or> 0x2000 \<le> c \<and> c \<le> 0x200A \<or> c = 0x2028 \<or> c = 0x2029 \<or> c = 0x202F \<or> c = 0x205F \<or> c = 0x3000"

definition strip :: "ustr \<Rightarrow> ustr" where
  "strip s = rev (dropWhile is_space (rev (dropWhile is_space s)))"

definition is_control :: "nat \<Rightarrow> bool" where
  "is_control c \<longleftrightarrow> c < 0x20 \<or> c = 0x7F"

text \<open>The condition all the \<open>stable_text\<close> guards of the source share: non-empty, trimmed, free of
  control characters and encodable.\<close>

definition stable_text :: "ustr \<Rightarrow> bool" where
  "stable_text s \<longleftrightarrow> s \<noteq> [] \<and> strip s = s \<and> \<not> list_ex is_control s \<and> list_all scalar_value s"

text \<open>Character classes of the regular expressions. Every pattern is used with \<open>fullmatch\<close>, so a
  pattern \<open>[class]{n}\<close> is a length and a test of each character.\<close>

definition lower_hex :: "nat \<Rightarrow> bool" where
  "lower_hex c \<longleftrightarrow> 48 \<le> c \<and> c \<le> 57 \<or> 97 \<le> c \<and> c \<le> 102"

definition token_char :: "nat \<Rightarrow> bool" where
  "token_char c \<longleftrightarrow> 65 \<le> c \<and> c \<le> 90 \<or> 97 \<le> c \<and> c \<le> 122 \<or> 48 \<le> c \<and> c \<le> 57 \<or> c = 95 \<or> c = 45"

definition lower_sha256 :: "ustr \<Rightarrow> bool" where
  "lower_sha256 s \<longleftrightarrow> length s = 64 \<and> list_all lower_hex s"

definition safe_token :: "ustr \<Rightarrow> bool" where
  "safe_token s \<longleftrightarrow> 1 \<le> length s \<and> length s \<le> 128 \<and> list_all token_char s"

lemma strip_graphic:
  assumes "list_all (\<lambda>c. \<not> is_space c) s"
  shows "strip s = s"
proof -
  have "dropWhile is_space t = t" if "list_all (\<lambda>c. \<not> is_space c) t" for t
    using that by (cases t) auto
  with assms show ?thesis by (simp add: strip_def list_all_rev)
qed

text \<open>A non-empty string of printable, non-space characters passes the shared text guard.\<close>

lemma stable_text_graphic:
  assumes "s \<noteq> []" and "list_all (\<lambda>c. 32 < c \<and> c < 0x7F) s"
  shows "stable_text s"
proof -
  have "list_all (\<lambda>c. \<not> is_space c) s" "\<not> list_ex is_control s" "list_all scalar_value s"
    using assms(2) by (auto simp: list_all_iff list_ex_iff is_space_def is_control_def scalar_value_def)
  with assms(1) show ?thesis by (simp add: stable_text_def strip_graphic)
qed

lemma stable_text_encodes: "stable_text s \<Longrightarrow> \<exists>bs. utf8_encode s = Some bs \<and> byte_of 0 \<notin> set bs"
proof -
  assume s: "stable_text s"
  then obtain bs where bs: "utf8_encode s = Some bs"
    using utf8_encode_scalar [of s] by (auto simp: stable_text_def)
  have "0 \<notin> set s" using s by (auto simp: stable_text_def list_ex_iff is_control_def)
  with bs show ?thesis using utf8_encode_no_nul by blast
qed

lemma lower_sha256_stable: "lower_sha256 s \<Longrightarrow> stable_text s"
  by (rule stable_text_graphic) (auto simp: lower_sha256_def lower_hex_def list_all_iff)

lemma lower_sha256_ascii: "lower_sha256 s \<Longrightarrow> list_all (\<lambda>c. 44 < c \<and> c < 0x80) s"
  by (auto simp: lower_sha256_def lower_hex_def list_all_iff)

lemma token_char_ascii: "list_all token_char s \<Longrightarrow> list_all (\<lambda>c. 44 < c \<and> c < 0x7F) s"
  by (auto simp: token_char_def list_all_iff)

section \<open>Guards shared by the contracts\<close>

text \<open>Text spliced into an error message.\<close>

definition show_ustr :: "ustr \<Rightarrow> string" where
  "show_ustr s = map char_of s"

definition show_int :: "int \<Rightarrow> string" where
  "show_int n = show_ustr (str_int n)"

definition MAX_SAFE_INTEGER :: int where
  "MAX_SAFE_INTEGER = 9007199254740991"

definition enc_utf8 :: "ustr \<Rightarrow> bytes result" where
  "enc_utf8 s = (case utf8_encode s of None \<Rightarrow> Inl UnicodeError | Some bs \<Rightarrow> Inr bs)"

definition enc_ascii :: "ustr \<Rightarrow> bytes result" where
  "enc_ascii s = (case ascii_encode s of None \<Rightarrow> Inl UnicodeError | Some bs \<Rightarrow> Inr bs)"

lemma enc_utf8_eq_Inr [simp]: "enc_utf8 s = Inr bs \<longleftrightarrow> utf8_encode s = Some bs"
  by (auto simp: enc_utf8_def split: option.splits)

lemma enc_ascii_eq_Inr [simp]: "enc_ascii s = Inr bs \<longleftrightarrow> ascii_encode s = Some bs"
  by (auto simp: enc_ascii_def split: option.splits)

lemma stable_text_utf8: "stable_text s \<longleftrightarrow> s \<noteq> [] \<and> strip s = s \<and> \<not> list_ex is_control s \<and> utf8_encode s \<noteq> None"
  using utf8_encode_scalar [of s] by (auto simp: stable_text_def)

lemma str_int_encodes:
  "\<exists>bs. ascii_encode (str_int n) = Some bs \<and> byte_of 0 \<notin> set bs"
proof -
  have "ascii_encode (str_int n) = Some (map byte_of (str_int n))"
    using str_int_ascii [of n] by (auto simp: ascii_encode_def list_all_iff)
  moreover have "0 \<notin> set (str_int n)" using str_int_ascii [of n] by (auto simp: list_all_iff)
  ultimately show ?thesis using ascii_encode_no_nul by blast
qed

lemma lower_sha256_encodes: "lower_sha256 s \<Longrightarrow> \<exists>bs. ascii_encode s = Some bs \<and> byte_of 0 \<notin> set bs"
proof -
  assume s: "lower_sha256 s"
  then have "ascii_encode s = Some (map byte_of s)" "0 \<notin> set s"
    using lower_sha256_ascii [OF s] by (auto simp: ascii_encode_def list_all_iff)
  then show ?thesis using ascii_encode_no_nul by blast
qed

lemma literal_no_nul:
  assumes "list_all (\<lambda>c. 0 < (of_char c :: nat) \<and> (of_char c :: nat) < 128) s"
  shows "byte_of 0 \<notin> set (map byte_of (u s))"
proof
  assume "byte_of 0 \<in> set (map byte_of (u s))"
  then obtain c where c: "c \<in> set s" "byte_of 0 = byte_of (of_char c)" by (auto simp: u_def)
  with assms have b: "0 < (of_char c :: nat)" "(of_char c :: nat) < 256" by (auto simp: list_all_iff)
  then have "byte_of 0 \<noteq> byte_of (of_char c)" by (simp add: byte_of_eq_iff)
  with c(2) show False by contradiction
qed

end
