(* ===== verification/TaskStates.thy ===== *)
theory TaskStates
  imports PyText
begin

text \<open>
  The task-state transition contract (\<open>protocol/state_machine.py\<close>).

  The protobuf enum numbers of \<open>TaskState\<close> belong to the pinned A2A SDK, which is not part of the
  repository: the model takes the numbering \<open>num\<close> as an argument, and what the code relies on is
  only that distinct enum members have distinct numbers (\<open>inj num\<close>).
\<close>

datatype task_state =
    TASK_STATE_SUBMITTED
  | TASK_STATE_WORKING
  | TASK_STATE_COMPLETED
  | TASK_STATE_FAILED
  | TASK_STATE_CANCELED
  | TASK_STATE_INPUT_REQUIRED
  | TASK_STATE_REJECTED
  | TASK_STATE_AUTH_REQUIRED

definition TERMINAL_TASK_STATES :: "task_state list" where
  "TERMINAL_TASK_STATES =
     [TASK_STATE_COMPLETED, TASK_STATE_FAILED, TASK_STATE_CANCELED, TASK_STATE_REJECTED]"

definition KNOWN_TASK_STATES :: "task_state list" where
  "KNOWN_TASK_STATES =
     [TASK_STATE_SUBMITTED, TASK_STATE_WORKING, TASK_STATE_COMPLETED, TASK_STATE_FAILED,
      TASK_STATE_CANCELED, TASK_STATE_INPUT_REQUIRED, TASK_STATE_REJECTED, TASK_STATE_AUTH_REQUIRED]"

definition TASK_STATE_TRANSITIONS :: "(task_state \<times> task_state list) list" where
  "TASK_STATE_TRANSITIONS =
     [(TASK_STATE_SUBMITTED,
        [TASK_STATE_WORKING, TASK_STATE_CANCELED, TASK_STATE_FAILED, TASK_STATE_REJECTED]),
      (TASK_STATE_WORKING,
        [TASK_STATE_INPUT_REQUIRED, TASK_STATE_AUTH_REQUIRED, TASK_STATE_COMPLETED,
         TASK_STATE_FAILED, TASK_STATE_CANCELED, TASK_STATE_REJECTED]),
      (TASK_STATE_INPUT_REQUIRED,
        [TASK_STATE_WORKING, TASK_STATE_COMPLETED, TASK_STATE_FAILED, TASK_STATE_CANCELED,
         TASK_STATE_REJECTED]),
      (TASK_STATE_AUTH_REQUIRED,
        [TASK_STATE_WORKING, TASK_STATE_COMPLETED, TASK_STATE_FAILED, TASK_STATE_CANCELED,
         TASK_STATE_REJECTED]),
      (TASK_STATE_COMPLETED, []), (TASK_STATE_FAILED, []), (TASK_STATE_CANCELED, []),
      (TASK_STATE_REJECTED, [])]"

text \<open>The dict of the source is keyed by enum numbers.\<close>

definition transitions_dict :: "(task_state \<Rightarrow> int) \<Rightarrow> (int \<times> int list) list" where
  "transitions_dict num = map (\<lambda>(s, ts). (num s, map num ts)) TASK_STATE_TRANSITIONS"

definition is_terminal_task_state :: "(task_state \<Rightarrow> int) \<Rightarrow> int \<Rightarrow> bool" where
  "is_terminal_task_state num state \<longleftrightarrow> state \<in> set (map num TERMINAL_TASK_STATES)"

definition validate_known_state :: "(task_state \<Rightarrow> int) \<Rightarrow> int \<Rightarrow> string \<Rightarrow> check list" where
  "validate_known_state num state label =
     [Check (state \<in> set (map num KNOWN_TASK_STATES))
        (InvalidParamsError [label, '' TaskState is invalid or unspecified''])]"

definition legal_task_state_transitions :: "(task_state \<Rightarrow> int) \<Rightarrow> int \<Rightarrow> int list result" where
  "legal_task_state_transitions num state =
     checked (validate_known_state num state ''current'')
       (case map_of (transitions_dict num) state of None \<Rightarrow> Inl KeyError | Some ts \<Rightarrow> Inr ts)"

definition validate_task_state_transition :: "(task_state \<Rightarrow> int) \<Rightarrow> int \<Rightarrow> int \<Rightarrow> unit result" where
  "validate_task_state_transition num current target =
     checked (validate_known_state num current ''current'' @ validate_known_state num target ''target'')
       (case map_of (transitions_dict num) current of None \<Rightarrow> Inl KeyError
        | Some ts \<Rightarrow> checked
            [Check (target \<in> set ts)
               (InvalidParamsError [''TaskState transition '', show_int current, '' -> '',
                  show_int target, '' is not permitted''])] (Inr ()))"

section \<open>Facts on the table\<close>

definition may_step :: "task_state \<Rightarrow> task_state \<Rightarrow> bool" where
  "may_step s t \<longleftrightarrow> (case map_of TASK_STATE_TRANSITIONS s of None \<Rightarrow> False | Some ts \<Rightarrow> t \<in> set ts)"

lemma known_states_all [simp]: "s \<in> set KNOWN_TASK_STATES"
  by (cases s) (simp_all add: KNOWN_TASK_STATES_def)


lemma table_total: "\<exists>ts. map_of TASK_STATE_TRANSITIONS s = Some ts"
  by (cases s) (simp_all add: TASK_STATE_TRANSITIONS_def)

lemma map_of_inj_keys:
  "inj f \<Longrightarrow> map_of (map (\<lambda>(s, ts). (f s, g ts)) kvs) (f k) = map_option g (map_of kvs k)"
  by (induction kvs) (auto dest: injD)

lemma transitions_dict_num:
  "inj num \<Longrightarrow> map_of (transitions_dict num) (num s) = map_option (map num) (map_of TASK_STATE_TRANSITIONS s)"
  by (simp add: transitions_dict_def map_of_inj_keys)

lemma validate_transition_num:
  assumes "inj num"
  shows "validate_task_state_transition num (num s) (num t) = Inr () \<longleftrightarrow> may_step s t"
  using table_total [of s] assms
  by (auto simp: validate_task_state_transition_def validate_known_state_def transitions_dict_num
      may_step_def inj_image_mem_iff)

lemma validate_transition_known:
  "validate_task_state_transition num c d = Inr () \<Longrightarrow> \<exists>s t. c = num s \<and> d = num t"
  by (auto simp: validate_task_state_transition_def validate_known_state_def)

lemma terminal_no_step: "s \<in> set TERMINAL_TASK_STATES \<Longrightarrow> \<not> may_step s t"
  by (auto simp: TERMINAL_TASK_STATES_def may_step_def TASK_STATE_TRANSITIONS_def)

lemma nonterminal_escapes:
  assumes "t \<in> {TASK_STATE_FAILED, TASK_STATE_CANCELED, TASK_STATE_REJECTED}"
    and "s \<notin> set TERMINAL_TASK_STATES"
  shows "may_step s t"
  using assms by (cases s) (auto simp: TERMINAL_TASK_STATES_def may_step_def TASK_STATE_TRANSITIONS_def)

section \<open>Lifecycles\<close>

text \<open>A lifecycle is the sequence of states a task goes through when every change passes
  \<open>validate_task_state_transition\<close>.\<close>

inductive lifecycle :: "(task_state \<Rightarrow> int) \<Rightarrow> int \<Rightarrow> int list \<Rightarrow> int \<Rightarrow> bool" for num where
  stop: "lifecycle num s [] s"
| move: "validate_task_state_transition num s t = Inr () \<Longrightarrow> lifecycle num t ts v
    \<Longrightarrow> lifecycle num s (t # ts) v"

inductive_cases lifecycle_NilE: "lifecycle num s [] v"
inductive_cases lifecycle_ConsE: "lifecycle num s (t # ts) v"

lemma lifecycle_append:
  "lifecycle num s ts v \<Longrightarrow> lifecycle num v ts' w \<Longrightarrow> lifecycle num s (ts @ ts') w"
  by (induction rule: lifecycle.induct) (auto intro: lifecycle.intros)

lemma lifecycle_split:
  "lifecycle num s (ts @ ts') w \<Longrightarrow> \<exists>v. lifecycle num s ts v \<and> lifecycle num v ts' w"
  by (induction ts arbitrary: s) (auto intro: lifecycle.intros elim!: lifecycle_ConsE)

lemma lifecycle_last: "lifecycle num s ts v \<Longrightarrow> v = last (s # ts)"
  by (induction rule: lifecycle.induct) auto

lemma lifecycle_from_terminal:
  assumes "inj num" and "is_terminal_task_state num s" and "lifecycle num s ts v"
  shows "ts = []"
  using assms(3)
proof cases
  case (move t ts')
  from assms(2) obtain st where st: "s = num st" "st \<in> set TERMINAL_TASK_STATES"
    by (auto simp: is_terminal_task_state_def)
  from move obtain tt where "t = num tt" using validate_transition_known by blast
  with move st have "may_step st tt" using validate_transition_num [OF assms(1)] by blast
  with st terminal_no_step show ?thesis by blast
qed simp

section \<open>Properties\<close>


definition example_num :: "task_state \<Rightarrow> int" where
  "example_num s = (case s of TASK_STATE_SUBMITTED \<Rightarrow> 1 | TASK_STATE_WORKING \<Rightarrow> 2
     | TASK_STATE_COMPLETED \<Rightarrow> 3 | TASK_STATE_FAILED \<Rightarrow> 4 | TASK_STATE_CANCELED \<Rightarrow> 5
     | TASK_STATE_INPUT_REQUIRED \<Rightarrow> 6 | TASK_STATE_REJECTED \<Rightarrow> 7 | TASK_STATE_AUTH_REQUIRED \<Rightarrow> 8)"

lemma inj_example_num: "inj example_num"
  by (auto simp: inj_def example_num_def split: task_state.splits)


text \<open>
  Terminal states are absorbing and are the only absorbing ones: no lifecycle leaves a terminal
  state, and from every non-terminal state a legal transition leads to a terminal state in one step
  (so no task is stuck outside the terminal states).
\<close>
theorem terminal_states_absorbing:
  assumes "inj num"
  shows "(is_terminal_task_state num (num s) \<longrightarrow> (\<forall>ts v. lifecycle num (num s) ts v \<longrightarrow> ts = [])) \<and>
         (\<not> is_terminal_task_state num (num s) \<longrightarrow>
            (\<forall>t \<in> {TASK_STATE_FAILED, TASK_STATE_CANCELED, TASK_STATE_REJECTED}.
               lifecycle num (num s) [num t] (num t) \<and> is_terminal_task_state num (num t)))"
proof (intro conjI impI allI)
  fix ts v
  assume "is_terminal_task_state num (num s)" "lifecycle num (num s) ts v"
  with assms show "ts = []" by (rule lifecycle_from_terminal)
next
  assume "\<not> is_terminal_task_state num (num s)"
  then have s: "s \<notin> set TERMINAL_TASK_STATES" by (auto simp: is_terminal_task_state_def)
  show "\<forall>t \<in> {TASK_STATE_FAILED, TASK_STATE_CANCELED, TASK_STATE_REJECTED}.
      lifecycle num (num s) [num t] (num t) \<and> is_terminal_task_state num (num t)"
  proof
    fix t
    assume t: "t \<in> {TASK_STATE_FAILED, TASK_STATE_CANCELED, TASK_STATE_REJECTED}"
    then have "may_step s t" using s by (rule nonterminal_escapes)
    with assms have "lifecycle num (num s) [num t] (num t)"
      by (auto intro: lifecycle.intros simp: validate_transition_num)
    moreover have "is_terminal_task_state num (num t)"
      using t by (auto simp: is_terminal_task_state_def TERMINAL_TASK_STATES_def)
    ultimately show "lifecycle num (num s) [num t] (num t) \<and> is_terminal_task_state num (num t)" ..
  qed
qed

theorem terminal_states_absorbing_witness:
  "lifecycle example_num 1 [5] 5 \<and> \<not> lifecycle example_num 5 [2, 3] 3"
proof -
  have n: "1 = example_num TASK_STATE_SUBMITTED" "5 = example_num TASK_STATE_CANCELED"
    by (simp_all add: example_num_def)
  have "\<not> is_terminal_task_state example_num (example_num TASK_STATE_SUBMITTED)"
    "is_terminal_task_state example_num (example_num TASK_STATE_CANCELED)"
    by (simp_all add: is_terminal_task_state_def TERMINAL_TASK_STATES_def example_num_def)
  then show ?thesis
    using terminal_states_absorbing [OF inj_example_num, of TASK_STATE_SUBMITTED]
      terminal_states_absorbing [OF inj_example_num, of TASK_STATE_CANCELED]
    unfolding n by blast
qed

text \<open>
  A task that was submitted and ends completed has been in \<open>WORKING\<close> on the way: no lifecycle
  goes from \<open>SUBMITTED\<close> to \<open>COMPLETED\<close> without it.
\<close>
theorem completed_only_after_working:
  assumes "inj num" and "lifecycle num (num TASK_STATE_SUBMITTED) ts (num TASK_STATE_COMPLETED)"
  shows "num TASK_STATE_WORKING \<in> set ts"
  using assms(2)
proof cases
  case stop
  with assms(1) show ?thesis by (auto dest: injD)
next
  case (move t ts')
  then obtain tt where t: "t = num tt" "may_step TASK_STATE_SUBMITTED tt"
    using validate_transition_known validate_transition_num [OF assms(1)] by blast
  show ?thesis
  proof (cases "tt = TASK_STATE_WORKING")
    case False
    then have "tt \<in> set TERMINAL_TASK_STATES"
      using t(2) by (auto simp: TERMINAL_TASK_STATES_def may_step_def TASK_STATE_TRANSITIONS_def)
    then have "ts' = []"
      using move t lifecycle_from_terminal [OF assms(1)] by (auto simp: is_terminal_task_state_def)
    with move t have "tt = TASK_STATE_COMPLETED"
      using assms(1) by (auto elim: lifecycle_NilE dest: injD)
    with t(2) show ?thesis by (simp add: may_step_def TASK_STATE_TRANSITIONS_def)
  qed (use move t in simp)
qed

theorem completed_only_after_working_witness:
  "lifecycle example_num (example_num TASK_STATE_SUBMITTED) [2, 3] (example_num TASK_STATE_COMPLETED)
   \<and> example_num TASK_STATE_WORKING \<in> set [2, 3]"
proof -
  have n: "2 = example_num TASK_STATE_WORKING" "3 = example_num TASK_STATE_COMPLETED"
    by (simp_all add: example_num_def)
  have "may_step TASK_STATE_SUBMITTED TASK_STATE_WORKING" "may_step TASK_STATE_WORKING TASK_STATE_COMPLETED"
    by (simp_all add: may_step_def TASK_STATE_TRANSITIONS_def)
  then have "lifecycle example_num (example_num TASK_STATE_SUBMITTED) [2, 3] (example_num TASK_STATE_COMPLETED)"
    unfolding n using validate_transition_num [OF inj_example_num] by (auto intro: lifecycle.intros)
  with completed_only_after_working [OF inj_example_num] show ?thesis by blast
qed

end
