(* ===== verification/Base64url.thy ===== *)
theory Base64url
  imports PyText
begin

text \<open>
  \<open>base64.urlsafe_b64encode\<close> and \<open>urlsafe_b64decode\<close> of the Python library, with the padding
  handled the way the source handles it (\<open>rstrip(b"=")\<close> after encoding, \<open>"="\<close> appended before
  decoding), and the canonical 32-byte tokens built on them. The lemmas show that decoding inverts
  encoding and that the token guard accepts exactly the encodings of 32 bytes.
\<close>

section \<open>The alphabet\<close>

definition b64_char :: "nat \<Rightarrow> nat" where
  "b64_char n = (if n < 26 then 65 + n else if n < 52 then 71 + n else if n < 62 then n - 4
     else if n = 62 then 45 else 95)"

definition b64_val :: "nat \<Rightarrow> nat option" where
  "b64_val c = (if 65 \<le> c \<and> c \<le> 90 then Some (c - 65) else if 97 \<le> c \<and> c \<le> 122 then Some (c - 71)
     else if 48 \<le> c \<and> c \<le> 57 then Some (c + 4) else if c = 45 then Some 62
     else if c = 95 then Some 63 else None)"

lemma b64_val_char [simp]: "n < 64 \<Longrightarrow> b64_val (b64_char n) = Some n"
  by (auto simp: b64_val_def b64_char_def)

lemma b64_char_token [simp]: "n < 64 \<Longrightarrow> token_char (b64_char n)"
  by (auto simp: b64_char_def token_char_def)

lemma token_char_not_pad: "token_char c \<Longrightarrow> c \<noteq> 61"
  by (auto simp: token_char_def)

section \<open>Encoding and decoding\<close>

fun b64_encode :: "bytes \<Rightarrow> ustr" where
  "b64_encode [] = []"
| "b64_encode [x] = (let n = unat x * 16 in [b64_char (n div 64), b64_char (n mod 64), 61, 61])"
| "b64_encode [x, y] = (let n = (unat x * 256 + unat y) * 4 in
     [b64_char (n div 4096), b64_char (n div 64 mod 64), b64_char (n mod 64), 61])"
| "b64_encode (x # y # z # bs) = (let n = unat x * 65536 + unat y * 256 + unat z in
     b64_char (n div 262144) # b64_char (n div 4096 mod 64) # b64_char (n div 64 mod 64)
       # b64_char (n mod 64) # b64_encode bs)"

definition quad4 :: "nat \<Rightarrow> nat \<Rightarrow> nat \<Rightarrow> nat \<Rightarrow> bytes" where
  "quad4 a b c d = (let n = a * 262144 + b * 4096 + c * 64 + d in
     [byte_of (n div 65536), byte_of (n div 256 mod 256), byte_of (n mod 256)])"

definition quad3 :: "nat \<Rightarrow> nat \<Rightarrow> nat \<Rightarrow> bytes" where
  "quad3 a b c = (let n = a * 4096 + b * 64 + c in [byte_of (n div 1024), byte_of (n div 4 mod 256)])"

definition quad2 :: "nat \<Rightarrow> nat \<Rightarrow> bytes" where
  "quad2 a b = (let n = a * 64 + b in [byte_of (n div 16)])"

text \<open>Input over the alphabet, padded to a multiple of four; anything else is \<open>binascii.Error\<close>.\<close>

fun b64_decode :: "ustr \<Rightarrow> bytes option" where
  "b64_decode [] = Some []"
| "b64_decode (a # b # c # d # s) =
     (case (b64_val a, b64_val b) of
        (Some va, Some vb) \<Rightarrow>
          (case (b64_val c, b64_val d) of
             (Some vc, Some vd) \<Rightarrow> map_option (append (quad4 va vb vc vd)) (b64_decode s)
           | (Some vc, None) \<Rightarrow> if d = 61 \<and> s = [] then Some (quad3 va vb vc) else None
           | _ \<Rightarrow> if c = 61 \<and> d = 61 \<and> s = [] then Some (quad2 va vb) else None)
      | _ \<Rightarrow> None)"
| "b64_decode s = None"

definition b64url_nopad :: "bytes \<Rightarrow> ustr" where
  "b64url_nopad bs = rev (dropWhile (\<lambda>c. c = 61) (rev (b64_encode bs)))"

lemma sextets4:
  assumes "n < (16777216 :: nat)"
  shows "n div 262144 < 64" and "n div 4096 mod 64 < 64" and "n div 64 mod 64 < 64" and "n mod 64 < 64"
  using assms by auto

lemma quad4_bytes:
  "quad4 (n div 262144) (n div 4096 mod 64) (n div 64 mod 64) (n mod 64)
     = [byte_of (n div 65536), byte_of (n div 256 mod 256), byte_of (n mod 256)]"
  by (simp only: quad4_def split4 Let_def)

lemma b64_val_pad [simp]: "b64_val 61 = None"
  by (simp add: b64_val_def)

lemma unat_byte_lt: "unat (b :: byte) < 256"
  using unsigned_less [of b] by simp

lemma pair_bound: "x < 256 \<Longrightarrow> y < 256 \<Longrightarrow> (x * 256 + y) * 4 < 262144" for x y :: nat
  by simp

lemma b64_decode_encode: "b64_decode (b64_encode bs) = Some bs"
proof (induction bs rule: b64_encode.induct)
  case 1
  then show ?case by simp
next
  case (2 x)
  define n where "n = unat x * 16"
  have "unat x < 256" by (rule unat_byte_lt)
  then have "n < 4096" by (simp add: n_def)
  then have "n div 64 < 64" by linarith
  moreover have "quad2 (n div 64) (n mod 64) = [byte_of (n div 16)]"
    by (simp only: quad2_def split2 Let_def)
  ultimately show ?case by (simp add: n_def [symmetric] Let_def) (simp add: n_def)
next
  case (3 x y)
  define n where "n = (unat x * 256 + unat y) * 4"
  have xy: "unat x < 256" "unat y < 256" by (rule unat_byte_lt)+
  then have n: "n < 262144" unfolding n_def by (rule pair_bound)
  have "quad3 (n div 4096) (n div 64 mod 64) (n mod 64) = [byte_of (n div 1024), byte_of (n div 4 mod 256)]"
    by (simp only: quad3_def split3 Let_def)
  also have "\<dots> = [x, y]"
  proof -
    have "n div 4 = unat x * 256 + unat y" by (simp add: n_def)
    moreover have "n div 1024 = n div 4 div 256" by (simp flip: div_mult2_eq)
    ultimately show ?thesis using xy by simp
  qed
  finally have q: "quad3 (n div 4096) (n div 64 mod 64) (n mod 64) = [x, y]" .
  have "n div 4096 < 64" using n by linarith
  then show ?case using q
    by (simp only: b64_encode.simps Let_def n_def [symmetric]) simp
next
  case (4 x y z bs)
  define n where "n = unat x * 65536 + unat y * 256 + unat z"
  have xyz: "unat x < 256" "unat y < 256" "unat z < 256" by (rule unat_byte_lt)+
  then have n: "n < 16777216" by (simp add: n_def)
  have n2: "n = unat z + (unat x * 256 + unat y) * 256" by (simp add: n_def)
  have b: "n mod 256 = unat z" "n div 256 = unat x * 256 + unat y"
    unfolding n2 using xyz by (simp_all only: mod_mult_self1 div_mult_self1 mod_less div_less)
  have "n div 65536 = n div 256 div 256" by (simp flip: div_mult2_eq)
  then have "n div 65536 = unat x" "n div 256 mod 256 = unat y" using b xyz by auto
  then have "quad4 (n div 262144) (n div 4096 mod 64) (n div 64 mod 64) (n mod 64) = [x, y, z]"
    using b by (simp add: quad4_bytes)
  then show ?case using 4 sextets4 [OF n] by (simp add: n_def [symmetric] Let_def)
qed

section \<open>Canonical 32-byte tokens\<close>

text \<open>The condition of \<open>_require_candidate_token\<close> after its text guard: 43 characters of the
  alphabet whose decoding (with one \<open>"="\<close> appended) has 32 bytes and re-encodes to the value.\<close>

definition canonical_token :: "ustr \<Rightarrow> bool" where
  "canonical_token s \<longleftrightarrow> length s = 43 \<and> list_all token_char s \<and>
     (case b64_decode (s @ [61]) of None \<Rightarrow> False
      | Some bs \<Rightarrow> length bs = 32 \<and> b64url_nopad bs = s)"

lemma b64_encode_tokens:
  "\<exists>s k. b64_encode bs = s @ replicate k 61 \<and> list_all token_char s \<and> length (s @ replicate k 61) = 4 * ((length bs + 2) div 3)
     \<and> k = (3 - length bs mod 3) mod 3"
proof (induction bs rule: b64_encode.induct)
  case 1
  then show ?case by simp
next
  case (2 x)
  have "unat x < 256" by (rule unat_byte_lt)
  then have "unat x * 16 div 64 < 64" by linarith
  then show ?case
    by (intro exI [of _ "[b64_char (unat x * 16 div 64), b64_char (unat x * 16 mod 64)]"] exI [of _ 2])
      (simp add: numeral_2_eq_2 Let_def)
next
  case (3 x y)
  define n where "n = (unat x * 256 + unat y) * 4"
  have "unat x < 256" "unat y < 256" by (rule unat_byte_lt)+
  then have "n < 262144" unfolding n_def by (rule pair_bound)
  then have "n div 4096 < 64" by linarith
  then show ?case
    by (intro exI [of _ "[b64_char (n div 4096), b64_char (n div 64 mod 64), b64_char (n mod 64)]"]
        exI [of _ 1]) (simp only: b64_encode.simps Let_def n_def [symmetric], simp)
next
  case (4 x y z bs)
  define n where "n = unat x * 65536 + unat y * 256 + unat z"
  have "unat x < 256" "unat y < 256" "unat z < 256" by (rule unat_byte_lt)+
  then have n: "n < 16777216" by (simp add: n_def)
  from 4 obtain s k where sk: "b64_encode bs = s @ replicate k 61" "list_all token_char s"
    "length s + k = 4 * ((length bs + 2) div 3)" "k = (3 - length bs mod 3) mod 3" by auto
  have "(Suc (Suc (Suc (length bs))) + 2) div 3 = (length bs + 2) div 3 + 1" by linarith
  moreover have "Suc (Suc (Suc (length bs))) mod 3 = length bs mod 3" by presburger
  ultimately show ?case using sk sextets4 [OF n]
    by (intro exI [of _ "b64_char (n div 262144) # b64_char (n div 4096 mod 64)
          # b64_char (n div 64 mod 64) # b64_char (n mod 64) # s"] exI [of _ k])
      (simp add: n_def [symmetric] Let_def)
qed

lemma strip_pad:
  assumes "list_all token_char s"
  shows "rev (dropWhile (\<lambda>c. c = 61) (rev (s @ replicate k 61))) = s"
proof -
  have "dropWhile (\<lambda>c. c = 61) (replicate k 61 @ t) = t"
    if "t = [] \<or> hd t \<noteq> 61" for t :: ustr
    using that by (induction k) (cases t; auto)+
  moreover have "rev s = [] \<or> hd (rev s) \<noteq> 61"
    using assms token_char_not_pad by (auto simp: list_all_iff hd_rev)
  ultimately show ?thesis by simp
qed

text \<open>\<open>secrets.token_urlsafe(32)\<close> of any 32 random bytes passes the guard, and only such tokens do.\<close>

lemma canonical_token_encode:
  assumes "length bs = 32"
  shows "canonical_token (b64url_nopad bs)"
proof -
  obtain s k where sk: "b64_encode bs = s @ replicate k 61" "list_all token_char s"
    "length (s @ replicate k 61) = 4 * ((length bs + 2) div 3)" "k = (3 - length bs mod 3) mod 3"
    using b64_encode_tokens [of bs] by auto
  then have k: "k = 1" "length s = 43" using assms by auto
  have nopad: "b64url_nopad bs = s"
    using sk(1,2) by (simp add: b64url_nopad_def strip_pad del: rev_append)
  moreover have "b64_decode (s @ [61]) = Some bs"
    using b64_decode_encode [of bs] sk(1) k by simp
  ultimately show ?thesis using sk(2) k assms by (simp add: canonical_token_def)
qed

lemma canonical_token_iff: "canonical_token s \<longleftrightarrow> (\<exists>bs. length bs = 32 \<and> s = b64url_nopad bs)"
proof
  assume "canonical_token s"
  then show "\<exists>bs. length bs = 32 \<and> s = b64url_nopad bs"
    by (auto simp: canonical_token_def split: option.splits)
qed (auto intro: canonical_token_encode)

lemma canonical_token_stable: "canonical_token s \<Longrightarrow> stable_text s"
  using token_char_ascii [of s]
  by (intro stable_text_graphic) (auto simp: canonical_token_def list_all_iff)

end
