(* ===== verification/ReconIds.thy ===== *)
theory ReconIds
  imports Sha256
begin

text \<open>
  Reconciliation due and claim operation identities (\<open>state_contracts/reconciliation.py\<close>).

  An identity is the SHA-256 of a NUL-separated tuple under a domain prefix. The theory models the
  two preimages with their guards, the hashes, and the system claim identity derived from them, and
  shows that a preimage determines the tuple it was built from and that the due and claim domains
  never meet, so that two identities collide only if SHA-256 does.
\<close>

datatype ReconciliationDueKind = CLAIM_EXPIRE | DUE_ESCALATE

datatype ReconciliationClaimOperation = ACQUIRE | RENEW | RELEASE | EXPIRE | ESCALATE

record SystemClaimIdentity =
  due_operation_id :: ustr
  idempotency_key :: ustr
  claim_operation_id :: ustr

definition DUE_DOMAIN :: bytes where
  "DUE_DOMAIN = map byte_of (u ''a2amesh-recon-due-operation-v1'')"

definition CLAIM_DOMAIN :: bytes where
  "CLAIM_DOMAIN = map byte_of (u ''a2amesh-recon-claim-operation-v1'')"

definition CLAIM_PREFIX :: bytes where
  "CLAIM_PREFIX = CLAIM_DOMAIN @ [byte_of 0]"

fun due_kind_value :: "ReconciliationDueKind \<Rightarrow> ustr" where
  "due_kind_value CLAIM_EXPIRE = u ''CLAIM_EXPIRE''"
| "due_kind_value DUE_ESCALATE = u ''ESCALATE''"

fun claim_op_value :: "ReconciliationClaimOperation \<Rightarrow> ustr" where
  "claim_op_value ACQUIRE = u ''ACQUIRE''"
| "claim_op_value RENEW = u ''RENEW''"
| "claim_op_value RELEASE = u ''RELEASE''"
| "claim_op_value EXPIRE = u ''EXPIRE''"
| "claim_op_value ESCALATE = u ''ESCALATE''"

text \<open>\<open>_enum_value\<close>: the member with the given value, in declaration order.\<close>

definition enum_value :: "('e \<Rightarrow> ustr) \<Rightarrow> 'e list \<Rightarrow> ustr \<Rightarrow> string \<Rightarrow> 'e result" where
  "enum_value val members v label =
     (case find (\<lambda>m. val m = v) members of
        Some m \<Rightarrow> Inr m
      | None \<Rightarrow> Inl (ValueError [label, '' is not in the closed enum'']))"

definition due_kinds :: "ReconciliationDueKind list" where
  "due_kinds = [CLAIM_EXPIRE, DUE_ESCALATE]"

definition claim_ops :: "ReconciliationClaimOperation list" where
  "claim_ops = [ACQUIRE, RENEW, RELEASE, EXPIRE, ESCALATE]"

definition stable_text_checks :: "ustr \<Rightarrow> string \<Rightarrow> check list" where
  "stable_text_checks v label =
     [Check (v \<noteq> [] \<and> v = strip v) (ValueError [label, '' must be a non-empty trimmed string'']),
      Check (\<not> (0 \<in> set v \<or> list_ex is_control v))
        (ValueError [label, '' contains a forbidden control character'']),
      Check (utf8_encode v \<noteq> None) UnicodeError]"

definition safe_integer_checks :: "int \<Rightarrow> string \<Rightarrow> int \<Rightarrow> check list" where
  "safe_integer_checks v label minimum =
     [Check (minimum \<le> v \<and> v \<le> MAX_SAFE_INTEGER)
        (ValueError [label, '' must be between '', show_int minimum, '' and '', show_int MAX_SAFE_INTEGER])]"

definition lower_sha256_checks :: "ustr \<Rightarrow> string \<Rightarrow> check list" where
  "lower_sha256_checks v label =
     stable_text_checks v label @
     [Check (lower_sha256 v) (ValueError [label, '' must be lowercase SHA-256 hex''])]"

text \<open>The fencing token part: required for \<open>CLAIM_EXPIRE\<close>, forbidden for \<open>ESCALATE\<close>.\<close>

fun due_token_bytes :: "ReconciliationDueKind \<Rightarrow> int option \<Rightarrow> bytes result" where
  "due_token_bytes CLAIM_EXPIRE None =
     Inl (ValueError [''observed_claim_fencing_token'', '' must be an integer''])"
| "due_token_bytes CLAIM_EXPIRE (Some tok) =
     checked (safe_integer_checks tok ''observed_claim_fencing_token'' 1) (enc_ascii (str_int tok))"
| "due_token_bytes DUE_ESCALATE (Some tok) =
     Inl (ValueError [''ESCALATE requires a null observed claim fencing token''])"
| "due_token_bytes DUE_ESCALATE None = Inr (map byte_of (u ''null''))"

definition reconciliation_due_operation_preimage ::
    "ustr \<Rightarrow> ustr \<Rightarrow> int \<Rightarrow> int \<Rightarrow> int option \<Rightarrow> bytes result" where
  "reconciliation_due_operation_preimage due_kind case_id observed_revision observed_due_ms token =
     bindE (enum_value due_kind_value due_kinds due_kind ''due_kind'') (\<lambda>kind.
     checked (stable_text_checks case_id ''case_id'' @
              safe_integer_checks observed_revision ''observed_revision'' 1 @
              safe_integer_checks observed_due_ms ''observed_due_ms'' 0)
      (bindE (due_token_bytes kind token) (\<lambda>token_bytes.
       bindE (enc_utf8 (due_kind_value kind)) (\<lambda>kind_bytes.
       bindE (enc_utf8 case_id) (\<lambda>case_bytes.
       bindE (enc_ascii (str_int observed_revision)) (\<lambda>revision_bytes.
       bindE (enc_ascii (str_int observed_due_ms)) (\<lambda>due_bytes.
         Inr (join_nul [DUE_DOMAIN, kind_bytes, case_bytes, revision_bytes, due_bytes, token_bytes]))))))))"

definition reconciliation_due_operation_id ::
    "ustr \<Rightarrow> ustr \<Rightarrow> int \<Rightarrow> int \<Rightarrow> int option \<Rightarrow> ustr result" where
  "reconciliation_due_operation_id due_kind case_id observed_revision observed_due_ms token =
     bindE (reconciliation_due_operation_preimage due_kind case_id observed_revision observed_due_ms token)
       (\<lambda>preimage. Inr (sha256_hex preimage))"

definition reconciliation_claim_scope_bytes :: "ustr \<Rightarrow> ustr \<Rightarrow> ustr \<Rightarrow> ustr \<Rightarrow> bytes result" where
  "reconciliation_claim_scope_bytes case_id operation operator_principal_hash key =
     checked (stable_text_checks case_id ''case_id'')
       (bindE (enum_value claim_op_value claim_ops operation ''operation'') (\<lambda>oper.
        checked (lower_sha256_checks operator_principal_hash ''operator_principal_hash'' @
                 stable_text_checks key ''idempotency_key'')
         (bindE (enc_utf8 case_id) (\<lambda>case_bytes.
          bindE (enc_utf8 (claim_op_value oper)) (\<lambda>operation_bytes.
          bindE (enc_ascii operator_principal_hash) (\<lambda>principal_bytes.
          bindE (enc_utf8 key) (\<lambda>key_bytes.
            Inr (join_nul [case_bytes, operation_bytes, principal_bytes, key_bytes]))))))))"

definition reconciliation_claim_operation_id :: "ustr \<Rightarrow> ustr \<Rightarrow> ustr \<Rightarrow> ustr \<Rightarrow> ustr result" where
  "reconciliation_claim_operation_id case_id operation operator_principal_hash key =
     bindE (reconciliation_claim_scope_bytes case_id operation operator_principal_hash key)
       (\<lambda>scope. Inr (sha256_hex (CLAIM_PREFIX @ scope)))"

definition system_claim_identity ::
    "ustr \<Rightarrow> ustr \<Rightarrow> int \<Rightarrow> int \<Rightarrow> int option \<Rightarrow> ustr \<Rightarrow> SystemClaimIdentity result" where
  "system_claim_identity due_kind case_id observed_revision observed_due_ms token operator_principal_hash =
     bindE (enum_value due_kind_value due_kinds due_kind ''due_kind'') (\<lambda>kind.
     let operation = (case kind of CLAIM_EXPIRE \<Rightarrow> EXPIRE | DUE_ESCALATE \<Rightarrow> ESCALATE) in
     bindE (reconciliation_due_operation_id (due_kind_value kind) case_id observed_revision
              observed_due_ms token) (\<lambda>due_id.
     bindE (reconciliation_claim_operation_id case_id (claim_op_value operation)
              operator_principal_hash due_id) (\<lambda>claim_id.
     if claim_id = due_id
     then Inl (RuntimeError [''claim and due operation domains unexpectedly collided''])
     else Inr \<lparr> due_operation_id = due_id, idempotency_key = due_id, claim_operation_id = claim_id \<rparr>)))"

section \<open>Guards\<close>

lemma all_ok_stable_text_checks [simp]: "all_ok (stable_text_checks v label) \<longleftrightarrow> stable_text v"
  by (auto simp: stable_text_checks_def stable_text_utf8 list_ex_iff is_control_def)

lemma all_ok_safe_integer_checks [simp]:
  "all_ok (safe_integer_checks v label m) \<longleftrightarrow> m \<le> v \<and> v \<le> MAX_SAFE_INTEGER"
  by (simp add: safe_integer_checks_def)

lemma all_ok_lower_sha256_checks [simp]: "all_ok (lower_sha256_checks v label) \<longleftrightarrow> lower_sha256 v"
  by (auto simp: lower_sha256_checks_def lower_sha256_stable)

lemma due_kind_enum [simp]: "enum_value due_kind_value due_kinds v l = Inr k \<longleftrightarrow> v = due_kind_value k"
  by (cases k) (auto simp: enum_value_def due_kinds_def)

lemma claim_op_enum [simp]: "enum_value claim_op_value claim_ops v l = Inr k \<longleftrightarrow> v = claim_op_value k"
  by (cases k) (auto simp: enum_value_def claim_ops_def)

lemma due_kind_value_inj [simp]: "due_kind_value k = due_kind_value k' \<longleftrightarrow> k = k'"
  by (cases k; cases k') auto

lemma claim_op_value_inj [simp]: "claim_op_value k = claim_op_value k' \<longleftrightarrow> k = k'"
  by (cases k; cases k') auto

lemma kind_encodes: "\<exists>bs. utf8_encode (due_kind_value k) = Some bs \<and> byte_of 0 \<notin> set bs"
  by (rule stable_text_encodes, rule stable_text_graphic) (cases k; simp add: u_def)+

lemma claim_op_encodes: "\<exists>bs. utf8_encode (claim_op_value k) = Some bs \<and> byte_of 0 \<notin> set bs"
  by (rule stable_text_encodes, rule stable_text_graphic) (cases k; simp add: u_def)+

lemma DUE_DOMAIN_no_nul: "byte_of 0 \<notin> set DUE_DOMAIN"
  unfolding DUE_DOMAIN_def by (rule literal_no_nul) code_simp

lemma CLAIM_DOMAIN_no_nul: "byte_of 0 \<notin> set CLAIM_DOMAIN"
  unfolding CLAIM_DOMAIN_def by (rule literal_no_nul) code_simp

lemma domains_differ: "DUE_DOMAIN \<noteq> CLAIM_DOMAIN"
proof
  assume "DUE_DOMAIN = CLAIM_DOMAIN"
  then have "length DUE_DOMAIN = length CLAIM_DOMAIN" by simp
  then show False by (simp add: DUE_DOMAIN_def CLAIM_DOMAIN_def u_def)
qed

section \<open>What a preimage determines\<close>

lemma due_token_no_nul: "due_token_bytes k t = Inr bs \<Longrightarrow> byte_of 0 \<notin> set bs"
proof (induction k t rule: due_token_bytes.induct)
  case (2 tok)
  then show ?case using str_int_encodes [of tok] by auto
next
  case 4
  then show ?case using literal_no_nul [of "''null''"] by simp
qed simp_all

lemma due_token_inj: "due_token_bytes k t = Inr bs \<Longrightarrow> due_token_bytes k t' = Inr bs \<Longrightarrow> t = t'"
  by (cases k; cases t; cases t') (auto dest: ascii_encode_inj)

text \<open>The parts of a due preimage, in the order of the join.\<close>

definition due_parts :: "ReconciliationDueKind \<Rightarrow> ustr \<Rightarrow> int \<Rightarrow> int \<Rightarrow> int option \<Rightarrow> bytes list \<Rightarrow> bool" where
  "due_parts k c r d t ps \<longleftrightarrow> (\<exists>kb cb rb db tb. ps = [DUE_DOMAIN, kb, cb, rb, db, tb] \<and>
     utf8_encode (due_kind_value k) = Some kb \<and> utf8_encode c = Some cb \<and>
     ascii_encode (str_int r) = Some rb \<and> ascii_encode (str_int d) = Some db \<and>
     due_token_bytes k t = Inr tb \<and> (\<forall>x \<in> set ps. byte_of 0 \<notin> set x))"

lemma due_preimage_parts:
  assumes "reconciliation_due_operation_preimage dk c r d t = Inr p"
  shows "\<exists>k ps. dk = due_kind_value k \<and> due_parts k c r d t ps \<and> p = join_nul ps"
proof -
  from assms obtain k kb cb rb db tb where
    x: "dk = due_kind_value k" "stable_text c" "due_token_bytes k t = Inr tb"
      "utf8_encode (due_kind_value k) = Some kb" "utf8_encode c = Some cb"
      "ascii_encode (str_int r) = Some rb" "ascii_encode (str_int d) = Some db"
      "p = join_nul [DUE_DOMAIN, kb, cb, rb, db, tb]"
    by (auto simp: reconciliation_due_operation_preimage_def)
  then have "\<forall>x \<in> set [DUE_DOMAIN, kb, cb, rb, db, tb]. byte_of 0 \<notin> set x"
    using DUE_DOMAIN_no_nul due_token_no_nul kind_encodes [of k] stable_text_encodes [of c]
      str_int_encodes [of r] str_int_encodes [of d] by auto
  with x show ?thesis unfolding due_parts_def by blast
qed

lemma due_parts_inj:
  assumes "due_parts k c r d t ps" and "due_parts k' c' r' d' t' ps"
  shows "k = k' \<and> c = c' \<and> r = r' \<and> d = d' \<and> t = t'"
proof -
  have "due_kind_value k = due_kind_value k'" "c = c'" "str_int r = str_int r'" "str_int d = str_int d'"
    using assms by (auto simp: due_parts_def dest: utf8_encode_inj ascii_encode_inj)
  then show ?thesis using assms by (auto simp: due_parts_def dest: due_token_inj)
qed

definition claim_parts :: "ustr \<Rightarrow> ReconciliationClaimOperation \<Rightarrow> ustr \<Rightarrow> ustr \<Rightarrow> bytes list \<Rightarrow> bool" where
  "claim_parts c k h i ps \<longleftrightarrow> (\<exists>cb kb hb ib. ps = [cb, kb, hb, ib] \<and> utf8_encode c = Some cb \<and>
     utf8_encode (claim_op_value k) = Some kb \<and> ascii_encode h = Some hb \<and> utf8_encode i = Some ib \<and>
     (\<forall>x \<in> set ps. byte_of 0 \<notin> set x))"

lemma claim_scope_parts:
  assumes "reconciliation_claim_scope_bytes c oper h i = Inr p"
  shows "\<exists>k ps. oper = claim_op_value k \<and> claim_parts c k h i ps \<and> p = join_nul ps"
proof -
  from assms obtain k cb kb hb ib where
    x: "oper = claim_op_value k" "stable_text c" "lower_sha256 h" "stable_text i" "utf8_encode c = Some cb"
      "utf8_encode (claim_op_value k) = Some kb" "ascii_encode h = Some hb" "utf8_encode i = Some ib"
      "p = join_nul [cb, kb, hb, ib]"
    by (auto simp: reconciliation_claim_scope_bytes_def)
  then have "\<forall>x \<in> set [cb, kb, hb, ib]. byte_of 0 \<notin> set x"
    using claim_op_encodes [of k] stable_text_encodes [of c] stable_text_encodes [of i]
      lower_sha256_encodes [of h] by auto
  with x show ?thesis unfolding claim_parts_def by blast
qed

lemma claim_parts_inj:
  "claim_parts c k h i ps \<Longrightarrow> claim_parts c' k' h' i' ps \<Longrightarrow> c = c' \<and> k = k' \<and> h = h' \<and> i = i'"
  using claim_op_value_inj by (auto simp: claim_parts_def dest: utf8_encode_inj ascii_encode_inj)

text \<open>The due tuples the guards admit.\<close>

definition due_valid :: "ReconciliationDueKind \<Rightarrow> ustr \<Rightarrow> int \<Rightarrow> int \<Rightarrow> int option \<Rightarrow> bool" where
  "due_valid k c r d t \<longleftrightarrow> stable_text c \<and> 1 \<le> r \<and> r \<le> MAX_SAFE_INTEGER \<and> 0 \<le> d \<and> d \<le> MAX_SAFE_INTEGER \<and>
     (case (k, t) of
        (CLAIM_EXPIRE, Some tok) \<Rightarrow> 1 \<le> tok \<and> tok \<le> MAX_SAFE_INTEGER
      | (DUE_ESCALATE, None) \<Rightarrow> True
      | _ \<Rightarrow> False)"

lemma due_token_returns:
  "(\<exists>bs. due_token_bytes k t = Inr bs) \<longleftrightarrow>
     (case (k, t) of
        (CLAIM_EXPIRE, Some tok) \<Rightarrow> 1 \<le> tok \<and> tok \<le> MAX_SAFE_INTEGER
      | (DUE_ESCALATE, None) \<Rightarrow> True
      | _ \<Rightarrow> False)"
  using str_int_encodes by (cases k; cases t) auto

lemma due_preimage_returns:
  "(\<exists>p. reconciliation_due_operation_preimage (due_kind_value k) c r d t = Inr p) \<longleftrightarrow> due_valid k c r d t"
  using kind_encodes [of k] stable_text_encodes [of c] str_int_encodes [of r] str_int_encodes [of d]
    due_token_returns [of k t]
  by (auto simp: reconciliation_due_operation_preimage_def due_valid_def)

lemma claim_scope_returns:
  "stable_text c \<Longrightarrow> lower_sha256 h \<Longrightarrow> stable_text i \<Longrightarrow>
     \<exists>p. reconciliation_claim_scope_bytes c (claim_op_value k) h i = Inr p"
  using claim_op_encodes [of k] stable_text_encodes [of c] stable_text_encodes [of i]
    lower_sha256_encodes [of h]
  by (auto simp: reconciliation_claim_scope_bytes_def)

lemma due_claim_disjoint:
  assumes "reconciliation_due_operation_preimage dk c r d t = Inr p"
  shows "p \<noteq> CLAIM_PREFIX @ scope"
proof -
  obtain k ps where k: "due_parts k c r d t ps" "p = join_nul ps"
    using due_preimage_parts [OF assms] by blast
  then obtain rest where "p = DUE_DOMAIN @ byte_of 0 # rest" by (auto simp: due_parts_def)
  moreover have "CLAIM_PREFIX @ scope = CLAIM_DOMAIN @ byte_of 0 # scope" by (simp add: CLAIM_PREFIX_def)
  ultimately show ?thesis
    using split_at_sep [OF DUE_DOMAIN_no_nul CLAIM_DOMAIN_no_nul] domains_differ by metis
qed

section \<open>Properties\<close>

text \<open>
  Two calls build the same due preimage only from the same due tuple: kind, case, revision, due
  time and fencing token are all recovered from the bytes that are hashed.
\<close>
theorem due_preimage_injective:
  assumes "reconciliation_due_operation_preimage dk c r d t = Inr p"
    and "reconciliation_due_operation_preimage dk' c' r' d' t' = Inr p"
  shows "dk = dk' \<and> c = c' \<and> r = r' \<and> d = d' \<and> t = t'"
proof -
  obtain k ps where k: "dk = due_kind_value k" "due_parts k c r d t ps" "p = join_nul ps"
    using due_preimage_parts [OF assms(1)] by blast
  obtain k' ps' where k': "dk' = due_kind_value k'" "due_parts k' c' r' d' t' ps'" "p = join_nul ps'"
    using due_preimage_parts [OF assms(2)] by blast
  have "ps = ps'" using k k' by (intro join_nul_inj) (auto simp: due_parts_def)
  with k k' show ?thesis using due_parts_inj by blast
qed


theorem due_preimage_injective_witness:
  "\<exists>p. reconciliation_due_operation_preimage (u ''CLAIM_EXPIRE'') (u ''case-1'') 3 100 (Some 7) = Inr p \<and>
     reconciliation_due_operation_preimage (u ''CLAIM_EXPIRE'') (u ''case-1'') 31 0 (Some 7) \<noteq> Inr p"
proof -
  have "due_valid CLAIM_EXPIRE (u ''case-1'') 3 100 (Some 7)"
    by (simp add: due_valid_def MAX_SAFE_INTEGER_def) (rule stable_text_graphic; simp add: u_def)
  then obtain p where p: "reconciliation_due_operation_preimage (u ''CLAIM_EXPIRE'') (u ''case-1'') 3 100 (Some 7) = Inr p"
    using due_preimage_returns [of CLAIM_EXPIRE "u ''case-1''" 3 100 "Some 7"] by auto
  then show ?thesis using due_preimage_injective [OF p, of _ _ 31 0] by auto
qed

text \<open>
  A claim scope determines the case, the operation, the principal hash and the idempotency key,
  and the bytes hashed for a claim are never the bytes hashed for a due operation.
\<close>
theorem claim_scope_injective:
  assumes "reconciliation_claim_scope_bytes c k h i = Inr p"
    and "reconciliation_claim_scope_bytes c' k' h' i' = Inr p"
  shows "c = c' \<and> k = k' \<and> h = h' \<and> i = i' \<and>
    (\<forall>dk dc r d t. reconciliation_due_operation_preimage dk dc r d t \<noteq> Inr (CLAIM_PREFIX @ p))"
proof -
  obtain op1 ps where 1: "k = claim_op_value op1" "claim_parts c op1 h i ps" "p = join_nul ps"
    using claim_scope_parts [OF assms(1)] by blast
  obtain op2 ps' where 2: "k' = claim_op_value op2" "claim_parts c' op2 h' i' ps'" "p = join_nul ps'"
    using claim_scope_parts [OF assms(2)] by blast
  have "ps = ps'" using 1 2 by (intro join_nul_inj) (auto simp: claim_parts_def)
  with 1 2 have "c = c' \<and> k = k' \<and> h = h' \<and> i = i'" using claim_parts_inj by blast
  then show ?thesis using due_claim_disjoint by blast
qed

theorem claim_scope_injective_witness:
  "\<exists>p. reconciliation_claim_scope_bytes (u ''case-1'') (u ''EXPIRE'') (sha256_hex []) (u ''key'') = Inr p \<and>
     reconciliation_claim_scope_bytes (u ''case-1'') (u ''RENEW'') (sha256_hex []) (u ''key'') \<noteq> Inr p"
proof -
  have "stable_text (u ''case-1'')" "stable_text (u ''key'')"
    by (rule stable_text_graphic; simp add: u_def)+
  then obtain p where p: "reconciliation_claim_scope_bytes (u ''case-1'') (u ''EXPIRE'') (sha256_hex []) (u ''key'') = Inr p"
    using claim_scope_returns [OF _ sha256_hex_shape, of "u ''case-1''" "u ''key''" EXPIRE "[]"] by auto
  then show ?thesis using claim_scope_injective [OF p, of _ "u ''RENEW''"] by auto
qed

text \<open>
  On admitted inputs the system claim identity exists: due and claim identifiers are the hashes
  of the two preimages, the idempotency key is the due identifier, and the only way to the
  \<open>RuntimeError\<close> is an actual SHA-256 collision between two different byte strings.
\<close>
theorem system_claim_identity_total:
  assumes "due_valid k c r d t" and "lower_sha256 h"
  shows "\<exists>p scope. reconciliation_due_operation_preimage (due_kind_value k) c r d t = Inr p \<and>
    reconciliation_claim_scope_bytes c
      (claim_op_value (case k of CLAIM_EXPIRE \<Rightarrow> EXPIRE | DUE_ESCALATE \<Rightarrow> ESCALATE)) h (sha256_hex p) = Inr scope \<and>
    p \<noteq> CLAIM_PREFIX @ scope \<and>
    system_claim_identity (due_kind_value k) c r d t h =
      (if sha256_hex p = sha256_hex (CLAIM_PREFIX @ scope)
       then Inl (RuntimeError [''claim and due operation domains unexpectedly collided''])
       else Inr \<lparr> due_operation_id = sha256_hex p, idempotency_key = sha256_hex p,
                  claim_operation_id = sha256_hex (CLAIM_PREFIX @ scope) \<rparr>)"
proof -
  let ?op = "case k of CLAIM_EXPIRE \<Rightarrow> EXPIRE | DUE_ESCALATE \<Rightarrow> ESCALATE"
  obtain p where p: "reconciliation_due_operation_preimage (due_kind_value k) c r d t = Inr p"
    using assms(1) due_preimage_returns by blast
  have "stable_text c" using assms(1) by (simp add: due_valid_def)
  then obtain scope where sc: "reconciliation_claim_scope_bytes c (claim_op_value ?op) h (sha256_hex p) = Inr scope"
    using claim_scope_returns assms(2) sha256_hex_shape lower_sha256_stable by blast
  have "enum_value due_kind_value due_kinds (due_kind_value k) ''due_kind'' = Inr k" by simp
  then have "system_claim_identity (due_kind_value k) c r d t h =
      (if sha256_hex p = sha256_hex (CLAIM_PREFIX @ scope)
       then Inl (RuntimeError [''claim and due operation domains unexpectedly collided''])
       else Inr \<lparr> due_operation_id = sha256_hex p, idempotency_key = sha256_hex p,
                  claim_operation_id = sha256_hex (CLAIM_PREFIX @ scope) \<rparr>)"
    using p sc by (simp add: system_claim_identity_def reconciliation_due_operation_id_def
        reconciliation_claim_operation_id_def del: due_kind_enum)
  with p sc due_claim_disjoint [OF p] show ?thesis by blast
qed

theorem system_claim_identity_total_witness:
  "\<exists>p scope. reconciliation_due_operation_preimage (u ''ESCALATE'') (u ''case-1'') 1 0 None = Inr p \<and>
     system_claim_identity (u ''ESCALATE'') (u ''case-1'') 1 0 None (sha256_hex []) =
       (if sha256_hex p = sha256_hex (CLAIM_PREFIX @ scope)
        then Inl (RuntimeError [''claim and due operation domains unexpectedly collided''])
        else Inr \<lparr> due_operation_id = sha256_hex p, idempotency_key = sha256_hex p,
                   claim_operation_id = sha256_hex (CLAIM_PREFIX @ scope) \<rparr>)"
proof -
  have "due_valid DUE_ESCALATE (u ''case-1'') 1 0 None"
    by (simp add: due_valid_def MAX_SAFE_INTEGER_def) (rule stable_text_graphic; simp add: u_def)
  from system_claim_identity_total [OF this sha256_hex_shape [of "[]"]] show ?thesis
    by (auto simp del: if_split)
qed

end
