(* ===== verification/Sha256_Vectors.thy ===== *)
theory Sha256_Vectors
  imports Sha256
begin

text \<open>The hash model checked against a published test vector, by evaluation in the kernel.\<close>

text \<open>The FIPS 180-4 test vector \<open>"abc"\<close>.\<close>

lemma sha256_abc:
  "sha256_hex (map byte_of [97, 98, 99]) =
     u ''ba7816bf8f01cfea414140de5dae2223b00361a396177a9cb410ff61f20015ad''"
  by code_simp

end
