(* ===== verification/Json.thy ===== *)
theory Json
  imports Sha256 "HOL-Library.List_Lexorder"
begin

text \<open>
  JSON values, \<open>json.loads\<close> as the source calls it, and canonical JSON.

  A Python \<open>dict\<close> is an association list with strictly increasing keys, so that equal
  dictionaries are equal values whatever their insertion order. An integer literal is an \<open>int\<close>; a
  float keeps its literal (the modelled payloads contain none). \<open>json_loads\<close> is the decoder of the
  standard library with the two hooks of \<open>_parse_canonical_object\<close>: duplicate keys and the
  constants \<open>NaN\<close>, \<open>Infinity\<close> and \<open>-Infinity\<close> are refused. The parser runs on fuel; \<open>json_loads_fuel\<close>
  shows that twice the length of the text is always enough.

  The canonical encoder \<open>rfc8785.dumps\<close> is a third-party package. It is a parameter \<open>dumps\<close> of every
  definition that calls it (\<open>None\<close>: it raises), and the locale \<open>canonical_encoder\<close> states the one law the
  contracts rely on: a value in the I-JSON domain is encoded to bytes that decode to it again.
  \<open>jcs_dumps\<close> is an encoder following RFC 8785 on float-free values; it interprets the locale.
\<close>

section \<open>Values\<close>

datatype json =
    JNull
  | JBool bool
  | JInt int
  | JFloat ustr
  | JStr ustr
  | JArr "json list"
  | JObj "(ustr \<times> json) list"

type_synonym dict = "(ustr \<times> json) list"

fun dict_put :: "ustr \<Rightarrow> json \<Rightarrow> dict \<Rightarrow> dict" where
  "dict_put k v [] = [(k, v)]"
| "dict_put k v ((k', v') # d) =
     (if k < k' then (k, v) # (k', v') # d
      else if k = k' then (k, v) # d
      else (k', v') # dict_put k v d)"

text \<open>The dict a display or a list of pairs builds: later bindings of a key win.\<close>

definition dict_of :: "(ustr \<times> json) list \<Rightarrow> dict" where
  "dict_of kvs = foldl (\<lambda>d (k, v). dict_put k v d) [] kvs"

definition dict_wf :: "dict \<Rightarrow> bool" where
  "dict_wf d \<longleftrightarrow> sorted_wrt (<) (map fst d)"

lemma keys_dict_put: "fst ` set (dict_put k v d) = insert k (fst ` set d)"
  by (induction k v d rule: dict_put.induct) auto

lemma dict_wf_put: "dict_wf d \<Longrightarrow> dict_wf (dict_put k v d)"
proof (induction k v d rule: dict_put.induct)
  case (2 k v k' v' d)
  have "\<forall>y \<in> fst ` set (dict_put k v d). k' < y" if "k' < k"
    using 2 that by (auto simp: dict_wf_def keys_dict_put)
  with 2 show ?case by (fastforce simp: dict_wf_def)
qed (simp add: dict_wf_def)

lemma map_of_dict_put: "dict_wf d \<Longrightarrow> map_of (dict_put k v d) = (map_of d)(k \<mapsto> v)"
proof (induction k v d rule: dict_put.induct)
  case (2 k v k' v' d)
  then show ?case by (auto simp: dict_wf_def fun_eq_iff)
qed simp

lemma dict_of_snoc: "dict_of (kvs @ [(k, v)]) = dict_put k v (dict_of kvs)"
  by (simp add: dict_of_def)

lemma dict_wf_of [simp]: "dict_wf (dict_of kvs)"
  by (induction kvs rule: rev_induct) (auto simp: dict_of_snoc dict_wf_put, simp add: dict_of_def dict_wf_def)

lemma map_of_dict_of: "map_of (dict_of kvs) = map_of (rev kvs)"
  by (induction kvs rule: rev_induct) (auto simp: dict_of_snoc map_of_dict_put, simp add: dict_of_def)

lemma keys_dict_of: "fst ` set (dict_of kvs) = fst ` set kvs"
proof (induction kvs rule: rev_induct)
  case Nil
  then show ?case by (simp add: dict_of_def)
next
  case (snoc kv kvs)
  obtain k v where "kv = (k, v)" by (cases kv)
  with snoc show ?case by (simp add: dict_of_snoc keys_dict_put)
qed

lemma dict_wf_distinct: "dict_wf d \<Longrightarrow> distinct (map fst d)"
  by (simp add: dict_wf_def strict_sorted_iff)

lemma dict_eqI:
  assumes "dict_wf d" and "dict_wf e" and "map_of d = map_of e"
  shows "d = e"
proof (rule map_sorted_distinct_set_unique)
  show "set d = set e"
    using map_of_inject_set [of d e] assms dict_wf_distinct by blast
  then show "inj_on fst (set d \<union> set e)"
    using dict_wf_distinct [OF assms(1)] by (simp add: distinct_map)
qed (use assms in \<open>simp_all add: dict_wf_def strict_sorted_iff\<close>)

lemma dict_of_perm:
  "distinct (map fst kvs) \<Longrightarrow> set kvs = set d \<Longrightarrow> dict_wf d \<Longrightarrow> dict_of kvs = d"
  by (rule dict_eqI) (auto simp: map_of_dict_of dict_wf_distinct map_of_inject_set rev_map [symmetric])

lemma dict_of_id: "dict_wf d \<Longrightarrow> dict_of d = d"
  by (rule dict_of_perm) (auto simp: dict_wf_distinct)

lemma dict_lookup: "map_of (dict_of kvs) k = map_of (rev kvs) k"
  by (simp add: map_of_dict_of)

text \<open>The \<open>|\<close> operator on dicts.\<close>

definition dict_union :: "dict \<Rightarrow> dict \<Rightarrow> dict" where
  "dict_union d e = dict_of (d @ e)"

lemma dict_wf_union [simp]: "dict_wf (dict_union d e)"
  by (simp add: dict_union_def)

lemma map_of_rev_wf: "dict_wf d \<Longrightarrow> map_of (rev d) = map_of d"
  by (simp add: dict_wf_distinct map_of_inject_set rev_map [symmetric])

lemma dict_union_lookup: "dict_wf d \<Longrightarrow> dict_wf e \<Longrightarrow> map_of (dict_union d e) = map_of d ++ map_of e"
  by (simp add: dict_union_def map_of_dict_of map_of_rev_wf)

lemma keys_dict_union: "fst ` set (dict_union d e) = fst ` set d \<union> fst ` set e"
  by (simp add: dict_union_def keys_dict_of image_Un)

lemma dict_union_of [simp]: "dict_union (dict_of kvs) (dict_of ds) = dict_of (kvs @ ds)"
  by (rule dict_eqI) (simp_all add: dict_union_lookup map_of_dict_of)

text \<open>Two dicts with the same known keys agree when they agree on each of them.\<close>

lemma dict_eq_on_fields:
  assumes "dict_wf d" and "dict_wf e" and "set (map fst d) = set (map u ks)"
    and "set (map fst e) = set (map u ks)" and "\<forall>k \<in> set ks. map_of d (u k) = map_of e (u k)"
  shows "d = e"
proof (rule dict_eqI [OF assms(1, 2)], rule ext)
  fix x
  show "map_of d x = map_of e x"
  proof (cases "x \<in> set (map u ks)")
    case False
    then have "map_of d x = None" "map_of e x = None"
      using assms(3, 4) by (simp_all add: map_of_eq_None_iff)
    then show ?thesis by simp
  qed (use assms(5) in auto)
qed

section \<open>Scanning\<close>

definition json_ws :: "nat \<Rightarrow> bool" where
  "json_ws c \<longleftrightarrow> c = 32 \<or> c = 9 \<or> c = 10 \<or> c = 13"

definition skip_ws :: "ustr \<Rightarrow> ustr" where
  "skip_ws s = dropWhile json_ws s"

definition hex_val :: "nat \<Rightarrow> nat option" where
  "hex_val c = (if 48 \<le> c \<and> c \<le> 57 then Some (c - 48)
     else if 97 \<le> c \<and> c \<le> 102 then Some (c - 87)
     else if 65 \<le> c \<and> c \<le> 70 then Some (c - 55) else None)"

definition hex4 :: "nat \<Rightarrow> nat \<Rightarrow> nat \<Rightarrow> nat \<Rightarrow> nat option" where
  "hex4 a b c d = (case (hex_val a, hex_val b, hex_val c, hex_val d) of
     (Some w, Some x, Some y, Some z) \<Rightarrow> Some (w * 4096 + x * 256 + y * 16 + z)
   | _ \<Rightarrow> None)"

text \<open>The one-character escapes: the quote, the reverse solidus, the solidus, b, f, n, r and t.\<close>

definition short_escape :: "nat \<Rightarrow> nat option" where
  "short_escape c = map_of [(34, 34), (92, 92), (47, 47), (98, 8), (102, 12), (110, 10), (114, 13), (116, 9)] c"

text \<open>\<open>scanstring\<close> in strict mode, after the opening quote. Text that comes from a UTF-8 decoder has no
  surrogates, so the units with a surrogate value are exactly those written as escapes;
  \<open>join_surrogates\<close> then pairs them as the scanner does.\<close>

fun scan_string :: "ustr \<Rightarrow> (ustr \<times> ustr) option" where
  "scan_string [] = None"
| "scan_string (c # cs) =
     (if c = 34 then Some ([], cs)
      else if c = 92 then
        (case cs of [] \<Rightarrow> None
         | e # es \<Rightarrow>
           if e = 117 then
             (case es of h1 # h2 # h3 # h4 # rest \<Rightarrow>
                (case hex4 h1 h2 h3 h4 of None \<Rightarrow> None
                 | Some v \<Rightarrow> map_option (\<lambda>(s, r). (v # s, r)) (scan_string rest))
              | _ \<Rightarrow> None)
           else (case short_escape e of None \<Rightarrow> None
                 | Some v \<Rightarrow> map_option (\<lambda>(s, r). (v # s, r)) (scan_string es)))
      else if c < 32 then None
      else map_option (\<lambda>(s, r). (c # s, r)) (scan_string cs))"

fun join_surrogates :: "ustr \<Rightarrow> ustr" where
  "join_surrogates (h # l # s) =
     (if 0xD800 \<le> h \<and> h < 0xDC00 \<and> 0xDC00 \<le> l \<and> l < 0xE000
      then (0x10000 + (h - 0xD800) * 1024 + (l - 0xDC00)) # join_surrogates s
      else h # join_surrogates (l # s))"
| "join_surrogates s = s"

definition is_digit :: "nat \<Rightarrow> bool" where
  "is_digit c \<longleftrightarrow> 48 \<le> c \<and> c \<le> 57"

text \<open>The integer part of a number literal: \<open>0\<close> or a digit string without a leading zero.\<close>

definition int_part :: "ustr \<Rightarrow> ustr" where
  "int_part s = (case s of [] \<Rightarrow> [] | c # _ \<Rightarrow> if c = 48 then [48] else takeWhile is_digit s)"

definition frac_part :: "ustr \<Rightarrow> ustr" where
  "frac_part s = (case s of [] \<Rightarrow> []
     | c # cs \<Rightarrow> (let ds = takeWhile is_digit cs in if c = 46 \<and> ds \<noteq> [] then 46 # ds else []))"

definition exp_part :: "ustr \<Rightarrow> ustr" where
  "exp_part s = (case s of [] \<Rightarrow> []
     | c # cs \<Rightarrow>
       let sgn = (case cs of [] \<Rightarrow> [] | d # _ \<Rightarrow> if d = 43 \<or> d = 45 then [d] else []);
           ds = takeWhile is_digit (drop (length sgn) cs)
       in if (c = 101 \<or> c = 69) \<and> ds \<noteq> [] then c # sgn @ ds else [])"

text \<open>\<open>int(text)\<close> refuses more than 4300 digits.\<close>

definition scan_number :: "ustr \<Rightarrow> (json \<times> ustr) result" where
  "scan_number s =
     (let sgn = (case s of [] \<Rightarrow> [] | c # _ \<Rightarrow> if c = 45 then [45] else []);
          ip = int_part (drop (length sgn) s);
          s1 = drop (length sgn + length ip) s;
          fp = frac_part s1;
          s2 = drop (length fp) s1;
          ep = exp_part s2;
          r = drop (length ep) s2
      in if ip = [] then Inl JSONDecodeError
         else if fp = [] \<and> ep = [] then
           (if 4300 < length ip then Inl (ValueError [''Exceeds the limit for integer string conversion''])
            else Inr (JInt (if sgn = [] then int (dec_value ip) else - int (dec_value ip)), r))
         else Inr (JFloat (sgn @ ip @ fp @ ep), r))"

definition starts_with :: "ustr \<Rightarrow> ustr \<Rightarrow> bool" where
  "starts_with p s \<longleftrightarrow> take (length p) s = p"

section \<open>The decoder\<close>

text \<open>\<open>reject_duplicates\<close>, the \<open>object_pairs_hook\<close>.\<close>

definition reject_duplicates :: "string \<Rightarrow> (ustr \<times> json) list \<Rightarrow> json result" where
  "reject_duplicates label pairs =
     checked [Check (distinct (map fst pairs)) (ArtifactHoldExpiryConflict [label, '' contains duplicate field''])]
       (Inr (JObj (dict_of pairs)))"

definition parse_constant :: "string \<Rightarrow> string \<Rightarrow> 'a result" where
  "parse_constant label name = Inl (ArtifactHoldExpiryConflict [label, '' contains '', name])"

text \<open>Literals and numbers, the part of \<open>scan_once\<close> that does not recurse.\<close>

definition scan_atom :: "string \<Rightarrow> ustr \<Rightarrow> (json \<times> ustr) result" where
  "scan_atom label s =
     (if starts_with (u ''null'') s then Inr (JNull, drop 4 s)
      else if starts_with (u ''true'') s then Inr (JBool True, drop 4 s)
      else if starts_with (u ''false'') s then Inr (JBool False, drop 5 s)
      else if starts_with (u ''NaN'') s then parse_constant label ''NaN''
      else if starts_with (u ''Infinity'') s then parse_constant label ''Infinity''
      else if starts_with (u ''-Infinity'') s then parse_constant label ''-Infinity''
      else scan_number s)"

fun scan_once :: "string \<Rightarrow> nat \<Rightarrow> ustr \<Rightarrow> (json \<times> ustr) result"
  and scan_members :: "string \<Rightarrow> nat \<Rightarrow> ustr \<Rightarrow> ((ustr \<times> json) list \<times> ustr) result"
  and scan_elements :: "string \<Rightarrow> nat \<Rightarrow> ustr \<Rightarrow> (json list \<times> ustr) result"
where
  "scan_once label 0 s = Inl OutOfFuel"
| "scan_once label (Suc n) s =
     (case s of [] \<Rightarrow> Inl JSONDecodeError
      | c # cs \<Rightarrow>
        if c = 34 then
          (case scan_string cs of None \<Rightarrow> Inl JSONDecodeError
           | Some (t, r) \<Rightarrow> Inr (JStr (join_surrogates t), r))
        else if c = 123 then
          (let r = skip_ws cs in
           if starts_with [125] r then Inr (JObj [], tl r)
           else bindE (scan_members label n r) (\<lambda>(kvs, r'). bindE (reject_duplicates label kvs) (\<lambda>v. Inr (v, r'))))
        else if c = 91 then
          (let r = skip_ws cs in
           if starts_with [93] r then Inr (JArr [], tl r)
           else bindE (scan_elements label n r) (\<lambda>(vs, r'). Inr (JArr vs, r')))
        else scan_atom label s)"
| "scan_members label 0 s = Inl OutOfFuel"
| "scan_members label (Suc n) s =
     (if \<not> starts_with [34] s then Inl JSONDecodeError
      else case scan_string (tl s) of None \<Rightarrow> Inl JSONDecodeError
      | Some (t, r1) \<Rightarrow>
        let r2 = skip_ws r1 in
        if \<not> starts_with [58] r2 then Inl JSONDecodeError
        else bindE (scan_once label n (skip_ws (tl r2))) (\<lambda>(v, r3).
          let r4 = skip_ws r3 in
          if starts_with [125] r4 then Inr ([(join_surrogates t, v)], tl r4)
          else if starts_with [44] r4 then
            bindE (scan_members label n (skip_ws (tl r4))) (\<lambda>(kvs, r5). Inr ((join_surrogates t, v) # kvs, r5))
          else Inl JSONDecodeError))"
| "scan_elements label 0 s = Inl OutOfFuel"
| "scan_elements label (Suc n) s =
     bindE (scan_once label n s) (\<lambda>(v, r1).
       let r2 = skip_ws r1 in
       if starts_with [93] r2 then Inr ([v], tl r2)
       else if starts_with [44] r2 then
         bindE (scan_elements label n (skip_ws (tl r2))) (\<lambda>(vs, r3). Inr (v # vs, r3))
       else Inl JSONDecodeError)"

definition json_loads :: "string \<Rightarrow> ustr \<Rightarrow> json result" where
  "json_loads label s =
     (if starts_with [0xFEFF] s then Inl JSONDecodeError
      else bindE (scan_once label (Suc (2 * length s)) (skip_ws s)) (\<lambda>(v, r).
        if skip_ws r = [] then Inr v else Inl JSONDecodeError))"

text \<open>\<open>json.loads(wire.decode("utf-8"), ...)\<close>.\<close>

definition loads_utf8 :: "string \<Rightarrow> bytes \<Rightarrow> json result" where
  "loads_utf8 label wire =
     (case utf8_decode wire of None \<Rightarrow> Inl UnicodeError | Some s \<Rightarrow> json_loads label s)"

section \<open>The fuel suffices\<close>

lemma length_skip_ws: "length (skip_ws s) \<le> length s"
  by (simp add: skip_ws_def length_dropWhile_le)

lemma starts_with_Cons [simp]: "starts_with [c] s \<longleftrightarrow> (\<exists>t. s = c # t)"
  by (cases s) (auto simp: starts_with_def)

lemma scan_string_shorter: "scan_string s = Some (t, r) \<Longrightarrow> length r < length s"
proof (induction s arbitrary: t r rule: scan_string.induct)
  case (2 c cs)
  then show ?case
    by (fastforce split: if_splits list.splits option.splits)
qed simp

lemma starts_with_length: "starts_with p s \<Longrightarrow> length p \<le> length s"
  unfolding starts_with_def by (metis length_take min.cobounded1)

lemma int_part_shorter: "int_part s \<noteq> [] \<Longrightarrow> 0 < length (int_part s) \<and> length (int_part s) \<le> length s"
  by (auto simp: int_part_def length_takeWhile_le split: list.splits if_splits intro: le_SucI)

lemma scan_number_shorter:
  assumes "scan_number s = Inr (v, r)"
  shows "length r < length s"
proof -
  define sgn :: ustr where "sgn = (case s of [] \<Rightarrow> [] | c # _ \<Rightarrow> if c = 45 then [45] else [])"
  define ip where "ip = int_part (drop (length sgn) s)"
  define s1 where "s1 = drop (length sgn + length ip) s"
  define fp where "fp = frac_part s1"
  define ep where "ep = exp_part (drop (length fp) s1)"
  note defs = sgn_def [symmetric] ip_def [symmetric] s1_def [symmetric] fp_def [symmetric] ep_def [symmetric]
  have ip: "ip \<noteq> []" and r: "r = drop (length ep) (drop (length fp) s1)"
    using assms unfolding scan_number_def Let_def defs by (auto split: if_splits)
  have "drop (length sgn) s \<noteq> []"
    using ip by (auto simp: ip_def int_part_def)
  then have "length sgn < length s" by simp
  moreover have "0 < length ip" using ip by simp
  ultimately have "length s1 < length s" unfolding s1_def length_drop by linarith
  with r show ?thesis by simp
qed

lemma scan_atom_shorter: "scan_atom l s = Inr (v, r) \<Longrightarrow> length r < length s"
  using scan_number_shorter [of s v r] starts_with_length [of "u ''null''" s]
    starts_with_length [of "u ''true''" s] starts_with_length [of "u ''false''" s]
  by (auto simp: scan_atom_def parse_constant_def u_def split: if_splits)

text \<open>One step of the member and element loops, read off their equations.\<close>

lemma scan_members_SucE:
  assumes "scan_members l (Suc n) s = Inr (kvs, r)"
  obtains t r1 s2 r2 v r3 where "s = 34 # s2" "scan_string s2 = Some (t, r1)" "skip_ws r1 = 58 # r2"
    "scan_once l n (skip_ws r2) = Inr (v, r3)" "skip_ws r3 = 125 # r"
  | t r1 s2 r2 v r3 r5 kvs' where "s = 34 # s2" "scan_string s2 = Some (t, r1)" "skip_ws r1 = 58 # r2"
    "scan_once l n (skip_ws r2) = Inr (v, r3)" "skip_ws r3 = 44 # r5"
    "scan_members l n (skip_ws r5) = Inr (kvs', r)"
  using assms by (auto simp: Let_def split: if_splits option.splits)

lemma scan_elements_SucE:
  assumes "scan_elements l (Suc n) s = Inr (vs, r)"
  obtains v r1 where "scan_once l n s = Inr (v, r1)" "skip_ws r1 = 93 # r"
  | v r1 r3 vs' where "scan_once l n s = Inr (v, r1)" "skip_ws r1 = 44 # r3"
    "scan_elements l n (skip_ws r3) = Inr (vs', r)"
  using assms by (auto simp: Let_def split: if_splits)

lemma skip_ws_Cons: "skip_ws r = c # t \<Longrightarrow> length t < length r"
  using length_skip_ws [of r] by simp

definition scans_shorten :: "string \<Rightarrow> nat \<Rightarrow> bool" where
  "scans_shorten l n \<longleftrightarrow>
     (\<forall>s v r. scan_once l n s = Inr (v, r) \<longrightarrow> length r < length s) \<and>
     (\<forall>s kvs r. scan_members l n s = Inr (kvs, r) \<longrightarrow> length r < length s) \<and>
     (\<forall>s vs r. scan_elements l n s = Inr (vs, r) \<longrightarrow> length r < length s)"

lemma scan_once_step_shorter:
  assumes "scans_shorten l n" and "scan_once l (Suc n) s = Inr (v, r)"
  shows "length r < length s"
proof (cases s)
  case (Cons c cs)
  have "length (skip_ws cs) \<le> length cs" by (rule length_skip_ws)
  with assms Cons show ?thesis
    by (fastforce simp: scans_shorten_def Let_def reject_duplicates_def
        split: if_splits option.splits dest: scan_string_shorter scan_atom_shorter)
qed (use assms in simp)

lemma scans_shorten: "scans_shorten l n"
proof (induction n)
  case 0
  then show ?case by (simp add: scans_shorten_def)
next
  case (Suc n)
  have once: "scan_once l n s = Inr (v, r) \<Longrightarrow> length r < length s" for s v r
    using Suc by (simp add: scans_shorten_def)
  have ws: "length (skip_ws s) < k" if "length s < k" for s k
    using length_skip_ws [of s] that by simp
  have "length r < length s" if "scan_members l (Suc n) s = Inr (kvs, r)" for s kvs r
    using that
  proof (cases rule: scan_members_SucE)
    case (1 t r1 s2 r2 v r3)
    then show ?thesis
      using once [OF 1(4)] scan_string_shorter [OF 1(2)] skip_ws_Cons [OF 1(3)] skip_ws_Cons [OF 1(5)]
        length_skip_ws [of r2] by simp
  next
    case (2 t r1 s2 r2 v r3 r5 kvs')
    have "length r < length (skip_ws r5)" using Suc 2 by (simp add: scans_shorten_def)
    then show ?thesis
      using once [OF 2(4)] scan_string_shorter [OF 2(2)] skip_ws_Cons [OF 2(3)] skip_ws_Cons [OF 2(5)]
        length_skip_ws [of r2] length_skip_ws [of r5] 2(1) by simp
  qed
  moreover have "length r < length s" if "scan_elements l (Suc n) s = Inr (vs, r)" for s vs r
    using that
  proof (cases rule: scan_elements_SucE)
    case (1 v r1)
    then show ?thesis using once [OF 1(1)] skip_ws_Cons [OF 1(2)] by simp
  next
    case (2 v r1 r3 vs')
    have "length r < length (skip_ws r3)" using Suc 2 by (simp add: scans_shorten_def)
    then show ?thesis using once [OF 2(1)] skip_ws_Cons [OF 2(2)] length_skip_ws [of r3] by simp
  qed
  ultimately show ?case
    using scan_once_step_shorter [OF Suc] unfolding scans_shorten_def by blast
qed

lemmas scan_once_shorter = scans_shorten [unfolded scans_shorten_def, THEN conjunct1, rule_format]

lemma scan_atom_fuel: "scan_atom l s \<noteq> Inl OutOfFuel"
  by (auto simp: scan_atom_def scan_number_def parse_constant_def Let_def)

lemma reject_duplicates_fuel: "reject_duplicates l kvs \<noteq> Inl OutOfFuel"
  by (simp add: reject_duplicates_def checked_Cons)

lemma scan_fuel:
  "(\<forall>s. 2 * length s < n \<longrightarrow> scan_once l n s \<noteq> Inl OutOfFuel) \<and>
   (\<forall>s. 2 * length s + 1 < n \<longrightarrow> scan_members l n s \<noteq> Inl OutOfFuel) \<and>
   (\<forall>s. 2 * length s + 1 < n \<longrightarrow> scan_elements l n s \<noteq> Inl OutOfFuel)"
proof (induction n)
  case (Suc n)
  then have once: "2 * length s < n \<Longrightarrow> scan_once l n s \<noteq> Inl OutOfFuel"
    and mem: "2 * length s + 1 < n \<Longrightarrow> scan_members l n s \<noteq> Inl OutOfFuel"
    and ele: "2 * length s + 1 < n \<Longrightarrow> scan_elements l n s \<noteq> Inl OutOfFuel" for s
    by blast+
  have "scan_once l (Suc n) s \<noteq> Inl OutOfFuel" if "2 * length s < Suc n" for s
  proof (cases s)
    case (Cons c cs)
    have "2 * length (skip_ws cs) + 1 < n" using that Cons length_skip_ws [of cs] by simp
    with mem [of "skip_ws cs"] ele [of "skip_ws cs"] Cons show ?thesis
      using scan_atom_fuel reject_duplicates_fuel by (auto simp: Let_def split: option.splits)
  qed simp
  moreover have "scan_members l (Suc n) s \<noteq> Inl OutOfFuel" if "2 * length s + 1 < Suc n" for s
  proof
    assume "scan_members l (Suc n) s = Inl OutOfFuel"
    then obtain t r1 s2 r2 where s: "s = 34 # s2" "scan_string s2 = Some (t, r1)" "skip_ws r1 = 58 # r2"
      and f: "scan_once l n (skip_ws r2) = Inl OutOfFuel \<or>
        (\<exists>v r3 r5. scan_once l n (skip_ws r2) = Inr (v, r3) \<and> skip_ws r3 = 44 # r5 \<and>
           scan_members l n (skip_ws r5) = Inl OutOfFuel)"
      by (auto simp: Let_def split: if_splits option.splits)
    have l: "length r2 + 2 < length s"
      using scan_string_shorter [OF s(2)] skip_ws_Cons [OF s(3)] s(1) by simp
    then have "scan_once l n (skip_ws r2) \<noteq> Inl OutOfFuel"
      using that length_skip_ws [of r2] by (intro once) simp
    with f obtain v r3 r5 where r: "scan_once l n (skip_ws r2) = Inr (v, r3)" "skip_ws r3 = 44 # r5"
      "scan_members l n (skip_ws r5) = Inl OutOfFuel" by blast
    have "2 * length (skip_ws r5) + 1 < n"
      using that l scan_once_shorter [OF r(1)] skip_ws_Cons [OF r(2)] length_skip_ws [of r2]
        length_skip_ws [of r5] by simp
    with mem r(3) show False by blast
  qed
  moreover have "scan_elements l (Suc n) s \<noteq> Inl OutOfFuel" if "2 * length s + 1 < Suc n" for s
  proof
    assume "scan_elements l (Suc n) s = Inl OutOfFuel"
    moreover have "scan_once l n s \<noteq> Inl OutOfFuel" using that by (intro once) simp
    ultimately obtain v r1 r3 where r: "scan_once l n s = Inr (v, r1)" "skip_ws r1 = 44 # r3"
      "scan_elements l n (skip_ws r3) = Inl OutOfFuel"
      by (auto simp: Let_def split: if_splits)
    have "2 * length (skip_ws r3) + 1 < n"
      using that scan_once_shorter [OF r(1)] skip_ws_Cons [OF r(2)] length_skip_ws [of r3] by simp
    with ele r(3) show False by blast
  qed
  ultimately show ?case by blast
qed simp

lemma json_loads_fuel: "json_loads l s \<noteq> Inl OutOfFuel"
proof -
  have "scan_once l (Suc (2 * length s)) (skip_ws s) \<noteq> Inl OutOfFuel"
    using length_skip_ws [of s] by (intro scan_fuel [THEN conjunct1, rule_format]) simp
  then show ?thesis by (auto simp: json_loads_def simp del: scan_once.simps)
qed

section \<open>Dicts of a decoded value\<close>

text \<open>Every dict inside a decoded value is a dict: its keys are distinct and in order.\<close>

fun dicts_wf :: "json \<Rightarrow> bool" where
  "dicts_wf (JArr vs) = list_all dicts_wf vs"
| "dicts_wf (JObj d) = (dict_wf d \<and> list_all (\<lambda>kv. dicts_wf (snd kv)) d)"
| "dicts_wf v = True"

lemma set_dict_of: "set (dict_of kvs) \<subseteq> set kvs"
  by (rule subsetI) (metis dict_wf_of dict_wf_distinct map_of_dict_of map_of_eq_Some_iff map_of_SomeD
      set_rev surj_pair)

lemma scan_atom_dicts: "scan_atom l s = Inr (v, r) \<Longrightarrow> dicts_wf v"
  by (auto simp: scan_atom_def scan_number_def parse_constant_def Let_def split: if_splits)

lemma reject_duplicates_dicts:
  "reject_duplicates l kvs = Inr v \<Longrightarrow> \<forall>kv \<in> set kvs. dicts_wf (snd kv) \<Longrightarrow> dicts_wf v"
  using set_dict_of [of kvs] by (fastforce simp: reject_duplicates_def list_all_iff)

lemma scan_dicts:
  "(\<forall>s v r. scan_once l n s = Inr (v, r) \<longrightarrow> dicts_wf v) \<and>
   (\<forall>s kvs r. scan_members l n s = Inr (kvs, r) \<longrightarrow> (\<forall>kv \<in> set kvs. dicts_wf (snd kv))) \<and>
   (\<forall>s vs r. scan_elements l n s = Inr (vs, r) \<longrightarrow> list_all dicts_wf vs)"
proof (induction n)
  case (Suc n)
  have "dicts_wf v" if "scan_once l (Suc n) s = Inr (v, r)" for s v r
  proof (cases s)
    case (Cons c cs)
    with that Suc reject_duplicates_dicts scan_atom_dicts show ?thesis
      by (auto simp: Let_def dict_wf_def split: if_splits option.splits) blast+
  qed (use that in simp)
  moreover have "\<forall>kv \<in> set kvs. dicts_wf (snd kv)" if "scan_members l (Suc n) s = Inr (kvs, r)" for s kvs r
    using that Suc by (fastforce simp: Let_def split: if_splits option.splits)
  moreover have "list_all dicts_wf vs" if "scan_elements l (Suc n) s = Inr (vs, r)" for s vs r
    using that Suc by (fastforce simp: Let_def split: if_splits)
  ultimately show ?case by blast
qed simp

lemma loads_utf8_dicts: "loads_utf8 label bs = Inr v \<Longrightarrow> dicts_wf v"
proof -
  assume "loads_utf8 label bs = Inr v"
  then obtain s n r where "scan_once label n s = Inr (v, r)"
    by (auto simp: loads_utf8_def json_loads_def split: option.splits if_splits simp del: scan_once.simps)
  then show ?thesis using scan_dicts by blast
qed

section \<open>Canonical encoding\<close>

text \<open>The values in the domain of the canonical encoder that the contracts build: integers within
  the I-JSON range, no floats, Unicode scalar values only, dicts as dicts.\<close>

fun jwf :: "json \<Rightarrow> bool" where
  "jwf JNull = True"
| "jwf (JBool b) = True"
| "jwf (JInt n) = (\<bar>n\<bar> \<le> MAX_SAFE_INTEGER)"
| "jwf (JFloat s) = False"
| "jwf (JStr s) = list_all scalar_value s"
| "jwf (JArr vs) = list_all jwf vs"
| "jwf (JObj d) = (dict_wf d \<and> list_all (\<lambda>kv. list_all scalar_value (fst kv) \<and> jwf (snd kv)) d)"

text \<open>A payload display whose keys are distinct is in the domain of the encoder as soon as its values are.\<close>

lemma jwf_dict_of:
  assumes "\<forall>kv \<in> set kvs. list_all scalar_value (fst kv) \<and> jwf (snd kv)"
  shows "jwf (JObj (dict_of kvs))"
  using assms set_dict_of [of kvs] by (auto simp: list_all_iff)

lemma jwf_dict_union:
  assumes "jwf (JObj d)" and "jwf (JObj e)"
  shows "jwf (JObj (dict_union d e))"
  unfolding dict_union_def using assms by (intro jwf_dict_of) (auto simp: list_all_iff)

text \<open>The only thing the contracts assume of \<open>rfc8785.dumps\<close>: on that domain it returns bytes that
  \<open>json.loads\<close> reads back as the same value.\<close>

definition dumps_law :: "(json \<Rightarrow> bytes option) \<Rightarrow> bool" where
  "dumps_law dumps \<longleftrightarrow> (\<forall>v label. jwf v \<longrightarrow> (\<exists>bs. dumps v = Some bs \<and> loads_utf8 label bs = Inr v))"

definition escape_char :: "nat \<Rightarrow> ustr" where
  "escape_char c =
     (if c = 34 then [92, 34] else if c = 92 then [92, 92] else if c = 8 then [92, 98]
      else if c = 9 then [92, 116] else if c = 10 then [92, 110] else if c = 12 then [92, 102]
      else if c = 13 then [92, 114]
      else if c < 32 then [92, 117, 48, 48, hex_digit (c div 16), hex_digit (c mod 16)]
      else [c])"

definition jcs_string :: "ustr \<Rightarrow> ustr" where
  "jcs_string s = 34 # concat (map escape_char s) @ [34]"

fun comma_join :: "ustr list \<Rightarrow> ustr" where
  "comma_join [] = []"
| "comma_join [x] = x"
| "comma_join (x # y # zs) = x @ 44 # comma_join (y # zs)"

text \<open>RFC 8785 orders the members of an object by the UTF-16 code units of their names.\<close>

definition utf16 :: "ustr \<Rightarrow> nat list" where
  "utf16 s = concat (map (\<lambda>c. if c < 0x10000 then [c]
     else [0xD800 + (c - 0x10000) div 1024, 0xDC00 + (c - 0x10000) mod 1024]) s)"

lemma size_snd_mem: "kv \<in> set d \<Longrightarrow> size (snd kv) < Suc (size_list (size_prod (\<lambda>x. 0) size) d)"
  using size_list_estimation' [of kv d "size (snd kv)" "size_prod (\<lambda>x. 0) size"]
  by (simp add: size_prod_simp less_Suc_eq_le)

function jcs :: "json \<Rightarrow> ustr" where
  "jcs JNull = u ''null''"
| "jcs (JBool b) = (if b then u ''true'' else u ''false'')"
| "jcs (JInt n) = str_int n"
| "jcs (JFloat s) = s"
| "jcs (JStr s) = jcs_string s"
| "jcs (JArr vs) = 91 # comma_join (map jcs vs) @ [93]"
| "jcs (JObj d) = 123 # comma_join (map (\<lambda>kv. jcs_string (fst kv) @ 58 # jcs (snd kv))
     (sort_key (utf16 \<circ> fst) d)) @ [125]"
  by pat_completeness auto
termination
  by (relation "measure size") (auto intro: size_snd_mem simp: size_list_estimation' less_Suc_eq_le)

definition jcs_dumps :: "json \<Rightarrow> bytes option" where
  "jcs_dumps v = (if jwf v then utf8_encode (jcs v) else None)"

section \<open>The decoder inverts the encoder\<close>

definition stops :: "ustr \<Rightarrow> bool" where
  "stops r \<longleftrightarrow> (case r of [] \<Rightarrow> True | c # _ \<Rightarrow> c = 44 \<or> c = 93 \<or> c = 125)"

lemma hex_val_digit: "n < 16 \<Longrightarrow> hex_val (hex_digit n) = Some n"
  by (auto simp: hex_val_def hex_digit_def)

lemma scan_escaped_char:
  "scan_string (escape_char c @ t) = map_option (\<lambda>(s, r). (c # s, r)) (scan_string t)"
proof (cases "c < 32 \<and> c \<noteq> 8 \<and> c \<noteq> 9 \<and> c \<noteq> 10 \<and> c \<noteq> 12 \<and> c \<noteq> 13")
  case True
  then have "c div 16 < 16" "c div 16 * 16 + c mod 16 = c" by auto
  then have "hex4 48 48 (hex_digit (c div 16)) (hex_digit (c mod 16)) = Some c"
    using hex_val_digit [of 0] by (simp add: hex4_def hex_val_digit) (simp add: hex_val_def)
  with True show ?thesis by (simp add: escape_char_def)
next
  case False
  then show ?thesis by (auto simp: escape_char_def short_escape_def)
qed

lemma scan_jcs_string: "scan_string (concat (map escape_char s) @ 34 # r) = Some (s, r)"
  by (induction s) (simp_all add: scan_escaped_char del: scan_string.simps(2) add: scan_string.simps(2) [of 34])

lemma join_surrogates_scalar: "list_all scalar_value s \<Longrightarrow> join_surrogates s = s"
  by (induction s rule: join_surrogates.induct) (auto simp: scalar_value_def)

lemma length_dec_nat: "k < 10 ^ Suc m \<Longrightarrow> length (dec_nat k) \<le> Suc m"
proof (induction m arbitrary: k)
  case 0
  then show ?case by (simp add: dec_nat.simps [of k])
next
  case (Suc m)
  then have "k div 10 < 10 ^ Suc m" by (simp add: less_mult_imp_div_less)
  with Suc show ?case by (auto simp: dec_nat.simps [of k])
qed

lemma dec_nat_head: "0 < k \<Longrightarrow> hd (dec_nat k) \<noteq> 48"
proof (induction k rule: dec_nat.induct)
  case (1 k)
  show ?case
  proof (cases "k < 10")
    case False
    then have "0 < k div 10" by simp
    with 1 False show ?thesis by (simp add: dec_nat.simps [of k] hd_append)
  qed (use 1 in \<open>simp add: dec_nat.simps [of k]\<close>)
qed

lemma takeWhile_digits:
  "list_all is_digit ds \<Longrightarrow> stops r \<Longrightarrow> takeWhile is_digit (ds @ r) = ds"
  by (induction ds) (auto simp: stops_def is_digit_def split: list.splits)

lemma dec_nat_is_digit: "list_all is_digit (dec_nat k)"
  using dec_nat_digits [of k] by (auto simp: list_all_iff is_digit_def)

lemma int_part_dec_nat: "stops r \<Longrightarrow> int_part (dec_nat k @ r) = dec_nat k"
proof (cases "k = 0")
  case False
  assume "stops r"
  moreover obtain c cs where "dec_nat k = c # cs" using dec_nat_nonempty by (metis list.exhaust)
  ultimately show ?thesis
    using dec_nat_head [of k] False takeWhile_digits [OF dec_nat_is_digit, of r k]
    by (simp add: int_part_def)
qed (simp add: int_part_def dec_nat.simps [of 0])

lemma stops_no_tail: "stops r \<Longrightarrow> frac_part r = [] \<and> exp_part r = []"
  by (auto simp: stops_def frac_part_def exp_part_def Let_def split: list.splits)

lemma scan_number_str_int:
  assumes "\<bar>n\<bar> \<le> MAX_SAFE_INTEGER" and "stops r"
  shows "scan_number (str_int n @ r) = Inr (JInt n, r)"
proof -
  have "nat \<bar>n\<bar> < 10 ^ Suc 19" using assms(1) by (simp add: MAX_SAFE_INTEGER_def)
  then have "length (dec_nat (nat \<bar>n\<bar>)) \<le> Suc 19" by (rule length_dec_nat)
  then have l: "length (dec_nat (nat \<bar>n\<bar>)) \<le> 4300" by linarith
  have sgn: "(case dec_nat k @ r of [] \<Rightarrow> [] | c # _ \<Rightarrow> if c = 45 then [45] else []) = []" for k
    using dec_nat_not_minus [of k] by (cases "dec_nat k") auto
  show ?thesis
  proof (cases "n < 0")
    case True
    then show ?thesis
      using l stops_no_tail [OF assms(2)] int_part_dec_nat [OF assms(2)]
      by (simp add: scan_number_def str_int_def)
  next
    case False
    then show ?thesis
      using l stops_no_tail [OF assms(2)] int_part_dec_nat [OF assms(2)]
      by (simp add: scan_number_def str_int_def sgn)
  qed
qed

text \<open>What the recursion needs of one value: scanned in front of any stopping text, with enough fuel,
  its encoding gives the value and leaves the rest.\<close>

definition rescans :: "json \<Rightarrow> bool" where
  "rescans v \<longleftrightarrow> (\<forall>l n r. stops r \<longrightarrow> 2 * length (jcs v @ r) < n \<longrightarrow> scan_once l n (jcs v @ r) = Inr (v, r))"

lemma rescansD: "rescans v \<Longrightarrow> stops r \<Longrightarrow> 2 * length (jcs v @ r) < n \<Longrightarrow> scan_once l n (jcs v @ r) = Inr (v, r)"
  by (simp add: rescans_def)

lemma rescansI:
  assumes "\<And>l m r. stops r \<Longrightarrow> 2 * length (jcs v @ r) < Suc m \<Longrightarrow> scan_once l (Suc m) (jcs v @ r) = Inr (v, r)"
  shows "rescans v"
  unfolding rescans_def
proof (intro allI impI)
  fix l :: string and n r
  assume "stops r" "2 * length (jcs v @ r) < n"
  then show "scan_once l n (jcs v @ r) = Inr (v, r)" using assms by (cases n) auto
qed

lemma str_int_head: "\<exists>c t. str_int n = c # t \<and> (c = 45 \<or> is_digit c)"
proof -
  obtain c cs where "dec_nat (nat n) = c # cs" using dec_nat_nonempty by (metis list.exhaust)
  with dec_nat_is_digit [of "nat n"] show ?thesis by (auto simp: str_int_def)
qed

lemma str_int_digits: "str_int n = c # d # t \<Longrightarrow> is_digit d"
proof -
  assume "str_int n = c # d # t"
  then have "d \<in> set (dec_nat (nat \<bar>n\<bar>))" by (auto simp: str_int_def split: if_splits)
  then show ?thesis using dec_nat_is_digit by (auto simp: list_all_iff)
qed

lemma str_int_single: "str_int n = [c] \<Longrightarrow> is_digit c"
proof -
  assume "str_int n = [c]"
  then have "c \<in> set (dec_nat (nat n))" using dec_nat_nonempty by (auto simp: str_int_def split: if_splits)
  then show ?thesis using dec_nat_is_digit by (auto simp: list_all_iff)
qed

text \<open>No value starts with white space or with a closing bracket.\<close>

lemma jcs_head: "jwf v \<Longrightarrow> \<exists>c t. jcs v = c # t \<and> \<not> json_ws c \<and> c \<noteq> 93 \<and> c \<noteq> 125 \<and> c < 128"
  using str_int_head by (cases v) (fastforce simp: u_def json_ws_def jcs_string_def is_digit_def)+

lemma skip_ws_jcs: "jwf v \<Longrightarrow> skip_ws (jcs v @ r) = jcs v @ r"
  using jcs_head [of v] by (auto simp: skip_ws_def)

lemma skip_ws_mark [simp]: "\<not> json_ws c \<Longrightarrow> skip_ws (c # r) = c # r"
  by (simp add: skip_ws_def)

lemma json_ws_marks [simp]: "\<not> json_ws 44" "\<not> json_ws 93" "\<not> json_ws 125" "\<not> json_ws 58" "\<not> json_ws 34"
  by (simp_all add: json_ws_def)

lemma stops_marks [simp]: "stops (44 # r)" "stops (93 # r)" "stops (125 # r)" "stops []"
  by (simp_all add: stops_def)

lemma comma_join_Cons: "comma_join (x # xs) = x @ (if xs = [] then [] else 44 # comma_join xs)"
  by (cases xs) auto

lemma skip_ws_comma_join:
  "vs \<noteq> [] \<Longrightarrow> \<forall>v \<in> set vs. jwf v \<Longrightarrow> skip_ws (comma_join (map jcs vs) @ r) = comma_join (map jcs vs) @ r"
  by (cases vs) (auto simp: comma_join_Cons skip_ws_jcs)

lemma rescan_elements:
  assumes "vs \<noteq> []" and "\<forall>v \<in> set vs. jwf v \<and> rescans v"
    and "2 * length (comma_join (map jcs vs) @ 93 # r) + 1 < n"
  shows "scan_elements l n (comma_join (map jcs vs) @ 93 # r) = Inr (vs, r)"
  using assms
proof (induction vs arbitrary: n)
  case (Cons v vs)
  obtain m where m: "n = Suc m" using Cons.prems by (cases n) auto
  show ?case
  proof (cases "vs = []")
    case True
    then have "scan_once l m (jcs v @ 93 # r) = Inr (v, 93 # r)"
      using Cons.prems m by (intro rescansD) auto
    with True m show ?thesis by simp
  next
    case False
    let ?rest = "comma_join (map jcs vs) @ 93 # r"
    have "scan_once l m (jcs v @ 44 # ?rest) = Inr (v, 44 # ?rest)"
      using Cons.prems m False by (intro rescansD) (auto simp: comma_join_Cons)
    moreover have "scan_elements l m ?rest = Inr (vs, r)"
      using Cons False m by (intro Cons.IH) (auto simp: comma_join_Cons)
    moreover have "skip_ws ?rest = ?rest"
      using Cons.prems False by (intro skip_ws_comma_join) auto
    ultimately show ?thesis using False m by (simp add: comma_join_Cons)
  qed
qed simp

definition jcs_member :: "ustr \<times> json \<Rightarrow> ustr" where
  "jcs_member kv = jcs_string (fst kv) @ 58 # jcs (snd kv)"

lemma jcs_member_head: "kvs \<noteq> [] \<Longrightarrow> \<exists>t. comma_join (map jcs_member kvs) = 34 # t"
  by (cases kvs) (simp_all add: comma_join_Cons jcs_member_def jcs_string_def)

lemma rescan_members:
  assumes "kvs \<noteq> []" and "\<forall>kv \<in> set kvs. list_all scalar_value (fst kv) \<and> jwf (snd kv) \<and> rescans (snd kv)"
    and "2 * length (comma_join (map jcs_member kvs) @ 125 # r) + 1 < n"
  shows "scan_members l n (comma_join (map jcs_member kvs) @ 125 # r) = Inr (kvs, r)"
  using assms
proof (induction kvs arbitrary: n)
  case (Cons kv kvs)
  obtain m where m: "n = Suc m" using Cons.prems by (cases n) auto
  obtain k v where kv: "kv = (k, v)" by (cases kv)
  have k: "scan_string (concat (map escape_char k) @ 34 # t) = Some (k, t)" "join_surrogates k = k" for t
    using Cons.prems kv by (simp_all add: scan_jcs_string join_surrogates_scalar)
  have head: "jcs_member (k, v) @ t = 34 # concat (map escape_char k) @ 34 # 58 # jcs v @ t" for t
    by (simp add: jcs_member_def jcs_string_def)
  have len: "length (jcs v) + 3 \<le> length (jcs_member (k, v))"
    by (simp add: jcs_member_def jcs_string_def)
  show ?case
  proof (cases "kvs = []")
    case True
    then have "scan_once l m (jcs v @ 125 # r) = Inr (v, 125 # r)"
      using Cons.prems m kv len by (intro rescansD) auto
    with True m k kv Cons.prems show ?thesis by (simp add: head skip_ws_jcs)
  next
    case False
    let ?rest = "comma_join (map jcs_member kvs) @ 125 # r"
    obtain t where t: "?rest = 34 # t" using jcs_member_head [OF False] by auto
    have "scan_once l m (jcs v @ 44 # ?rest) = Inr (v, 44 # ?rest)"
      using Cons.prems m kv False len by (intro rescansD) (auto simp: comma_join_Cons)
    moreover have "scan_members l m ?rest = Inr (kvs, r)"
      using Cons False m kv len by (intro Cons.IH) (auto simp: comma_join_Cons)
    moreover have "skip_ws ?rest = ?rest" using t by simp
    ultimately show ?thesis using False m kv k Cons.prems by (simp add: comma_join_Cons head skip_ws_jcs)
  qed
qed simp

lemma rescan_atom:
  assumes "\<bar>n\<bar> \<le> MAX_SAFE_INTEGER" and "stops r"
  shows "scan_atom l (str_int n @ r) = Inr (JInt n, r)"
proof -
  obtain c t where ct: "str_int n = c # t" "c = 45 \<or> is_digit c" using str_int_head by blast
  then have "\<not> starts_with (u p) (str_int n @ r)"
    if "p \<in> {''null'', ''true'', ''false'', ''NaN'', ''Infinity''}" for p
    using that by (auto simp: starts_with_def u_def is_digit_def)
  moreover have "\<not> starts_with (u ''-Infinity'') (str_int n @ r)"
  proof (cases t)
    case (Cons d ds)
    then have "d < 58" using str_int_digits [of n] ct by (auto simp: is_digit_def)
    with ct Cons show ?thesis by (auto simp: starts_with_def u_def)
  next
    case Nil
    then have "c < 58 \<and> c \<noteq> 45" using str_int_single [of n c] ct by (auto simp: is_digit_def)
    with ct Nil show ?thesis by (auto simp: starts_with_def u_def)
  qed
  ultimately show ?thesis
    using scan_number_str_int [OF assms] by (auto simp: scan_atom_def)
qed

lemma distinct_sort_key_fst: "distinct (map fst d) \<Longrightarrow> distinct (map fst (sort_key f d))"
  by (simp add: distinct_map)

lemma rescans_jcs: "jwf v \<Longrightarrow> rescans v"
proof (induction v rule: jcs.induct)
  case (6 vs)
  then have vs: "\<forall>v \<in> set vs. jwf v \<and> rescans v" by (auto simp: list_all_iff)
  show ?case
  proof (rule rescansI)
    fix l :: string and m r
    assume n: "2 * length (jcs (JArr vs) @ r) < Suc m"
    show "scan_once l (Suc m) (jcs (JArr vs) @ r) = Inr (JArr vs, r)"
    proof (cases "vs = []")
      case False
      then obtain c t where c: "comma_join (map jcs vs) = c # t" "\<not> json_ws c" "c \<noteq> 93"
        using vs jcs_head by (cases vs) (fastforce simp: comma_join_Cons)+
      have "scan_elements l m (comma_join (map jcs vs) @ 93 # r) = Inr (vs, r)"
        using False vs n by (intro rescan_elements) auto
      with c show ?thesis by simp
    qed simp
  qed
next
  case (7 d)
  let ?kvs = "sort_key (utf16 \<circ> fst) d"
  have d: "dict_wf d" "\<forall>kv \<in> set d. list_all scalar_value (fst kv) \<and> jwf (snd kv)"
    using "7.prems" by (auto simp: list_all_iff)
  then have kvs: "\<forall>kv \<in> set ?kvs. list_all scalar_value (fst kv) \<and> jwf (snd kv) \<and> rescans (snd kv)"
    using 7 by auto
  have shape: "jcs (JObj d) = 123 # comma_join (map jcs_member ?kvs) @ [125]"
    by (simp add: jcs_member_def [abs_def])
  have dup: "reject_duplicates l ?kvs = Inr (JObj d)" for l
  proof -
    have "distinct (map fst ?kvs)" using d(1) by (intro distinct_sort_key_fst dict_wf_distinct)
    moreover from this have "dict_of ?kvs = d" using d(1) by (intro dict_of_perm) auto
    ultimately show ?thesis by (simp add: reject_duplicates_def)
  qed
  show ?case
  proof (rule rescansI)
    fix l :: string and m r
    assume n: "2 * length (jcs (JObj d) @ r) < Suc m"
    show "scan_once l (Suc m) (jcs (JObj d) @ r) = Inr (JObj d, r)"
    proof (cases "d = []")
      case True
      then show ?thesis by simp
    next
      case False
      then have ne: "?kvs \<noteq> []" by (metis set_empty set_sort)
      then obtain t where t: "comma_join (map jcs_member ?kvs) = 34 # t" using jcs_member_head by blast
      have "scan_members l m (comma_join (map jcs_member ?kvs) @ 125 # r) = Inr (?kvs, r)"
        using kvs n ne unfolding shape by (intro rescan_members) auto
      with t dup show ?thesis unfolding shape by simp
    qed
  qed
next
  case (3 n)
  then show ?case
    using str_int_head [of n] rescan_atom [of n] by (intro rescansI) (auto simp: is_digit_def)
next
  case (5 s)
  then show ?case
    by (intro rescansI) (simp add: jcs_string_def scan_jcs_string join_surrogates_scalar)
qed (auto intro!: rescansI simp: u_def scan_atom_def starts_with_def)

lemma scalar_ascii: "c < 128 \<Longrightarrow> scalar_value c"
  by (simp add: scalar_value_def)

lemma jcs_string_scalar: "list_all scalar_value s \<Longrightarrow> list_all scalar_value (jcs_string s)"
proof -
  have "list_all scalar_value (escape_char c)" if "scalar_value c" for c
  proof -
    have "hex_digit (c mod 16) < 128" "c < 32 \<Longrightarrow> hex_digit (c div 16) < 128"
      by (auto simp: hex_digit_def)
    with that show ?thesis by (auto simp: escape_char_def scalar_ascii)
  qed
  then show "list_all scalar_value s \<Longrightarrow> list_all scalar_value (jcs_string s)"
    by (auto simp: jcs_string_def scalar_ascii list_all_iff)
qed

lemma comma_join_scalar:
  "\<forall>x \<in> set xs. list_all scalar_value x \<Longrightarrow> list_all scalar_value (comma_join xs)"
  by (induction xs) (auto simp: comma_join_Cons scalar_ascii)

lemma jcs_scalar: "jwf v \<Longrightarrow> list_all scalar_value (jcs v)"
proof (induction v rule: jcs.induct)
  case (3 n)
  then show ?case using str_int_ascii [of n] by (auto simp: list_all_iff scalar_ascii)
next
  case (7 d)
  then have "list_all scalar_value (jcs_string (fst kv) @ 58 # jcs (snd kv))" if "kv \<in> set d" for kv
    using that by (auto simp: list_all_iff [of _ d] scalar_ascii intro!: jcs_string_scalar)
  then show ?case by (auto simp: scalar_ascii intro!: comma_join_scalar)
next
  case (6 vs)
  then show ?case by (auto simp: list_all_iff [of _ vs] scalar_ascii intro!: comma_join_scalar)
qed (auto simp: u_def scalar_ascii jcs_string_scalar)

lemma json_loads_jcs: "jwf v \<Longrightarrow> json_loads l (jcs v) = Inr v"
proof -
  assume v: "jwf v"
  then have "scan_once l (Suc (2 * length (jcs v))) (jcs v @ []) = Inr (v, [])"
    by (intro rescansD rescans_jcs) auto
  moreover have "\<not> starts_with [0xFEFF] (jcs v)"
    using jcs_head [OF v] by auto
  moreover have "skip_ws (jcs v) = jcs v" using skip_ws_jcs [OF v, of "[]"] by simp
  ultimately show ?thesis by (simp add: json_loads_def skip_ws_def del: scan_once.simps)
qed

lemma jcs_dumps_law: "dumps_law jcs_dumps"
  unfolding dumps_law_def
proof (intro allI impI)
  fix v l
  assume v: "jwf v"
  then obtain bs where "utf8_encode (jcs v) = Some bs"
    using jcs_scalar utf8_encode_scalar by (metis option.exhaust)
  with v show "\<exists>bs. jcs_dumps v = Some bs \<and> loads_utf8 l bs = Inr v"
    by (simp add: jcs_dumps_def loads_utf8_def utf8_decode_encode json_loads_jcs)
qed

section \<open>The interface of the canonical encoder\<close>

locale canonical_encoder =
  fixes dumps :: "json \<Rightarrow> bytes option"
  assumes dumps_law: "dumps_law dumps"
begin

lemma dumps_wf: "jwf v \<Longrightarrow> \<exists>bs. dumps v = Some bs"
  using dumps_law by (auto simp: dumps_law_def)

lemma loads_dumps: "jwf v \<Longrightarrow> dumps v = Some bs \<Longrightarrow> loads_utf8 label bs = Inr v"
  using dumps_law by (fastforce simp: dumps_law_def)

lemma dumps_inj: "jwf v \<Longrightarrow> jwf w \<Longrightarrow> dumps v = Some bs \<Longrightarrow> dumps w = Some bs \<Longrightarrow> v = w"
  using loads_dumps by (metis sum.inject(2))

end

interpretation jcs: canonical_encoder jcs_dumps
  by unfold_locales (rule jcs_dumps_law)

end
