(* ===== verification/HoldGuards.thy ===== *)
theory HoldGuards
  imports Json
begin

text \<open>
  The shared part of the hold-expiry contract (\<open>state_contracts/artifact_hold.py\<close>): its enums, the
  \<open>_require_*\<close> guards, the canonical parser and digests, and the operation identifiers.

  Each guard is a list of checks in source order; a lemma gives the condition under which it does
  not raise. All guards raise \<open>ArtifactHoldExpiryConflict\<close>.
\<close>

abbreviation conflict :: "string \<Rightarrow> pyerr" where
  "conflict m \<equiv> ArtifactHoldExpiryConflict [m]"

section \<open>Enums and constants\<close>

datatype ArtifactHoldStatus = ACTIVE | RELEASED | EXPIRED

datatype ArtifactLifecycleStatus =
  PENDING_UPLOAD | AVAILABLE | QUARANTINED | DELETING | DELETED | FAILED

datatype ArtifactHoldExpiryOperation = SCAN | EXPIRE_OP | REPLAY_CLAIM

datatype ArtifactHoldExpiryEventSink = AUDIT | OUTBOX

fun hold_status_value :: "ArtifactHoldStatus \<Rightarrow> ustr" where
  "hold_status_value ACTIVE = u ''ACTIVE''"
| "hold_status_value RELEASED = u ''RELEASED''"
| "hold_status_value EXPIRED = u ''EXPIRED''"

fun operation_value :: "ArtifactHoldExpiryOperation \<Rightarrow> ustr" where
  "operation_value SCAN = u ''SCAN''"
| "operation_value EXPIRE_OP = u ''EXPIRE''"
| "operation_value REPLAY_CLAIM = u ''REPLAY_CLAIM''"

fun sink_value :: "ArtifactHoldExpiryEventSink \<Rightarrow> ustr" where
  "sink_value AUDIT = u ''AUDIT''"
| "sink_value OUTBOX = u ''OUTBOX''"

definition LEASE_MAX_MS :: int where
  "LEASE_MAX_MS = 300000"

definition EXPIRE_DOMAIN :: bytes where
  "EXPIRE_DOMAIN = map byte_of (u ''a2amesh-artifact-hold-expire-v1'')"

definition COMMIT_DOMAIN :: bytes where
  "COMMIT_DOMAIN = map byte_of (u ''a2amesh-artifact-hold-expire-commit-v1'')"

definition EVENT_DOMAIN :: bytes where
  "EVENT_DOMAIN = map byte_of (u ''a2amesh-artifact-hold-expire-event-v1'')"

definition REPLAY_CLAIM_DOMAIN :: bytes where
  "REPLAY_CLAIM_DOMAIN = map byte_of (u ''a2amesh-artifact-hold-replay-claim-v1'')"

definition REAPER_COMPONENT_TYPE :: ustr where
  "REAPER_COMPONENT_TYPE = u ''artifact-hold-reaper''"

definition REAPER_PRINCIPAL_ID :: ustr where
  "REAPER_PRINCIPAL_ID = u ''component:artifact-hold-reaper''"

definition EXPIRY_SUBJECT :: ustr where
  "EXPIRY_SUBJECT = u ''a2a.v1.state.artifact.hold.expire''"

definition DELETE_WORKER_COMPONENT_TYPE :: ustr where
  "DELETE_WORKER_COMPONENT_TYPE = u ''artifact-delete-worker''"

definition DELETE_SUBJECT :: ustr where
  "DELETE_SUBJECT = u ''a2a.v1.state.artifact.delete''"

section \<open>Guards\<close>

definition require_stable_text :: "ustr \<Rightarrow> string \<Rightarrow> check list" where
  "require_stable_text v label =
     [Check (v \<noteq> [] \<and> v = strip v)
        (ArtifactHoldExpiryConflict [label, '' must be non-empty trimmed text'']),
      Check (\<not> (0 \<in> set v \<or> list_ex is_control v))
        (ArtifactHoldExpiryConflict [label, '' contains a control character'']),
      Check (utf8_encode v \<noteq> None)
        (ArtifactHoldExpiryConflict [label, '' is not valid Unicode text''])]"

definition require_candidate_token :: "ustr \<Rightarrow> string \<Rightarrow> check list" where
  "require_candidate_token v label =
     require_stable_text v label @
     [Check (length v = 43 \<and> list_all token_char v)
        (ArtifactHoldExpiryConflict [label, '' must be 32-byte base64url'']),
      Check (case b64_decode (v @ [61]) of None \<Rightarrow> False
             | Some decoded \<Rightarrow> length decoded = 32 \<and> b64url_nopad decoded = v)
        (ArtifactHoldExpiryConflict [label, '' must be canonical 32-byte base64url''])]"

definition require_sha256 :: "ustr \<Rightarrow> string \<Rightarrow> check list" where
  "require_sha256 v label =
     require_stable_text v label @
     [Check (lower_sha256 v) (ArtifactHoldExpiryConflict [label, '' must be lowercase SHA-256 hex''])]"

definition require_integer_max :: "int \<Rightarrow> string \<Rightarrow> int \<Rightarrow> int \<Rightarrow> check list" where
  "require_integer_max v label minimum maximum =
     [Check (minimum \<le> v \<and> v \<le> maximum)
        (ArtifactHoldExpiryConflict [label, '' outside safe integer range''])]"

definition require_integer :: "int \<Rightarrow> string \<Rightarrow> int \<Rightarrow> check list" where
  "require_integer v label minimum = require_integer_max v label minimum MAX_SAFE_INTEGER"

text \<open>The integers the guards admit.\<close>

definition int_from :: "int \<Rightarrow> int \<Rightarrow> bool" where
  "int_from minimum v \<longleftrightarrow> minimum \<le> v \<and> v \<le> MAX_SAFE_INTEGER"

lemma ok_require_stable_text [simp]: "all_ok (require_stable_text v label) \<longleftrightarrow> stable_text v"
  by (auto simp: require_stable_text_def stable_text_utf8 list_ex_iff is_control_def)

lemma ok_require_candidate_token [simp]: "all_ok (require_candidate_token v label) \<longleftrightarrow> canonical_token v"
  using canonical_token_stable [of v] by (auto simp: require_candidate_token_def canonical_token_def)

lemma ok_require_sha256 [simp]: "all_ok (require_sha256 v label) \<longleftrightarrow> lower_sha256 v"
  by (auto simp: require_sha256_def lower_sha256_stable)

lemma ok_require_integer_max [simp]:
  "all_ok (require_integer_max v label minimum maximum) \<longleftrightarrow> minimum \<le> v \<and> v \<le> maximum"
  by (simp add: require_integer_max_def)

lemma ok_require_integer [simp]: "all_ok (require_integer v label minimum) \<longleftrightarrow> int_from minimum v"
  by (simp add: require_integer_def int_from_def)

lemma int_from_jwf: "int_from m v \<Longrightarrow> 0 \<le> m \<Longrightarrow> jwf (JInt v)"
  by (simp add: int_from_def)

lemma stable_text_jwf: "stable_text s \<Longrightarrow> jwf (JStr s)"
  by (simp add: stable_text_def)

lemma lower_sha256_jwf: "lower_sha256 s \<Longrightarrow> jwf (JStr s)"
  by (simp add: lower_sha256_stable stable_text_jwf del: jwf.simps)

lemma canonical_token_jwf: "canonical_token s \<Longrightarrow> jwf (JStr s)"
  by (simp add: canonical_token_stable stable_text_jwf del: jwf.simps)

lemma operation_value_inj [simp]: "operation_value a = operation_value b \<longleftrightarrow> a = b"
  by (cases a; cases b) auto

lemma operation_value_jwf: "jwf (JStr (operation_value oper))"
  by (cases oper) (simp_all add: u_def scalar_value_def)

lemma hold_status_value_jwf: "jwf (JStr (hold_status_value st))"
  by (cases st) (simp_all add: u_def scalar_value_def)

lemma schema_one_jwf: "jwf (JStr [49])"
  by (simp add: scalar_value_def)

lemmas field_jwf = schema_one_jwf int_from_jwf stable_text_jwf lower_sha256_jwf canonical_token_jwf
  operation_value_jwf hold_status_value_jwf

section \<open>Canonical JSON and digests\<close>

definition canonical_digest :: "(json \<Rightarrow> bytes option) \<Rightarrow> dict \<Rightarrow> ustr result" where
  "canonical_digest dumps payload =
     (case dumps (JObj payload) of None \<Rightarrow> Inl CanonicalizationError | Some bs \<Rightarrow> Inr (sha256_hex bs))"

definition event_digest :: "(json \<Rightarrow> bytes option) \<Rightarrow> dict \<Rightarrow> ustr result" where
  "event_digest dumps payload =
     (case dumps (JObj payload) of None \<Rightarrow> Inl CanonicalizationError
      | Some bs \<Rightarrow> Inr (sha256_hex (join_nul [EVENT_DOMAIN, bs])))"

definition canonical_json :: "(json \<Rightarrow> bytes option) \<Rightarrow> dict \<Rightarrow> bytes result" where
  "canonical_json dumps wire_dict =
     (case dumps (JObj wire_dict) of None \<Rightarrow> Inl CanonicalizationError | Some bs \<Rightarrow> Inr bs)"

definition parse_canonical_object :: "(json \<Rightarrow> bytes option) \<Rightarrow> bytes \<Rightarrow> string \<Rightarrow> dict result" where
  "parse_canonical_object dumps wire label =
     (case loads_utf8 label wire of
        Inl e \<Rightarrow> Inl (if e = UnicodeError \<or> e = JSONDecodeError
                  then ArtifactHoldExpiryConflict [label, '' is not valid UTF-8 JSON''] else e)
      | Inr (JObj parsed) \<Rightarrow>
          (case dumps (JObj parsed) of
             None \<Rightarrow> Inl (ArtifactHoldExpiryConflict [label, '' is not RFC8785-compatible''])
           | Some canonical \<Rightarrow>
               checked [Check (canonical = wire)
                  (ArtifactHoldExpiryConflict [label, '' is not canonical RFC8785 bytes''])] (Inr parsed))
      | Inr _ \<Rightarrow> Inl (ArtifactHoldExpiryConflict [label, '' must be a JSON object'']))"

definition require_exact_fields :: "dict \<Rightarrow> string list \<Rightarrow> string \<Rightarrow> check list" where
  "require_exact_fields v expected label =
     [Check (set (map fst v) = set (map u expected))
        (ArtifactHoldExpiryConflict [label, '' has missing or extra fields''])]"

text \<open>\<open>value["key"]\<close> followed by the type test the field's guard starts with. The error is the one
  that guard raises for a value of another type.\<close>

definition str_field :: "dict \<Rightarrow> string \<Rightarrow> pyerr \<Rightarrow> ustr result" where
  "str_field d key e = (case map_of d (u key) of
     None \<Rightarrow> Inl KeyError | Some (JStr s) \<Rightarrow> Inr s | Some _ \<Rightarrow> Inl e)"

definition text_field :: "dict \<Rightarrow> string \<Rightarrow> string \<Rightarrow> ustr result" where
  "text_field d key label =
     str_field d key (ArtifactHoldExpiryConflict [label, '' must be non-empty trimmed text''])"

definition int_field :: "dict \<Rightarrow> string \<Rightarrow> string \<Rightarrow> int result" where
  "int_field d key label = (case map_of d (u key) of
     None \<Rightarrow> Inl KeyError | Some (JInt n) \<Rightarrow> Inr n
   | Some _ \<Rightarrow> Inl (ArtifactHoldExpiryConflict [label, '' must be an integer'']))"

definition parse_operation :: "dict \<Rightarrow> string \<Rightarrow> ArtifactHoldExpiryOperation result" where
  "parse_operation d label = (case map_of d (u ''operation'') of
     None \<Rightarrow> Inl KeyError
   | Some v \<Rightarrow>
       (case find (\<lambda>m. v = JStr (operation_value m)) [SCAN, EXPIRE_OP, REPLAY_CLAIM] of
          Some m \<Rightarrow> Inr m | None \<Rightarrow> Inl (ArtifactHoldExpiryConflict [label, '' is unknown''])))"

lemma str_field_eq [simp]: "str_field d key e = Inr s \<longleftrightarrow> map_of d (u key) = Some (JStr s)"
  by (auto simp: str_field_def split: option.splits json.splits)

lemma text_field_eq [simp]: "text_field d key l = Inr s \<longleftrightarrow> map_of d (u key) = Some (JStr s)"
  by (simp add: text_field_def)

lemma int_field_eq [simp]: "int_field d key l = Inr n \<longleftrightarrow> map_of d (u key) = Some (JInt n)"
  by (auto simp: int_field_def split: option.splits json.splits)

lemma parse_operation_eq [simp]:
  "parse_operation d l = Inr oper \<longleftrightarrow> map_of d (u ''operation'') = Some (JStr (operation_value oper))"
  by (cases oper) (auto simp: parse_operation_def split: option.splits if_splits)

section \<open>Operation identifiers\<close>

definition artifact_hold_expiry_preimage :: "ustr \<Rightarrow> ustr \<Rightarrow> ustr \<Rightarrow> int \<Rightarrow> int \<Rightarrow> bytes result" where
  "artifact_hold_expiry_preimage artifact_id hold_id expected_hold_digest expected_artifact_version
      observed_expires_ms =
     checked (require_stable_text artifact_id ''artifact_id'' @
              require_stable_text hold_id ''hold_id'' @
              require_sha256 expected_hold_digest ''expected_hold_digest'' @
              require_integer expected_artifact_version ''expected_artifact_version'' 1 @
              require_integer observed_expires_ms ''observed_expires_ms'' 0)
      (bindE (enc_utf8 artifact_id) (\<lambda>a.
       bindE (enc_utf8 hold_id) (\<lambda>h.
       bindE (enc_ascii expected_hold_digest) (\<lambda>d.
       bindE (enc_ascii (str_int expected_artifact_version)) (\<lambda>v.
       bindE (enc_ascii (str_int observed_expires_ms)) (\<lambda>e.
         Inr (join_nul [EXPIRE_DOMAIN, a, h, d, v, e])))))))"

definition artifact_hold_expiry_operation_id :: "ustr \<Rightarrow> ustr \<Rightarrow> ustr \<Rightarrow> int \<Rightarrow> int \<Rightarrow> ustr result" where
  "artifact_hold_expiry_operation_id artifact_id hold_id expected_hold_digest expected_artifact_version
      observed_expires_ms =
     bindE (artifact_hold_expiry_preimage artifact_id hold_id expected_hold_digest
              expected_artifact_version observed_expires_ms) (\<lambda>preimage. Inr (sha256_hex preimage))"

definition replay_claim_preimage :: "ustr \<Rightarrow> ustr \<Rightarrow> bytes result" where
  "replay_claim_preimage expire_operation_id candidate_lease_id =
     checked (require_sha256 expire_operation_id ''expire_operation_id'' @
              require_candidate_token candidate_lease_id ''replay claim candidate lease ID'')
      (bindE (enc_ascii expire_operation_id) (\<lambda>e.
       bindE (enc_ascii candidate_lease_id) (\<lambda>l.
         Inr (join_nul [REPLAY_CLAIM_DOMAIN, e, l]))))"

definition artifact_hold_expiry_replay_claim_operation_id :: "ustr \<Rightarrow> ustr \<Rightarrow> ustr result" where
  "artifact_hold_expiry_replay_claim_operation_id expire_operation_id candidate_lease_id =
     bindE (replay_claim_preimage expire_operation_id candidate_lease_id) (\<lambda>p. Inr (sha256_hex p))"

section \<open>Facts on identifiers and digests\<close>

text \<open>The due tuples whose identifier exists.\<close>

definition due_tuple :: "ustr \<Rightarrow> ustr \<Rightarrow> ustr \<Rightarrow> int \<Rightarrow> int \<Rightarrow> bool" where
  "due_tuple a h d v e \<longleftrightarrow> stable_text a \<and> stable_text h \<and> lower_sha256 d \<and> int_from 1 v \<and> int_from 0 e"

lemma EXPIRE_DOMAIN_no_nul: "byte_of 0 \<notin> set EXPIRE_DOMAIN"
  unfolding EXPIRE_DOMAIN_def by (rule literal_no_nul) code_simp

lemma REPLAY_CLAIM_DOMAIN_no_nul: "byte_of 0 \<notin> set REPLAY_CLAIM_DOMAIN"
  unfolding REPLAY_CLAIM_DOMAIN_def by (rule literal_no_nul) code_simp

lemma COMMIT_DOMAIN_no_nul: "byte_of 0 \<notin> set COMMIT_DOMAIN"
  unfolding COMMIT_DOMAIN_def by (rule literal_no_nul) code_simp

definition expiry_parts :: "ustr \<Rightarrow> ustr \<Rightarrow> ustr \<Rightarrow> int \<Rightarrow> int \<Rightarrow> bytes list \<Rightarrow> bool" where
  "expiry_parts a h d v e ps \<longleftrightarrow> (\<exists>ab hb db vb eb. ps = [EXPIRE_DOMAIN, ab, hb, db, vb, eb] \<and>
     utf8_encode a = Some ab \<and> utf8_encode h = Some hb \<and> ascii_encode d = Some db \<and>
     ascii_encode (str_int v) = Some vb \<and> ascii_encode (str_int e) = Some eb \<and>
     (\<forall>x \<in> set ps. byte_of 0 \<notin> set x))"

lemma expiry_parts_exist: "due_tuple a h d v e \<Longrightarrow> \<exists>ps. expiry_parts a h d v e ps"
  using stable_text_encodes [of a] stable_text_encodes [of h] lower_sha256_encodes [of d]
    str_int_encodes [of v] str_int_encodes [of e] EXPIRE_DOMAIN_no_nul
  unfolding due_tuple_def expiry_parts_def by auto

lemma expiry_preimage_eq:
  "artifact_hold_expiry_preimage a h d v e = Inr p \<longleftrightarrow>
     due_tuple a h d v e \<and> (\<exists>ps. expiry_parts a h d v e ps \<and> p = join_nul ps)"
  using expiry_parts_exist [of a h d v e]
  by (auto simp: artifact_hold_expiry_preimage_def due_tuple_def expiry_parts_def)

lemma expiry_parts_inj:
  assumes "expiry_parts a h d v e ps" and "expiry_parts a' h' d' v' e' ps"
  shows "a = a' \<and> h = h' \<and> d = d' \<and> v = v' \<and> e = e'"
proof -
  have "a = a'" "h = h'" "d = d'" "str_int v = str_int v'" "str_int e = str_int e'"
    using assms by (auto simp: expiry_parts_def dest: utf8_encode_inj ascii_encode_inj)
  then show ?thesis by simp
qed

lemma expiry_preimage_inj:
  assumes "artifact_hold_expiry_preimage a h d v e = Inr p"
    and "artifact_hold_expiry_preimage a' h' d' v' e' = Inr p"
  shows "a = a' \<and> h = h' \<and> d = d' \<and> v = v' \<and> e = e'"
proof -
  from assms obtain ps ps' where p: "expiry_parts a h d v e ps" "p = join_nul ps"
    "expiry_parts a' h' d' v' e' ps'" "p = join_nul ps'"
    by (auto simp: expiry_preimage_eq)
  then have "ps = ps'" by (intro join_nul_inj) (auto simp: expiry_parts_def)
  with p show ?thesis using expiry_parts_inj by blast
qed

lemma expiry_operation_id_returns:
  "(\<exists>i. artifact_hold_expiry_operation_id a h d v e = Inr i) \<longleftrightarrow> due_tuple a h d v e"
  using expiry_parts_exist [of a h d v e]
  by (auto simp: artifact_hold_expiry_operation_id_def expiry_preimage_eq)

lemma expiry_operation_id_shape:
  "artifact_hold_expiry_operation_id a h d v e = Inr i \<Longrightarrow> lower_sha256 i"
  by (auto simp: artifact_hold_expiry_operation_id_def sha256_hex_shape)

lemma canonical_token_encodes:
  assumes "canonical_token s"
  shows "\<exists>bs. ascii_encode s = Some bs \<and> byte_of 0 \<notin> set bs"
proof -
  have "\<forall>c \<in> set s. 44 < c \<and> c < 0x80"
    using assms token_char_ascii [of s] by (auto simp: canonical_token_def list_all_iff)
  then have "ascii_encode s = Some (map byte_of s)" "0 \<notin> set s"
    by (auto simp: ascii_encode_def list_all_iff)
  then show ?thesis using ascii_encode_no_nul by blast
qed

lemma replay_claim_preimage_eq:
  "replay_claim_preimage e l = Inr p \<longleftrightarrow> lower_sha256 e \<and> canonical_token l \<and>
     (\<exists>eb lb. ascii_encode e = Some eb \<and> ascii_encode l = Some lb \<and> p = join_nul [REPLAY_CLAIM_DOMAIN, eb, lb])"
  by (auto simp: replay_claim_preimage_def)

lemma replay_claim_id_returns:
  "(\<exists>i. artifact_hold_expiry_replay_claim_operation_id e l = Inr i) \<longleftrightarrow> lower_sha256 e \<and> canonical_token l"
  using lower_sha256_encodes [of e] canonical_token_encodes [of l]
  by (auto simp: artifact_hold_expiry_replay_claim_operation_id_def replay_claim_preimage_eq)

lemma replay_claim_id_shape:
  "artifact_hold_expiry_replay_claim_operation_id e l = Inr i \<Longrightarrow> lower_sha256 i"
  by (auto simp: artifact_hold_expiry_replay_claim_operation_id_def sha256_hex_shape)

lemma canonical_digest_shape: "canonical_digest dumps p = Inr d \<Longrightarrow> lower_sha256 d"
  by (auto simp: canonical_digest_def sha256_hex_shape split: option.splits)

lemma event_digest_shape: "event_digest dumps p = Inr d \<Longrightarrow> lower_sha256 d"
  by (auto simp: event_digest_def sha256_hex_shape split: option.splits)

lemma parse_canonical_is_canonical:
  "parse_canonical_object dumps wire label = Inr d \<Longrightarrow> dumps (JObj d) = Some wire"
  by (auto simp: parse_canonical_object_def split: sum.splits json.splits option.splits if_splits)

lemma parse_canonical_dicts:
  "parse_canonical_object dumps wire label = Inr d \<Longrightarrow> dicts_wf (JObj d)"
  using loads_utf8_dicts [of label wire]
  by (auto simp: parse_canonical_object_def split: sum.splits json.splits option.splits if_splits
      simp del: dicts_wf.simps)

lemma canonical_json_eq [simp]: "canonical_json dumps d = Inr bs \<longleftrightarrow> dumps (JObj d) = Some bs"
  by (auto simp: canonical_json_def split: option.splits)

context canonical_encoder
begin

lemma canonical_digest_returns: "jwf (JObj p) \<Longrightarrow> \<exists>d. canonical_digest dumps p = Inr d"
  using dumps_wf [of "JObj p"] by (auto simp: canonical_digest_def)

lemma event_digest_returns: "jwf (JObj p) \<Longrightarrow> \<exists>d. event_digest dumps p = Inr d"
  using dumps_wf [of "JObj p"] by (auto simp: event_digest_def)

lemma parse_dumps: "jwf (JObj d) \<Longrightarrow> dumps (JObj d) = Some wire \<Longrightarrow> parse_canonical_object dumps wire label = Inr d"
  using loads_dumps [of "JObj d" wire label] by (simp add: parse_canonical_object_def)

text \<open>The shape of every \<open>from_canonical_json\<close>: it inverts \<open>canonical_json\<close> exactly.\<close>

lemma decode_iff:
  assumes "\<And>d. parse_canonical_object dumps wire label = Inr d \<Longrightarrow> f = Inr x \<longleftrightarrow> P \<and> d = w"
    and "f = Inr x \<Longrightarrow> \<exists>d. parse_canonical_object dumps wire label = Inr d" and "P \<Longrightarrow> jwf (JObj w)"
  shows "f = Inr x \<longleftrightarrow> P \<and> canonical_json dumps w = Inr wire"
proof
  assume f: "f = Inr x"
  then obtain d where "parse_canonical_object dumps wire label = Inr d" using assms(2) by blast
  with f assms(1) show "P \<and> canonical_json dumps w = Inr wire"
    using parse_canonical_is_canonical by auto
next
  assume "P \<and> canonical_json dumps w = Inr wire"
  with assms show "f = Inr x" using parse_dumps by simp
qed

end

end
