(* ===== verification/HoldScan.thy ===== *)
theory HoldScan
  imports HoldGuards
begin

text \<open>
  The SCAN side of the hold-expiry contract: the scan request, the candidate it hands out, the scan
  result, the authority seal kept for it and the State-issued allocation proof
  (\<open>ArtifactHoldExpiryScanRequest\<close>, \<open>ArtifactHoldExpiryCandidate\<close>, \<open>ArtifactHoldExpiryScanResult\<close>,
  \<open>ArtifactHoldExpiryScanAuthority\<close> and \<open>_ArtifactHoldExpiryScanAllocation\<close>).

  Every class is a record with its \<open>validate\<close> as a list of checks, its payload, digest, \<open>create\<close>,
  \<open>to_wire_dict\<close> and \<open>from_canonical_json\<close>. The \<open>_iff\<close> lemmas give the declarative meaning of each
  \<open>validate\<close>; the \<open>_created\<close> lemmas show when \<open>create\<close> returns and that what it returns validates.
\<close>

section \<open>Scan request\<close>

record ArtifactHoldExpiryScanRequest =
  sreq_schema_version :: ustr
  sreq_operation :: ArtifactHoldExpiryOperation
  sreq_scan_operation_id :: ustr
  sreq_max_candidates :: int
  sreq_idempotency_key :: ustr
  sreq_request_digest :: ustr

definition scan_request_payload :: "ArtifactHoldExpiryScanRequest \<Rightarrow> dict" where
  "scan_request_payload request = dict_of
     [(u ''schemaVersion'', JStr (sreq_schema_version request)),
      (u ''operation'', JStr (operation_value (sreq_operation request))),
      (u ''scanOperationId'', JStr (sreq_scan_operation_id request)),
      (u ''maxCandidates'', JInt (sreq_max_candidates request)),
      (u ''idempotencyKey'', JStr (sreq_idempotency_key request))]"

definition scan_request_digest :: "(json \<Rightarrow> bytes option) \<Rightarrow> ArtifactHoldExpiryScanRequest \<Rightarrow> ustr result" where
  "scan_request_digest dumps request = canonical_digest dumps (scan_request_payload request)"

definition scan_request_checks :: "(json \<Rightarrow> bytes option) \<Rightarrow> ArtifactHoldExpiryScanRequest \<Rightarrow> check list" where
  "scan_request_checks dumps r =
     [Check (sreq_schema_version r = u ''1'') (conflict ''unsupported hold expiry scan schema''),
      Check (sreq_operation r = SCAN) (conflict ''hold expiry scan operation must be SCAN'')] @
     require_sha256 (sreq_scan_operation_id r) ''scan_operation_id'' @
     require_sha256 (sreq_idempotency_key r) ''scan idempotency_key'' @
     require_sha256 (sreq_request_digest r) ''scan request_digest'' @
     require_integer_max (sreq_max_candidates r) ''max_candidates'' 1 100 @
     [Check (sreq_idempotency_key r = sreq_scan_operation_id r)
        (conflict ''scan idempotency_key must equal scan_operation_id'')] @
     digest_match (scan_request_digest dumps r) (sreq_request_digest r)
       (conflict ''scan request_digest mismatch'')"

definition scan_request_create :: "(json \<Rightarrow> bytes option) \<Rightarrow> ustr \<Rightarrow> int \<Rightarrow> ArtifactHoldExpiryScanRequest result" where
  "scan_request_create dumps scan_operation_id max_candidates =
     (let request = \<lparr> sreq_schema_version = u ''1'', sreq_operation = SCAN,
                      sreq_scan_operation_id = scan_operation_id, sreq_max_candidates = max_candidates,
                      sreq_idempotency_key = scan_operation_id, sreq_request_digest = [] \<rparr>
      in bindE (scan_request_digest dumps request) (\<lambda>digest.
         let created = request \<lparr> sreq_request_digest := digest \<rparr>
         in checked (scan_request_checks dumps created) (Inr created)))"

definition scan_request_wire_dict :: "ArtifactHoldExpiryScanRequest \<Rightarrow> dict" where
  "scan_request_wire_dict r =
     dict_union (scan_request_payload r) (dict_of [(u ''requestDigest'', JStr (sreq_request_digest r))])"

definition scan_request_from_json :: "(json \<Rightarrow> bytes option) \<Rightarrow> bytes \<Rightarrow> ArtifactHoldExpiryScanRequest result" where
  "scan_request_from_json dumps wire =
     bindE (parse_canonical_object dumps wire ''hold expiry scan request'') (\<lambda>v.
     checked (require_exact_fields v
         [''schemaVersion'', ''operation'', ''scanOperationId'', ''maxCandidates'', ''idempotencyKey'',
          ''requestDigest''] ''hold expiry scan request'')
     (bindE (parse_operation v ''scan request operation'') (\<lambda>operation.
      bindE (str_field v ''schemaVersion'' (conflict ''unsupported hold expiry scan schema'')) (\<lambda>schema_version.
      bindE (text_field v ''scanOperationId'' ''scan_operation_id'') (\<lambda>scan_operation_id.
      bindE (text_field v ''idempotencyKey'' ''scan idempotency_key'') (\<lambda>idempotency_key.
      bindE (text_field v ''requestDigest'' ''scan request_digest'') (\<lambda>request_digest.
      bindE (int_field v ''maxCandidates'' ''max_candidates'') (\<lambda>max_candidates.
      let request = \<lparr> sreq_schema_version = schema_version, sreq_operation = operation,
                      sreq_scan_operation_id = scan_operation_id, sreq_max_candidates = max_candidates,
                      sreq_idempotency_key = idempotency_key, sreq_request_digest = request_digest \<rparr>
      in checked (scan_request_checks dumps request) (Inr request)))))))))"

section \<open>Candidate\<close>

record ArtifactHoldExpiryCandidate =
  cand_schema_version :: ustr
  cand_scan_operation_id :: ustr
  cand_candidate_lease_id :: ustr
  cand_candidate_fencing_token :: int
  cand_candidate_token :: ustr
  cand_owner_principal_id :: ustr
  cand_owner_instance_id :: ustr
  cand_issued_at_ms :: int
  cand_lease_until_ms :: int
  cand_artifact_id :: ustr
  cand_hold_id :: ustr
  cand_expected_hold_digest :: ustr
  cand_expected_artifact_version :: int
  cand_observed_expires_ms :: int
  cand_candidate_digest :: ustr

definition candidate_payload :: "ArtifactHoldExpiryCandidate \<Rightarrow> dict" where
  "candidate_payload c = dict_of
     [(u ''schemaVersion'', JStr (cand_schema_version c)),
      (u ''scanOperationId'', JStr (cand_scan_operation_id c)),
      (u ''candidateLeaseId'', JStr (cand_candidate_lease_id c)),
      (u ''candidateFencingToken'', JInt (cand_candidate_fencing_token c)),
      (u ''candidateToken'', JStr (cand_candidate_token c)),
      (u ''ownerPrincipalId'', JStr (cand_owner_principal_id c)),
      (u ''ownerInstanceId'', JStr (cand_owner_instance_id c)),
      (u ''issuedAtMs'', JInt (cand_issued_at_ms c)),
      (u ''leaseUntilMs'', JInt (cand_lease_until_ms c)),
      (u ''artifactId'', JStr (cand_artifact_id c)),
      (u ''holdId'', JStr (cand_hold_id c)),
      (u ''expectedHoldDigest'', JStr (cand_expected_hold_digest c)),
      (u ''expectedArtifactVersion'', JInt (cand_expected_artifact_version c)),
      (u ''observedExpiresMs'', JInt (cand_observed_expires_ms c))]"

definition candidate_digest_of :: "(json \<Rightarrow> bytes option) \<Rightarrow> ArtifactHoldExpiryCandidate \<Rightarrow> ustr result" where
  "candidate_digest_of dumps c = canonical_digest dumps (candidate_payload c)"

definition candidate_checks :: "(json \<Rightarrow> bytes option) \<Rightarrow> ArtifactHoldExpiryCandidate \<Rightarrow> check list" where
  "candidate_checks dumps c =
     [Check (cand_schema_version c = u ''1'') (conflict ''unsupported expiry candidate schema'')] @
     require_sha256 (cand_scan_operation_id c) ''candidate.scan_operation_id'' @
     require_candidate_token (cand_candidate_lease_id c) ''candidate_lease_id'' @
     require_candidate_token (cand_candidate_token c) ''candidate_token'' @
     [Check (cand_candidate_lease_id c \<noteq> cand_candidate_token c)
        (conflict ''candidate lease ID and candidate token must be distinct'')] @
     require_integer (cand_candidate_fencing_token c) ''candidate_fencing_token'' 1 @
     require_stable_text (cand_owner_principal_id c) ''candidate owner principal'' @
     require_stable_text (cand_owner_instance_id c) ''candidate owner instance'' @
     require_integer (cand_issued_at_ms c) ''candidate issued_at_ms'' 0 @
     require_integer (cand_lease_until_ms c) ''candidate lease_until_ms'' 0 @
     [Check (\<not> cand_lease_until_ms c \<le> cand_issued_at_ms c)
        (conflict ''candidate lease must end after issue time''),
      Check (\<not> LEASE_MAX_MS < cand_lease_until_ms c - cand_issued_at_ms c)
        (conflict ''candidate lease exceeds maximum candidate lease duration'')] @
     require_stable_text (cand_artifact_id c) ''candidate artifact_id'' @
     require_stable_text (cand_hold_id c) ''candidate hold_id'' @
     require_sha256 (cand_expected_hold_digest c) ''candidate expected_hold_digest'' @
     require_integer (cand_expected_artifact_version c) ''candidate expected_artifact_version'' 1 @
     require_integer (cand_observed_expires_ms c) ''candidate observed_expires_ms'' 0 @
     require_sha256 (cand_candidate_digest c) ''candidate_digest'' @
     digest_match (candidate_digest_of dumps c) (cand_candidate_digest c) (conflict ''candidate_digest mismatch'')"

definition candidate_create ::
    "(json \<Rightarrow> bytes option) \<Rightarrow> ustr \<Rightarrow> ustr \<Rightarrow> int \<Rightarrow> ustr \<Rightarrow> ustr \<Rightarrow> ustr \<Rightarrow> int \<Rightarrow> int \<Rightarrow> ustr \<Rightarrow> ustr \<Rightarrow> ustr
     \<Rightarrow> int \<Rightarrow> int \<Rightarrow> ArtifactHoldExpiryCandidate result" where
  "candidate_create dumps scan_operation_id candidate_lease_id candidate_fencing_token candidate_token
      owner_principal_id owner_instance_id issued_at_ms lease_until_ms artifact_id hold_id
      expected_hold_digest expected_artifact_version observed_expires_ms =
     (let candidate = \<lparr> cand_schema_version = u ''1'', cand_scan_operation_id = scan_operation_id,
            cand_candidate_lease_id = candidate_lease_id,
            cand_candidate_fencing_token = candidate_fencing_token,
            cand_candidate_token = candidate_token, cand_owner_principal_id = owner_principal_id,
            cand_owner_instance_id = owner_instance_id, cand_issued_at_ms = issued_at_ms,
            cand_lease_until_ms = lease_until_ms, cand_artifact_id = artifact_id, cand_hold_id = hold_id,
            cand_expected_hold_digest = expected_hold_digest,
            cand_expected_artifact_version = expected_artifact_version,
            cand_observed_expires_ms = observed_expires_ms, cand_candidate_digest = [] \<rparr>
      in bindE (candidate_digest_of dumps candidate) (\<lambda>digest.
         let created = candidate \<lparr> cand_candidate_digest := digest \<rparr>
         in checked (candidate_checks dumps created) (Inr created)))"

definition candidate_wire_dict :: "ArtifactHoldExpiryCandidate \<Rightarrow> dict" where
  "candidate_wire_dict c =
     dict_union (candidate_payload c) (dict_of [(u ''candidateDigest'', JStr (cand_candidate_digest c))])"

definition candidate_fields :: "string list" where
  "candidate_fields =
     [''schemaVersion'', ''scanOperationId'', ''candidateLeaseId'', ''candidateFencingToken'',
      ''candidateToken'', ''ownerPrincipalId'', ''ownerInstanceId'', ''issuedAtMs'', ''leaseUntilMs'',
      ''artifactId'', ''holdId'', ''expectedHoldDigest'', ''expectedArtifactVersion'',
      ''observedExpiresMs'', ''candidateDigest'']"

definition candidate_from_mapping ::
    "(json \<Rightarrow> bytes option) \<Rightarrow> json \<Rightarrow> string \<Rightarrow> ArtifactHoldExpiryCandidate result" where
  "candidate_from_mapping dumps value label = (case value of
     JObj v \<Rightarrow>
       checked (require_exact_fields v candidate_fields label)
       (bindE (str_field v ''schemaVersion'' (conflict ''unsupported expiry candidate schema'')) (\<lambda>schema_version.
        bindE (text_field v ''scanOperationId'' ''candidate.scan_operation_id'') (\<lambda>scan_operation_id.
        bindE (text_field v ''candidateLeaseId'' ''candidate_lease_id'') (\<lambda>candidate_lease_id.
        bindE (text_field v ''candidateToken'' ''candidate_token'') (\<lambda>candidate_token.
        bindE (int_field v ''candidateFencingToken'' ''candidate_fencing_token'') (\<lambda>candidate_fencing_token.
        bindE (text_field v ''ownerPrincipalId'' ''candidate owner principal'') (\<lambda>owner_principal_id.
        bindE (text_field v ''ownerInstanceId'' ''candidate owner instance'') (\<lambda>owner_instance_id.
        bindE (int_field v ''issuedAtMs'' ''candidate issued_at_ms'') (\<lambda>issued_at_ms.
        bindE (int_field v ''leaseUntilMs'' ''candidate lease_until_ms'') (\<lambda>lease_until_ms.
        bindE (text_field v ''artifactId'' ''candidate artifact_id'') (\<lambda>artifact_id.
        bindE (text_field v ''holdId'' ''candidate hold_id'') (\<lambda>hold_id.
        bindE (text_field v ''expectedHoldDigest'' ''candidate expected_hold_digest'') (\<lambda>expected_hold_digest.
        bindE (int_field v ''expectedArtifactVersion'' ''candidate expected_artifact_version'') (\<lambda>expected_artifact_version.
        bindE (int_field v ''observedExpiresMs'' ''candidate observed_expires_ms'') (\<lambda>observed_expires_ms.
        bindE (text_field v ''candidateDigest'' ''candidate_digest'') (\<lambda>candidate_digest.
        let candidate = \<lparr> cand_schema_version = schema_version, cand_scan_operation_id = scan_operation_id,
              cand_candidate_lease_id = candidate_lease_id,
              cand_candidate_fencing_token = candidate_fencing_token,
              cand_candidate_token = candidate_token, cand_owner_principal_id = owner_principal_id,
              cand_owner_instance_id = owner_instance_id, cand_issued_at_ms = issued_at_ms,
              cand_lease_until_ms = lease_until_ms, cand_artifact_id = artifact_id, cand_hold_id = hold_id,
              cand_expected_hold_digest = expected_hold_digest,
              cand_expected_artifact_version = expected_artifact_version,
              cand_observed_expires_ms = observed_expires_ms, cand_candidate_digest = candidate_digest \<rparr>
        in checked (candidate_checks dumps candidate) (Inr candidate)))))))))))))))))
   | _ \<Rightarrow> Inl (ArtifactHoldExpiryConflict [label, '' must be an object'']))"

definition candidate_from_json :: "(json \<Rightarrow> bytes option) \<Rightarrow> bytes \<Rightarrow> ArtifactHoldExpiryCandidate result" where
  "candidate_from_json dumps wire =
     bindE (parse_canonical_object dumps wire ''hold expiry candidate'') (\<lambda>v.
       candidate_from_mapping dumps (JObj v) ''hold expiry candidate'')"

section \<open>Scan result\<close>

record ArtifactHoldExpiryScanResult =
  sres_schema_version :: ustr
  sres_scan_operation_id :: ustr
  sres_request_digest :: ustr
  sres_candidates :: "ArtifactHoldExpiryCandidate list"
  sres_result_digest :: ustr

definition scan_result_payload :: "ArtifactHoldExpiryScanResult \<Rightarrow> dict" where
  "scan_result_payload r = dict_of
     [(u ''schemaVersion'', JStr (sres_schema_version r)),
      (u ''scanOperationId'', JStr (sres_scan_operation_id r)),
      (u ''requestDigest'', JStr (sres_request_digest r)),
      (u ''candidates'', JArr (map (\<lambda>c. JObj (candidate_wire_dict c)) (sres_candidates r)))]"

definition scan_result_digest_of :: "(json \<Rightarrow> bytes option) \<Rightarrow> ArtifactHoldExpiryScanResult \<Rightarrow> ustr result" where
  "scan_result_digest_of dumps r = canonical_digest dumps (scan_result_payload r)"

text \<open>The sort key \<open>(artifact_id.encode(), hold_id.encode())\<close> and the order of such pairs.\<close>

definition cand_key :: "ArtifactHoldExpiryCandidate \<Rightarrow> (bytes \<times> bytes) option" where
  "cand_key c = (case (utf8_encode (cand_artifact_id c), utf8_encode (cand_hold_id c)) of
     (Some a, Some h) \<Rightarrow> Some (a, h) | _ \<Rightarrow> None)"

definition key_less :: "bytes \<times> bytes \<Rightarrow> bytes \<times> bytes \<Rightarrow> bool" where
  "key_less k l \<longleftrightarrow> fst k < fst l \<or> fst k = fst l \<and> snd k < snd l"

text \<open>The loop over the candidates, with the local variables \<open>previous_key\<close>, \<open>candidate_lease_ids\<close>,
  \<open>candidate_tokens\<close> and \<open>candidate_fences\<close>.\<close>

fun scan_candidates_checks ::
    "(json \<Rightarrow> bytes option) \<Rightarrow> ustr \<Rightarrow> (bytes \<times> bytes) option \<Rightarrow> ustr list \<Rightarrow> ustr list \<Rightarrow> int list
     \<Rightarrow> ArtifactHoldExpiryCandidate list \<Rightarrow> check list" where
  "scan_candidates_checks dumps scan_id prev lease_ids tokens fences [] = []"
| "scan_candidates_checks dumps scan_id prev lease_ids tokens fences (c # cs) =
     candidate_checks dumps c @
     [Check (cand_scan_operation_id c = scan_id) (conflict ''candidate scan operation mismatch''),
      Check (\<not> (cand_candidate_lease_id c \<in> set lease_ids \<or> cand_candidate_token c \<in> set tokens
               \<or> cand_candidate_fencing_token c \<in> set fences))
        (conflict ''scan result contains duplicate candidate authority''),
      Check (\<not> (cand_candidate_lease_id c \<in> set tokens \<or> cand_candidate_token c \<in> set lease_ids))
        (conflict ''candidate authority namespace collision''),
      Check (cand_key c \<noteq> None) UnicodeError,
      Check (case (prev, cand_key c) of (Some p, Some k) \<Rightarrow> key_less p k | _ \<Rightarrow> True)
        (conflict ''scan candidates must be unique and UTF-8 sorted'')] @
     scan_candidates_checks dumps scan_id (cand_key c) (cand_candidate_lease_id c # lease_ids)
       (cand_candidate_token c # tokens) (cand_candidate_fencing_token c # fences) cs"

definition scan_result_checks :: "(json \<Rightarrow> bytes option) \<Rightarrow> ArtifactHoldExpiryScanResult \<Rightarrow> check list" where
  "scan_result_checks dumps r =
     [Check (sres_schema_version r = u ''1'') (conflict ''unsupported expiry scan result schema'')] @
     require_sha256 (sres_scan_operation_id r) ''scan result operation ID'' @
     require_sha256 (sres_request_digest r) ''scan result request digest'' @
     scan_candidates_checks dumps (sres_scan_operation_id r) None [] [] [] (sres_candidates r) @
     require_sha256 (sres_result_digest r) ''scan result_digest'' @
     digest_match (scan_result_digest_of dumps r) (sres_result_digest r) (conflict ''scan result_digest mismatch'')"

definition scan_result_checks_for ::
    "(json \<Rightarrow> bytes option) \<Rightarrow> ArtifactHoldExpiryScanResult \<Rightarrow> ArtifactHoldExpiryScanRequest \<Rightarrow> check list" where
  "scan_result_checks_for dumps r request =
     scan_request_checks dumps request @
     scan_result_checks dumps r @
     [Check (\<not> (sres_scan_operation_id r \<noteq> sreq_scan_operation_id request
               \<or> sres_request_digest r \<noteq> sreq_request_digest request))
        (conflict ''scan result is not bound to originating request''),
      Check (\<not> sreq_max_candidates request < int (length (sres_candidates r)))
        (conflict ''scan result exceeds request max_candidates'')]"

definition scan_result_create ::
    "(json \<Rightarrow> bytes option) \<Rightarrow> ArtifactHoldExpiryScanRequest \<Rightarrow> ArtifactHoldExpiryCandidate list
     \<Rightarrow> ArtifactHoldExpiryScanResult result" where
  "scan_result_create dumps request candidates =
     checked (scan_request_checks dumps request @
       [Check (\<not> sreq_max_candidates request < int (length candidates))
          (conflict ''scan result exceeds request max_candidates'')])
     (let result = \<lparr> sres_schema_version = u ''1'',
                     sres_scan_operation_id = sreq_scan_operation_id request,
                     sres_request_digest = sreq_request_digest request,
                     sres_candidates = candidates, sres_result_digest = [] \<rparr>
      in bindE (scan_result_digest_of dumps result) (\<lambda>digest.
         let created = result \<lparr> sres_result_digest := digest \<rparr>
         in checked (scan_result_checks_for dumps created request) (Inr created)))"

definition scan_result_wire_dict :: "ArtifactHoldExpiryScanResult \<Rightarrow> dict" where
  "scan_result_wire_dict r =
     dict_union (scan_result_payload r) (dict_of [(u ''resultDigest'', JStr (sres_result_digest r))])"

text \<open>\<open>_candidate_from_mapping(candidate, f"scan candidate[{index}]")\<close> for each element.\<close>

fun candidates_from :: "(json \<Rightarrow> bytes option) \<Rightarrow> int \<Rightarrow> json list \<Rightarrow> ArtifactHoldExpiryCandidate list result" where
  "candidates_from dumps index [] = Inr []"
| "candidates_from dumps index (v # vs) =
     bindE (candidate_from_mapping dumps v (''scan candidate['' @ show_int index @ '']'')) (\<lambda>c.
     bindE (candidates_from dumps (index + 1) vs) (\<lambda>cs. Inr (c # cs)))"

definition scan_result_from_json :: "(json \<Rightarrow> bytes option) \<Rightarrow> bytes \<Rightarrow> ArtifactHoldExpiryScanResult result" where
  "scan_result_from_json dumps wire =
     bindE (parse_canonical_object dumps wire ''hold expiry scan result'') (\<lambda>v.
     checked (require_exact_fields v
         [''schemaVersion'', ''scanOperationId'', ''requestDigest'', ''candidates'', ''resultDigest'']
         ''hold expiry scan result'')
     (bindE (case map_of v (u ''candidates'') of None \<Rightarrow> Inl KeyError
             | Some (JArr vs) \<Rightarrow> Inr vs
             | Some _ \<Rightarrow> Inl (conflict ''hold expiry scan result candidates must be an array'')) (\<lambda>candidate_values.
      bindE (candidates_from dumps 0 candidate_values) (\<lambda>candidates.
      bindE (str_field v ''schemaVersion'' (conflict ''unsupported expiry scan result schema'')) (\<lambda>schema_version.
      bindE (text_field v ''scanOperationId'' ''scan result operation ID'') (\<lambda>scan_operation_id.
      bindE (text_field v ''requestDigest'' ''scan result request digest'') (\<lambda>request_digest.
      bindE (text_field v ''resultDigest'' ''scan result_digest'') (\<lambda>result_digest.
      let result = \<lparr> sres_schema_version = schema_version, sres_scan_operation_id = scan_operation_id,
                     sres_request_digest = request_digest, sres_candidates = candidates,
                     sres_result_digest = result_digest \<rparr>
      in checked (scan_result_checks dumps result) (Inr result)))))))))"

section \<open>Scan authority and allocation\<close>

record ArtifactHoldExpiryScanAuthority =
  sauth_schema_version :: ustr
  sauth_scan_operation_id :: ustr
  sauth_candidate_lease_id :: ustr
  sauth_candidate_token :: ustr
  sauth_candidate_digest :: ustr
  sauth_result_digest :: ustr
  sauth_owner_principal_id :: ustr
  sauth_owner_instance_id :: ustr
  sauth_candidate_fencing_token :: int
  sauth_issued_at_ms :: int
  sauth_lease_until_ms :: int

definition scan_authority_checks :: "ArtifactHoldExpiryScanAuthority \<Rightarrow> check list" where
  "scan_authority_checks a =
     [Check (sauth_schema_version a = u ''1'') (conflict ''unsupported scan authority schema'')] @
     require_sha256 (sauth_scan_operation_id a) ''scan authority operation ID'' @
     require_candidate_token (sauth_candidate_lease_id a) ''scan authority lease ID'' @
     require_candidate_token (sauth_candidate_token a) ''scan authority token'' @
     [Check (sauth_candidate_lease_id a \<noteq> sauth_candidate_token a)
        (conflict ''scan authority lease and token must differ'')] @
     require_sha256 (sauth_candidate_digest a) ''scan authority candidate digest'' @
     require_sha256 (sauth_result_digest a) ''scan authority result digest'' @
     require_stable_text (sauth_owner_principal_id a) ''scan authority owner principal'' @
     require_stable_text (sauth_owner_instance_id a) ''scan authority owner instance'' @
     require_integer (sauth_candidate_fencing_token a) ''scan authority fencing token'' 1 @
     require_integer (sauth_issued_at_ms a) ''scan authority issued_at_ms'' 0 @
     require_integer (sauth_lease_until_ms a) ''scan authority lease_until_ms'' 0 @
     [Check (\<not> sauth_lease_until_ms a \<le> sauth_issued_at_ms a)
        (conflict ''scan authority lease must end after issue time''),
      Check (\<not> LEASE_MAX_MS < sauth_lease_until_ms a - sauth_issued_at_ms a)
        (conflict ''scan authority lease exceeds maximum duration'')]"

definition scan_authority_create ::
    "(json \<Rightarrow> bytes option) \<Rightarrow> ArtifactHoldExpiryScanRequest \<Rightarrow> ArtifactHoldExpiryScanResult
     \<Rightarrow> ArtifactHoldExpiryCandidate \<Rightarrow> ArtifactHoldExpiryScanAuthority result" where
  "scan_authority_create dumps request result candidate =
     checked (scan_request_checks dumps request @ scan_result_checks_for dumps result request @
              candidate_checks dumps candidate @
              [Check (candidate \<in> set (sres_candidates result))
                 (conflict ''scan authority candidate is absent from scan result'')])
     (let authority = \<lparr> sauth_schema_version = u ''1'',
            sauth_scan_operation_id = sreq_scan_operation_id request,
            sauth_candidate_lease_id = cand_candidate_lease_id candidate,
            sauth_candidate_token = cand_candidate_token candidate,
            sauth_candidate_digest = cand_candidate_digest candidate,
            sauth_result_digest = sres_result_digest result,
            sauth_owner_principal_id = cand_owner_principal_id candidate,
            sauth_owner_instance_id = cand_owner_instance_id candidate,
            sauth_candidate_fencing_token = cand_candidate_fencing_token candidate,
            sauth_issued_at_ms = cand_issued_at_ms candidate,
            sauth_lease_until_ms = cand_lease_until_ms candidate \<rparr>
      in checked (scan_authority_checks authority) (Inr authority))"

definition scan_authority_checks_against ::
    "(json \<Rightarrow> bytes option) \<Rightarrow> ArtifactHoldExpiryScanAuthority \<Rightarrow> ArtifactHoldExpiryScanRequest
     \<Rightarrow> ArtifactHoldExpiryScanResult \<Rightarrow> ArtifactHoldExpiryCandidate \<Rightarrow> check list" where
  "scan_authority_checks_against dumps a request result candidate =
     scan_authority_checks a @
     scan_result_checks_for dumps result request @
     candidate_checks dumps candidate @
     [Check (candidate \<in> set (sres_candidates result))
        (conflict ''scan authority candidate is absent from scan result''),
      Check (\<not> (sauth_scan_operation_id a \<noteq> sreq_scan_operation_id request
        \<or> sauth_candidate_lease_id a \<noteq> cand_candidate_lease_id candidate
        \<or> sauth_candidate_token a \<noteq> cand_candidate_token candidate
        \<or> sauth_candidate_digest a \<noteq> cand_candidate_digest candidate
        \<or> sauth_result_digest a \<noteq> sres_result_digest result
        \<or> sauth_owner_principal_id a \<noteq> cand_owner_principal_id candidate
        \<or> sauth_owner_instance_id a \<noteq> cand_owner_instance_id candidate
        \<or> sauth_candidate_fencing_token a \<noteq> cand_candidate_fencing_token candidate
        \<or> sauth_issued_at_ms a \<noteq> cand_issued_at_ms candidate
        \<or> sauth_lease_until_ms a \<noteq> cand_lease_until_ms candidate))
        (conflict ''scan authority seal contradicts scan evidence'')]"

text \<open>The module-private sentinel objects, compared by identity.\<close>

datatype seal = SCAN_ALLOCATION_SEAL | REPLAY_AUTHORITY_SEAL | OTHER_OBJECT

record ArtifactHoldExpiryScanAllocation =
  salloc_request :: ArtifactHoldExpiryScanRequest
  salloc_candidate :: ArtifactHoldExpiryCandidate
  salloc_previous_fence_high_water :: int
  salloc_allocation_digest :: ustr
  salloc_seal :: seal

definition scan_allocation_payload :: "ArtifactHoldExpiryScanAllocation \<Rightarrow> dict" where
  "scan_allocation_payload a = dict_of
     [(u ''schemaVersion'', JStr (u ''1'')),
      (u ''scanOperationId'', JStr (sreq_scan_operation_id (salloc_request a))),
      (u ''requestDigest'', JStr (sreq_request_digest (salloc_request a))),
      (u ''candidateDigest'', JStr (cand_candidate_digest (salloc_candidate a))),
      (u ''previousFenceHighWater'', JInt (salloc_previous_fence_high_water a))]"

definition scan_allocation_digest_of :: "(json \<Rightarrow> bytes option) \<Rightarrow> ArtifactHoldExpiryScanAllocation \<Rightarrow> ustr result" where
  "scan_allocation_digest_of dumps a = canonical_digest dumps (scan_allocation_payload a)"

definition scan_allocation_checks :: "(json \<Rightarrow> bytes option) \<Rightarrow> ArtifactHoldExpiryScanAllocation \<Rightarrow> check list" where
  "scan_allocation_checks dumps a =
     [Check (salloc_seal a = SCAN_ALLOCATION_SEAL) (conflict ''scan allocation proof is not State-issued'')] @
     scan_request_checks dumps (salloc_request a) @
     candidate_checks dumps (salloc_candidate a) @
     require_integer (salloc_previous_fence_high_water a) ''scan allocation previous fence high-water'' 0 @
     [Check (cand_scan_operation_id (salloc_candidate a) = sreq_scan_operation_id (salloc_request a))
        (conflict ''scan allocation candidate operation mismatch''),
      Check (\<not> cand_candidate_fencing_token (salloc_candidate a) \<le> salloc_previous_fence_high_water a)
        (conflict ''scan allocation fence does not advance high-water'')] @
     require_sha256 (salloc_allocation_digest a) ''scan allocation digest'' @
     digest_match (scan_allocation_digest_of dumps a) (salloc_allocation_digest a)
       (conflict ''scan allocation digest mismatch'')"

definition scan_allocation_checks_against ::
    "(json \<Rightarrow> bytes option) \<Rightarrow> ArtifactHoldExpiryScanAllocation \<Rightarrow> ArtifactHoldExpiryScanRequest
     \<Rightarrow> ArtifactHoldExpiryCandidate \<Rightarrow> int \<Rightarrow> check list" where
  "scan_allocation_checks_against dumps a request candidate previous_fence_high_water =
     scan_allocation_checks dumps a @
     [Check (\<not> (salloc_request a \<noteq> request \<or> salloc_candidate a \<noteq> candidate
               \<or> salloc_previous_fence_high_water a \<noteq> previous_fence_high_water))
        (conflict ''scan allocation proof does not bind persisted scan evidence'')]"

definition issue_scan_allocation ::
    "(json \<Rightarrow> bytes option) \<Rightarrow> ArtifactHoldExpiryScanRequest \<Rightarrow> ArtifactHoldExpiryCandidate \<Rightarrow> int
     \<Rightarrow> ArtifactHoldExpiryScanAllocation result" where
  "issue_scan_allocation dumps request candidate previous_fence_high_water =
     checked (scan_request_checks dumps request @ candidate_checks dumps candidate @
              require_integer previous_fence_high_water ''scan allocation previous fence high-water'' 0)
     (let allocation = \<lparr> salloc_request = request, salloc_candidate = candidate,
                         salloc_previous_fence_high_water = previous_fence_high_water,
                         salloc_allocation_digest = [], salloc_seal = SCAN_ALLOCATION_SEAL \<rparr>
      in bindE (scan_allocation_digest_of dumps allocation) (\<lambda>digest.
         Inr (allocation \<lparr> salloc_allocation_digest := digest \<rparr>)))"

section \<open>What the guards mean\<close>

definition scan_request_fields :: "ArtifactHoldExpiryScanRequest \<Rightarrow> bool" where
  "scan_request_fields r \<longleftrightarrow> sreq_schema_version r = u ''1'' \<and> sreq_operation r = SCAN \<and>
     lower_sha256 (sreq_scan_operation_id r) \<and> 1 \<le> sreq_max_candidates r \<and> sreq_max_candidates r \<le> 100 \<and>
     sreq_idempotency_key r = sreq_scan_operation_id r"

lemma scan_request_iff:
  "all_ok (scan_request_checks dumps r) \<longleftrightarrow>
     scan_request_fields r \<and> scan_request_digest dumps r = Inr (sreq_request_digest r)"
  by (auto simp: scan_request_checks_def scan_request_fields_def scan_request_digest_def
      dest: canonical_digest_shape)

definition lease_window :: "int \<Rightarrow> int \<Rightarrow> bool" where
  "lease_window issued until \<longleftrightarrow> issued < until \<and> until - issued \<le> LEASE_MAX_MS"

definition candidate_fields_ok :: "ArtifactHoldExpiryCandidate \<Rightarrow> bool" where
  "candidate_fields_ok c \<longleftrightarrow> cand_schema_version c = u ''1'' \<and> lower_sha256 (cand_scan_operation_id c) \<and>
     canonical_token (cand_candidate_lease_id c) \<and> canonical_token (cand_candidate_token c) \<and>
     cand_candidate_lease_id c \<noteq> cand_candidate_token c \<and> int_from 1 (cand_candidate_fencing_token c) \<and>
     stable_text (cand_owner_principal_id c) \<and> stable_text (cand_owner_instance_id c) \<and>
     int_from 0 (cand_issued_at_ms c) \<and> int_from 0 (cand_lease_until_ms c) \<and>
     lease_window (cand_issued_at_ms c) (cand_lease_until_ms c) \<and>
     due_tuple (cand_artifact_id c) (cand_hold_id c) (cand_expected_hold_digest c)
       (cand_expected_artifact_version c) (cand_observed_expires_ms c)"

lemma candidate_iff:
  "all_ok (candidate_checks dumps c) \<longleftrightarrow>
     candidate_fields_ok c \<and> candidate_digest_of dumps c = Inr (cand_candidate_digest c)"
  by (auto simp: candidate_checks_def candidate_fields_ok_def candidate_digest_of_def lease_window_def
      due_tuple_def not_le not_less dest: canonical_digest_shape)

lemma scan_request_payload_jwf: "scan_request_fields r \<Longrightarrow> jwf (JObj (scan_request_payload r))"
  unfolding scan_request_payload_def
  by (rule jwf_dict_of) (auto simp: scan_request_fields_def u_def scalar_value_def MAX_SAFE_INTEGER_def
      intro: field_jwf [unfolded jwf.simps])

lemma candidate_payload_jwf: "candidate_fields_ok c \<Longrightarrow> jwf (JObj (candidate_payload c))"
  unfolding candidate_payload_def
  by (rule jwf_dict_of) (auto simp: candidate_fields_ok_def due_tuple_def u_def scalar_value_def
      simp del: jwf.simps(3,5) intro: field_jwf)

lemma scan_request_payload_digest [simp]:
  "scan_request_payload (r \<lparr> sreq_request_digest := d \<rparr>) = scan_request_payload r"
  by (simp add: scan_request_payload_def)

lemma candidate_payload_digest [simp]:
  "candidate_payload (c \<lparr> cand_candidate_digest := d \<rparr>) = candidate_payload c"
  by (simp add: candidate_payload_def)

lemma candidate_wire_jwf: "all_ok (candidate_checks dumps c) \<Longrightarrow> jwf (JObj (candidate_wire_dict c))"
proof -
  assume c: "all_ok (candidate_checks dumps c)"
  then have "jwf (JObj (candidate_payload c))" "lower_sha256 (cand_candidate_digest c)"
    by (auto simp: candidate_iff candidate_payload_jwf candidate_digest_of_def simp del: jwf.simps
        dest: canonical_digest_shape)
  then show ?thesis
    unfolding candidate_wire_dict_def
    by (intro jwf_dict_union) (auto intro!: jwf_dict_of simp: u_def scalar_value_def simp del: jwf.simps
        intro: field_jwf)
qed

section \<open>Wire round trips\<close>

lemma candidate_wire_keys: "set (map fst (candidate_wire_dict c)) = set (map u candidate_fields)"
  by (auto simp: candidate_wire_dict_def candidate_payload_def candidate_fields_def keys_dict_of)

lemma candidate_from_mapping_iff:
  assumes "dicts_wf (JObj d)"
  shows "candidate_from_mapping dumps (JObj d) label = Inr c \<longleftrightarrow>
    all_ok (candidate_checks dumps c) \<and> d = candidate_wire_dict c"
proof
  assume "candidate_from_mapping dumps (JObj d) label = Inr c"
  then have "all_ok (candidate_checks dumps c)" "set (map fst d) = set (map u candidate_fields)"
    and "\<forall>k \<in> set candidate_fields. map_of d (u k) = map_of (candidate_wire_dict c) (u k)"
    by (auto simp: candidate_from_mapping_def require_exact_fields_def Let_def
        candidate_wire_dict_def candidate_payload_def candidate_fields_def map_of_dict_of)
  then show "all_ok (candidate_checks dumps c) \<and> d = candidate_wire_dict c"
    using assms candidate_wire_keys dict_eq_on_fields [of d "candidate_wire_dict c" candidate_fields]
    by (auto simp: candidate_wire_dict_def)
next
  assume "all_ok (candidate_checks dumps c) \<and> d = candidate_wire_dict c"
  then show "candidate_from_mapping dumps (JObj d) label = Inr c"
    using candidate_wire_keys [of c]
    by (cases c) (simp add: candidate_from_mapping_def require_exact_fields_def Let_def
        candidate_wire_dict_def candidate_payload_def map_of_dict_of)
qed

lemma candidate_wire_dicts: "dicts_wf (JObj (candidate_wire_dict c))"
  using set_dict_of by (fastforce simp: candidate_wire_dict_def candidate_payload_def list_all_iff)

lemma candidates_from_iff:
  assumes "list_all dicts_wf vs"
  shows "candidates_from dumps i vs = Inr cs \<longleftrightarrow>
    (\<forall>c \<in> set cs. all_ok (candidate_checks dumps c)) \<and> vs = map (\<lambda>c. JObj (candidate_wire_dict c)) cs"
  using assms
proof (induction vs arbitrary: i cs)
  case Nil
  then show ?case by auto
next
  case (Cons v vs)
  have "candidate_from_mapping dumps v l = Inr c \<longleftrightarrow>
      all_ok (candidate_checks dumps c) \<and> v = JObj (candidate_wire_dict c)" for l c
  proof (cases v)
    case (JObj d)
    with Cons.prems show ?thesis using candidate_from_mapping_iff [of d] by auto
  qed (simp_all add: candidate_from_mapping_def)
  with Cons show ?case by (cases cs) auto
qed

lemma scan_request_wire_keys:
  "set (map fst (scan_request_wire_dict r)) = set (map u [''schemaVersion'', ''operation'',
     ''scanOperationId'', ''maxCandidates'', ''idempotencyKey'', ''requestDigest''])"
  by (auto simp: scan_request_wire_dict_def scan_request_payload_def keys_dict_of)

lemma scan_request_decode:
  assumes "parse_canonical_object dumps wire ''hold expiry scan request'' = Inr d"
  shows "scan_request_from_json dumps wire = Inr r \<longleftrightarrow>
    all_ok (scan_request_checks dumps r) \<and> d = scan_request_wire_dict r"
proof
  let ?fs = "[''schemaVersion'', ''operation'', ''scanOperationId'', ''maxCandidates'', ''idempotencyKey'', ''requestDigest'']"
  assume "scan_request_from_json dumps wire = Inr r"
  then have "all_ok (scan_request_checks dumps r)" "set (map fst d) = set (map u ?fs)"
    and "\<forall>k \<in> set ?fs. map_of d (u k) = map_of (scan_request_wire_dict r) (u k)"
    by (auto simp: scan_request_from_json_def require_exact_fields_def Let_def assms
        scan_request_wire_dict_def scan_request_payload_def map_of_dict_of)
  then show "all_ok (scan_request_checks dumps r) \<and> d = scan_request_wire_dict r"
    using parse_canonical_dicts [OF assms] scan_request_wire_keys
      dict_eq_on_fields [of d "scan_request_wire_dict r" ?fs]
    by (auto simp: scan_request_wire_dict_def)
next
  assume "all_ok (scan_request_checks dumps r) \<and> d = scan_request_wire_dict r"
  then show "scan_request_from_json dumps wire = Inr r"
    using scan_request_wire_keys [of r]
    by (cases r) (simp add: scan_request_from_json_def require_exact_fields_def Let_def assms
        scan_request_wire_dict_def scan_request_payload_def map_of_dict_of)
qed

lemma scan_request_wire_jwf: "all_ok (scan_request_checks dumps r) \<Longrightarrow> jwf (JObj (scan_request_wire_dict r))"
proof -
  assume r: "all_ok (scan_request_checks dumps r)"
  then have "jwf (JObj (scan_request_payload r))" "lower_sha256 (sreq_request_digest r)"
    by (auto simp: scan_request_iff scan_request_payload_jwf scan_request_digest_def simp del: jwf.simps
        dest: canonical_digest_shape)
  then show ?thesis
    unfolding scan_request_wire_dict_def
    by (intro jwf_dict_union) (auto intro!: jwf_dict_of simp: u_def scalar_value_def simp del: jwf.simps
        intro: field_jwf)
qed

definition scan_result_fields :: "string list" where
  "scan_result_fields = [''schemaVersion'', ''scanOperationId'', ''requestDigest'', ''candidates'', ''resultDigest'']"

lemma scan_result_wire_keys: "set (map fst (scan_result_wire_dict r)) = set (map u scan_result_fields)"
  by (auto simp: scan_result_wire_dict_def scan_result_payload_def scan_result_fields_def keys_dict_of)

lemma scan_candidates_valid:
  "all_ok (scan_candidates_checks dumps i prev ls ts fs cs) \<Longrightarrow> \<forall>c \<in> set cs. all_ok (candidate_checks dumps c)"
  by (induction dumps i prev ls ts fs cs rule: scan_candidates_checks.induct) auto

lemma scan_result_valid_candidates:
  "all_ok (scan_result_checks dumps r) \<Longrightarrow> \<forall>c \<in> set (sres_candidates r). all_ok (candidate_checks dumps c)"
  using scan_candidates_valid unfolding scan_result_checks_def all_ok_append by blast

lemma scan_result_decode:
  assumes "parse_canonical_object dumps wire ''hold expiry scan result'' = Inr d"
  shows "scan_result_from_json dumps wire = Inr r \<longleftrightarrow>
    all_ok (scan_result_checks dumps r) \<and> d = scan_result_wire_dict r"
proof
  assume "scan_result_from_json dumps wire = Inr r"
  then obtain vs where vs: "map_of d (u ''candidates'') = Some (JArr vs)"
    and cs: "candidates_from dumps 0 vs = Inr (sres_candidates r)"
    and r: "all_ok (scan_result_checks dumps r)" "set (map fst d) = set (map u scan_result_fields)"
      "map_of d (u ''schemaVersion'') = Some (JStr (sres_schema_version r))"
      "map_of d (u ''scanOperationId'') = Some (JStr (sres_scan_operation_id r))"
      "map_of d (u ''requestDigest'') = Some (JStr (sres_request_digest r))"
      "map_of d (u ''resultDigest'') = Some (JStr (sres_result_digest r))"
    by (auto simp: scan_result_from_json_def require_exact_fields_def Let_def assms scan_result_fields_def
        split: option.splits json.splits)
  have "list_all dicts_wf vs"
    using parse_canonical_dicts [OF assms] map_of_SomeD [OF vs] by (auto simp: list_all_iff)
  then have "vs = map (\<lambda>c. JObj (candidate_wire_dict c)) (sres_candidates r)"
    using cs by (simp add: candidates_from_iff)
  with r vs have "\<forall>k \<in> set scan_result_fields. map_of d (u k) = map_of (scan_result_wire_dict r) (u k)"
    by (simp add: scan_result_fields_def scan_result_wire_dict_def scan_result_payload_def map_of_dict_of)
  with r show "all_ok (scan_result_checks dumps r) \<and> d = scan_result_wire_dict r"
    using parse_canonical_dicts [OF assms] scan_result_wire_keys
      dict_eq_on_fields [of d "scan_result_wire_dict r" scan_result_fields]
    by (auto simp: scan_result_wire_dict_def)
next
  assume r: "all_ok (scan_result_checks dumps r) \<and> d = scan_result_wire_dict r"
  have "list_all dicts_wf (map (\<lambda>c. JObj (candidate_wire_dict c)) cs)" for cs
    by (simp add: list_all_iff candidate_wire_dicts del: dicts_wf.simps)
  with r show "scan_result_from_json dumps wire = Inr r"
    using scan_result_wire_keys [of r] scan_result_valid_candidates [of dumps r]
    by (cases r) (simp add: scan_result_from_json_def require_exact_fields_def Let_def assms
        scan_result_wire_dict_def scan_result_payload_def map_of_dict_of candidates_from_iff
        scan_result_fields_def)
qed

section \<open>Scan results, authorities and allocations\<close>

lemma key_less_trans: "key_less a b \<Longrightarrow> key_less b c \<Longrightarrow> key_less a c"
  by (auto simp: key_less_def)

lemma key_less_irrefl: "\<not> key_less a a"
  by (simp add: key_less_def)

lemma valid_candidate_key: "all_ok (candidate_checks dumps c) \<Longrightarrow> cand_key c \<noteq> None"
  using stable_text_encodes [of "cand_artifact_id c"] stable_text_encodes [of "cand_hold_id c"]
  by (auto simp: candidate_iff candidate_fields_ok_def due_tuple_def cand_key_def)

abbreviation lease_ids :: "ArtifactHoldExpiryCandidate list \<Rightarrow> ustr list" where
  "lease_ids cs \<equiv> map cand_candidate_lease_id cs"

abbreviation token_ids :: "ArtifactHoldExpiryCandidate list \<Rightarrow> ustr list" where
  "token_ids cs \<equiv> map cand_candidate_token cs"

abbreviation fence_ids :: "ArtifactHoldExpiryCandidate list \<Rightarrow> int list" where
  "fence_ids cs \<equiv> map cand_candidate_fencing_token cs"

text \<open>The loop of \<open>ArtifactHoldExpiryScanResult.validate\<close>: every candidate is valid and belongs to the
  scan, lease identifiers and tokens are all different from each other, fences are different, and
  the keys increase.\<close>

lemma scan_candidates_iff:
  "all_ok (scan_candidates_checks dumps i prev ls ts fs cs) \<longleftrightarrow>
     (\<forall>c \<in> set cs. all_ok (candidate_checks dumps c) \<and> cand_scan_operation_id c = i) \<and>
     distinct (lease_ids cs @ token_ids cs) \<and> distinct (fence_ids cs) \<and>
     set (lease_ids cs) \<inter> (set ls \<union> set ts) = {} \<and> set (token_ids cs) \<inter> (set ls \<union> set ts) = {} \<and>
     set (fence_ids cs) \<inter> set fs = {} \<and>
     sorted_wrt key_less ((case prev of None \<Rightarrow> [] | Some p \<Rightarrow> [p]) @ map (the \<circ> cand_key) cs)"
proof (induction dumps i prev ls ts fs cs rule: scan_candidates_checks.induct)
  case (1 dumps i prev ls ts fs)
  then show ?case by (cases prev) auto
next
  case (2 dumps i prev ls ts fs c cs)
  show ?case
  proof (cases "all_ok (candidate_checks dumps c)")
    case True
    then obtain k where k: "cand_key c = Some k" using valid_candidate_key by blast
    have ne: "cand_candidate_lease_id c \<noteq> cand_candidate_token c"
      using True by (simp add: candidate_iff candidate_fields_ok_def)
    have sorted: "sorted_wrt key_less ((case prev of None \<Rightarrow> [] | Some p \<Rightarrow> [p]) @ map (the \<circ> cand_key) (c # cs)) \<longleftrightarrow>
      (case (prev, cand_key c) of (Some p, Some k) \<Rightarrow> key_less p k | _ \<Rightarrow> True) \<and>
      sorted_wrt key_less ([k] @ map (the \<circ> cand_key) cs)"
      using k by (cases prev) (auto intro: key_less_trans [of _ k])
    show ?thesis
      unfolding sorted scan_candidates_checks.simps all_ok_append all_ok.simps 2
      using True k ne by (simp add: conj_ac del: sorted_wrt.simps)
  qed simp
qed

definition scan_result_fields_ok :: "(json \<Rightarrow> bytes option) \<Rightarrow> ArtifactHoldExpiryScanResult \<Rightarrow> bool" where
  "scan_result_fields_ok dumps r \<longleftrightarrow> sres_schema_version r = u ''1'' \<and> lower_sha256 (sres_scan_operation_id r) \<and>
     lower_sha256 (sres_request_digest r) \<and>
     (\<forall>c \<in> set (sres_candidates r). all_ok (candidate_checks dumps c) \<and>
        cand_scan_operation_id c = sres_scan_operation_id r) \<and>
     distinct (lease_ids (sres_candidates r) @ token_ids (sres_candidates r)) \<and>
     distinct (fence_ids (sres_candidates r)) \<and>
     sorted_wrt key_less (map (the \<circ> cand_key) (sres_candidates r))"

lemma scan_result_iff:
  "all_ok (scan_result_checks dumps r) \<longleftrightarrow>
     scan_result_fields_ok dumps r \<and> scan_result_digest_of dumps r = Inr (sres_result_digest r)"
  by (auto simp: scan_result_checks_def scan_candidates_iff scan_result_fields_ok_def
      scan_result_digest_of_def dest: canonical_digest_shape)

lemma scan_result_for_iff:
  "all_ok (scan_result_checks_for dumps r request) \<longleftrightarrow>
     all_ok (scan_request_checks dumps request) \<and> all_ok (scan_result_checks dumps r) \<and>
     sres_scan_operation_id r = sreq_scan_operation_id request \<and>
     sres_request_digest r = sreq_request_digest request \<and>
     int (length (sres_candidates r)) \<le> sreq_max_candidates request"
  by (auto simp: scan_result_checks_for_def)

lemma scan_result_payload_jwf: "scan_result_fields_ok dumps r \<Longrightarrow> jwf (JObj (scan_result_payload r))"
  unfolding scan_result_payload_def
  by (rule jwf_dict_of)
    (auto simp: scan_result_fields_ok_def u_def scalar_value_def list_all_iff
      simp del: jwf.simps(1-5,7) intro: field_jwf candidate_wire_jwf)

lemma scan_result_payload_digest [simp]:
  "scan_result_payload (r \<lparr> sres_result_digest := d \<rparr>) = scan_result_payload r"
  by (simp add: scan_result_payload_def)

lemma scan_result_wire_jwf: "all_ok (scan_result_checks dumps r) \<Longrightarrow> jwf (JObj (scan_result_wire_dict r))"
proof -
  assume r: "all_ok (scan_result_checks dumps r)"
  then have "jwf (JObj (scan_result_payload r))" "lower_sha256 (sres_result_digest r)"
    by (auto simp: scan_result_iff scan_result_digest_of_def simp del: jwf.simps
        intro: scan_result_payload_jwf dest: canonical_digest_shape)
  then show ?thesis
    unfolding scan_result_wire_dict_def
    by (intro jwf_dict_union) (auto intro!: jwf_dict_of simp: u_def scalar_value_def simp del: jwf.simps
        intro: field_jwf)
qed

lemma scan_authority_iff:
  "all_ok (scan_authority_checks a) \<longleftrightarrow> sauth_schema_version a = u ''1'' \<and>
     lower_sha256 (sauth_scan_operation_id a) \<and> canonical_token (sauth_candidate_lease_id a) \<and>
     canonical_token (sauth_candidate_token a) \<and> sauth_candidate_lease_id a \<noteq> sauth_candidate_token a \<and>
     lower_sha256 (sauth_candidate_digest a) \<and> lower_sha256 (sauth_result_digest a) \<and>
     stable_text (sauth_owner_principal_id a) \<and> stable_text (sauth_owner_instance_id a) \<and>
     int_from 1 (sauth_candidate_fencing_token a) \<and> int_from 0 (sauth_issued_at_ms a) \<and>
     int_from 0 (sauth_lease_until_ms a) \<and> lease_window (sauth_issued_at_ms a) (sauth_lease_until_ms a)"
  by (auto simp: scan_authority_checks_def lease_window_def not_le not_less)

text \<open>The seal of a candidate is determined by the scan evidence.\<close>

definition authority_of ::
    "ArtifactHoldExpiryScanRequest \<Rightarrow> ArtifactHoldExpiryScanResult \<Rightarrow> ArtifactHoldExpiryCandidate
     \<Rightarrow> ArtifactHoldExpiryScanAuthority" where
  "authority_of request result candidate = \<lparr> sauth_schema_version = u ''1'',
     sauth_scan_operation_id = sreq_scan_operation_id request,
     sauth_candidate_lease_id = cand_candidate_lease_id candidate,
     sauth_candidate_token = cand_candidate_token candidate,
     sauth_candidate_digest = cand_candidate_digest candidate,
     sauth_result_digest = sres_result_digest result,
     sauth_owner_principal_id = cand_owner_principal_id candidate,
     sauth_owner_instance_id = cand_owner_instance_id candidate,
     sauth_candidate_fencing_token = cand_candidate_fencing_token candidate,
     sauth_issued_at_ms = cand_issued_at_ms candidate,
     sauth_lease_until_ms = cand_lease_until_ms candidate \<rparr>"

lemma candidate_digest_shape: "all_ok (candidate_checks dumps c) \<Longrightarrow> lower_sha256 (cand_candidate_digest c)"
  by (auto simp: candidate_iff candidate_digest_of_def dest: canonical_digest_shape)

lemma scan_request_digest_shape: "all_ok (scan_request_checks dumps r) \<Longrightarrow> lower_sha256 (sreq_request_digest r)"
  by (auto simp: scan_request_iff scan_request_digest_def dest: canonical_digest_shape)

lemma scan_result_digest_shape: "all_ok (scan_result_checks dumps r) \<Longrightarrow> lower_sha256 (sres_result_digest r)"
  by (auto simp: scan_result_iff scan_result_digest_of_def dest: canonical_digest_shape)

lemma scan_authority_against_iff:
  "all_ok (scan_authority_checks_against dumps a request result candidate) \<longleftrightarrow>
     all_ok (scan_result_checks_for dumps result request) \<and> candidate \<in> set (sres_candidates result) \<and>
     a = authority_of request result candidate"
proof
  assume "all_ok (scan_authority_checks_against dumps a request result candidate)"
  then show "all_ok (scan_result_checks_for dumps result request) \<and>
      candidate \<in> set (sres_candidates result) \<and> a = authority_of request result candidate"
    by (cases a) (simp add: scan_authority_checks_against_def scan_authority_iff authority_of_def)
next
  assume r: "all_ok (scan_result_checks_for dumps result request) \<and>
      candidate \<in> set (sres_candidates result) \<and> a = authority_of request result candidate"
  then have c: "all_ok (candidate_checks dumps candidate)" "all_ok (scan_result_checks dumps result)"
    "all_ok (scan_request_checks dumps request)"
    by (auto simp: scan_result_for_iff scan_result_iff scan_result_fields_ok_def)
  then have "all_ok (scan_authority_checks a)"
    using r candidate_digest_shape [OF c(1)] scan_result_digest_shape [OF c(2)]
    by (simp add: scan_authority_iff authority_of_def candidate_iff candidate_fields_ok_def
        scan_request_iff scan_request_fields_def)
  with r c show "all_ok (scan_authority_checks_against dumps a request result candidate)"
    by (simp add: scan_authority_checks_against_def authority_of_def)
qed

lemma scan_authority_created:
  "scan_authority_create dumps request result candidate = Inr a \<longleftrightarrow>
     all_ok (scan_authority_checks_against dumps a request result candidate)"
  unfolding scan_authority_against_iff
proof
  assume "scan_authority_create dumps request result candidate = Inr a"
  then show "all_ok (scan_result_checks_for dumps result request) \<and>
      candidate \<in> set (sres_candidates result) \<and> a = authority_of request result candidate"
    by (simp add: scan_authority_create_def Let_def authority_of_def)
next
  assume r: "all_ok (scan_result_checks_for dumps result request) \<and>
      candidate \<in> set (sres_candidates result) \<and> a = authority_of request result candidate"
  then have "all_ok (scan_authority_checks_against dumps a request result candidate)"
    by (simp add: scan_authority_against_iff)
  with r show "scan_authority_create dumps request result candidate = Inr a"
    by (simp add: scan_authority_create_def Let_def authority_of_def scan_authority_checks_against_def
        scan_result_for_iff)
qed

lemma scan_allocation_iff:
  "all_ok (scan_allocation_checks dumps a) \<longleftrightarrow> salloc_seal a = SCAN_ALLOCATION_SEAL \<and>
     all_ok (scan_request_checks dumps (salloc_request a)) \<and>
     all_ok (candidate_checks dumps (salloc_candidate a)) \<and>
     int_from 0 (salloc_previous_fence_high_water a) \<and>
     cand_scan_operation_id (salloc_candidate a) = sreq_scan_operation_id (salloc_request a) \<and>
     salloc_previous_fence_high_water a < cand_candidate_fencing_token (salloc_candidate a) \<and>
     scan_allocation_digest_of dumps a = Inr (salloc_allocation_digest a)"
  by (auto simp: scan_allocation_checks_def scan_allocation_digest_of_def dest: canonical_digest_shape)

lemma scan_allocation_payload_digest [simp]:
  "scan_allocation_payload (a \<lparr> salloc_allocation_digest := d \<rparr>) = scan_allocation_payload a"
  by (simp add: scan_allocation_payload_def)

lemma scan_allocation_payload_jwf:
  assumes "all_ok (scan_request_checks dumps (salloc_request a))"
    and "all_ok (candidate_checks dumps (salloc_candidate a))"
    and "int_from 0 (salloc_previous_fence_high_water a)"
  shows "jwf (JObj (scan_allocation_payload a))"
  unfolding scan_allocation_payload_def
  using assms scan_request_digest_shape [OF assms(1)] candidate_digest_shape [OF assms(2)]
  by (intro jwf_dict_of) (auto simp: u_def scalar_value_def scan_request_iff scan_request_fields_def
      simp del: jwf.simps intro: field_jwf)

context canonical_encoder
begin

lemma scan_request_created:
  assumes "lower_sha256 i" and "1 \<le> m" and "m \<le> 100"
  shows "\<exists>r. scan_request_create dumps i m = Inr r \<and> all_ok (scan_request_checks dumps r) \<and>
    sreq_scan_operation_id r = i \<and> sreq_max_candidates r = m"
proof -
  let ?r = "\<lparr> sreq_schema_version = u ''1'', sreq_operation = SCAN, sreq_scan_operation_id = i,
      sreq_max_candidates = m, sreq_idempotency_key = i, sreq_request_digest = [] \<rparr>"
  have f: "scan_request_fields ?r" using assms by (simp add: scan_request_fields_def)
  then obtain d where d: "scan_request_digest dumps ?r = Inr d"
    using canonical_digest_returns scan_request_payload_jwf unfolding scan_request_digest_def by blast
  have "all_ok (scan_request_checks dumps (?r \<lparr> sreq_request_digest := d \<rparr>))"
    using f d by (simp add: scan_request_iff scan_request_fields_def scan_request_digest_def
        scan_request_payload_def)
  with d show ?thesis by (simp add: scan_request_create_def Let_def)
qed

lemma candidate_created:
  assumes "lower_sha256 i" and "canonical_token l" and "canonical_token t" and "l \<noteq> t" and "int_from 1 f"
    and "stable_text p" and "stable_text n" and "int_from 0 is" and "int_from 0 until" and "lease_window is until"
    and "due_tuple a h d v e"
  shows "\<exists>c. candidate_create dumps i l f t p n is until a h d v e = Inr c \<and>
    all_ok (candidate_checks dumps c) \<and>
    c = \<lparr> cand_schema_version = u ''1'', cand_scan_operation_id = i, cand_candidate_lease_id = l,
      cand_candidate_fencing_token = f, cand_candidate_token = t, cand_owner_principal_id = p,
      cand_owner_instance_id = n, cand_issued_at_ms = is, cand_lease_until_ms = until,
      cand_artifact_id = a, cand_hold_id = h, cand_expected_hold_digest = d,
      cand_expected_artifact_version = v, cand_observed_expires_ms = e,
      cand_candidate_digest = cand_candidate_digest c \<rparr>"
proof -
  let ?c = "\<lparr> cand_schema_version = u ''1'', cand_scan_operation_id = i, cand_candidate_lease_id = l,
      cand_candidate_fencing_token = f, cand_candidate_token = t, cand_owner_principal_id = p,
      cand_owner_instance_id = n, cand_issued_at_ms = is, cand_lease_until_ms = until,
      cand_artifact_id = a, cand_hold_id = h, cand_expected_hold_digest = d,
      cand_expected_artifact_version = v, cand_observed_expires_ms = e, cand_candidate_digest = [] \<rparr>"
  have f: "candidate_fields_ok ?c" using assms by (simp add: candidate_fields_ok_def)
  then obtain dg where d: "candidate_digest_of dumps ?c = Inr dg"
    using canonical_digest_returns candidate_payload_jwf unfolding candidate_digest_of_def by blast
  have "all_ok (candidate_checks dumps (?c \<lparr> cand_candidate_digest := dg \<rparr>))"
    using f d by (simp add: candidate_iff candidate_fields_ok_def candidate_digest_of_def candidate_payload_def)
  with d show ?thesis by (simp add: candidate_create_def Let_def)
qed

lemma scan_result_created:
  assumes "all_ok (scan_request_checks dumps request)" and "all_ok (candidate_checks dumps c)"
    and "cand_scan_operation_id c = sreq_scan_operation_id request"
  shows "\<exists>r. scan_result_create dumps request [c] = Inr r \<and> all_ok (scan_result_checks_for dumps r request) \<and>
    sres_candidates r = [c] \<and> sres_scan_operation_id r = sreq_scan_operation_id request \<and>
    sres_request_digest r = sreq_request_digest request"
proof -
  let ?r = "\<lparr> sres_schema_version = u ''1'', sres_scan_operation_id = sreq_scan_operation_id request,
      sres_request_digest = sreq_request_digest request, sres_candidates = [c], sres_result_digest = [] \<rparr>"
  have f: "scan_result_fields_ok dumps ?r"
    using assms scan_request_digest_shape [OF assms(1)]
    by (auto simp: scan_result_fields_ok_def scan_request_iff scan_request_fields_def candidate_iff
        candidate_fields_ok_def)
  then obtain d where d: "scan_result_digest_of dumps ?r = Inr d"
    using canonical_digest_returns scan_result_payload_jwf unfolding scan_result_digest_of_def by blast
  have "all_ok (scan_result_checks_for dumps (?r \<lparr> sres_result_digest := d \<rparr>) request)"
    using f d assms by (simp add: scan_result_for_iff scan_result_iff scan_result_fields_ok_def
        scan_result_digest_of_def scan_result_payload_def scan_request_iff scan_request_fields_def)
  with d assms show ?thesis
    by (simp add: scan_result_create_def Let_def scan_request_iff scan_request_fields_def)
qed

lemma scan_allocation_issued:
  assumes "all_ok (scan_request_checks dumps request)" and "all_ok (candidate_checks dumps c)"
    and "cand_scan_operation_id c = sreq_scan_operation_id request" and "int_from 0 hw"
    and "hw < cand_candidate_fencing_token c"
  shows "\<exists>a. issue_scan_allocation dumps request c hw = Inr a \<and>
    all_ok (scan_allocation_checks_against dumps a request c hw)"
proof -
  let ?a = "\<lparr> salloc_request = request, salloc_candidate = c, salloc_previous_fence_high_water = hw,
      salloc_allocation_digest = [], salloc_seal = SCAN_ALLOCATION_SEAL \<rparr>"
  have "jwf (JObj (scan_allocation_payload ?a))"
    by (rule scan_allocation_payload_jwf) (use assms in simp_all)
  then obtain d where d: "scan_allocation_digest_of dumps ?a = Inr d"
    using canonical_digest_returns unfolding scan_allocation_digest_of_def by blast
  have "all_ok (scan_allocation_checks dumps (?a \<lparr> salloc_allocation_digest := d \<rparr>))"
    using d assms by (simp add: scan_allocation_iff scan_allocation_digest_of_def scan_allocation_payload_def)
  with d assms show ?thesis
    by (simp add: issue_scan_allocation_def Let_def scan_allocation_checks_against_def)
qed

lemma candidate_json_iff:
  "candidate_from_json dumps wire = Inr c \<longleftrightarrow>
     all_ok (candidate_checks dumps c) \<and> canonical_json dumps (candidate_wire_dict c) = Inr wire"
  by (rule decode_iff [of wire "''hold expiry candidate''"])
    (auto simp: candidate_from_json_def candidate_from_mapping_iff parse_canonical_dicts candidate_wire_jwf
      simp del: jwf.simps dicts_wf.simps)

lemma scan_request_json_iff:
  "scan_request_from_json dumps wire = Inr r \<longleftrightarrow>
     all_ok (scan_request_checks dumps r) \<and> canonical_json dumps (scan_request_wire_dict r) = Inr wire"
  by (rule decode_iff [OF scan_request_decode])
    (auto simp: scan_request_from_json_def scan_request_wire_jwf simp del: jwf.simps)

lemma scan_result_json_iff:
  "scan_result_from_json dumps wire = Inr r \<longleftrightarrow>
     all_ok (scan_result_checks dumps r) \<and> canonical_json dumps (scan_result_wire_dict r) = Inr wire"
  by (rule decode_iff [OF scan_result_decode])
    (auto simp: scan_result_from_json_def scan_result_wire_jwf simp del: jwf.simps)

end

end
