(* ===== verification/HoldReplay.thy ===== *)
theory HoldReplay
  imports HoldScan
begin

text \<open>
  The REPLAY_CLAIM side of the hold-expiry contract: the claim request, its result, the pointer to the
  current replay authority of an expire operation, and the ledger-verified replay authority
  (\<open>ArtifactHoldExpiryReplayClaimRequest\<close>, \<open>ArtifactHoldExpiryReplayClaimResult\<close>,
  \<open>ArtifactHoldExpiryReplayCurrentAuthority\<close>, \<open>_VerifiedArtifactHoldExpiryReplayAuthority\<close>).
\<close>

section \<open>Replay claim request\<close>

record ArtifactHoldExpiryReplayClaimRequest =
  rreq_schema_version :: ustr
  rreq_operation :: ArtifactHoldExpiryOperation
  rreq_replay_operation_id :: ustr
  rreq_expire_operation_id :: ustr
  rreq_base_commit_digest :: ustr
  rreq_artifact_id :: ustr
  rreq_hold_id :: ustr
  rreq_expected_hold_digest :: ustr
  rreq_expected_artifact_version :: int
  rreq_observed_expires_ms :: int
  rreq_candidate_lease_id :: ustr
  rreq_candidate_token :: ustr
  rreq_idempotency_key :: ustr
  rreq_request_digest :: ustr

definition replay_claim_request_payload :: "ArtifactHoldExpiryReplayClaimRequest \<Rightarrow> dict" where
  "replay_claim_request_payload r = dict_of
     [(u ''schemaVersion'', JStr (rreq_schema_version r)),
      (u ''operation'', JStr (operation_value (rreq_operation r))),
      (u ''replayOperationId'', JStr (rreq_replay_operation_id r)),
      (u ''expireOperationId'', JStr (rreq_expire_operation_id r)),
      (u ''baseCommitDigest'', JStr (rreq_base_commit_digest r)),
      (u ''artifactId'', JStr (rreq_artifact_id r)),
      (u ''holdId'', JStr (rreq_hold_id r)),
      (u ''expectedHoldDigest'', JStr (rreq_expected_hold_digest r)),
      (u ''expectedArtifactVersion'', JInt (rreq_expected_artifact_version r)),
      (u ''observedExpiresMs'', JInt (rreq_observed_expires_ms r)),
      (u ''candidateLeaseId'', JStr (rreq_candidate_lease_id r)),
      (u ''candidateToken'', JStr (rreq_candidate_token r)),
      (u ''idempotencyKey'', JStr (rreq_idempotency_key r))]"

definition replay_claim_request_digest_of ::
    "(json \<Rightarrow> bytes option) \<Rightarrow> ArtifactHoldExpiryReplayClaimRequest \<Rightarrow> ustr result" where
  "replay_claim_request_digest_of dumps r = canonical_digest dumps (replay_claim_request_payload r)"

definition replay_claim_request_checks ::
    "(json \<Rightarrow> bytes option) \<Rightarrow> ArtifactHoldExpiryReplayClaimRequest \<Rightarrow> check list" where
  "replay_claim_request_checks dumps r =
     [Check (rreq_schema_version r = u ''1'') (conflict ''unsupported hold expiry replay claim schema''),
      Check (rreq_operation r = REPLAY_CLAIM)
        (conflict ''hold expiry replay claim operation must be REPLAY_CLAIM'')] @
     require_sha256 (rreq_replay_operation_id r) ''replay_operation_id'' @
     require_sha256 (rreq_expire_operation_id r) ''expire_operation_id'' @
     require_sha256 (rreq_base_commit_digest r) ''replay claim base_commit_digest'' @
     require_stable_text (rreq_artifact_id r) ''replay claim artifact_id'' @
     require_stable_text (rreq_hold_id r) ''replay claim hold_id'' @
     require_sha256 (rreq_expected_hold_digest r) ''replay claim expected_hold_digest'' @
     require_integer (rreq_expected_artifact_version r) ''replay claim expected_artifact_version'' 1 @
     require_integer (rreq_observed_expires_ms r) ''replay claim observed_expires_ms'' 0 @
     require_candidate_token (rreq_candidate_lease_id r) ''replay claim candidate_lease_id'' @
     require_candidate_token (rreq_candidate_token r) ''replay claim candidate_token'' @
     [Check (rreq_candidate_lease_id r \<noteq> rreq_candidate_token r)
        (conflict ''replay claim lease ID and token must differ''),
      Check (rreq_idempotency_key r = rreq_replay_operation_id r)
        (conflict ''replay claim idempotency_key must equal replay_operation_id'')] @
     digest_match (artifact_hold_expiry_operation_id (rreq_artifact_id r) (rreq_hold_id r)
         (rreq_expected_hold_digest r) (rreq_expected_artifact_version r) (rreq_observed_expires_ms r))
       (rreq_expire_operation_id r) (conflict ''replay claim expire_operation_id does not match due tuple'') @
     digest_match (artifact_hold_expiry_replay_claim_operation_id (rreq_expire_operation_id r)
         (rreq_candidate_lease_id r))
       (rreq_replay_operation_id r) (conflict ''replay claim operation ID does not match commit and lease'') @
     require_sha256 (rreq_request_digest r) ''replay claim request_digest'' @
     digest_match (replay_claim_request_digest_of dumps r) (rreq_request_digest r)
       (conflict ''replay claim request_digest mismatch'')"

definition replay_claim_request_create ::
    "(json \<Rightarrow> bytes option) \<Rightarrow> ustr \<Rightarrow> ustr \<Rightarrow> ustr \<Rightarrow> ustr \<Rightarrow> ustr \<Rightarrow> ustr \<Rightarrow> int \<Rightarrow> int \<Rightarrow> ustr \<Rightarrow> ustr
     \<Rightarrow> ArtifactHoldExpiryReplayClaimRequest result" where
  "replay_claim_request_create dumps replay_operation_id expire_operation_id base_commit_digest
      artifact_id hold_id expected_hold_digest expected_artifact_version observed_expires_ms
      candidate_lease_id candidate_token =
     (let request = \<lparr> rreq_schema_version = u ''1'', rreq_operation = REPLAY_CLAIM,
            rreq_replay_operation_id = replay_operation_id, rreq_expire_operation_id = expire_operation_id,
            rreq_base_commit_digest = base_commit_digest, rreq_artifact_id = artifact_id,
            rreq_hold_id = hold_id, rreq_expected_hold_digest = expected_hold_digest,
            rreq_expected_artifact_version = expected_artifact_version,
            rreq_observed_expires_ms = observed_expires_ms,
            rreq_candidate_lease_id = candidate_lease_id, rreq_candidate_token = candidate_token,
            rreq_idempotency_key = replay_operation_id, rreq_request_digest = [] \<rparr>
      in bindE (replay_claim_request_digest_of dumps request) (\<lambda>digest.
         let created = request \<lparr> rreq_request_digest := digest \<rparr>
         in checked (replay_claim_request_checks dumps created) (Inr created)))"

definition replay_claim_request_wire_dict :: "ArtifactHoldExpiryReplayClaimRequest \<Rightarrow> dict" where
  "replay_claim_request_wire_dict r =
     dict_union (replay_claim_request_payload r) (dict_of [(u ''requestDigest'', JStr (rreq_request_digest r))])"

definition replay_claim_request_fields :: "string list" where
  "replay_claim_request_fields =
     [''schemaVersion'', ''operation'', ''replayOperationId'', ''expireOperationId'', ''baseCommitDigest'',
      ''artifactId'', ''holdId'', ''expectedHoldDigest'', ''expectedArtifactVersion'',
      ''observedExpiresMs'', ''candidateLeaseId'', ''candidateToken'', ''idempotencyKey'', ''requestDigest'']"

definition replay_claim_request_from_json ::
    "(json \<Rightarrow> bytes option) \<Rightarrow> bytes \<Rightarrow> ArtifactHoldExpiryReplayClaimRequest result" where
  "replay_claim_request_from_json dumps wire =
     bindE (parse_canonical_object dumps wire ''hold expiry replay claim request'') (\<lambda>v.
     checked (require_exact_fields v replay_claim_request_fields ''hold expiry replay claim request'')
     (bindE (parse_operation v ''replay claim request operation'') (\<lambda>operation.
      bindE (str_field v ''schemaVersion'' (conflict ''unsupported hold expiry replay claim schema'')) (\<lambda>schema_version.
      bindE (text_field v ''replayOperationId'' ''replay_operation_id'') (\<lambda>replay_operation_id.
      bindE (text_field v ''expireOperationId'' ''expire_operation_id'') (\<lambda>expire_operation_id.
      bindE (text_field v ''baseCommitDigest'' ''replay claim base_commit_digest'') (\<lambda>base_commit_digest.
      bindE (text_field v ''artifactId'' ''replay claim artifact_id'') (\<lambda>artifact_id.
      bindE (text_field v ''holdId'' ''replay claim hold_id'') (\<lambda>hold_id.
      bindE (text_field v ''expectedHoldDigest'' ''replay claim expected_hold_digest'') (\<lambda>expected_hold_digest.
      bindE (int_field v ''expectedArtifactVersion'' ''replay claim expected_artifact_version'') (\<lambda>expected_artifact_version.
      bindE (int_field v ''observedExpiresMs'' ''replay claim observed_expires_ms'') (\<lambda>observed_expires_ms.
      bindE (text_field v ''candidateLeaseId'' ''replay claim candidate_lease_id'') (\<lambda>candidate_lease_id.
      bindE (text_field v ''candidateToken'' ''replay claim candidate_token'') (\<lambda>candidate_token.
      bindE (str_field v ''idempotencyKey''
        (conflict ''replay claim idempotency_key must equal replay_operation_id'')) (\<lambda>idempotency_key.
      bindE (text_field v ''requestDigest'' ''replay claim request_digest'') (\<lambda>request_digest.
      let request = \<lparr> rreq_schema_version = schema_version, rreq_operation = operation,
            rreq_replay_operation_id = replay_operation_id, rreq_expire_operation_id = expire_operation_id,
            rreq_base_commit_digest = base_commit_digest, rreq_artifact_id = artifact_id,
            rreq_hold_id = hold_id, rreq_expected_hold_digest = expected_hold_digest,
            rreq_expected_artifact_version = expected_artifact_version,
            rreq_observed_expires_ms = observed_expires_ms,
            rreq_candidate_lease_id = candidate_lease_id, rreq_candidate_token = candidate_token,
            rreq_idempotency_key = idempotency_key, rreq_request_digest = request_digest \<rparr>
      in checked (replay_claim_request_checks dumps request) (Inr request)))))))))))))))))"

section \<open>Replay claim result\<close>

record ArtifactHoldExpiryReplayClaimResult =
  rres_schema_version :: ustr
  rres_replay_operation_id :: ustr
  rres_expire_operation_id :: ustr
  rres_base_commit_digest :: ustr
  rres_request_digest :: ustr
  rres_result_code :: ustr
  rres_candidate :: ArtifactHoldExpiryCandidate
  rres_result_digest :: ustr

definition replay_claim_result_payload :: "ArtifactHoldExpiryReplayClaimResult \<Rightarrow> dict" where
  "replay_claim_result_payload r = dict_of
     [(u ''schemaVersion'', JStr (rres_schema_version r)),
      (u ''replayOperationId'', JStr (rres_replay_operation_id r)),
      (u ''expireOperationId'', JStr (rres_expire_operation_id r)),
      (u ''baseCommitDigest'', JStr (rres_base_commit_digest r)),
      (u ''requestDigest'', JStr (rres_request_digest r)),
      (u ''resultCode'', JStr (rres_result_code r)),
      (u ''candidate'', JObj (candidate_wire_dict (rres_candidate r)))]"

definition replay_claim_result_digest_of ::
    "(json \<Rightarrow> bytes option) \<Rightarrow> ArtifactHoldExpiryReplayClaimResult \<Rightarrow> ustr result" where
  "replay_claim_result_digest_of dumps r = canonical_digest dumps (replay_claim_result_payload r)"

definition replay_claim_result_checks ::
    "(json \<Rightarrow> bytes option) \<Rightarrow> ArtifactHoldExpiryReplayClaimResult \<Rightarrow> check list" where
  "replay_claim_result_checks dumps r =
     [Check (rres_schema_version r = u ''1'') (conflict ''unsupported hold expiry replay claim result schema'')] @
     require_sha256 (rres_replay_operation_id r) ''replay result operation ID'' @
     require_sha256 (rres_expire_operation_id r) ''replay result expire operation ID'' @
     require_sha256 (rres_base_commit_digest r) ''replay result base_commit_digest'' @
     require_sha256 (rres_request_digest r) ''replay result request digest'' @
     [Check (rres_result_code r = u ''CLAIMED'') (conflict ''unknown hold expiry replay claim result'')] @
     candidate_checks dumps (rres_candidate r) @
     [Check (cand_scan_operation_id (rres_candidate r) = rres_replay_operation_id r)
        (conflict ''replay result candidate is not bound to claim operation'')] @
     require_sha256 (rres_result_digest r) ''replay result digest'' @
     digest_match (replay_claim_result_digest_of dumps r) (rres_result_digest r)
       (conflict ''replay result digest mismatch'')"

definition replay_claim_result_checks_for ::
    "(json \<Rightarrow> bytes option) \<Rightarrow> ArtifactHoldExpiryReplayClaimResult \<Rightarrow> ArtifactHoldExpiryReplayClaimRequest
     \<Rightarrow> check list" where
  "replay_claim_result_checks_for dumps r request =
     replay_claim_request_checks dumps request @
     replay_claim_result_checks dumps r @
     (let candidate = rres_candidate r in
      [Check (\<not> (rres_replay_operation_id r \<noteq> rreq_replay_operation_id request
        \<or> rres_expire_operation_id r \<noteq> rreq_expire_operation_id request
        \<or> rres_base_commit_digest r \<noteq> rreq_base_commit_digest request
        \<or> rres_request_digest r \<noteq> rreq_request_digest request
        \<or> cand_candidate_lease_id candidate \<noteq> rreq_candidate_lease_id request
        \<or> cand_candidate_token candidate \<noteq> rreq_candidate_token request
        \<or> cand_artifact_id candidate \<noteq> rreq_artifact_id request
        \<or> cand_hold_id candidate \<noteq> rreq_hold_id request
        \<or> cand_expected_hold_digest candidate \<noteq> rreq_expected_hold_digest request
        \<or> cand_expected_artifact_version candidate \<noteq> rreq_expected_artifact_version request
        \<or> cand_observed_expires_ms candidate \<noteq> rreq_observed_expires_ms request))
        (conflict ''replay result is not bound to originating claim request'')])"

definition replay_claim_result_create ::
    "(json \<Rightarrow> bytes option) \<Rightarrow> ArtifactHoldExpiryReplayClaimRequest \<Rightarrow> ArtifactHoldExpiryCandidate
     \<Rightarrow> ArtifactHoldExpiryReplayClaimResult result" where
  "replay_claim_result_create dumps request candidate =
     checked (replay_claim_request_checks dumps request @ candidate_checks dumps candidate)
     (let result = \<lparr> rres_schema_version = u ''1'',
            rres_replay_operation_id = rreq_replay_operation_id request,
            rres_expire_operation_id = rreq_expire_operation_id request,
            rres_base_commit_digest = rreq_base_commit_digest request,
            rres_request_digest = rreq_request_digest request, rres_result_code = u ''CLAIMED'',
            rres_candidate = candidate, rres_result_digest = [] \<rparr>
      in bindE (replay_claim_result_digest_of dumps result) (\<lambda>digest.
         let created = result \<lparr> rres_result_digest := digest \<rparr>
         in checked (replay_claim_result_checks_for dumps created request) (Inr created)))"

definition replay_claim_result_wire_dict :: "ArtifactHoldExpiryReplayClaimResult \<Rightarrow> dict" where
  "replay_claim_result_wire_dict r =
     dict_union (replay_claim_result_payload r) (dict_of [(u ''resultDigest'', JStr (rres_result_digest r))])"

definition replay_claim_result_fields :: "string list" where
  "replay_claim_result_fields =
     [''schemaVersion'', ''replayOperationId'', ''expireOperationId'', ''baseCommitDigest'',
      ''requestDigest'', ''resultCode'', ''candidate'', ''resultDigest'']"

definition replay_claim_result_from_json ::
    "(json \<Rightarrow> bytes option) \<Rightarrow> bytes \<Rightarrow> ArtifactHoldExpiryReplayClaimResult result" where
  "replay_claim_result_from_json dumps wire =
     bindE (parse_canonical_object dumps wire ''hold expiry replay claim result'') (\<lambda>v.
     checked (require_exact_fields v replay_claim_result_fields ''hold expiry replay claim result'')
     (bindE (case map_of v (u ''candidate'') of None \<Rightarrow> Inl KeyError
             | Some (JObj d) \<Rightarrow> Inr (JObj d)
             | Some _ \<Rightarrow> Inl (conflict ''replay claim result candidate must be an object'')) (\<lambda>candidate_value.
      bindE (candidate_from_mapping dumps candidate_value ''replay claim result candidate'') (\<lambda>candidate.
      bindE (str_field v ''schemaVersion''
        (conflict ''unsupported hold expiry replay claim result schema'')) (\<lambda>schema_version.
      bindE (text_field v ''replayOperationId'' ''replay result operation ID'') (\<lambda>replay_operation_id.
      bindE (text_field v ''expireOperationId'' ''replay result expire operation ID'') (\<lambda>expire_operation_id.
      bindE (text_field v ''baseCommitDigest'' ''replay result base_commit_digest'') (\<lambda>base_commit_digest.
      bindE (text_field v ''requestDigest'' ''replay result request digest'') (\<lambda>request_digest.
      bindE (str_field v ''resultCode'' (conflict ''unknown hold expiry replay claim result'')) (\<lambda>result_code.
      bindE (text_field v ''resultDigest'' ''replay result digest'') (\<lambda>result_digest.
      let result = \<lparr> rres_schema_version = schema_version, rres_replay_operation_id = replay_operation_id,
            rres_expire_operation_id = expire_operation_id, rres_base_commit_digest = base_commit_digest,
            rres_request_digest = request_digest, rres_result_code = result_code,
            rres_candidate = candidate, rres_result_digest = result_digest \<rparr>
      in checked (replay_claim_result_checks dumps result) (Inr result))))))))))))"

section \<open>Current replay authority\<close>

record ArtifactHoldExpiryReplayCurrentAuthority =
  rcur_schema_version :: ustr
  rcur_expire_operation_id :: ustr
  rcur_replay_operation_id :: ustr
  rcur_base_commit_digest :: ustr
  rcur_request_digest :: ustr
  rcur_candidate_lease_id :: ustr
  rcur_candidate_token :: ustr
  rcur_candidate_digest :: ustr
  rcur_result_digest :: ustr
  rcur_owner_principal_id :: ustr
  rcur_owner_instance_id :: ustr
  rcur_candidate_fencing_token :: int
  rcur_issued_at_ms :: int
  rcur_lease_until_ms :: int
  rcur_revision :: int

definition replay_current_checks :: "ArtifactHoldExpiryReplayCurrentAuthority \<Rightarrow> check list" where
  "replay_current_checks a =
     [Check (rcur_schema_version a = u ''1'') (conflict ''unsupported replay current authority schema'')] @
     require_sha256 (rcur_expire_operation_id a) ''replay current authority expire operation ID'' @
     require_sha256 (rcur_replay_operation_id a) ''replay current authority operation ID'' @
     require_sha256 (rcur_base_commit_digest a) ''replay current authority base commit digest'' @
     require_sha256 (rcur_request_digest a) ''replay current authority request digest'' @
     require_candidate_token (rcur_candidate_lease_id a) ''replay current authority lease ID'' @
     require_candidate_token (rcur_candidate_token a) ''replay current authority token'' @
     require_sha256 (rcur_candidate_digest a) ''replay current authority candidate digest'' @
     require_sha256 (rcur_result_digest a) ''replay current authority result digest'' @
     require_stable_text (rcur_owner_principal_id a) ''replay current authority owner principal'' @
     require_stable_text (rcur_owner_instance_id a) ''replay current authority owner instance'' @
     require_integer (rcur_candidate_fencing_token a) ''replay current authority fencing token'' 1 @
     require_integer (rcur_issued_at_ms a) ''replay current authority issued_at_ms'' 0 @
     require_integer (rcur_lease_until_ms a) ''replay current authority lease_until_ms'' 0 @
     [Check (\<not> rcur_lease_until_ms a \<le> rcur_issued_at_ms a)
        (conflict ''replay current authority lease must end after issue time''),
      Check (\<not> LEASE_MAX_MS < rcur_lease_until_ms a - rcur_issued_at_ms a)
        (conflict ''replay current authority lease exceeds maximum duration'')] @
     require_integer (rcur_revision a) ''replay current authority revision'' 1"

definition replay_current_create ::
    "(json \<Rightarrow> bytes option) \<Rightarrow> ArtifactHoldExpiryReplayClaimRequest \<Rightarrow> ArtifactHoldExpiryReplayClaimResult
     \<Rightarrow> int \<Rightarrow> ArtifactHoldExpiryReplayCurrentAuthority result" where
  "replay_current_create dumps request result revision =
     checked (replay_claim_request_checks dumps request @
              replay_claim_result_checks_for dumps result request @
              require_integer revision ''replay current authority revision'' 1)
     (let candidate = rres_candidate result;
          authority = \<lparr> rcur_schema_version = u ''1'',
            rcur_expire_operation_id = rreq_expire_operation_id request,
            rcur_replay_operation_id = rreq_replay_operation_id request,
            rcur_base_commit_digest = rreq_base_commit_digest request,
            rcur_request_digest = rreq_request_digest request,
            rcur_candidate_lease_id = cand_candidate_lease_id candidate,
            rcur_candidate_token = cand_candidate_token candidate,
            rcur_candidate_digest = cand_candidate_digest candidate,
            rcur_result_digest = rres_result_digest result,
            rcur_owner_principal_id = cand_owner_principal_id candidate,
            rcur_owner_instance_id = cand_owner_instance_id candidate,
            rcur_candidate_fencing_token = cand_candidate_fencing_token candidate,
            rcur_issued_at_ms = cand_issued_at_ms candidate,
            rcur_lease_until_ms = cand_lease_until_ms candidate, rcur_revision = revision \<rparr>
      in checked (replay_current_checks authority) (Inr authority))"

definition replay_current_checks_against ::
    "(json \<Rightarrow> bytes option) \<Rightarrow> ArtifactHoldExpiryReplayCurrentAuthority \<Rightarrow> ArtifactHoldExpiryReplayClaimRequest
     \<Rightarrow> ArtifactHoldExpiryReplayClaimResult \<Rightarrow> check list" where
  "replay_current_checks_against dumps a request result =
     replay_current_checks a @
     replay_claim_result_checks_for dumps result request @
     (let candidate = rres_candidate result in
      [Check (\<not> (rcur_expire_operation_id a \<noteq> rreq_expire_operation_id request
        \<or> rcur_replay_operation_id a \<noteq> rreq_replay_operation_id request
        \<or> rcur_base_commit_digest a \<noteq> rreq_base_commit_digest request
        \<or> rcur_request_digest a \<noteq> rreq_request_digest request
        \<or> rcur_candidate_lease_id a \<noteq> cand_candidate_lease_id candidate
        \<or> rcur_candidate_token a \<noteq> cand_candidate_token candidate
        \<or> rcur_candidate_digest a \<noteq> cand_candidate_digest candidate
        \<or> rcur_result_digest a \<noteq> rres_result_digest result
        \<or> rcur_owner_principal_id a \<noteq> cand_owner_principal_id candidate
        \<or> rcur_owner_instance_id a \<noteq> cand_owner_instance_id candidate
        \<or> rcur_candidate_fencing_token a \<noteq> cand_candidate_fencing_token candidate
        \<or> rcur_issued_at_ms a \<noteq> cand_issued_at_ms candidate
        \<or> rcur_lease_until_ms a \<noteq> cand_lease_until_ms candidate))
        (conflict ''replay current authority pointer contradicts claim evidence'')])"

record VerifiedArtifactHoldExpiryReplayAuthority =
  vrep_candidate :: ArtifactHoldExpiryCandidate
  vrep_seal :: seal

definition verified_replay_checks ::
    "(json \<Rightarrow> bytes option) \<Rightarrow> VerifiedArtifactHoldExpiryReplayAuthority \<Rightarrow> check list" where
  "verified_replay_checks dumps a =
     [Check (vrep_seal a = REPLAY_AUTHORITY_SEAL) (conflict ''replay authority proof is not ledger-verified'')] @
     candidate_checks dumps (vrep_candidate a)"

section \<open>What the guards mean\<close>

definition replay_request_fields_ok :: "ArtifactHoldExpiryReplayClaimRequest \<Rightarrow> bool" where
  "replay_request_fields_ok r \<longleftrightarrow> rreq_schema_version r = u ''1'' \<and> rreq_operation r = REPLAY_CLAIM \<and>
     lower_sha256 (rreq_base_commit_digest r) \<and>
     due_tuple (rreq_artifact_id r) (rreq_hold_id r) (rreq_expected_hold_digest r)
       (rreq_expected_artifact_version r) (rreq_observed_expires_ms r) \<and>
     canonical_token (rreq_candidate_lease_id r) \<and> canonical_token (rreq_candidate_token r) \<and>
     rreq_candidate_lease_id r \<noteq> rreq_candidate_token r \<and>
     rreq_idempotency_key r = rreq_replay_operation_id r \<and>
     artifact_hold_expiry_operation_id (rreq_artifact_id r) (rreq_hold_id r) (rreq_expected_hold_digest r)
       (rreq_expected_artifact_version r) (rreq_observed_expires_ms r) = Inr (rreq_expire_operation_id r) \<and>
     artifact_hold_expiry_replay_claim_operation_id (rreq_expire_operation_id r) (rreq_candidate_lease_id r)
       = Inr (rreq_replay_operation_id r)"

lemma replay_request_iff:
  "all_ok (replay_claim_request_checks dumps r) \<longleftrightarrow> replay_request_fields_ok r \<and>
     replay_claim_request_digest_of dumps r = Inr (rreq_request_digest r)"
  by (auto simp: replay_claim_request_checks_def replay_request_fields_ok_def due_tuple_def
      replay_claim_request_digest_of_def dest: canonical_digest_shape expiry_operation_id_shape replay_claim_id_shape)

lemma replay_request_ids_shape:
  "replay_request_fields_ok r \<Longrightarrow> lower_sha256 (rreq_expire_operation_id r) \<and> lower_sha256 (rreq_replay_operation_id r)"
  by (auto simp: replay_request_fields_ok_def dest: expiry_operation_id_shape replay_claim_id_shape)

lemma replay_request_digest_shape:
  "all_ok (replay_claim_request_checks dumps r) \<Longrightarrow> lower_sha256 (rreq_request_digest r)"
  by (auto simp: replay_request_iff replay_claim_request_digest_of_def dest: canonical_digest_shape)

lemma replay_request_payload_jwf:
  assumes "replay_request_fields_ok r"
  shows "jwf (JObj (replay_claim_request_payload r))"
  unfolding replay_claim_request_payload_def
  using assms replay_request_ids_shape [OF assms]
  by (intro jwf_dict_of) (auto simp: replay_request_fields_ok_def due_tuple_def u_def scalar_value_def
      simp del: jwf.simps operation_value.simps intro: field_jwf)

lemma replay_request_payload_digest [simp]:
  "replay_claim_request_payload (r \<lparr> rreq_request_digest := d \<rparr>) = replay_claim_request_payload r"
  by (simp add: replay_claim_request_payload_def)

lemma replay_request_wire_jwf:
  "all_ok (replay_claim_request_checks dumps r) \<Longrightarrow> jwf (JObj (replay_claim_request_wire_dict r))"
proof -
  assume r: "all_ok (replay_claim_request_checks dumps r)"
  then have "jwf (JObj (replay_claim_request_payload r))" "lower_sha256 (rreq_request_digest r)"
    using replay_request_digest_shape by (auto simp: replay_request_iff replay_request_payload_jwf simp del: jwf.simps)
  then show ?thesis
    unfolding replay_claim_request_wire_dict_def
    by (intro jwf_dict_union) (auto intro!: jwf_dict_of simp: u_def scalar_value_def simp del: jwf.simps
        intro: field_jwf)
qed

lemma replay_request_wire_keys:
  "set (map fst (replay_claim_request_wire_dict r)) = set (map u replay_claim_request_fields)"
  by (auto simp: replay_claim_request_wire_dict_def replay_claim_request_payload_def
      replay_claim_request_fields_def keys_dict_of)

lemma replay_request_decode:
  assumes "parse_canonical_object dumps wire ''hold expiry replay claim request'' = Inr d"
  shows "replay_claim_request_from_json dumps wire = Inr r \<longleftrightarrow>
    all_ok (replay_claim_request_checks dumps r) \<and> d = replay_claim_request_wire_dict r"
proof
  assume "replay_claim_request_from_json dumps wire = Inr r"
  then have "all_ok (replay_claim_request_checks dumps r)"
    and "set (map fst d) = set (map u replay_claim_request_fields)"
    and "\<forall>k \<in> set replay_claim_request_fields. map_of d (u k) = map_of (replay_claim_request_wire_dict r) (u k)"
    by (auto simp: replay_claim_request_from_json_def require_exact_fields_def Let_def assms
        replay_claim_request_wire_dict_def replay_claim_request_payload_def replay_claim_request_fields_def
        map_of_dict_of)
  then show "all_ok (replay_claim_request_checks dumps r) \<and> d = replay_claim_request_wire_dict r"
    using parse_canonical_dicts [OF assms] replay_request_wire_keys
      dict_eq_on_fields [of d "replay_claim_request_wire_dict r" replay_claim_request_fields]
    by (auto simp: replay_claim_request_wire_dict_def)
next
  assume "all_ok (replay_claim_request_checks dumps r) \<and> d = replay_claim_request_wire_dict r"
  then show "replay_claim_request_from_json dumps wire = Inr r"
    using replay_request_wire_keys [of r]
    by (cases r) (simp add: replay_claim_request_from_json_def require_exact_fields_def Let_def assms
        replay_claim_request_wire_dict_def replay_claim_request_payload_def map_of_dict_of)
qed

definition replay_result_fields_ok :: "(json \<Rightarrow> bytes option) \<Rightarrow> ArtifactHoldExpiryReplayClaimResult \<Rightarrow> bool" where
  "replay_result_fields_ok dumps r \<longleftrightarrow> rres_schema_version r = u ''1'' \<and>
     lower_sha256 (rres_replay_operation_id r) \<and> lower_sha256 (rres_expire_operation_id r) \<and>
     lower_sha256 (rres_base_commit_digest r) \<and> lower_sha256 (rres_request_digest r) \<and>
     rres_result_code r = u ''CLAIMED'' \<and> all_ok (candidate_checks dumps (rres_candidate r)) \<and>
     cand_scan_operation_id (rres_candidate r) = rres_replay_operation_id r"

lemma replay_result_iff:
  "all_ok (replay_claim_result_checks dumps r) \<longleftrightarrow> replay_result_fields_ok dumps r \<and>
     replay_claim_result_digest_of dumps r = Inr (rres_result_digest r)"
  by (auto simp: replay_claim_result_checks_def replay_result_fields_ok_def
      replay_claim_result_digest_of_def dest: canonical_digest_shape)

lemma replay_result_digest_shape:
  "all_ok (replay_claim_result_checks dumps r) \<Longrightarrow> lower_sha256 (rres_result_digest r)"
  by (auto simp: replay_result_iff replay_claim_result_digest_of_def dest: canonical_digest_shape)

lemma claimed_jwf: "jwf (JStr (u ''CLAIMED''))"
  by (simp add: u_def scalar_value_def)

lemma replay_result_payload_jwf:
  "replay_result_fields_ok dumps r \<Longrightarrow> jwf (JObj (replay_claim_result_payload r))"
  unfolding replay_claim_result_payload_def
  by (intro jwf_dict_of) (auto simp: replay_result_fields_ok_def list_all_iff u_def scalar_value_def
      simp del: jwf.simps intro: field_jwf claimed_jwf [unfolded u_def, simplified] candidate_wire_jwf)

lemma replay_result_payload_digest [simp]:
  "replay_claim_result_payload (r \<lparr> rres_result_digest := d \<rparr>) = replay_claim_result_payload r"
  by (simp add: replay_claim_result_payload_def)

lemma replay_result_wire_jwf:
  "all_ok (replay_claim_result_checks dumps r) \<Longrightarrow> jwf (JObj (replay_claim_result_wire_dict r))"
proof -
  assume r: "all_ok (replay_claim_result_checks dumps r)"
  then have "jwf (JObj (replay_claim_result_payload r))" "lower_sha256 (rres_result_digest r)"
    using replay_result_digest_shape replay_result_payload_jwf [of dumps r]
    by (auto simp: replay_result_iff simp del: jwf.simps)
  then show ?thesis
    unfolding replay_claim_result_wire_dict_def
    by (intro jwf_dict_union) (auto intro!: jwf_dict_of simp: u_def scalar_value_def simp del: jwf.simps
        intro: field_jwf)
qed

lemma replay_result_wire_keys:
  "set (map fst (replay_claim_result_wire_dict r)) = set (map u replay_claim_result_fields)"
  by (auto simp: replay_claim_result_wire_dict_def replay_claim_result_payload_def
      replay_claim_result_fields_def keys_dict_of)

lemma replay_result_decode:
  assumes "parse_canonical_object dumps wire ''hold expiry replay claim result'' = Inr d"
  shows "replay_claim_result_from_json dumps wire = Inr r \<longleftrightarrow>
    all_ok (replay_claim_result_checks dumps r) \<and> d = replay_claim_result_wire_dict r"
proof
  assume "replay_claim_result_from_json dumps wire = Inr r"
  then obtain cd where cd: "map_of d (u ''candidate'') = Some (JObj cd)"
    and c: "candidate_from_mapping dumps (JObj cd) ''replay claim result candidate'' = Inr (rres_candidate r)"
    and r: "all_ok (replay_claim_result_checks dumps r)" "set (map fst d) = set (map u replay_claim_result_fields)"
      "map_of d (u ''schemaVersion'') = Some (JStr (rres_schema_version r))"
      "map_of d (u ''replayOperationId'') = Some (JStr (rres_replay_operation_id r))"
      "map_of d (u ''expireOperationId'') = Some (JStr (rres_expire_operation_id r))"
      "map_of d (u ''baseCommitDigest'') = Some (JStr (rres_base_commit_digest r))"
      "map_of d (u ''requestDigest'') = Some (JStr (rres_request_digest r))"
      "map_of d (u ''resultCode'') = Some (JStr (rres_result_code r))"
      "map_of d (u ''resultDigest'') = Some (JStr (rres_result_digest r))"
    by (auto simp: replay_claim_result_from_json_def require_exact_fields_def Let_def assms
        split: option.splits json.splits)
  have "dicts_wf (JObj cd)"
    using parse_canonical_dicts [OF assms] map_of_SomeD [OF cd] by (fastforce simp: list_all_iff)
  then have "cd = candidate_wire_dict (rres_candidate r)" using c candidate_from_mapping_iff by blast
  with r cd have "\<forall>k \<in> set replay_claim_result_fields. map_of d (u k) = map_of (replay_claim_result_wire_dict r) (u k)"
    by (simp add: replay_claim_result_fields_def replay_claim_result_wire_dict_def
        replay_claim_result_payload_def map_of_dict_of)
  with r show "all_ok (replay_claim_result_checks dumps r) \<and> d = replay_claim_result_wire_dict r"
    using parse_canonical_dicts [OF assms] replay_result_wire_keys
      dict_eq_on_fields [of d "replay_claim_result_wire_dict r" replay_claim_result_fields]
    by (auto simp: replay_claim_result_wire_dict_def)
next
  assume r: "all_ok (replay_claim_result_checks dumps r) \<and> d = replay_claim_result_wire_dict r"
  then have "candidate_from_mapping dumps (JObj (candidate_wire_dict (rres_candidate r))) l = Inr (rres_candidate r)" for l
    by (auto simp: candidate_from_mapping_iff candidate_wire_dicts replay_result_iff replay_result_fields_ok_def
        simp del: dicts_wf.simps)
  with r show "replay_claim_result_from_json dumps wire = Inr r"
    using replay_result_wire_keys [of r]
    by (cases r) (simp add: replay_claim_result_from_json_def require_exact_fields_def Let_def assms
        replay_claim_result_wire_dict_def replay_claim_result_payload_def map_of_dict_of)
qed

lemma replay_result_for_iff:
  "all_ok (replay_claim_result_checks_for dumps r request) \<longleftrightarrow>
     all_ok (replay_claim_request_checks dumps request) \<and> all_ok (replay_claim_result_checks dumps r) \<and>
     rres_replay_operation_id r = rreq_replay_operation_id request \<and>
     rres_expire_operation_id r = rreq_expire_operation_id request \<and>
     rres_base_commit_digest r = rreq_base_commit_digest request \<and>
     rres_request_digest r = rreq_request_digest request \<and>
     cand_candidate_lease_id (rres_candidate r) = rreq_candidate_lease_id request \<and>
     cand_candidate_token (rres_candidate r) = rreq_candidate_token request \<and>
     cand_artifact_id (rres_candidate r) = rreq_artifact_id request \<and>
     cand_hold_id (rres_candidate r) = rreq_hold_id request \<and>
     cand_expected_hold_digest (rres_candidate r) = rreq_expected_hold_digest request \<and>
     cand_expected_artifact_version (rres_candidate r) = rreq_expected_artifact_version request \<and>
     cand_observed_expires_ms (rres_candidate r) = rreq_observed_expires_ms request"
  by (simp add: replay_claim_result_checks_for_def Let_def) argo

text \<open>The current-authority pointer is determined by the claim evidence and its revision.\<close>

definition current_of ::
    "ArtifactHoldExpiryReplayClaimRequest \<Rightarrow> ArtifactHoldExpiryReplayClaimResult \<Rightarrow> int
     \<Rightarrow> ArtifactHoldExpiryReplayCurrentAuthority" where
  "current_of request result revision = \<lparr> rcur_schema_version = u ''1'',
     rcur_expire_operation_id = rreq_expire_operation_id request,
     rcur_replay_operation_id = rreq_replay_operation_id request,
     rcur_base_commit_digest = rreq_base_commit_digest request,
     rcur_request_digest = rreq_request_digest request,
     rcur_candidate_lease_id = cand_candidate_lease_id (rres_candidate result),
     rcur_candidate_token = cand_candidate_token (rres_candidate result),
     rcur_candidate_digest = cand_candidate_digest (rres_candidate result),
     rcur_result_digest = rres_result_digest result,
     rcur_owner_principal_id = cand_owner_principal_id (rres_candidate result),
     rcur_owner_instance_id = cand_owner_instance_id (rres_candidate result),
     rcur_candidate_fencing_token = cand_candidate_fencing_token (rres_candidate result),
     rcur_issued_at_ms = cand_issued_at_ms (rres_candidate result),
     rcur_lease_until_ms = cand_lease_until_ms (rres_candidate result), rcur_revision = revision \<rparr>"

lemma current_of_ok:
  assumes "all_ok (replay_claim_result_checks_for dumps result request)" and "int_from 1 revision"
  shows "all_ok (replay_current_checks (current_of request result revision))"
proof -
  have r: "all_ok (replay_claim_request_checks dumps request)" "all_ok (replay_claim_result_checks dumps result)"
    using assms(1) by (simp_all add: replay_result_for_iff)
  then have c: "all_ok (candidate_checks dumps (rres_candidate result))"
    by (simp add: replay_result_iff replay_result_fields_ok_def)
  show ?thesis
    using assms(2) c replay_request_digest_shape [OF r(1)] replay_result_digest_shape [OF r(2)]
      candidate_digest_shape [OF c] replay_request_ids_shape [of request] r(1)
    by (simp add: replay_current_checks_def current_of_def replay_request_iff replay_request_fields_ok_def
        candidate_iff candidate_fields_ok_def lease_window_def)
qed

lemma replay_current_against_iff:
  "all_ok (replay_current_checks_against dumps a request result) \<longleftrightarrow>
     all_ok (replay_claim_result_checks_for dumps result request) \<and> int_from 1 (rcur_revision a) \<and>
     a = current_of request result (rcur_revision a)"
proof
  assume "all_ok (replay_current_checks_against dumps a request result)"
  then show "all_ok (replay_claim_result_checks_for dumps result request) \<and> int_from 1 (rcur_revision a) \<and>
     a = current_of request result (rcur_revision a)"
    by (cases a) (simp add: replay_current_checks_against_def replay_current_checks_def current_of_def Let_def)
next
  assume r: "all_ok (replay_claim_result_checks_for dumps result request) \<and> int_from 1 (rcur_revision a) \<and>
     a = current_of request result (rcur_revision a)"
  then have "all_ok (replay_current_checks a)" using current_of_ok by metis
  moreover obtain rev where "a = current_of request result rev" using r by blast
  ultimately show "all_ok (replay_current_checks_against dumps a request result)"
    using r by (simp add: replay_current_checks_against_def Let_def current_of_def)
qed

lemma replay_current_created:
  assumes "all_ok (replay_claim_result_checks_for dumps result request)" and "int_from 1 revision"
  shows "replay_current_create dumps request result revision = Inr (current_of request result revision)"
  using assms current_of_ok [OF assms]
  by (simp add: replay_current_create_def Let_def current_of_def replay_result_for_iff)

context canonical_encoder
begin

lemma replay_request_created:
  assumes "due_tuple a h d v e" and "artifact_hold_expiry_operation_id a h d v e = Inr ei"
    and "canonical_token l" and "canonical_token t" and "l \<noteq> t" and "lower_sha256 b"
    and "artifact_hold_expiry_replay_claim_operation_id ei l = Inr ri"
  shows "\<exists>r. replay_claim_request_create dumps ri ei b a h d v e l t = Inr r \<and>
    all_ok (replay_claim_request_checks dumps r) \<and>
    r = \<lparr> rreq_schema_version = u ''1'', rreq_operation = REPLAY_CLAIM, rreq_replay_operation_id = ri,
      rreq_expire_operation_id = ei, rreq_base_commit_digest = b, rreq_artifact_id = a, rreq_hold_id = h,
      rreq_expected_hold_digest = d, rreq_expected_artifact_version = v, rreq_observed_expires_ms = e,
      rreq_candidate_lease_id = l, rreq_candidate_token = t, rreq_idempotency_key = ri,
      rreq_request_digest = rreq_request_digest r \<rparr>"
proof -
  let ?r = "\<lparr> rreq_schema_version = u ''1'', rreq_operation = REPLAY_CLAIM, rreq_replay_operation_id = ri,
      rreq_expire_operation_id = ei, rreq_base_commit_digest = b, rreq_artifact_id = a, rreq_hold_id = h,
      rreq_expected_hold_digest = d, rreq_expected_artifact_version = v, rreq_observed_expires_ms = e,
      rreq_candidate_lease_id = l, rreq_candidate_token = t, rreq_idempotency_key = ri,
      rreq_request_digest = [] \<rparr>"
  have f: "replay_request_fields_ok ?r" using assms by (simp add: replay_request_fields_ok_def)
  then obtain dg where d: "replay_claim_request_digest_of dumps ?r = Inr dg"
    using canonical_digest_returns replay_request_payload_jwf unfolding replay_claim_request_digest_of_def by blast
  have "all_ok (replay_claim_request_checks dumps (?r \<lparr> rreq_request_digest := dg \<rparr>))"
    using f d by (simp add: replay_request_iff replay_request_fields_ok_def replay_claim_request_digest_of_def
        replay_claim_request_payload_def)
  with d show ?thesis by (simp add: replay_claim_request_create_def Let_def)
qed

lemma replay_result_created:
  assumes "all_ok (replay_claim_request_checks dumps q)" and "all_ok (candidate_checks dumps c)"
    and "cand_scan_operation_id c = rreq_replay_operation_id q"
    and "cand_candidate_lease_id c = rreq_candidate_lease_id q" and "cand_candidate_token c = rreq_candidate_token q"
    and "cand_artifact_id c = rreq_artifact_id q" and "cand_hold_id c = rreq_hold_id q"
    and "cand_expected_hold_digest c = rreq_expected_hold_digest q"
    and "cand_expected_artifact_version c = rreq_expected_artifact_version q"
    and "cand_observed_expires_ms c = rreq_observed_expires_ms q"
  shows "\<exists>r. replay_claim_result_create dumps q c = Inr r \<and>
    all_ok (replay_claim_result_checks_for dumps r q) \<and> rres_candidate r = c"
proof -
  let ?r = "\<lparr> rres_schema_version = u ''1'', rres_replay_operation_id = rreq_replay_operation_id q,
      rres_expire_operation_id = rreq_expire_operation_id q,
      rres_base_commit_digest = rreq_base_commit_digest q, rres_request_digest = rreq_request_digest q,
      rres_result_code = u ''CLAIMED'', rres_candidate = c, rres_result_digest = [] \<rparr>"
  have f: "replay_result_fields_ok dumps ?r"
    using assms replay_request_digest_shape [OF assms(1)] replay_request_ids_shape [of q]
    by (simp add: replay_result_fields_ok_def replay_request_iff replay_request_fields_ok_def)
  then obtain d where d: "replay_claim_result_digest_of dumps ?r = Inr d"
    using canonical_digest_returns replay_result_payload_jwf unfolding replay_claim_result_digest_of_def by blast
  have "all_ok (replay_claim_result_checks dumps (?r \<lparr> rres_result_digest := d \<rparr>))"
    using f d by (simp add: replay_result_iff replay_result_fields_ok_def replay_claim_result_digest_of_def
        replay_claim_result_payload_def)
  with d assms show ?thesis by (simp add: replay_claim_result_create_def Let_def replay_result_for_iff)
qed

lemma replay_request_json_iff:
  "replay_claim_request_from_json dumps wire = Inr r \<longleftrightarrow>
     all_ok (replay_claim_request_checks dumps r) \<and>
     canonical_json dumps (replay_claim_request_wire_dict r) = Inr wire"
  by (rule decode_iff [OF replay_request_decode])
    (auto simp: replay_claim_request_from_json_def replay_request_wire_jwf simp del: jwf.simps)

lemma replay_result_json_iff:
  "replay_claim_result_from_json dumps wire = Inr r \<longleftrightarrow>
     all_ok (replay_claim_result_checks dumps r) \<and>
     canonical_json dumps (replay_claim_result_wire_dict r) = Inr wire"
  by (rule decode_iff [OF replay_result_decode])
    (auto simp: replay_claim_result_from_json_def replay_result_wire_jwf simp del: jwf.simps)

end

end
