(* ===== verification/HoldExpiry.thy ===== *)
theory HoldExpiry
  imports HoldReplay "HOL-Library.FSet"
begin

text \<open>
  The EXPIRE side of the hold-expiry contract: the expiry request, the hold state, the result, the
  commit evidence and the audit and outbox records (\<open>ArtifactHoldExpiryRequest\<close>, \<open>ArtifactHoldState\<close>,
  \<open>ArtifactHoldExpiryResult\<close>, \<open>ArtifactHoldExpiryCommit\<close>, \<open>ArtifactHoldExpiryEventRecord\<close>), with the
  binding of a request to a candidate.
\<close>

section \<open>Expiry request\<close>

record ArtifactHoldExpiryRequest =
  ereq_schema_version :: ustr
  ereq_operation :: ArtifactHoldExpiryOperation
  ereq_expire_operation_id :: ustr
  ereq_artifact_id :: ustr
  ereq_hold_id :: ustr
  ereq_expected_hold_digest :: ustr
  ereq_expected_artifact_version :: int
  ereq_observed_expires_ms :: int
  ereq_scan_operation_id :: ustr
  ereq_candidate_lease_id :: ustr
  ereq_candidate_fencing_token :: int
  ereq_candidate_token :: ustr
  ereq_idempotency_key :: ustr
  ereq_request_digest :: ustr

definition expire_request_business_payload :: "ArtifactHoldExpiryRequest \<Rightarrow> dict" where
  "expire_request_business_payload r = dict_of
     [(u ''schemaVersion'', JStr (ereq_schema_version r)),
      (u ''operation'', JStr (operation_value (ereq_operation r))),
      (u ''expireOperationId'', JStr (ereq_expire_operation_id r)),
      (u ''artifactId'', JStr (ereq_artifact_id r)),
      (u ''holdId'', JStr (ereq_hold_id r)),
      (u ''expectedHoldDigest'', JStr (ereq_expected_hold_digest r)),
      (u ''expectedArtifactVersion'', JInt (ereq_expected_artifact_version r)),
      (u ''observedExpiresMs'', JInt (ereq_observed_expires_ms r)),
      (u ''idempotencyKey'', JStr (ereq_idempotency_key r))]"

definition expire_request_payload :: "ArtifactHoldExpiryRequest \<Rightarrow> dict" where
  "expire_request_payload r = dict_union (expire_request_business_payload r) (dict_of
     [(u ''scanOperationId'', JStr (ereq_scan_operation_id r)),
      (u ''candidateLeaseId'', JStr (ereq_candidate_lease_id r)),
      (u ''candidateFencingToken'', JInt (ereq_candidate_fencing_token r)),
      (u ''candidateToken'', JStr (ereq_candidate_token r))])"

definition artifact_hold_expiry_request_digest ::
    "(json \<Rightarrow> bytes option) \<Rightarrow> ArtifactHoldExpiryRequest \<Rightarrow> ustr result" where
  "artifact_hold_expiry_request_digest dumps r = canonical_digest dumps (expire_request_business_payload r)"

definition expiry_request_checks :: "(json \<Rightarrow> bytes option) \<Rightarrow> ArtifactHoldExpiryRequest \<Rightarrow> check list" where
  "expiry_request_checks dumps r =
     [Check (ereq_schema_version r = u ''1'') (conflict ''unsupported artifact hold expiry schema''),
      Check (ereq_operation r = EXPIRE_OP) (conflict ''artifact hold expiry operation must be EXPIRE'')] @
     require_sha256 (ereq_expire_operation_id r) ''expire_operation_id'' @
     require_stable_text (ereq_artifact_id r) ''artifact_id'' @
     require_stable_text (ereq_hold_id r) ''hold_id'' @
     require_sha256 (ereq_expected_hold_digest r) ''expected_hold_digest'' @
     require_integer (ereq_expected_artifact_version r) ''expected_artifact_version'' 1 @
     require_integer (ereq_observed_expires_ms r) ''observed_expires_ms'' 0 @
     require_sha256 (ereq_scan_operation_id r) ''scan_operation_id'' @
     require_candidate_token (ereq_candidate_lease_id r) ''candidate_lease_id'' @
     require_integer (ereq_candidate_fencing_token r) ''candidate_fencing_token'' 1 @
     require_candidate_token (ereq_candidate_token r) ''candidate_token'' @
     [Check (ereq_candidate_lease_id r \<noteq> ereq_candidate_token r)
        (conflict ''candidate lease ID and candidate token must differ'')] @
     require_sha256 (ereq_idempotency_key r) ''idempotency_key'' @
     require_sha256 (ereq_request_digest r) ''request_digest'' @
     digest_match (artifact_hold_expiry_operation_id (ereq_artifact_id r) (ereq_hold_id r)
         (ereq_expected_hold_digest r) (ereq_expected_artifact_version r) (ereq_observed_expires_ms r))
       (ereq_expire_operation_id r) (conflict ''expire_operation_id does not match due tuple'') @
     [Check (ereq_idempotency_key r = ereq_expire_operation_id r)
        (conflict ''idempotency_key must equal expire_operation_id'')] @
     digest_match (artifact_hold_expiry_request_digest dumps r) (ereq_request_digest r)
       (conflict ''request_digest mismatch'')"

definition expiry_request_create ::
    "(json \<Rightarrow> bytes option) \<Rightarrow> ArtifactHoldExpiryCandidate \<Rightarrow> ArtifactHoldExpiryRequest result" where
  "expiry_request_create dumps c =
     checked (candidate_checks dumps c)
     (bindE (artifact_hold_expiry_operation_id (cand_artifact_id c) (cand_hold_id c)
               (cand_expected_hold_digest c) (cand_expected_artifact_version c)
               (cand_observed_expires_ms c)) (\<lambda>operation_id.
      let request = \<lparr> ereq_schema_version = u ''1'', ereq_operation = EXPIRE_OP,
            ereq_expire_operation_id = operation_id, ereq_artifact_id = cand_artifact_id c,
            ereq_hold_id = cand_hold_id c, ereq_expected_hold_digest = cand_expected_hold_digest c,
            ereq_expected_artifact_version = cand_expected_artifact_version c,
            ereq_observed_expires_ms = cand_observed_expires_ms c,
            ereq_scan_operation_id = cand_scan_operation_id c,
            ereq_candidate_lease_id = cand_candidate_lease_id c,
            ereq_candidate_fencing_token = cand_candidate_fencing_token c,
            ereq_candidate_token = cand_candidate_token c, ereq_idempotency_key = operation_id,
            ereq_request_digest = [] \<rparr>
      in bindE (artifact_hold_expiry_request_digest dumps request) (\<lambda>digest.
         let created = request \<lparr> ereq_request_digest := digest \<rparr>
         in checked (expiry_request_checks dumps created) (Inr created))))"

definition expiry_request_wire_dict :: "ArtifactHoldExpiryRequest \<Rightarrow> dict" where
  "expiry_request_wire_dict r =
     dict_union (expire_request_payload r) (dict_of [(u ''requestDigest'', JStr (ereq_request_digest r))])"

definition expiry_request_fields :: "string list" where
  "expiry_request_fields =
     [''schemaVersion'', ''operation'', ''expireOperationId'', ''artifactId'', ''holdId'',
      ''expectedHoldDigest'', ''expectedArtifactVersion'', ''observedExpiresMs'', ''scanOperationId'',
      ''candidateLeaseId'', ''candidateFencingToken'', ''candidateToken'', ''idempotencyKey'',
      ''requestDigest'']"

definition expiry_request_from_json ::
    "(json \<Rightarrow> bytes option) \<Rightarrow> bytes \<Rightarrow> ArtifactHoldExpiryRequest result" where
  "expiry_request_from_json dumps wire =
     bindE (parse_canonical_object dumps wire ''artifact hold expiry request'') (\<lambda>v.
     checked (require_exact_fields v expiry_request_fields ''artifact hold expiry request'')
     (bindE (parse_operation v ''expiry request operation'') (\<lambda>operation.
      bindE (str_field v ''schemaVersion'' (conflict ''unsupported artifact hold expiry schema'')) (\<lambda>schema_version.
      bindE (text_field v ''expireOperationId'' ''expire_operation_id'') (\<lambda>expire_operation_id.
      bindE (text_field v ''artifactId'' ''artifact_id'') (\<lambda>artifact_id.
      bindE (text_field v ''holdId'' ''hold_id'') (\<lambda>hold_id.
      bindE (text_field v ''expectedHoldDigest'' ''expected_hold_digest'') (\<lambda>expected_hold_digest.
      bindE (int_field v ''expectedArtifactVersion'' ''expected_artifact_version'') (\<lambda>expected_artifact_version.
      bindE (int_field v ''observedExpiresMs'' ''observed_expires_ms'') (\<lambda>observed_expires_ms.
      bindE (text_field v ''scanOperationId'' ''scan_operation_id'') (\<lambda>scan_operation_id.
      bindE (text_field v ''candidateLeaseId'' ''candidate_lease_id'') (\<lambda>candidate_lease_id.
      bindE (int_field v ''candidateFencingToken'' ''candidate_fencing_token'') (\<lambda>candidate_fencing_token.
      bindE (text_field v ''candidateToken'' ''candidate_token'') (\<lambda>candidate_token.
      bindE (text_field v ''idempotencyKey'' ''idempotency_key'') (\<lambda>idempotency_key.
      bindE (text_field v ''requestDigest'' ''request_digest'') (\<lambda>request_digest.
      let request = \<lparr> ereq_schema_version = schema_version, ereq_operation = operation,
            ereq_expire_operation_id = expire_operation_id, ereq_artifact_id = artifact_id,
            ereq_hold_id = hold_id, ereq_expected_hold_digest = expected_hold_digest,
            ereq_expected_artifact_version = expected_artifact_version,
            ereq_observed_expires_ms = observed_expires_ms, ereq_scan_operation_id = scan_operation_id,
            ereq_candidate_lease_id = candidate_lease_id,
            ereq_candidate_fencing_token = candidate_fencing_token,
            ereq_candidate_token = candidate_token, ereq_idempotency_key = idempotency_key,
            ereq_request_digest = request_digest \<rparr>
      in checked (expiry_request_checks dumps request) (Inr request)))))))))))))))))"

definition require_candidate_request_binding ::
    "ArtifactHoldExpiryRequest \<Rightarrow> ArtifactHoldExpiryCandidate \<Rightarrow> check list" where
  "require_candidate_request_binding r c =
     [Check (\<not> (ereq_artifact_id r \<noteq> cand_artifact_id c
        \<or> ereq_hold_id r \<noteq> cand_hold_id c
        \<or> ereq_expected_hold_digest r \<noteq> cand_expected_hold_digest c
        \<or> ereq_expected_artifact_version r \<noteq> cand_expected_artifact_version c
        \<or> ereq_observed_expires_ms r \<noteq> cand_observed_expires_ms c
        \<or> ereq_scan_operation_id r \<noteq> cand_scan_operation_id c
        \<or> ereq_candidate_lease_id r \<noteq> cand_candidate_lease_id c
        \<or> ereq_candidate_fencing_token r \<noteq> cand_candidate_fencing_token c
        \<or> ereq_candidate_token r \<noteq> cand_candidate_token c))
        (conflict ''candidate ledger is not bound to expiry request'')]"

section \<open>Hold state\<close>

record ArtifactHoldState =
  hold_artifact_id :: ustr
  hold_artifact_version :: int
  hold_artifact_status :: ArtifactLifecycleStatus
  hold_hold_id :: ustr
  hold_hold_digest :: ustr
  hold_hold_status :: ArtifactHoldStatus
  hold_expires_ms :: "int option"
  hold_active_hold_ids :: "ustr fset"
  hold_active_ref_count :: int
  hold_minimum_delete_at_ms :: "int option"
  hold_due_indexed :: bool
  hold_due_score_ms :: "int option"
  hold_candidate :: "ArtifactHoldExpiryCandidate option"

definition retention_lock :: "ArtifactHoldState \<Rightarrow> int \<Rightarrow> bool" where
  "retention_lock s server_now_ms \<longleftrightarrow>
     (let minimum_time_lock = (case hold_minimum_delete_at_ms s of None \<Rightarrow> False | Some m \<Rightarrow> server_now_ms < m)
      in hold_active_hold_ids s \<noteq> {||} \<or> hold_active_ref_count s > 0 \<or> minimum_time_lock)"

definition retention_locked_at :: "ArtifactHoldState \<Rightarrow> int \<Rightarrow> bool result" where
  "retention_locked_at s server_now_ms =
     checked (require_integer server_now_ms ''server_now_ms'' 0) (Inr (retention_lock s server_now_ms))"

definition opt_integer_checks :: "int option \<Rightarrow> string \<Rightarrow> int \<Rightarrow> check list" where
  "opt_integer_checks v label minimum = (case v of None \<Rightarrow> [] | Some n \<Rightarrow> require_integer n label minimum)"

text \<open>The loop over a frozenset has no order; its guard is applied to the set as a whole.\<close>

definition active_ids_checks :: "ustr fset \<Rightarrow> check list" where
  "active_ids_checks ids =
     [Check (fBall ids (\<lambda>v. v \<noteq> [] \<and> v = strip v))
        (ArtifactHoldExpiryConflict [''active hold ID'', '' must be non-empty trimmed text'']),
      Check (fBall ids (\<lambda>v. \<not> (0 \<in> set v \<or> list_ex is_control v)))
        (ArtifactHoldExpiryConflict [''active hold ID'', '' contains a control character'']),
      Check (fBall ids (\<lambda>v. utf8_encode v \<noteq> None))
        (ArtifactHoldExpiryConflict [''active hold ID'', '' is not valid Unicode text''])]"

definition is_finite_active :: "ArtifactHoldState \<Rightarrow> bool" where
  "is_finite_active s \<longleftrightarrow> hold_hold_status s = ACTIVE \<and> hold_expires_ms s \<noteq> None"

definition hold_state_checks :: "(json \<Rightarrow> bytes option) \<Rightarrow> ArtifactHoldState \<Rightarrow> check list" where
  "hold_state_checks dumps s =
     require_stable_text (hold_artifact_id s) ''artifact_id'' @
     require_integer (hold_artifact_version s) ''artifact_version'' 1 @
     require_stable_text (hold_hold_id s) ''hold_id'' @
     require_sha256 (hold_hold_digest s) ''hold_digest'' @
     opt_integer_checks (hold_expires_ms s) ''expires_ms'' 0 @
     active_ids_checks (hold_active_hold_ids s) @
     require_integer (hold_active_ref_count s) ''active_ref_count'' 0 @
     opt_integer_checks (hold_minimum_delete_at_ms s) ''minimum_delete_at_ms'' 0 @
     opt_integer_checks (hold_due_score_ms s) ''due_score_ms'' 0 @
     (if hold_hold_status s = ACTIVE
      then [Check (hold_hold_id s |\<in>| hold_active_hold_ids s)
              (conflict ''ACTIVE hold is absent from active hold set'')]
      else [Check (\<not> hold_hold_id s |\<in>| hold_active_hold_ids s)
              (conflict ''terminal hold remains in active retention set'')]) @
     (if is_finite_active s
      then [Check (\<not> (\<not> hold_due_indexed s \<or> hold_due_score_ms s \<noteq> hold_expires_ms s))
              (conflict ''finite ACTIVE hold due index is missing or changed'')]
      else [Check (\<not> (hold_due_indexed s \<or> hold_due_score_ms s \<noteq> None))
              (conflict ''non-expiring or terminal hold must not remain in due index'')]) @
     (case hold_candidate s of None \<Rightarrow> []
      | Some c \<Rightarrow> candidate_checks dumps c @
          [Check (cand_artifact_id c = hold_artifact_id s \<and> cand_hold_id c = hold_hold_id s
              \<and> cand_expected_hold_digest c = hold_hold_digest s
              \<and> cand_expected_artifact_version c = hold_artifact_version s
              \<and> Some (cand_observed_expires_ms c) = hold_expires_ms s
              \<and> is_finite_active s \<and> hold_due_indexed s \<and> hold_due_score_ms s = hold_expires_ms s)
             (conflict ''candidate ledger is not bound to current due tuple'')])"

section \<open>Expiry result\<close>

record ArtifactHoldExpiryResult =
  eres_schema_version :: ustr
  eres_expire_operation_id :: ustr
  eres_artifact_id :: ustr
  eres_hold_id :: ustr
  eres_request_digest :: ustr
  eres_result_code :: ustr
  eres_hold_status :: ArtifactHoldStatus
  eres_artifact_version :: int
  eres_retention_locked :: bool
  eres_audit_event_type :: ustr
  eres_outbox_event_type :: ustr
  eres_result_digest :: ustr

definition expire_result_payload :: "ArtifactHoldExpiryResult \<Rightarrow> dict" where
  "expire_result_payload r = dict_of
     [(u ''schemaVersion'', JStr (eres_schema_version r)),
      (u ''expireOperationId'', JStr (eres_expire_operation_id r)),
      (u ''artifactId'', JStr (eres_artifact_id r)),
      (u ''holdId'', JStr (eres_hold_id r)),
      (u ''requestDigest'', JStr (eres_request_digest r)),
      (u ''resultCode'', JStr (eres_result_code r)),
      (u ''holdStatus'', JStr (hold_status_value (eres_hold_status r))),
      (u ''artifactVersion'', JInt (eres_artifact_version r)),
      (u ''retentionLocked'', JBool (eres_retention_locked r)),
      (u ''auditEventType'', JStr (eres_audit_event_type r)),
      (u ''outboxEventType'', JStr (eres_outbox_event_type r))]"

definition expire_result_digest_of :: "(json \<Rightarrow> bytes option) \<Rightarrow> ArtifactHoldExpiryResult \<Rightarrow> ustr result" where
  "expire_result_digest_of dumps r = canonical_digest dumps (expire_result_payload r)"

definition expiry_result_checks :: "(json \<Rightarrow> bytes option) \<Rightarrow> ArtifactHoldExpiryResult \<Rightarrow> check list" where
  "expiry_result_checks dumps r =
     [Check (eres_schema_version r = u ''1'') (conflict ''unsupported expiry result schema'')] @
     require_sha256 (eres_expire_operation_id r) ''result.expire_operation_id'' @
     require_stable_text (eres_artifact_id r) ''result.artifact_id'' @
     require_stable_text (eres_hold_id r) ''result.hold_id'' @
     require_sha256 (eres_request_digest r) ''result.request_digest'' @
     [Check (eres_result_code r = u ''EXPIRED'') (conflict ''invalid expiry result code''),
      Check (eres_hold_status r = EXPIRED) (conflict ''invalid stored expiry hold status'')] @
     require_integer (eres_artifact_version r) ''result.artifact_version'' 1 @
     [Check (\<not> (eres_audit_event_type r \<noteq> u ''ArtifactHoldExpired''
               \<or> eres_outbox_event_type r \<noteq> u ''ArtifactHoldExpired''))
        (conflict ''expiry result sink mismatch'')] @
     require_sha256 (eres_result_digest r) ''result.result_digest'' @
     digest_match (expire_result_digest_of dumps r) (eres_result_digest r)
       (conflict ''stored expiry result digest mismatch'')"

definition expiry_result_create ::
    "(json \<Rightarrow> bytes option) \<Rightarrow> ustr \<Rightarrow> ustr \<Rightarrow> ustr \<Rightarrow> ustr \<Rightarrow> int \<Rightarrow> bool \<Rightarrow> ArtifactHoldExpiryResult result" where
  "expiry_result_create dumps expire_operation_id artifact_id hold_id request_digest artifact_version
      retention_locked =
     (let result = \<lparr> eres_schema_version = u ''1'', eres_expire_operation_id = expire_operation_id,
            eres_artifact_id = artifact_id, eres_hold_id = hold_id, eres_request_digest = request_digest,
            eres_result_code = u ''EXPIRED'', eres_hold_status = EXPIRED,
            eres_artifact_version = artifact_version, eres_retention_locked = retention_locked,
            eres_audit_event_type = u ''ArtifactHoldExpired'',
            eres_outbox_event_type = u ''ArtifactHoldExpired'', eres_result_digest = [] \<rparr>
      in bindE (expire_result_digest_of dumps result) (\<lambda>digest.
         let created = result \<lparr> eres_result_digest := digest \<rparr>
         in checked (expiry_result_checks dumps created) (Inr created)))"

definition expiry_result_wire_dict :: "ArtifactHoldExpiryResult \<Rightarrow> dict" where
  "expiry_result_wire_dict r =
     dict_union (expire_result_payload r) (dict_of [(u ''resultDigest'', JStr (eres_result_digest r))])"

definition expiry_result_fields :: "string list" where
  "expiry_result_fields =
     [''schemaVersion'', ''expireOperationId'', ''artifactId'', ''holdId'', ''requestDigest'',
      ''resultCode'', ''holdStatus'', ''artifactVersion'', ''retentionLocked'', ''auditEventType'',
      ''outboxEventType'', ''resultDigest'']"

definition parse_hold_status :: "dict \<Rightarrow> ArtifactHoldStatus result" where
  "parse_hold_status d = (case map_of d (u ''holdStatus'') of
     None \<Rightarrow> Inl KeyError
   | Some v \<Rightarrow>
       (case find (\<lambda>m. v = JStr (hold_status_value m)) [ACTIVE, RELEASED, EXPIRED] of
          Some m \<Rightarrow> Inr m | None \<Rightarrow> Inl (conflict ''stored expiry result has unknown holdStatus'')))"

definition bool_field :: "dict \<Rightarrow> string \<Rightarrow> pyerr \<Rightarrow> bool result" where
  "bool_field d key e = (case map_of d (u key) of
     None \<Rightarrow> Inl KeyError | Some (JBool b) \<Rightarrow> Inr b | Some _ \<Rightarrow> Inl e)"

definition expiry_result_from_json ::
    "(json \<Rightarrow> bytes option) \<Rightarrow> bytes \<Rightarrow> ArtifactHoldExpiryResult result" where
  "expiry_result_from_json dumps wire =
     bindE (parse_canonical_object dumps wire ''stored expiry result'') (\<lambda>v.
     checked (require_exact_fields v expiry_result_fields ''stored expiry result'')
     (bindE (parse_hold_status v) (\<lambda>hold_status.
      bindE (str_field v ''schemaVersion'' (conflict ''unsupported expiry result schema'')) (\<lambda>schema_version.
      bindE (text_field v ''expireOperationId'' ''result.expire_operation_id'') (\<lambda>expire_operation_id.
      bindE (text_field v ''artifactId'' ''result.artifact_id'') (\<lambda>artifact_id.
      bindE (text_field v ''holdId'' ''result.hold_id'') (\<lambda>hold_id.
      bindE (text_field v ''requestDigest'' ''result.request_digest'') (\<lambda>request_digest.
      bindE (str_field v ''resultCode'' (conflict ''invalid expiry result code'')) (\<lambda>result_code.
      bindE (int_field v ''artifactVersion'' ''result.artifact_version'') (\<lambda>artifact_version.
      bindE (bool_field v ''retentionLocked'' (conflict ''result.retention_locked must be a boolean'')) (\<lambda>retention_locked.
      bindE (str_field v ''auditEventType'' (conflict ''expiry result sink mismatch'')) (\<lambda>audit_event_type.
      bindE (str_field v ''outboxEventType'' (conflict ''expiry result sink mismatch'')) (\<lambda>outbox_event_type.
      bindE (text_field v ''resultDigest'' ''result.result_digest'') (\<lambda>result_digest.
      let result = \<lparr> eres_schema_version = schema_version,
            eres_expire_operation_id = expire_operation_id, eres_artifact_id = artifact_id,
            eres_hold_id = hold_id, eres_request_digest = request_digest,
            eres_result_code = result_code, eres_hold_status = hold_status,
            eres_artifact_version = artifact_version, eres_retention_locked = retention_locked,
            eres_audit_event_type = audit_event_type, eres_outbox_event_type = outbox_event_type,
            eres_result_digest = result_digest \<rparr>
      in checked (expiry_result_checks dumps result) (Inr result)))))))))))))))"

section \<open>What the guards mean: requests and hold states\<close>

definition expiry_request_fields_ok :: "ArtifactHoldExpiryRequest \<Rightarrow> bool" where
  "expiry_request_fields_ok r \<longleftrightarrow> ereq_schema_version r = u ''1'' \<and> ereq_operation r = EXPIRE_OP \<and>
     due_tuple (ereq_artifact_id r) (ereq_hold_id r) (ereq_expected_hold_digest r)
       (ereq_expected_artifact_version r) (ereq_observed_expires_ms r) \<and>
     lower_sha256 (ereq_scan_operation_id r) \<and> canonical_token (ereq_candidate_lease_id r) \<and>
     int_from 1 (ereq_candidate_fencing_token r) \<and> canonical_token (ereq_candidate_token r) \<and>
     ereq_candidate_lease_id r \<noteq> ereq_candidate_token r \<and>
     artifact_hold_expiry_operation_id (ereq_artifact_id r) (ereq_hold_id r) (ereq_expected_hold_digest r)
       (ereq_expected_artifact_version r) (ereq_observed_expires_ms r) = Inr (ereq_expire_operation_id r) \<and>
     ereq_idempotency_key r = ereq_expire_operation_id r"

lemma expiry_request_id_shape: "expiry_request_fields_ok r \<Longrightarrow> lower_sha256 (ereq_expire_operation_id r)"
  by (auto simp: expiry_request_fields_ok_def dest: expiry_operation_id_shape)

lemma expiry_request_iff:
  "all_ok (expiry_request_checks dumps r) \<longleftrightarrow> expiry_request_fields_ok r \<and>
     artifact_hold_expiry_request_digest dumps r = Inr (ereq_request_digest r)"
  by (auto simp: expiry_request_checks_def expiry_request_fields_ok_def due_tuple_def
      artifact_hold_expiry_request_digest_def dest: canonical_digest_shape expiry_operation_id_shape)

lemma expiry_request_digest_shape:
  "all_ok (expiry_request_checks dumps r) \<Longrightarrow> lower_sha256 (ereq_request_digest r)"
  by (auto simp: expiry_request_iff artifact_hold_expiry_request_digest_def dest: canonical_digest_shape)

lemma expiry_business_payload_jwf:
  assumes "expiry_request_fields_ok r"
  shows "jwf (JObj (expire_request_business_payload r))"
  unfolding expire_request_business_payload_def
  using assms expiry_request_id_shape [OF assms]
  by (intro jwf_dict_of) (auto simp: expiry_request_fields_ok_def due_tuple_def u_def scalar_value_def
      simp del: jwf.simps operation_value.simps intro: field_jwf)

lemma expiry_request_wire_jwf:
  assumes "all_ok (expiry_request_checks dumps r)"
  shows "jwf (JObj (expiry_request_wire_dict r))"
proof -
  have f: "expiry_request_fields_ok r" "lower_sha256 (ereq_request_digest r)"
    using assms expiry_request_digest_shape by (auto simp: expiry_request_iff)
  then show ?thesis
    unfolding expiry_request_wire_dict_def expire_request_payload_def
    by (intro jwf_dict_union expiry_business_payload_jwf jwf_dict_of)
      (auto simp: expiry_request_fields_ok_def u_def scalar_value_def simp del: jwf.simps intro: field_jwf)
qed

lemma expiry_request_wire_keys:
  "set (map fst (expiry_request_wire_dict r)) = set (map u expiry_request_fields)"
  by (auto simp: expiry_request_wire_dict_def expire_request_payload_def expire_request_business_payload_def
      expiry_request_fields_def keys_dict_of)

lemma expiry_request_decode:
  assumes "parse_canonical_object dumps wire ''artifact hold expiry request'' = Inr d"
  shows "expiry_request_from_json dumps wire = Inr r \<longleftrightarrow>
    all_ok (expiry_request_checks dumps r) \<and> d = expiry_request_wire_dict r"
proof
  assume "expiry_request_from_json dumps wire = Inr r"
  then have "all_ok (expiry_request_checks dumps r)" and "set (map fst d) = set (map u expiry_request_fields)"
    and "\<forall>k \<in> set expiry_request_fields. map_of d (u k) = map_of (expiry_request_wire_dict r) (u k)"
    by (auto simp: expiry_request_from_json_def require_exact_fields_def Let_def assms
        expiry_request_wire_dict_def expire_request_payload_def expire_request_business_payload_def
        expiry_request_fields_def map_of_dict_of)
  then show "all_ok (expiry_request_checks dumps r) \<and> d = expiry_request_wire_dict r"
    using parse_canonical_dicts [OF assms] expiry_request_wire_keys
      dict_eq_on_fields [of d "expiry_request_wire_dict r" expiry_request_fields]
    by (auto simp: expiry_request_wire_dict_def)
next
  assume "all_ok (expiry_request_checks dumps r) \<and> d = expiry_request_wire_dict r"
  then show "expiry_request_from_json dumps wire = Inr r"
    using expiry_request_wire_keys [of r]
    by (cases r) (simp add: expiry_request_from_json_def require_exact_fields_def Let_def assms
        expiry_request_wire_dict_def expire_request_payload_def expire_request_business_payload_def map_of_dict_of)
qed

text \<open>The request a candidate gives rise to, up to its digest.\<close>

definition request_matches :: "ArtifactHoldExpiryRequest \<Rightarrow> ArtifactHoldExpiryCandidate \<Rightarrow> bool" where
  "request_matches r c \<longleftrightarrow> ereq_artifact_id r = cand_artifact_id c \<and> ereq_hold_id r = cand_hold_id c \<and>
     ereq_expected_hold_digest r = cand_expected_hold_digest c \<and>
     ereq_expected_artifact_version r = cand_expected_artifact_version c \<and>
     ereq_observed_expires_ms r = cand_observed_expires_ms c \<and>
     ereq_scan_operation_id r = cand_scan_operation_id c \<and>
     ereq_candidate_lease_id r = cand_candidate_lease_id c \<and>
     ereq_candidate_fencing_token r = cand_candidate_fencing_token c \<and>
     ereq_candidate_token r = cand_candidate_token c"

lemma ok_binding [simp]: "all_ok (require_candidate_request_binding r c) \<longleftrightarrow> request_matches r c"
  by (auto simp: require_candidate_request_binding_def request_matches_def)

lemma expiry_request_created_iff:
  "expiry_request_create dumps c = Inr r \<longleftrightarrow>
     all_ok (candidate_checks dumps c) \<and> all_ok (expiry_request_checks dumps r) \<and> request_matches r c"
proof
  assume "expiry_request_create dumps c = Inr r"
  then show "all_ok (candidate_checks dumps c) \<and> all_ok (expiry_request_checks dumps r) \<and> request_matches r c"
    by (auto simp: expiry_request_create_def Let_def request_matches_def)
next
  assume r: "all_ok (candidate_checks dumps c) \<and> all_ok (expiry_request_checks dumps r) \<and> request_matches r c"
  then have "artifact_hold_expiry_request_digest dumps (r \<lparr> ereq_request_digest := [] \<rparr>) = Inr (ereq_request_digest r)"
    by (simp add: expiry_request_iff artifact_hold_expiry_request_digest_def expire_request_business_payload_def)
  with r show "expiry_request_create dumps c = Inr r"
    by (cases r) (auto simp: expiry_request_create_def Let_def request_matches_def expiry_request_iff
        expiry_request_fields_ok_def)
qed

lemma ok_opt_integer [simp]:
  "all_ok (opt_integer_checks v l m) \<longleftrightarrow> (case v of None \<Rightarrow> True | Some n \<Rightarrow> int_from m n)"
  by (simp add: opt_integer_checks_def split: option.splits)

lemma ok_active_ids [simp]: "all_ok (active_ids_checks ids) \<longleftrightarrow> fBall ids stable_text"
  by (auto simp: active_ids_checks_def stable_text_utf8 list_ex_iff is_control_def) fastforce

definition due_candidate :: "ArtifactHoldState \<Rightarrow> ArtifactHoldExpiryCandidate \<Rightarrow> bool" where
  "due_candidate s c \<longleftrightarrow> cand_artifact_id c = hold_artifact_id s \<and> cand_hold_id c = hold_hold_id s \<and>
     cand_expected_hold_digest c = hold_hold_digest s \<and>
     cand_expected_artifact_version c = hold_artifact_version s \<and>
     Some (cand_observed_expires_ms c) = hold_expires_ms s"

definition hold_fields_ok :: "ArtifactHoldState \<Rightarrow> bool" where
  "hold_fields_ok s \<longleftrightarrow> stable_text (hold_artifact_id s) \<and> int_from 1 (hold_artifact_version s) \<and>
     stable_text (hold_hold_id s) \<and> lower_sha256 (hold_hold_digest s) \<and>
     (case hold_expires_ms s of None \<Rightarrow> True | Some n \<Rightarrow> int_from 0 n) \<and>
     fBall (hold_active_hold_ids s) stable_text \<and> int_from 0 (hold_active_ref_count s) \<and>
     (case hold_minimum_delete_at_ms s of None \<Rightarrow> True | Some n \<Rightarrow> int_from 0 n)"

text \<open>\<open>ArtifactHoldState.validate\<close>: a hold is in the active set exactly when it is ACTIVE, and it is in
  the due index, at its expiry, exactly when it is ACTIVE with a finite expiry; only such a hold
  carries a candidate, and the candidate is bound to the current due tuple.\<close>

lemma hold_state_iff:
  "all_ok (hold_state_checks dumps s) \<longleftrightarrow> hold_fields_ok s \<and>
     (hold_hold_id s |\<in>| hold_active_hold_ids s \<longleftrightarrow> hold_hold_status s = ACTIVE) \<and>
     hold_due_indexed s = is_finite_active s \<and>
     hold_due_score_ms s = (if is_finite_active s then hold_expires_ms s else None) \<and>
     (case hold_candidate s of None \<Rightarrow> True
      | Some c \<Rightarrow> all_ok (candidate_checks dumps c) \<and> due_candidate s c \<and> is_finite_active s)"
proof -
  have "(case hold_due_score_ms s of None \<Rightarrow> True | Some n \<Rightarrow> int_from 0 n)"
    if "hold_fields_ok s" "hold_due_score_ms s = (if is_finite_active s then hold_expires_ms s else None)"
    using that by (auto simp: hold_fields_ok_def split: option.splits)
  then show ?thesis
    by (cases "hold_candidate s"; cases "is_finite_active s"; cases "hold_hold_status s = ACTIVE")
      (auto simp: hold_state_checks_def hold_fields_ok_def due_candidate_def)
qed

lemma retention_locked_at_eq: "int_from 0 t \<Longrightarrow> retention_locked_at s t = Inr (retention_lock s t)"
  by (simp add: retention_locked_at_def)

section \<open>What the guards mean: results\<close>

definition expiry_result_fields_ok :: "ArtifactHoldExpiryResult \<Rightarrow> bool" where
  "expiry_result_fields_ok r \<longleftrightarrow> eres_schema_version r = u ''1'' \<and> lower_sha256 (eres_expire_operation_id r) \<and>
     stable_text (eres_artifact_id r) \<and> stable_text (eres_hold_id r) \<and>
     lower_sha256 (eres_request_digest r) \<and> eres_result_code r = u ''EXPIRED'' \<and>
     eres_hold_status r = EXPIRED \<and> int_from 1 (eres_artifact_version r) \<and>
     eres_audit_event_type r = u ''ArtifactHoldExpired'' \<and> eres_outbox_event_type r = u ''ArtifactHoldExpired''"

lemma expiry_result_iff:
  "all_ok (expiry_result_checks dumps r) \<longleftrightarrow> expiry_result_fields_ok r \<and>
     expire_result_digest_of dumps r = Inr (eres_result_digest r)"
  by (auto simp: expiry_result_checks_def expiry_result_fields_ok_def expire_result_digest_of_def
      dest: canonical_digest_shape)

lemma expiry_result_digest_shape:
  "all_ok (expiry_result_checks dumps r) \<Longrightarrow> lower_sha256 (eres_result_digest r)"
  by (auto simp: expiry_result_iff expire_result_digest_of_def dest: canonical_digest_shape)

lemma ascii_jwf: "list_all (\<lambda>c. c < 128) s \<Longrightarrow> jwf (JStr s)"
  by (auto simp: list_all_iff scalar_ascii)

lemma expire_result_payload_jwf: "expiry_result_fields_ok r \<Longrightarrow> jwf (JObj (expire_result_payload r))"
  unfolding expire_result_payload_def
  by (intro jwf_dict_of) (auto simp: expiry_result_fields_ok_def u_def scalar_value_def
      simp del: jwf.simps(1,3-7) hold_status_value.simps intro: field_jwf ascii_jwf)

lemma expiry_result_wire_jwf:
  assumes "all_ok (expiry_result_checks dumps r)"
  shows "jwf (JObj (expiry_result_wire_dict r))"
proof -
  have "jwf (JObj (expire_result_payload r))" "lower_sha256 (eres_result_digest r)"
    using assms expire_result_payload_jwf expiry_result_digest_shape
    by (auto simp: expiry_result_iff simp del: jwf.simps)
  then show ?thesis
    unfolding expiry_result_wire_dict_def
    by (intro jwf_dict_union jwf_dict_of) (auto simp: u_def scalar_value_def simp del: jwf.simps intro: field_jwf)
qed

lemma parse_hold_status_eq [simp]:
  "parse_hold_status d = Inr st \<longleftrightarrow> map_of d (u ''holdStatus'') = Some (JStr (hold_status_value st))"
  by (cases st) (auto simp: parse_hold_status_def split: option.splits if_splits)

lemma bool_field_eq [simp]: "bool_field d key e = Inr b \<longleftrightarrow> map_of d (u key) = Some (JBool b)"
  by (auto simp: bool_field_def split: option.splits json.splits)

lemma expiry_result_wire_keys: "set (map fst (expiry_result_wire_dict r)) = set (map u expiry_result_fields)"
  by (auto simp: expiry_result_wire_dict_def expire_result_payload_def expiry_result_fields_def keys_dict_of)

lemma expiry_result_decode:
  assumes "parse_canonical_object dumps wire ''stored expiry result'' = Inr d"
  shows "expiry_result_from_json dumps wire = Inr r \<longleftrightarrow>
    all_ok (expiry_result_checks dumps r) \<and> d = expiry_result_wire_dict r"
proof
  assume "expiry_result_from_json dumps wire = Inr r"
  then have "all_ok (expiry_result_checks dumps r)" and "set (map fst d) = set (map u expiry_result_fields)"
    and "\<forall>k \<in> set expiry_result_fields. map_of d (u k) = map_of (expiry_result_wire_dict r) (u k)"
    by (auto simp: expiry_result_from_json_def require_exact_fields_def Let_def assms
        expiry_result_wire_dict_def expire_result_payload_def expiry_result_fields_def map_of_dict_of)
  then show "all_ok (expiry_result_checks dumps r) \<and> d = expiry_result_wire_dict r"
    using parse_canonical_dicts [OF assms] expiry_result_wire_keys
      dict_eq_on_fields [of d "expiry_result_wire_dict r" expiry_result_fields]
    by (auto simp: expiry_result_wire_dict_def)
next
  assume "all_ok (expiry_result_checks dumps r) \<and> d = expiry_result_wire_dict r"
  then show "expiry_result_from_json dumps wire = Inr r"
    using expiry_result_wire_keys [of r]
    by (cases r) (simp add: expiry_result_from_json_def require_exact_fields_def Let_def assms
        expiry_result_wire_dict_def expire_result_payload_def map_of_dict_of)
qed

context canonical_encoder
begin

lemma expiry_request_created:
  assumes "all_ok (candidate_checks dumps c)"
  shows "\<exists>r. expiry_request_create dumps c = Inr r \<and> all_ok (expiry_request_checks dumps r) \<and> request_matches r c"
proof -
  have due: "due_tuple (cand_artifact_id c) (cand_hold_id c) (cand_expected_hold_digest c)
      (cand_expected_artifact_version c) (cand_observed_expires_ms c)"
    using assms by (simp add: candidate_iff candidate_fields_ok_def)
  then obtain i where i: "artifact_hold_expiry_operation_id (cand_artifact_id c) (cand_hold_id c)
      (cand_expected_hold_digest c) (cand_expected_artifact_version c) (cand_observed_expires_ms c) = Inr i"
    using expiry_operation_id_returns by blast
  let ?r = "\<lparr> ereq_schema_version = u ''1'', ereq_operation = EXPIRE_OP, ereq_expire_operation_id = i,
      ereq_artifact_id = cand_artifact_id c, ereq_hold_id = cand_hold_id c,
      ereq_expected_hold_digest = cand_expected_hold_digest c,
      ereq_expected_artifact_version = cand_expected_artifact_version c,
      ereq_observed_expires_ms = cand_observed_expires_ms c,
      ereq_scan_operation_id = cand_scan_operation_id c,
      ereq_candidate_lease_id = cand_candidate_lease_id c,
      ereq_candidate_fencing_token = cand_candidate_fencing_token c,
      ereq_candidate_token = cand_candidate_token c, ereq_idempotency_key = i, ereq_request_digest = [] \<rparr>"
  have f: "expiry_request_fields_ok ?r"
    using assms due i by (simp add: expiry_request_fields_ok_def candidate_iff candidate_fields_ok_def)
  then obtain d where d: "artifact_hold_expiry_request_digest dumps ?r = Inr d"
    using canonical_digest_returns expiry_business_payload_jwf
    unfolding artifact_hold_expiry_request_digest_def by blast
  have "all_ok (expiry_request_checks dumps (?r \<lparr> ereq_request_digest := d \<rparr>))"
    using f d by (simp add: expiry_request_iff expiry_request_fields_ok_def
        artifact_hold_expiry_request_digest_def expire_request_business_payload_def)
  then show ?thesis
    using assms unfolding expiry_request_created_iff
    by (intro exI [of _ "?r \<lparr> ereq_request_digest := d \<rparr>"]) (simp add: request_matches_def)
qed

lemma expiry_result_created:
  assumes "lower_sha256 i" and "stable_text a" and "stable_text h" and "lower_sha256 q" and "int_from 1 v"
  shows "\<exists>r. expiry_result_create dumps i a h q v b = Inr r \<and> all_ok (expiry_result_checks dumps r) \<and>
    eres_expire_operation_id r = i \<and> eres_artifact_id r = a \<and> eres_hold_id r = h \<and>
    eres_request_digest r = q \<and> eres_artifact_version r = v \<and> eres_retention_locked r = b"
proof -
  let ?r = "\<lparr> eres_schema_version = u ''1'', eres_expire_operation_id = i, eres_artifact_id = a,
      eres_hold_id = h, eres_request_digest = q, eres_result_code = u ''EXPIRED'',
      eres_hold_status = EXPIRED, eres_artifact_version = v, eres_retention_locked = b,
      eres_audit_event_type = u ''ArtifactHoldExpired'', eres_outbox_event_type = u ''ArtifactHoldExpired'',
      eres_result_digest = [] \<rparr>"
  have f: "expiry_result_fields_ok ?r" using assms by (simp add: expiry_result_fields_ok_def)
  then obtain d where d: "expire_result_digest_of dumps ?r = Inr d"
    using canonical_digest_returns expire_result_payload_jwf unfolding expire_result_digest_of_def by blast
  have "all_ok (expiry_result_checks dumps (?r \<lparr> eres_result_digest := d \<rparr>))"
    using f d by (simp add: expiry_result_iff expiry_result_fields_ok_def expire_result_digest_of_def
        expire_result_payload_def)
  with d show ?thesis by (simp add: expiry_result_create_def Let_def)
qed

lemma expiry_request_json_iff:
  "expiry_request_from_json dumps wire = Inr r \<longleftrightarrow>
     all_ok (expiry_request_checks dumps r) \<and> canonical_json dumps (expiry_request_wire_dict r) = Inr wire"
  by (rule decode_iff [OF expiry_request_decode])
    (auto simp: expiry_request_from_json_def expiry_request_wire_jwf simp del: jwf.simps)

lemma expiry_result_json_iff:
  "expiry_result_from_json dumps wire = Inr r \<longleftrightarrow>
     all_ok (expiry_result_checks dumps r) \<and> canonical_json dumps (expiry_result_wire_dict r) = Inr wire"
  by (rule decode_iff [OF expiry_result_decode])
    (auto simp: expiry_result_from_json_def expiry_result_wire_jwf simp del: jwf.simps)

lemma expiry_result_stored:
  assumes "all_ok (expiry_result_checks dumps r)"
  shows "\<exists>bs. canonical_json dumps (expiry_result_wire_dict r) = Inr bs \<and> expiry_result_from_json dumps bs = Inr r"
  using assms dumps_wf [OF expiry_result_wire_jwf [OF assms]] by (auto simp: expiry_result_json_iff)

end

end
