(* ===== verification/HoldCommit.thy ===== *)
theory HoldCommit
  imports HoldExpiry
begin

text \<open>
  Commit evidence and event records of an expiry (\<open>ArtifactHoldExpiryCommit\<close>,
  \<open>ArtifactHoldExpiryEventRecord\<close>): the commit binds the request, the consumed candidate, the
  transition and the exact bytes of the result under one digest; the audit and outbox records are
  derived from it.
\<close>

section \<open>Commit\<close>

record ArtifactHoldExpiryCommit =
  com_schema_version :: ustr
  com_expire_operation_id :: ustr
  com_request_digest :: ustr
  com_expected_hold_digest :: ustr
  com_authorized_candidate_digest :: ustr
  com_authorized_reaper_principal_id :: ustr
  com_authorized_reaper_fencing_token :: int
  com_previous_artifact_version :: int
  com_remaining_active_hold_count :: int
  com_active_ref_count :: int
  com_minimum_delete_at_ms :: "int option"
  com_committed_at_ms :: int
  com_result_json :: bytes
  com_commit_digest :: ustr

definition minimum_delete_bytes :: "int option \<Rightarrow> bytes result" where
  "minimum_delete_bytes m = (case m of None \<Rightarrow> Inr (map byte_of (u ''null'')) | Some n \<Rightarrow> enc_ascii (str_int n))"

definition commit_digest_of :: "ArtifactHoldExpiryCommit \<Rightarrow> ustr result" where
  "commit_digest_of c =
     bindE (minimum_delete_bytes (com_minimum_delete_at_ms c)) (\<lambda>minimum_delete.
     bindE (enc_ascii (com_schema_version c)) (\<lambda>schema_version.
     bindE (enc_ascii (com_expire_operation_id c)) (\<lambda>expire_operation_id.
     bindE (enc_ascii (com_request_digest c)) (\<lambda>request_digest.
     bindE (enc_ascii (com_expected_hold_digest c)) (\<lambda>expected_hold_digest.
     bindE (enc_ascii (com_authorized_candidate_digest c)) (\<lambda>candidate_digest.
     bindE (enc_utf8 (com_authorized_reaper_principal_id c)) (\<lambda>principal_id.
     bindE (enc_ascii (str_int (com_authorized_reaper_fencing_token c))) (\<lambda>fence.
     bindE (enc_ascii (str_int (com_previous_artifact_version c))) (\<lambda>version.
     bindE (enc_ascii (str_int (com_remaining_active_hold_count c))) (\<lambda>remaining.
     bindE (enc_ascii (str_int (com_active_ref_count c))) (\<lambda>refs.
     bindE (enc_ascii (str_int (com_committed_at_ms c))) (\<lambda>committed_at.
       Inr (sha256_hex (join_nul [COMMIT_DOMAIN, schema_version, expire_operation_id, request_digest,
              expected_hold_digest, candidate_digest, principal_id, fence, version, remaining, refs,
              minimum_delete, committed_at, com_result_json c]))))))))))))))"

definition commit_checks :: "(json \<Rightarrow> bytes option) \<Rightarrow> ArtifactHoldExpiryCommit \<Rightarrow> check list" where
  "commit_checks dumps c =
     [Check (com_schema_version c = u ''1'') (conflict ''unsupported expiry commit schema'')] @
     require_sha256 (com_expire_operation_id c) ''commit expire_operation_id'' @
     require_sha256 (com_request_digest c) ''commit request_digest'' @
     require_sha256 (com_expected_hold_digest c) ''commit expected_hold_digest'' @
     require_sha256 (com_authorized_candidate_digest c) ''commit authorized_candidate_digest'' @
     require_stable_text (com_authorized_reaper_principal_id c) ''commit authorized reaper principal'' @
     require_integer (com_authorized_reaper_fencing_token c) ''commit authorized reaper fencing token'' 1 @
     require_integer (com_previous_artifact_version c) ''commit previous_artifact_version'' 1 @
     require_integer (com_remaining_active_hold_count c) ''commit remaining_active_hold_count'' 0 @
     require_integer (com_active_ref_count c) ''commit active_ref_count'' 0 @
     opt_integer_checks (com_minimum_delete_at_ms c) ''commit minimum_delete_at_ms'' 0 @
     require_integer (com_committed_at_ms c) ''commit committed_at_ms'' 0 @
     no_raise (expiry_result_from_json dumps (com_result_json c)) @
     require_sha256 (com_commit_digest c) ''commit_digest'' @
     digest_match (commit_digest_of c) (com_commit_digest c) (conflict ''commit_digest mismatch'')"

text \<open>The part of \<open>_validate_result_for_request\<close> that a fence above the committed one needs.\<close>

definition higher_fence_checks ::
    "ArtifactHoldExpiryRequest \<Rightarrow> ustr \<Rightarrow> int \<Rightarrow> ArtifactHoldExpiryCandidate option \<Rightarrow> check list" where
  "higher_fence_checks request principal_id fence replay_candidate = (case replay_candidate of
     None \<Rightarrow> [Check False (conflict ''higher-fence replay requires ledger-verified authority'')]
   | Some c \<Rightarrow> require_candidate_request_binding request c @
       [Check (\<not> (cand_owner_principal_id c \<noteq> principal_id \<or> cand_candidate_fencing_token c \<noteq> fence))
          (conflict ''verified replay candidate does not bind authenticated authority'')])"

definition validate_result_for_request ::
    "(json \<Rightarrow> bytes option) \<Rightarrow> ArtifactHoldExpiryCommit \<Rightarrow> ArtifactHoldExpiryRequest \<Rightarrow> ustr \<Rightarrow> int \<Rightarrow> ustr
     \<Rightarrow> ustr \<Rightarrow> VerifiedArtifactHoldExpiryReplayAuthority option \<Rightarrow> ArtifactHoldExpiryResult result" where
  "validate_result_for_request dumps c request principal_id fence component_type subject verified =
     checked (expiry_request_checks dumps request @
       commit_checks dumps c @
       require_stable_text principal_id ''authenticated reaper principal'' @
       require_integer fence ''authenticated reaper fencing token'' 1 @
       require_stable_text component_type ''authenticated component type'' @
       require_stable_text subject ''authenticated subject'' @
       [Check (component_type = REAPER_COMPONENT_TYPE)
          (conflict ''only artifact-hold-reaper may replay hold expiry''),
        Check (subject = EXPIRY_SUBJECT) (conflict ''hold expiry replay used a forbidden subject'')] @
       (case verified of None \<Rightarrow> [] | Some a \<Rightarrow> verified_replay_checks dumps a) @
       [Check (\<not> (com_expire_operation_id c \<noteq> ereq_expire_operation_id request
            \<or> com_request_digest c \<noteq> ereq_request_digest request
            \<or> com_expected_hold_digest c \<noteq> ereq_expected_hold_digest request
            \<or> com_previous_artifact_version c \<noteq> ereq_expected_artifact_version request))
          (conflict ''stored commit does not match request''),
        Check (case verified of None \<Rightarrow> True
               | Some a \<Rightarrow> \<not> (cand_candidate_fencing_token (vrep_candidate a) = com_authorized_reaper_fencing_token c
                   \<and> cand_candidate_digest (vrep_candidate a) \<noteq> com_authorized_candidate_digest c))
          (conflict ''stored commit candidate digest does not match persisted candidate''),
        Check (principal_id = com_authorized_reaper_principal_id c)
          (conflict ''authenticated reaper principal cannot replay this commit''),
        Check (\<not> fence < com_authorized_reaper_fencing_token c)
          (conflict ''authenticated reaper fence is stale for this commit'')] @
       (if fence > com_authorized_reaper_fencing_token c
        then higher_fence_checks request principal_id fence (map_option vrep_candidate verified) else []))
     (bindE (expiry_result_from_json dumps (com_result_json c)) (\<lambda>result.
      let minimum_lock = (case com_minimum_delete_at_ms c of None \<Rightarrow> False | Some m \<Rightarrow> com_committed_at_ms c < m);
          expected_retention = (com_remaining_active_hold_count c > 0 \<or> com_active_ref_count c > 0 \<or> minimum_lock)
      in checked
        [Check (\<not> (eres_expire_operation_id result \<noteq> ereq_expire_operation_id request
            \<or> eres_request_digest result \<noteq> ereq_request_digest request
            \<or> eres_artifact_id result \<noteq> ereq_artifact_id request
            \<or> eres_hold_id result \<noteq> ereq_hold_id request
            \<or> eres_artifact_version result \<noteq> com_previous_artifact_version c + 1))
           (conflict ''stored result does not match request or transition evidence''),
         Check (eres_retention_locked result = expected_retention)
           (conflict ''stored result retention contradicts commit evidence'')]
        (Inr result)))"

definition transition_evidence ::
    "ArtifactHoldExpiryResult \<Rightarrow> ArtifactHoldExpiryCandidate \<Rightarrow> ArtifactHoldState \<Rightarrow> ArtifactHoldState \<Rightarrow> int \<Rightarrow> bool" where
  "transition_evidence result candidate before updated committed_at_ms \<longleftrightarrow>
     \<not> (hold_artifact_id before \<noteq> hold_artifact_id updated
      \<or> hold_hold_id before \<noteq> hold_hold_id updated
      \<or> hold_artifact_status before \<in> {DELETING, DELETED}
      \<or> hold_artifact_status updated \<noteq> hold_artifact_status before
      \<or> hold_hold_status before \<noteq> ACTIVE
      \<or> \<not> hold_hold_id before |\<in>| hold_active_hold_ids before
      \<or> \<not> hold_due_indexed before
      \<or> hold_due_score_ms before \<noteq> hold_expires_ms before
      \<or> (case hold_expires_ms before of None \<Rightarrow> True | Some e \<Rightarrow> committed_at_ms < e)
      \<or> cand_issued_at_ms candidate > committed_at_ms
      \<or> committed_at_ms \<ge> cand_lease_until_ms candidate
      \<or> hold_artifact_version updated \<noteq> hold_artifact_version before + 1
      \<or> hold_hold_digest updated \<noteq> hold_hold_digest before
      \<or> hold_expires_ms updated \<noteq> hold_expires_ms before
      \<or> hold_active_ref_count updated \<noteq> hold_active_ref_count before
      \<or> hold_minimum_delete_at_ms updated \<noteq> hold_minimum_delete_at_ms before
      \<or> hold_active_hold_ids updated \<noteq> hold_active_hold_ids before |-| {| hold_hold_id before |}
      \<or> eres_artifact_version result \<noteq> hold_artifact_version updated
      \<or> hold_hold_status updated \<noteq> EXPIRED
      \<or> hold_due_indexed updated
      \<or> hold_due_score_ms updated \<noteq> None
      \<or> hold_candidate updated \<noteq> None)"

definition commit_create ::
    "(json \<Rightarrow> bytes option) \<Rightarrow> ArtifactHoldExpiryRequest \<Rightarrow> ArtifactHoldExpiryResult \<Rightarrow> ArtifactHoldState
     \<Rightarrow> ArtifactHoldState \<Rightarrow> int \<Rightarrow> ArtifactHoldExpiryCommit result" where
  "commit_create dumps request result before updated committed_at_ms =
     checked (expiry_request_checks dumps request @ expiry_result_checks dumps result @
              hold_state_checks dumps before @ hold_state_checks dumps updated @
              require_integer committed_at_ms ''committed_at_ms'' 0)
     (case hold_candidate before of
        None \<Rightarrow> Inl (conflict ''commit evidence requires the consumed candidate ledger'')
      | Some candidate \<Rightarrow>
        checked (require_candidate_request_binding request candidate @
          [Check (\<not> (eres_expire_operation_id result \<noteq> ereq_expire_operation_id request
              \<or> eres_request_digest result \<noteq> ereq_request_digest request
              \<or> eres_artifact_id result \<noteq> ereq_artifact_id request
              \<or> eres_hold_id result \<noteq> ereq_hold_id request))
             (conflict ''result does not match expiry request''),
           Check (transition_evidence result candidate before updated committed_at_ms)
             (conflict ''invalid expiry transition evidence'')])
        (bindE (retention_locked_at updated committed_at_ms) (\<lambda>expected_retention.
         checked [Check (eres_retention_locked result = expected_retention)
                    (conflict ''result retention projection contradicts transition evidence'')]
         (bindE (canonical_json dumps (expiry_result_wire_dict result)) (\<lambda>result_json.
          let commit = \<lparr> com_schema_version = u ''1'',
                com_expire_operation_id = ereq_expire_operation_id request,
                com_request_digest = ereq_request_digest request,
                com_expected_hold_digest = ereq_expected_hold_digest request,
                com_authorized_candidate_digest = cand_candidate_digest candidate,
                com_authorized_reaper_principal_id = cand_owner_principal_id candidate,
                com_authorized_reaper_fencing_token = cand_candidate_fencing_token candidate,
                com_previous_artifact_version = hold_artifact_version before,
                com_remaining_active_hold_count = int (fcard (hold_active_hold_ids updated)),
                com_active_ref_count = hold_active_ref_count updated,
                com_minimum_delete_at_ms = hold_minimum_delete_at_ms updated,
                com_committed_at_ms = committed_at_ms, com_result_json = result_json,
                com_commit_digest = [] \<rparr>
          in bindE (commit_digest_of commit) (\<lambda>digest.
             let created = commit \<lparr> com_commit_digest := digest \<rparr>
             in bindE (validate_result_for_request dumps created request
                   (cand_owner_principal_id candidate) (cand_candidate_fencing_token candidate)
                   REAPER_COMPONENT_TYPE EXPIRY_SUBJECT None) (\<lambda>_. Inr created)))))))"

definition commit_wire_dict :: "ArtifactHoldExpiryCommit \<Rightarrow> dict result" where
  "commit_wire_dict c =
     (case utf8_decode (com_result_json c) of None \<Rightarrow> Inl UnicodeError
      | Some result_text \<Rightarrow> Inr (dict_of
     [(u ''schemaVersion'', JStr (com_schema_version c)),
      (u ''expireOperationId'', JStr (com_expire_operation_id c)),
      (u ''requestDigest'', JStr (com_request_digest c)),
      (u ''expectedHoldDigest'', JStr (com_expected_hold_digest c)),
      (u ''authorizedCandidateDigest'', JStr (com_authorized_candidate_digest c)),
      (u ''authorizedReaperPrincipalId'', JStr (com_authorized_reaper_principal_id c)),
      (u ''authorizedReaperFencingToken'', JInt (com_authorized_reaper_fencing_token c)),
      (u ''previousArtifactVersion'', JInt (com_previous_artifact_version c)),
      (u ''remainingActiveHoldCount'', JInt (com_remaining_active_hold_count c)),
      (u ''activeRefCount'', JInt (com_active_ref_count c)),
      (u ''minimumDeleteAtMs'', case com_minimum_delete_at_ms c of None \<Rightarrow> JNull | Some n \<Rightarrow> JInt n),
      (u ''committedAtMs'', JInt (com_committed_at_ms c)),
      (u ''resultJson'', JStr result_text),
      (u ''commitDigest'', JStr (com_commit_digest c))]))"

definition commit_fields :: "string list" where
  "commit_fields =
     [''schemaVersion'', ''expireOperationId'', ''requestDigest'', ''expectedHoldDigest'',
      ''authorizedCandidateDigest'', ''authorizedReaperPrincipalId'', ''authorizedReaperFencingToken'',
      ''previousArtifactVersion'', ''remainingActiveHoldCount'', ''activeRefCount'', ''minimumDeleteAtMs'',
      ''committedAtMs'', ''resultJson'', ''commitDigest'']"

definition opt_int_field :: "dict \<Rightarrow> string \<Rightarrow> string \<Rightarrow> int option result" where
  "opt_int_field d key label = (case map_of d (u key) of
     None \<Rightarrow> Inl KeyError | Some JNull \<Rightarrow> Inr None | Some (JInt n) \<Rightarrow> Inr (Some n)
   | Some _ \<Rightarrow> Inl (ArtifactHoldExpiryConflict [label, '' must be an integer'']))"

definition commit_from_json :: "(json \<Rightarrow> bytes option) \<Rightarrow> bytes \<Rightarrow> ArtifactHoldExpiryCommit result" where
  "commit_from_json dumps wire =
     bindE (parse_canonical_object dumps wire ''artifact hold expiry commit'') (\<lambda>v.
     checked (require_exact_fields v commit_fields ''artifact hold expiry commit'')
     (bindE (str_field v ''resultJson'' (conflict ''commit resultJson must be a string'')) (\<lambda>result_text.
      bindE (enc_utf8 result_text) (\<lambda>result_json.
      bindE (str_field v ''schemaVersion'' (conflict ''unsupported expiry commit schema'')) (\<lambda>schema_version.
      bindE (text_field v ''expireOperationId'' ''commit expire_operation_id'') (\<lambda>expire_operation_id.
      bindE (text_field v ''requestDigest'' ''commit request_digest'') (\<lambda>request_digest.
      bindE (text_field v ''expectedHoldDigest'' ''commit expected_hold_digest'') (\<lambda>expected_hold_digest.
      bindE (text_field v ''authorizedCandidateDigest'' ''commit authorized_candidate_digest'') (\<lambda>candidate_digest.
      bindE (text_field v ''authorizedReaperPrincipalId'' ''commit authorized reaper principal'') (\<lambda>principal_id.
      bindE (int_field v ''authorizedReaperFencingToken'' ''commit authorized reaper fencing token'') (\<lambda>fence.
      bindE (int_field v ''previousArtifactVersion'' ''commit previous_artifact_version'') (\<lambda>version.
      bindE (int_field v ''remainingActiveHoldCount'' ''commit remaining_active_hold_count'') (\<lambda>remaining.
      bindE (int_field v ''activeRefCount'' ''commit active_ref_count'') (\<lambda>refs.
      bindE (opt_int_field v ''minimumDeleteAtMs'' ''commit minimum_delete_at_ms'') (\<lambda>minimum_delete.
      bindE (int_field v ''committedAtMs'' ''commit committed_at_ms'') (\<lambda>committed_at.
      bindE (text_field v ''commitDigest'' ''commit_digest'') (\<lambda>digest.
      let commit = \<lparr> com_schema_version = schema_version, com_expire_operation_id = expire_operation_id,
            com_request_digest = request_digest, com_expected_hold_digest = expected_hold_digest,
            com_authorized_candidate_digest = candidate_digest,
            com_authorized_reaper_principal_id = principal_id,
            com_authorized_reaper_fencing_token = fence, com_previous_artifact_version = version,
            com_remaining_active_hold_count = remaining, com_active_ref_count = refs,
            com_minimum_delete_at_ms = minimum_delete, com_committed_at_ms = committed_at,
            com_result_json = result_json, com_commit_digest = digest \<rparr>
      in checked (commit_checks dumps commit) (Inr commit))))))))))))))))))"

section \<open>Event records\<close>

record ArtifactHoldExpiryEventRecord =
  evt_schema_version :: ustr
  evt_sink :: ArtifactHoldExpiryEventSink
  evt_event_id :: ustr
  evt_event_type :: ustr
  evt_expire_operation_id :: ustr
  evt_artifact_id :: ustr
  evt_hold_id :: ustr
  evt_artifact_version :: int
  evt_result_digest :: ustr
  evt_commit_digest :: ustr
  evt_recorded_at_ms :: int
  evt_event_digest :: ustr

definition event_id_of :: "ArtifactHoldExpiryEventSink \<Rightarrow> ustr \<Rightarrow> ustr result" where
  "event_id_of sink expire_operation_id =
     bindE (enc_ascii (sink_value sink)) (\<lambda>s.
     bindE (enc_ascii expire_operation_id) (\<lambda>e.
       Inr (sha256_hex (join_nul [EVENT_DOMAIN, s, e]))))"

definition event_digest_payload :: "ArtifactHoldExpiryEventRecord \<Rightarrow> dict" where
  "event_digest_payload r = dict_of
     [(u ''schemaVersion'', JStr (evt_schema_version r)),
      (u ''sink'', JStr (sink_value (evt_sink r))),
      (u ''eventId'', JStr (evt_event_id r)),
      (u ''eventType'', JStr (evt_event_type r)),
      (u ''expireOperationId'', JStr (evt_expire_operation_id r)),
      (u ''artifactId'', JStr (evt_artifact_id r)),
      (u ''holdId'', JStr (evt_hold_id r)),
      (u ''artifactVersion'', JInt (evt_artifact_version r)),
      (u ''resultDigest'', JStr (evt_result_digest r)),
      (u ''commitDigest'', JStr (evt_commit_digest r)),
      (u ''recordedAtMs'', JInt (evt_recorded_at_ms r))]"

definition event_checks :: "(json \<Rightarrow> bytes option) \<Rightarrow> ArtifactHoldExpiryEventRecord \<Rightarrow> check list" where
  "event_checks dumps r =
     [Check (evt_schema_version r = u ''1'') (conflict ''unknown hold expiry event schema'')] @
     require_sha256 (evt_event_id r) ''hold expiry event ID'' @
     [Check (evt_event_type r = u ''ArtifactHoldExpired'') (conflict ''unknown hold expiry event type'')] @
     require_sha256 (evt_expire_operation_id r) ''expire operation ID'' @
     require_stable_text (evt_artifact_id r) ''artifact_id'' @
     require_stable_text (evt_hold_id r) ''hold_id'' @
     require_integer (evt_artifact_version r) ''artifact_version'' 1 @
     require_sha256 (evt_result_digest r) ''result_digest'' @
     require_sha256 (evt_commit_digest r) ''commit_digest'' @
     require_integer (evt_recorded_at_ms r) ''recorded_at_ms'' 0 @
     digest_match (event_id_of (evt_sink r) (evt_expire_operation_id r)) (evt_event_id r)
       (conflict ''hold expiry event ID mismatch'') @
     require_sha256 (evt_event_digest r) ''event_digest'' @
     digest_match (event_digest dumps (event_digest_payload r)) (evt_event_digest r)
       (conflict ''hold expiry event digest mismatch'')"

definition event_create ::
    "(json \<Rightarrow> bytes option) \<Rightarrow> ArtifactHoldExpiryEventSink \<Rightarrow> ArtifactHoldExpiryCommit
     \<Rightarrow> ArtifactHoldExpiryEventRecord result" where
  "event_create dumps sink commit =
     checked (commit_checks dumps commit)
     (bindE (expiry_result_from_json dumps (com_result_json commit)) (\<lambda>result.
      bindE (event_id_of sink (com_expire_operation_id commit)) (\<lambda>event_id.
      let record = \<lparr> evt_schema_version = u ''1'', evt_sink = sink, evt_event_id = event_id,
            evt_event_type = u ''ArtifactHoldExpired'',
            evt_expire_operation_id = com_expire_operation_id commit,
            evt_artifact_id = eres_artifact_id result, evt_hold_id = eres_hold_id result,
            evt_artifact_version = eres_artifact_version result,
            evt_result_digest = eres_result_digest result,
            evt_commit_digest = com_commit_digest commit,
            evt_recorded_at_ms = com_committed_at_ms commit, evt_event_digest = [] \<rparr>
      in bindE (event_digest dumps (event_digest_payload record)) (\<lambda>digest.
         let created = record \<lparr> evt_event_digest := digest \<rparr>
         in checked (event_checks dumps created) (Inr created)))))"

section \<open>What the guards mean\<close>

definition commit_fields_ok :: "ArtifactHoldExpiryCommit \<Rightarrow> bool" where
  "commit_fields_ok c \<longleftrightarrow> com_schema_version c = u ''1'' \<and> lower_sha256 (com_expire_operation_id c) \<and>
     lower_sha256 (com_request_digest c) \<and> lower_sha256 (com_expected_hold_digest c) \<and>
     lower_sha256 (com_authorized_candidate_digest c) \<and> stable_text (com_authorized_reaper_principal_id c) \<and>
     int_from 1 (com_authorized_reaper_fencing_token c) \<and> int_from 1 (com_previous_artifact_version c) \<and>
     int_from 0 (com_remaining_active_hold_count c) \<and> int_from 0 (com_active_ref_count c) \<and>
     (case com_minimum_delete_at_ms c of None \<Rightarrow> True | Some n \<Rightarrow> int_from 0 n) \<and>
     int_from 0 (com_committed_at_ms c)"

lemma minimum_delete_returns: "\<exists>bs. minimum_delete_bytes m = Inr bs"
  using str_int_encodes by (cases m) (auto simp: minimum_delete_bytes_def)

lemma version_one_encodes: "\<exists>bs. ascii_encode (u ''1'') = Some bs"
  by (simp add: ascii_encode_def u_def)

lemma commit_digest_returns:
  assumes "commit_fields_ok c"
  shows "\<exists>d. commit_digest_of c = Inr d"
  using assms version_one_encodes minimum_delete_returns [of "com_minimum_delete_at_ms c"]
    lower_sha256_encodes [of "com_expire_operation_id c"] lower_sha256_encodes [of "com_request_digest c"]
    lower_sha256_encodes [of "com_expected_hold_digest c"]
    lower_sha256_encodes [of "com_authorized_candidate_digest c"]
    stable_text_encodes [of "com_authorized_reaper_principal_id c"]
    str_int_encodes [of "com_authorized_reaper_fencing_token c"] str_int_encodes [of "com_previous_artifact_version c"]
    str_int_encodes [of "com_remaining_active_hold_count c"] str_int_encodes [of "com_active_ref_count c"]
    str_int_encodes [of "com_committed_at_ms c"]
  by (fastforce simp: commit_fields_ok_def commit_digest_of_def)

lemma commit_digest_shape: "commit_digest_of c = Inr d \<Longrightarrow> lower_sha256 d"
  by (auto simp: commit_digest_of_def sha256_hex_shape)

lemma commit_digest_of_update [simp]: "commit_digest_of (c \<lparr> com_commit_digest := d \<rparr>) = commit_digest_of c"
  by (simp add: commit_digest_of_def)

lemma commit_iff:
  "all_ok (commit_checks dumps c) \<longleftrightarrow> commit_fields_ok c \<and>
     (\<exists>r. expiry_result_from_json dumps (com_result_json c) = Inr r) \<and>
     commit_digest_of c = Inr (com_commit_digest c)"
  by (auto simp: commit_checks_def commit_fields_ok_def returns_iff dest: commit_digest_shape)

lemma reaper_stable: "stable_text REAPER_COMPONENT_TYPE" "stable_text EXPIRY_SUBJECT" "stable_text REAPER_PRINCIPAL_ID"
  by (rule stable_text_graphic;
      simp add: REAPER_COMPONENT_TYPE_def EXPIRY_SUBJECT_def REAPER_PRINCIPAL_ID_def u_def)+

definition commit_for_request :: "ArtifactHoldExpiryCommit \<Rightarrow> ArtifactHoldExpiryRequest \<Rightarrow> bool" where
  "commit_for_request c q \<longleftrightarrow> com_expire_operation_id c = ereq_expire_operation_id q \<and>
     com_request_digest c = ereq_request_digest q \<and> com_expected_hold_digest c = ereq_expected_hold_digest q \<and>
     com_previous_artifact_version c = ereq_expected_artifact_version q"

definition result_for_request ::
    "ArtifactHoldExpiryResult \<Rightarrow> ArtifactHoldExpiryRequest \<Rightarrow> ArtifactHoldExpiryCommit \<Rightarrow> bool" where
  "result_for_request r q c \<longleftrightarrow> eres_expire_operation_id r = ereq_expire_operation_id q \<and>
     eres_request_digest r = ereq_request_digest q \<and> eres_artifact_id r = ereq_artifact_id q \<and>
     eres_hold_id r = ereq_hold_id q \<and> eres_artifact_version r = com_previous_artifact_version c + 1"

text \<open>The retention lock the commit evidence implies.\<close>

definition commit_retention :: "ArtifactHoldExpiryCommit \<Rightarrow> bool" where
  "commit_retention c \<longleftrightarrow> com_remaining_active_hold_count c > 0 \<or> com_active_ref_count c > 0 \<or>
     (case com_minimum_delete_at_ms c of None \<Rightarrow> False | Some m \<Rightarrow> com_committed_at_ms c < m)"

text \<open>\<open>_validate_result_for_request\<close> returns the stored result exactly when the request is the committed
  one, the caller is the reaper principal of the commit, and its fence is the committed one or a
  newer one carried by a verified replay authority bound to the request.\<close>

lemma validate_result_iff:
  "validate_result_for_request dumps c q p f ct sj verified = Inr r \<longleftrightarrow>
     all_ok (expiry_request_checks dumps q) \<and> all_ok (commit_checks dumps c) \<and> int_from 1 f \<and>
     ct = REAPER_COMPONENT_TYPE \<and> sj = EXPIRY_SUBJECT \<and> commit_for_request c q \<and>
     p = com_authorized_reaper_principal_id c \<and> com_authorized_reaper_fencing_token c \<le> f \<and>
     (case verified of None \<Rightarrow> f = com_authorized_reaper_fencing_token c
      | Some a \<Rightarrow> all_ok (verified_replay_checks dumps a) \<and>
          (cand_candidate_fencing_token (vrep_candidate a) = com_authorized_reaper_fencing_token c \<longrightarrow>
             cand_candidate_digest (vrep_candidate a) = com_authorized_candidate_digest c) \<and>
          (com_authorized_reaper_fencing_token c < f \<longrightarrow> request_matches q (vrep_candidate a) \<and>
             cand_owner_principal_id (vrep_candidate a) = p \<and> cand_candidate_fencing_token (vrep_candidate a) = f)) \<and>
     expiry_result_from_json dumps (com_result_json c) = Inr r \<and> result_for_request r q c \<and>
     eres_retention_locked r = commit_retention c"
proof -
  have p: "all_ok (commit_checks dumps c) \<Longrightarrow> stable_text (com_authorized_reaper_principal_id c)"
    by (simp add: commit_iff commit_fields_ok_def)
  have guards: "all_ok (require_stable_text p ''authenticated reaper principal'' @
       require_integer f ''authenticated reaper fencing token'' 1 @
       require_stable_text ct ''authenticated component type'' @
       require_stable_text sj ''authenticated subject'' @
       [Check (ct = REAPER_COMPONENT_TYPE) (conflict ''only artifact-hold-reaper may replay hold expiry''),
        Check (sj = EXPIRY_SUBJECT) (conflict ''hold expiry replay used a forbidden subject'')]) \<longleftrightarrow>
     stable_text p \<and> int_from 1 f \<and> ct = REAPER_COMPONENT_TYPE \<and> sj = EXPIRY_SUBJECT"
    using reaper_stable by auto
  show ?thesis
  proof (cases verified)
    case None
    then show ?thesis
      using p guards
      by (auto simp: validate_result_for_request_def higher_fence_checks_def commit_for_request_def
          result_for_request_def commit_retention_def Let_def split: if_splits)
  next
    case (Some a)
    then show ?thesis
      using p guards
      by (auto simp: validate_result_for_request_def higher_fence_checks_def commit_for_request_def
          result_for_request_def commit_retention_def Let_def split: if_splits)
  qed
qed

lemma transition_evidence_iff:
  "transition_evidence r c s t now \<longleftrightarrow>
     hold_artifact_id s = hold_artifact_id t \<and> hold_hold_id s = hold_hold_id t \<and>
     hold_artifact_status s \<notin> {DELETING, DELETED} \<and> hold_artifact_status t = hold_artifact_status s \<and>
     hold_hold_status s = ACTIVE \<and> hold_hold_id s |\<in>| hold_active_hold_ids s \<and> hold_due_indexed s \<and>
     hold_due_score_ms s = hold_expires_ms s \<and> (case hold_expires_ms s of None \<Rightarrow> False | Some e \<Rightarrow> e \<le> now) \<and>
     cand_issued_at_ms c \<le> now \<and> now < cand_lease_until_ms c \<and>
     hold_artifact_version t = hold_artifact_version s + 1 \<and> hold_hold_digest t = hold_hold_digest s \<and>
     hold_expires_ms t = hold_expires_ms s \<and> hold_active_ref_count t = hold_active_ref_count s \<and>
     hold_minimum_delete_at_ms t = hold_minimum_delete_at_ms s \<and>
     hold_active_hold_ids t = hold_active_hold_ids s |-| {| hold_hold_id s |} \<and>
     eres_artifact_version r = hold_artifact_version t \<and> hold_hold_status t = EXPIRED \<and>
     \<not> hold_due_indexed t \<and> hold_due_score_ms t = None \<and> hold_candidate t = None"
  unfolding transition_evidence_def de_Morgan_disj not_not not_le not_less
  by (cases "hold_expires_ms s") (simp_all only: option.case simp_thms not_less)

definition event_fields_ok :: "ArtifactHoldExpiryEventRecord \<Rightarrow> bool" where
  "event_fields_ok r \<longleftrightarrow> evt_schema_version r = u ''1'' \<and> evt_event_type r = u ''ArtifactHoldExpired'' \<and>
     lower_sha256 (evt_expire_operation_id r) \<and> stable_text (evt_artifact_id r) \<and> stable_text (evt_hold_id r) \<and>
     int_from 1 (evt_artifact_version r) \<and> lower_sha256 (evt_result_digest r) \<and>
     lower_sha256 (evt_commit_digest r) \<and> int_from 0 (evt_recorded_at_ms r) \<and>
     event_id_of (evt_sink r) (evt_expire_operation_id r) = Inr (evt_event_id r)"

lemma event_id_shape: "event_id_of sink e = Inr i \<Longrightarrow> lower_sha256 i"
  by (auto simp: event_id_of_def sha256_hex_shape)

lemma event_id_returns: "lower_sha256 e \<Longrightarrow> \<exists>i. event_id_of sink e = Inr i"
  using lower_sha256_encodes [of e]
  by (cases sink) (auto simp: event_id_of_def ascii_encode_def u_def split: if_splits)

lemma event_iff:
  "all_ok (event_checks dumps r) \<longleftrightarrow> event_fields_ok r \<and>
     event_digest dumps (event_digest_payload r) = Inr (evt_event_digest r)"
  by (auto simp: event_checks_def event_fields_ok_def dest: event_id_shape event_digest_shape)

lemma sink_value_ascii: "list_all (\<lambda>c. c < 128) (sink_value s)"
  by (cases s) (simp_all add: u_def)

lemma event_payload_jwf:
  assumes "event_fields_ok r"
  shows "jwf (JObj (event_digest_payload r))"
  unfolding event_digest_payload_def
  using assms event_id_shape [of "evt_sink r" "evt_expire_operation_id r" "evt_event_id r"]
  by (intro jwf_dict_of) (auto simp: event_fields_ok_def u_def scalar_value_def
      simp del: jwf.simps(1,3-7) sink_value.simps intro: field_jwf ascii_jwf sink_value_ascii)

text \<open>What a created record says about its commit.\<close>

lemma event_created_facts:
  assumes "event_create dumps sink c = Inr e"
  shows "all_ok (event_checks dumps e) \<and> evt_sink e = sink \<and>
    evt_expire_operation_id e = com_expire_operation_id c \<and> evt_commit_digest e = com_commit_digest c \<and>
    evt_recorded_at_ms e = com_committed_at_ms c"
  using assms by (auto simp: event_create_def Let_def)

context canonical_encoder
begin

lemma event_created:
  assumes "all_ok (commit_checks dumps c)"
  shows "\<exists>e. event_create dumps sink c = Inr e"
proof -
  obtain r where r: "expiry_result_from_json dumps (com_result_json c) = Inr r" and c: "commit_fields_ok c"
    "commit_digest_of c = Inr (com_commit_digest c)"
    using assms by (auto simp: commit_iff)
  have res: "all_ok (expiry_result_checks dumps r)" using r by (simp add: expiry_result_json_iff)
  obtain i where i: "event_id_of sink (com_expire_operation_id c) = Inr i"
    using event_id_returns c(1) by (auto simp: commit_fields_ok_def)
  let ?e = "\<lparr> evt_schema_version = u ''1'', evt_sink = sink, evt_event_id = i,
      evt_event_type = u ''ArtifactHoldExpired'', evt_expire_operation_id = com_expire_operation_id c,
      evt_artifact_id = eres_artifact_id r, evt_hold_id = eres_hold_id r,
      evt_artifact_version = eres_artifact_version r, evt_result_digest = eres_result_digest r,
      evt_commit_digest = com_commit_digest c, evt_recorded_at_ms = com_committed_at_ms c,
      evt_event_digest = [] \<rparr>"
  have f: "event_fields_ok ?e"
    using c i res expiry_result_digest_shape [OF res] commit_digest_shape [OF c(2)]
    by (simp add: event_fields_ok_def commit_fields_ok_def expiry_result_iff expiry_result_fields_ok_def)
  then obtain d where d: "event_digest dumps (event_digest_payload ?e) = Inr d"
    using event_digest_returns event_payload_jwf by blast
  have "all_ok (event_checks dumps (?e \<lparr> evt_event_digest := d \<rparr>))"
    using f d by (simp add: event_iff event_fields_ok_def event_digest_payload_def)
  with assms r i d show ?thesis by (simp add: event_create_def Let_def)
qed

lemma commit_created:
  assumes q: "all_ok (expiry_request_checks dumps q)" and r: "all_ok (expiry_result_checks dumps r)"
    and s: "all_ok (hold_state_checks dumps s)" and t: "all_ok (hold_state_checks dumps t)"
    and now: "int_from 0 now" and c: "hold_candidate s = Some c" "request_matches q c"
    and m: "eres_expire_operation_id r = ereq_expire_operation_id q" "eres_request_digest r = ereq_request_digest q"
      "eres_artifact_id r = ereq_artifact_id q" "eres_hold_id r = ereq_hold_id q"
    and tr: "transition_evidence r c s t now" and ret: "eres_retention_locked r = retention_lock t now"
    and n: "int (fcard (hold_active_hold_ids t)) \<le> MAX_SAFE_INTEGER"
  shows "\<exists>k. commit_create dumps q r s t now = Inr k"
proof -
  obtain bs where bs: "canonical_json dumps (expiry_result_wire_dict r) = Inr bs" "expiry_result_from_json dumps bs = Inr r"
    using expiry_result_stored [OF r] by blast
  have cv: "all_ok (candidate_checks dumps c)" "due_candidate s c"
    using s c by (auto simp: hold_state_iff)
  let ?k = "\<lparr> com_schema_version = u ''1'', com_expire_operation_id = ereq_expire_operation_id q,
      com_request_digest = ereq_request_digest q, com_expected_hold_digest = ereq_expected_hold_digest q,
      com_authorized_candidate_digest = cand_candidate_digest c,
      com_authorized_reaper_principal_id = cand_owner_principal_id c,
      com_authorized_reaper_fencing_token = cand_candidate_fencing_token c,
      com_previous_artifact_version = hold_artifact_version s,
      com_remaining_active_hold_count = int (fcard (hold_active_hold_ids t)),
      com_active_ref_count = hold_active_ref_count t,
      com_minimum_delete_at_ms = hold_minimum_delete_at_ms t, com_committed_at_ms = now,
      com_result_json = bs, com_commit_digest = [] \<rparr>"
  have f: "commit_fields_ok ?k"
    using q s t now n cv expiry_request_digest_shape [OF q] candidate_digest_shape [OF cv(1)]
      expiry_request_id_shape [of q]
    by (auto simp: commit_fields_ok_def expiry_request_iff expiry_request_fields_ok_def due_tuple_def
        hold_state_iff hold_fields_ok_def candidate_iff candidate_fields_ok_def int_from_def [of 0 "int _"])
  then obtain d where d: "commit_digest_of ?k = Inr d" using commit_digest_returns by blast
  have "all_ok (commit_checks dumps (?k \<lparr> com_commit_digest := d \<rparr>))"
    using f d bs by (simp add: commit_iff commit_fields_ok_def commit_digest_of_def)
  moreover have "commit_retention (?k \<lparr> com_commit_digest := d \<rparr>) \<longleftrightarrow> retention_lock t now"
    using fcard_0_eq [of "hold_active_hold_ids t"]
    by (cases "hold_minimum_delete_at_ms t"; cases "hold_active_hold_ids t = {||}")
      (auto simp: commit_retention_def retention_lock_def simp del: fcard_0_eq)
  ultimately have "validate_result_for_request dumps (?k \<lparr> com_commit_digest := d \<rparr>) q
      (cand_owner_principal_id c) (cand_candidate_fencing_token c) REAPER_COMPONENT_TYPE EXPIRY_SUBJECT None = Inr r"
    using q cv bs m ret tr c(2)
    by (simp add: validate_result_iff commit_for_request_def result_for_request_def transition_evidence_iff
        due_candidate_def request_matches_def candidate_iff candidate_fields_ok_def)
  with q r s t now c m tr ret bs d show ?thesis
    by (simp add: commit_create_def retention_locked_at_eq Let_def)
qed

lemma commit_created_facts:
  assumes "commit_create dumps q r s t now = Inr k"
  shows "\<exists>c. hold_candidate s = Some c \<and> request_matches q c \<and> transition_evidence r c s t now \<and>
    validate_result_for_request dumps k q (cand_owner_principal_id c) (cand_candidate_fencing_token c)
      REAPER_COMPONENT_TYPE EXPIRY_SUBJECT None = Inr r \<and>
    com_authorized_candidate_digest k = cand_candidate_digest c \<and>
    com_authorized_reaper_principal_id k = cand_owner_principal_id c \<and>
    com_authorized_reaper_fencing_token k = cand_candidate_fencing_token c \<and>
    com_remaining_active_hold_count k = int (fcard (hold_active_hold_ids t)) \<and>
    com_active_ref_count k = hold_active_ref_count t \<and>
    com_minimum_delete_at_ms k = hold_minimum_delete_at_ms t \<and> com_committed_at_ms k = now"
proof -
  from assms obtain c bs d r' where x: "all_ok (expiry_result_checks dumps r)" "hold_candidate s = Some c"
      "request_matches q c" "transition_evidence r c s t now"
      "canonical_json dumps (expiry_result_wire_dict r) = Inr bs"
    and k: "k = \<lparr> com_schema_version = u ''1'', com_expire_operation_id = ereq_expire_operation_id q,
      com_request_digest = ereq_request_digest q, com_expected_hold_digest = ereq_expected_hold_digest q,
      com_authorized_candidate_digest = cand_candidate_digest c,
      com_authorized_reaper_principal_id = cand_owner_principal_id c,
      com_authorized_reaper_fencing_token = cand_candidate_fencing_token c,
      com_previous_artifact_version = hold_artifact_version s,
      com_remaining_active_hold_count = int (fcard (hold_active_hold_ids t)),
      com_active_ref_count = hold_active_ref_count t,
      com_minimum_delete_at_ms = hold_minimum_delete_at_ms t, com_committed_at_ms = now,
      com_result_json = bs, com_commit_digest = d \<rparr>"
    and v: "validate_result_for_request dumps k q (cand_owner_principal_id c) (cand_candidate_fencing_token c)
        REAPER_COMPONENT_TYPE EXPIRY_SUBJECT None = Inr r'"
    by (auto simp: commit_create_def Let_def split: option.splits)
  have "expiry_result_from_json dumps bs = Inr r'" using v by (simp add: validate_result_iff k)
  moreover have "expiry_result_from_json dumps bs = Inr r" using x by (simp add: expiry_result_json_iff)
  ultimately have "r' = r" by simp
  with x v show ?thesis by (intro exI [of _ c]) (simp add: k)
qed

end

end
