(* ===== verification/HoldLedger.thy ===== *)
theory HoldLedger
  imports HoldCommit
begin

text \<open>
  The candidate ledger of the hold-expiry contract (\<open>ArtifactHoldExpiryCandidateLedgerEntry\<close>,
  \<open>ArtifactHoldExpiryLedgerState\<close>): every SCAN and REPLAY_CLAIM ever persisted, the candidates they
  handed out with their consumption marks, the seals and allocation proofs that bind them, and the
  pointer to the current replay authority of each expire operation.

  \<open>ledger_checks\<close> is \<open>validate()\<close>, loop by loop; the loops with local dictionaries and sets carry
  them as arguments. The operations are \<open>_record_scan\<close>, \<open>_record_replay_claim\<close>, \<open>consume_candidate\<close>
  and the lookups, ending with \<open>require_replay_authority\<close>.
\<close>

section \<open>Entries\<close>

record ArtifactHoldExpiryCandidateLedgerEntry =
  ent_candidate :: ArtifactHoldExpiryCandidate
  ent_consumed_by :: "ustr option"
  ent_consumed_at_ms :: "int option"

definition ent_consumed :: "ArtifactHoldExpiryCandidateLedgerEntry \<Rightarrow> bool" where
  "ent_consumed e \<longleftrightarrow> ent_consumed_by e \<noteq> None"

definition entry_checks :: "(json \<Rightarrow> bytes option) \<Rightarrow> ArtifactHoldExpiryCandidateLedgerEntry \<Rightarrow> check list" where
  "entry_checks dumps e =
     candidate_checks dumps (ent_candidate e) @
     (case ent_consumed_by e of
        None \<Rightarrow> [Check (ent_consumed_at_ms e = None)
                  (conflict ''active candidate ledger entry has consumed timestamp'')]
      | Some i \<Rightarrow> require_sha256 i ''candidate consumed operation ID'' @
          (case ent_consumed_at_ms e of
             None \<Rightarrow> [Check False (conflict ''consumed candidate ledger entry is missing timestamp'')]
           | Some t \<Rightarrow> require_integer t ''candidate consumed timestamp'' 0))"

definition new_entry :: "ArtifactHoldExpiryCandidate \<Rightarrow> ArtifactHoldExpiryCandidateLedgerEntry" where
  "new_entry c = \<lparr> ent_candidate = c, ent_consumed_by = None, ent_consumed_at_ms = None \<rparr>"

section \<open>Ledger state\<close>

record ArtifactHoldExpiryLedgerState =
  led_candidate_fence_high_water :: int
  led_scan_requests :: "ArtifactHoldExpiryScanRequest list"
  led_scan_results :: "ArtifactHoldExpiryScanResult list"
  led_candidate_entries :: "ArtifactHoldExpiryCandidateLedgerEntry list"
  led_replay_claim_requests :: "ArtifactHoldExpiryReplayClaimRequest list"
  led_replay_claim_results :: "ArtifactHoldExpiryReplayClaimResult list"
  led_replay_current_authorities :: "ArtifactHoldExpiryReplayCurrentAuthority list"
  led_scan_authorities :: "ArtifactHoldExpiryScanAuthority list"
  led_scan_allocations :: "ArtifactHoldExpiryScanAllocation list"

definition ledger_empty :: ArtifactHoldExpiryLedgerState where
  "ledger_empty = \<lparr> led_candidate_fence_high_water = 0, led_scan_requests = [], led_scan_results = [],
     led_candidate_entries = [], led_replay_claim_requests = [], led_replay_claim_results = [],
     led_replay_current_authorities = [], led_scan_authorities = [], led_scan_allocations = [] \<rparr>"

type_synonym scan_pair = "ArtifactHoldExpiryScanRequest \<times> ArtifactHoldExpiryScanResult"
type_synonym replay_pair = "ArtifactHoldExpiryReplayClaimRequest \<times> ArtifactHoldExpiryReplayClaimResult"
type_synonym evidence = "ustr \<times> ArtifactHoldExpiryScanRequest \<times> ArtifactHoldExpiryScanResult \<times> ArtifactHoldExpiryCandidate"

definition scan_pairs :: "ArtifactHoldExpiryLedgerState \<Rightarrow> scan_pair list" where
  "scan_pairs l = zip (led_scan_requests l) (led_scan_results l)"

definition replay_pairs :: "ArtifactHoldExpiryLedgerState \<Rightarrow> replay_pair list" where
  "replay_pairs l = zip (led_replay_claim_requests l) (led_replay_claim_results l)"

definition entry_candidates :: "ArtifactHoldExpiryLedgerState \<Rightarrow> ArtifactHoldExpiryCandidate list" where
  "entry_candidates l = map ent_candidate (led_candidate_entries l)"

subsection \<open>The scan loop and its evidence\<close>

fun lease_dup_checks :: "ustr list \<Rightarrow> ArtifactHoldExpiryCandidate list \<Rightarrow> check list" where
  "lease_dup_checks seen [] = []"
| "lease_dup_checks seen (c # cs) =
     Check (cand_candidate_lease_id c \<notin> set seen) (conflict ''scan candidate authority was duplicated'')
     # lease_dup_checks (cand_candidate_lease_id c # seen) cs"

fun scan_loop_checks :: "(json \<Rightarrow> bytes option) \<Rightarrow> ustr list \<Rightarrow> ustr list \<Rightarrow> scan_pair list \<Rightarrow> check list" where
  "scan_loop_checks dumps scan_ids leases [] = []"
| "scan_loop_checks dumps scan_ids leases ((q, r) # ps) =
     scan_result_checks_for dumps r q @
     [Check (sreq_scan_operation_id q \<notin> set scan_ids) (conflict ''scan ledger contains duplicate scan ID'')] @
     lease_dup_checks leases (sres_candidates r) @
     scan_loop_checks dumps (sreq_scan_operation_id q # scan_ids) (lease_ids (sres_candidates r) @ leases) ps"

text \<open>\<open>scan_evidence_by_lease\<close>, in insertion order.\<close>

definition scan_evidence :: "scan_pair list \<Rightarrow> evidence list" where
  "scan_evidence ps =
     concat (map (\<lambda>(q, r). map (\<lambda>c. (cand_candidate_lease_id c, q, r, c)) (sres_candidates r)) ps)"

fun authority_loop_checks :: "ustr list \<Rightarrow> ArtifactHoldExpiryScanAuthority list \<Rightarrow> check list" where
  "authority_loop_checks seen [] = []"
| "authority_loop_checks seen (a # as) =
     scan_authority_checks a @
     [Check (sauth_candidate_lease_id a \<notin> set seen) (conflict ''scan authority ledger contains duplicate seal'')] @
     authority_loop_checks (sauth_candidate_lease_id a # seen) as"

definition authority_evidence_checks ::
    "(json \<Rightarrow> bytes option) \<Rightarrow> ArtifactHoldExpiryScanAuthority list \<Rightarrow> evidence list \<Rightarrow> check list" where
  "authority_evidence_checks dumps as ev =
     [Check (set (map sauth_candidate_lease_id as) = set (map fst ev))
        (conflict ''scan authority seal set is incomplete'')] @
     concat (map (\<lambda>(l, q, r, c).
       case map_of (map (\<lambda>a. (sauth_candidate_lease_id a, a)) as) l of
         None \<Rightarrow> [Check False KeyError]
       | Some a \<Rightarrow> scan_authority_checks_against dumps a q r c) ev)"

definition alloc_lease :: "ArtifactHoldExpiryScanAllocation \<Rightarrow> ustr" where
  "alloc_lease a = cand_candidate_lease_id (salloc_candidate a)"

fun allocation_loop_checks ::
    "(json \<Rightarrow> bytes option) \<Rightarrow> ustr list \<Rightarrow> ArtifactHoldExpiryScanAllocation list \<Rightarrow> check list" where
  "allocation_loop_checks dumps seen [] = []"
| "allocation_loop_checks dumps seen (a # as) =
     scan_allocation_checks dumps a @
     [Check (alloc_lease a \<notin> set seen) (conflict ''scan allocation ledger contains duplicate proof'')] @
     allocation_loop_checks dumps (alloc_lease a # seen) as"

definition allocation_evidence_checks ::
    "(json \<Rightarrow> bytes option) \<Rightarrow> ArtifactHoldExpiryScanAllocation list \<Rightarrow> evidence list \<Rightarrow> check list" where
  "allocation_evidence_checks dumps as ev =
     [Check (set (map alloc_lease as) = set (map fst ev)) (conflict ''scan allocation proof set is incomplete'')] @
     concat (map (\<lambda>(l, q, r, c).
       case map_of (map (\<lambda>a. (alloc_lease a, a)) as) l of
         None \<Rightarrow> [Check False KeyError]
       | Some a \<Rightarrow> scan_allocation_checks_against dumps a q c (salloc_previous_fence_high_water a)) ev)"

subsection \<open>The replay loop and the current authorities\<close>

fun replay_loop_checks :: "(json \<Rightarrow> bytes option) \<Rightarrow> ustr list \<Rightarrow> ustr list \<Rightarrow> replay_pair list \<Rightarrow> check list" where
  "replay_loop_checks dumps replay_ids scan_ids [] = []"
| "replay_loop_checks dumps replay_ids scan_ids ((q, r) # ps) =
     replay_claim_result_checks_for dumps r q @
     [Check (rreq_replay_operation_id q \<notin> set replay_ids)
        (conflict ''replay claim ledger contains duplicate operation ID''),
      Check (rreq_replay_operation_id q \<notin> set scan_ids)
        (conflict ''candidate issuance operation ID was reused across kinds'')] @
     replay_loop_checks dumps (rreq_replay_operation_id q # replay_ids) scan_ids ps"

text \<open>The keys of \<open>replay_claims_by_expire_operation\<close> in insertion order, and the claims under a key.\<close>

definition replay_ops :: "replay_pair list \<Rightarrow> ustr list" where
  "replay_ops ps = rev (remdups (rev (map (\<lambda>(q, r). rreq_expire_operation_id q) ps)))"

definition claims_of :: "replay_pair list \<Rightarrow> ustr \<Rightarrow> replay_pair list" where
  "claims_of ps e = filter (\<lambda>(q, r). rreq_expire_operation_id q = e) ps"

definition claim_fence :: "replay_pair \<Rightarrow> int" where
  "claim_fence p = cand_candidate_fencing_token (rres_candidate (snd p))"

fun lease_gap_checks :: "ArtifactHoldExpiryCandidate list \<Rightarrow> check list" where
  "lease_gap_checks (p # c # cs) =
     Check (\<not> cand_issued_at_ms c < cand_lease_until_ms p) (conflict ''replay claim authority leases overlap'')
     # lease_gap_checks (c # cs)"
| "lease_gap_checks cs = []"

definition replay_gap_checks :: "replay_pair list \<Rightarrow> check list" where
  "replay_gap_checks ps = concat (map (\<lambda>e. lease_gap_checks
     (sort_key cand_candidate_fencing_token (map (\<lambda>(q, r). rres_candidate r) (claims_of ps e)))) (replay_ops ps))"

fun current_loop_checks :: "ustr list \<Rightarrow> ArtifactHoldExpiryReplayCurrentAuthority list \<Rightarrow> check list" where
  "current_loop_checks seen [] = []"
| "current_loop_checks seen (a # as) =
     replay_current_checks a @
     [Check (rcur_expire_operation_id a \<notin> set seen) (conflict ''duplicate replay current authority pointer'')] @
     current_loop_checks (rcur_expire_operation_id a # seen) as"

definition current_claims_checks ::
    "(json \<Rightarrow> bytes option) \<Rightarrow> ArtifactHoldExpiryReplayCurrentAuthority list \<Rightarrow> replay_pair list \<Rightarrow> check list" where
  "current_claims_checks dumps as ps =
     [Check (set (map rcur_expire_operation_id as) = set (replay_ops ps))
        (conflict ''replay current authority pointer set is incomplete'')] @
     concat (map (\<lambda>e.
       let claims = claims_of ps e; current = last (sort_key claim_fence claims) in
       case map_of (map (\<lambda>a. (rcur_expire_operation_id a, a)) as) e of
         None \<Rightarrow> [Check False KeyError]
       | Some a \<Rightarrow> replay_current_checks_against dumps a (fst current) (snd current) @
           [Check (rcur_revision a = int (length claims))
              (conflict ''replay current authority revision is not append-bound'')]) (replay_ops ps))"

subsection \<open>The entry loop and the final comparisons\<close>

fun entry_loop_checks ::
    "(json \<Rightarrow> bytes option) \<Rightarrow> int \<Rightarrow> int \<Rightarrow> ustr list \<Rightarrow> int list \<Rightarrow> ArtifactHoldExpiryCandidateLedgerEntry list
     \<Rightarrow> check list" where
  "entry_loop_checks dumps high_water previous_fence tokens fences [] = []"
| "entry_loop_checks dumps high_water previous_fence tokens fences (e # es) =
     (let c = ent_candidate e in
      entry_checks dumps e @
      [Check (\<not> cand_candidate_fencing_token c \<le> previous_fence)
         (conflict ''candidate ledger append order is not fence-monotonic''),
       Check (cand_candidate_lease_id c \<notin> set tokens)
         (conflict ''global candidate bearer authority was reused''),
       Check (cand_candidate_token c \<notin> set (cand_candidate_lease_id c # tokens))
         (conflict ''global candidate bearer authority was reused''),
       Check (cand_candidate_fencing_token c \<notin> set fences)
         (conflict ''global candidate fencing authority was reused''),
       Check (\<not> high_water < cand_candidate_fencing_token c)
         (conflict ''candidate fence exceeds persisted high-water'')] @
      entry_loop_checks dumps high_water (cand_candidate_fencing_token c)
        (cand_candidate_token c # cand_candidate_lease_id c # tokens)
        (cand_candidate_fencing_token c # fences) es)"

text \<open>The fence of the entry before the first occurrence of a candidate, 0 at the start.\<close>

fun previous_fence_of :: "ArtifactHoldExpiryCandidate \<Rightarrow> int \<Rightarrow> ArtifactHoldExpiryCandidate list \<Rightarrow> int option" where
  "previous_fence_of c f [] = None"
| "previous_fence_of c f (d # ds) =
     (if d = c then Some f else previous_fence_of c (cand_candidate_fencing_token d) ds)"

definition provenance_checks ::
    "ArtifactHoldExpiryScanAllocation list \<Rightarrow> ArtifactHoldExpiryCandidate list \<Rightarrow> check list" where
  "provenance_checks as cs = concat (map (\<lambda>a.
     case previous_fence_of (salloc_candidate a) 0 cs of
       None \<Rightarrow> [Check False (conflict ''scan allocation candidate is absent from candidate ledger'')]
     | Some f \<Rightarrow> [Check (salloc_previous_fence_high_water a = f)
         (conflict ''scan allocation previous high-water is not persisted provenance'')]) as)"

definition persisted_candidates :: "ArtifactHoldExpiryLedgerState \<Rightarrow> ArtifactHoldExpiryCandidate list" where
  "persisted_candidates l =
     concat (map sres_candidates (led_scan_results l)) @ map rres_candidate (led_replay_claim_results l)"

definition ledger_checks :: "(json \<Rightarrow> bytes option) \<Rightarrow> ArtifactHoldExpiryLedgerState \<Rightarrow> check list" where
  "ledger_checks dumps l =
     require_integer (led_candidate_fence_high_water l) ''candidate fence high-water'' 0 @
     [Check (length (led_scan_requests l) = length (led_scan_results l))
        (conflict ''scan request/result ledger cardinality mismatch''),
      Check (length (led_replay_claim_requests l) = length (led_replay_claim_results l))
        (conflict ''replay claim request/result ledger cardinality mismatch'')] @
     scan_loop_checks dumps [] [] (scan_pairs l) @
     authority_loop_checks [] (led_scan_authorities l) @
     authority_evidence_checks dumps (led_scan_authorities l) (scan_evidence (scan_pairs l)) @
     allocation_loop_checks dumps [] (led_scan_allocations l) @
     allocation_evidence_checks dumps (led_scan_allocations l) (scan_evidence (scan_pairs l)) @
     replay_loop_checks dumps [] (map sreq_scan_operation_id (led_scan_requests l)) (replay_pairs l) @
     replay_gap_checks (replay_pairs l) @
     current_loop_checks [] (led_replay_current_authorities l) @
     current_claims_checks dumps (led_replay_current_authorities l) (replay_pairs l) @
     entry_loop_checks dumps (led_candidate_fence_high_water l) 0 [] [] (led_candidate_entries l) @
     provenance_checks (led_scan_allocations l) (entry_candidates l) @
     [Check (entry_candidates l = sort_key cand_candidate_fencing_token (persisted_candidates l))
        (conflict ''candidate ledger append order does not project persisted authority'')]"

section \<open>Lookups\<close>

definition candidate_entry_for ::
    "ArtifactHoldExpiryLedgerState \<Rightarrow> ustr \<Rightarrow> ArtifactHoldExpiryCandidateLedgerEntry result" where
  "candidate_entry_for l lease_id =
     checked (require_candidate_token lease_id ''candidate lease ID'')
     (case the_only (filter (\<lambda>e. cand_candidate_lease_id (ent_candidate e) = lease_id) (led_candidate_entries l)) of
        None \<Rightarrow> Inl (conflict ''authoritative candidate ledger entry is missing'')
      | Some e \<Rightarrow> Inr e)"

definition replay_claim_for_candidate ::
    "ArtifactHoldExpiryLedgerState \<Rightarrow> ArtifactHoldExpiryCandidate \<Rightarrow> replay_pair option result" where
  "replay_claim_for_candidate l c =
     (case filter (\<lambda>(q, r). rres_candidate r = c) (replay_pairs l) of
        [] \<Rightarrow> Inr None
      | [p] \<Rightarrow> Inr (Some p)
      | _ \<Rightarrow> Inl (conflict ''replay candidate has duplicate claim evidence''))"

definition is_replay_candidate :: "ArtifactHoldExpiryLedgerState \<Rightarrow> ArtifactHoldExpiryCandidate \<Rightarrow> bool result" where
  "is_replay_candidate l c = bindE (replay_claim_for_candidate l c) (\<lambda>p. Inr (p \<noteq> None))"

definition replay_claims_for_expire_operation ::
    "ArtifactHoldExpiryLedgerState \<Rightarrow> ustr \<Rightarrow> replay_pair list result" where
  "replay_claims_for_expire_operation l e =
     checked (require_sha256 e ''expire operation ID'') (Inr (claims_of (replay_pairs l) e))"

definition current_replay_claim_for_expire_operation ::
    "(json \<Rightarrow> bytes option) \<Rightarrow> ArtifactHoldExpiryLedgerState \<Rightarrow> ustr \<Rightarrow> replay_pair option result" where
  "current_replay_claim_for_expire_operation dumps l e =
     bindE (replay_claims_for_expire_operation l e) (\<lambda>claims.
     if claims = [] then Inr None
     else case the_only (filter (\<lambda>a. rcur_expire_operation_id a = e) (led_replay_current_authorities l)) of
       None \<Rightarrow> Inl (conflict ''replay current authority pointer is missing or duplicated'')
     | Some a \<Rightarrow>
       (case the_only (filter (\<lambda>(q, r). rreq_replay_operation_id q = rcur_replay_operation_id a) claims) of
          None \<Rightarrow> Inl (conflict ''replay current authority pointer has no matching claim'')
        | Some p \<Rightarrow> checked (replay_current_checks_against dumps a (fst p) (snd p)) (Inr (Some p))))"

section \<open>Recording\<close>

definition authority_tokens :: "ArtifactHoldExpiryLedgerState \<Rightarrow> ustr list" where
  "authority_tokens l = concat (map (\<lambda>e. [cand_candidate_lease_id (ent_candidate e),
     cand_candidate_token (ent_candidate e)]) (led_candidate_entries l))"

definition allocation_result_checks ::
    "(json \<Rightarrow> bytes option) \<Rightarrow> ArtifactHoldExpiryScanRequest \<Rightarrow> ArtifactHoldExpiryScanAllocation list
     \<Rightarrow> ArtifactHoldExpiryCandidate list \<Rightarrow> check list" where
  "allocation_result_checks dumps q allocations cs = concat (map (\<lambda>(a, c).
     scan_allocation_checks dumps a @
     [Check (\<not> (salloc_request a \<noteq> q \<or> salloc_candidate a \<noteq> c))
        (conflict ''scan allocation proof does not match result candidate'')]) (zip allocations cs))"

text \<open>The loop that admits the new candidates, with \<open>authority_tokens\<close> and \<open>next_high_water\<close>; it returns
  the new high water and the seals.\<close>

fun admit_candidates ::
    "(json \<Rightarrow> bytes option) \<Rightarrow> ArtifactHoldExpiryScanRequest \<Rightarrow> ArtifactHoldExpiryScanResult \<Rightarrow> ustr list \<Rightarrow> int
     \<Rightarrow> (ArtifactHoldExpiryCandidate \<times> ArtifactHoldExpiryScanAllocation) list
     \<Rightarrow> (int \<times> ArtifactHoldExpiryScanAuthority list) result" where
  "admit_candidates dumps q r tokens high_water [] = Inr (high_water, [])"
| "admit_candidates dumps q r tokens high_water ((c, a) # cas) =
     checked (scan_allocation_checks_against dumps a q c high_water @
       [Check (\<not> (cand_candidate_lease_id c \<in> set tokens \<or> cand_candidate_token c \<in> set tokens
                 \<or> cand_candidate_lease_id c = cand_candidate_token c
                 \<or> cand_candidate_fencing_token c \<le> high_water))
          (conflict ''global candidate authority was reused or regressed'')])
     (bindE (scan_authority_create dumps q r c) (\<lambda>authority.
      bindE (admit_candidates dumps q r (cand_candidate_token c # cand_candidate_lease_id c # tokens)
               (cand_candidate_fencing_token c) cas) (\<lambda>(hw, authorities).
        Inr (hw, authority # authorities))))"

definition record_scan ::
    "(json \<Rightarrow> bytes option) \<Rightarrow> ArtifactHoldExpiryLedgerState \<Rightarrow> ArtifactHoldExpiryScanRequest
     \<Rightarrow> ArtifactHoldExpiryScanResult \<Rightarrow> ArtifactHoldExpiryScanAllocation list
     \<Rightarrow> ArtifactHoldExpiryLedgerState result" where
  "record_scan dumps l q r allocations =
     checked (ledger_checks dumps l @ scan_result_checks_for dumps r q @
       [Check (length allocations = length (sres_candidates r))
          (conflict ''scan allocation/result cardinality mismatch'')] @
       allocation_result_checks dumps q allocations (sres_candidates r))
     (case find (\<lambda>(q', r'). sreq_scan_operation_id q' = sreq_scan_operation_id q) (scan_pairs l) of
        Some (stored_q, stored_r) \<Rightarrow>
          if stored_q = q \<and> stored_r = r then
            checked [Check (concat (map (\<lambda>c. filter (\<lambda>a. salloc_candidate a = c) (led_scan_allocations l))
                         (sres_candidates stored_r)) = allocations)
                       (conflict ''scan retry does not carry the persisted allocation proof'')] (Inr l)
          else Inl (conflict ''scan ID already has different persisted request or result'')
      | None \<Rightarrow>
          bindE (admit_candidates dumps q r (authority_tokens l) (led_candidate_fence_high_water l)
                   (zip (sres_candidates r) allocations)) (\<lambda>(hw, authorities).
          let updated = l \<lparr> led_candidate_fence_high_water := hw,
                led_scan_requests := led_scan_requests l @ [q],
                led_scan_results := led_scan_results l @ [r],
                led_candidate_entries := led_candidate_entries l @ map new_entry (sres_candidates r),
                led_scan_authorities := led_scan_authorities l @ authorities,
                led_scan_allocations := led_scan_allocations l @ allocations \<rparr>
          in checked (ledger_checks dumps updated) (Inr updated)))"

text \<open>The pointer list with the first pointer for \<open>e\<close> replaced, or the new one appended.\<close>

fun set_current ::
    "ustr \<Rightarrow> ArtifactHoldExpiryReplayCurrentAuthority \<Rightarrow> ArtifactHoldExpiryReplayCurrentAuthority list
     \<Rightarrow> ArtifactHoldExpiryReplayCurrentAuthority list" where
  "set_current e a [] = [a]"
| "set_current e a (b # bs) = (if rcur_expire_operation_id b = e then a # bs else b # set_current e a bs)"

definition record_replay_claim ::
    "(json \<Rightarrow> bytes option) \<Rightarrow> ArtifactHoldExpiryLedgerState \<Rightarrow> ArtifactHoldExpiryReplayClaimRequest
     \<Rightarrow> ArtifactHoldExpiryReplayClaimResult \<Rightarrow> ArtifactHoldExpiryLedgerState result" where
  "record_replay_claim dumps l q r =
     checked (ledger_checks dumps l @ replay_claim_result_checks_for dumps r q)
     (case find (\<lambda>(q', r'). rreq_replay_operation_id q' = rreq_replay_operation_id q) (replay_pairs l) of
        Some (stored_q, stored_r) \<Rightarrow>
          if stored_q = q \<and> stored_r = r then Inr l
          else Inl (conflict ''replay claim ID already has different persisted request or result'')
      | None \<Rightarrow>
          let c = rres_candidate r;
              existing = filter (\<lambda>a. rcur_expire_operation_id a = rreq_expire_operation_id q)
                (led_replay_current_authorities l);
              revision = (case existing of [] \<Rightarrow> 1 | a # _ \<Rightarrow> rcur_revision a + 1)
          in checked
            [Check (\<not> (cand_candidate_lease_id c \<in> set (authority_tokens l)
                \<or> cand_candidate_token c \<in> set (authority_tokens l)
                \<or> cand_candidate_lease_id c = cand_candidate_token c
                \<or> cand_candidate_fencing_token c \<le> led_candidate_fence_high_water l))
               (conflict ''replay claim authority was reused or regressed''),
             Check (\<not> 1 < length existing) (conflict ''duplicate replay current authority pointer'')]
            (bindE (replay_current_create dumps q r revision) (\<lambda>authority.
             let updated = l \<lparr> led_candidate_fence_high_water := cand_candidate_fencing_token c,
                   led_replay_claim_requests := led_replay_claim_requests l @ [q],
                   led_replay_claim_results := led_replay_claim_results l @ [r],
                   led_candidate_entries := led_candidate_entries l @ [new_entry c],
                   led_replay_current_authorities :=
                     set_current (rreq_expire_operation_id q) authority (led_replay_current_authorities l) \<rparr>
             in checked (ledger_checks dumps updated) (Inr updated))))"

text \<open>Replacing the first entry equal to the given one.\<close>

fun replace_first :: "'a \<Rightarrow> 'a \<Rightarrow> 'a list \<Rightarrow> 'a list" where
  "replace_first x y [] = []"
| "replace_first x y (z # zs) = (if z = x then y # zs else z # replace_first x y zs)"

definition consume_candidate ::
    "(json \<Rightarrow> bytes option) \<Rightarrow> ArtifactHoldExpiryLedgerState \<Rightarrow> ArtifactHoldExpiryRequest \<Rightarrow> int
     \<Rightarrow> ArtifactHoldExpiryLedgerState result" where
  "consume_candidate dumps l q consumed_at_ms =
     checked (ledger_checks dumps l @ expiry_request_checks dumps q @
              require_integer consumed_at_ms ''candidate consumed timestamp'' 0)
     (bindE (candidate_entry_for l (ereq_candidate_lease_id q)) (\<lambda>entry.
      checked ([Check (\<not> ent_consumed entry) (conflict ''candidate authority was already consumed'')] @
               require_candidate_request_binding q (ent_candidate entry))
      (let consumed_entry = entry \<lparr> ent_consumed_by := Some (ereq_expire_operation_id q),
                                    ent_consumed_at_ms := Some consumed_at_ms \<rparr>;
           updated = l \<lparr> led_candidate_entries := replace_first entry consumed_entry (led_candidate_entries l) \<rparr>
       in checked (ledger_checks dumps updated) (Inr updated))))"

section \<open>Replay authority\<close>

definition require_replay_authority ::
    "(json \<Rightarrow> bytes option) \<Rightarrow> ArtifactHoldExpiryLedgerState \<Rightarrow> ArtifactHoldExpiryRequest \<Rightarrow> ustr \<Rightarrow> ustr \<Rightarrow> int
     \<Rightarrow> int \<Rightarrow> VerifiedArtifactHoldExpiryReplayAuthority result" where
  "require_replay_authority dumps l q principal_id instance_id fence server_now_ms =
     checked (ledger_checks dumps l @ expiry_request_checks dumps q @
       require_stable_text principal_id ''authenticated replay principal'' @
       require_stable_text instance_id ''authenticated replay instance'' @
       require_integer fence ''authenticated replay fence'' 1 @
       require_integer server_now_ms ''server_now_ms'' 0)
     (case the_only (filter (\<lambda>e. ent_consumed_by e = Some (ereq_expire_operation_id q)) (led_candidate_entries l)) of
        None \<Rightarrow> Inl (conflict ''committed candidate authority is missing or duplicated'')
      | Some committed_entry \<Rightarrow>
        let committed = ent_candidate committed_entry in
        checked
          [Check (\<not> (ereq_artifact_id q \<noteq> cand_artifact_id committed
              \<or> ereq_hold_id q \<noteq> cand_hold_id committed
              \<or> ereq_expected_hold_digest q \<noteq> cand_expected_hold_digest committed
              \<or> ereq_expected_artifact_version q \<noteq> cand_expected_artifact_version committed
              \<or> ereq_observed_expires_ms q \<noteq> cand_observed_expires_ms committed))
             (conflict ''replay request does not match committed business identity''),
           Check (principal_id = cand_owner_principal_id committed)
             (conflict ''authenticated replay principal does not own committed authority'')]
        (bindE (current_replay_claim_for_expire_operation dumps l (ereq_expire_operation_id q)) (\<lambda>current.
         if ereq_candidate_lease_id q = cand_candidate_lease_id committed then
           checked
             ([Check (current = None) (conflict ''committed replay authority was superseded'')] @
              require_candidate_request_binding q committed @
              [Check (\<not> fence < cand_candidate_fencing_token committed)
                 (conflict ''authenticated replay fence is stale for committed authority''),
               Check (\<not> fence > cand_candidate_fencing_token committed)
                 (conflict ''higher-fence replay requires a persisted candidate authority''),
               Check (instance_id = cand_owner_instance_id committed)
                 (conflict ''authenticated replay instance does not own committed fence'')])
             (Inr \<lparr> vrep_candidate = committed, vrep_seal = REPLAY_AUTHORITY_SEAL \<rparr>)
         else
           bindE (candidate_entry_for l (ereq_candidate_lease_id q)) (\<lambda>replay_entry.
           checked [Check (\<not> ent_consumed replay_entry) (conflict ''replay candidate authority was already consumed'')]
           (let replay_candidate = ent_candidate replay_entry in
            bindE (replay_claim_for_candidate l replay_candidate) (\<lambda>claim.
            case claim of None \<Rightarrow> Inl (conflict ''persisted replay candidate claim is missing'')
            | Some (claim_request, claim_result) \<Rightarrow>
              checked
                (replay_claim_result_checks_for dumps claim_result claim_request @
                 [Check (case current of None \<Rightarrow> False | Some (q', r') \<Rightarrow> claim_result = r')
                    (conflict ''persisted replay candidate authority was superseded''),
                  Check (\<not> (rres_expire_operation_id claim_result \<noteq> ereq_expire_operation_id q
                      \<or> cand_candidate_fencing_token replay_candidate \<le> cand_candidate_fencing_token committed))
                    (conflict ''replay candidate is not a newer authority for this commit'')] @
                 require_candidate_request_binding q replay_candidate @
                 [Check (\<not> (cand_owner_principal_id replay_candidate \<noteq> principal_id
                      \<or> cand_owner_instance_id replay_candidate \<noteq> instance_id
                      \<or> cand_candidate_fencing_token replay_candidate \<noteq> fence))
                    (conflict ''authenticated replay context does not own persisted candidate''),
                  Check (cand_issued_at_ms replay_candidate \<le> server_now_ms
                      \<and> server_now_ms < cand_lease_until_ms replay_candidate)
                    (conflict ''persisted replay candidate lease is not live'')])
                (Inr \<lparr> vrep_candidate = replay_candidate, vrep_seal = REPLAY_AUTHORITY_SEAL \<rparr>)))))))"

end
