(* ===== verification/HoldCas.thy ===== *)
theory HoldCas
  imports HoldLedger
begin

text \<open>
  The atomic snapshot of the hold-expiry contract (\<open>ArtifactHoldExpiryCASState\<close>): the hold, the
  candidate ledger, the commits and the audit and outbox records, with \<open>validate()\<close> (here
  \<open>cas_checks\<close>) tying them together, and \<open>commit_for\<close>.
\<close>

text \<open>A guard that needs the value of a call: if the call raises, so does the guard.\<close>

fun with_result :: "'a result \<Rightarrow> ('a \<Rightarrow> check list) \<Rightarrow> check list" where
  "with_result (Inl e) f = [Check False e]"
| "with_result (Inr x) f = f x"

lemma ok_with_result [simp]: "all_ok (with_result m f) \<longleftrightarrow> (\<exists>x. m = Inr x \<and> all_ok (f x))"
  by (cases m) auto

record ArtifactHoldExpiryCASState =
  cas_hold_state :: ArtifactHoldState
  cas_candidate_ledger :: ArtifactHoldExpiryLedgerState
  cas_commits :: "ArtifactHoldExpiryCommit list"
  cas_audit_records :: "ArtifactHoldExpiryEventRecord list"
  cas_outbox_records :: "ArtifactHoldExpiryEventRecord list"

text \<open>\<open>max(..., key=candidate_fencing_token)\<close>: the first of the largest; \<open>None\<close> on an empty tuple.\<close>

definition latest_candidate :: "ArtifactHoldExpiryCandidate list \<Rightarrow> ArtifactHoldExpiryCandidate option" where
  "latest_candidate cs = (case cs of [] \<Rightarrow> None
     | c # ds \<Rightarrow> Some (foldl (\<lambda>m d. if cand_candidate_fencing_token m < cand_candidate_fencing_token d then d else m) c ds))"

text \<open>The unconsumed scan candidates of the current incarnation of the hold.\<close>

fun incarnation_candidates ::
    "ArtifactHoldExpiryLedgerState \<Rightarrow> ArtifactHoldState \<Rightarrow> ArtifactHoldExpiryCandidateLedgerEntry list
     \<Rightarrow> ArtifactHoldExpiryCandidate list result" where
  "incarnation_candidates l s [] = Inr []"
| "incarnation_candidates l s (e # es) =
     (if ent_consumed e then incarnation_candidates l s es
      else bindE (is_replay_candidate l (ent_candidate e)) (\<lambda>replay.
           bindE (incarnation_candidates l s es) (\<lambda>cs.
             Inr (if \<not> replay \<and> due_candidate s (ent_candidate e) then ent_candidate e # cs else cs))))"

definition hold_projection_checks :: "ArtifactHoldExpiryCASState \<Rightarrow> check list" where
  "hold_projection_checks st =
     (let s = cas_hold_state st; l = cas_candidate_ledger st in
      (if hold_hold_status s = ACTIVE then
         with_result (incarnation_candidates l s (led_candidate_entries l)) (\<lambda>cs.
           [Check (hold_candidate s = latest_candidate cs)
              (conflict ''active hold candidate projection is not the latest ledger authority'')])
       else []) @
      (case hold_candidate s of None \<Rightarrow> []
       | Some c \<Rightarrow>
           with_result (candidate_entry_for l (cand_candidate_lease_id c)) (\<lambda>e.
             if ent_candidate e \<noteq> c \<or> ent_consumed e
             then [Check False (conflict ''hold candidate projection contradicts authoritative ledger'')]
             else with_result (is_replay_candidate l (ent_candidate e)) (\<lambda>replay.
               [Check (\<not> replay) (conflict ''hold candidate projection contradicts authoritative ledger'')]))))"

fun commit_loop_checks :: "(json \<Rightarrow> bytes option) \<Rightarrow> ustr list \<Rightarrow> ArtifactHoldExpiryCommit list \<Rightarrow> check list" where
  "commit_loop_checks dumps seen [] = []"
| "commit_loop_checks dumps seen (k # ks) =
     commit_checks dumps k @
     [Check (com_expire_operation_id k \<notin> set seen) (conflict ''duplicate expiry commit evidence'')] @
     no_raise (expiry_result_from_json dumps (com_result_json k)) @
     commit_loop_checks dumps (com_expire_operation_id k # seen) ks"

definition commit_by_operation :: "ArtifactHoldExpiryCommit list \<Rightarrow> ustr \<Rightarrow> ArtifactHoldExpiryCommit option" where
  "commit_by_operation ks e = map_of (map (\<lambda>k. (com_expire_operation_id k, k)) ks) e"

definition replay_commit_checks ::
    "(json \<Rightarrow> bytes option) \<Rightarrow> ArtifactHoldExpiryCASState \<Rightarrow> replay_pair \<Rightarrow> check list" where
  "replay_commit_checks dumps st p =
     (let q = fst p; r = snd p; s = cas_hold_state st in
      case commit_by_operation (cas_commits st) (rreq_expire_operation_id q) of
        None \<Rightarrow> [Check False (conflict ''replay claim has no committed expiry evidence'')]
      | Some k \<Rightarrow>
        [Check (\<not> (rreq_base_commit_digest q \<noteq> com_commit_digest k \<or> rres_base_commit_digest r \<noteq> com_commit_digest k))
           (conflict ''replay claim base commit digest is not persisted commit'')] @
        with_result (expiry_result_from_json dumps (com_result_json k)) (\<lambda>committed.
          let c = rres_candidate r in
          [Check (\<not> (cand_owner_principal_id c \<noteq> com_authorized_reaper_principal_id k
              \<or> cand_artifact_id c \<noteq> eres_artifact_id committed
              \<or> cand_hold_id c \<noteq> eres_hold_id committed
              \<or> cand_expected_hold_digest c \<noteq> com_expected_hold_digest k
              \<or> cand_expected_artifact_version c \<noteq> com_previous_artifact_version k
              \<or> Some (cand_observed_expires_ms c) \<noteq> hold_expires_ms s
              \<or> cand_candidate_fencing_token c \<le> com_authorized_reaper_fencing_token k
              \<or> cand_issued_at_ms c < com_committed_at_ms k))
             (conflict ''replay claim candidate contradicts committed expiry evidence''),
           Check (\<not> (hold_hold_status s \<noteq> EXPIRED \<or> hold_due_indexed s \<or> hold_candidate s \<noteq> None))
             (conflict ''replay claim requires the committed terminal hold state'')]))"

fun consumed_loop_checks :: "ustr list \<Rightarrow> ArtifactHoldExpiryCandidateLedgerEntry list \<Rightarrow> check list" where
  "consumed_loop_checks seen [] = []"
| "consumed_loop_checks seen (e # es) =
     (case ent_consumed_by e of None \<Rightarrow> consumed_loop_checks seen es
      | Some i \<Rightarrow> Check (i \<notin> set seen) (conflict ''candidate consumption is missing or duplicated'')
          # consumed_loop_checks (i # seen) es)"

definition consumed_entries ::
    "ArtifactHoldExpiryCandidateLedgerEntry list \<Rightarrow> (ustr \<times> ArtifactHoldExpiryCandidateLedgerEntry) list" where
  "consumed_entries es = map (\<lambda>e. (the (ent_consumed_by e), e)) (filter ent_consumed es)"

text \<open>\<open>terminal hold cannot carry a newer unconsumed candidate\<close>, for one later entry.\<close>

definition later_entry_checks ::
    "ArtifactHoldExpiryLedgerState \<Rightarrow> ArtifactHoldExpiryCandidate \<Rightarrow> ArtifactHoldExpiryCandidateLedgerEntry \<Rightarrow> check list" where
  "later_entry_checks l c e =
     (if ent_consumed e then []
      else with_result (is_replay_candidate l (ent_candidate e)) (\<lambda>replay.
        let d = ent_candidate e in
        [Check (\<not> (\<not> replay \<and> cand_artifact_id d = cand_artifact_id c \<and> cand_hold_id d = cand_hold_id c
            \<and> cand_expected_hold_digest d = cand_expected_hold_digest c
            \<and> cand_observed_expires_ms d = cand_observed_expires_ms c
            \<and> cand_candidate_fencing_token d > cand_candidate_fencing_token c))
           (conflict ''terminal hold cannot carry a newer unconsumed candidate'')]))"

text \<open>The comparison of a commit with the current hold, when it is about the current hold.\<close>

definition current_hold_checks ::
    "ArtifactHoldState \<Rightarrow> ArtifactHoldExpiryCommit \<Rightarrow> ArtifactHoldExpiryCandidate \<Rightarrow> ArtifactHoldExpiryResult \<Rightarrow> check list" where
  "current_hold_checks s k c result =
     (if eres_artifact_id result = hold_artifact_id s \<and> eres_hold_id result = hold_hold_id s then
        [Check (hold_hold_digest s = com_expected_hold_digest k)
           (conflict ''current hold incarnation contradicts committed expiry''),
         Check (hold_expires_ms s = Some (cand_observed_expires_ms c))
           (conflict ''current hold expiry timestamp contradicts committed due tuple''),
         Check (\<not> (hold_hold_status s \<noteq> EXPIRED \<or> hold_hold_id s |\<in>| hold_active_hold_ids s
             \<or> hold_due_indexed s \<or> hold_due_score_ms s \<noteq> None \<or> hold_candidate s \<noteq> None
             \<or> hold_artifact_version s < eres_artifact_version result))
           (conflict ''current state does not reflect the committed expiry'')] @
        (if hold_artifact_version s = eres_artifact_version result then
           with_result (retention_locked_at s (com_committed_at_ms k)) (\<lambda>locked.
             [Check (\<not> (com_remaining_active_hold_count k \<noteq> int (fcard (hold_active_hold_ids s))
                 \<or> com_active_ref_count k \<noteq> hold_active_ref_count s
                 \<or> com_minimum_delete_at_ms k \<noteq> hold_minimum_delete_at_ms s
                 \<or> eres_retention_locked result \<noteq> locked))
                (conflict ''commit retention evidence contradicts final state'')])
         else [])
      else [])"

definition commit_evidence_checks ::
    "(json \<Rightarrow> bytes option) \<Rightarrow> ArtifactHoldExpiryCASState \<Rightarrow> ArtifactHoldExpiryCommit \<Rightarrow> check list" where
  "commit_evidence_checks dumps st k =
     (let s = cas_hold_state st; l = cas_candidate_ledger st in
      case map_of (consumed_entries (led_candidate_entries l)) (com_expire_operation_id k) of
        None \<Rightarrow> [Check False KeyError]
      | Some e \<Rightarrow>
        let c = ent_candidate e in
        [Check (ent_consumed_at_ms e = Some (com_committed_at_ms k))
           (conflict ''candidate tombstone timestamp contradicts commit''),
         Check (com_authorized_reaper_fencing_token k = cand_candidate_fencing_token c)
           (conflict ''commit fence contradicts consumed candidate''),
         Check (cand_candidate_digest c = com_authorized_candidate_digest k)
           (conflict ''commit candidate digest contradicts consumed candidate''),
         Check (cand_issued_at_ms c \<le> com_committed_at_ms k \<and> com_committed_at_ms k < cand_lease_until_ms c)
           (conflict ''commit time is outside candidate lease''),
         Check (\<not> com_committed_at_ms k < cand_observed_expires_ms c)
           (conflict ''commit time precedes observed expiry'')] @
        with_result (expiry_request_create dumps c) (\<lambda>request.
        with_result (validate_result_for_request dumps k request (cand_owner_principal_id c)
            (cand_candidate_fencing_token c) REAPER_COMPONENT_TYPE EXPIRY_SUBJECT None) (\<lambda>result.
          [Check (expiry_result_from_json dumps (com_result_json k) = Inr result)
             (conflict ''commit result evidence drifted'')] @
          concat (map (later_entry_checks l c) (led_candidate_entries l)) @
          with_result (event_create dumps AUDIT k) (\<lambda>expected_audit.
          with_result (event_create dumps OUTBOX k) (\<lambda>expected_outbox.
            [Check (count_list (cas_audit_records st) expected_audit = 1)
               (conflict ''commit does not have exactly one bound audit record''),
             Check (count_list (cas_outbox_records st) expected_outbox = 1)
               (conflict ''commit does not have exactly one bound outbox record'')])) @
          current_hold_checks s k c result)))"

definition record_loop_checks ::
    "(json \<Rightarrow> bytes option) \<Rightarrow> ArtifactHoldExpiryEventSink \<Rightarrow> string \<Rightarrow> ArtifactHoldExpiryEventRecord list \<Rightarrow> check list" where
  "record_loop_checks dumps sink message rs =
     concat (map (\<lambda>r. Check (evt_sink r = sink) (conflict message) # event_checks dumps r) rs)"

definition cas_checks :: "(json \<Rightarrow> bytes option) \<Rightarrow> ArtifactHoldExpiryCASState \<Rightarrow> check list" where
  "cas_checks dumps st =
     (let l = cas_candidate_ledger st in
      hold_state_checks dumps (cas_hold_state st) @
      ledger_checks dumps l @
      hold_projection_checks st @
      commit_loop_checks dumps [] (cas_commits st) @
      concat (map (replay_commit_checks dumps st) (replay_pairs l)) @
      consumed_loop_checks [] (led_candidate_entries l) @
      [Check (set (map fst (consumed_entries (led_candidate_entries l))) =
              set (map com_expire_operation_id (cas_commits st)))
         (conflict ''candidate tombstones and commit evidence are not atomic'')] @
      concat (map (commit_evidence_checks dumps st) (cas_commits st)) @
      [Check (length (cas_audit_records st) = length (cas_commits st))
         (conflict ''audit ledger cardinality mismatch''),
       Check (length (cas_outbox_records st) = length (cas_commits st))
         (conflict ''outbox ledger cardinality mismatch'')] @
      record_loop_checks dumps AUDIT ''audit ledger contains invalid record'' (cas_audit_records st) @
      record_loop_checks dumps OUTBOX ''outbox ledger contains invalid record'' (cas_outbox_records st))"

definition cas_create ::
    "(json \<Rightarrow> bytes option) \<Rightarrow> ArtifactHoldState \<Rightarrow> ArtifactHoldExpiryLedgerState \<Rightarrow> ArtifactHoldExpiryCASState result" where
  "cas_create dumps s l =
     (let created = \<lparr> cas_hold_state = s, cas_candidate_ledger = l, cas_commits = [],
                      cas_audit_records = [], cas_outbox_records = [] \<rparr>
      in checked (cas_checks dumps created) (Inr created))"

definition commit_for :: "ArtifactHoldExpiryCASState \<Rightarrow> ustr \<Rightarrow> ArtifactHoldExpiryCommit option result" where
  "commit_for st e =
     checked (require_sha256 e ''expire operation ID'')
     (case filter (\<lambda>k. com_expire_operation_id k = e) (cas_commits st) of
        [] \<Rightarrow> Inr None
      | [k] \<Rightarrow> Inr (Some k)
      | _ \<Rightarrow> Inl (conflict ''duplicate expiry commit evidence''))"

end
