(* ===== verification/HoldOps.thy ===== *)
theory HoldOps
  imports HoldCas
begin

text \<open>
  The three state operations of the hold-expiry contract: \<open>apply_artifact_hold_expiry_scan\<close>,
  \<open>apply_artifact_hold_expiry_replay_claim\<close> and \<open>apply_artifact_hold_expiry\<close>, with the projection and
  the predicate the last one uses. Each takes a snapshot and returns the new snapshot with its result.

  The State-side random source \<open>secrets.token_urlsafe(32)\<close> is an argument: the list of the 32-byte
  values it returns, in order. Running out of them is the value \<open>None\<close> of \<open>fresh_token\<close>.
\<close>

section \<open>Caller guards\<close>

record caller =
  cal_principal :: ustr
  cal_instance :: ustr
  cal_component_type :: ustr
  cal_subject :: ustr

section \<open>SCAN\<close>

text \<open>\<open>while candidate_token == candidate_lease_id: candidate_token = _new_candidate_token()\<close>.\<close>

fun fresh_token :: "ustr \<Rightarrow> bytes list \<Rightarrow> ustr option" where
  "fresh_token lease_id [] = None"
| "fresh_token lease_id (d # ds) = (if b64url_nopad d = lease_id then fresh_token lease_id ds else Some (b64url_nopad d))"

definition draw_tokens :: "bytes list \<Rightarrow> (ustr \<times> ustr) option" where
  "draw_tokens draws = (case draws of [] \<Rightarrow> None
     | d # ds \<Rightarrow> map_option (Pair (b64url_nopad d)) (fresh_token (b64url_nopad d) ds))"

definition allocate_scan_candidate ::
    "(json \<Rightarrow> bytes option) \<Rightarrow> bytes list \<Rightarrow> ArtifactHoldExpiryScanRequest \<Rightarrow> ArtifactHoldExpiryCASState
     \<Rightarrow> ArtifactHoldState \<Rightarrow> int \<Rightarrow> ustr \<Rightarrow> ustr \<Rightarrow> ArtifactHoldExpiryScanAllocation result" where
  "allocate_scan_candidate dumps draws q st hold server_now_ms principal_id instance_id =
     (let previous_fence_high_water = led_candidate_fence_high_water (cas_candidate_ledger st);
          next_fence = previous_fence_high_water + 1;
          lease_until_ms = server_now_ms + LEASE_MAX_MS
      in case draw_tokens draws of None \<Rightarrow> Inl OutOfFuel
      | Some (lease_id, token) \<Rightarrow>
        bindE (candidate_create dumps (sreq_scan_operation_id q) lease_id next_fence token principal_id
            instance_id server_now_ms lease_until_ms (hold_artifact_id hold) (hold_hold_id hold)
            (hold_hold_digest hold) (hold_artifact_version hold)
            (case hold_expires_ms hold of None \<Rightarrow> 0 | Some e \<Rightarrow> e)) (\<lambda>candidate.
        issue_scan_allocation dumps q candidate previous_fence_high_water))"

definition scan_candidate_checks ::
    "ArtifactHoldExpiryCASState \<Rightarrow> int \<Rightarrow> caller \<Rightarrow> ArtifactHoldExpiryCandidate \<Rightarrow> check list" where
  "scan_candidate_checks st server_now_ms who c =
     (let hold = cas_hold_state st in
      [Check (\<not> (cand_owner_principal_id c \<noteq> cal_principal who \<or> cand_owner_instance_id c \<noteq> cal_instance who))
         (conflict ''scan candidate owner does not match authenticated reaper''),
       Check (cand_issued_at_ms c \<le> server_now_ms \<and> server_now_ms < cand_lease_until_ms c)
         (conflict ''scan candidate lease is not live at server time''),
       Check (\<not> cand_issued_at_ms c < cand_observed_expires_ms c)
         (conflict ''scan candidate was issued before observed expiry''),
       Check (due_candidate hold c) (conflict ''scan candidate does not match current due tuple''),
       Check (\<not> cand_candidate_fencing_token c \<le> led_candidate_fence_high_water (cas_candidate_ledger st))
         (conflict ''scan candidate fence is not above persisted high-water'')])"

definition apply_artifact_hold_expiry_scan ::
    "(json \<Rightarrow> bytes option) \<Rightarrow> bytes list \<Rightarrow> ArtifactHoldExpiryScanRequest \<Rightarrow> ArtifactHoldExpiryCASState \<Rightarrow> int
     \<Rightarrow> caller \<Rightarrow> (ArtifactHoldExpiryCASState \<times> ArtifactHoldExpiryScanResult) result" where
  "apply_artifact_hold_expiry_scan dumps draws q st server_now_ms who =
     checked (scan_request_checks dumps q @ cas_checks dumps st @
       require_integer server_now_ms ''server_now_ms'' 0 @
       require_stable_text (cal_principal who) ''authenticated reaper principal'' @
       require_stable_text (cal_instance who) ''authenticated reaper instance'' @
       require_stable_text (cal_component_type who) ''authenticated component type'' @
       require_stable_text (cal_subject who) ''authenticated subject'' @
       [Check (cal_component_type who = REAPER_COMPONENT_TYPE)
          (conflict ''only artifact-hold-reaper may scan hold expiry''),
        Check (cal_principal who = REAPER_PRINCIPAL_ID)
          (conflict ''authenticated principal is not the configured artifact-hold-reaper''),
        Check (cal_subject who = EXPIRY_SUBJECT) (conflict ''hold expiry scan used a forbidden subject'')])
     (case find (\<lambda>(q', r'). sreq_scan_operation_id q' = sreq_scan_operation_id q)
             (scan_pairs (cas_candidate_ledger st)) of
        Some (stored_q, stored_r) \<Rightarrow>
          checked
            [Check (stored_q = q) (conflict ''scan ID already has different persisted request or result''),
             Check (\<not> (\<exists>c \<in> set (sres_candidates stored_r). cand_owner_principal_id c \<noteq> cal_principal who
                     \<or> cand_owner_instance_id c \<noteq> cal_instance who))
               (conflict ''scan result candidate owner does not match authenticated reaper'')]
            (Inr (st, stored_r))
      | None \<Rightarrow>
          let hold = cas_hold_state st in
          checked
            [Check (hold_hold_status hold = ACTIVE) (conflict ''scan requires an ACTIVE hold''),
             Check (\<not> (hold_expires_ms hold = None \<or> \<not> hold_due_indexed hold \<or> hold_due_score_ms hold = None))
               (conflict ''scan requires a persisted due hold''),
             Check (case hold_due_score_ms hold of None \<Rightarrow> False | Some d \<Rightarrow> \<not> server_now_ms < d)
               (conflict ''scan server time precedes due score'')]
          (bindE (allocate_scan_candidate dumps draws q st hold server_now_ms (cal_principal who) (cal_instance who))
             (\<lambda>allocation.
           bindE (scan_result_create dumps q [salloc_candidate allocation]) (\<lambda>result.
           checked (concat (map (scan_candidate_checks st server_now_ms who) (sres_candidates result)))
           (bindE (record_scan dumps (cas_candidate_ledger st) q result [allocation]) (\<lambda>updated_ledger.
            let current_candidates = map ent_candidate (filter (\<lambda>e. \<not> ent_consumed e
                    \<and> due_candidate hold (ent_candidate e)) (led_candidate_entries updated_ledger));
                updated = st \<lparr> cas_hold_state := hold \<lparr> hold_candidate := latest_candidate current_candidates \<rparr>,
                               cas_candidate_ledger := updated_ledger \<rparr>
            in checked (cas_checks dumps updated) (Inr (updated, result))))))))"

section \<open>REPLAY_CLAIM\<close>

definition replay_claim_precondition_checks ::
    "ArtifactHoldExpiryReplayClaimRequest \<Rightarrow> ArtifactHoldExpiryCASState \<Rightarrow> caller \<Rightarrow> ArtifactHoldExpiryCommit
     \<Rightarrow> ArtifactHoldExpiryResult \<Rightarrow> ArtifactHoldExpiryCandidate \<Rightarrow> check list" where
  "replay_claim_precondition_checks q st who k committed_result original =
     with_result
       (if rreq_artifact_id q \<noteq> cand_artifact_id original \<or> rreq_hold_id q \<noteq> cand_hold_id original
           \<or> rreq_expected_hold_digest q \<noteq> cand_expected_hold_digest original
           \<or> rreq_expected_artifact_version q \<noteq> cand_expected_artifact_version original
           \<or> rreq_observed_expires_ms q \<noteq> cand_observed_expires_ms original
        then Inr True
        else bindE (artifact_hold_expiry_operation_id (cand_artifact_id original) (cand_hold_id original)
               (cand_expected_hold_digest original) (cand_expected_artifact_version original)
               (cand_observed_expires_ms original)) (\<lambda>i.
             Inr (rreq_expire_operation_id q \<noteq> i \<or> eres_artifact_id committed_result \<noteq> rreq_artifact_id q
                  \<or> eres_hold_id committed_result \<noteq> rreq_hold_id q)))
       (\<lambda>mismatch. [Check (\<not> mismatch) (conflict ''replay claim request does not match committed expiry'')]) @
     (let s = cas_hold_state st in
      [Check (cal_principal who = com_authorized_reaper_principal_id k)
         (conflict ''replay claim principal does not own committed expiry''),
       Check (\<not> (hold_hold_status s \<noteq> EXPIRED \<or> hold_artifact_id s \<noteq> rreq_artifact_id q
           \<or> hold_hold_id s \<noteq> rreq_hold_id q \<or> hold_hold_digest s \<noteq> rreq_expected_hold_digest q
           \<or> hold_expires_ms s \<noteq> Some (rreq_observed_expires_ms q) \<or> hold_due_indexed s
           \<or> hold_candidate s \<noteq> None \<or> hold_artifact_version s < eres_artifact_version committed_result))
         (conflict ''replay claim requires the committed terminal hold state'')])"

definition apply_artifact_hold_expiry_replay_claim ::
    "(json \<Rightarrow> bytes option) \<Rightarrow> ArtifactHoldExpiryReplayClaimRequest \<Rightarrow> ArtifactHoldExpiryCASState \<Rightarrow> int \<Rightarrow> int
     \<Rightarrow> caller \<Rightarrow> (ArtifactHoldExpiryCASState \<times> ArtifactHoldExpiryReplayClaimResult) result" where
  "apply_artifact_hold_expiry_replay_claim dumps q st server_now_ms lease_until_ms who =
     (let l = cas_candidate_ledger st in
     checked (replay_claim_request_checks dumps q @ cas_checks dumps st @
       require_integer server_now_ms ''server_now_ms'' 0 @
       require_integer lease_until_ms ''replay claim lease_until_ms'' 0 @
       require_stable_text (cal_principal who) ''authenticated reaper principal'' @
       require_stable_text (cal_instance who) ''authenticated reaper instance'' @
       require_stable_text (cal_component_type who) ''authenticated component type'' @
       require_stable_text (cal_subject who) ''authenticated subject'' @
       [Check (cal_component_type who = REAPER_COMPONENT_TYPE)
          (conflict ''only artifact-hold-reaper may claim expiry replay''),
        Check (cal_subject who = EXPIRY_SUBJECT)
          (conflict ''hold expiry replay claim used a forbidden subject'')])
     (case find (\<lambda>(q', r'). rreq_replay_operation_id q' = rreq_replay_operation_id q) (replay_pairs l) of
        Some (stored_q, stored_r) \<Rightarrow>
          checked
            [Check (stored_q = q) (conflict ''replay claim ID already has a different request''),
             Check (\<not> (cand_owner_principal_id (rres_candidate stored_r) \<noteq> cal_principal who
                     \<or> cand_owner_instance_id (rres_candidate stored_r) \<noteq> cal_instance who))
               (conflict ''persisted replay claim is not owned by authenticated reaper'')]
            (Inr (st, stored_r))
      | None \<Rightarrow>
          checked [Check (\<not> lease_until_ms \<le> server_now_ms) (conflict ''replay claim lease must be live'')]
          (bindE (commit_for st (rreq_expire_operation_id q)) (\<lambda>commit.
           case commit of
             None \<Rightarrow> Inl (conflict ''replay claim requires persisted expiry commit evidence'')
           | Some k \<Rightarrow>
             checked [Check (rreq_base_commit_digest q = com_commit_digest k)
                        (conflict ''replay claim base commit digest does not match persisted commit'')]
             (bindE (expiry_result_from_json dumps (com_result_json k)) (\<lambda>committed_result.
              case the_only (filter (\<lambda>e. ent_consumed_by e = Some (rreq_expire_operation_id q))
                       (led_candidate_entries l)) of
                None \<Rightarrow> Inl (conflict ''replay claim requires exactly one consumed expiry candidate'')
              | Some consumed \<Rightarrow>
                checked (replay_claim_precondition_checks q st who k committed_result (ent_candidate consumed))
                (bindE (current_replay_claim_for_expire_operation dumps l (rreq_expire_operation_id q)) (\<lambda>current.
                 checked (case current of None \<Rightarrow> []
                     | Some (q', r') \<Rightarrow>
                       [Check (\<not> server_now_ms < cand_issued_at_ms (rres_candidate r'))
                          (conflict ''server time predates current replay authority''),
                        Check (\<not> server_now_ms < cand_lease_until_ms (rres_candidate r'))
                          (conflict ''current replay authority lease is still live'')])
                 (bindE (candidate_create dumps (rreq_replay_operation_id q) (rreq_candidate_lease_id q)
                     (led_candidate_fence_high_water l + 1) (rreq_candidate_token q) (cal_principal who)
                     (cal_instance who) server_now_ms lease_until_ms (rreq_artifact_id q) (rreq_hold_id q)
                     (rreq_expected_hold_digest q) (rreq_expected_artifact_version q)
                     (rreq_observed_expires_ms q)) (\<lambda>candidate.
                  bindE (replay_claim_result_create dumps q candidate) (\<lambda>result.
                  bindE (record_replay_claim dumps l q result) (\<lambda>updated_ledger.
                  let updated = st \<lparr> cas_candidate_ledger := updated_ledger \<rparr>
                  in checked (cas_checks dumps updated) (Inr (updated, result))))))))))))))"

section \<open>EXPIRE\<close>

definition require_expiry_predicate ::
    "(json \<Rightarrow> bytes option) \<Rightarrow> ArtifactHoldExpiryRequest \<Rightarrow> ArtifactHoldState \<Rightarrow> ArtifactHoldExpiryCandidate \<Rightarrow> int
     \<Rightarrow> ustr \<Rightarrow> ustr \<Rightarrow> int \<Rightarrow> check list" where
  "require_expiry_predicate dumps q s c server_now_ms principal_id instance_id fence =
     candidate_checks dumps c @
     require_candidate_request_binding q c @
     [Check (hold_artifact_status s \<notin> {DELETING, DELETED}) (conflict ''artifact lifecycle forbids hold expiry''),
      Check (hold_hold_status s = ACTIVE) (conflict ''hold is not ACTIVE''),
      Check (hold_hold_id s |\<in>| hold_active_hold_ids s) (conflict ''hold is absent from active retention set''),
      Check (hold_expires_ms s \<noteq> None) (conflict ''legal/non-expiring hold cannot expire''),
      Check (hold_due_indexed s) (conflict ''hold due index membership is missing''),
      Check (hold_due_score_ms s = hold_expires_ms s) (conflict ''hold due score changed''),
      Check (server_now_ms \<ge> ereq_observed_expires_ms q) (conflict ''hold is not due''),
      Check (cand_issued_at_ms c \<le> server_now_ms) (conflict ''candidate lease is not active yet''),
      Check (server_now_ms < cand_lease_until_ms c) (conflict ''candidate lease expired''),
      Check (cand_owner_principal_id c = principal_id)
        (conflict ''authenticated reaper principal is not candidate owner''),
      Check (cand_owner_instance_id c = instance_id)
        (conflict ''authenticated reaper instance is not candidate owner''),
      Check (cand_candidate_fencing_token c = fence)
        (conflict ''authenticated reaper fence does not match candidate''),
      Check (ereq_artifact_id q = hold_artifact_id s \<and> hold_artifact_id s = cand_artifact_id c)
        (conflict ''artifact_id mismatch''),
      Check (ereq_hold_id q = hold_hold_id s \<and> hold_hold_id s = cand_hold_id c) (conflict ''hold_id mismatch''),
      Check (ereq_expected_hold_digest q = hold_hold_digest s \<and> hold_hold_digest s = cand_expected_hold_digest c)
        (conflict ''hold digest changed''),
      Check (ereq_expected_artifact_version q = hold_artifact_version s
             \<and> hold_artifact_version s = cand_expected_artifact_version c) (conflict ''artifact version changed''),
      Check (Some (ereq_observed_expires_ms q) = hold_expires_ms s
             \<and> hold_expires_ms s = Some (cand_observed_expires_ms c)) (conflict ''expiry due tuple changed''),
      Check (ereq_scan_operation_id q = cand_scan_operation_id c) (conflict ''scan operation mismatch''),
      Check (ereq_candidate_lease_id q = cand_candidate_lease_id c) (conflict ''candidate lease ID mismatch''),
      Check (ereq_candidate_fencing_token q = cand_candidate_fencing_token c) (conflict ''candidate fence mismatch''),
      Check (ereq_candidate_token q = cand_candidate_token c) (conflict ''candidate token mismatch'')]"

text \<open>The guards \<open>_project_artifact_hold_expiry\<close> and \<open>apply_artifact_hold_expiry\<close> open with.\<close>

definition expiry_caller_checks :: "(json \<Rightarrow> bytes option) \<Rightarrow> ArtifactHoldExpiryRequest \<Rightarrow> int \<Rightarrow> caller \<Rightarrow> int \<Rightarrow> check list" where
  "expiry_caller_checks dumps q server_now_ms who fence =
     expiry_request_checks dumps q @
     require_integer server_now_ms ''server_now_ms'' 0 @
     require_stable_text (cal_principal who) ''authenticated reaper principal'' @
     require_stable_text (cal_instance who) ''authenticated reaper instance'' @
     require_integer fence ''authenticated reaper fencing token'' 1 @
     require_stable_text (cal_component_type who) ''authenticated component type'' @
     require_stable_text (cal_subject who) ''authenticated subject'' @
     [Check (cal_component_type who = REAPER_COMPONENT_TYPE)
        (conflict ''only artifact-hold-reaper may submit hold expiry''),
      Check (cal_subject who = EXPIRY_SUBJECT) (conflict ''hold expiry used a forbidden subject'')]"

definition expired_hold :: "ArtifactHoldState \<Rightarrow> ArtifactHoldState" where
  "expired_hold s = \<lparr> hold_artifact_id = hold_artifact_id s,
     hold_artifact_version = hold_artifact_version s + 1, hold_artifact_status = hold_artifact_status s,
     hold_hold_id = hold_hold_id s, hold_hold_digest = hold_hold_digest s, hold_hold_status = EXPIRED,
     hold_expires_ms = hold_expires_ms s,
     hold_active_hold_ids = hold_active_hold_ids s |-| {| hold_hold_id s |},
     hold_active_ref_count = hold_active_ref_count s,
     hold_minimum_delete_at_ms = hold_minimum_delete_at_ms s, hold_due_indexed = False,
     hold_due_score_ms = None, hold_candidate = None \<rparr>"

definition project_artifact_hold_expiry ::
    "(json \<Rightarrow> bytes option) \<Rightarrow> ArtifactHoldExpiryRequest \<Rightarrow> ArtifactHoldState \<Rightarrow> int \<Rightarrow> caller \<Rightarrow> int
     \<Rightarrow> (ArtifactHoldState \<times> ArtifactHoldExpiryResult \<times> ArtifactHoldExpiryCommit) result" where
  "project_artifact_hold_expiry dumps q s server_now_ms who fence =
     checked (expiry_caller_checks dumps q server_now_ms who fence @ hold_state_checks dumps s)
     (case hold_candidate s of None \<Rightarrow> Inl (conflict ''expiry candidate ledger is missing'')
      | Some c \<Rightarrow>
        checked (require_expiry_predicate dumps q s c server_now_ms (cal_principal who) (cal_instance who) fence)
        (let updated = expired_hold s in
         checked (hold_state_checks dumps updated)
         (bindE (retention_locked_at updated server_now_ms) (\<lambda>retention_locked.
          bindE (expiry_result_create dumps (ereq_expire_operation_id q) (hold_artifact_id s) (hold_hold_id s)
              (ereq_request_digest q) (hold_artifact_version updated) retention_locked) (\<lambda>result.
          bindE (commit_create dumps q result s updated server_now_ms) (\<lambda>commit.
            Inr (updated, result, commit)))))))"

definition apply_artifact_hold_expiry ::
    "(json \<Rightarrow> bytes option) \<Rightarrow> ArtifactHoldExpiryRequest \<Rightarrow> ArtifactHoldExpiryCASState \<Rightarrow> int \<Rightarrow> caller \<Rightarrow> int
     \<Rightarrow> (ArtifactHoldExpiryCASState \<times> ArtifactHoldExpiryResult) result" where
  "apply_artifact_hold_expiry dumps q st server_now_ms who fence =
     (let s = cas_hold_state st; l = cas_candidate_ledger st in
     checked (expiry_caller_checks dumps q server_now_ms who fence @ cas_checks dumps st)
     (bindE (commit_for st (ereq_expire_operation_id q)) (\<lambda>committed.
      case committed of
        Some k \<Rightarrow>
          bindE (require_replay_authority dumps l q (cal_principal who) (cal_instance who) fence server_now_ms)
            (\<lambda>verified.
          bindE (validate_result_for_request dumps k q (cal_principal who) fence (cal_component_type who)
                   (cal_subject who) (Some verified)) (\<lambda>result.
          checked
            [Check (\<not> (hold_artifact_id s \<noteq> ereq_artifact_id q \<or> hold_hold_id s \<noteq> ereq_hold_id q))
               (conflict ''committed expiry cannot replay for a different current resource''),
             Check (hold_hold_digest s = com_expected_hold_digest k)
               (conflict ''committed expiry cannot replay for a different hold incarnation''),
             Check (\<not> hold_artifact_version s < eres_artifact_version result)
               (conflict ''current artifact version predates the committed expiry'')]
            (Inr (st, result))))
      | None \<Rightarrow>
          bindE (candidate_entry_for l (ereq_candidate_lease_id q)) (\<lambda>entry.
          checked
            [Check (\<not> ent_consumed entry) (conflict ''candidate authority was already consumed''),
             Check (hold_candidate s = Some (ent_candidate entry))
               (conflict ''current candidate projection is not authoritative'')]
          (bindE (project_artifact_hold_expiry dumps q s server_now_ms who fence) (\<lambda>(updated_hold, result, commit).
           bindE (consume_candidate dumps l q server_now_ms) (\<lambda>updated_ledger.
           bindE (event_create dumps AUDIT commit) (\<lambda>audit_record.
           bindE (event_create dumps OUTBOX commit) (\<lambda>outbox_record.
           let updated = st \<lparr> cas_hold_state := updated_hold, cas_candidate_ledger := updated_ledger,
                 cas_commits := cas_commits st @ [commit],
                 cas_audit_records := cas_audit_records st @ [audit_record],
                 cas_outbox_records := cas_outbox_records st @ [outbox_record] \<rparr>
           in checked (cas_checks dumps updated) (Inr (updated, result)))))))))))"

end
