(* ===== verification/LedgerFacts.thy ===== *)
theory LedgerFacts
  imports HoldLedger
begin

text \<open>
  What \<open>ArtifactHoldExpiryLedgerState.validate\<close> amounts to: each loop of \<open>ledger_checks\<close> as a
  statement on lists (distinct identifiers, matching sets, strictly increasing fences), so that the
  recording operations can be proved to keep a ledger valid.
\<close>

section \<open>The loops\<close>

lemma lease_dup_iff:
  "all_ok (lease_dup_checks seen cs) \<longleftrightarrow> distinct (lease_ids cs) \<and> set (lease_ids cs) \<inter> set seen = {}"
  by (induction cs arbitrary: seen) auto

lemma scan_evidence_Cons:
  "scan_evidence ((q, r) # ps) = map (\<lambda>c. (cand_candidate_lease_id c, q, r, c)) (sres_candidates r) @ scan_evidence ps"
  by (simp add: scan_evidence_def)

lemma scan_evidence_append: "scan_evidence (ps @ qs) = scan_evidence ps @ scan_evidence qs"
  by (simp add: scan_evidence_def)

lemma scan_evidence_Nil [simp]: "scan_evidence [] = []"
  by (simp add: scan_evidence_def)

lemma set_scan_evidence:
  "(l, q, r, c) \<in> set (scan_evidence ps) \<longleftrightarrow>
     (q, r) \<in> set ps \<and> c \<in> set (sres_candidates r) \<and> l = cand_candidate_lease_id c"
  by (auto simp: scan_evidence_def)

lemma evidence_leases:
  "map fst (scan_evidence ps) = concat (map (\<lambda>(q, r). lease_ids (sres_candidates r)) ps)"
  by (induction ps) (auto simp: scan_evidence_Cons)

definition scans_ok :: "(json \<Rightarrow> bytes option) \<Rightarrow> scan_pair list \<Rightarrow> bool" where
  "scans_ok dumps ps \<longleftrightarrow> (\<forall>p \<in> set ps. all_ok (scan_result_checks_for dumps (snd p) (fst p))) \<and>
     distinct (map (sreq_scan_operation_id \<circ> fst) ps) \<and> distinct (map fst (scan_evidence ps))"

lemma disjoint_Un: "A \<inter> (B \<union> C) = {} \<longleftrightarrow> A \<inter> B = {} \<and> A \<inter> C = {}" "(A \<union> B) \<inter> C = {} \<longleftrightarrow> A \<inter> C = {} \<and> B \<inter> C = {}"
  by auto

lemma disjoint_insert: "A \<inter> insert x B = {} \<longleftrightarrow> x \<notin> A \<and> A \<inter> B = {}" "insert x A \<inter> B = {} \<longleftrightarrow> x \<notin> B \<and> A \<inter> B = {}"
  by auto

lemma ball_insert: "(\<forall>x \<in> insert a A. P x) \<longleftrightarrow> P a \<and> (\<forall>x \<in> A. P x)"
  by simp

lemma scan_loop_iff:
  "all_ok (scan_loop_checks dumps ids leases ps) \<longleftrightarrow> scans_ok dumps ps \<and>
     set (map (sreq_scan_operation_id \<circ> fst) ps) \<inter> set ids = {} \<and>
     set (map fst (scan_evidence ps)) \<inter> set leases = {}"
proof (induction dumps ids leases ps rule: scan_loop_checks.induct)
  case (1 dumps ids leases)
  then show ?case by (simp add: scans_ok_def)
next
  case (2 dumps ids leases q r ps)
  have ev: "map fst (scan_evidence ((q, r) # ps)) = lease_ids (sres_candidates r) @ map fst (scan_evidence ps)"
    by (simp add: scan_evidence_Cons)
  show ?case
    unfolding scans_ok_def scan_loop_checks.simps all_ok_append lease_dup_iff 2 list.map set_simps distinct.simps
      fst_conv snd_conv o_apply all_ok.simps ev set_append distinct_append disjoint_Un disjoint_insert ball_insert
    by (simp only: Int_commute) argo
qed

lemma authority_loop_iff:
  "all_ok (authority_loop_checks seen as) \<longleftrightarrow> (\<forall>a \<in> set as. all_ok (scan_authority_checks a)) \<and>
     distinct (map sauth_candidate_lease_id as) \<and> set (map sauth_candidate_lease_id as) \<inter> set seen = {}"
  by (induction seen as rule: authority_loop_checks.induct) auto

lemma allocation_loop_iff:
  "all_ok (allocation_loop_checks dumps seen as) \<longleftrightarrow> (\<forall>a \<in> set as. all_ok (scan_allocation_checks dumps a)) \<and>
     distinct (map alloc_lease as) \<and> set (map alloc_lease as) \<inter> set seen = {}"
  by (induction dumps seen as rule: allocation_loop_checks.induct) auto

lemma replay_loop_iff:
  "all_ok (replay_loop_checks dumps ids scan_ids ps) \<longleftrightarrow>
     (\<forall>p \<in> set ps. all_ok (replay_claim_result_checks_for dumps (snd p) (fst p))) \<and>
     distinct (map (rreq_replay_operation_id \<circ> fst) ps) \<and>
     set (map (rreq_replay_operation_id \<circ> fst) ps) \<inter> (set ids \<union> set scan_ids) = {}"
  by (induction dumps ids scan_ids ps rule: replay_loop_checks.induct) auto

lemma current_loop_iff:
  "all_ok (current_loop_checks seen as) \<longleftrightarrow> (\<forall>a \<in> set as. all_ok (replay_current_checks a)) \<and>
     distinct (map rcur_expire_operation_id as) \<and> set (map rcur_expire_operation_id as) \<inter> set seen = {}"
  by (induction seen as rule: current_loop_checks.induct) auto

section \<open>Entries\<close>

definition entry_fence :: "ArtifactHoldExpiryCandidateLedgerEntry \<Rightarrow> int" where
  "entry_fence e = cand_candidate_fencing_token (ent_candidate e)"

definition entry_tokens :: "ArtifactHoldExpiryCandidateLedgerEntry list \<Rightarrow> ustr list" where
  "entry_tokens es = concat (map (\<lambda>e. [cand_candidate_lease_id (ent_candidate e),
     cand_candidate_token (ent_candidate e)]) es)"

lemma authority_tokens_eq: "authority_tokens l = entry_tokens (led_candidate_entries l)"
  by (simp add: authority_tokens_def entry_tokens_def)

lemma entry_tokens_simps [simp]:
  "entry_tokens [] = []"
  "entry_tokens (e # es) = cand_candidate_lease_id (ent_candidate e) # cand_candidate_token (ent_candidate e) # entry_tokens es"
  "entry_tokens (es @ fs) = entry_tokens es @ entry_tokens fs"
  by (simp_all add: entry_tokens_def)

definition entries_ok ::
    "(json \<Rightarrow> bytes option) \<Rightarrow> int \<Rightarrow> ArtifactHoldExpiryCandidateLedgerEntry list \<Rightarrow> bool" where
  "entries_ok dumps hw es \<longleftrightarrow> (\<forall>e \<in> set es. all_ok (entry_checks dumps e) \<and> entry_fence e \<le> hw) \<and>
     sorted_wrt (<) (map entry_fence es) \<and> distinct (entry_tokens es)"

lemma entry_loop_iff:
  "(\<forall>f \<in> set fences. f \<le> p) \<Longrightarrow> all_ok (entry_loop_checks dumps hw p tokens fences es) \<longleftrightarrow>
     entries_ok dumps hw es \<and> (\<forall>e \<in> set es. p < entry_fence e) \<and> set (entry_tokens es) \<inter> set tokens = {}"
proof (induction dumps hw p tokens fences es rule: entry_loop_checks.induct)
  case (1 dumps hw p tokens fences)
  then show ?case by (simp add: entries_ok_def)
next
  case (2 dumps hw p tokens fences e es)
  let ?f = "entry_fence e"
  have IH: "p < ?f \<Longrightarrow> all_ok (entry_loop_checks dumps hw ?f (cand_candidate_token (ent_candidate e) #
      cand_candidate_lease_id (ent_candidate e) # tokens) (?f # fences) es) \<longleftrightarrow>
    entries_ok dumps hw es \<and> (\<forall>e' \<in> set es. ?f < entry_fence e') \<and> set (entry_tokens es) \<inter>
      set (cand_candidate_token (ent_candidate e) # cand_candidate_lease_id (ent_candidate e) # tokens) = {}"
    using 2(1) [OF refl] 2(2) unfolding entry_fence_def by fastforce
  show ?case
  proof (cases "p < ?f")
    case True
    have "?f \<notin> set fences" using 2(2) True by auto
    moreover have "(\<forall>e' \<in> set es. ?f < entry_fence e') \<Longrightarrow> \<forall>e' \<in> set es. p < entry_fence e'"
      using True by fastforce
    ultimately show ?thesis using True IH unfolding entries_ok_def
      by (auto simp: entry_fence_def [symmetric] Let_def)
  next
    case False
    then show ?thesis by (simp add: Let_def entry_fence_def)
  qed
qed

lemma entry_fences_positive:
  "all_ok (entry_checks dumps e) \<Longrightarrow> 0 < entry_fence e"
  by (auto simp: entry_checks_def entry_fence_def candidate_iff candidate_fields_ok_def int_from_def)

lemma entries_distinct: "entries_ok dumps hw es \<Longrightarrow> distinct (map (cand_candidate_lease_id \<circ> ent_candidate) es)"
proof -
  have "distinct (entry_tokens es) \<Longrightarrow> distinct (map (cand_candidate_lease_id \<circ> ent_candidate) es) \<and>
      set (map (cand_candidate_lease_id \<circ> ent_candidate) es) \<subseteq> set (entry_tokens es)"
    by (induction es) auto
  then show "entries_ok dumps hw es \<Longrightarrow> ?thesis" by (simp add: entries_ok_def)
qed

section \<open>Seals, proofs and pointers\<close>

lemma map_of_key:
  "distinct (map f xs) \<Longrightarrow> map_of (map (\<lambda>a. (f a, a)) xs) k = Some a \<longleftrightarrow> a \<in> set xs \<and> f a = k"
  by (subst map_of_eq_Some_iff) (auto simp: o_def)

definition authorities_ok :: "ArtifactHoldExpiryScanAuthority list \<Rightarrow> scan_pair list \<Rightarrow> bool" where
  "authorities_ok as ps \<longleftrightarrow> distinct (map sauth_candidate_lease_id as) \<and>
     set as = (\<lambda>(l, q, r, c). authority_of q r c) ` set (scan_evidence ps)"

lemma authority_of_lease [simp]: "sauth_candidate_lease_id (authority_of q r c) = cand_candidate_lease_id c"
  by (simp add: authority_of_def)

lemma authority_of_valid:
  assumes "all_ok (scan_result_checks_for dumps r q)" and "c \<in> set (sres_candidates r)"
  shows "all_ok (scan_authority_checks (authority_of q r c))"
proof -
  have "all_ok (scan_authority_checks_against dumps (authority_of q r c) q r c)"
    using assms by (simp add: scan_authority_against_iff)
  then show ?thesis by (simp add: scan_authority_checks_against_def)
qed

lemma authorities_iff:
  assumes "scans_ok dumps ps"
  shows "all_ok (authority_loop_checks [] as) \<and> all_ok (authority_evidence_checks dumps as (scan_evidence ps))
    \<longleftrightarrow> authorities_ok as ps"
proof
  let ?m = "map_of (map (\<lambda>a. (sauth_candidate_lease_id a, a)) as)"
  assume l: "all_ok (authority_loop_checks [] as) \<and> all_ok (authority_evidence_checks dumps as (scan_evidence ps))"
  then have d: "distinct (map sauth_candidate_lease_id as)" by (simp add: authority_loop_iff)
  have leases: "sauth_candidate_lease_id ` set as = fst ` set (scan_evidence ps)"
    using l by (simp add: authority_evidence_checks_def)
  have ev: "?m l = Some (authority_of q r c)" if "(l, q, r, c) \<in> set (scan_evidence ps)" for l q r c
    using l that by (fastforce simp: authority_evidence_checks_def scan_authority_against_iff split: option.splits)
  show "authorities_ok as ps" unfolding authorities_ok_def
  proof (intro conjI d equalityI subsetI)
    fix a assume a: "a \<in> set as"
    then obtain l q r c where e: "(l, q, r, c) \<in> set (scan_evidence ps)" "sauth_candidate_lease_id a = l"
      using leases by (metis (no_types, lifting) image_iff prod.collapse)
    then have "a = authority_of q r c" using a d ev [OF e(1)] map_of_key [OF d, of l a] by simp
    with e show "a \<in> (\<lambda>(l, q, r, c). authority_of q r c) ` set (scan_evidence ps)" by force
  next
    fix a assume "a \<in> (\<lambda>(l, q, r, c). authority_of q r c) ` set (scan_evidence ps)"
    then show "a \<in> set as" using ev map_of_key [OF d] by auto
  qed
next
  assume a: "authorities_ok as ps"
  then have d: "distinct (map sauth_candidate_lease_id as)" by (simp add: authorities_ok_def)
  have ok: "all_ok (scan_result_checks_for dumps r q)" if "(q, r) \<in> set ps" for q r
    using assms that by (auto simp: scans_ok_def)
  have mem: "authority_of q r c \<in> set as" if "(l, q, r, c) \<in> set (scan_evidence ps)" for l q r c
    using a that by (force simp: authorities_ok_def)
  have "all_ok (authority_loop_checks [] as)"
    using a ok authority_of_valid by (fastforce simp: authorities_ok_def authority_loop_iff set_scan_evidence)
  moreover have "sauth_candidate_lease_id ` set as = fst ` set (scan_evidence ps)"
    using a by (force simp: authorities_ok_def image_image set_scan_evidence)
  moreover have "map_of (map (\<lambda>a. (sauth_candidate_lease_id a, a)) as) l = Some (authority_of q r c)"
    if "(l, q, r, c) \<in> set (scan_evidence ps)" for l q r c
    using that mem map_of_key [OF d] by (simp add: set_scan_evidence)
  ultimately show "all_ok (authority_loop_checks [] as) \<and> all_ok (authority_evidence_checks dumps as (scan_evidence ps))"
    using ok by (auto simp: authority_evidence_checks_def scan_authority_against_iff set_scan_evidence)
qed

definition allocations_ok ::
    "(json \<Rightarrow> bytes option) \<Rightarrow> ArtifactHoldExpiryScanAllocation list \<Rightarrow> scan_pair list \<Rightarrow> bool" where
  "allocations_ok dumps as ps \<longleftrightarrow> (\<forall>a \<in> set as. all_ok (scan_allocation_checks dumps a)) \<and>
     distinct (map alloc_lease as) \<and>
     (\<lambda>a. (salloc_request a, salloc_candidate a)) ` set as = (\<lambda>(l, q, r, c). (q, c)) ` set (scan_evidence ps)"

lemma allocation_against_iff:
  "all_ok (scan_allocation_checks_against dumps a q c hw) \<longleftrightarrow> all_ok (scan_allocation_checks dumps a) \<and>
     salloc_request a = q \<and> salloc_candidate a = c \<and> salloc_previous_fence_high_water a = hw"
  by (auto simp: scan_allocation_checks_against_def)

lemma allocations_iff:
  "all_ok (allocation_loop_checks dumps [] as) \<and> all_ok (allocation_evidence_checks dumps as (scan_evidence ps))
    \<longleftrightarrow> allocations_ok dumps as ps"
proof
  let ?m = "map_of (map (\<lambda>a. (alloc_lease a, a)) as)"
  assume l: "all_ok (allocation_loop_checks dumps [] as) \<and>
    all_ok (allocation_evidence_checks dumps as (scan_evidence ps))"
  then have d: "distinct (map alloc_lease as)" and v: "\<forall>a \<in> set as. all_ok (scan_allocation_checks dumps a)"
    by (simp_all add: allocation_loop_iff)
  have leases: "alloc_lease ` set as = fst ` set (scan_evidence ps)"
    using l by (simp add: allocation_evidence_checks_def)
  have ev: "\<exists>a. ?m l = Some a \<and> salloc_request a = q \<and> salloc_candidate a = c"
    if "(l, q, r, c) \<in> set (scan_evidence ps)" for l q r c
    using l that by (fastforce simp: allocation_evidence_checks_def allocation_against_iff split: option.splits)
  show "allocations_ok dumps as ps" unfolding allocations_ok_def
  proof (intro conjI v d equalityI subsetI)
    fix x assume "x \<in> (\<lambda>a. (salloc_request a, salloc_candidate a)) ` set as"
    then obtain a where a: "a \<in> set as" "x = (salloc_request a, salloc_candidate a)" by blast
    then obtain l q r c where e: "(l, q, r, c) \<in> set (scan_evidence ps)" "alloc_lease a = l"
      using leases by (metis (no_types, lifting) image_iff prod.collapse)
    then have "salloc_request a = q" "salloc_candidate a = c"
      using a ev [OF e(1)] map_of_key [OF d, of l a] by auto
    with a e show "x \<in> (\<lambda>(l, q, r, c). (q, c)) ` set (scan_evidence ps)" by force
  next
    fix x assume "x \<in> (\<lambda>(l, q, r, c). (q, c)) ` set (scan_evidence ps)"
    then show "x \<in> (\<lambda>a. (salloc_request a, salloc_candidate a)) ` set as"
      using ev map_of_key [OF d] by (fastforce simp: image_iff)
  qed
next
  assume a: "allocations_ok dumps as ps"
  then have d: "distinct (map alloc_lease as)" by (simp add: allocations_ok_def)
  have mem: "\<exists>a \<in> set as. salloc_request a = q \<and> salloc_candidate a = c \<and> alloc_lease a = l"
    if "(l, q, r, c) \<in> set (scan_evidence ps)" for l q r c
  proof -
    have "(q, c) \<in> (\<lambda>a. (salloc_request a, salloc_candidate a)) ` set as"
      using a that by (force simp: allocations_ok_def)
    then show ?thesis using that by (auto simp: alloc_lease_def set_scan_evidence)
  qed
  have "alloc_lease ` set as = fst ` set (scan_evidence ps)"
  proof -
    have "alloc_lease ` set as = (\<lambda>x. cand_candidate_lease_id (snd x)) ` (\<lambda>a. (salloc_request a, salloc_candidate a)) ` set as"
      by (simp add: image_image alloc_lease_def)
    also have "\<dots> = (\<lambda>x. cand_candidate_lease_id (snd x)) ` (\<lambda>(l, q, r, c). (q, c)) ` set (scan_evidence ps)"
      using a by (simp only: allocations_ok_def)
    also have "\<dots> = fst ` set (scan_evidence ps)"
      unfolding image_image by (rule image_cong [OF refl]) (auto simp: set_scan_evidence)
    finally show ?thesis .
  qed
  moreover have "all_ok (case map_of (map (\<lambda>a. (alloc_lease a, a)) as) l of None \<Rightarrow> [Check False KeyError]
      | Some a \<Rightarrow> scan_allocation_checks_against dumps a q c (salloc_previous_fence_high_water a))"
    if e: "(l, q, r, c) \<in> set (scan_evidence ps)" for l q r c
  proof -
    obtain b where b: "b \<in> set as" "salloc_request b = q" "salloc_candidate b = c" "alloc_lease b = l"
      using mem [OF e] by blast
    then have "map_of (map (\<lambda>a. (alloc_lease a, a)) as) l = Some b" using map_of_key [OF d] by blast
    with a b show ?thesis by (simp add: allocation_against_iff allocations_ok_def)
  qed
  ultimately have "all_ok (allocation_evidence_checks dumps as (scan_evidence ps))"
    unfolding allocation_evidence_checks_def by auto
  with a show "all_ok (allocation_loop_checks dumps [] as) \<and>
      all_ok (allocation_evidence_checks dumps as (scan_evidence ps))"
    by (simp add: allocations_ok_def allocation_loop_iff)
qed

end
