(* ===== verification/LedgerIff.thy ===== *)
theory LedgerIff
  imports LedgerFacts
begin

text \<open>
  The validation of a candidate ledger as one declarative invariant: \<open>ledger_ok\<close> collects what the loops of
  \<open>ArtifactHoldExpiryLedgerState.validate\<close> check, \<open>ledger_iff\<close> shows that they check exactly that, and the
  rest are the consequences the operations rest on.
\<close>

section \<open>Sorting by fence\<close>

lemma insort_key_last:
  "(\<forall>y \<in> set ys. f y < f c) \<Longrightarrow> insort_key f c ys = ys @ [c]" for f :: "'a \<Rightarrow> int"
  by (induction ys) auto

lemma insort_key_before_last:
  "f y < f c \<Longrightarrow> insort_key f y (ys @ [c]) = insort_key f y ys @ [c]" for f :: "'a \<Rightarrow> int"
  by (induction ys) auto

text \<open>A candidate with a fence above all others goes to the end, wherever it was recorded.\<close>

lemma sort_key_insert_max:
  "(\<forall>y \<in> set (xs @ ys). f y < f c) \<Longrightarrow> sort_key f (xs @ c # ys) = sort_key f (xs @ ys) @ [c]" for f :: "'a \<Rightarrow> int"
  by (induction xs) (simp_all add: insort_key_last insort_key_before_last)

section \<open>Replay claims\<close>

lemma lease_gap_iff:
  "all_ok (lease_gap_checks cs) \<longleftrightarrow> successively (\<lambda>p c. cand_lease_until_ms p \<le> cand_issued_at_ms c) cs"
  by (induction cs rule: lease_gap_checks.induct) auto

lemma set_replay_ops: "set (replay_ops ps) = (\<lambda>(q, r). rreq_expire_operation_id q) ` set ps"
  by (simp add: replay_ops_def)

lemma claims_of_empty_iff: "claims_of ps e = [] \<longleftrightarrow> e \<notin> set (replay_ops ps)"
  by (force simp: claims_of_def set_replay_ops filter_empty_conv)

lemma set_claims_of: "p \<in> set (claims_of ps e) \<longleftrightarrow> p \<in> set ps \<and> rreq_expire_operation_id (fst p) = e"
  by (auto simp: claims_of_def)

text \<open>The candidates handed out for one expire operation, in fence order.\<close>

definition claim_leases :: "replay_pair list \<Rightarrow> ustr \<Rightarrow> ArtifactHoldExpiryCandidate list" where
  "claim_leases ps e = sort_key cand_candidate_fencing_token (map (\<lambda>(q, r). rres_candidate r) (claims_of ps e))"

definition gaps_ok :: "replay_pair list \<Rightarrow> bool" where
  "gaps_ok ps \<longleftrightarrow> (\<forall>e. successively (\<lambda>p c. cand_lease_until_ms p \<le> cand_issued_at_ms c) (claim_leases ps e))"

lemma gaps_iff: "all_ok (replay_gap_checks ps) \<longleftrightarrow> gaps_ok ps"
proof -
  have "claim_leases ps e = []" if "e \<notin> set (replay_ops ps)" for e
    using that claims_of_empty_iff [of ps e] by (simp add: claim_leases_def)
  then show ?thesis
    by (auto simp: replay_gap_checks_def gaps_ok_def lease_gap_iff claim_leases_def [symmetric])
qed

text \<open>The claim the pointer of an expire operation must name.\<close>

definition latest_claim :: "replay_pair list \<Rightarrow> ustr \<Rightarrow> replay_pair" where
  "latest_claim ps e = last (sort_key claim_fence (claims_of ps e))"

definition pointer_of :: "replay_pair list \<Rightarrow> ustr \<Rightarrow> ArtifactHoldExpiryReplayCurrentAuthority" where
  "pointer_of ps e =
     current_of (fst (latest_claim ps e)) (snd (latest_claim ps e)) (int (length (claims_of ps e)))"

definition currents_ok :: "ArtifactHoldExpiryReplayCurrentAuthority list \<Rightarrow> replay_pair list \<Rightarrow> bool" where
  "currents_ok as ps \<longleftrightarrow> distinct (map rcur_expire_operation_id as) \<and>
     (\<forall>a \<in> set as. all_ok (replay_current_checks a)) \<and> set as = pointer_of ps ` set (replay_ops ps)"

lemma latest_claim_mem: "e \<in> set (replay_ops ps) \<Longrightarrow> latest_claim ps e \<in> set (claims_of ps e)"
proof -
  assume "e \<in> set (replay_ops ps)"
  then have "sort_key claim_fence (claims_of ps e) \<noteq> []"
    using claims_of_empty_iff [of ps e] by (metis set_sort set_empty)
  then show ?thesis unfolding latest_claim_def by (metis last_in_set set_sort)
qed

lemma pointer_op: "e \<in> set (replay_ops ps) \<Longrightarrow> rcur_expire_operation_id (pointer_of ps e) = e"
  using latest_claim_mem [of e ps] by (simp add: pointer_of_def current_of_def set_claims_of)

lemma current_revision_ok: "all_ok (replay_current_checks a) \<Longrightarrow> int_from 1 (rcur_revision a)"
  by (simp add: replay_current_checks_def)

lemma current_of_revision [simp]: "rcur_revision (current_of q r n) = n"
  by (simp add: current_of_def)

lemma current_claim_ok:
  assumes "all_ok (replay_claim_result_checks_for dumps r q)" and "all_ok (replay_current_checks a)"
  shows "all_ok (replay_current_checks_against dumps a q r @ [Check (rcur_revision a = n) e]) \<longleftrightarrow> a = current_of q r n"
  using assms current_revision_ok [OF assms(2)] by (auto simp: replay_current_against_iff)

lemma currents_iff:
  assumes "\<forall>p \<in> set ps. all_ok (replay_claim_result_checks_for dumps (snd p) (fst p))"
  shows "all_ok (current_loop_checks [] as) \<and> all_ok (current_claims_checks dumps as ps) \<longleftrightarrow> currents_ok as ps"
proof (cases "all_ok (current_loop_checks [] as)")
  case False
  then show ?thesis by (auto simp: current_loop_iff currents_ok_def)
next
  case True
  let ?m = "map_of (map (\<lambda>a. (rcur_expire_operation_id a, a)) as)"
  from True have d: "distinct (map rcur_expire_operation_id as)"
    and v: "\<forall>a \<in> set as. all_ok (replay_current_checks a)" by (simp_all add: current_loop_iff)
  have look: "all_ok (let claims = claims_of ps e; current = last (sort_key claim_fence claims) in
       case ?m e of None \<Rightarrow> [Check False KeyError]
       | Some a \<Rightarrow> replay_current_checks_against dumps a (fst current) (snd current) @
           [Check (rcur_revision a = int (length claims))
              (conflict ''replay current authority revision is not append-bound'')]) \<longleftrightarrow> pointer_of ps e \<in> set as"
    if e: "e \<in> set (replay_ops ps)" for e
  proof (cases "?m e")
    case None
    have "pointer_of ps e \<notin> set as"
    proof
      assume "pointer_of ps e \<in> set as"
      then have "?m e = Some (pointer_of ps e)" using map_of_key [OF d] pointer_op [OF e] by blast
      with None show False by simp
    qed
    with None show ?thesis by simp
  next
    case (Some a)
    then have a: "a \<in> set as" "rcur_expire_operation_id a = e" using map_of_key [OF d] by blast+
    have "all_ok (replay_claim_result_checks_for dumps (snd (latest_claim ps e)) (fst (latest_claim ps e)))"
      using assms latest_claim_mem [OF e] by (auto simp: claims_of_def)
    then have "all_ok (replay_current_checks_against dumps a (fst (latest_claim ps e)) (snd (latest_claim ps e)) @
        [Check (rcur_revision a = int (length (claims_of ps e)))
          (conflict ''replay current authority revision is not append-bound'')]) \<longleftrightarrow> a = pointer_of ps e"
      unfolding pointer_of_def by (rule current_claim_ok) (use v a in simp)
    moreover have "a = pointer_of ps e \<longleftrightarrow> pointer_of ps e \<in> set as"
      using a pointer_op [OF e] map_of_key [OF d, of e "pointer_of ps e"] Some by auto
    ultimately show ?thesis using Some by (simp add: Let_def latest_claim_def)
  qed
  have "all_ok (current_claims_checks dumps as ps) \<longleftrightarrow>
      rcur_expire_operation_id ` set as = set (replay_ops ps) \<and> (\<forall>e \<in> set (replay_ops ps). pointer_of ps e \<in> set as)"
    unfolding current_claims_checks_def using look by simp
  also have "\<dots> \<longleftrightarrow> set as = pointer_of ps ` set (replay_ops ps)"
  proof (intro iffI conjI)
    assume h: "rcur_expire_operation_id ` set as = set (replay_ops ps) \<and> (\<forall>e \<in> set (replay_ops ps). pointer_of ps e \<in> set as)"
    have "a = pointer_of ps (rcur_expire_operation_id a)" if "a \<in> set as" for a
    proof -
      have e: "rcur_expire_operation_id a \<in> set (replay_ops ps)" using h that by blast
      then show ?thesis using h that pointer_op [OF e] d by (metis distinct_map inj_on_def)
    qed
    with h show "set as = pointer_of ps ` set (replay_ops ps)" by blast
  qed (auto simp: pointer_op image_image)
  finally show ?thesis using True d v by (simp add: currents_ok_def)
qed

section \<open>Provenance\<close>

definition provenance_ok :: "ArtifactHoldExpiryScanAllocation list \<Rightarrow> ArtifactHoldExpiryCandidate list \<Rightarrow> bool" where
  "provenance_ok as cs \<longleftrightarrow> (\<forall>a \<in> set as.
     previous_fence_of (salloc_candidate a) 0 cs = Some (salloc_previous_fence_high_water a))"

lemma provenance_iff: "all_ok (provenance_checks as cs) \<longleftrightarrow> provenance_ok as cs"
  by (auto simp: provenance_checks_def provenance_ok_def split: option.splits)

lemma previous_fence_append:
  "c \<in> set cs \<Longrightarrow> previous_fence_of c f (cs @ ds) = previous_fence_of c f cs"
  by (induction cs arbitrary: f) auto

lemma previous_fence_snoc:
  "c \<notin> set cs \<Longrightarrow> previous_fence_of c f (cs @ [c]) =
     Some (if cs = [] then f else cand_candidate_fencing_token (last cs))"
  by (induction cs arbitrary: f) auto

lemma previous_fence_mem: "previous_fence_of c f cs = Some g \<Longrightarrow> c \<in> set cs"
  by (induction cs arbitrary: f) (auto split: if_splits)

section \<open>The whole ledger\<close>

definition replays_ok :: "(json \<Rightarrow> bytes option) \<Rightarrow> ustr list \<Rightarrow> replay_pair list \<Rightarrow> bool" where
  "replays_ok dumps scan_ids ps \<longleftrightarrow>
     (\<forall>p \<in> set ps. all_ok (replay_claim_result_checks_for dumps (snd p) (fst p))) \<and>
     distinct (map (rreq_replay_operation_id \<circ> fst) ps) \<and>
     set (map (rreq_replay_operation_id \<circ> fst) ps) \<inter> set scan_ids = {}"

definition ledger_ok :: "(json \<Rightarrow> bytes option) \<Rightarrow> ArtifactHoldExpiryLedgerState \<Rightarrow> bool" where
  "ledger_ok dumps l \<longleftrightarrow> int_from 0 (led_candidate_fence_high_water l) \<and>
     length (led_scan_requests l) = length (led_scan_results l) \<and>
     length (led_replay_claim_requests l) = length (led_replay_claim_results l) \<and>
     scans_ok dumps (scan_pairs l) \<and> authorities_ok (led_scan_authorities l) (scan_pairs l) \<and>
     allocations_ok dumps (led_scan_allocations l) (scan_pairs l) \<and>
     replays_ok dumps (map sreq_scan_operation_id (led_scan_requests l)) (replay_pairs l) \<and>
     gaps_ok (replay_pairs l) \<and> currents_ok (led_replay_current_authorities l) (replay_pairs l) \<and>
     entries_ok dumps (led_candidate_fence_high_water l) (led_candidate_entries l) \<and>
     provenance_ok (led_scan_allocations l) (entry_candidates l) \<and>
     entry_candidates l = sort_key cand_candidate_fencing_token (persisted_candidates l)"

lemma entries_iff: "all_ok (entry_loop_checks dumps hw 0 [] [] es) \<longleftrightarrow> entries_ok dumps hw es"
  using entry_fences_positive by (auto simp: entry_loop_iff entries_ok_def)

theorem ledger_iff: "all_ok (ledger_checks dumps l) \<longleftrightarrow> ledger_ok dumps l"
proof -
  have s: "all_ok (scan_loop_checks dumps [] [] ps) \<longleftrightarrow> scans_ok dumps ps" for ps by (simp add: scan_loop_iff)
  have r: "all_ok (replay_loop_checks dumps [] ids ps) \<longleftrightarrow> replays_ok dumps ids ps" for ids ps
    by (simp add: replay_loop_iff replays_ok_def)
  have c: "replays_ok dumps ids ps \<Longrightarrow> all_ok (current_loop_checks [] as) \<and> all_ok (current_claims_checks dumps as ps)
      \<longleftrightarrow> currents_ok as ps" for ids ps as
    by (rule currents_iff) (simp add: replays_ok_def)
  show ?thesis unfolding ledger_checks_def ledger_ok_def all_ok_append s r gaps_iff entries_iff provenance_iff
      ok_require_integer all_ok.simps
    using authorities_iff [of dumps "scan_pairs l" "led_scan_authorities l"]
      allocations_iff [of dumps "led_scan_allocations l" "scan_pairs l"]
      c [of "map sreq_scan_operation_id (led_scan_requests l)" "replay_pairs l" "led_replay_current_authorities l"]
    by argo
qed

subsection \<open>Consequences\<close>

lemma ledger_okD:
  assumes "ledger_ok dumps l"
  shows "entries_ok dumps (led_candidate_fence_high_water l) (led_candidate_entries l)"
    and "provenance_ok (led_scan_allocations l) (entry_candidates l)"
    and "entry_candidates l = sort_key cand_candidate_fencing_token (persisted_candidates l)"
    and "replays_ok dumps (map sreq_scan_operation_id (led_scan_requests l)) (replay_pairs l)"
    and "scans_ok dumps (scan_pairs l)" and "currents_ok (led_replay_current_authorities l) (replay_pairs l)"
  using assms unfolding ledger_ok_def by blast+

lemma snd_zip_map: "length xs = length ys \<Longrightarrow> map (\<lambda>(x, y). f y) (zip xs ys) = map f ys"
  by (induction xs ys rule: list_induct2) auto

lemma persisted_alt:
  assumes "ledger_ok dumps l"
  shows "persisted_candidates l = concat (map (\<lambda>(q, r). sres_candidates r) (scan_pairs l)) @
    map (\<lambda>(q, r). rres_candidate r) (replay_pairs l)"
  using assms by (simp add: ledger_ok_def persisted_candidates_def scan_pairs_def replay_pairs_def snd_zip_map)

lemma set_entry_candidates: "ledger_ok dumps l \<Longrightarrow> set (entry_candidates l) = set (persisted_candidates l)"
  by (metis ledger_okD(3) set_sort)

lemma entry_candidates_fences: "map cand_candidate_fencing_token (entry_candidates l) = map entry_fence (led_candidate_entries l)"
  by (simp add: entry_candidates_def entry_fence_def)

lemma entry_candidates_sorted:
  "ledger_ok dumps l \<Longrightarrow> sorted_wrt (<) (map cand_candidate_fencing_token (entry_candidates l))"
  using ledger_okD(1) [of dumps l] unfolding entry_candidates_fences by (simp add: entries_ok_def)

lemma entry_candidates_distinct: "ledger_ok dumps l \<Longrightarrow> distinct (entry_candidates l)"
  by (metis distinct_map entry_candidates_sorted sorted_wrt_less_distinct)

lemma persisted_distinct: "ledger_ok dumps l \<Longrightarrow> distinct (persisted_candidates l)"
  by (metis distinct_sort entry_candidates_distinct ledger_okD(3))

lemma candidate_fence_bound:
  "ledger_ok dumps l \<Longrightarrow> c \<in> set (entry_candidates l) \<Longrightarrow>
     cand_candidate_fencing_token c \<le> led_candidate_fence_high_water l"
  using ledger_okD(1) [of dumps l] by (auto simp: entries_ok_def entry_candidates_def entry_fence_def)

lemma entry_candidate_valid:
  "ledger_ok dumps l \<Longrightarrow> c \<in> set (entry_candidates l) \<Longrightarrow> all_ok (candidate_checks dumps c)"
  using ledger_okD(1) [of dumps l] by (auto simp: entries_ok_def entry_candidates_def entry_checks_def)

lemma entry_leases: "cand_candidate_lease_id (ent_candidate e) \<in> set (entry_tokens es)" if "e \<in> set es"
  using that by (induction es) auto

lemma evidence_in_entries:
  "ledger_ok dumps l \<Longrightarrow> (i, q, r, c) \<in> set (scan_evidence (scan_pairs l)) \<Longrightarrow> c \<in> set (entry_candidates l)"
  using set_entry_candidates [of dumps l] persisted_alt [of dumps l] by (fastforce simp: set_scan_evidence)

lemma replay_in_entries:
  "ledger_ok dumps l \<Longrightarrow> (q, r) \<in> set (replay_pairs l) \<Longrightarrow> rres_candidate r \<in> set (entry_candidates l)"
  using set_entry_candidates [of dumps l] persisted_alt [of dumps l] by fastforce

lemma allocation_in_entries:
  "ledger_ok dumps l \<Longrightarrow> a \<in> set (led_scan_allocations l) \<Longrightarrow> salloc_candidate a \<in> set (entry_candidates l)"
  using ledger_okD(2) [of dumps l] by (auto simp: provenance_ok_def dest: previous_fence_mem)

lemma entry_lease_unique:
  assumes "ledger_ok dumps l" and "e \<in> set (led_candidate_entries l)"
  shows "filter (\<lambda>x. cand_candidate_lease_id (ent_candidate x) = cand_candidate_lease_id (ent_candidate e))
    (led_candidate_entries l) = [e]"
  using distinct_filter_key [of "cand_candidate_lease_id \<circ> ent_candidate" "led_candidate_entries l" e] assms
    entries_distinct [OF ledger_okD(1) [OF assms(1)]]
  by simp

lemma candidate_entry_for_iff:
  assumes "ledger_ok dumps l"
  shows "candidate_entry_for l i = Inr e \<longleftrightarrow>
    e \<in> set (led_candidate_entries l) \<and> cand_candidate_lease_id (ent_candidate e) = i"
proof
  assume "candidate_entry_for l i = Inr e"
  then have "filter (\<lambda>x. cand_candidate_lease_id (ent_candidate x) = i) (led_candidate_entries l) = [e]"
    by (auto simp: candidate_entry_for_def split: option.splits)
  then have "e \<in> set (filter (\<lambda>x. cand_candidate_lease_id (ent_candidate x) = i) (led_candidate_entries l))" by simp
  then show "e \<in> set (led_candidate_entries l) \<and> cand_candidate_lease_id (ent_candidate e) = i" by simp
next
  assume e: "e \<in> set (led_candidate_entries l) \<and> cand_candidate_lease_id (ent_candidate e) = i"
  then have "all_ok (candidate_checks dumps (ent_candidate e))"
    using assms by (auto intro: entry_candidate_valid simp: entry_candidates_def)
  then have "canonical_token i" using e by (simp add: candidate_iff candidate_fields_ok_def)
  with e show "candidate_entry_for l i = Inr e"
    using entry_lease_unique [OF assms, of e] by (simp add: candidate_entry_for_def)
qed

lemma replay_candidates_distinct: "ledger_ok dumps l \<Longrightarrow> distinct (map (\<lambda>(q, r). rres_candidate r) (replay_pairs l))"
  using persisted_distinct [of dumps l] persisted_alt [of dumps l] by simp

lemma replay_claim_for_candidate_iff:
  assumes "ledger_ok dumps l"
  shows "replay_claim_for_candidate l c = Inr (Some p) \<longleftrightarrow> p \<in> set (replay_pairs l) \<and> rres_candidate (snd p) = c"
    and "replay_claim_for_candidate l c = Inr None \<longleftrightarrow> (\<forall>p \<in> set (replay_pairs l). rres_candidate (snd p) \<noteq> c)"
    and "\<exists>x. replay_claim_for_candidate l c = Inr x"
proof -
  let ?f = "filter (\<lambda>(q, r). rres_candidate r = c) (replay_pairs l)"
  have one: "?f = [p]" if "p \<in> set (replay_pairs l)" "rres_candidate (snd p) = c" for p
    using distinct_filter_key [OF replay_candidates_distinct [OF assms], of p] that by (simp add: case_prod_unfold)
  have none: "?f = [] \<longleftrightarrow> (\<forall>p \<in> set (replay_pairs l). rres_candidate (snd p) \<noteq> c)"
    by (auto simp: filter_empty_conv)
  have cases: "?f = [] \<or> (\<exists>p. ?f = [p])" using one none by blast
  have mem: "p \<in> set (replay_pairs l) \<and> rres_candidate (snd p) = c" if "?f = [p]" for p
  proof -
    have "p \<in> set ?f" using that by simp
    then show ?thesis by auto
  qed
  have eq: "replay_claim_for_candidate l c = (if ?f = [] then Inr None else Inr (Some (hd ?f)))"
    using cases by (auto simp: replay_claim_for_candidate_def)
  then show "\<exists>x. replay_claim_for_candidate l c = Inr x" by simp
  show "replay_claim_for_candidate l c = Inr None \<longleftrightarrow> (\<forall>p \<in> set (replay_pairs l). rres_candidate (snd p) \<noteq> c)"
    unfolding eq none [symmetric] by simp
  show "replay_claim_for_candidate l c = Inr (Some p) \<longleftrightarrow> p \<in> set (replay_pairs l) \<and> rres_candidate (snd p) = c"
  proof
    assume "replay_claim_for_candidate l c = Inr (Some p)"
    then have "?f \<noteq> []" "hd ?f = p" unfolding eq by (auto split: if_splits)
    with cases have "?f = [p]" by auto
    then show "p \<in> set (replay_pairs l) \<and> rres_candidate (snd p) = c" by (rule mem)
  next
    assume "p \<in> set (replay_pairs l) \<and> rres_candidate (snd p) = c"
    then have "?f = [p]" using one by blast
    then show "replay_claim_for_candidate l c = Inr (Some p)" unfolding eq by simp
  qed
qed

definition replayed :: "ArtifactHoldExpiryLedgerState \<Rightarrow> ArtifactHoldExpiryCandidate \<Rightarrow> bool" where
  "replayed l c \<longleftrightarrow> (\<exists>p \<in> set (replay_pairs l). rres_candidate (snd p) = c)"

lemma is_replay_candidate_eq:
  assumes "ledger_ok dumps l"
  shows "is_replay_candidate l c = Inr (replayed l c)"
proof -
  obtain x where x: "replay_claim_for_candidate l c = Inr x" using replay_claim_for_candidate_iff(3) [OF assms] by blast
  have "x \<noteq> None \<longleftrightarrow> replayed l c"
    using x replay_claim_for_candidate_iff(1,2) [OF assms, of c] unfolding replayed_def by (cases x) blast+
  with x show ?thesis by (simp add: is_replay_candidate_def)
qed

end
