(* ===== verification/LedgerOps.thy ===== *)
theory LedgerOps
  imports LedgerIff
begin

text \<open>
  The recording operations keep a ledger valid: the closing \<open>updated.validate()\<close> of \<open>_record_scan\<close>,
  \<open>_record_replay_claim\<close> and \<open>consume_candidate\<close> cannot fail once their own guards have passed, and
  the ledger they return is stated outright.
\<close>

section \<open>Recording a scan\<close>

text \<open>The fence of the last candidate handed out, 0 on an empty ledger.\<close>

definition last_fence :: "ArtifactHoldExpiryLedgerState \<Rightarrow> int" where
  "last_fence l = (if led_candidate_entries l = [] then 0 else entry_fence (last (led_candidate_entries l)))"

definition scanned ::
    "ArtifactHoldExpiryLedgerState \<Rightarrow> ArtifactHoldExpiryScanRequest \<Rightarrow> ArtifactHoldExpiryScanResult
     \<Rightarrow> ArtifactHoldExpiryCandidate \<Rightarrow> ArtifactHoldExpiryScanAllocation \<Rightarrow> ArtifactHoldExpiryLedgerState" where
  "scanned l q r c a = l \<lparr> led_candidate_fence_high_water := cand_candidate_fencing_token c,
     led_scan_requests := led_scan_requests l @ [q], led_scan_results := led_scan_results l @ [r],
     led_candidate_entries := led_candidate_entries l @ [new_entry c],
     led_scan_authorities := led_scan_authorities l @ [authority_of q r c],
     led_scan_allocations := led_scan_allocations l @ [a] \<rparr>"

lemma scanned_simps [simp]:
  "led_candidate_fence_high_water (scanned l q r c a) = cand_candidate_fencing_token c"
  "led_scan_requests (scanned l q r c a) = led_scan_requests l @ [q]"
  "led_scan_results (scanned l q r c a) = led_scan_results l @ [r]"
  "led_candidate_entries (scanned l q r c a) = led_candidate_entries l @ [new_entry c]"
  "led_replay_claim_requests (scanned l q r c a) = led_replay_claim_requests l"
  "led_replay_claim_results (scanned l q r c a) = led_replay_claim_results l"
  "led_replay_current_authorities (scanned l q r c a) = led_replay_current_authorities l"
  "led_scan_authorities (scanned l q r c a) = led_scan_authorities l @ [authority_of q r c]"
  "led_scan_allocations (scanned l q r c a) = led_scan_allocations l @ [a]"
  "replay_pairs (scanned l q r c a) = replay_pairs l"
  "entry_candidates (scanned l q r c a) = entry_candidates l @ [c]"
  by (simp_all add: scanned_def replay_pairs_def entry_candidates_def new_entry_def)

lemma new_entry_checks [simp]: "all_ok (entry_checks dumps (new_entry c)) \<longleftrightarrow> all_ok (candidate_checks dumps c)"
  by (simp add: entry_checks_def new_entry_def)

lemma new_entry_simps [simp]:
  "ent_candidate (new_entry c) = c" "ent_consumed_by (new_entry c) = None" "ent_consumed_at_ms (new_entry c) = None"
  "entry_fence (new_entry c) = cand_candidate_fencing_token c" "\<not> ent_consumed (new_entry c)"
  by (simp_all add: new_entry_def entry_fence_def ent_consumed_def)

lemma entry_lease_in_tokens:
  "c \<in> set (entry_candidates l) \<Longrightarrow> cand_candidate_lease_id c \<in> set (authority_tokens l)"
  by (auto simp: entry_candidates_def authority_tokens_eq entry_leases)

text \<open>Appending a fresh candidate whose fence is above the high water.\<close>

lemma entries_snoc:
  assumes "entries_ok dumps hw es" and "all_ok (candidate_checks dumps c)"
    and "hw < cand_candidate_fencing_token c"
    and "cand_candidate_lease_id c \<notin> set (entry_tokens es)" and "cand_candidate_token c \<notin> set (entry_tokens es)"
  shows "entries_ok dumps (cand_candidate_fencing_token c) (es @ [new_entry c])"
  using assms by (fastforce simp: entries_ok_def sorted_wrt_append candidate_iff candidate_fields_ok_def)

lemma last_fence_alt:
  "last_fence l = (if entry_candidates l = [] then 0 else cand_candidate_fencing_token (last (entry_candidates l)))"
  by (simp add: last_fence_def entry_candidates_def entry_fence_def last_map)

lemma provenance_snoc:
  assumes "\<forall>a \<in> set as. salloc_candidate a \<in> set cs" and "provenance_ok as cs"
  shows "provenance_ok as (cs @ ds)"
  using assms by (simp add: provenance_ok_def previous_fence_append)

definition fresh_candidate ::
    "(json \<Rightarrow> bytes option) \<Rightarrow> ArtifactHoldExpiryLedgerState \<Rightarrow> ArtifactHoldExpiryCandidate \<Rightarrow> bool" where
  "fresh_candidate dumps l c \<longleftrightarrow> all_ok (candidate_checks dumps c) \<and>
     led_candidate_fence_high_water l < cand_candidate_fencing_token c \<and>
     cand_candidate_lease_id c \<notin> set (authority_tokens l) \<and> cand_candidate_token c \<notin> set (authority_tokens l)"

lemma fresh_not_entry: "fresh_candidate dumps l c \<Longrightarrow> c \<notin> set (entry_candidates l)"
  using entry_lease_in_tokens by (auto simp: fresh_candidate_def)

lemma fresh_above:
  "ledger_ok dumps l \<Longrightarrow> fresh_candidate dumps l c \<Longrightarrow> d \<in> set (entry_candidates l) \<Longrightarrow>
     cand_candidate_fencing_token d < cand_candidate_fencing_token c"
  using candidate_fence_bound [of dumps l d] by (simp add: fresh_candidate_def)

lemma fresh_entries:
  "ledger_ok dumps l \<Longrightarrow> fresh_candidate dumps l c \<Longrightarrow>
     entries_ok dumps (cand_candidate_fencing_token c) (led_candidate_entries l @ [new_entry c])"
  using entries_snoc [OF ledger_okD(1)] by (simp add: fresh_candidate_def authority_tokens_eq)

lemma fresh_order:
  assumes "ledger_ok dumps l" and "fresh_candidate dumps l c" and "persisted_candidates l = xs @ ys"
  shows "entry_candidates l @ [c] = sort_key cand_candidate_fencing_token (xs @ c # ys)"
proof -
  have "\<forall>d \<in> set (xs @ ys). cand_candidate_fencing_token d < cand_candidate_fencing_token c"
    using fresh_above [OF assms(1,2)] set_entry_candidates [OF assms(1)] assms(3) by simp
  then show ?thesis using ledger_okD(3) [OF assms(1)] assms(3) by (simp add: sort_key_insert_max)
qed

lemma fresh_fence_int: "fresh_candidate dumps l c \<Longrightarrow> int_from 0 (cand_candidate_fencing_token c)"
  by (simp add: fresh_candidate_def candidate_iff candidate_fields_ok_def int_from_def)

lemma scanned_evidence:
  assumes "length (led_scan_requests l) = length (led_scan_results l)" and "sres_candidates r = [c]"
  shows "scan_pairs (scanned l q r c a) = scan_pairs l @ [(q, r)]"
    and "scan_evidence (scan_pairs (scanned l q r c a)) =
      scan_evidence (scan_pairs l) @ [(cand_candidate_lease_id c, q, r, c)]"
  using assms by (simp_all add: scan_pairs_def scan_evidence_append scan_evidence_Cons)

lemma scanned_ok:
  assumes L: "ledger_ok dumps l" and tight: "led_candidate_fence_high_water l = last_fence l"
    and r: "all_ok (scan_result_checks_for dumps r q)" "sres_candidates r = [c]"
    and c: "fresh_candidate dumps l c"
    and a: "all_ok (scan_allocation_checks_against dumps a q c (led_candidate_fence_high_water l))"
    and ids: "sreq_scan_operation_id q \<notin> set (map sreq_scan_operation_id (led_scan_requests l))"
      "sreq_scan_operation_id q \<notin> set (map rreq_replay_operation_id (led_replay_claim_requests l))"
  shows "ledger_ok dumps (scanned l q r c a)"
proof -
  let ?l = "scanned l q r c a"
  have len: "length (led_scan_requests l) = length (led_scan_results l)"
    "length (led_replay_claim_requests l) = length (led_replay_claim_results l)" using L by (simp_all add: ledger_ok_def)
  note ev = scanned_evidence [OF len(1) r(2), of q a]
  have lease: "cand_candidate_lease_id c \<notin> fst ` set (scan_evidence (scan_pairs l))"
    using c evidence_in_entries [OF L] entry_lease_in_tokens
    by (auto simp: fresh_candidate_def set_scan_evidence)
  have sid: "map (sreq_scan_operation_id \<circ> fst) (scan_pairs l) = map sreq_scan_operation_id (led_scan_requests l)"
    using len by (metis map_map map_fst_zip scan_pairs_def)
  have rid: "map (rreq_replay_operation_id \<circ> fst) (replay_pairs l) = map rreq_replay_operation_id (led_replay_claim_requests l)"
    using len by (metis map_map map_fst_zip replay_pairs_def)
  have "scans_ok dumps (scan_pairs ?l)"
    using ledger_okD(5) [OF L] r(1) ids(1) lease sid unfolding scans_ok_def ev(2) unfolding ev(1)
    by (auto simp: comp_def)
  moreover have "authorities_ok (led_scan_authorities ?l) (scan_pairs ?l)"
  proof -
    have "authorities_ok (led_scan_authorities l) (scan_pairs l)" using L by (simp add: ledger_ok_def)
    moreover from this have "sauth_candidate_lease_id ` set (led_scan_authorities l) = fst ` set (scan_evidence (scan_pairs l))"
      by (force simp: authorities_ok_def image_image set_scan_evidence)
    ultimately show ?thesis using lease by (auto simp: authorities_ok_def ev(2))
  qed
  moreover have "allocations_ok dumps (led_scan_allocations ?l) (scan_pairs ?l)"
  proof -
    have "allocations_ok dumps (led_scan_allocations l) (scan_pairs l)" using L by (simp add: ledger_ok_def)
    moreover have "alloc_lease a \<notin> alloc_lease ` set (led_scan_allocations l)"
      using a c allocation_in_entries [OF L] entry_lease_in_tokens
      by (auto simp: alloc_lease_def allocation_against_iff fresh_candidate_def)
    ultimately show ?thesis using a by (auto simp: allocations_ok_def ev(2) allocation_against_iff)
  qed
  moreover have "replays_ok dumps (map sreq_scan_operation_id (led_scan_requests ?l)) (replay_pairs ?l)"
    using ledger_okD(4) [OF L] ids(2) unfolding replays_ok_def rid scanned_simps by auto
  moreover have "provenance_ok (led_scan_allocations ?l) (entry_candidates ?l)"
  proof -
    have "provenance_ok (led_scan_allocations l) (entry_candidates l @ [c])"
      using ledger_okD(2) [OF L] allocation_in_entries [OF L] by (intro provenance_snoc) auto
    moreover have "previous_fence_of c 0 (entry_candidates l @ [c]) = Some (last_fence l)"
      using previous_fence_snoc [OF fresh_not_entry [OF c], of 0] by (simp add: last_fence_alt)
    ultimately show ?thesis using a tight by (simp add: provenance_ok_def allocation_against_iff)
  qed
  moreover have "entry_candidates ?l = sort_key cand_candidate_fencing_token (persisted_candidates ?l)"
    using fresh_order [OF L c, of "concat (map sres_candidates (led_scan_results l))"] r(2)
    by (simp add: persisted_candidates_def)
  ultimately show ?thesis
    using L c len fresh_entries [OF L c] fresh_fence_int [OF c] unfolding ledger_ok_def
    by (simp del: scanned_simps(11))
qed

lemma find_None_scan:
  assumes "length (led_scan_requests l) = length (led_scan_results l)"
  shows "find (\<lambda>(q', r'). sreq_scan_operation_id q' = i) (scan_pairs l) = None \<longleftrightarrow>
    i \<notin> set (map sreq_scan_operation_id (led_scan_requests l))"
proof -
  have "find (\<lambda>(q', r'). sreq_scan_operation_id q' = i) (scan_pairs l) = None \<longleftrightarrow>
      i \<notin> set (map (sreq_scan_operation_id \<circ> fst) (scan_pairs l))"
    by (force simp: find_None_iff)
  then show ?thesis using assms by (metis map_map map_fst_zip scan_pairs_def)
qed

lemma record_scan_one:
  assumes L: "ledger_ok dumps l" and tight: "led_candidate_fence_high_water l = last_fence l"
    and r: "all_ok (scan_result_checks_for dumps r q)" "sres_candidates r = [c]"
    and c: "fresh_candidate dumps l c"
    and a: "all_ok (scan_allocation_checks_against dumps a q c (led_candidate_fence_high_water l))"
    and ids: "sreq_scan_operation_id q \<notin> set (map sreq_scan_operation_id (led_scan_requests l))"
      "sreq_scan_operation_id q \<notin> set (map rreq_replay_operation_id (led_replay_claim_requests l))"
  shows "record_scan dumps l q r [a] = Inr (scanned l q r c a)"
proof -
  have new: "find (\<lambda>(q', r'). sreq_scan_operation_id q' = sreq_scan_operation_id q) (scan_pairs l) = None"
    using find_None_scan [of l] ids(1) L by (simp add: ledger_ok_def)
  have "scan_authority_create dumps q r c = Inr (authority_of q r c)"
    using r by (simp add: scan_authority_created scan_authority_against_iff)
  moreover have "cand_candidate_lease_id c \<noteq> cand_candidate_token c"
    using c by (simp add: fresh_candidate_def candidate_iff candidate_fields_ok_def)
  ultimately have "admit_candidates dumps q r (authority_tokens l) (led_candidate_fence_high_water l) [(c, a)] =
      Inr (cand_candidate_fencing_token c, [authority_of q r c])"
    using a c by (simp add: fresh_candidate_def)
  moreover have "all_ok (allocation_result_checks dumps q [a] [c])"
    using a by (simp add: allocation_result_checks_def allocation_against_iff)
  moreover have "all_ok (ledger_checks dumps (scanned l q r c a))"
    using scanned_ok [OF assms] by (simp add: ledger_iff)
  ultimately show ?thesis using L r new
    by (simp add: record_scan_def ledger_iff scanned_def Let_def)
qed

section \<open>Recording a replay claim\<close>

definition claimed ::
    "ArtifactHoldExpiryLedgerState \<Rightarrow> ArtifactHoldExpiryReplayClaimRequest \<Rightarrow> ArtifactHoldExpiryReplayClaimResult
     \<Rightarrow> ArtifactHoldExpiryLedgerState" where
  "claimed l q r = l \<lparr> led_candidate_fence_high_water := cand_candidate_fencing_token (rres_candidate r),
     led_replay_claim_requests := led_replay_claim_requests l @ [q],
     led_replay_claim_results := led_replay_claim_results l @ [r],
     led_candidate_entries := led_candidate_entries l @ [new_entry (rres_candidate r)],
     led_replay_current_authorities := set_current (rreq_expire_operation_id q)
       (current_of q r (int (length (claims_of (replay_pairs l) (rreq_expire_operation_id q))) + 1))
       (led_replay_current_authorities l) \<rparr>"

lemma claimed_simps [simp]:
  "led_candidate_fence_high_water (claimed l q r) = cand_candidate_fencing_token (rres_candidate r)"
  "led_scan_requests (claimed l q r) = led_scan_requests l"
  "led_scan_results (claimed l q r) = led_scan_results l"
  "led_candidate_entries (claimed l q r) = led_candidate_entries l @ [new_entry (rres_candidate r)]"
  "led_replay_claim_requests (claimed l q r) = led_replay_claim_requests l @ [q]"
  "led_replay_claim_results (claimed l q r) = led_replay_claim_results l @ [r]"
  "led_replay_current_authorities (claimed l q r) = set_current (rreq_expire_operation_id q)
     (current_of q r (int (length (claims_of (replay_pairs l) (rreq_expire_operation_id q))) + 1))
     (led_replay_current_authorities l)"
  "led_scan_authorities (claimed l q r) = led_scan_authorities l"
  "led_scan_allocations (claimed l q r) = led_scan_allocations l"
  "scan_pairs (claimed l q r) = scan_pairs l"
  "entry_candidates (claimed l q r) = entry_candidates l @ [rres_candidate r]"
  by (simp_all add: claimed_def scan_pairs_def entry_candidates_def)

lemma set_set_current:
  "distinct (map rcur_expire_operation_id as) \<Longrightarrow> rcur_expire_operation_id a = e \<Longrightarrow>
     set (set_current e a as) = insert a {b \<in> set as. rcur_expire_operation_id b \<noteq> e} \<and>
     distinct (map rcur_expire_operation_id (set_current e a as)) \<and>
     set (map rcur_expire_operation_id (set_current e a as)) = insert e (set (map rcur_expire_operation_id as))"
  by (induction as) (auto simp: image_iff split: if_splits)

lemma claims_snoc:
  "claims_of (ps @ [(q, r)]) e = claims_of ps e @ (if rreq_expire_operation_id q = e then [(q, r)] else [])"
  by (simp add: claims_of_def)

lemma ops_snoc: "set (replay_ops (ps @ [(q, r)])) = insert (rreq_expire_operation_id q) (set (replay_ops ps))"
  by (simp add: set_replay_ops)

text \<open>Strictly increasing positive fences bound the number of candidates by the high water.\<close>

lemma strict_positive_length:
  "sorted_wrt (<) xs \<Longrightarrow> \<forall>x \<in> set xs. 0 < x \<and> x \<le> h \<Longrightarrow> 0 \<le> h \<Longrightarrow> int (length xs) \<le> h" for xs :: "int list"
proof -
  assume s: "sorted_wrt (<) xs" and b: "\<forall>x \<in> set xs. 0 < x \<and> x \<le> h" and h: "0 \<le> h"
  have "card (set xs) \<le> card {1..h}" using b by (intro card_mono) auto
  moreover have "distinct xs" using s by (simp add: strict_sorted_iff)
  ultimately show ?thesis using h by (simp add: distinct_card)
qed

lemma claims_bounded:
  assumes "ledger_ok dumps l"
  shows "int (length (claims_of (replay_pairs l) e)) \<le> led_candidate_fence_high_water l"
proof -
  have es: "entries_ok dumps (led_candidate_fence_high_water l) (led_candidate_entries l)" by (rule ledger_okD(1) [OF assms])
  have "length (claims_of (replay_pairs l) e) \<le> length (replay_pairs l)" by (simp add: claims_of_def)
  also have "\<dots> \<le> length (persisted_candidates l)" by (simp add: persisted_alt [OF assms])
  also have "\<dots> = length (entry_candidates l)" by (metis ledger_okD(3) [OF assms] length_sort)
  also have "\<dots> = length (map entry_fence (led_candidate_entries l))" by (simp add: entry_candidates_def)
  also have "int \<dots> \<le> led_candidate_fence_high_water l"
    using es entry_fences_positive assms
    by (intro strict_positive_length) (auto simp: entries_ok_def ledger_ok_def int_from_def)
  finally show ?thesis by simp
qed

lemma claim_fence_alt: "claim_fence = cand_candidate_fencing_token \<circ> (\<lambda>p. rres_candidate (snd p))"
  by (auto simp: claim_fence_def)

lemma latest_claim_lease:
  assumes "claims_of ps e \<noteq> []"
  shows "last (claim_leases ps e) = rres_candidate (snd (latest_claim ps e))"
proof -
  have "sort_key claim_fence (claims_of ps e) \<noteq> []" using assms by (metis set_empty set_sort)
  then show ?thesis
    by (simp add: claim_leases_def latest_claim_def sort_key_map case_prod_unfold last_map flip: claim_fence_alt)
qed

lemma claim_leases_empty: "claim_leases ps e = [] \<longleftrightarrow> claims_of ps e = []"
  unfolding claim_leases_def by (metis map_is_Nil_conv set_empty set_sort)

lemma claims_in_entries:
  "ledger_ok dumps l \<Longrightarrow> p \<in> set (claims_of (replay_pairs l) e) \<Longrightarrow> rres_candidate (snd p) \<in> set (entry_candidates l)"
  using replay_in_entries [of dumps l "fst p" "snd p"] by (simp add: set_claims_of)

lemma claims_below:
  assumes "ledger_ok dumps l" and "fresh_candidate dumps l (rres_candidate r)"
  shows "\<forall>p \<in> set (claims_of (replay_pairs l) e). claim_fence p < claim_fence (q, r)"
  using claims_in_entries [OF assms(1)] fresh_above [OF assms] by (auto simp: claim_fence_def)

lemma claimed_leases:
  assumes "ledger_ok dumps l" and "fresh_candidate dumps l (rres_candidate r)"
  shows "claim_leases (replay_pairs l @ [(q, r)]) e =
    claim_leases (replay_pairs l) e @ (if rreq_expire_operation_id q = e then [rres_candidate r] else [])"
proof -
  have "\<forall>d \<in> set (map (\<lambda>(q, r). rres_candidate r) (claims_of (replay_pairs l) e)).
      cand_candidate_fencing_token d < cand_candidate_fencing_token (rres_candidate r)"
    using claims_below [OF assms, of e q] by (auto simp: claim_fence_def)
  then show ?thesis
    using sort_key_insert_max [of "map (\<lambda>(q, r). rres_candidate r) (claims_of (replay_pairs l) e)" "[]"
        cand_candidate_fencing_token "rres_candidate r"]
    by (simp add: claim_leases_def claims_snoc)
qed

lemma claimed_pointer:
  assumes "ledger_ok dumps l" and "fresh_candidate dumps l (rres_candidate r)"
  shows "pointer_of (replay_pairs l @ [(q, r)]) e =
    (if rreq_expire_operation_id q = e then current_of q r (int (length (claims_of (replay_pairs l) e)) + 1)
     else pointer_of (replay_pairs l) e)"
  using sort_key_insert_max [of "claims_of (replay_pairs l) e" "[]" claim_fence "(q, r)"] claims_below [OF assms, of e q]
  by (simp add: pointer_of_def latest_claim_def claims_snoc)

lemma image_insert_Diff: "f ` insert x A = insert (f x) (f ` (A - {x}))"
  by auto

lemma claimed_ok:
  assumes L: "ledger_ok dumps l" and r: "all_ok (replay_claim_result_checks_for dumps r q)"
    and c: "fresh_candidate dumps l (rres_candidate r)"
    and ids: "rreq_replay_operation_id q \<notin> set (map rreq_replay_operation_id (led_replay_claim_requests l))"
      "rreq_replay_operation_id q \<notin> set (map sreq_scan_operation_id (led_scan_requests l))"
    and gap: "claims_of (replay_pairs l) (rreq_expire_operation_id q) = [] \<or> cand_lease_until_ms
      (last (claim_leases (replay_pairs l) (rreq_expire_operation_id q))) \<le> cand_issued_at_ms (rres_candidate r)"
  shows "ledger_ok dumps (claimed l q r)"
proof -
  let ?l = "claimed l q r" and ?e = "rreq_expire_operation_id q" and ?ps = "replay_pairs l"
  let ?a = "current_of q r (int (length (claims_of ?ps ?e)) + 1)"
  have len: "length (led_scan_requests l) = length (led_scan_results l)"
    "length (led_replay_claim_requests l) = length (led_replay_claim_results l)" using L by (simp_all add: ledger_ok_def)
  have ps: "replay_pairs ?l = ?ps @ [(q, r)]" using len by (simp add: replay_pairs_def)
  have rid: "map (rreq_replay_operation_id \<circ> fst) ?ps = map rreq_replay_operation_id (led_replay_claim_requests l)"
    using len by (metis map_map map_fst_zip replay_pairs_def)
  have "replays_ok dumps (map sreq_scan_operation_id (led_scan_requests ?l)) (replay_pairs ?l)"
    using ledger_okD(4) [OF L] ids r unfolding replays_ok_def ps map_append rid by auto
  moreover have "gaps_ok (replay_pairs ?l)"
    using L gap unfolding gaps_ok_def ps claimed_leases [OF L c]
    by (auto simp: ledger_ok_def gaps_ok_def successively_append_iff claim_leases_empty)
  moreover have "currents_ok (led_replay_current_authorities ?l) (replay_pairs ?l)"
  proof -
    have "int_from 1 (int (length (claims_of ?ps ?e)) + 1)"
      using claims_bounded [OF L, of ?e] c
      by (simp add: int_from_def fresh_candidate_def candidate_iff candidate_fields_ok_def)
    then have a: "all_ok (replay_current_checks ?a)" by (rule current_of_ok [OF r])
    have cur: "currents_ok (led_replay_current_authorities l) ?ps" by (rule ledger_okD(6) [OF L])
    have ae: "rcur_expire_operation_id ?a = ?e" by (simp add: current_of_def)
    have d: "distinct (map rcur_expire_operation_id (led_replay_current_authorities l))"
      using cur by (simp add: currents_ok_def)
    have "{b \<in> set (led_replay_current_authorities l). rcur_expire_operation_id b \<noteq> ?e} =
        pointer_of ?ps ` (set (replay_ops ?ps) - {?e})"
      using cur by (auto simp: currents_ok_def pointer_op)
    moreover have "pointer_of (?ps @ [(q, r)]) ` (set (replay_ops ?ps) - {?e}) = pointer_of ?ps ` (set (replay_ops ?ps) - {?e})"
      by (rule image_cong) (auto simp: claimed_pointer [OF L c])
    moreover have "pointer_of (?ps @ [(q, r)]) ?e = ?a" by (simp add: claimed_pointer [OF L c])
    ultimately have "insert ?a {b \<in> set (led_replay_current_authorities l). rcur_expire_operation_id b \<noteq> ?e} =
        pointer_of (?ps @ [(q, r)]) ` set (replay_ops (?ps @ [(q, r)]))"
      unfolding ops_snoc image_insert_Diff [of _ ?e] by (simp only:)
    moreover have "\<forall>b \<in> set (set_current ?e ?a (led_replay_current_authorities l)). all_ok (replay_current_checks b)"
    proof -
      have "\<forall>b \<in> set (led_replay_current_authorities l). all_ok (replay_current_checks b)"
        using cur unfolding currents_ok_def by (elim conjE)
      with a show ?thesis unfolding set_set_current [OF d ae, THEN conjunct1] by blast
    qed
    ultimately show ?thesis using set_set_current [OF d ae] by (simp add: currents_ok_def ps)
  qed
  moreover have "provenance_ok (led_scan_allocations ?l) (entry_candidates ?l)"
    using ledger_okD(2) [OF L] allocation_in_entries [OF L] unfolding claimed_simps by (intro provenance_snoc) auto
  moreover have "entry_candidates ?l = sort_key cand_candidate_fencing_token (persisted_candidates ?l)"
    using fresh_order [OF L c, of "persisted_candidates l" "[]"] by (simp add: persisted_candidates_def)
  ultimately show ?thesis
    using L c len fresh_entries [OF L c] fresh_fence_int [OF c] unfolding ledger_ok_def
    by (simp del: claimed_simps(7,11))
qed

lemma find_None_replay:
  assumes "length (led_replay_claim_requests l) = length (led_replay_claim_results l)"
  shows "find (\<lambda>(q', r'). rreq_replay_operation_id q' = i) (replay_pairs l) = None \<longleftrightarrow>
    i \<notin> set (map rreq_replay_operation_id (led_replay_claim_requests l))"
proof -
  have "find (\<lambda>(q', r'). rreq_replay_operation_id q' = i) (replay_pairs l) = None \<longleftrightarrow>
      i \<notin> set (map (rreq_replay_operation_id \<circ> fst) (replay_pairs l))"
    by (force simp: find_None_iff)
  then show ?thesis using assms by (metis map_map map_fst_zip replay_pairs_def)
qed

text \<open>At most one pointer per expire operation, whose revision counts its claims.\<close>

lemma existing_pointer:
  assumes "ledger_ok dumps l"
  shows "filter (\<lambda>a. rcur_expire_operation_id a = e) (led_replay_current_authorities l) =
    (if claims_of (replay_pairs l) e = [] then [] else [pointer_of (replay_pairs l) e])"
proof (cases "e \<in> set (replay_ops (replay_pairs l))")
  case True
  have cur: "currents_ok (led_replay_current_authorities l) (replay_pairs l)" by (rule ledger_okD(6) [OF assms])
  then have "pointer_of (replay_pairs l) e \<in> set (led_replay_current_authorities l)"
    and "distinct (map rcur_expire_operation_id (led_replay_current_authorities l))"
    using True by (auto simp: currents_ok_def)
  then show ?thesis
    using True distinct_filter_key [of rcur_expire_operation_id "led_replay_current_authorities l" "pointer_of (replay_pairs l) e"]
    by (simp add: pointer_op claims_of_empty_iff)
next
  case False
  have "\<forall>a \<in> set (led_replay_current_authorities l). rcur_expire_operation_id a \<noteq> e"
    using ledger_okD(6) [OF assms] False by (auto simp: currents_ok_def pointer_op)
  with False show ?thesis by (simp add: claims_of_empty_iff filter_empty_conv)
qed

lemma pointer_revision: "rcur_revision (pointer_of ps e) = int (length (claims_of ps e))"
  by (simp add: pointer_of_def)

lemma record_replay_claim_new:
  assumes L: "ledger_ok dumps l" and r: "all_ok (replay_claim_result_checks_for dumps r q)"
    and c: "fresh_candidate dumps l (rres_candidate r)"
    and ids: "rreq_replay_operation_id q \<notin> set (map rreq_replay_operation_id (led_replay_claim_requests l))"
      "rreq_replay_operation_id q \<notin> set (map sreq_scan_operation_id (led_scan_requests l))"
    and gap: "claims_of (replay_pairs l) (rreq_expire_operation_id q) = [] \<or> cand_lease_until_ms
      (last (claim_leases (replay_pairs l) (rreq_expire_operation_id q))) \<le> cand_issued_at_ms (rres_candidate r)"
  shows "record_replay_claim dumps l q r = Inr (claimed l q r)"
proof -
  let ?e = "rreq_expire_operation_id q" and ?n = "int (length (claims_of (replay_pairs l) (rreq_expire_operation_id q))) + 1"
  have new: "find (\<lambda>(q', r'). rreq_replay_operation_id q' = rreq_replay_operation_id q) (replay_pairs l) = None"
    using find_None_replay [of l] ids(1) L by (simp add: ledger_ok_def)
  have "int_from 1 ?n" using claims_bounded [OF L, of ?e] c
    by (simp add: int_from_def fresh_candidate_def candidate_iff candidate_fields_ok_def)
  then have "replay_current_create dumps q r ?n = Inr (current_of q r ?n)" by (rule replay_current_created [OF r])
  moreover have "cand_candidate_lease_id (rres_candidate r) \<noteq> cand_candidate_token (rres_candidate r)"
    using c by (simp add: fresh_candidate_def candidate_iff candidate_fields_ok_def)
  moreover have "all_ok (ledger_checks dumps (claimed l q r))" using claimed_ok [OF assms] by (simp add: ledger_iff)
  moreover have "(case filter (\<lambda>a. rcur_expire_operation_id a = ?e) (led_replay_current_authorities l) of
      [] \<Rightarrow> 1 | a # x \<Rightarrow> rcur_revision a + 1) = ?n"
    by (simp add: existing_pointer [OF L] pointer_revision)
  moreover have "\<not> 1 < length (filter (\<lambda>a. rcur_expire_operation_id a = ?e) (led_replay_current_authorities l))"
    by (simp add: existing_pointer [OF L])
  ultimately show ?thesis using L r c new
    by (simp add: record_replay_claim_def ledger_iff Let_def fresh_candidate_def claimed_def)
qed

section \<open>Consuming a candidate\<close>

definition consumed_entry ::
    "ArtifactHoldExpiryCandidateLedgerEntry \<Rightarrow> ustr \<Rightarrow> int \<Rightarrow> ArtifactHoldExpiryCandidateLedgerEntry" where
  "consumed_entry e i t = e \<lparr> ent_consumed_by := Some i, ent_consumed_at_ms := Some t \<rparr>"

definition consume ::
    "ArtifactHoldExpiryLedgerState \<Rightarrow> ArtifactHoldExpiryCandidateLedgerEntry \<Rightarrow> ustr \<Rightarrow> int
     \<Rightarrow> ArtifactHoldExpiryLedgerState" where
  "consume l e i t =
     l \<lparr> led_candidate_entries := replace_first e (consumed_entry e i t) (led_candidate_entries l) \<rparr>"

lemma map_replace_first: "f y = f x \<Longrightarrow> map f (replace_first x y zs) = map f zs"
  by (induction zs) auto

lemma set_replace_first: "distinct zs \<Longrightarrow> x \<in> set zs \<Longrightarrow> set (replace_first x y zs) = insert y (set zs - {x})"
  by (induction zs) auto

lemma consumed_entry_simps [simp]:
  "ent_candidate (consumed_entry e i t) = ent_candidate e" "ent_consumed_by (consumed_entry e i t) = Some i"
  "ent_consumed_at_ms (consumed_entry e i t) = Some t" "ent_consumed (consumed_entry e i t)"
  by (simp_all add: consumed_entry_def ent_consumed_def)

lemma consume_simps [simp]:
  "led_candidate_fence_high_water (consume l e i t) = led_candidate_fence_high_water l"
  "led_scan_requests (consume l e i t) = led_scan_requests l"
  "led_scan_results (consume l e i t) = led_scan_results l"
  "led_replay_claim_requests (consume l e i t) = led_replay_claim_requests l"
  "led_replay_claim_results (consume l e i t) = led_replay_claim_results l"
  "led_replay_current_authorities (consume l e i t) = led_replay_current_authorities l"
  "led_scan_authorities (consume l e i t) = led_scan_authorities l"
  "led_scan_allocations (consume l e i t) = led_scan_allocations l"
  "scan_pairs (consume l e i t) = scan_pairs l" "replay_pairs (consume l e i t) = replay_pairs l"
  "persisted_candidates (consume l e i t) = persisted_candidates l"
  "entry_candidates (consume l e i t) = entry_candidates l"
  "led_candidate_entries (consume l e i t) = replace_first e (consumed_entry e i t) (led_candidate_entries l)"
  by (simp_all add: consume_def scan_pairs_def replay_pairs_def persisted_candidates_def entry_candidates_def
      map_replace_first)

lemma entry_tokens_map: "map ent_candidate es = map ent_candidate fs \<Longrightarrow> entry_tokens es = entry_tokens fs"
proof -
  have "entry_tokens gs = concat (map (\<lambda>c. [cand_candidate_lease_id c, cand_candidate_token c]) (map ent_candidate gs))" for gs
    by (simp add: entry_tokens_def comp_def)
  then show "map ent_candidate es = map ent_candidate fs \<Longrightarrow> ?thesis" by metis
qed

lemma entries_list_distinct: "ledger_ok dumps l \<Longrightarrow> distinct (led_candidate_entries l)"
  using entries_distinct [OF ledger_okD(1)] by (metis distinct_map)

lemma consume_ok:
  assumes L: "ledger_ok dumps l" and e: "e \<in> set (led_candidate_entries l)"
    and "lower_sha256 i" and "int_from 0 t"
  shows "ledger_ok dumps (consume l e i t)"
proof -
  let ?es = "replace_first e (consumed_entry e i t) (led_candidate_entries l)"
  have es: "entries_ok dumps (led_candidate_fence_high_water l) (led_candidate_entries l)" by (rule ledger_okD(1) [OF L])
  have "entry_tokens ?es = entry_tokens (led_candidate_entries l)"
    by (rule entry_tokens_map) (simp add: map_replace_first)
  moreover have "map entry_fence ?es = map entry_fence (led_candidate_entries l)"
    by (simp add: map_replace_first entry_fence_def)
  moreover have "\<forall>x \<in> set ?es. all_ok (entry_checks dumps x) \<and> entry_fence x \<le> led_candidate_fence_high_water l"
    using es e assms(3,4) set_replace_first [OF entries_list_distinct [OF L] e]
    by (auto simp: entries_ok_def entry_checks_def entry_fence_def)
  ultimately have "entries_ok dumps (led_candidate_fence_high_water l) ?es"
    using es by (simp add: entries_ok_def)
  then show ?thesis using L unfolding ledger_ok_def consume_simps by argo
qed

lemma consume_candidate_eq:
  assumes L: "ledger_ok dumps l" and q: "all_ok (expiry_request_checks dumps q)" and t: "int_from 0 t"
    and e: "e \<in> set (led_candidate_entries l)" "\<not> ent_consumed e" "request_matches q (ent_candidate e)"
  shows "consume_candidate dumps l q t = Inr (consume l e (ereq_expire_operation_id q) t)"
proof -
  have "candidate_entry_for l (ereq_candidate_lease_id q) = Inr e"
    using candidate_entry_for_iff [OF L] e by (simp add: request_matches_def)
  moreover have "lower_sha256 (ereq_expire_operation_id q)"
    using q by (simp add: expiry_request_iff expiry_request_id_shape)
  ultimately show ?thesis using consume_ok [OF L e(1) _ t] L q t e
    by (simp add: consume_candidate_def ledger_iff Let_def consume_def consumed_entry_def)
qed

end
