(* ===== verification/CasFacts.thy ===== *)
theory CasFacts
  imports HoldCas LedgerOps
begin

text \<open>
  What \<open>ArtifactHoldExpiryCASState.validate\<close> amounts to: the conjuncts of \<open>cas_checks\<close> as statements on
  the snapshot, and the facts on valid snapshots the operations rely on.
\<close>

section \<open>The candidate projection\<close>

definition live_entry :: "ArtifactHoldExpiryLedgerState \<Rightarrow> ArtifactHoldState \<Rightarrow> ArtifactHoldExpiryCandidateLedgerEntry \<Rightarrow> bool" where
  "live_entry l s e \<longleftrightarrow> \<not> ent_consumed e \<and> \<not> replayed l (ent_candidate e) \<and> due_candidate s (ent_candidate e)"

definition live_candidates :: "ArtifactHoldExpiryLedgerState \<Rightarrow> ArtifactHoldState \<Rightarrow> ArtifactHoldExpiryCandidate list" where
  "live_candidates l s = map ent_candidate (filter (live_entry l s) (led_candidate_entries l))"

lemma incarnation_eq:
  "ledger_ok dumps l \<Longrightarrow> incarnation_candidates l s es = Inr (map ent_candidate (filter (live_entry l s) es))"
  by (induction l s es rule: incarnation_candidates.induct) (auto simp: live_entry_def is_replay_candidate_eq)

lemma latest_sorted:
  assumes "sorted_wrt (<) (fence_ids cs)"
  shows "latest_candidate cs = (if cs = [] then None else Some (last cs))"
proof (cases cs)
  case (Cons c ds)
  have "sorted_wrt (<) (fence_ids (c # ds)) \<Longrightarrow>
    foldl (\<lambda>m d. if cand_candidate_fencing_token m < cand_candidate_fencing_token d then d else m) c ds = last (c # ds)"
    by (induction ds arbitrary: c) auto
  with Cons assms show ?thesis by (simp add: latest_candidate_def)
qed (simp add: latest_candidate_def)

lemma live_sorted: "ledger_ok dumps l \<Longrightarrow> sorted_wrt (<) (fence_ids (map ent_candidate (filter P (led_candidate_entries l))))"
proof -
  assume L: "ledger_ok dumps l"
  have "sorted_wrt (\<lambda>x y. entry_fence x < entry_fence y) (led_candidate_entries l)"
    using ledger_okD(1) [OF L] by (simp add: entries_ok_def sorted_wrt_map)
  then have "sorted_wrt (\<lambda>x y. entry_fence x < entry_fence y) (filter P (led_candidate_entries l))"
    by (rule sorted_wrt_filter)
  then show ?thesis by (simp add: sorted_wrt_map entry_fence_def)
qed

definition projection_ok :: "ArtifactHoldExpiryCASState \<Rightarrow> bool" where
  "projection_ok st \<longleftrightarrow> (let s = cas_hold_state st; l = cas_candidate_ledger st in
     (hold_hold_status s = ACTIVE \<longrightarrow> hold_candidate s =
        (if live_candidates l s = [] then None else Some (last (live_candidates l s)))) \<and>
     (\<forall>c. hold_candidate s = Some c \<longrightarrow>
        (\<exists>e \<in> set (led_candidate_entries l). ent_candidate e = c \<and> \<not> ent_consumed e) \<and> \<not> replayed l c))"

lemma projection_iff:
  assumes L: "ledger_ok dumps (cas_candidate_ledger st)"
  shows "all_ok (hold_projection_checks st) \<longleftrightarrow> projection_ok st"
proof -
  let ?s = "cas_hold_state st" and ?l = "cas_candidate_ledger st"
  have latest: "latest_candidate (live_candidates ?l ?s) =
      (if live_candidates ?l ?s = [] then None else Some (last (live_candidates ?l ?s)))"
    unfolding live_candidates_def by (rule latest_sorted [OF live_sorted [OF L]])
  have "all_ok (with_result (candidate_entry_for ?l (cand_candidate_lease_id c)) (\<lambda>e.
             if ent_candidate e \<noteq> c \<or> ent_consumed e
             then [Check False (conflict ''hold candidate projection contradicts authoritative ledger'')]
             else with_result (is_replay_candidate ?l (ent_candidate e)) (\<lambda>replay.
               [Check (\<not> replay) (conflict ''hold candidate projection contradicts authoritative ledger'')])))
      \<longleftrightarrow> (\<exists>e \<in> set (led_candidate_entries ?l). ent_candidate e = c \<and> \<not> ent_consumed e) \<and> \<not> replayed ?l c" for c
    by (auto simp: candidate_entry_for_iff [OF L] is_replay_candidate_eq [OF L])
  then show ?thesis
    using latest
    by (cases "hold_candidate ?s"; cases "hold_hold_status ?s")
      (simp_all add: hold_projection_checks_def projection_ok_def Let_def incarnation_eq [OF L]
        flip: live_candidates_def)
qed

section \<open>Commits and tombstones\<close>

definition commit_ids :: "ArtifactHoldExpiryCASState \<Rightarrow> ustr list" where
  "commit_ids st = map com_expire_operation_id (cas_commits st)"

lemma commit_loop_iff:
  "all_ok (commit_loop_checks dumps seen ks) \<longleftrightarrow> (\<forall>k \<in> set ks. all_ok (commit_checks dumps k)) \<and>
     distinct (map com_expire_operation_id ks) \<and> set (map com_expire_operation_id ks) \<inter> set seen = {}"
  by (induction dumps seen ks rule: commit_loop_checks.induct) (auto simp: commit_iff returns_iff)

lemma consumed_entries_keys: "map fst (consumed_entries es) = map (the \<circ> ent_consumed_by) (filter ent_consumed es)"
  by (simp add: consumed_entries_def)

lemma consumed_loop_iff:
  "all_ok (consumed_loop_checks seen es) \<longleftrightarrow>
     distinct (map fst (consumed_entries es)) \<and> set (map fst (consumed_entries es)) \<inter> set seen = {}"
  by (induction seen es rule: consumed_loop_checks.induct)
    (auto simp: consumed_entries_keys ent_consumed_def split: option.splits)

lemma consumed_lookup:
  "distinct (map fst (consumed_entries es)) \<Longrightarrow>
     map_of (consumed_entries es) i = Some e \<longleftrightarrow> e \<in> set es \<and> ent_consumed_by e = Some i"
  by (subst map_of_eq_Some_iff) (auto simp: consumed_entries_def ent_consumed_def image_iff)

lemma set_consumed_keys:
  "i \<in> set (map fst (consumed_entries es)) \<longleftrightarrow> (\<exists>e \<in> set es. ent_consumed_by e = Some i)"
  by (force simp: consumed_entries_def ent_consumed_def image_iff)

section \<open>Evidence of one commit\<close>

text \<open>No unconsumed scan candidate of the same incarnation has a higher fence.\<close>

definition same_incarnation :: "ArtifactHoldExpiryCandidate \<Rightarrow> ArtifactHoldExpiryCandidate \<Rightarrow> bool" where
  "same_incarnation c d \<longleftrightarrow> cand_artifact_id d = cand_artifact_id c \<and> cand_hold_id d = cand_hold_id c \<and>
     cand_expected_hold_digest d = cand_expected_hold_digest c \<and> cand_observed_expires_ms d = cand_observed_expires_ms c"

definition no_newer :: "ArtifactHoldExpiryLedgerState \<Rightarrow> ArtifactHoldExpiryCandidate \<Rightarrow> bool" where
  "no_newer l c \<longleftrightarrow> (\<forall>e \<in> set (led_candidate_entries l). \<not> ent_consumed e \<longrightarrow> \<not> replayed l (ent_candidate e) \<longrightarrow>
     same_incarnation c (ent_candidate e) \<longrightarrow> entry_fence e \<le> cand_candidate_fencing_token c)"

lemma no_newer_iff:
  assumes "ledger_ok dumps l"
  shows "all_ok (concat (map (later_entry_checks l c) (led_candidate_entries l))) \<longleftrightarrow> no_newer l c"
proof -
  have "all_ok (later_entry_checks l c e) \<longleftrightarrow> (\<not> ent_consumed e \<longrightarrow> \<not> replayed l (ent_candidate e) \<longrightarrow>
      same_incarnation c (ent_candidate e) \<longrightarrow> entry_fence e \<le> cand_candidate_fencing_token c)" for e
    by (auto simp: later_entry_checks_def is_replay_candidate_eq [OF assms] same_incarnation_def entry_fence_def Let_def)
  then show ?thesis by (simp add: no_newer_def)
qed

text \<open>The hold is the committed one, in its terminal state.\<close>

definition terminal_for ::
    "ArtifactHoldState \<Rightarrow> ArtifactHoldExpiryCommit \<Rightarrow> ArtifactHoldExpiryCandidate \<Rightarrow> ArtifactHoldExpiryResult \<Rightarrow> bool" where
  "terminal_for s k c r \<longleftrightarrow> hold_hold_digest s = com_expected_hold_digest k \<and>
     hold_expires_ms s = Some (cand_observed_expires_ms c) \<and> hold_hold_status s = EXPIRED \<and>
     hold_hold_id s |\<notin>| hold_active_hold_ids s \<and> \<not> hold_due_indexed s \<and> hold_due_score_ms s = None \<and>
     hold_candidate s = None \<and> eres_artifact_version r \<le> hold_artifact_version s \<and>
     (hold_artifact_version s = eres_artifact_version r \<longrightarrow>
        com_remaining_active_hold_count k = int (fcard (hold_active_hold_ids s)) \<and>
        com_active_ref_count k = hold_active_ref_count s \<and>
        com_minimum_delete_at_ms k = hold_minimum_delete_at_ms s \<and>
        eres_retention_locked r = retention_lock s (com_committed_at_ms k))"

definition about_hold :: "ArtifactHoldState \<Rightarrow> ArtifactHoldExpiryResult \<Rightarrow> bool" where
  "about_hold s r \<longleftrightarrow> eres_artifact_id r = hold_artifact_id s \<and> eres_hold_id r = hold_hold_id s"

lemma current_hold_iff:
  "int_from 0 (com_committed_at_ms k) \<Longrightarrow>
     all_ok (current_hold_checks s k c r) \<longleftrightarrow> (about_hold s r \<longrightarrow> terminal_for s k c r)"
  by (auto simp: current_hold_checks_def about_hold_def terminal_for_def retention_locked_at_eq)

definition evidence_ok ::
    "(json \<Rightarrow> bytes option) \<Rightarrow> ArtifactHoldExpiryCASState \<Rightarrow> ArtifactHoldExpiryCommit
     \<Rightarrow> ArtifactHoldExpiryCandidateLedgerEntry \<Rightarrow> bool" where
  "evidence_ok dumps st k e \<longleftrightarrow> (let c = ent_candidate e in
     ent_consumed_at_ms e = Some (com_committed_at_ms k) \<and>
     com_authorized_reaper_fencing_token k = cand_candidate_fencing_token c \<and>
     cand_candidate_digest c = com_authorized_candidate_digest k \<and>
     cand_issued_at_ms c \<le> com_committed_at_ms k \<and> com_committed_at_ms k < cand_lease_until_ms c \<and>
     cand_observed_expires_ms c \<le> com_committed_at_ms k \<and>
     (\<exists>q r. expiry_request_create dumps c = Inr q \<and>
        validate_result_for_request dumps k q (cand_owner_principal_id c) (cand_candidate_fencing_token c)
          REAPER_COMPONENT_TYPE EXPIRY_SUBJECT None = Inr r \<and>
        no_newer (cas_candidate_ledger st) c \<and>
        (\<exists>a. event_create dumps AUDIT k = Inr a \<and> count_list (cas_audit_records st) a = 1) \<and>
        (\<exists>p. event_create dumps OUTBOX k = Inr p \<and> count_list (cas_outbox_records st) p = 1) \<and>
        (about_hold (cas_hold_state st) r \<longrightarrow> terminal_for (cas_hold_state st) k c r)))"

lemma validated_result:
  "validate_result_for_request dumps k q p f ct sj v = Inr r \<Longrightarrow>
     expiry_result_from_json dumps (com_result_json k) = Inr r \<and> int_from 0 (com_committed_at_ms k) \<and>
     all_ok (commit_checks dumps k)"
  by (simp add: validate_result_iff commit_iff commit_fields_ok_def)

lemma evidence_iff:
  assumes L: "ledger_ok dumps (cas_candidate_ledger st)"
    and d: "distinct (map fst (consumed_entries (led_candidate_entries (cas_candidate_ledger st))))"
  shows "all_ok (commit_evidence_checks dumps st k) \<longleftrightarrow>
    (\<exists>e \<in> set (led_candidate_entries (cas_candidate_ledger st)).
       ent_consumed_by e = Some (com_expire_operation_id k) \<and> evidence_ok dumps st k e)"
proof (cases "map_of (consumed_entries (led_candidate_entries (cas_candidate_ledger st))) (com_expire_operation_id k)")
  case None
  have "\<not> (\<exists>e \<in> set (led_candidate_entries (cas_candidate_ledger st)). ent_consumed_by e = Some (com_expire_operation_id k))"
    using None consumed_lookup [OF d] by (metis option.distinct(1))
  with None show ?thesis by (auto simp: commit_evidence_checks_def)
next
  case (Some e)
  have u: "e' = e" if "e' \<in> set (led_candidate_entries (cas_candidate_ledger st))"
      "ent_consumed_by e' = Some (com_expire_operation_id k)" for e'
    using that Some consumed_lookup [OF d] by (metis option.inject)
  have e: "e \<in> set (led_candidate_entries (cas_candidate_ledger st))" "ent_consumed_by e = Some (com_expire_operation_id k)"
    using Some consumed_lookup [OF d] by blast+
  have "all_ok (commit_evidence_checks dumps st k) \<longleftrightarrow> evidence_ok dumps st k e"
    using Some no_newer_iff [OF L, of "ent_candidate e"] validated_result
    by (fastforce simp: commit_evidence_checks_def evidence_ok_def Let_def current_hold_iff)
  with e u show ?thesis by blast
qed

section \<open>The whole snapshot\<close>

definition claim_matches_commit ::
    "(json \<Rightarrow> bytes option) \<Rightarrow> ArtifactHoldState \<Rightarrow> replay_pair \<Rightarrow> ArtifactHoldExpiryCommit \<Rightarrow> bool" where
  "claim_matches_commit dumps s p k \<longleftrightarrow> (let c = rres_candidate (snd p) in
     rreq_base_commit_digest (fst p) = com_commit_digest k \<and> rres_base_commit_digest (snd p) = com_commit_digest k \<and>
     (\<exists>r. expiry_result_from_json dumps (com_result_json k) = Inr r \<and>
        cand_owner_principal_id c = com_authorized_reaper_principal_id k \<and> cand_artifact_id c = eres_artifact_id r \<and>
        cand_hold_id c = eres_hold_id r) \<and>
     cand_expected_hold_digest c = com_expected_hold_digest k \<and>
     cand_expected_artifact_version c = com_previous_artifact_version k \<and>
     hold_expires_ms s = Some (cand_observed_expires_ms c) \<and>
     com_authorized_reaper_fencing_token k < cand_candidate_fencing_token c \<and>
     com_committed_at_ms k \<le> cand_issued_at_ms c \<and>
     hold_hold_status s = EXPIRED \<and> \<not> hold_due_indexed s \<and> hold_candidate s = None)"

lemma replay_commit_iff:
  assumes "distinct (map com_expire_operation_id (cas_commits st))"
  shows "all_ok (replay_commit_checks dumps st p) \<longleftrightarrow>
    (\<exists>k \<in> set (cas_commits st). com_expire_operation_id k = rreq_expire_operation_id (fst p) \<and>
       claim_matches_commit dumps (cas_hold_state st) p k)"
proof (cases "commit_by_operation (cas_commits st) (rreq_expire_operation_id (fst p))")
  case None
  then have "\<not> (\<exists>k \<in> set (cas_commits st). com_expire_operation_id k = rreq_expire_operation_id (fst p))"
    using map_of_key [OF assms, of "rreq_expire_operation_id (fst p)"] unfolding commit_by_operation_def
    by (metis option.distinct(1))
  with None show ?thesis by (auto simp: replay_commit_checks_def Let_def)
next
  case (Some k)
  have k: "k' \<in> set (cas_commits st) \<and> com_expire_operation_id k' = rreq_expire_operation_id (fst p) \<longleftrightarrow> k' = k" for k'
    using Some map_of_key [OF assms, of "rreq_expire_operation_id (fst p)" k'] unfolding commit_by_operation_def by auto
  have "all_ok (replay_commit_checks dumps st p) \<longleftrightarrow> claim_matches_commit dumps (cas_hold_state st) p k"
    using Some by (auto simp: replay_commit_checks_def claim_matches_commit_def Let_def)
  with k show ?thesis by metis
qed

definition cas_ok :: "(json \<Rightarrow> bytes option) \<Rightarrow> ArtifactHoldExpiryCASState \<Rightarrow> bool" where
  "cas_ok dumps st \<longleftrightarrow> (let l = cas_candidate_ledger st; es = led_candidate_entries l; ks = cas_commits st in
     all_ok (hold_state_checks dumps (cas_hold_state st)) \<and> ledger_ok dumps l \<and> projection_ok st \<and>
     (\<forall>k \<in> set ks. all_ok (commit_checks dumps k)) \<and> distinct (map com_expire_operation_id ks) \<and>
     (\<forall>p \<in> set (replay_pairs l). \<exists>k \<in> set ks. com_expire_operation_id k = rreq_expire_operation_id (fst p) \<and>
        claim_matches_commit dumps (cas_hold_state st) p k) \<and>
     distinct (map fst (consumed_entries es)) \<and>
     set (map fst (consumed_entries es)) = set (map com_expire_operation_id ks) \<and>
     (\<forall>k \<in> set ks. \<exists>e \<in> set es. ent_consumed_by e = Some (com_expire_operation_id k) \<and> evidence_ok dumps st k e) \<and>
     length (cas_audit_records st) = length ks \<and> length (cas_outbox_records st) = length ks \<and>
     (\<forall>r \<in> set (cas_audit_records st). evt_sink r = AUDIT \<and> all_ok (event_checks dumps r)) \<and>
     (\<forall>r \<in> set (cas_outbox_records st). evt_sink r = OUTBOX \<and> all_ok (event_checks dumps r)))"

lemma record_loop_iff:
  "all_ok (record_loop_checks dumps sink m rs) \<longleftrightarrow> (\<forall>r \<in> set rs. evt_sink r = sink \<and> all_ok (event_checks dumps r))"
  by (auto simp: record_loop_checks_def)

theorem cas_iff: "all_ok (cas_checks dumps st) \<longleftrightarrow> cas_ok dumps st"
proof -
  let ?l = "cas_candidate_ledger st"
  have c: "all_ok (commit_loop_checks dumps [] ks) \<longleftrightarrow>
      (\<forall>k \<in> set ks. all_ok (commit_checks dumps k)) \<and> distinct (map com_expire_operation_id ks)" for ks
    by (simp add: commit_loop_iff)
  have d: "all_ok (consumed_loop_checks [] es) \<longleftrightarrow> distinct (map fst (consumed_entries es))" for es
    by (simp add: consumed_loop_iff)
  have p: "distinct (map com_expire_operation_id (cas_commits st)) \<Longrightarrow>
      all_ok (concat (map (replay_commit_checks dumps st) (replay_pairs ?l))) \<longleftrightarrow>
      (\<forall>p \<in> set (replay_pairs ?l). \<exists>k \<in> set (cas_commits st).
        com_expire_operation_id k = rreq_expire_operation_id (fst p) \<and> claim_matches_commit dumps (cas_hold_state st) p k)"
    by (simp add: replay_commit_iff)
  have e: "ledger_ok dumps ?l \<Longrightarrow> distinct (map fst (consumed_entries (led_candidate_entries ?l))) \<Longrightarrow>
      all_ok (concat (map (commit_evidence_checks dumps st) (cas_commits st))) \<longleftrightarrow>
      (\<forall>k \<in> set (cas_commits st). \<exists>e \<in> set (led_candidate_entries ?l).
         ent_consumed_by e = Some (com_expire_operation_id k) \<and> evidence_ok dumps st k e)"
    by (simp add: evidence_iff)
  show ?thesis
    using p e projection_iff [of dumps st]
    unfolding cas_checks_def cas_ok_def Let_def all_ok_append ledger_iff c d record_loop_iff all_ok.simps by argo
qed

subsection \<open>Consequences\<close>

lemma cas_okD:
  assumes "cas_ok dumps st"
  shows "all_ok (hold_state_checks dumps (cas_hold_state st))" and "ledger_ok dumps (cas_candidate_ledger st)"
    and "projection_ok st" and "\<And>k. k \<in> set (cas_commits st) \<Longrightarrow> all_ok (commit_checks dumps k)"
    and "distinct (map com_expire_operation_id (cas_commits st))"
    and "distinct (map fst (consumed_entries (led_candidate_entries (cas_candidate_ledger st))))"
    and "set (map fst (consumed_entries (led_candidate_entries (cas_candidate_ledger st)))) =
      set (map com_expire_operation_id (cas_commits st))"
  using assms unfolding cas_ok_def Let_def by blast+

lemma cas_claim_commit:
  assumes "cas_ok dumps st" and "p \<in> set (replay_pairs (cas_candidate_ledger st))"
  shows "\<exists>k \<in> set (cas_commits st). com_expire_operation_id k = rreq_expire_operation_id (fst p) \<and>
    claim_matches_commit dumps (cas_hold_state st) p k"
  using assms unfolding cas_ok_def Let_def by blast

lemma cas_evidence:
  assumes "cas_ok dumps st" and "k \<in> set (cas_commits st)"
  shows "\<exists>e \<in> set (led_candidate_entries (cas_candidate_ledger st)).
    ent_consumed_by e = Some (com_expire_operation_id k) \<and> evidence_ok dumps st k e"
  using assms unfolding cas_ok_def Let_def by blast

lemma commit_for_iff:
  assumes "cas_ok dumps st" and "lower_sha256 i"
  shows "commit_for st i = Inr None \<longleftrightarrow> i \<notin> set (commit_ids st)"
    and "commit_for st i = Inr (Some k) \<longleftrightarrow> k \<in> set (cas_commits st) \<and> com_expire_operation_id k = i"
    and "\<exists>x. commit_for st i = Inr x"
proof -
  let ?f = "filter (\<lambda>k. com_expire_operation_id k = i) (cas_commits st)"
  have one: "?f = [k]" if "k \<in> set (cas_commits st)" "com_expire_operation_id k = i" for k
    using distinct_filter_key [OF cas_okD(5) [OF assms(1)], of k] that by simp
  have none: "?f = [] \<longleftrightarrow> i \<notin> set (commit_ids st)" by (auto simp: commit_ids_def filter_empty_conv)
  have cases: "?f = [] \<or> (\<exists>k. ?f = [k])"
  proof (cases "?f = []")
    case False
    then obtain k where "k \<in> set ?f" by (cases ?f) auto
    then show ?thesis using one by auto
  qed simp
  have eq: "commit_for st i = (if ?f = [] then Inr None else Inr (Some (hd ?f)))"
    using cases assms(2) by (auto simp: commit_for_def checked_all_ok)
  show "commit_for st i = Inr None \<longleftrightarrow> i \<notin> set (commit_ids st)" unfolding eq none [symmetric] by simp
  show "\<exists>x. commit_for st i = Inr x" unfolding eq by simp
  show "commit_for st i = Inr (Some k) \<longleftrightarrow> k \<in> set (cas_commits st) \<and> com_expire_operation_id k = i"
  proof
    assume "commit_for st i = Inr (Some k)"
    then have "?f \<noteq> []" "hd ?f = k" unfolding eq by (auto split: if_splits)
    then have "k \<in> set ?f" using hd_in_set by blast
    then show "k \<in> set (cas_commits st) \<and> com_expire_operation_id k = i" by simp
  next
    assume "k \<in> set (cas_commits st) \<and> com_expire_operation_id k = i"
    then have "?f = [k]" using one by blast
    then show "commit_for st i = Inr (Some k)" unfolding eq by simp
  qed
qed

end
