(* ===== verification/ExpireFacts.thy ===== *)
theory ExpireFacts
  imports HoldOps CasFacts
begin

text \<open>
  EXPIRE on a valid snapshot: the snapshot \<open>apply_artifact_hold_expiry\<close> builds is valid again, so its
  closing \<open>updated.validate()\<close> cannot fail, and the operation succeeds exactly when its guards hold.
\<close>

section \<open>The new snapshot\<close>

definition expired_snapshot ::
    "ArtifactHoldExpiryCASState \<Rightarrow> ArtifactHoldExpiryCandidateLedgerEntry \<Rightarrow> ArtifactHoldExpiryCommit
     \<Rightarrow> ArtifactHoldExpiryEventRecord \<Rightarrow> ArtifactHoldExpiryEventRecord \<Rightarrow> ArtifactHoldExpiryCASState" where
  "expired_snapshot st e k a p = st \<lparr> cas_hold_state := expired_hold (cas_hold_state st),
     cas_candidate_ledger := consume (cas_candidate_ledger st) e (com_expire_operation_id k) (com_committed_at_ms k),
     cas_commits := cas_commits st @ [k], cas_audit_records := cas_audit_records st @ [a],
     cas_outbox_records := cas_outbox_records st @ [p] \<rparr>"

lemma expired_snapshot_simps [simp]:
  "cas_hold_state (expired_snapshot st e k a p) = expired_hold (cas_hold_state st)"
  "cas_candidate_ledger (expired_snapshot st e k a p) =
     consume (cas_candidate_ledger st) e (com_expire_operation_id k) (com_committed_at_ms k)"
  "cas_commits (expired_snapshot st e k a p) = cas_commits st @ [k]"
  "cas_audit_records (expired_snapshot st e k a p) = cas_audit_records st @ [a]"
  "cas_outbox_records (expired_snapshot st e k a p) = cas_outbox_records st @ [p]"
  by (simp_all add: expired_snapshot_def)

lemma expired_hold_simps [simp]:
  "hold_artifact_id (expired_hold s) = hold_artifact_id s" "hold_hold_id (expired_hold s) = hold_hold_id s"
  "hold_hold_digest (expired_hold s) = hold_hold_digest s" "hold_hold_status (expired_hold s) = EXPIRED"
  "hold_expires_ms (expired_hold s) = hold_expires_ms s" "hold_due_indexed (expired_hold s) = False"
  "hold_due_score_ms (expired_hold s) = None" "hold_candidate (expired_hold s) = None"
  "hold_artifact_version (expired_hold s) = hold_artifact_version s + 1"
  "hold_artifact_status (expired_hold s) = hold_artifact_status s"
  "hold_active_hold_ids (expired_hold s) = hold_active_hold_ids s |-| {| hold_hold_id s |}"
  "hold_active_ref_count (expired_hold s) = hold_active_ref_count s"
  "hold_minimum_delete_at_ms (expired_hold s) = hold_minimum_delete_at_ms s"
  by (simp_all add: expired_hold_def)

lemma expired_hold_valid:
  assumes "all_ok (hold_state_checks dumps s)"
  shows "all_ok (hold_state_checks dumps (expired_hold s)) \<longleftrightarrow> hold_artifact_version s < MAX_SAFE_INTEGER"
  using assms by (auto simp: hold_state_iff hold_fields_ok_def is_finite_active_def int_from_def)

lemma no_claims_unless_expired:
  assumes "cas_ok dumps st" and "hold_hold_status (cas_hold_state st) \<noteq> EXPIRED"
  shows "replay_pairs (cas_candidate_ledger st) = []"
proof -
  have "p \<notin> set (replay_pairs (cas_candidate_ledger st))" for p
    using cas_claim_commit [OF assms(1), of p] assms(2) by (auto simp: claim_matches_commit_def Let_def)
  then show ?thesis by (metis list.set_intros(1) neq_Nil_conv)
qed

lemma consumed_replace:
  assumes "\<not> ent_consumed e" and "ent_consumed_by e' = Some i" and "e \<in> set es"
  shows "\<exists>xs ys. map fst (consumed_entries es) = xs @ ys \<and> map fst (consumed_entries (replace_first e e' es)) = xs @ i # ys"
  using assms(3)
proof (induction es)
  case (Cons x es)
  show ?case
  proof (cases "x = e")
    case True
    with assms show ?thesis
      by (intro exI [of _ "[]"] exI [of _ "map fst (consumed_entries es)"]) (simp add: consumed_entries_def ent_consumed_def)
  next
    case False
    with Cons obtain xs ys where "map fst (consumed_entries es) = xs @ ys"
      "map fst (consumed_entries (replace_first e e' es)) = xs @ i # ys" by auto
    with False show ?thesis
      by (intro exI [of _ "(if ent_consumed x then [the (ent_consumed_by x)] else []) @ xs"] exI [of _ ys])
        (simp add: consumed_entries_def)
  qed
qed simp

lemma replayed_consume [simp]: "replayed (consume l e i t) c \<longleftrightarrow> replayed l c"
  by (simp add: replayed_def)

lemma no_newer_consume:
  assumes "ledger_ok dumps l" and "e \<in> set (led_candidate_entries l)" and "no_newer l c"
  shows "no_newer (consume l e i t) c"
  using assms set_replace_first [OF entries_list_distinct [OF assms(1)] assms(2)] by (auto simp: no_newer_def)

lemma count_list_snoc: "count_list (xs @ [y]) x = count_list xs x + (if x = y then 1 else 0)"
  by (induction xs) auto

lemma count_list_fresh: "x \<notin> set xs \<Longrightarrow> count_list (xs @ [x]) x = 1"
  by (simp add: count_list_snoc count_list_0_iff)

text \<open>The records of one commit never name another commit's operation.\<close>

lemma event_of_other:
  assumes "event_create dumps sink k = Inr a" and "event_create dumps sink' k' = Inr b"
    and "com_expire_operation_id k \<noteq> com_expire_operation_id k'"
  shows "a \<noteq> b"
  using event_created_facts [OF assms(1)] event_created_facts [OF assms(2)] assms(3) by auto

text \<open>Every persisted record belongs to a persisted commit.\<close>

lemma counted_cover:
  assumes "distinct ys" and "\<forall>y \<in> set ys. count_list xs y = 1" and "length xs = length ys"
  shows "set xs = set ys"
proof -
  have "set ys \<subseteq> set xs" using assms(2) by (metis count_notin subsetI zero_neq_one)
  moreover have "card (set ys) = length ys" using assms(1) by (rule distinct_card)
  moreover have "card (set xs) \<le> length xs" by (rule card_length)
  ultimately show ?thesis using assms(3) by (metis List.finite_set card_seteq)
qed

lemma records_cover:
  assumes d: "distinct (map com_expire_operation_id ks)"
    and one: "\<forall>k \<in> set ks. \<exists>a. event_create dumps sink k = Inr a \<and> count_list rs a = 1"
    and len: "length rs = length ks" and r: "r \<in> set rs"
  shows "\<exists>k \<in> set ks. event_create dumps sink k = Inr r"
proof -
  obtain ev where ev: "\<forall>k \<in> set ks. event_create dumps sink k = Inr (ev k) \<and> count_list rs (ev k) = 1"
    using one by metis
  have op: "evt_expire_operation_id (ev k) = com_expire_operation_id k" if "k \<in> set ks" for k
    using ev that event_created_facts by blast
  have "map (evt_expire_operation_id \<circ> ev) ks = map com_expire_operation_id ks" using op by simp
  then have "distinct (map ev ks)" using d by (metis distinct_map map_map)
  moreover have "\<forall>y \<in> set (map ev ks). count_list rs y = 1" using ev by simp
  ultimately have "set rs = set (map ev ks)" using len by (intro counted_cover) simp_all
  with r ev show ?thesis by auto
qed

lemma cas_records_cover:
  assumes "cas_ok dumps st"
  shows "r \<in> set (cas_audit_records st) \<Longrightarrow> \<exists>k \<in> set (cas_commits st). event_create dumps AUDIT k = Inr r"
    and "r \<in> set (cas_outbox_records st) \<Longrightarrow> \<exists>k \<in> set (cas_commits st). event_create dumps OUTBOX k = Inr r"
proof -
  have one: "(\<exists>a. event_create dumps AUDIT k = Inr a \<and> count_list (cas_audit_records st) a = 1) \<and>
      (\<exists>p. event_create dumps OUTBOX k = Inr p \<and> count_list (cas_outbox_records st) p = 1)"
    if "k \<in> set (cas_commits st)" for k
    using cas_evidence [OF assms that] by (auto simp: evidence_ok_def Let_def)
  have len: "length (cas_audit_records st) = length (cas_commits st)" "length (cas_outbox_records st) = length (cas_commits st)"
    using assms by (simp_all add: cas_ok_def Let_def)
  show "r \<in> set (cas_audit_records st) \<Longrightarrow> \<exists>k \<in> set (cas_commits st). event_create dumps AUDIT k = Inr r"
    using records_cover [OF cas_okD(5) [OF assms] _ len(1)] one by blast
  show "r \<in> set (cas_outbox_records st) \<Longrightarrow> \<exists>k \<in> set (cas_commits st). event_create dumps OUTBOX k = Inr r"
    using records_cover [OF cas_okD(5) [OF assms] _ len(2)] one by blast
qed

text \<open>A record of a new commit is new.\<close>

lemma fresh_record:
  assumes "cas_ok dumps st" and "com_expire_operation_id k \<notin> set (commit_ids st)"
  shows "event_create dumps AUDIT k = Inr a \<Longrightarrow> a \<notin> set (cas_audit_records st)"
    and "event_create dumps OUTBOX k = Inr a \<Longrightarrow> a \<notin> set (cas_outbox_records st)"
  using cas_records_cover [OF assms(1), of a] event_of_other assms(2) unfolding commit_ids_def by fastforce+

section \<open>The new snapshot is valid\<close>

text \<open>What EXPIRE has established when it builds the new snapshot.\<close>

definition expire_step ::
    "(json \<Rightarrow> bytes option) \<Rightarrow> ArtifactHoldExpiryCASState \<Rightarrow> ArtifactHoldExpiryRequest
     \<Rightarrow> ArtifactHoldExpiryCandidateLedgerEntry \<Rightarrow> ArtifactHoldExpiryResult \<Rightarrow> ArtifactHoldExpiryCommit
     \<Rightarrow> ArtifactHoldExpiryEventRecord \<Rightarrow> ArtifactHoldExpiryEventRecord \<Rightarrow> int \<Rightarrow> bool" where
  "expire_step dumps st q e r k a p now \<longleftrightarrow> cas_ok dumps st \<and>
     e \<in> set (led_candidate_entries (cas_candidate_ledger st)) \<and> \<not> ent_consumed e \<and>
     hold_candidate (cas_hold_state st) = Some (ent_candidate e) \<and> request_matches q (ent_candidate e) \<and>
     all_ok (expiry_request_checks dumps q) \<and> ereq_expire_operation_id q \<notin> set (commit_ids st) \<and> int_from 0 now \<and>
     all_ok (hold_state_checks dumps (expired_hold (cas_hold_state st))) \<and>
     commit_create dumps q r (cas_hold_state st) (expired_hold (cas_hold_state st)) now = Inr k \<and>
     eres_retention_locked r = retention_lock (expired_hold (cas_hold_state st)) now \<and>
     event_create dumps AUDIT k = Inr a \<and> event_create dumps OUTBOX k = Inr p"

lemma validated_commit_id:
  "validate_result_for_request dumps k q pr f ct sj v = Inr r \<Longrightarrow> com_expire_operation_id k = ereq_expire_operation_id q"
  unfolding validate_result_iff commit_for_request_def by blast

context canonical_encoder
begin

lemma expire_step_facts:
  assumes "expire_step dumps st q e r k a p now"
  shows "com_expire_operation_id k = ereq_expire_operation_id q" and "com_committed_at_ms k = now"
    and "hold_hold_status (cas_hold_state st) = ACTIVE"
    and "validate_result_for_request dumps k q (cand_owner_principal_id (ent_candidate e))
      (cand_candidate_fencing_token (ent_candidate e)) REAPER_COMPONENT_TYPE EXPIRY_SUBJECT None = Inr r"
    and "transition_evidence r (ent_candidate e) (cas_hold_state st) (expired_hold (cas_hold_state st)) now"
    and "com_authorized_candidate_digest k = cand_candidate_digest (ent_candidate e)"
    and "com_authorized_reaper_fencing_token k = cand_candidate_fencing_token (ent_candidate e)"
    and "com_remaining_active_hold_count k = int (fcard (hold_active_hold_ids (expired_hold (cas_hold_state st))))"
    and "com_active_ref_count k = hold_active_ref_count (cas_hold_state st)"
    and "com_minimum_delete_at_ms k = hold_minimum_delete_at_ms (cas_hold_state st)"
    and "all_ok (commit_checks dumps k)" and "expiry_result_from_json dumps (com_result_json k) = Inr r"
proof -
  let ?s = "cas_hold_state st" and ?c = "ent_candidate e"
  have hc: "hold_candidate ?s = Some ?c" and kc: "commit_create dumps q r ?s (expired_hold ?s) now = Inr k"
    using assms by (simp_all add: expire_step_def)
  from commit_created_facts [OF kc] hc
  have f: "transition_evidence r ?c ?s (expired_hold ?s) now \<and>
      validate_result_for_request dumps k q (cand_owner_principal_id ?c) (cand_candidate_fencing_token ?c)
        REAPER_COMPONENT_TYPE EXPIRY_SUBJECT None = Inr r \<and>
      com_authorized_candidate_digest k = cand_candidate_digest ?c \<and>
      com_authorized_reaper_fencing_token k = cand_candidate_fencing_token ?c \<and>
      com_remaining_active_hold_count k = int (fcard (hold_active_hold_ids (expired_hold ?s))) \<and>
      com_active_ref_count k = hold_active_ref_count (expired_hold ?s) \<and>
      com_minimum_delete_at_ms k = hold_minimum_delete_at_ms (expired_hold ?s) \<and> com_committed_at_ms k = now"
    by (elim exE conjE) (simp only: option.inject simp_thms)
  then show v: "validate_result_for_request dumps k q (cand_owner_principal_id ?c) (cand_candidate_fencing_token ?c)
      REAPER_COMPONENT_TYPE EXPIRY_SUBJECT None = Inr r" by blast
  show "com_expire_operation_id k = ereq_expire_operation_id q" by (rule validated_commit_id [OF v])
  show t: "transition_evidence r ?c ?s (expired_hold ?s) now" using f by blast
  then show "hold_hold_status ?s = ACTIVE" unfolding transition_evidence_iff by blast
  show "all_ok (commit_checks dumps k)" "expiry_result_from_json dumps (com_result_json k) = Inr r"
    using validated_result [OF v] by blast+
  show "com_committed_at_ms k = now" "com_authorized_candidate_digest k = cand_candidate_digest ?c"
    "com_authorized_reaper_fencing_token k = cand_candidate_fencing_token ?c"
    "com_remaining_active_hold_count k = int (fcard (hold_active_hold_ids (expired_hold ?s)))"
    "com_active_ref_count k = hold_active_ref_count ?s" "com_minimum_delete_at_ms k = hold_minimum_delete_at_ms ?s"
    using f by simp_all
qed

text \<open>The commits that were there keep their evidence.\<close>

lemma old_evidence:
  assumes x: "expire_step dumps st q e r k a p now" and k': "k' \<in> set (cas_commits st)"
  shows "\<exists>e' \<in> set (led_candidate_entries (cas_candidate_ledger (expired_snapshot st e k a p))).
    ent_consumed_by e' = Some (com_expire_operation_id k') \<and> evidence_ok dumps (expired_snapshot st e k a p) k' e'"
proof -
  note F = expire_step_facts [OF x]
  have C: "cas_ok dumps st" and e: "e \<in> set (led_candidate_entries (cas_candidate_ledger st))" "\<not> ent_consumed e"
    and new: "com_expire_operation_id k \<notin> set (commit_ids st)"
    and ev: "event_create dumps AUDIT k = Inr a" "event_create dumps OUTBOX k = Inr p"
    using x F(1) by (simp_all add: expire_step_def)
  note L = cas_okD(2) [OF C]
  obtain e' where e': "e' \<in> set (led_candidate_entries (cas_candidate_ledger st))"
      "ent_consumed_by e' = Some (com_expire_operation_id k')" "evidence_ok dumps st k' e'"
    using cas_evidence [OF C k'] by blast
  have "e' \<noteq> e" using e'(2) e(2) by (auto simp: ent_consumed_def)
  then have mem: "e' \<in> set (led_candidate_entries (cas_candidate_ledger (expired_snapshot st e k a p)))"
    using e' set_replace_first [OF entries_list_distinct [OF L] e(1)] by simp
  have op: "com_expire_operation_id k' \<noteq> com_expire_operation_id k" using k' new unfolding commit_ids_def by (metis image_eqI list.set_map)
  obtain q' r' a' p' where w: "expiry_request_create dumps (ent_candidate e') = Inr q'"
      "validate_result_for_request dumps k' q' (cand_owner_principal_id (ent_candidate e'))
        (cand_candidate_fencing_token (ent_candidate e')) REAPER_COMPONENT_TYPE EXPIRY_SUBJECT None = Inr r'"
      "no_newer (cas_candidate_ledger st) (ent_candidate e')"
      "event_create dumps AUDIT k' = Inr a'" "count_list (cas_audit_records st) a' = 1"
      "event_create dumps OUTBOX k' = Inr p'" "count_list (cas_outbox_records st) p' = 1"
      "about_hold (cas_hold_state st) r' \<longrightarrow> terminal_for (cas_hold_state st) k' (ent_candidate e') r'"
    using e'(3) by (auto simp: evidence_ok_def Let_def)
  have "\<not> about_hold (cas_hold_state st) r'" using w(8) F(3) by (auto simp: terminal_for_def)
  then have "\<not> about_hold (expired_hold (cas_hold_state st)) r'" by (simp add: about_hold_def)
  moreover have "count_list (cas_audit_records st @ [a]) a' = 1" "count_list (cas_outbox_records st @ [p]) p' = 1"
    using w event_of_other [OF w(4) ev(1) op] event_of_other [OF w(6) ev(2) op] by (simp_all add: count_list_snoc)
  ultimately have "evidence_ok dumps (expired_snapshot st e k a p) k' e'"
    using e'(3) w no_newer_consume [OF L e(1) w(3)] unfolding evidence_ok_def Let_def expired_snapshot_simps by blast
  with mem e'(2) show ?thesis by blast
qed

text \<open>The new commit has its evidence.\<close>

lemma new_evidence:
  assumes x: "expire_step dumps st q e r k a p now" and nn: "no_newer (cas_candidate_ledger st) (ent_candidate e)"
  shows "\<exists>e' \<in> set (led_candidate_entries (cas_candidate_ledger (expired_snapshot st e k a p))).
    ent_consumed_by e' = Some (com_expire_operation_id k) \<and> evidence_ok dumps (expired_snapshot st e k a p) k e'"
proof -
  note F = expire_step_facts [OF x]
  let ?s = "cas_hold_state st" and ?c = "ent_candidate e" and ?l = "cas_candidate_ledger st"
  let ?e = "consumed_entry e (com_expire_operation_id k) (com_committed_at_ms k)"
  have C: "cas_ok dumps st" and e: "e \<in> set (led_candidate_entries ?l)" "\<not> ent_consumed e"
    and hc: "hold_candidate ?s = Some ?c" and q: "all_ok (expiry_request_checks dumps q)" "request_matches q ?c"
    and new: "com_expire_operation_id k \<notin> set (commit_ids st)"
    and ev: "event_create dumps AUDIT k = Inr a" "event_create dumps OUTBOX k = Inr p"
    and ret: "eres_retention_locked r = retention_lock (expired_hold ?s) now"
    using x F(1) by (simp_all add: expire_step_def)
  note L = cas_okD(2) [OF C]
  have mem: "?e \<in> set (led_candidate_entries (cas_candidate_ledger (expired_snapshot st e k a p)))"
    using set_replace_first [OF entries_list_distinct [OF L] e(1)] by simp
  have s: "all_ok (candidate_checks dumps ?c)" "due_candidate ?s ?c"
    using cas_okD(1) [OF C] hc by (simp_all add: hold_state_iff)
  have "expiry_request_create dumps ?c = Inr q" using s(1) q by (simp add: expiry_request_created_iff)
  moreover have "no_newer (consume ?l e (com_expire_operation_id k) (com_committed_at_ms k)) ?c"
    by (rule no_newer_consume [OF L e(1) nn])
  moreover have "count_list (cas_audit_records st @ [a]) a = 1" "count_list (cas_outbox_records st @ [p]) p = 1"
    using fresh_record [OF C new] ev by (simp_all add: count_list_fresh)
  moreover have "terminal_for (expired_hold ?s) k ?c r"
    using F s(2) ret by (auto simp: terminal_for_def due_candidate_def transition_evidence_iff
        validate_result_iff commit_for_request_def request_matches_def q(2) [unfolded request_matches_def])
  moreover have "cand_observed_expires_ms ?c \<le> com_committed_at_ms k"
    "cand_issued_at_ms ?c \<le> com_committed_at_ms k" "com_committed_at_ms k < cand_lease_until_ms ?c"
    using F(2,5) s(2) by (auto simp: transition_evidence_iff due_candidate_def split: option.splits)
  ultimately have "evidence_ok dumps (expired_snapshot st e k a p) k ?e"
    using F(4,6,7) ev unfolding evidence_ok_def Let_def expired_snapshot_simps consumed_entry_simps by auto
  with mem show ?thesis by (intro bexI [of _ ?e]) simp_all
qed

lemma expired_snapshot_ok:
  assumes x: "expire_step dumps st q e r k a p now" and nn: "no_newer (cas_candidate_ledger st) (ent_candidate e)"
  shows "cas_ok dumps (expired_snapshot st e k a p)"
proof -
  let ?t = "expired_snapshot st e k a p" and ?l = "cas_candidate_ledger st"
  note F = expire_step_facts [OF x]
  have C: "cas_ok dumps st" and e: "e \<in> set (led_candidate_entries ?l)" "\<not> ent_consumed e"
    and new: "com_expire_operation_id k \<notin> set (commit_ids st)" and now: "int_from 0 now"
    and hs: "all_ok (hold_state_checks dumps (expired_hold (cas_hold_state st)))"
    and ev: "event_create dumps AUDIT k = Inr a" "event_create dumps OUTBOX k = Inr p"
    using x F(1) by (simp_all add: expire_step_def)
  have "lower_sha256 (com_expire_operation_id k)" using F(11) by (simp add: commit_iff commit_fields_ok_def)
  then have led: "ledger_ok dumps (cas_candidate_ledger ?t)"
    using consume_ok [OF cas_okD(2) [OF C] e(1)] now F(2) by simp
  have "projection_ok ?t" by (simp add: projection_ok_def Let_def)
  moreover obtain xs ys where keys: "map fst (consumed_entries (led_candidate_entries ?l)) = xs @ ys"
      "map fst (consumed_entries (led_candidate_entries (cas_candidate_ledger ?t))) = xs @ com_expire_operation_id k # ys"
    using consumed_replace [OF e(2) _ e(1), of "consumed_entry e (com_expire_operation_id k) (com_committed_at_ms k)"] by auto
  moreover have "replay_pairs (cas_candidate_ledger ?t) = []"
    using no_claims_unless_expired [OF C] F(3) by simp
  moreover have "set xs \<union> set ys = set (commit_ids st)" "distinct (xs @ ys)"
    using cas_okD(6,7) [OF C] keys(1) by (simp_all add: commit_ids_def)
  moreover have "\<forall>k' \<in> set (cas_commits ?t). \<exists>e' \<in> set (led_candidate_entries (cas_candidate_ledger ?t)).
      ent_consumed_by e' = Some (com_expire_operation_id k') \<and> evidence_ok dumps ?t k' e'"
    using old_evidence [OF x] new_evidence [OF x nn] by auto
  moreover have "\<forall>k' \<in> set (cas_commits ?t). all_ok (commit_checks dumps k')"
    using cas_okD(4) [OF C] F(11) by auto
  moreover have "distinct (map com_expire_operation_id (cas_commits ?t))"
    using cas_okD(5) [OF C] new by (simp add: commit_ids_def)
  moreover have "length (cas_audit_records ?t) = length (cas_commits ?t)" "length (cas_outbox_records ?t) = length (cas_commits ?t)"
    using C by (simp_all add: cas_ok_def Let_def)
  moreover have "\<forall>r \<in> set (cas_audit_records ?t). evt_sink r = AUDIT \<and> all_ok (event_checks dumps r)"
    "\<forall>r \<in> set (cas_outbox_records ?t). evt_sink r = OUTBOX \<and> all_ok (event_checks dumps r)"
    using C event_created_facts [OF ev(1)] event_created_facts [OF ev(2)] by (auto simp: cas_ok_def Let_def)
  ultimately show ?thesis using led hs new unfolding cas_ok_def Let_def commit_ids_def by (auto simp del: consume_simps(13))
qed

end

section \<open>EXPIRE succeeds exactly under its guard\<close>

text \<open>The guard of a first EXPIRE on a valid snapshot, in one place.\<close>

definition expire_guard ::
    "(json \<Rightarrow> bytes option) \<Rightarrow> ArtifactHoldExpiryCASState \<Rightarrow> ArtifactHoldExpiryRequest \<Rightarrow> int \<Rightarrow> caller \<Rightarrow> int
     \<Rightarrow> ArtifactHoldExpiryCandidate \<Rightarrow> bool" where
  "expire_guard dumps st q now who fence c \<longleftrightarrow> (let s = cas_hold_state st in
     all_ok (expiry_caller_checks dumps q now who fence) \<and> hold_candidate s = Some c \<and> request_matches q c \<and>
     hold_artifact_status s \<notin> {DELETING, DELETED} \<and> cand_observed_expires_ms c \<le> now \<and>
     cand_issued_at_ms c \<le> now \<and> now < cand_lease_until_ms c \<and>
     cal_principal who = cand_owner_principal_id c \<and> cal_instance who = cand_owner_instance_id c \<and>
     fence = cand_candidate_fencing_token c \<and> no_newer (cas_candidate_ledger st) c \<and>
     hold_artifact_version s < MAX_SAFE_INTEGER \<and>
     int (fcard (hold_active_hold_ids (expired_hold s))) \<le> MAX_SAFE_INTEGER)"

lemma candidate_entry_of_hold:
  assumes "cas_ok dumps st" and "hold_candidate (cas_hold_state st) = Some c"
  shows "\<exists>e. e \<in> set (led_candidate_entries (cas_candidate_ledger st)) \<and> ent_candidate e = c \<and> \<not> ent_consumed e \<and>
    candidate_entry_for (cas_candidate_ledger st) (cand_candidate_lease_id c) = Inr e"
  using cas_okD(3) [OF assms(1)] assms(2) candidate_entry_for_iff [OF cas_okD(2) [OF assms(1)]]
  by (auto simp: projection_ok_def Let_def)

lemma caller_checks_facts:
  "all_ok (expiry_caller_checks dumps q now who fence) \<Longrightarrow> all_ok (expiry_request_checks dumps q) \<and> int_from 0 now"
  by (simp add: expiry_caller_checks_def)

lemma hold_with_candidate:
  assumes "all_ok (hold_state_checks dumps s)" and "hold_candidate s = Some c"
  shows "all_ok (candidate_checks dumps c)" and "due_candidate s c" and "hold_hold_status s = ACTIVE"
    and "hold_due_indexed s" and "hold_due_score_ms s = hold_expires_ms s"
    and "hold_expires_ms s = Some (cand_observed_expires_ms c)" and "hold_hold_id s |\<in>| hold_active_hold_ids s"
  using assms by (auto simp: hold_state_iff is_finite_active_def due_candidate_def)

lemma predicate_iff:
  assumes "all_ok (hold_state_checks dumps s)" and "hold_candidate s = Some c"
  shows "all_ok (require_expiry_predicate dumps q s c now pr ins fence) \<longleftrightarrow>
    request_matches q c \<and> hold_artifact_status s \<notin> {DELETING, DELETED} \<and> cand_observed_expires_ms c \<le> now \<and>
    cand_issued_at_ms c \<le> now \<and> now < cand_lease_until_ms c \<and> pr = cand_owner_principal_id c \<and>
    ins = cand_owner_instance_id c \<and> fence = cand_candidate_fencing_token c"
  using hold_with_candidate [OF assms]
  by (auto simp: require_expiry_predicate_def request_matches_def due_candidate_def)

context canonical_encoder
begin

lemma project_succeeds:
  assumes C: "cas_ok dumps st" and g: "expire_guard dumps st q now who fence c"
  shows "\<exists>r k. project_artifact_hold_expiry dumps q (cas_hold_state st) now who fence =
      Inr (expired_hold (cas_hold_state st), r, k) \<and>
    commit_create dumps q r (cas_hold_state st) (expired_hold (cas_hold_state st)) now = Inr k \<and>
    all_ok (hold_state_checks dumps (expired_hold (cas_hold_state st))) \<and>
    eres_retention_locked r = retention_lock (expired_hold (cas_hold_state st)) now \<and>
    eres_artifact_version r = hold_artifact_version (cas_hold_state st) + 1"
proof -
  let ?s = "cas_hold_state st" and ?t = "expired_hold (cas_hold_state st)"
  note s = cas_okD(1) [OF C]
  have hc: "hold_candidate ?s = Some c" and cc: "all_ok (expiry_caller_checks dumps q now who fence)"
    and m: "request_matches q c" and v: "hold_artifact_version ?s < MAX_SAFE_INTEGER"
    and n: "int (fcard (hold_active_hold_ids ?t)) \<le> MAX_SAFE_INTEGER"
    using g unfolding expire_guard_def Let_def by blast+
  have t: "all_ok (hold_state_checks dumps ?t)" using expired_hold_valid [OF s] v by simp
  have q: "all_ok (expiry_request_checks dumps q)" "int_from 0 now" using caller_checks_facts [OF cc] by simp_all
  have hf: "hold_fields_ok ?s" using s by (simp add: hold_state_iff)
  note h = hold_with_candidate [OF s hc]
  obtain r where r: "expiry_result_create dumps (ereq_expire_operation_id q) (hold_artifact_id ?s) (hold_hold_id ?s)
      (ereq_request_digest q) (hold_artifact_version ?t) (retention_lock ?t now) = Inr r"
    "all_ok (expiry_result_checks dumps r)" "eres_expire_operation_id r = ereq_expire_operation_id q"
    "eres_artifact_id r = hold_artifact_id ?s" "eres_hold_id r = hold_hold_id ?s"
    "eres_request_digest r = ereq_request_digest q" "eres_artifact_version r = hold_artifact_version ?t"
    "eres_retention_locked r = retention_lock ?t now"
    using expiry_result_created [of "ereq_expire_operation_id q" "hold_artifact_id ?s" "hold_hold_id ?s"
        "ereq_request_digest q" "hold_artifact_version ?t" "retention_lock ?t now"] q(1) t hf
      expiry_request_digest_shape [OF q(1)]
    by (auto simp: expiry_request_iff expiry_request_id_shape hold_state_iff hold_fields_ok_def)
  have "transition_evidence r c ?s ?t now"
    using g h r(7) by (simp add: transition_evidence_iff expire_guard_def Let_def)
  then obtain k where k: "commit_create dumps q r ?s ?t now = Inr k"
    using commit_created [OF q(1) r(2) s t q(2) hc m r(3,6) _ _ _ r(8) n] r(4,5) h(2) m
    by (auto simp: request_matches_def due_candidate_def)
  have "project_artifact_hold_expiry dumps q ?s now who fence = Inr (?t, r, k)"
    using cc s hc t r(1) k g predicate_iff [OF s hc] retention_locked_at_eq [OF q(2)]
    by (simp add: project_artifact_hold_expiry_def expire_guard_def Let_def)
  with k t r show ?thesis by auto
qed

lemma expire_succeeds:
  assumes C: "cas_ok dumps st" and new: "ereq_expire_operation_id q \<notin> set (commit_ids st)"
    and g: "expire_guard dumps st q now who fence c"
  shows "\<exists>e r k a p. expire_step dumps st q e r k a p now \<and>
    apply_artifact_hold_expiry dumps q st now who fence = Inr (expired_snapshot st e k a p, r)"
proof -
  let ?s = "cas_hold_state st"
  have hc: "hold_candidate ?s = Some c" and cc: "all_ok (expiry_caller_checks dumps q now who fence)"
    and m: "request_matches q c" and nn: "no_newer (cas_candidate_ledger st) c"
    using g unfolding expire_guard_def Let_def by blast+
  have q: "all_ok (expiry_request_checks dumps q)" "int_from 0 now" using caller_checks_facts [OF cc] by simp_all
  obtain e where e: "e \<in> set (led_candidate_entries (cas_candidate_ledger st))" "ent_candidate e = c" "\<not> ent_consumed e"
      "candidate_entry_for (cas_candidate_ledger st) (cand_candidate_lease_id c) = Inr e"
    using candidate_entry_of_hold [OF C hc] by blast
  obtain r k where rk: "project_artifact_hold_expiry dumps q ?s now who fence = Inr (expired_hold ?s, r, k)"
      "commit_create dumps q r ?s (expired_hold ?s) now = Inr k"
      "all_ok (hold_state_checks dumps (expired_hold ?s))"
      "eres_retention_locked r = retention_lock (expired_hold ?s) now"
    using project_succeeds [OF C g] by blast
  obtain r' where "validate_result_for_request dumps k q (cand_owner_principal_id c) (cand_candidate_fencing_token c)
      REAPER_COMPONENT_TYPE EXPIRY_SUBJECT None = Inr r'"
    using commit_created_facts [OF rk(2)] hc by auto
  then have kc: "all_ok (commit_checks dumps k)" using validated_result by blast
  obtain a p where ev: "event_create dumps AUDIT k = Inr a" "event_create dumps OUTBOX k = Inr p"
    using event_created [OF kc] by blast
  have x: "expire_step dumps st q e r k a p now"
    using C e hc m q new rk ev by (simp add: expire_step_def)
  note F = expire_step_facts [OF x]
  have i: "lower_sha256 (ereq_expire_operation_id q)" using q(1) by (simp add: expiry_request_iff expiry_request_id_shape)
  have "consume_candidate dumps (cas_candidate_ledger st) q now =
      Inr (consume (cas_candidate_ledger st) e (ereq_expire_operation_id q) now)"
    using consume_candidate_eq [OF cas_okD(2) [OF C] q e(1,3)] m e(2) by simp
  moreover have "commit_for st (ereq_expire_operation_id q) = Inr None" using commit_for_iff(1) [OF C i] new by blast
  moreover have "all_ok (cas_checks dumps (expired_snapshot st e k a p))"
    using expired_snapshot_ok [OF x] nn e(2) by (simp add: cas_iff)
  moreover have "ereq_candidate_lease_id q = cand_candidate_lease_id c" using m by (simp add: request_matches_def)
  ultimately have "apply_artifact_hold_expiry dumps q st now who fence = Inr (expired_snapshot st e k a p, r)"
    using cc C e hc rk ev F(1,2)
    by (simp add: apply_artifact_hold_expiry_def cas_iff Let_def expired_snapshot_def)
  with x show ?thesis by blast
qed

lemma expire_needs_guard:
  assumes C: "cas_ok dumps st" and new: "ereq_expire_operation_id q \<notin> set (commit_ids st)"
    and ap: "apply_artifact_hold_expiry dumps q st now who fence = Inr (st', r)"
  shows "\<exists>c. expire_guard dumps st q now who fence c"
proof -
  let ?s = "cas_hold_state st" and ?l = "cas_candidate_ledger st"
  have cc: "all_ok (expiry_caller_checks dumps q now who fence)" using ap by (simp add: apply_artifact_hold_expiry_def Let_def)
  have q: "all_ok (expiry_request_checks dumps q)" "int_from 0 now" using caller_checks_facts [OF cc] by simp_all
  have i: "lower_sha256 (ereq_expire_operation_id q)" using q(1) by (simp add: expiry_request_iff expiry_request_id_shape)
  have none: "commit_for st (ereq_expire_operation_id q) = Inr None" using commit_for_iff(1) [OF C i] new by blast
  obtain e t k l' a p where e: "candidate_entry_for ?l (ereq_candidate_lease_id q) = Inr e" "\<not> ent_consumed e"
      "hold_candidate ?s = Some (ent_candidate e)"
    and pr: "project_artifact_hold_expiry dumps q ?s now who fence = Inr (t, r, k)"
    and co: "consume_candidate dumps ?l q now = Inr l'"
    and ok: "all_ok (cas_checks dumps st')"
    and st': "st' = st \<lparr> cas_hold_state := t, cas_candidate_ledger := l', cas_commits := cas_commits st @ [k],
        cas_audit_records := cas_audit_records st @ [a], cas_outbox_records := cas_outbox_records st @ [p] \<rparr>"
    using ap none by (auto simp: apply_artifact_hold_expiry_def Let_def)
  note s = cas_okD(1) [OF C]
  have pred: "all_ok (require_expiry_predicate dumps q ?s (ent_candidate e) now (cal_principal who) (cal_instance who) fence)"
    and t: "t = expired_hold ?s" "all_ok (hold_state_checks dumps (expired_hold ?s))"
    and kc: "commit_create dumps q r ?s (expired_hold ?s) now = Inr k"
    using pr e(3) by (auto simp: project_artifact_hold_expiry_def Let_def)
  have m: "request_matches q (ent_candidate e)" using pred predicate_iff [OF s e(3)] by blast
  have mem: "e \<in> set (led_candidate_entries ?l)" using candidate_entry_for_iff [OF cas_okD(2) [OF C]] e(1) by blast
  have l': "l' = consume ?l e (ereq_expire_operation_id q) now"
    using consume_candidate_eq [OF cas_okD(2) [OF C] q mem e(2) m] co by simp
  from commit_created_facts [OF kc] e(3) have kf: "com_remaining_active_hold_count k = int (fcard (hold_active_hold_ids (expired_hold ?s)))"
      "\<exists>r'. validate_result_for_request dumps k q (cand_owner_principal_id (ent_candidate e))
        (cand_candidate_fencing_token (ent_candidate e)) REAPER_COMPONENT_TYPE EXPIRY_SUBJECT None = Inr r'"
    by auto
  have kid: "com_expire_operation_id k = ereq_expire_operation_id q" "all_ok (commit_checks dumps k)"
    using kf(2) validated_result validated_commit_id by blast+
  have "no_newer ?l (ent_candidate e)"
  proof -
    have ok': "cas_ok dumps st'" using ok by (simp add: cas_iff)
    have "k \<in> set (cas_commits st')" by (simp add: st')
    then obtain e' where e': "e' \<in> set (led_candidate_entries l')" "ent_consumed_by e' = Some (ereq_expire_operation_id q)"
        "no_newer l' (ent_candidate e')"
      using cas_evidence [OF ok'] kid(1) by (fastforce simp: st' evidence_ok_def Let_def)
    have setl: "set (led_candidate_entries l') = insert (consumed_entry e (ereq_expire_operation_id q) now)
        (set (led_candidate_entries ?l) - {e})"
      using set_replace_first [OF entries_list_distinct [OF cas_okD(2) [OF C]] mem] by (simp add: l')
    have "\<not> (\<exists>x \<in> set (led_candidate_entries ?l). ent_consumed_by x = Some (ereq_expire_operation_id q))"
      using cas_okD(7) [OF C] new set_consumed_keys [of "ereq_expire_operation_id q" "led_candidate_entries ?l"]
      by (simp only: commit_ids_def) blast
    then have "ent_candidate e' = ent_candidate e" using e'(1,2) setl by auto
    with e'(3) setl show ?thesis by (auto simp: no_newer_def l' entry_fence_def)
  qed
  moreover have "int (fcard (hold_active_hold_ids (expired_hold ?s))) \<le> MAX_SAFE_INTEGER"
    using kid(2) kf(1) by (simp add: commit_iff commit_fields_ok_def int_from_def)
  moreover have "hold_artifact_version ?s < MAX_SAFE_INTEGER" using t(2) expired_hold_valid [OF s] by simp
  ultimately have "expire_guard dumps st q now who fence (ent_candidate e)"
    using cc e(3) pred predicate_iff [OF s e(3)] unfolding expire_guard_def Let_def by auto
  then show ?thesis by blast
qed

end

end
