(* ===== verification/ScanFacts.thy ===== *)
theory ScanFacts
  imports ExpireFacts
begin

text \<open>
  SCAN on a valid snapshot: what a successful new scan hands out and records, that the snapshot it
  builds is valid again, and that it succeeds whenever its guard holds.
\<close>

section \<open>The new snapshot\<close>

definition scanned_snapshot ::
    "ArtifactHoldExpiryCASState \<Rightarrow> ArtifactHoldExpiryScanRequest \<Rightarrow> ArtifactHoldExpiryScanResult
     \<Rightarrow> ArtifactHoldExpiryCandidate \<Rightarrow> ArtifactHoldExpiryScanAllocation \<Rightarrow> ArtifactHoldExpiryCASState" where
  "scanned_snapshot st q r c a = st \<lparr> cas_hold_state := (cas_hold_state st) \<lparr> hold_candidate := Some c \<rparr>,
     cas_candidate_ledger := scanned (cas_candidate_ledger st) q r c a \<rparr>"

lemma scanned_snapshot_simps [simp]:
  "cas_hold_state (scanned_snapshot st q r c a) = (cas_hold_state st) \<lparr> hold_candidate := Some c \<rparr>"
  "cas_candidate_ledger (scanned_snapshot st q r c a) = scanned (cas_candidate_ledger st) q r c a"
  "cas_commits (scanned_snapshot st q r c a) = cas_commits st"
  "cas_audit_records (scanned_snapshot st q r c a) = cas_audit_records st"
  "cas_outbox_records (scanned_snapshot st q r c a) = cas_outbox_records st"
  by (simp_all add: scanned_snapshot_def)

lemma due_candidate_update [simp]: "due_candidate (s \<lparr> hold_candidate := x \<rparr>) c \<longleftrightarrow> due_candidate s c"
  by (simp add: due_candidate_def)

lemma consumed_entries_new [simp]: "consumed_entries (es @ [new_entry c]) = consumed_entries es"
  by (simp add: consumed_entries_def)

lemma replayed_scanned [simp]: "replayed (scanned l q r c a) d \<longleftrightarrow> replayed l d"
  by (simp add: replayed_def)

text \<open>No commit is about an ACTIVE hold.\<close>

lemma active_not_committed:
  assumes "cas_ok dumps st" and "hold_hold_status (cas_hold_state st) = ACTIVE"
    and "e \<in> set (led_candidate_entries (cas_candidate_ledger st))"
    and "ent_consumed_by e = Some (com_expire_operation_id k)" and "evidence_ok dumps st k e"
  shows "\<not> (cand_artifact_id (ent_candidate e) = hold_artifact_id (cas_hold_state st) \<and>
      cand_hold_id (ent_candidate e) = hold_hold_id (cas_hold_state st))"
proof -
  obtain q r where w: "expiry_request_create dumps (ent_candidate e) = Inr q"
      "validate_result_for_request dumps k q (cand_owner_principal_id (ent_candidate e))
        (cand_candidate_fencing_token (ent_candidate e)) REAPER_COMPONENT_TYPE EXPIRY_SUBJECT None = Inr r"
      "about_hold (cas_hold_state st) r \<longrightarrow> terminal_for (cas_hold_state st) k (ent_candidate e) r"
    using assms(5) by (auto simp: evidence_ok_def Let_def)
  have "request_matches q (ent_candidate e)" using w(1) by (simp add: expiry_request_created_iff)
  moreover have "result_for_request r q k" using w(2) by (simp only: validate_result_iff)
  ultimately have "eres_artifact_id r = cand_artifact_id (ent_candidate e)" "eres_hold_id r = cand_hold_id (ent_candidate e)"
    by (simp_all add: result_for_request_def request_matches_def)
  with w(3) assms(2) show ?thesis by (auto simp: about_hold_def terminal_for_def)
qed

lemma scan_keeps_evidence:
  assumes C: "cas_ok dumps st" and act: "hold_hold_status (cas_hold_state st) = ACTIVE"
    and c: "due_candidate (cas_hold_state st) c" and k: "k \<in> set (cas_commits st)"
  shows "\<exists>e \<in> set (led_candidate_entries (cas_candidate_ledger (scanned_snapshot st q r c a))).
    ent_consumed_by e = Some (com_expire_operation_id k) \<and> evidence_ok dumps (scanned_snapshot st q r c a) k e"
proof -
  obtain e where e: "e \<in> set (led_candidate_entries (cas_candidate_ledger st))"
      "ent_consumed_by e = Some (com_expire_operation_id k)" "evidence_ok dumps st k e"
    using cas_evidence [OF C k] by blast
  have "\<not> same_incarnation (ent_candidate e) c"
    using active_not_committed [OF C act e] c by (auto simp: same_incarnation_def due_candidate_def)
  then have "no_newer (cas_candidate_ledger st) (ent_candidate e) \<Longrightarrow>
      no_newer (scanned (cas_candidate_ledger st) q r c a) (ent_candidate e)"
    by (auto simp: no_newer_def)
  moreover have "about_hold ((cas_hold_state st) \<lparr> hold_candidate := Some c \<rparr>) r' \<longleftrightarrow> about_hold (cas_hold_state st) r'" for r'
    by (simp add: about_hold_def)
  moreover have "\<not> terminal_for (cas_hold_state st) k (ent_candidate e) r'" for r'
    using act by (simp add: terminal_for_def)
  ultimately have "evidence_ok dumps (scanned_snapshot st q r c a) k e"
    using e(3) unfolding evidence_ok_def Let_def scanned_snapshot_simps by blast
  with e show ?thesis by auto
qed

lemma scanned_snapshot_ok:
  assumes C: "cas_ok dumps st" and act: "is_finite_active (cas_hold_state st)"
    and c: "due_candidate (cas_hold_state st) c" "fresh_candidate dumps (cas_candidate_ledger st) c"
    and l: "ledger_ok dumps (scanned (cas_candidate_ledger st) q r c a)"
  shows "cas_ok dumps (scanned_snapshot st q r c a)"
proof -
  let ?t = "scanned_snapshot st q r c a" and ?s = "cas_hold_state st"
  have A: "hold_hold_status ?s = ACTIVE" using act by (simp add: is_finite_active_def)
  have none: "replay_pairs (cas_candidate_ledger st) = []" using no_claims_unless_expired [OF C] A by simp
  have "all_ok (hold_state_checks dumps (cas_hold_state ?t))"
    using cas_okD(1) [OF C] act c
    by (simp add: hold_state_iff hold_fields_ok_def is_finite_active_def fresh_candidate_def)
  moreover have "live_candidates (cas_candidate_ledger ?t) (cas_hold_state ?t) =
      map ent_candidate (filter (live_entry (cas_candidate_ledger ?t) (cas_hold_state ?t))
        (led_candidate_entries (cas_candidate_ledger st))) @ [c]"
    using c none by (simp add: live_candidates_def live_entry_def replayed_def)
  then have "projection_ok ?t"
    using A none by (auto simp: projection_ok_def Let_def replayed_def)
  moreover have "\<forall>k \<in> set (cas_commits ?t). \<exists>e \<in> set (led_candidate_entries (cas_candidate_ledger ?t)).
      ent_consumed_by e = Some (com_expire_operation_id k) \<and> evidence_ok dumps ?t k e"
    using scan_keeps_evidence [OF C A c(1)] by simp
  moreover have "cas_ok dumps st" by (rule C)
  ultimately show ?thesis using l none
    unfolding cas_ok_def Let_def scanned_snapshot_simps scanned_simps consumed_entries_new by simp
qed

section \<open>A successful new scan\<close>

lemma draw_tokens_distinct: "draw_tokens draws = Some (i, t) \<Longrightarrow> i \<noteq> t"
proof -
  have "fresh_token i ds = Some t \<Longrightarrow> i \<noteq> t" for ds by (induction ds) (auto split: if_splits)
  then show "draw_tokens draws = Some (i, t) \<Longrightarrow> i \<noteq> t" by (auto simp: draw_tokens_def split: list.splits)
qed

definition scan_caller_ok :: "caller \<Rightarrow> bool" where
  "scan_caller_ok who \<longleftrightarrow> stable_text (cal_instance who) \<and> cal_component_type who = REAPER_COMPONENT_TYPE \<and>
     cal_principal who = REAPER_PRINCIPAL_ID \<and> cal_subject who = EXPIRY_SUBJECT"

definition candidate_of ::
    "ArtifactHoldState \<Rightarrow> ustr \<Rightarrow> ustr \<Rightarrow> int \<Rightarrow> ustr \<Rightarrow> caller \<Rightarrow> int \<Rightarrow> ArtifactHoldExpiryCandidate \<Rightarrow> bool" where
  "candidate_of s i lease f t who now c \<longleftrightarrow> cand_scan_operation_id c = i \<and> cand_candidate_lease_id c = lease \<and>
     cand_candidate_fencing_token c = f \<and> cand_candidate_token c = t \<and>
     cand_owner_principal_id c = cal_principal who \<and> cand_owner_instance_id c = cal_instance who \<and>
     cand_issued_at_ms c = now \<and> cand_lease_until_ms c = now + LEASE_MAX_MS \<and> due_candidate s c"

text \<open>The guard of a new SCAN on a valid snapshot.\<close>

definition scan_guard ::
    "(json \<Rightarrow> bytes option) \<Rightarrow> bytes list \<Rightarrow> ArtifactHoldExpiryScanRequest \<Rightarrow> ArtifactHoldExpiryCASState \<Rightarrow> int
     \<Rightarrow> caller \<Rightarrow> ustr \<Rightarrow> ustr \<Rightarrow> bool" where
  "scan_guard dumps draws q st now who lease t \<longleftrightarrow> (let s = cas_hold_state st; l = cas_candidate_ledger st in
     all_ok (scan_request_checks dumps q) \<and> int_from 0 now \<and> scan_caller_ok who \<and>
     is_finite_active s \<and> hold_expires_ms s \<noteq> None \<and> the (hold_expires_ms s) \<le> now \<and>
     now + LEASE_MAX_MS \<le> MAX_SAFE_INTEGER \<and> led_candidate_fence_high_water l < MAX_SAFE_INTEGER \<and>
     led_candidate_fence_high_water l = last_fence l \<and>
     draw_tokens draws = Some (lease, t) \<and> canonical_token lease \<and> canonical_token t \<and>
     lease \<notin> set (authority_tokens l) \<and> t \<notin> set (authority_tokens l))"

text \<open>The new candidate is the one the projection picks.\<close>

lemma scan_picks_new:
  assumes C: "cas_ok dumps st" and c: "fresh_candidate dumps (cas_candidate_ledger st) c" "due_candidate (cas_hold_state st) c"
    and l: "ledger_ok dumps (scanned (cas_candidate_ledger st) q r c a)"
  shows "latest_candidate (map ent_candidate (filter (\<lambda>e. \<not> ent_consumed e \<and> due_candidate (cas_hold_state st) (ent_candidate e))
    (led_candidate_entries (scanned (cas_candidate_ledger st) q r c a)))) = Some c"
  by (subst latest_sorted [OF live_sorted [OF l]]) (use c(2) in simp)

context canonical_encoder
begin

lemma scan_allocates:
  assumes C: "cas_ok dumps st" and g: "scan_guard dumps draws q st now who lease t"
  shows "\<exists>c a r. allocate_scan_candidate dumps draws q st (cas_hold_state st) now (cal_principal who) (cal_instance who) = Inr a \<and>
    salloc_candidate a = c \<and> scan_result_create dumps q [c] = Inr r \<and>
    all_ok (scan_result_checks_for dumps r q) \<and> sres_candidates r = [c] \<and>
    all_ok (scan_allocation_checks_against dumps a q c (led_candidate_fence_high_water (cas_candidate_ledger st))) \<and>
    all_ok (candidate_checks dumps c) \<and>
    candidate_of (cas_hold_state st) (sreq_scan_operation_id q) lease
      (led_candidate_fence_high_water (cas_candidate_ledger st) + 1) t who now c"
proof -
  let ?s = "cas_hold_state st" and ?l = "cas_candidate_ledger st" and ?hw = "led_candidate_fence_high_water (cas_candidate_ledger st)"
  have q: "all_ok (scan_request_checks dumps q)" and now: "int_from 0 now" and w: "scan_caller_ok who"
    and act: "is_finite_active ?s" and b: "now + LEASE_MAX_MS \<le> MAX_SAFE_INTEGER" "?hw < MAX_SAFE_INTEGER"
    and d: "draw_tokens draws = Some (lease, t)" "canonical_token lease" "canonical_token t"
    using g unfolding scan_guard_def Let_def by blast+
  obtain ex where ex: "hold_expires_ms ?s = Some ex" using g by (auto simp: scan_guard_def Let_def)
  have hw: "int_from 0 ?hw" using cas_okD(2) [OF C] by (simp add: ledger_ok_def)
  have hf: "hold_fields_ok ?s" using cas_okD(1) [OF C] by (simp add: hold_state_iff)
  have due: "due_tuple (hold_artifact_id ?s) (hold_hold_id ?s) (hold_hold_digest ?s) (hold_artifact_version ?s) ex"
    using hf ex by (simp add: hold_fields_ok_def due_tuple_def)
  have i: "lower_sha256 (sreq_scan_operation_id q)" using q by (simp add: scan_request_iff scan_request_fields_def)
  obtain c where c: "candidate_create dumps (sreq_scan_operation_id q) lease (?hw + 1) t (cal_principal who)
      (cal_instance who) now (now + LEASE_MAX_MS) (hold_artifact_id ?s) (hold_hold_id ?s) (hold_hold_digest ?s)
      (hold_artifact_version ?s) ex = Inr c" "all_ok (candidate_checks dumps c)"
      "candidate_of ?s (sreq_scan_operation_id q) lease (?hw + 1) t who now c"
  proof -
    have "\<exists>c. candidate_create dumps (sreq_scan_operation_id q) lease (?hw + 1) t (cal_principal who)
      (cal_instance who) now (now + LEASE_MAX_MS) (hold_artifact_id ?s) (hold_hold_id ?s) (hold_hold_digest ?s)
      (hold_artifact_version ?s) ex = Inr c \<and> all_ok (candidate_checks dumps c) \<and>
      c = \<lparr> cand_schema_version = u ''1'', cand_scan_operation_id = sreq_scan_operation_id q, cand_candidate_lease_id = lease,
      cand_candidate_fencing_token = ?hw + 1, cand_candidate_token = t, cand_owner_principal_id = cal_principal who,
      cand_owner_instance_id = cal_instance who, cand_issued_at_ms = now, cand_lease_until_ms = now + LEASE_MAX_MS,
      cand_artifact_id = hold_artifact_id ?s, cand_hold_id = hold_hold_id ?s, cand_expected_hold_digest = hold_hold_digest ?s,
      cand_expected_artifact_version = hold_artifact_version ?s, cand_observed_expires_ms = ex,
      cand_candidate_digest = cand_candidate_digest c \<rparr>"
      using i d w b hw now due draw_tokens_distinct [OF d(1)] reaper_stable
      by (intro candidate_created) (simp_all add: int_from_def scan_caller_ok_def lease_window_def LEASE_MAX_MS_def)
    then show thesis using that ex by (auto simp: candidate_of_def due_candidate_def) (metis (no_types, lifting) ArtifactHoldExpiryCandidate.select_convs)
  qed
  have sid: "cand_scan_operation_id c = sreq_scan_operation_id q" "?hw < cand_candidate_fencing_token c"
    using c(3) by (simp_all add: candidate_of_def)
  obtain a where a: "issue_scan_allocation dumps q c ?hw = Inr a" "all_ok (scan_allocation_checks_against dumps a q c ?hw)"
    using scan_allocation_issued [OF q c(2) sid(1) hw sid(2)] by blast
  obtain r where r: "scan_result_create dumps q [c] = Inr r" "all_ok (scan_result_checks_for dumps r q)" "sres_candidates r = [c]"
    using scan_result_created [OF q c(2) sid(1)] by blast
  have "allocate_scan_candidate dumps draws q st ?s now (cal_principal who) (cal_instance who) = Inr a"
    using d(1) c(1) a(1) ex by (simp add: allocate_scan_candidate_def Let_def)
  moreover have "salloc_candidate a = c" using a(2) by (simp add: allocation_against_iff)
  ultimately show ?thesis using a r c by blast
qed

lemma scan_succeeds:
  assumes C: "cas_ok dumps st" and g: "scan_guard dumps draws q st now who lease t"
    and new: "sreq_scan_operation_id q \<notin> set (map sreq_scan_operation_id (led_scan_requests (cas_candidate_ledger st)))"
  shows "\<exists>c a r. apply_artifact_hold_expiry_scan dumps draws q st now who = Inr (scanned_snapshot st q r c a, r) \<and>
    all_ok (candidate_checks dumps c) \<and> sres_candidates r = [c] \<and>
    candidate_of (cas_hold_state st) (sreq_scan_operation_id q) lease
      (led_candidate_fence_high_water (cas_candidate_ledger st) + 1) t who now c \<and>
    cas_ok dumps (scanned_snapshot st q r c a)"
proof -
  let ?s = "cas_hold_state st" and ?l = "cas_candidate_ledger st"
  note L = cas_okD(2) [OF C]
  have q: "all_ok (scan_request_checks dumps q)" and now: "int_from 0 now" and w: "scan_caller_ok who"
    and act: "is_finite_active ?s" and tight: "led_candidate_fence_high_water ?l = last_fence ?l"
    and ex: "hold_expires_ms ?s \<noteq> None" "the (hold_expires_ms ?s) \<le> now"
    and tok: "lease \<notin> set (authority_tokens ?l)" "t \<notin> set (authority_tokens ?l)"
    using g unfolding scan_guard_def Let_def by blast+
  obtain c a r where al: "allocate_scan_candidate dumps draws q st ?s now (cal_principal who) (cal_instance who) = Inr a"
    and a: "salloc_candidate a = c" "all_ok (scan_allocation_checks_against dumps a q c (led_candidate_fence_high_water ?l))"
    and r: "scan_result_create dumps q [c] = Inr r" "all_ok (scan_result_checks_for dumps r q)" "sres_candidates r = [c]"
    and c: "all_ok (candidate_checks dumps c)"
      "candidate_of ?s (sreq_scan_operation_id q) lease (led_candidate_fence_high_water ?l + 1) t who now c"
    using scan_allocates [OF C g] by blast
  have fresh: "fresh_candidate dumps ?l c" and due: "due_candidate ?s c"
    using c tok by (simp_all add: fresh_candidate_def candidate_of_def)
  have A: "hold_hold_status ?s = ACTIVE" using act by (simp add: is_finite_active_def)
  have "replay_pairs ?l = []" using no_claims_unless_expired [OF C] A by simp
  then have "led_replay_claim_requests ?l = []" using L by (auto simp: ledger_ok_def replay_pairs_def zip_eq_Nil_iff)
  then have rep: "sreq_scan_operation_id q \<notin> set (map rreq_replay_operation_id (led_replay_claim_requests ?l))" by simp
  have rec: "record_scan dumps ?l q r [a] = Inr (scanned ?l q r c a)"
    by (rule record_scan_one [OF L tight r(2,3) fresh a(2) new rep])
  have lok: "ledger_ok dumps (scanned ?l q r c a)" by (rule scanned_ok [OF L tight r(2,3) fresh a(2) new rep])
  have ok: "cas_ok dumps (scanned_snapshot st q r c a)" by (rule scanned_snapshot_ok [OF C act due fresh lok])
  have find: "find (\<lambda>(q', r'). sreq_scan_operation_id q' = sreq_scan_operation_id q) (scan_pairs ?l) = None"
    using find_None_scan [of ?l] new L by (simp add: ledger_ok_def)
  have sd: "hold_due_indexed ?s" "hold_due_score_ms ?s = hold_expires_ms ?s"
    using cas_okD(1) [OF C] act by (simp_all add: hold_state_iff)
  have cks: "all_ok (concat (map (scan_candidate_checks st now who) (sres_candidates r)))"
    using c(2) ex r(3) by (auto simp: scan_candidate_checks_def candidate_of_def due_candidate_def Let_def LEASE_MAX_MS_def)
  have "apply_artifact_hold_expiry_scan dumps draws q st now who = Inr (scanned_snapshot st q r c a, r)"
    using q C now w find A ex sd al a(1) r(1) cks rec scan_picks_new [OF C fresh due lok] ok reaper_stable
    by (auto simp: apply_artifact_hold_expiry_scan_def cas_iff scan_caller_ok_def Let_def scanned_snapshot_def split: option.splits)
  with c r(3) ok show ?thesis by blast
qed

end

lemma candidate_create_fields:
  assumes "candidate_create dumps i lease f t pr ins issued until ai h d v ex = Inr c"
  shows "cand_scan_operation_id c = i" and "cand_candidate_fencing_token c = f" and "cand_issued_at_ms c = issued"
    and "cand_lease_until_ms c = until" and "cand_candidate_lease_id c = lease" and "cand_candidate_token c = t"
  using assms by (auto simp: candidate_create_def Let_def)

lemma issued_candidate: "issue_scan_allocation dumps q c hw = Inr a \<Longrightarrow> salloc_candidate a = c"
  by (auto simp: issue_scan_allocation_def Let_def)

lemma allocated_fields:
  assumes "allocate_scan_candidate dumps draws q st s now pr ins = Inr a"
  shows "cand_candidate_fencing_token (salloc_candidate a) = led_candidate_fence_high_water (cas_candidate_ledger st) + 1"
    and "cand_issued_at_ms (salloc_candidate a) = now" and "cand_lease_until_ms (salloc_candidate a) = now + LEASE_MAX_MS"
    and "cand_scan_operation_id (salloc_candidate a) = sreq_scan_operation_id q"
    and "draw_tokens draws = Some (cand_candidate_lease_id (salloc_candidate a), cand_candidate_token (salloc_candidate a))"
proof -
  obtain lease t ex c where d: "draw_tokens draws = Some (lease, t)" and c: "candidate_create dumps (sreq_scan_operation_id q) lease
      (led_candidate_fence_high_water (cas_candidate_ledger st) + 1) t pr ins now (now + LEASE_MAX_MS)
      (hold_artifact_id s) (hold_hold_id s) (hold_hold_digest s) (hold_artifact_version s) ex = Inr c"
    and a: "issue_scan_allocation dumps q c (led_candidate_fence_high_water (cas_candidate_ledger st)) = Inr a"
    using assms by (auto simp: allocate_scan_candidate_def Let_def split: option.splits)
  note f = candidate_create_fields [OF c] issued_candidate [OF a]
  show "cand_candidate_fencing_token (salloc_candidate a) = led_candidate_fence_high_water (cas_candidate_ledger st) + 1"
    "cand_issued_at_ms (salloc_candidate a) = now" "cand_lease_until_ms (salloc_candidate a) = now + LEASE_MAX_MS"
    "cand_scan_operation_id (salloc_candidate a) = sreq_scan_operation_id q"
    "draw_tokens draws = Some (cand_candidate_lease_id (salloc_candidate a), cand_candidate_token (salloc_candidate a))"
    using f d by simp_all
qed

lemma scan_keeps_new:
  assumes "record_scan dumps l q r [a] = Inr l'" and "sres_candidates r = [c]" and "salloc_candidate a = c"
    and "find (\<lambda>(q', r'). sreq_scan_operation_id q' = sreq_scan_operation_id q) (scan_pairs l) = None"
  shows "l' = scanned l q r c a \<and> ledger_ok dumps l' \<and> fresh_candidate dumps l c \<and>
    salloc_previous_fence_high_water a = led_candidate_fence_high_water l"
proof -
  have ad: "\<exists>hw as. admit_candidates dumps q r (authority_tokens l) (led_candidate_fence_high_water l) [(c, a)] = Inr (hw, as) \<and>
      l' = l \<lparr> led_candidate_fence_high_water := hw, led_scan_requests := led_scan_requests l @ [q],
        led_scan_results := led_scan_results l @ [r], led_candidate_entries := led_candidate_entries l @ [new_entry c],
        led_scan_authorities := led_scan_authorities l @ as, led_scan_allocations := led_scan_allocations l @ [a] \<rparr> \<and>
      all_ok (ledger_checks dumps l')"
    using assms by (auto simp: record_scan_def Let_def)
  then show ?thesis
    by (auto simp: ledger_iff scan_authority_created scan_authority_against_iff scanned_def fresh_candidate_def
        allocation_against_iff scan_allocation_iff)
qed

text \<open>Every successful scan either replays a stored result or hands out one new candidate.\<close>

lemma scan_effect:
  assumes ap: "apply_artifact_hold_expiry_scan dumps draws q st now who = Inr (st', r)"
  shows "cas_ok dumps st \<and> all_ok (scan_request_checks dumps q) \<and> scan_caller_ok who \<and>
    ((q, r) \<in> set (scan_pairs (cas_candidate_ledger st)) \<and> st' = st \<and>
       (\<forall>c \<in> set (sres_candidates r). cand_owner_principal_id c = cal_principal who \<and> cand_owner_instance_id c = cal_instance who) \<or>
     sreq_scan_operation_id q \<notin> set (map sreq_scan_operation_id (led_scan_requests (cas_candidate_ledger st))) \<and>
       is_finite_active (cas_hold_state st) \<and>
       (\<exists>c a. sres_candidates r = [c] \<and> st' = scanned_snapshot st q r c a \<and> cas_ok dumps st' \<and>
          fresh_candidate dumps (cas_candidate_ledger st) c \<and> due_candidate (cas_hold_state st) c \<and>
          cand_candidate_fencing_token c = led_candidate_fence_high_water (cas_candidate_ledger st) + 1 \<and>
          cand_scan_operation_id c = sreq_scan_operation_id q \<and>
          cand_observed_expires_ms c \<le> now \<and> cand_issued_at_ms c = now \<and> cand_lease_until_ms c = now + LEASE_MAX_MS \<and>
          cand_owner_principal_id c = cal_principal who \<and> cand_owner_instance_id c = cal_instance who \<and>
          salloc_candidate a = c \<and> salloc_previous_fence_high_water a = led_candidate_fence_high_water (cas_candidate_ledger st) \<and>
          int_from 0 now \<and> draw_tokens draws = Some (cand_candidate_lease_id c, cand_candidate_token c)))"
proof -
  let ?s = "cas_hold_state st" and ?l = "cas_candidate_ledger st"
  have pre: "all_ok (scan_request_checks dumps q)" "cas_ok dumps st" "scan_caller_ok who" and now: "int_from 0 now"
    using ap by (auto simp: apply_artifact_hold_expiry_scan_def cas_iff scan_caller_ok_def)
  note L = cas_okD(2) [OF pre(2)]
  show ?thesis
  proof (cases "find (\<lambda>(q', r'). sreq_scan_operation_id q' = sreq_scan_operation_id q) (scan_pairs ?l)")
    case (Some p)
    then have "p \<in> set (scan_pairs ?l)" by (metis find_Some_iff nth_mem)
    with ap Some pre show ?thesis
      by (cases p) (auto simp: apply_artifact_hold_expiry_scan_def)
  next
    case None
    then have new: "sreq_scan_operation_id q \<notin> set (map sreq_scan_operation_id (led_scan_requests ?l))"
      using find_None_scan [of ?l] L by (simp add: ledger_ok_def)
    obtain a l' where A: "hold_hold_status ?s = ACTIVE" "hold_expires_ms ?s \<noteq> None"
        "allocate_scan_candidate dumps draws q st ?s now (cal_principal who) (cal_instance who) = Inr a"
        "scan_result_create dumps q [salloc_candidate a] = Inr r"
        "all_ok (concat (map (scan_candidate_checks st now who) (sres_candidates r)))"
        "record_scan dumps ?l q r [a] = Inr l'"
        "st \<lparr> cas_hold_state := ?s \<lparr> hold_candidate := latest_candidate (map ent_candidate (filter
            (\<lambda>e. \<not> ent_consumed e \<and> due_candidate ?s (ent_candidate e)) (led_candidate_entries l'))) \<rparr>,
          cas_candidate_ledger := l' \<rparr> = st'" "all_ok (cas_checks dumps st')"
      using ap unfolding apply_artifact_hold_expiry_scan_def None option.case Let_def checked_eq_Inr bindE_eq_Inr
        sum.inject prod.inject by (elim conjE exE) (rule that; simp)
    let ?c = "salloc_candidate a"
    have rc: "sres_candidates r = [?c]" using A(4) by (auto simp: scan_result_create_def Let_def)
    note cc = allocated_fields [OF A(3)]
    have rec: "l' = scanned ?l q r ?c a" "ledger_ok dumps l'" "fresh_candidate dumps ?l ?c"
        "salloc_previous_fence_high_water a = led_candidate_fence_high_water ?l"
      using scan_keeps_new [OF A(6) rc refl None] by blast+
    have ck: "due_candidate ?s ?c" "cand_owner_principal_id ?c = cal_principal who" "cand_owner_instance_id ?c = cal_instance who"
        "cand_observed_expires_ms ?c \<le> cand_issued_at_ms ?c"
      using A(5) rc by (simp_all add: scan_candidate_checks_def Let_def)
    have "st' = scanned_snapshot st q r ?c a"
      using A(7) [symmetric] scan_picks_new [OF pre(2) rec(3) ck(1) rec(2) [unfolded rec(1)]] rec(1) by (simp add: scanned_snapshot_def)
    moreover have "is_finite_active ?s" using A(1,2) by (auto simp: is_finite_active_def)
    ultimately show ?thesis using pre now new rc rec ck cc A(8) by (auto simp: cas_iff)
  qed
qed

end
