(* ===== verification/ReplayFacts.thy ===== *)
theory ReplayFacts
  imports ScanFacts
begin

text \<open>
  REPLAY_CLAIM on a valid snapshot, and EXPIRE on an operation that is already committed: the claim
  hands out a new authority without touching the hold, the replay returns the persisted result and
  leaves the snapshot as it is.
\<close>

section \<open>The current claim\<close>

lemma current_claim_eq:
  assumes L: "ledger_ok dumps l" and e: "lower_sha256 e"
  shows "current_replay_claim_for_expire_operation dumps l e =
    Inr (if claims_of (replay_pairs l) e = [] then None else Some (latest_claim (replay_pairs l) e))"
proof (cases "claims_of (replay_pairs l) e = []")
  case True
  with e show ?thesis
    by (simp add: current_replay_claim_for_expire_operation_def replay_claims_for_expire_operation_def checked_all_ok)
next
  case False
  let ?ps = "replay_pairs l" and ?c = "latest_claim (replay_pairs l) e"
  have ops: "e \<in> set (replay_ops ?ps)" using False by (simp add: claims_of_empty_iff)
  note mem = latest_claim_mem [OF ops]
  have "distinct (map (rreq_replay_operation_id \<circ> fst) (claims_of ?ps e))"
    using ledger_okD(4) [OF L] unfolding replays_ok_def claims_of_def by (simp add: distinct_map_filter)
  then have "filter (\<lambda>p. rreq_replay_operation_id (fst p) = rreq_replay_operation_id (fst ?c)) (claims_of ?ps e) = [?c]"
    using distinct_filter_key [of "rreq_replay_operation_id \<circ> fst" "claims_of ?ps e" ?c] mem by simp
  then have one: "filter (\<lambda>(q, r). rreq_replay_operation_id q = rcur_replay_operation_id (pointer_of ?ps e)) (claims_of ?ps e) = [?c]"
    by (simp add: case_prod_unfold pointer_of_def current_of_def)
  have "pointer_of ?ps e \<in> set (led_replay_current_authorities l)"
    using ledger_okD(6) [OF L] ops by (auto simp: currents_ok_def)
  then have pv: "all_ok (replay_current_checks (pointer_of ?ps e))"
    using ledger_okD(6) [OF L] unfolding currents_ok_def by blast
  have "all_ok (replay_claim_result_checks_for dumps (snd ?c) (fst ?c))"
    using ledger_okD(4) [OF L] mem by (simp add: replays_ok_def set_claims_of)
  then have "all_ok (replay_current_checks_against dumps (pointer_of ?ps e) (fst ?c) (snd ?c))"
    using current_revision_ok [OF pv] by (simp add: replay_current_against_iff pointer_of_def)
  with False e one existing_pointer [OF L, of e] show ?thesis
    by (simp add: current_replay_claim_for_expire_operation_def replay_claims_for_expire_operation_def checked_all_ok)
qed

section \<open>The new snapshot\<close>

definition claimed_snapshot ::
    "ArtifactHoldExpiryCASState \<Rightarrow> ArtifactHoldExpiryReplayClaimRequest \<Rightarrow> ArtifactHoldExpiryReplayClaimResult
     \<Rightarrow> ArtifactHoldExpiryCASState" where
  "claimed_snapshot st q r = st \<lparr> cas_candidate_ledger := claimed (cas_candidate_ledger st) q r \<rparr>"

lemma claimed_snapshot_simps [simp]:
  "cas_hold_state (claimed_snapshot st q r) = cas_hold_state st"
  "cas_candidate_ledger (claimed_snapshot st q r) = claimed (cas_candidate_ledger st) q r"
  "cas_commits (claimed_snapshot st q r) = cas_commits st"
  "cas_audit_records (claimed_snapshot st q r) = cas_audit_records st"
  "cas_outbox_records (claimed_snapshot st q r) = cas_outbox_records st"
  by (simp_all add: claimed_snapshot_def)

lemma claimed_pairs: "ledger_ok dumps l \<Longrightarrow> replay_pairs (claimed l q r) = replay_pairs l @ [(q, r)]"
  by (simp add: ledger_ok_def replay_pairs_def)

lemma no_newer_claimed:
  assumes "ledger_ok dumps l" and "no_newer l c"
  shows "no_newer (claimed l q r) c"
  using assms claimed_pairs [OF assms(1), of q r] by (auto simp: no_newer_def replayed_def)

lemma claimed_snapshot_ok:
  assumes C: "cas_ok dumps st" and l: "ledger_ok dumps (claimed (cas_candidate_ledger st) q r)"
    and k: "k \<in> set (cas_commits st)" "com_expire_operation_id k = rreq_expire_operation_id q"
      "claim_matches_commit dumps (cas_hold_state st) (q, r) k"
  shows "cas_ok dumps (claimed_snapshot st q r)"
proof -
  let ?t = "claimed_snapshot st q r" and ?l = "cas_candidate_ledger st"
  note L = cas_okD(2) [OF C]
  have "hold_hold_status (cas_hold_state st) = EXPIRED" "hold_candidate (cas_hold_state st) = None"
    using k(3) by (simp_all add: claim_matches_commit_def Let_def)
  then have "projection_ok ?t" by (simp add: projection_ok_def Let_def)
  moreover have "\<forall>p \<in> set (replay_pairs (cas_candidate_ledger ?t)). \<exists>k \<in> set (cas_commits ?t).
      com_expire_operation_id k = rreq_expire_operation_id (fst p) \<and> claim_matches_commit dumps (cas_hold_state ?t) p k"
    using cas_claim_commit [OF C] k unfolding claimed_snapshot_simps claimed_pairs [OF L] by auto
  moreover have "\<exists>e \<in> set (led_candidate_entries (cas_candidate_ledger ?t)).
      ent_consumed_by e = Some (com_expire_operation_id k') \<and> evidence_ok dumps ?t k' e" if k': "k' \<in> set (cas_commits st)" for k'
  proof -
    obtain e where e: "e \<in> set (led_candidate_entries ?l)" "ent_consumed_by e = Some (com_expire_operation_id k')"
        "evidence_ok dumps st k' e"
      using cas_evidence [OF C k'] by blast
    moreover have "evidence_ok dumps ?t k' e"
      using e(3) no_newer_claimed [OF L] unfolding evidence_ok_def Let_def claimed_snapshot_simps by blast
    ultimately show ?thesis by auto
  qed
  ultimately show ?thesis using l C
    unfolding cas_ok_def Let_def claimed_snapshot_simps claimed_simps consumed_entries_new by simp
qed

section \<open>The evidence behind a commit\<close>

text \<open>What a commit of a valid snapshot and the candidate it consumed agree on.\<close>

lemma commit_candidate:
  assumes C: "cas_ok dumps st" and k: "k \<in> set (cas_commits st)"
  shows "\<exists>e r. e \<in> set (led_candidate_entries (cas_candidate_ledger st)) \<and>
    ent_consumed_by e = Some (com_expire_operation_id k) \<and>
    filter (\<lambda>e. ent_consumed_by e = Some (com_expire_operation_id k)) (led_candidate_entries (cas_candidate_ledger st)) = [e] \<and>
    expiry_result_from_json dumps (com_result_json k) = Inr r \<and>
    eres_artifact_id r = cand_artifact_id (ent_candidate e) \<and> eres_hold_id r = cand_hold_id (ent_candidate e) \<and>
    com_expected_hold_digest k = cand_expected_hold_digest (ent_candidate e) \<and>
    com_previous_artifact_version k = cand_expected_artifact_version (ent_candidate e) \<and>
    com_authorized_reaper_principal_id k = cand_owner_principal_id (ent_candidate e) \<and>
    com_authorized_reaper_fencing_token k = cand_candidate_fencing_token (ent_candidate e) \<and>
    com_authorized_candidate_digest k = cand_candidate_digest (ent_candidate e) \<and>
    all_ok (candidate_checks dumps (ent_candidate e)) \<and>
    artifact_hold_expiry_operation_id (cand_artifact_id (ent_candidate e)) (cand_hold_id (ent_candidate e))
      (cand_expected_hold_digest (ent_candidate e)) (cand_expected_artifact_version (ent_candidate e))
      (cand_observed_expires_ms (ent_candidate e)) = Inr (com_expire_operation_id k) \<and>
    (about_hold (cas_hold_state st) r \<longrightarrow> terminal_for (cas_hold_state st) k (ent_candidate e) r)"
proof -
  let ?es = "led_candidate_entries (cas_candidate_ledger st)"
  obtain e where e: "e \<in> set ?es" "ent_consumed_by e = Some (com_expire_operation_id k)" "evidence_ok dumps st k e"
    using cas_evidence [OF C k] by blast
  let ?c = "ent_candidate e"
  obtain q r where w: "expiry_request_create dumps ?c = Inr q"
      "validate_result_for_request dumps k q (cand_owner_principal_id ?c) (cand_candidate_fencing_token ?c)
        REAPER_COMPONENT_TYPE EXPIRY_SUBJECT None = Inr r"
      "about_hold (cas_hold_state st) r \<longrightarrow> terminal_for (cas_hold_state st) k ?c r"
      "com_authorized_reaper_fencing_token k = cand_candidate_fencing_token ?c"
      "com_authorized_candidate_digest k = cand_candidate_digest ?c"
    using e(3) by (auto simp: evidence_ok_def Let_def)
  have q: "request_matches q ?c" "all_ok (expiry_request_checks dumps q)" "all_ok (candidate_checks dumps ?c)"
    using w(1) by (simp_all add: expiry_request_created_iff)
  have v: "result_for_request r q k" "commit_for_request k q" "cand_owner_principal_id ?c = com_authorized_reaper_principal_id k"
    using w(2) unfolding validate_result_iff by blast+
  have "artifact_hold_expiry_operation_id (cand_artifact_id ?c) (cand_hold_id ?c) (cand_expected_hold_digest ?c)
      (cand_expected_artifact_version ?c) (cand_observed_expires_ms ?c) = Inr (com_expire_operation_id k)"
    using q v(2) by (simp add: expiry_request_iff expiry_request_fields_ok_def request_matches_def commit_for_request_def)
  moreover have "filter (\<lambda>e. ent_consumed_by e = Some (com_expire_operation_id k)) ?es = [e]"
  proof -
    have "distinct (map (the \<circ> ent_consumed_by) (filter ent_consumed ?es))"
      using cas_okD(6) [OF C] by (simp add: consumed_entries_keys)
    from distinct_filter_key [OF this, of e] e
    have "filter (\<lambda>x. (the \<circ> ent_consumed_by) x = (the \<circ> ent_consumed_by) e) (filter ent_consumed ?es) = [e]"
      by (simp add: ent_consumed_def)
    moreover have "filter (\<lambda>x. (the \<circ> ent_consumed_by) x = (the \<circ> ent_consumed_by) e) (filter ent_consumed ?es) =
        filter (\<lambda>x. ent_consumed_by x = Some (com_expire_operation_id k)) ?es"
      using e(2) by (auto simp: ent_consumed_def intro!: filter_cong)
    ultimately show ?thesis by simp
  qed
  ultimately show ?thesis using e w q v validated_result [OF w(2)]
    by (intro exI [of _ e] exI [of _ r]) (simp add: result_for_request_def commit_for_request_def request_matches_def)
qed

text \<open>The operation of a claim is the one its candidate's due tuple names.\<close>

lemma claim_facts:
  assumes L: "ledger_ok dumps l" and p: "p \<in> set (replay_pairs l)"
  shows "artifact_hold_expiry_operation_id (cand_artifact_id (rres_candidate (snd p))) (cand_hold_id (rres_candidate (snd p)))
      (cand_expected_hold_digest (rres_candidate (snd p))) (cand_expected_artifact_version (rres_candidate (snd p)))
      (cand_observed_expires_ms (rres_candidate (snd p))) = Inr (rreq_expire_operation_id (fst p))"
    and "all_ok (replay_claim_result_checks_for dumps (snd p) (fst p))"
    and "rres_expire_operation_id (snd p) = rreq_expire_operation_id (fst p)"
proof -
  show v: "all_ok (replay_claim_result_checks_for dumps (snd p) (fst p))"
    using ledger_okD(4) [OF L] p by (simp add: replays_ok_def)
  then show "artifact_hold_expiry_operation_id (cand_artifact_id (rres_candidate (snd p))) (cand_hold_id (rres_candidate (snd p)))
      (cand_expected_hold_digest (rres_candidate (snd p))) (cand_expected_artifact_version (rres_candidate (snd p)))
      (cand_observed_expires_ms (rres_candidate (snd p))) = Inr (rreq_expire_operation_id (fst p))"
    and "rres_expire_operation_id (snd p) = rreq_expire_operation_id (fst p)"
    by (simp_all add: replay_result_for_iff replay_request_iff replay_request_fields_ok_def)
qed

lemma commit_unique:
  "cas_ok dumps st \<Longrightarrow> k \<in> set (cas_commits st) \<Longrightarrow> k' \<in> set (cas_commits st) \<Longrightarrow>
     com_expire_operation_id k = com_expire_operation_id k' \<Longrightarrow> k = k'"
  using cas_okD(5) [of dumps st] by (metis distinct_map inj_onD)

text \<open>A replay candidate is newer than the candidate its operation consumed, and is never consumed itself.\<close>

lemma replay_newer:
  assumes C: "cas_ok dumps st" and p: "p \<in> set (replay_pairs (cas_candidate_ledger st))"
    and k: "k \<in> set (cas_commits st)" "com_expire_operation_id k = rreq_expire_operation_id (fst p)"
  shows "com_authorized_reaper_fencing_token k < cand_candidate_fencing_token (rres_candidate (snd p))"
    and "cand_owner_principal_id (rres_candidate (snd p)) = com_authorized_reaper_principal_id k"
  using cas_claim_commit [OF C p] commit_unique [OF C k(1)] k(2) by (fastforce simp: claim_matches_commit_def Let_def)+

lemma replay_never_consumed:
  assumes C: "cas_ok dumps st" and p: "p \<in> set (replay_pairs (cas_candidate_ledger st))"
    and e: "e \<in> set (led_candidate_entries (cas_candidate_ledger st))" "ent_candidate e = rres_candidate (snd p)"
  shows "\<not> ent_consumed e"
proof
  assume "ent_consumed e"
  then obtain i where i: "ent_consumed_by e = Some i" by (auto simp: ent_consumed_def)
  have "i \<in> set (map fst (consumed_entries (led_candidate_entries (cas_candidate_ledger st))))"
    using e(1) i set_consumed_keys by blast
  then obtain k where k: "k \<in> set (cas_commits st)" "com_expire_operation_id k = i" using cas_okD(7) [OF C] by auto
  obtain e' where e': "filter (\<lambda>e. ent_consumed_by e = Some i) (led_candidate_entries (cas_candidate_ledger st)) = [e']"
      "com_authorized_reaper_fencing_token k = cand_candidate_fencing_token (ent_candidate e')"
      "artifact_hold_expiry_operation_id (cand_artifact_id (ent_candidate e')) (cand_hold_id (ent_candidate e'))
        (cand_expected_hold_digest (ent_candidate e')) (cand_expected_artifact_version (ent_candidate e'))
        (cand_observed_expires_ms (ent_candidate e')) = Inr i"
    using commit_candidate [OF C k(1)] k(2) by auto
  have "e \<in> set (filter (\<lambda>e. ent_consumed_by e = Some i) (led_candidate_entries (cas_candidate_ledger st)))"
    using e(1) i by simp
  then have "e' = e" using e'(1) by simp
  then have "rreq_expire_operation_id (fst p) = i"
    using e'(3) claim_facts(1) [OF cas_okD(2) [OF C] p] e(2) by simp
  with replay_newer(1) [OF C p k(1)] k(2) e'(2) \<open>e' = e\<close> e(2) show False by simp
qed

section \<open>The authority to replay\<close>

text \<open>The candidate that may replay a committed operation: the consumed one, until a claim supersedes it.\<close>

definition current_authority :: "ArtifactHoldExpiryLedgerState \<Rightarrow> ustr \<Rightarrow> ArtifactHoldExpiryCandidate option" where
  "current_authority l i = (if claims_of (replay_pairs l) i = []
     then map_option ent_candidate (the_only (filter (\<lambda>e. ent_consumed_by e = Some i) (led_candidate_entries l)))
     else Some (rres_candidate (snd (latest_claim (replay_pairs l) i))))"

lemma require_authority_original:
  assumes L: "ledger_ok dumps l" and q: "all_ok (expiry_request_checks dumps q)"
    and e: "filter (\<lambda>e. ent_consumed_by e = Some (ereq_expire_operation_id q)) (led_candidate_entries l) = [e]"
    and none: "claims_of (replay_pairs l) (ereq_expire_operation_id q) = []"
    and m: "request_matches q (ent_candidate e)" and v: "all_ok (candidate_checks dumps (ent_candidate e))" "int_from 0 now"
  shows "require_replay_authority dumps l q (cand_owner_principal_id (ent_candidate e))
      (cand_owner_instance_id (ent_candidate e)) (cand_candidate_fencing_token (ent_candidate e)) now =
    Inr \<lparr> vrep_candidate = ent_candidate e, vrep_seal = REPLAY_AUTHORITY_SEAL \<rparr>"
proof -
  have "lower_sha256 (ereq_expire_operation_id q)" using q by (simp add: expiry_request_iff expiry_request_id_shape)
  then show ?thesis using assms current_claim_eq [OF L]
    by (simp add: require_replay_authority_def ledger_iff Let_def request_matches_def [of q]
        candidate_iff candidate_fields_ok_def)
qed

text \<open>A claim repeats the due tuple of the candidate its operation consumed.\<close>

lemma claim_repeats_tuple:
  assumes C: "cas_ok dumps st" and p: "p \<in> set (replay_pairs (cas_candidate_ledger st))"
    and k: "k \<in> set (cas_commits st)" "com_expire_operation_id k = rreq_expire_operation_id (fst p)"
    and h: "hold_artifact_id (cas_hold_state st) = cand_artifact_id (rres_candidate (snd p))"
      "hold_hold_id (cas_hold_state st) = cand_hold_id (rres_candidate (snd p))"
  shows "\<exists>e r. e \<in> set (led_candidate_entries (cas_candidate_ledger st)) \<and>
    ent_consumed_by e = Some (com_expire_operation_id k) \<and>
    filter (\<lambda>e. ent_consumed_by e = Some (com_expire_operation_id k)) (led_candidate_entries (cas_candidate_ledger st)) = [e] \<and>
    cand_owner_principal_id (rres_candidate (snd p)) = cand_owner_principal_id (ent_candidate e) \<and>
    cand_candidate_fencing_token (ent_candidate e) < cand_candidate_fencing_token (rres_candidate (snd p)) \<and>
    cand_artifact_id (rres_candidate (snd p)) = cand_artifact_id (ent_candidate e) \<and>
    cand_hold_id (rres_candidate (snd p)) = cand_hold_id (ent_candidate e) \<and>
    cand_expected_hold_digest (rres_candidate (snd p)) = cand_expected_hold_digest (ent_candidate e) \<and>
    cand_expected_artifact_version (rres_candidate (snd p)) = cand_expected_artifact_version (ent_candidate e) \<and>
    cand_observed_expires_ms (rres_candidate (snd p)) = cand_observed_expires_ms (ent_candidate e)"
proof -
  let ?s = "cas_hold_state st" and ?c = "rres_candidate (snd p)"
  obtain e r where e: "e \<in> set (led_candidate_entries (cas_candidate_ledger st))"
      "ent_consumed_by e = Some (com_expire_operation_id k)"
      "filter (\<lambda>e. ent_consumed_by e = Some (com_expire_operation_id k)) (led_candidate_entries (cas_candidate_ledger st)) = [e]"
      "expiry_result_from_json dumps (com_result_json k) = Inr r"
      "eres_artifact_id r = cand_artifact_id (ent_candidate e)" "eres_hold_id r = cand_hold_id (ent_candidate e)"
      "com_expected_hold_digest k = cand_expected_hold_digest (ent_candidate e)"
      "com_previous_artifact_version k = cand_expected_artifact_version (ent_candidate e)"
      "com_authorized_reaper_principal_id k = cand_owner_principal_id (ent_candidate e)"
      "com_authorized_reaper_fencing_token k = cand_candidate_fencing_token (ent_candidate e)"
      "about_hold ?s r \<longrightarrow> terminal_for ?s k (ent_candidate e) r"
    using commit_candidate [OF C k(1)] by blast
  have "claim_matches_commit dumps ?s p k"
    using cas_claim_commit [OF C p] commit_unique [OF C k(1)] k(2) by metis
  then have m: "cand_artifact_id ?c = eres_artifact_id r" "cand_hold_id ?c = eres_hold_id r"
      "cand_expected_hold_digest ?c = com_expected_hold_digest k"
      "cand_expected_artifact_version ?c = com_previous_artifact_version k"
      "hold_expires_ms ?s = Some (cand_observed_expires_ms ?c)"
    using e(4) by (auto simp: claim_matches_commit_def Let_def)
  have "terminal_for ?s k (ent_candidate e) r" using e(11) m h by (simp add: about_hold_def)
  then have "cand_observed_expires_ms ?c = cand_observed_expires_ms (ent_candidate e)"
    using m(5) by (simp add: terminal_for_def)
  with e m replay_newer [OF C p k] show ?thesis by (intro exI [of _ e]) simp
qed

lemma require_authority_claim:
  assumes C: "cas_ok dumps st" and l: "l = cas_candidate_ledger st" and q: "all_ok (expiry_request_checks dumps q)"
    and k: "k \<in> set (cas_commits st)" "com_expire_operation_id k = ereq_expire_operation_id q"
    and some: "claims_of (replay_pairs l) (ereq_expire_operation_id q) \<noteq> []"
    and c: "c = rres_candidate (snd (latest_claim (replay_pairs l) (ereq_expire_operation_id q)))"
    and m: "request_matches q c" and now: "int_from 0 now" "cand_issued_at_ms c \<le> now" "now < cand_lease_until_ms c"
    and h: "hold_artifact_id (cas_hold_state st) = ereq_artifact_id q" "hold_hold_id (cas_hold_state st) = ereq_hold_id q"
  shows "require_replay_authority dumps l q (cand_owner_principal_id c) (cand_owner_instance_id c)
      (cand_candidate_fencing_token c) now = Inr \<lparr> vrep_candidate = c, vrep_seal = REPLAY_AUTHORITY_SEAL \<rparr>"
proof -
  let ?i = "ereq_expire_operation_id q" and ?p = "latest_claim (replay_pairs l) (ereq_expire_operation_id q)"
  have L: "ledger_ok dumps l" using cas_okD(2) [OF C] l by simp
  have i: "lower_sha256 ?i" using q by (simp add: expiry_request_iff expiry_request_id_shape)
  have "?p \<in> set (claims_of (replay_pairs l) ?i)" using some latest_claim_mem by (metis claims_of_empty_iff)
  then have p: "?p \<in> set (replay_pairs l)" "rreq_expire_operation_id (fst ?p) = ?i" by (simp_all add: set_claims_of)
  obtain e0 where e0: "filter (\<lambda>e. ent_consumed_by e = Some ?i) (led_candidate_entries l) = [e0]"
      "e0 \<in> set (led_candidate_entries l)"
      "cand_owner_principal_id c = cand_owner_principal_id (ent_candidate e0)"
      "cand_candidate_fencing_token (ent_candidate e0) < cand_candidate_fencing_token c"
      "cand_artifact_id c = cand_artifact_id (ent_candidate e0)" "cand_hold_id c = cand_hold_id (ent_candidate e0)"
      "cand_expected_hold_digest c = cand_expected_hold_digest (ent_candidate e0)"
      "cand_expected_artifact_version c = cand_expected_artifact_version (ent_candidate e0)"
      "cand_observed_expires_ms c = cand_observed_expires_ms (ent_candidate e0)"
    using claim_repeats_tuple [OF C p(1) [unfolded l] k(1)] k(2) p(2) h m c l
    by (auto simp: request_matches_def)
  obtain e1 where e1: "e1 \<in> set (led_candidate_entries l)" "ent_candidate e1 = c"
    using replay_in_entries [OF L, of "fst ?p" "snd ?p"] p(1) c by (auto simp: entry_candidates_def)
  have un: "\<not> ent_consumed e1" using replay_never_consumed [OF C p(1) [unfolded l]] e1 c l by simp
  have ne: "ereq_candidate_lease_id q \<noteq> cand_candidate_lease_id (ent_candidate e0)"
  proof
    assume "ereq_candidate_lease_id q = cand_candidate_lease_id (ent_candidate e0)"
    then have "filter (\<lambda>x. cand_candidate_lease_id (ent_candidate x) = cand_candidate_lease_id c) (led_candidate_entries l) = [e0]"
      using entry_lease_unique [OF L e0(2)] m by (simp add: request_matches_def)
    with entry_lease_unique [OF L e1(1)] e1(2) have "e0 = e1" by simp
    with e0(4) e1(2) show False by simp
  qed
  have "candidate_entry_for l (ereq_candidate_lease_id q) = Inr e1"
    using candidate_entry_for_iff [OF L] e1 m by (simp add: request_matches_def)
  moreover have "replay_claim_for_candidate l c = Inr (Some ?p)"
    using replay_claim_for_candidate_iff(1) [OF L] p(1) c by simp
  moreover have "current_replay_claim_for_expire_operation dumps l ?i = Inr (Some ?p)"
    using current_claim_eq [OF L i] some by simp
  moreover have "all_ok (replay_claim_result_checks_for dumps (snd ?p) (fst ?p))" "rres_expire_operation_id (snd ?p) = ?i"
    using claim_facts(2,3) [OF L p(1)] p(2) by simp_all
  moreover have "all_ok (candidate_checks dumps c)"
    using entry_candidate_valid [OF L, of c] e1 by (auto simp: entry_candidates_def)
  moreover have "ereq_artifact_id q = cand_artifact_id (ent_candidate e0)" "ereq_hold_id q = cand_hold_id (ent_candidate e0)"
      "ereq_expected_hold_digest q = cand_expected_hold_digest (ent_candidate e0)"
      "ereq_expected_artifact_version q = cand_expected_artifact_version (ent_candidate e0)"
      "ereq_observed_expires_ms q = cand_observed_expires_ms (ent_candidate e0)"
    using m e0 by (simp_all add: request_matches_def)
  ultimately show ?thesis using L q e0(1,3,4) ne un e1(2) m now
    by (cases ?p) (simp add: require_replay_authority_def ledger_iff Let_def candidate_iff candidate_fields_ok_def)
qed

text \<open>The tail of \<open>require_replay_authority\<close>: the caller presents a claimed candidate.\<close>

lemma claim_branch:
  assumes "(case claim of None \<Rightarrow> Inl err | Some (cq, cr) \<Rightarrow>
      checked (replay_claim_result_checks_for dumps cr cq @
        [Check (case current of None \<Rightarrow> False | Some (q', r') \<Rightarrow> cr = r') e1,
         Check (\<not> (rres_expire_operation_id cr \<noteq> i \<or> cand_candidate_fencing_token c \<le> f0)) e2] @
        require_candidate_request_binding q c @
        [Check (\<not> (cand_owner_principal_id c \<noteq> pr \<or> cand_owner_instance_id c \<noteq> ins \<or> cand_candidate_fencing_token c \<noteq> f)) e3,
         Check (cand_issued_at_ms c \<le> now \<and> now < cand_lease_until_ms c) e4])
      (Inr \<lparr> vrep_candidate = c, vrep_seal = z \<rparr>)) = Inr v"
  shows "\<exists>cq cr q'. claim = Some (cq, cr) \<and> current = Some (q', cr) \<and> request_matches q c \<and> vrep_candidate v = c \<and>
    pr = cand_owner_principal_id c \<and> ins = cand_owner_instance_id c \<and> f = cand_candidate_fencing_token c \<and>
    cand_issued_at_ms c \<le> now \<and> now < cand_lease_until_ms c"
  using assms by (auto split: option.splits)

text \<open>Only the current authority is accepted.\<close>

lemma require_authority_effect:
  assumes L: "ledger_ok dumps l" and v: "require_replay_authority dumps l q pr ins f now = Inr v"
  shows "\<exists>c. current_authority l (ereq_expire_operation_id q) = Some c \<and> vrep_candidate v = c \<and> request_matches q c \<and>
    pr = cand_owner_principal_id c \<and> ins = cand_owner_instance_id c \<and> f = cand_candidate_fencing_token c \<and>
    (claims_of (replay_pairs l) (ereq_expire_operation_id q) = [] \<or> cand_issued_at_ms c \<le> now \<and> now < cand_lease_until_ms c)"
proof -
  let ?i = "ereq_expire_operation_id q"
  have q: "all_ok (expiry_request_checks dumps q)" using v by (simp add: require_replay_authority_def)
  then have i: "lower_sha256 ?i" by (simp add: expiry_request_iff expiry_request_id_shape)
  obtain e where e: "filter (\<lambda>e. ent_consumed_by e = Some ?i) (led_candidate_entries l) = [e]"
    using v by (auto simp: require_replay_authority_def split: option.splits)
  show ?thesis
  proof (cases "ereq_candidate_lease_id q = cand_candidate_lease_id (ent_candidate e)")
    case True
    have "claims_of (replay_pairs l) ?i = []"
      using v e True current_claim_eq [OF L i] by (auto simp: require_replay_authority_def Let_def split: if_splits)
    moreover have "request_matches q (ent_candidate e)" "vrep_candidate v = ent_candidate e"
        "pr = cand_owner_principal_id (ent_candidate e)" "ins = cand_owner_instance_id (ent_candidate e)"
        "f = cand_candidate_fencing_token (ent_candidate e)"
      using v e True current_claim_eq [OF L i] by (auto simp: require_replay_authority_def Let_def split: if_splits)
    ultimately show ?thesis using e by (simp add: current_authority_def)
  next
    case False
    obtain cur x claim where x: "current_replay_claim_for_expire_operation dumps l ?i = Inr cur"
        "candidate_entry_for l (ereq_candidate_lease_id q) = Inr x" "replay_claim_for_candidate l (ent_candidate x) = Inr claim"
      and tail: "\<exists>cq cr q'. claim = Some (cq, cr) \<and> cur = Some (q', cr) \<and> request_matches q (ent_candidate x) \<and>
        vrep_candidate v = ent_candidate x \<and> pr = cand_owner_principal_id (ent_candidate x) \<and>
        ins = cand_owner_instance_id (ent_candidate x) \<and> f = cand_candidate_fencing_token (ent_candidate x) \<and>
        cand_issued_at_ms (ent_candidate x) \<le> now \<and> now < cand_lease_until_ms (ent_candidate x)"
      using v unfolding require_replay_authority_def Let_def e the_only.simps option.case checked_eq_Inr bindE_eq_Inr
        if_not_P [OF False]
      by (elim conjE exE) (rule that, assumption+, rule claim_branch, assumption)
    then obtain cq cr q' where y: "claim = Some (cq, cr)" "cur = Some (q', cr)" by blast
    have "claims_of (replay_pairs l) ?i \<noteq> []" "cr = snd (latest_claim (replay_pairs l) ?i)"
      using x(1) y(2) current_claim_eq [OF L i] by (auto split: if_splits)
    moreover have "rres_candidate cr = ent_candidate x" using replay_claim_for_candidate_iff(1) [OF L] x(3) y(1) by force
    ultimately show ?thesis using tail by (auto simp: current_authority_def)
  qed
qed

section \<open>EXPIRE on a committed operation\<close>

definition expire_replay_guard ::
    "(json \<Rightarrow> bytes option) \<Rightarrow> ArtifactHoldExpiryCASState \<Rightarrow> ArtifactHoldExpiryRequest \<Rightarrow> int \<Rightarrow> caller \<Rightarrow> int
     \<Rightarrow> ArtifactHoldExpiryCandidate \<Rightarrow> bool" where
  "expire_replay_guard dumps st q now who fence c \<longleftrightarrow> (let s = cas_hold_state st; l = cas_candidate_ledger st in
     all_ok (expiry_caller_checks dumps q now who fence) \<and>
     hold_artifact_id s = ereq_artifact_id q \<and> hold_hold_id s = ereq_hold_id q \<and>
     current_authority l (ereq_expire_operation_id q) = Some c \<and> request_matches q c \<and>
     cal_principal who = cand_owner_principal_id c \<and> cal_instance who = cand_owner_instance_id c \<and>
     fence = cand_candidate_fencing_token c \<and>
     (claims_of (replay_pairs l) (ereq_expire_operation_id q) = [] \<or> cand_issued_at_ms c \<le> now \<and> now < cand_lease_until_ms c))"

lemma caller_checks_identity:
  "all_ok (expiry_caller_checks dumps q now who fence) \<Longrightarrow>
     cal_component_type who = REAPER_COMPONENT_TYPE \<and> cal_subject who = EXPIRY_SUBJECT \<and> int_from 1 fence"
  by (simp add: expiry_caller_checks_def)

lemma expire_replay_effect:
  assumes C: "cas_ok dumps st" and k: "k \<in> set (cas_commits st)" "com_expire_operation_id k = ereq_expire_operation_id q"
    and ap: "apply_artifact_hold_expiry dumps q st now who fence = Inr (st', r)"
  shows "st' = st \<and> expiry_result_from_json dumps (com_result_json k) = Inr r \<and>
    (\<exists>c. expire_replay_guard dumps st q now who fence c)"
proof -
  have cc: "all_ok (expiry_caller_checks dumps q now who fence)"
    using ap by (simp add: apply_artifact_hold_expiry_def Let_def)
  have i: "lower_sha256 (ereq_expire_operation_id q)"
    using caller_checks_facts [OF cc] by (simp add: expiry_request_iff expiry_request_id_shape)
  have cf: "commit_for st (ereq_expire_operation_id q) = Inr (Some k)" using commit_for_iff(2) [OF C i] k by blast
  obtain v where v: "require_replay_authority dumps (cas_candidate_ledger st) q (cal_principal who) (cal_instance who) fence now = Inr v"
      "validate_result_for_request dumps k q (cal_principal who) fence (cal_component_type who) (cal_subject who) (Some v) = Inr r"
      "hold_artifact_id (cas_hold_state st) = ereq_artifact_id q" "hold_hold_id (cas_hold_state st) = ereq_hold_id q" "st' = st"
    using ap unfolding apply_artifact_hold_expiry_def Let_def cf bindE_eq_Inr checked_eq_Inr by auto
  obtain c where "expire_replay_guard dumps st q now who fence c"
    using require_authority_effect [OF cas_okD(2) [OF C] v(1)] cc v(3,4) unfolding expire_replay_guard_def Let_def by blast
  with v(5) validated_result [OF v(2)] show ?thesis by blast
qed

lemma request_digest_same:
  assumes "all_ok (expiry_request_checks dumps q)" and "all_ok (expiry_request_checks dumps q')"
    and "ereq_artifact_id q = ereq_artifact_id q'" and "ereq_hold_id q = ereq_hold_id q'"
    and "ereq_expected_hold_digest q = ereq_expected_hold_digest q'"
    and "ereq_expected_artifact_version q = ereq_expected_artifact_version q'"
    and "ereq_observed_expires_ms q = ereq_observed_expires_ms q'"
  shows "ereq_request_digest q = ereq_request_digest q'"
proof -
  have "ereq_expire_operation_id q = ereq_expire_operation_id q'"
    using assms by (simp add: expiry_request_iff expiry_request_fields_ok_def)
  then have "expire_request_business_payload q = expire_request_business_payload q'"
    using assms by (simp add: expire_request_business_payload_def expiry_request_iff expiry_request_fields_ok_def)
  then have "artifact_hold_expiry_request_digest dumps q = artifact_hold_expiry_request_digest dumps q'"
    by (simp add: artifact_hold_expiry_request_digest_def)
  with assms(1,2) show ?thesis by (simp add: expiry_request_iff)
qed

lemma verified_ok: "all_ok (verified_replay_checks dumps \<lparr> vrep_candidate = c, vrep_seal = REPLAY_AUTHORITY_SEAL \<rparr>) \<longleftrightarrow>
    all_ok (candidate_checks dumps c)"
  by (simp add: verified_replay_checks_def)

definition repeats_tuple :: "ArtifactHoldExpiryRequest \<Rightarrow> ArtifactHoldExpiryCandidate \<Rightarrow> bool" where
  "repeats_tuple q c \<longleftrightarrow> ereq_artifact_id q = cand_artifact_id c \<and> ereq_hold_id q = cand_hold_id c \<and>
     ereq_expected_hold_digest q = cand_expected_hold_digest c \<and>
     ereq_expected_artifact_version q = cand_expected_artifact_version c \<and>
     ereq_observed_expires_ms q = cand_observed_expires_ms c"

text \<open>A commit answers every valid request for the due tuple it consumed.\<close>

lemma commit_answers:
  assumes C: "cas_ok dumps st" and k: "k \<in> set (cas_commits st)"
    and e: "filter (\<lambda>e. ent_consumed_by e = Some (com_expire_operation_id k)) (led_candidate_entries (cas_candidate_ledger st)) = [e]"
    and q: "all_ok (expiry_request_checks dumps q)" "repeats_tuple q (ent_candidate e)"
  shows "\<exists>r. expiry_result_from_json dumps (com_result_json k) = Inr r \<and> result_for_request r q k \<and> commit_for_request k q \<and>
    eres_retention_locked r = commit_retention k \<and> all_ok (commit_checks dumps k)"
proof -
  obtain e' where e': "e' \<in> set (led_candidate_entries (cas_candidate_ledger st))"
      "ent_consumed_by e' = Some (com_expire_operation_id k)" "evidence_ok dumps st k e'"
    using cas_evidence [OF C k] by blast
  have "e' \<in> set (filter (\<lambda>e. ent_consumed_by e = Some (com_expire_operation_id k)) (led_candidate_entries (cas_candidate_ledger st)))"
    using e' by simp
  then have "e' = e" using e by simp
  then obtain q0 r pr f where w: "expiry_request_create dumps (ent_candidate e) = Inr q0"
      "validate_result_for_request dumps k q0 pr f REAPER_COMPONENT_TYPE EXPIRY_SUBJECT None = Inr r"
    using e'(3) by (auto simp: evidence_ok_def Let_def)
  have q0: "request_matches q0 (ent_candidate e)" "all_ok (expiry_request_checks dumps q0)"
    using w(1) by (simp_all add: expiry_request_created_iff)
  have v: "result_for_request r q0 k" "commit_for_request k q0" "eres_retention_locked r = commit_retention k"
    using w(2) unfolding validate_result_iff by blast+
  have same: "ereq_artifact_id q = ereq_artifact_id q0" "ereq_hold_id q = ereq_hold_id q0"
      "ereq_expected_hold_digest q = ereq_expected_hold_digest q0"
      "ereq_expected_artifact_version q = ereq_expected_artifact_version q0"
      "ereq_observed_expires_ms q = ereq_observed_expires_ms q0"
    using q(2) q0(1) by (simp_all add: repeats_tuple_def request_matches_def)
  moreover have "ereq_request_digest q = ereq_request_digest q0" by (rule request_digest_same [OF q(1) q0(2) same])
  moreover have "ereq_expire_operation_id q = ereq_expire_operation_id q0"
    using q(1) q0(2) same by (simp add: expiry_request_iff expiry_request_fields_ok_def)
  ultimately have "result_for_request r q k" "commit_for_request k q"
    using v by (simp_all add: result_for_request_def commit_for_request_def)
  with v(3) validated_result [OF w(2)] show ?thesis by blast
qed

text \<open>The current authority is accepted, and repeats the consumed due tuple.\<close>

lemma current_authority_accepted:
  assumes C: "cas_ok dumps st" and l: "l = cas_candidate_ledger st"
    and k: "k \<in> set (cas_commits st)" "com_expire_operation_id k = ereq_expire_operation_id q"
    and e: "filter (\<lambda>e. ent_consumed_by e = Some (ereq_expire_operation_id q)) (led_candidate_entries l) = [e]"
      "all_ok (candidate_checks dumps (ent_candidate e))"
    and q: "all_ok (expiry_request_checks dumps q)" "int_from 0 now"
    and ca: "current_authority l (ereq_expire_operation_id q) = Some c" and m: "request_matches q c"
    and live: "claims_of (replay_pairs l) (ereq_expire_operation_id q) = [] \<or> cand_issued_at_ms c \<le> now \<and> now < cand_lease_until_ms c"
    and h: "hold_artifact_id (cas_hold_state st) = ereq_artifact_id q" "hold_hold_id (cas_hold_state st) = ereq_hold_id q"
  shows "all_ok (candidate_checks dumps c) \<and> repeats_tuple q (ent_candidate e) \<and>
    cand_owner_principal_id c = cand_owner_principal_id (ent_candidate e) \<and>
    (c = ent_candidate e \<or> cand_candidate_fencing_token (ent_candidate e) < cand_candidate_fencing_token c) \<and>
    require_replay_authority dumps l q (cand_owner_principal_id c) (cand_owner_instance_id c)
      (cand_candidate_fencing_token c) now = Inr \<lparr> vrep_candidate = c, vrep_seal = REPLAY_AUTHORITY_SEAL \<rparr>"
proof (cases "claims_of (replay_pairs l) (ereq_expire_operation_id q) = []")
  case True
  have L: "ledger_ok dumps l" using cas_okD(2) [OF C] l by simp
  have "c = ent_candidate e" using ca e(1) True by (simp add: current_authority_def)
  then show ?thesis
    using require_authority_original [OF L q(1) e(1) True _ e(2) q(2)] m e(2)
    by (simp add: request_matches_def repeats_tuple_def)
next
  case False
  let ?i = "ereq_expire_operation_id q" and ?p = "latest_claim (replay_pairs l) (ereq_expire_operation_id q)"
  have L: "ledger_ok dumps l" using cas_okD(2) [OF C] l by simp
  have c: "c = rres_candidate (snd ?p)" using ca False by (simp add: current_authority_def)
  have "?p \<in> set (claims_of (replay_pairs l) ?i)" using False latest_claim_mem by (metis claims_of_empty_iff)
  then have p: "?p \<in> set (replay_pairs l)" "rreq_expire_operation_id (fst ?p) = ?i" by (simp_all add: set_claims_of)
  have "c \<in> set (entry_candidates l)" using replay_in_entries [OF L, of "fst ?p" "snd ?p"] p(1) c by simp
  then have "all_ok (candidate_checks dumps c)" by (rule entry_candidate_valid [OF L])
  moreover have "require_replay_authority dumps l q (cand_owner_principal_id c) (cand_owner_instance_id c)
      (cand_candidate_fencing_token c) now = Inr \<lparr> vrep_candidate = c, vrep_seal = REPLAY_AUTHORITY_SEAL \<rparr>"
    using require_authority_claim [OF C l q(1) k False c m q(2) _ _ h] live False by simp
  moreover obtain e' where "filter (\<lambda>e. ent_consumed_by e = Some ?i) (led_candidate_entries l) = [e']"
      "cand_owner_principal_id c = cand_owner_principal_id (ent_candidate e')"
      "cand_candidate_fencing_token (ent_candidate e') < cand_candidate_fencing_token c"
      "repeats_tuple q (ent_candidate e')"
    using claim_repeats_tuple [OF C p(1) [unfolded l] k(1)] k(2) p(2) h m c l
    by (auto simp: request_matches_def repeats_tuple_def)
  ultimately show ?thesis using e(1) by simp
qed

lemma expire_replays:
  assumes C: "cas_ok dumps st" and k: "k \<in> set (cas_commits st)" "com_expire_operation_id k = ereq_expire_operation_id q"
    and g: "expire_replay_guard dumps st q now who fence c"
  shows "\<exists>r. expiry_result_from_json dumps (com_result_json k) = Inr r \<and>
    apply_artifact_hold_expiry dumps q st now who fence = Inr (st, r)"
proof -
  let ?s = "cas_hold_state st" and ?l = "cas_candidate_ledger st" and ?i = "ereq_expire_operation_id q"
  have cc: "all_ok (expiry_caller_checks dumps q now who fence)"
    and h: "hold_artifact_id ?s = ereq_artifact_id q" "hold_hold_id ?s = ereq_hold_id q"
    and ca: "current_authority ?l ?i = Some c" and m: "request_matches q c"
    and w: "cal_principal who = cand_owner_principal_id c" "cal_instance who = cand_owner_instance_id c"
      "fence = cand_candidate_fencing_token c"
    and live: "claims_of (replay_pairs ?l) ?i = [] \<or> cand_issued_at_ms c \<le> now \<and> now < cand_lease_until_ms c"
    using g unfolding expire_replay_guard_def Let_def by blast+
  have q: "all_ok (expiry_request_checks dumps q)" "int_from 0 now" using caller_checks_facts [OF cc] by simp_all
  have i: "lower_sha256 ?i" using q(1) by (simp add: expiry_request_iff expiry_request_id_shape)
  have cf: "commit_for st ?i = Inr (Some k)" using commit_for_iff(2) [OF C i] k by blast
  obtain e r where e: "filter (\<lambda>e. ent_consumed_by e = Some ?i) (led_candidate_entries ?l) = [e]"
      "all_ok (candidate_checks dumps (ent_candidate e))"
      "expiry_result_from_json dumps (com_result_json k) = Inr r"
      "com_authorized_reaper_principal_id k = cand_owner_principal_id (ent_candidate e)"
      "com_authorized_reaper_fencing_token k = cand_candidate_fencing_token (ent_candidate e)"
      "com_authorized_candidate_digest k = cand_candidate_digest (ent_candidate e)"
      "about_hold ?s r \<longrightarrow> terminal_for ?s k (ent_candidate e) r"
    using commit_candidate [OF C k(1)] unfolding k(2) by blast
  note acc = current_authority_accepted [OF C refl k e(1,2) q ca m live h]
  from commit_answers [OF C k(1) e(1) [folded k(2)] q(1)] acc e(3)
  have ans: "result_for_request r q k" "commit_for_request k q" "eres_retention_locked r = commit_retention k"
    "all_ok (commit_checks dumps k)" by auto
  have "validate_result_for_request dumps k q (cal_principal who) fence (cal_component_type who) (cal_subject who)
      (Some \<lparr> vrep_candidate = c, vrep_seal = REPLAY_AUTHORITY_SEAL \<rparr>) = Inr r"
    using q(1) ans e acc m w caller_checks_identity [OF cc] unfolding validate_result_iff by (auto simp: verified_ok)
  moreover have "terminal_for ?s k (ent_candidate e) r"
    using e(7) ans(1) h by (simp add: about_hold_def result_for_request_def)
  then have "hold_hold_digest ?s = com_expected_hold_digest k" "eres_artifact_version r \<le> hold_artifact_version ?s"
    by (simp_all add: terminal_for_def)
  moreover have "require_replay_authority dumps ?l q (cal_principal who) (cal_instance who) fence now =
      Inr \<lparr> vrep_candidate = c, vrep_seal = REPLAY_AUTHORITY_SEAL \<rparr>"
    using acc unfolding w by blast
  ultimately have "apply_artifact_hold_expiry dumps q st now who fence = Inr (st, r)"
    using cc C cf h by (simp add: apply_artifact_hold_expiry_def cas_iff Let_def)
  with e(3) show ?thesis by blast
qed

section \<open>REPLAY_CLAIM\<close>

text \<open>The guard of a new REPLAY_CLAIM on a valid snapshot, for the commit it names.\<close>

definition replay_claim_guard ::
    "(json \<Rightarrow> bytes option) \<Rightarrow> ArtifactHoldExpiryReplayClaimRequest \<Rightarrow> ArtifactHoldExpiryCASState \<Rightarrow> int \<Rightarrow> int
     \<Rightarrow> caller \<Rightarrow> ArtifactHoldExpiryCommit \<Rightarrow> ArtifactHoldExpiryCandidate \<Rightarrow> bool" where
  "replay_claim_guard dumps q st now until who k c0 \<longleftrightarrow> (let s = cas_hold_state st; l = cas_candidate_ledger st in
     all_ok (replay_claim_request_checks dumps q) \<and> int_from 0 now \<and> int_from 0 until \<and> lease_window now until \<and>
     stable_text (cal_instance who) \<and> cal_component_type who = REAPER_COMPONENT_TYPE \<and> cal_subject who = EXPIRY_SUBJECT \<and>
     k \<in> set (cas_commits st) \<and> com_expire_operation_id k = rreq_expire_operation_id q \<and>
     rreq_base_commit_digest q = com_commit_digest k \<and> com_committed_at_ms k \<le> now \<and>
     cal_principal who = com_authorized_reaper_principal_id k \<and>
     (\<exists>e \<in> set (led_candidate_entries l). ent_consumed_by e = Some (rreq_expire_operation_id q) \<and> ent_candidate e = c0) \<and>
     rreq_artifact_id q = cand_artifact_id c0 \<and> rreq_hold_id q = cand_hold_id c0 \<and>
     rreq_expected_hold_digest q = cand_expected_hold_digest c0 \<and>
     rreq_expected_artifact_version q = cand_expected_artifact_version c0 \<and>
     rreq_observed_expires_ms q = cand_observed_expires_ms c0 \<and>
     hold_artifact_id s = rreq_artifact_id q \<and> hold_hold_id s = rreq_hold_id q \<and>
     (claims_of (replay_pairs l) (rreq_expire_operation_id q) = [] \<or>
        cand_lease_until_ms (rres_candidate (snd (latest_claim (replay_pairs l) (rreq_expire_operation_id q)))) \<le> now) \<and>
     led_candidate_fence_high_water l < MAX_SAFE_INTEGER \<and>
     rreq_candidate_lease_id q \<notin> set (authority_tokens l) \<and> rreq_candidate_token q \<notin> set (authority_tokens l) \<and>
     rreq_replay_operation_id q \<notin> set (map rreq_replay_operation_id (led_replay_claim_requests l)) \<and>
     rreq_replay_operation_id q \<notin> set (map sreq_scan_operation_id (led_scan_requests l)))"

lemma latest_claim_valid:
  assumes L: "ledger_ok dumps l" and "claims_of (replay_pairs l) i \<noteq> []"
  shows "cand_issued_at_ms (rres_candidate (snd (latest_claim (replay_pairs l) i)))
    < cand_lease_until_ms (rres_candidate (snd (latest_claim (replay_pairs l) i)))"
proof -
  let ?p = "latest_claim (replay_pairs l) i"
  have "?p \<in> set (claims_of (replay_pairs l) i)" using assms(2) latest_claim_mem by (metis claims_of_empty_iff)
  then have "rres_candidate (snd ?p) \<in> set (entry_candidates l)" by (rule claims_in_entries [OF L])
  then have "all_ok (candidate_checks dumps (rres_candidate (snd ?p)))" by (rule entry_candidate_valid [OF L])
  then show ?thesis by (simp add: candidate_iff candidate_fields_ok_def lease_window_def)
qed

context canonical_encoder
begin

lemma replay_claim_succeeds:
  assumes C: "cas_ok dumps st" and g: "replay_claim_guard dumps q st now until who k c0"
  shows "\<exists>r. apply_artifact_hold_expiry_replay_claim dumps q st now until who = Inr (claimed_snapshot st q r, r) \<and>
    cas_ok dumps (claimed_snapshot st q r) \<and> all_ok (replay_claim_result_checks_for dumps r q) \<and>
    cand_candidate_fencing_token (rres_candidate r) = led_candidate_fence_high_water (cas_candidate_ledger st) + 1 \<and>
    cand_owner_principal_id (rres_candidate r) = cal_principal who \<and>
    cand_owner_instance_id (rres_candidate r) = cal_instance who \<and>
    cand_issued_at_ms (rres_candidate r) = now \<and> cand_lease_until_ms (rres_candidate r) = until"
proof -
  let ?s = "cas_hold_state st" and ?l = "cas_candidate_ledger st" and ?i = "rreq_expire_operation_id q"
  let ?hw = "led_candidate_fence_high_water (cas_candidate_ledger st)"
  note L = cas_okD(2) [OF C]
  have q: "all_ok (replay_claim_request_checks dumps q)" and now: "int_from 0 now" "int_from 0 until" "lease_window now until"
    and w: "stable_text (cal_instance who)" "cal_component_type who = REAPER_COMPONENT_TYPE" "cal_subject who = EXPIRY_SUBJECT"
    and k: "k \<in> set (cas_commits st)" "com_expire_operation_id k = ?i" "rreq_base_commit_digest q = com_commit_digest k"
      "com_committed_at_ms k \<le> now" "cal_principal who = com_authorized_reaper_principal_id k"
    and e0: "\<exists>e \<in> set (led_candidate_entries ?l). ent_consumed_by e = Some ?i \<and> ent_candidate e = c0"
    and t: "rreq_artifact_id q = cand_artifact_id c0" "rreq_hold_id q = cand_hold_id c0"
      "rreq_expected_hold_digest q = cand_expected_hold_digest c0"
      "rreq_expected_artifact_version q = cand_expected_artifact_version c0"
      "rreq_observed_expires_ms q = cand_observed_expires_ms c0"
    and h: "hold_artifact_id ?s = rreq_artifact_id q" "hold_hold_id ?s = rreq_hold_id q"
    and gap: "claims_of (replay_pairs ?l) ?i = [] \<or>
        cand_lease_until_ms (rres_candidate (snd (latest_claim (replay_pairs ?l) ?i))) \<le> now"
    and hw: "?hw < MAX_SAFE_INTEGER"
    and tok: "rreq_candidate_lease_id q \<notin> set (authority_tokens ?l)" "rreq_candidate_token q \<notin> set (authority_tokens ?l)"
    and ids: "rreq_replay_operation_id q \<notin> set (map rreq_replay_operation_id (led_replay_claim_requests ?l))"
      "rreq_replay_operation_id q \<notin> set (map sreq_scan_operation_id (led_scan_requests ?l))"
    using g unfolding replay_claim_guard_def Let_def by blast+
  have qf: "replay_request_fields_ok q" using q by (simp add: replay_request_iff)
  have ish: "lower_sha256 ?i" "lower_sha256 (rreq_replay_operation_id q)" using replay_request_ids_shape [OF qf] by simp_all
  obtain e r0 where e: "filter (\<lambda>e. ent_consumed_by e = Some ?i) (led_candidate_entries ?l) = [e]"
      "expiry_result_from_json dumps (com_result_json k) = Inr r0"
      "eres_artifact_id r0 = cand_artifact_id (ent_candidate e)" "eres_hold_id r0 = cand_hold_id (ent_candidate e)"
      "com_expected_hold_digest k = cand_expected_hold_digest (ent_candidate e)"
      "com_previous_artifact_version k = cand_expected_artifact_version (ent_candidate e)"
      "com_authorized_reaper_fencing_token k = cand_candidate_fencing_token (ent_candidate e)"
      "artifact_hold_expiry_operation_id (cand_artifact_id (ent_candidate e)) (cand_hold_id (ent_candidate e))
        (cand_expected_hold_digest (ent_candidate e)) (cand_expected_artifact_version (ent_candidate e))
        (cand_observed_expires_ms (ent_candidate e)) = Inr ?i"
      "about_hold ?s r0 \<longrightarrow> terminal_for ?s k (ent_candidate e) r0" "e \<in> set (led_candidate_entries ?l)"
    using commit_candidate [OF C k(1)] unfolding k(2) by blast
  have ec: "ent_candidate e = c0"
  proof -
    obtain x where "x \<in> set (filter (\<lambda>e. ent_consumed_by e = Some ?i) (led_candidate_entries ?l))" "ent_candidate x = c0"
      using e0 by auto
    then show ?thesis using e(1) by simp
  qed
  have trm: "terminal_for ?s k c0 r0" using e(9) ec e(3,4) h t by (simp add: about_hold_def)
  have hwi: "int_from 0 ?hw" using L by (simp add: ledger_ok_def)
  have kp: "stable_text (cal_principal who)" using cas_okD(4) [OF C k(1)] k(5) by (simp add: commit_iff commit_fields_ok_def)
  obtain c where c: "candidate_create dumps (rreq_replay_operation_id q) (rreq_candidate_lease_id q) (?hw + 1)
      (rreq_candidate_token q) (cal_principal who) (cal_instance who) now until (rreq_artifact_id q) (rreq_hold_id q)
      (rreq_expected_hold_digest q) (rreq_expected_artifact_version q) (rreq_observed_expires_ms q) = Inr c"
      "all_ok (candidate_checks dumps c)"
      "c = \<lparr> cand_schema_version = u ''1'', cand_scan_operation_id = rreq_replay_operation_id q,
        cand_candidate_lease_id = rreq_candidate_lease_id q, cand_candidate_fencing_token = ?hw + 1,
        cand_candidate_token = rreq_candidate_token q, cand_owner_principal_id = cal_principal who,
        cand_owner_instance_id = cal_instance who, cand_issued_at_ms = now, cand_lease_until_ms = until,
        cand_artifact_id = rreq_artifact_id q, cand_hold_id = rreq_hold_id q,
        cand_expected_hold_digest = rreq_expected_hold_digest q,
        cand_expected_artifact_version = rreq_expected_artifact_version q,
        cand_observed_expires_ms = rreq_observed_expires_ms q, cand_candidate_digest = cand_candidate_digest c \<rparr>"
    using candidate_created [of "rreq_replay_operation_id q" "rreq_candidate_lease_id q" "rreq_candidate_token q" "?hw + 1"
        "cal_principal who" "cal_instance who" now until "rreq_artifact_id q" "rreq_hold_id q" "rreq_expected_hold_digest q"
        "rreq_expected_artifact_version q" "rreq_observed_expires_ms q"] qf ish hw hwi kp w now
    by (auto simp: replay_request_fields_ok_def int_from_def)
  have cf: "cand_scan_operation_id c = rreq_replay_operation_id q" "cand_candidate_lease_id c = rreq_candidate_lease_id q"
      "cand_candidate_fencing_token c = ?hw + 1" "cand_candidate_token c = rreq_candidate_token q"
      "cand_owner_principal_id c = cal_principal who" "cand_owner_instance_id c = cal_instance who"
      "cand_issued_at_ms c = now" "cand_lease_until_ms c = until" "cand_artifact_id c = rreq_artifact_id q"
      "cand_hold_id c = rreq_hold_id q" "cand_expected_hold_digest c = rreq_expected_hold_digest q"
      "cand_expected_artifact_version c = rreq_expected_artifact_version q"
      "cand_observed_expires_ms c = rreq_observed_expires_ms q"
    by (subst c(3), simp)+
  obtain r where r: "replay_claim_result_create dumps q c = Inr r" "all_ok (replay_claim_result_checks_for dumps r q)"
      "rres_candidate r = c"
    using replay_result_created [OF q c(2) cf(1,2,4,9-13)] by blast
  have fresh: "fresh_candidate dumps ?l (rres_candidate r)" using c(2) cf tok r(3) by (simp add: fresh_candidate_def)
  have gap': "claims_of (replay_pairs ?l) ?i = [] \<or> cand_lease_until_ms (last (claim_leases (replay_pairs ?l) ?i)) \<le>
      cand_issued_at_ms (rres_candidate r)"
    using gap latest_claim_lease r(3) cf(7) by metis
  have rec: "record_replay_claim dumps ?l q r = Inr (claimed ?l q r)"
    by (rule record_replay_claim_new [OF L r(2) fresh ids gap'])
  have lok: "ledger_ok dumps (claimed ?l q r)" by (rule claimed_ok [OF L r(2) fresh ids gap'])
  have c0e: "c0 \<in> set (entry_candidates ?l)" using e(10) ec by (auto simp: entry_candidates_def)
  have match: "claim_matches_commit dumps ?s (q, r) k"
    using k e(2-7) r(2,3) cf trm t ec candidate_fence_bound [OF L c0e]
    by (auto simp: claim_matches_commit_def Let_def terminal_for_def replay_result_for_iff)
  have ok: "cas_ok dumps (claimed_snapshot st q r)" by (rule claimed_snapshot_ok [OF C lok k(1,2) match])
  have find: "find (\<lambda>(q', r'). rreq_replay_operation_id q' = rreq_replay_operation_id q) (replay_pairs ?l) = None"
    using find_None_replay [of ?l] ids(1) L by (simp add: ledger_ok_def)
  have comm: "commit_for st ?i = Inr (Some k)" using commit_for_iff(2) [OF C ish(1)] k by blast
  have cur: "all_ok (case if claims_of (replay_pairs ?l) ?i = [] then None else Some (latest_claim (replay_pairs ?l) ?i) of None \<Rightarrow> []
      | Some (q', r') \<Rightarrow> [Check (\<not> now < cand_issued_at_ms (rres_candidate r')) (conflict ''server time predates current replay authority''),
          Check (\<not> now < cand_lease_until_ms (rres_candidate r')) (conflict ''current replay authority lease is still live'')])"
    using gap latest_claim_valid [OF L, of ?i] by (auto split: prod.splits)
  have pre: "all_ok (replay_claim_precondition_checks q st who k r0 (ent_candidate e))"
    using t ec e(3,4,5,8) k(5) trm h by (auto simp: replay_claim_precondition_checks_def Let_def terminal_for_def)
  have "apply_artifact_hold_expiry_replay_claim dumps q st now until who = Inr (claimed_snapshot st q r, r)"
    using q C now w kp find comm k(3) e(1,2) pre cur c(1) r(1) rec ok reaper_stable
    by (auto simp: apply_artifact_hold_expiry_replay_claim_def cas_iff Let_def current_claim_eq [OF L ish(1)]
        lease_window_def claimed_snapshot_def)
  with ok r cf show ?thesis by blast
qed

end

lemma record_replay_effect:
  assumes L: "ledger_ok dumps l" and rec: "record_replay_claim dumps l q r = Inr l'"
    and new: "find (\<lambda>(q', r'). rreq_replay_operation_id q' = rreq_replay_operation_id q) (replay_pairs l) = None"
  shows "l' = claimed l q r \<and> fresh_candidate dumps l (rres_candidate r)"
proof -
  let ?i = "rreq_expire_operation_id q"
  have v: "all_ok (replay_claim_result_checks_for dumps r q)" using rec by (simp add: record_replay_claim_def)
  have rev: "(case filter (\<lambda>a. rcur_expire_operation_id a = ?i) (led_replay_current_authorities l) of
      [] \<Rightarrow> 1 | a # x \<Rightarrow> rcur_revision a + 1) = int (length (claims_of (replay_pairs l) ?i)) + 1"
    by (simp add: existing_pointer [OF L] pointer_revision)
  obtain a where a: "replay_current_create dumps q r (int (length (claims_of (replay_pairs l) ?i)) + 1) = Inr a"
    and l': "l \<lparr> led_candidate_fence_high_water := cand_candidate_fencing_token (rres_candidate r),
        led_replay_claim_requests := led_replay_claim_requests l @ [q],
        led_replay_claim_results := led_replay_claim_results l @ [r],
        led_candidate_entries := led_candidate_entries l @ [new_entry (rres_candidate r)],
        led_replay_current_authorities := set_current ?i a (led_replay_current_authorities l) \<rparr> = l'"
    and fr: "cand_candidate_lease_id (rres_candidate r) \<notin> set (authority_tokens l)"
      "cand_candidate_token (rres_candidate r) \<notin> set (authority_tokens l)"
      "led_candidate_fence_high_water l < cand_candidate_fencing_token (rres_candidate r)"
    using rec unfolding record_replay_claim_def new option.case Let_def checked_eq_Inr rev bindE_eq_Inr sum.inject
    by (elim conjE exE) (rule that; simp)
  have "a = current_of q r (int (length (claims_of (replay_pairs l) ?i)) + 1)"
    using a by (auto simp: replay_current_create_def Let_def current_of_def)
  moreover have "all_ok (candidate_checks dumps (rres_candidate r))"
    using v by (simp add: replay_result_for_iff replay_result_iff replay_result_fields_ok_def)
  ultimately show ?thesis using l' fr by (auto simp: claimed_def fresh_candidate_def)
qed

lemma claim_result_candidate: "replay_claim_result_create dumps q c = Inr r \<Longrightarrow> rres_candidate r = c"
  by (auto simp: replay_claim_result_create_def Let_def)

text \<open>A claim that was recorded had met its guard: its result is part of a valid snapshot.\<close>

lemma claim_guardI:
  assumes q: "all_ok (replay_claim_request_checks dumps q)" and C: "cas_ok dumps st"
    and k: "k \<in> set (cas_commits st)" "com_expire_operation_id k = rreq_expire_operation_id q"
    and dig: "rreq_base_commit_digest q = com_commit_digest k"
    and e: "filter (\<lambda>e. ent_consumed_by e = Some (rreq_expire_operation_id q)) (led_candidate_entries (cas_candidate_ledger st)) = [e]"
    and s: "all_ok (replay_claim_precondition_checks q st who k r0 (ent_candidate e))"
    and free: "claims_of (replay_pairs (cas_candidate_ledger st)) (rreq_expire_operation_id q) = [] \<or>
        cand_lease_until_ms (rres_candidate (snd (latest_claim (replay_pairs (cas_candidate_ledger st)) (rreq_expire_operation_id q)))) \<le> now"
    and w: "stable_text (cal_instance who)" "cal_component_type who = REAPER_COMPONENT_TYPE" "cal_subject who = EXPIRY_SUBJECT"
    and C': "cas_ok dumps (claimed_snapshot st q r)"
    and fresh: "fresh_candidate dumps (cas_candidate_ledger st) (rres_candidate r)"
    and c: "candidate_fields_ok (rres_candidate r)" "cand_issued_at_ms (rres_candidate r) = now" "cand_lease_until_ms (rres_candidate r) = until"
      "cand_candidate_lease_id (rres_candidate r) = rreq_candidate_lease_id q"
      "cand_candidate_token (rres_candidate r) = rreq_candidate_token q"
    and new: "rreq_replay_operation_id q \<notin> set (map rreq_replay_operation_id (led_replay_claim_requests (cas_candidate_ledger st)))"
  shows "replay_claim_guard dumps q st now until who k (ent_candidate e)"
proof -
  let ?l = "cas_candidate_ledger st"
  have p: "(q, r) \<in> set (replay_pairs (cas_candidate_ledger (claimed_snapshot st q r)))"
    using claimed_pairs [OF cas_okD(2) [OF C]] by simp
  obtain k' where k': "k' \<in> set (cas_commits st)" "com_expire_operation_id k' = rreq_expire_operation_id q"
      "com_committed_at_ms k' \<le> now"
    using cas_claim_commit [OF C' p] c(2) by (auto simp: claim_matches_commit_def Let_def)
  have "k' = k" using commit_unique [OF C k'(1) k(1)] k'(2) k(2) by simp
  moreover have "rreq_replay_operation_id q \<notin> set (map sreq_scan_operation_id (led_scan_requests ?l))"
    using ledger_okD(4) [OF cas_okD(2) [OF C']] p by (force simp: replays_ok_def)
  moreover have "e \<in> set (led_candidate_entries ?l)" "ent_consumed_by e = Some (rreq_expire_operation_id q)"
    using e by (auto simp: filter_eq_Cons_iff)
  ultimately show ?thesis using q k dig s free w fresh c new k'(3)
    by (simp add: replay_claim_guard_def Let_def replay_claim_precondition_checks_def candidate_fields_ok_def fresh_candidate_def
        int_from_def split: if_splits)
      blast
qed

text \<open>Every successful claim either replays a stored result or hands out one new authority.\<close>

lemma replay_claim_effect:
  assumes ap: "apply_artifact_hold_expiry_replay_claim dumps q st now until who = Inr (st', r)"
  shows "cas_ok dumps st \<and> all_ok (replay_claim_request_checks dumps q) \<and>
    ((q, r) \<in> set (replay_pairs (cas_candidate_ledger st)) \<and> st' = st \<and>
       cand_owner_principal_id (rres_candidate r) = cal_principal who \<and>
       cand_owner_instance_id (rres_candidate r) = cal_instance who \<or>
     rreq_replay_operation_id q \<notin> set (map rreq_replay_operation_id (led_replay_claim_requests (cas_candidate_ledger st))) \<and>
       st' = claimed_snapshot st q r \<and> cas_ok dumps st' \<and> hold_hold_status (cas_hold_state st) = EXPIRED \<and>
       fresh_candidate dumps (cas_candidate_ledger st) (rres_candidate r) \<and>
       cand_candidate_fencing_token (rres_candidate r) = led_candidate_fence_high_water (cas_candidate_ledger st) + 1 \<and>
       cand_issued_at_ms (rres_candidate r) = now \<and> cand_lease_until_ms (rres_candidate r) = until \<and>
       (\<exists>k c0. replay_claim_guard dumps q st now until who k c0))"
proof -
  let ?s = "cas_hold_state st" and ?l = "cas_candidate_ledger st" and ?i = "rreq_expire_operation_id q"
  have pre: "all_ok (replay_claim_request_checks dumps q)" "cas_ok dumps st"
    using ap unfolding apply_artifact_hold_expiry_replay_claim_def Let_def checked_eq_Inr all_ok_append cas_iff by blast+
  note L = cas_okD(2) [OF pre(2)]
  have i: "lower_sha256 ?i" using pre(1) replay_request_ids_shape by (auto simp: replay_request_iff)
  show ?thesis
  proof (cases "find (\<lambda>(q', r'). rreq_replay_operation_id q' = rreq_replay_operation_id q) (replay_pairs ?l)")
    case (Some p)
    then have "p \<in> set (replay_pairs ?l)" by (metis find_Some_iff nth_mem)
    with ap Some pre show ?thesis
      by (cases p) (auto simp: apply_artifact_hold_expiry_replay_claim_def Let_def)
  next
    case None
    then have new: "rreq_replay_operation_id q \<notin> set (map rreq_replay_operation_id (led_replay_claim_requests ?l))"
      using find_None_replay [of ?l] L by (simp add: ledger_ok_def)
    obtain x where x: "commit_for st ?i = Inr x" using commit_for_iff(3) [OF pre(2) i] by blast
    have "x \<noteq> None"
    proof
      assume "x = None"
      with ap None x show False by (simp add: apply_artifact_hold_expiry_replay_claim_def Let_def)
    qed
    then obtain k where cfk: "commit_for st ?i = Inr (Some k)" using x by blast
    then have k: "k \<in> set (cas_commits st)" "com_expire_operation_id k = ?i" using commit_for_iff(2) [OF pre(2) i] by blast+
    obtain e r0 where e: "filter (\<lambda>e. ent_consumed_by e = Some ?i) (led_candidate_entries ?l) = [e]"
        "expiry_result_from_json dumps (com_result_json k) = Inr r0"
      using commit_candidate [OF pre(2) k(1)] unfolding k(2) by blast
    obtain c l' where s: "all_ok (replay_claim_precondition_checks q st who k r0 (ent_candidate e))"
        and cur: "all_ok (case if claims_of (replay_pairs ?l) ?i = [] then None else Some (latest_claim (replay_pairs ?l) ?i) of None \<Rightarrow> []
                     | Some (q', r') \<Rightarrow>
                       [Check (\<not> now < cand_issued_at_ms (rres_candidate r'))
                          (conflict ''server time predates current replay authority''),
                        Check (\<not> now < cand_lease_until_ms (rres_candidate r'))
                          (conflict ''current replay authority lease is still live'')])"
        and c: "candidate_create dumps (rreq_replay_operation_id q) (rreq_candidate_lease_id q)
                     (led_candidate_fence_high_water ?l + 1) (rreq_candidate_token q) (cal_principal who)
                     (cal_instance who) now until (rreq_artifact_id q) (rreq_hold_id q)
                     (rreq_expected_hold_digest q) (rreq_expected_artifact_version q)
                     (rreq_observed_expires_ms q) = Inr c" "replay_claim_result_create dumps q c = Inr r"
        and l': "record_replay_claim dumps ?l q r = Inr l'" "st \<lparr> cas_candidate_ledger := l' \<rparr> = st'" "all_ok (cas_checks dumps st')"
      using ap unfolding apply_artifact_hold_expiry_replay_claim_def Let_def checked_eq_Inr None option.case cfk e
        bindE.simps the_only.simps current_claim_eq [OF L i] bindE_eq_Inr sum.inject prod.inject
      by (elim conjE exE) (rule that; simp)
    have rc: "rres_candidate r = c" by (rule claim_result_candidate [OF c(2)])
    note cf = candidate_create_fields [OF c(1)]
    note rec = record_replay_effect [OF L l'(1) None]
    have st': "st' = claimed_snapshot st q r" "cas_ok dumps st'" using rec l'(2) [symmetric] l'(3) by (simp_all add: claimed_snapshot_def cas_iff)
    have ex: "hold_hold_status ?s = EXPIRED" using s by (simp add: replay_claim_precondition_checks_def Let_def)
    have "replay_claim_guard dumps q st now until who k (ent_candidate e)"
    proof (rule claim_guardI [OF pre k _ e(1) s])
      show "claims_of (replay_pairs ?l) ?i = [] \<or>
          cand_lease_until_ms (rres_candidate (snd (latest_claim (replay_pairs ?l) ?i))) \<le> now"
        using cur by (auto split: prod.splits if_splits)
      show "candidate_fields_ok (rres_candidate r)" using rec by (simp add: fresh_candidate_def candidate_iff)
    qed (use ap c rec st' rc cf new in \<open>simp_all add: apply_artifact_hold_expiry_replay_claim_def Let_def None cfk\<close>)
    with pre new rc cf rec st' ex show ?thesis by auto
  qed
qed

end
