(* ===== verification/HoldRuns.thy ===== *)
theory HoldRuns
  imports ReplayFacts "HOL-Library.Sublist"
begin

text \<open>
  Runs of the hold-expiry contract: the snapshots reachable from a fresh one by any sequence of
  successful SCAN, REPLAY_CLAIM and EXPIRE calls, whoever issues them and whenever, and what every such
  run keeps.
\<close>

section \<open>Steps\<close>

inductive hold_step ::
    "(json \<Rightarrow> bytes option) \<Rightarrow> ArtifactHoldExpiryCASState \<Rightarrow> ArtifactHoldExpiryCASState \<Rightarrow> bool" for dumps where
  scan: "apply_artifact_hold_expiry_scan dumps draws q st now who = Inr (st', r) \<Longrightarrow> hold_step dumps st st'"
| claim: "apply_artifact_hold_expiry_replay_claim dumps q st now until who = Inr (st', r) \<Longrightarrow> hold_step dumps st st'"
| expire: "apply_artifact_hold_expiry dumps q st now who fence = Inr (st', r) \<Longrightarrow> hold_step dumps st st'"

inductive hold_run ::
    "(json \<Rightarrow> bytes option) \<Rightarrow> ArtifactHoldExpiryCASState \<Rightarrow> ArtifactHoldExpiryCASState \<Rightarrow> bool" for dumps where
  here: "hold_run dumps st st"
| more: "hold_run dumps st st' \<Longrightarrow> hold_step dumps st' st'' \<Longrightarrow> hold_run dumps st st''"

inductive hold_reachable :: "(json \<Rightarrow> bytes option) \<Rightarrow> ArtifactHoldExpiryCASState \<Rightarrow> bool" for dumps where
  fresh: "cas_create dumps s ledger_empty = Inr st \<Longrightarrow> hold_reachable dumps st"
| later: "hold_reachable dumps st \<Longrightarrow> hold_step dumps st st' \<Longrightarrow> hold_reachable dumps st'"

text \<open>A first EXPIRE that succeeds returns the snapshot of \<open>expired_snapshot\<close>.\<close>

context canonical_encoder
begin

lemma expire_effect:
  assumes C: "cas_ok dumps st" and new: "ereq_expire_operation_id q \<notin> set (commit_ids st)"
    and ap: "apply_artifact_hold_expiry dumps q st now who fence = Inr (st', r)"
  shows "\<exists>c e k a p. expire_guard dumps st q now who fence c \<and> expire_step dumps st q e r k a p now \<and>
    ent_candidate e = c \<and> st' = expired_snapshot st e k a p \<and> cas_ok dumps st'"
proof -
  obtain c where g: "expire_guard dumps st q now who fence c" using expire_needs_guard [OF C new ap] by blast
  obtain e k a p where x: "expire_step dumps st q e r k a p now" "st' = expired_snapshot st e k a p"
    using expire_succeeds [OF C new g] ap by auto
  have c: "ent_candidate e = c" using x(1) g by (simp add: expire_step_def expire_guard_def Let_def)
  have "no_newer (cas_candidate_ledger st) (ent_candidate e)" using g c unfolding expire_guard_def Let_def by blast
  then have "cas_ok dumps st'" using expired_snapshot_ok [OF x(1)] x(2) by simp
  with g x c show ?thesis by blast
qed

lemma expire_valid_input: "apply_artifact_hold_expiry dumps q st now who fence = Inr (st', r) \<Longrightarrow> cas_ok dumps st"
  by (simp add: apply_artifact_hold_expiry_def cas_iff Let_def)

text \<open>Every step is a no-op or one of the three updates.\<close>

lemma step_cases:
  assumes "hold_step dumps st st'"
  shows "cas_ok dumps st \<and> cas_ok dumps st' \<and> (st' = st \<or>
    (\<exists>q r c a. st' = scanned_snapshot st q r c a \<and> is_finite_active (cas_hold_state st) \<and>
       fresh_candidate dumps (cas_candidate_ledger st) c \<and> due_candidate (cas_hold_state st) c \<and> sres_candidates r = [c] \<and>
       cand_candidate_fencing_token c = led_candidate_fence_high_water (cas_candidate_ledger st) + 1) \<or>
    (\<exists>q r. st' = claimed_snapshot st q r \<and> hold_hold_status (cas_hold_state st) = EXPIRED \<and>
       fresh_candidate dumps (cas_candidate_ledger st) (rres_candidate r) \<and>
       cand_candidate_fencing_token (rres_candidate r) = led_candidate_fence_high_water (cas_candidate_ledger st) + 1) \<or>
    (\<exists>q e r k a p now. st' = expired_snapshot st e k a p \<and> expire_step dumps st q e r k a p now))"
  using assms
proof cases
  case (scan draws q now who r)
  show ?thesis using scan_effect [OF scan] by blast
next
  case (claim q now until who r)
  show ?thesis using replay_claim_effect [OF claim] by blast
next
  case (expire q now who fence r)
  note C = expire_valid_input [OF expire]
  show ?thesis
  proof (cases "ereq_expire_operation_id q \<in> set (commit_ids st)")
    case True
    then obtain k where "k \<in> set (cas_commits st)" "com_expire_operation_id k = ereq_expire_operation_id q"
      by (auto simp: commit_ids_def)
    with expire_replay_effect [OF C _ _ expire] C show ?thesis by blast
  next
    case False
    with expire_effect [OF C False expire] C show ?thesis by blast
  qed
qed

end

section \<open>What a step keeps\<close>

text \<open>The history relation: nothing persisted is lost, the fence only grows, a terminal hold stays so.\<close>

definition hold_identity :: "ArtifactHoldState \<Rightarrow> ustr \<times> ustr \<times> ustr \<times> int option" where
  "hold_identity s = (hold_artifact_id s, hold_hold_id s, hold_hold_digest s, hold_expires_ms s)"

definition extends_history :: "ArtifactHoldExpiryCASState \<Rightarrow> ArtifactHoldExpiryCASState \<Rightarrow> bool" where
  "extends_history st st' \<longleftrightarrow> (let l = cas_candidate_ledger st; l' = cas_candidate_ledger st' in
     led_candidate_fence_high_water l \<le> led_candidate_fence_high_water l' \<and>
     prefix (entry_candidates l) (entry_candidates l') \<and>
     prefix (scan_pairs l) (scan_pairs l') \<and> prefix (replay_pairs l) (replay_pairs l') \<and>
     prefix (cas_commits st) (cas_commits st') \<and> prefix (cas_audit_records st) (cas_audit_records st') \<and>
     prefix (cas_outbox_records st) (cas_outbox_records st') \<and>
     {e \<in> set (led_candidate_entries l). ent_consumed e} \<subseteq> set (led_candidate_entries l') \<and>
     hold_identity (cas_hold_state st') = hold_identity (cas_hold_state st) \<and>
     hold_artifact_version (cas_hold_state st) \<le> hold_artifact_version (cas_hold_state st') \<and>
     (hold_hold_status (cas_hold_state st) \<noteq> ACTIVE \<longrightarrow> cas_hold_state st' = cas_hold_state st))"

lemma extends_refl: "extends_history st st"
  by (auto simp: extends_history_def Let_def)

lemma extends_trans:
  assumes "extends_history st st'" and "extends_history st' st''"
  shows "extends_history st st''"
  using assms unfolding extends_history_def Let_def
  by (auto intro: prefix_order.trans)

lemma scanned_pairs: "ledger_ok dumps l \<Longrightarrow> scan_pairs (scanned l q r c a) = scan_pairs l @ [(q, r)]"
  by (simp add: ledger_ok_def scan_pairs_def)

lemma scan_extends:
  assumes "cas_ok dumps st" and "is_finite_active (cas_hold_state st)"
    and "fresh_candidate dumps (cas_candidate_ledger st) c"
  shows "extends_history st (scanned_snapshot st q r c a)"
  using assms scanned_pairs [OF cas_okD(2) [OF assms(1)], of q r c a]
  by (auto simp: extends_history_def Let_def hold_identity_def is_finite_active_def fresh_candidate_def)

lemma claim_extends:
  assumes "cas_ok dumps st" and "fresh_candidate dumps (cas_candidate_ledger st) (rres_candidate r)"
  shows "extends_history st (claimed_snapshot st q r)"
  using assms claimed_pairs [OF cas_okD(2) [OF assms(1)], of q r]
  by (auto simp: extends_history_def Let_def fresh_candidate_def)

context canonical_encoder
begin

lemma expire_extends:
  assumes x: "expire_step dumps st q e r k a p now"
  shows "extends_history st (expired_snapshot st e k a p)"
proof -
  have C: "cas_ok dumps st" and e: "e \<in> set (led_candidate_entries (cas_candidate_ledger st))" "\<not> ent_consumed e"
    using x by (simp_all add: expire_step_def)
  show ?thesis
    using set_replace_first [OF entries_list_distinct [OF cas_okD(2) [OF C]] e(1)] e(2) expire_step_facts(3) [OF x]
    by (auto simp: extends_history_def Let_def hold_identity_def)
qed

lemma step_extends: "hold_step dumps st st' \<Longrightarrow> extends_history st st'"
  using step_cases [of st st'] extends_refl scan_extends claim_extends expire_extends by metis

lemma run_extends: "hold_run dumps st st' \<Longrightarrow> extends_history st st'"
proof (induction rule: hold_run.induct)
  case (here st)
  show ?case by (rule extends_refl)
next
  case (more st st' st'')
  then show ?case using step_extends extends_trans by blast
qed

end

section \<open>What every reachable snapshot satisfies\<close>

definition run_inv :: "(json \<Rightarrow> bytes option) \<Rightarrow> ArtifactHoldExpiryCASState \<Rightarrow> bool" where
  "run_inv dumps st \<longleftrightarrow> (let s = cas_hold_state st; l = cas_candidate_ledger st in
     cas_ok dumps st \<and> led_candidate_fence_high_water l = last_fence l \<and>
     (hold_hold_status s = ACTIVE \<longrightarrow> cas_commits st = [] \<and>
        (\<forall>e \<in> set (led_candidate_entries l). due_candidate s (ent_candidate e) \<and> \<not> ent_consumed e)))"

lemma last_fence_scanned [simp]: "last_fence (scanned l q r c a) = cand_candidate_fencing_token c"
  by (simp add: last_fence_def)

lemma last_fence_claimed [simp]: "last_fence (claimed l q r) = cand_candidate_fencing_token (rres_candidate r)"
  by (simp add: last_fence_def)

lemma last_fence_consume [simp]: "last_fence (consume l e i t) = last_fence l"
  by (simp add: last_fence_alt)

lemma fresh_inv:
  assumes "cas_create dumps s ledger_empty = Inr st"
  shows "run_inv dumps st"
  using assms by (auto simp: cas_create_def Let_def cas_iff run_inv_def last_fence_def ledger_empty_def)

context canonical_encoder
begin

lemma step_inv:
  assumes inv: "run_inv dumps st" and s: "hold_step dumps st st'"
  shows "run_inv dumps st'"
proof -
  have ok: "cas_ok dumps st'" using step_cases [OF s] by blast
  consider "st' = st"
    | q r c a where "st' = scanned_snapshot st q r c a" "is_finite_active (cas_hold_state st)"
        "due_candidate (cas_hold_state st) c"
    | q r where "st' = claimed_snapshot st q r" "hold_hold_status (cas_hold_state st) = EXPIRED"
    | q e r k a p now where "st' = expired_snapshot st e k a p" "expire_step dumps st q e r k a p now"
    using step_cases [OF s] by blast
  then show ?thesis
  proof cases
    case 1
    with inv show ?thesis by simp
  next
    case 2
    with inv ok show ?thesis by (auto simp: run_inv_def Let_def is_finite_active_def)
  next
    case 3
    with inv ok show ?thesis by (simp add: run_inv_def Let_def)
  next
    case 4
    with inv ok show ?thesis by (simp add: run_inv_def Let_def)
  qed
qed

lemma reachable_inv: "hold_reachable dumps st \<Longrightarrow> run_inv dumps st"
proof (induction rule: hold_reachable.induct)
  case (fresh s st)
  then show ?case by (rule fresh_inv)
next
  case (later st st')
  then show ?case using step_inv by blast
qed

end

end
