(* ===== verification/HoldDemo.thy ===== *)
theory HoldDemo
  imports HoldRuns
begin

text \<open>
  One concrete run of the contract with the RFC 8785 encoder \<open>jcs_dumps\<close>: a hold on artifact
  \<open>art\<close> that expires at 1000 ms is scanned at 2000 ms, expired at 3000 ms and its replay claimed at 4000 ms. It shows
  that the hypotheses of the theorems on the contract can be met, and the witnesses apply them to it.
  Digests are whatever SHA-256 gives; nothing depends on their value.
\<close>

definition demo_hold :: ArtifactHoldState where
  "demo_hold = \<lparr> hold_artifact_id = u ''art'', hold_artifact_version = 1, hold_artifact_status = AVAILABLE,
     hold_hold_id = u ''hold'', hold_hold_digest = replicate 64 48, hold_hold_status = ACTIVE,
     hold_expires_ms = Some 1000, hold_active_hold_ids = {| u ''hold'' |}, hold_active_ref_count = 0,
     hold_minimum_delete_at_ms = None, hold_due_indexed = True, hold_due_score_ms = Some 1000,
     hold_candidate = None \<rparr>"

definition demo_start :: ArtifactHoldExpiryCASState where
  "demo_start = \<lparr> cas_hold_state = demo_hold, cas_candidate_ledger = ledger_empty, cas_commits = [],
     cas_audit_records = [], cas_outbox_records = [] \<rparr>"

definition demo_caller :: caller where
  "demo_caller = \<lparr> cal_principal = REAPER_PRINCIPAL_ID, cal_instance = u ''reaper-1'',
     cal_component_type = REAPER_COMPONENT_TYPE, cal_subject = EXPIRY_SUBJECT \<rparr>"

definition demo_draws :: "bytes list" where
  "demo_draws = [replicate 32 0, replicate 32 1]"

text \<open>The scan is numbered so that it differs from the operation the replay claim will have.\<close>

definition demo_replay_id :: "ustr result" where
  "demo_replay_id = bindE (artifact_hold_expiry_operation_id (u ''art'') (u ''hold'') (replicate 64 48) 1 1000)
     (\<lambda>i. artifact_hold_expiry_replay_claim_operation_id i (b64url_nopad (replicate 32 2)))"

definition demo_scan_id :: ustr where
  "demo_scan_id = (if demo_replay_id = Inr (replicate 64 49) then replicate 64 50 else replicate 64 49)"

lemma pick_other: "a \<noteq> b \<Longrightarrow> r \<noteq> Inr (if r = Inr a then b else a)"
  by auto

lemma demo_scan_id_other: "demo_replay_id \<noteq> Inr demo_scan_id"
  unfolding demo_scan_id_def by (rule pick_other) (simp only: replicate_eq_replicate, simp)

lemma demo_texts: "stable_text (u ''art'')" "stable_text (u ''hold'')" "stable_text (u ''reaper-1'')"
  "lower_sha256 (replicate 64 48)" "lower_sha256 demo_scan_id"
  by (rule stable_text_graphic; simp add: u_def)+ (simp_all add: lower_sha256_def lower_hex_def list_all_iff demo_scan_id_def)

lemma demo_ledger_ok: "ledger_ok dumps ledger_empty"
  by (simp add: ledger_ok_def ledger_empty_def int_from_def MAX_SAFE_INTEGER_def scan_pairs_def replay_pairs_def
      scans_ok_def authorities_ok_def allocations_ok_def replays_ok_def gaps_ok_def claim_leases_def claims_of_def
      currents_ok_def replay_ops_def entries_ok_def provenance_ok_def entry_candidates_def persisted_candidates_def)

lemma demo_cas_ok: "cas_ok dumps demo_start"
  using demo_texts demo_ledger_ok [of dumps]
  by (simp add: cas_ok_def demo_start_def demo_hold_def Let_def hold_state_iff hold_fields_ok_def is_finite_active_def
      int_from_def MAX_SAFE_INTEGER_def projection_ok_def live_candidates_def ledger_empty_def replay_pairs_def
      consumed_entries_def)

lemma demo_reachable: "hold_reachable dumps demo_start"
proof (rule hold_reachable.fresh)
  show "cas_create dumps demo_hold ledger_empty = Inr demo_start"
    using demo_cas_ok [of dumps] by (simp add: cas_create_def cas_iff demo_start_def Let_def)
qed

lemma b64url_nopad_inj: "length bs = 32 \<Longrightarrow> length cs = 32 \<Longrightarrow> b64url_nopad bs = b64url_nopad cs \<longleftrightarrow> bs = cs"
proof -
  have pad: "b64url_nopad ds @ [61] = b64_encode ds" if "length ds = 32" for ds
  proof -
    obtain s k where "b64_encode ds = s @ replicate k 61" "list_all token_char s" "k = (3 - length ds mod 3) mod 3"
      using b64_encode_tokens [of ds] by auto
    with that strip_pad [of s 1] show ?thesis by (simp add: b64url_nopad_def)
  qed
  show "length bs = 32 \<Longrightarrow> length cs = 32 \<Longrightarrow> ?thesis" using pad b64_decode_encode by (metis option.inject)
qed

lemma demo_draw: "draw_tokens demo_draws = Some (b64url_nopad (replicate 32 0), b64url_nopad (replicate 32 1))"
proof -
  have "replicate 32 (1 :: byte) \<noteq> replicate 32 0" by simp
  then have "b64url_nopad (replicate 32 1) \<noteq> b64url_nopad (replicate 32 0)" by (subst b64url_nopad_inj) simp_all
  then show ?thesis by (simp add: draw_tokens_def demo_draws_def)
qed

lemma demo_tokens: "canonical_token (b64url_nopad (replicate 32 0))" "canonical_token (b64url_nopad (replicate 32 1))"
  by (rule canonical_token_encode, simp)+

lemma demo_scan_guard:
  assumes "all_ok (scan_request_checks jcs_dumps q)"
  shows "scan_guard jcs_dumps demo_draws q demo_start 2000 demo_caller
    (b64url_nopad (replicate 32 0)) (b64url_nopad (replicate 32 1))"
  using assms demo_draw demo_tokens demo_texts
  by (simp add: scan_guard_def Let_def demo_start_def demo_hold_def demo_caller_def scan_caller_ok_def is_finite_active_def
      int_from_def MAX_SAFE_INTEGER_def LEASE_MAX_MS_def ledger_empty_def last_fence_def authority_tokens_def)

text \<open>The scan.\<close>

lemma demo_scan:
  "\<exists>q c a r st. scan_request_create jcs_dumps demo_scan_id 1 = Inr q \<and> sreq_scan_operation_id q = demo_scan_id \<and>
     apply_artifact_hold_expiry_scan jcs_dumps demo_draws q demo_start 2000 demo_caller = Inr (st, r) \<and>
     st = scanned_snapshot demo_start q r c a \<and> sres_candidates r = [c] \<and> all_ok (candidate_checks jcs_dumps c) \<and>
     candidate_of demo_hold demo_scan_id (b64url_nopad (replicate 32 0)) 1 (b64url_nopad (replicate 32 1)) demo_caller 2000 c \<and>
     cas_ok jcs_dumps st"
proof -
  obtain q where q: "scan_request_create jcs_dumps demo_scan_id 1 = Inr q" "all_ok (scan_request_checks jcs_dumps q)"
      "sreq_scan_operation_id q = demo_scan_id"
    using jcs.scan_request_created [of demo_scan_id 1] demo_texts by auto
  have new: "sreq_scan_operation_id q \<notin> set (map sreq_scan_operation_id (led_scan_requests (cas_candidate_ledger demo_start)))"
    by (simp add: demo_start_def ledger_empty_def)
  have "led_candidate_fence_high_water (cas_candidate_ledger demo_start) = 0" "cas_hold_state demo_start = demo_hold"
    by (simp_all add: demo_start_def ledger_empty_def)
  with jcs.scan_succeeds [OF demo_cas_ok demo_scan_guard [OF q(2)] new] q show ?thesis by auto
qed

text \<open>The expiry.\<close>

lemma demo_expire_guard:
  assumes c: "all_ok (candidate_checks jcs_dumps c)"
      "candidate_of demo_hold demo_scan_id (b64url_nopad (replicate 32 0)) 1 (b64url_nopad (replicate 32 1)) demo_caller 2000 c"
    and q: "expiry_request_create jcs_dumps c = Inr q"
  shows "expire_guard jcs_dumps (scanned_snapshot demo_start sq r c a) q 3000 demo_caller 1 c"
proof -
  have "all_ok (expiry_request_checks jcs_dumps q)" "request_matches q c" using q by (simp_all add: expiry_request_created_iff)
  moreover have "no_newer (scanned ledger_empty sq r c a) c" by (auto simp: no_newer_def ledger_empty_def)
  ultimately show ?thesis using c(2) demo_texts reaper_stable
    by (simp add: expire_guard_def Let_def demo_start_def demo_hold_def demo_caller_def candidate_of_def due_candidate_def
        expiry_caller_checks_def int_from_def MAX_SAFE_INTEGER_def LEASE_MAX_MS_def fcard_fempty)
qed

lemma demo_expire:
  "\<exists>q st r c sa eq st' er k e a p. scan_request_create jcs_dumps demo_scan_id 1 = Inr q \<and>
     sreq_scan_operation_id q = demo_scan_id \<and> st = scanned_snapshot demo_start q r c sa \<and>
     apply_artifact_hold_expiry_scan jcs_dumps demo_draws q demo_start 2000 demo_caller = Inr (st, r) \<and>
     cas_ok jcs_dumps st \<and> sres_candidates r = [c] \<and> hold_candidate (cas_hold_state st) = Some c \<and>
     expiry_request_create jcs_dumps c = Inr eq \<and> expire_guard jcs_dumps st eq 3000 demo_caller 1 c \<and> commit_ids st = [] \<and>
     apply_artifact_hold_expiry jcs_dumps eq st 3000 demo_caller 1 = Inr (st', er) \<and>
     st' = expired_snapshot st e k a p \<and> expire_step jcs_dumps st eq e er k a p 3000 \<and> cas_ok jcs_dumps st' \<and>
     ent_candidate e = c \<and> replay_pairs (cas_candidate_ledger st') = [] \<and>
     candidate_of demo_hold demo_scan_id (b64url_nopad (replicate 32 0)) 1 (b64url_nopad (replicate 32 1)) demo_caller 2000 c"
proof -
  obtain q c a r st where qid: "sreq_scan_operation_id q = demo_scan_id" and s: "scan_request_create jcs_dumps demo_scan_id 1 = Inr q"
      "apply_artifact_hold_expiry_scan jcs_dumps demo_draws q demo_start 2000 demo_caller = Inr (st, r)"
      "st = scanned_snapshot demo_start q r c a" "sres_candidates r = [c]" "all_ok (candidate_checks jcs_dumps c)"
      "candidate_of demo_hold demo_scan_id (b64url_nopad (replicate 32 0)) 1 (b64url_nopad (replicate 32 1)) demo_caller 2000 c"
      "cas_ok jcs_dumps st"
    using demo_scan by (elim exE conjE) (rule that)
  obtain eq where eq: "expiry_request_create jcs_dumps c = Inr eq" using jcs.expiry_request_created [OF s(5)] by blast
  have g: "expire_guard jcs_dumps st eq 3000 demo_caller 1 c" using demo_expire_guard [OF s(5,6) eq] s(3) by simp
  have nil: "commit_ids st = []" by (simp add: s(3) commit_ids_def demo_start_def)
  then have new: "ereq_expire_operation_id eq \<notin> set (commit_ids st)" by simp
  obtain e er k a' p where x: "expire_step jcs_dumps st eq e er k a' p 3000"
      "apply_artifact_hold_expiry jcs_dumps eq st 3000 demo_caller 1 = Inr (expired_snapshot st e k a' p, er)"
    using jcs.expire_succeeds [OF s(7) new g] by blast
  have hc: "hold_candidate (cas_hold_state st) = Some c" by (simp add: s(3))
  then have ec: "ent_candidate e = c" using x(1) by (simp add: expire_step_def)
  have "cas_ok jcs_dumps (expired_snapshot st e k a' p)"
    using jcs.expired_snapshot_ok [OF x(1)] g ec unfolding expire_guard_def Let_def by blast
  moreover have "replay_pairs (cas_candidate_ledger (expired_snapshot st e k a' p)) = []"
    by (simp add: s(3) demo_start_def ledger_empty_def replay_pairs_def)
  ultimately show ?thesis using qid s eq g nil x hc ec by blast
qed

text \<open>The replay claim, by the same reaper once the original lease is of no use to it.\<close>

lemma demo_claim:
  "\<exists>q st r c eq st' er rq st'' cr. scan_request_create jcs_dumps demo_scan_id 1 = Inr q \<and>
     apply_artifact_hold_expiry_scan jcs_dumps demo_draws q demo_start 2000 demo_caller = Inr (st, r) \<and>
     sres_candidates r = [c] \<and> expiry_request_create jcs_dumps c = Inr eq \<and>
     apply_artifact_hold_expiry jcs_dumps eq st 3000 demo_caller 1 = Inr (st', er) \<and> cas_ok jcs_dumps st' \<and>
     (\<exists>k c0. replay_claim_guard jcs_dumps rq st' 4000 5000 demo_caller k c0) \<and>
     apply_artifact_hold_expiry_replay_claim jcs_dumps rq st' 4000 5000 demo_caller = Inr (st'', cr) \<and>
     st'' = claimed_snapshot st' rq cr \<and> cas_ok jcs_dumps st'' \<and>
     ereq_expire_operation_id eq = rreq_expire_operation_id rq \<and> cand_candidate_fencing_token (rres_candidate cr) = 2"
proof -
  obtain q st r c sa eq st' er k e a p where d: "scan_request_create jcs_dumps demo_scan_id 1 = Inr q"
      "apply_artifact_hold_expiry_scan jcs_dumps demo_draws q demo_start 2000 demo_caller = Inr (st, r)"
      "cas_ok jcs_dumps st" "sres_candidates r = [c]" "expiry_request_create jcs_dumps c = Inr eq"
      "apply_artifact_hold_expiry jcs_dumps eq st 3000 demo_caller 1 = Inr (st', er)"
      "st' = expired_snapshot st e k a p" "expire_step jcs_dumps st eq e er k a p 3000" "cas_ok jcs_dumps st'"
      "ent_candidate e = c" "replay_pairs (cas_candidate_ledger st') = []"
      "candidate_of demo_hold demo_scan_id (b64url_nopad (replicate 32 0)) 1 (b64url_nopad (replicate 32 1)) demo_caller 2000 c"
      "st = scanned_snapshot demo_start q r c sa" "sreq_scan_operation_id q = demo_scan_id"
    using demo_expire by (elim exE conjE) (rule that)
  note F = jcs.expire_step_facts [OF d(8)]
  let ?lease = "b64url_nopad (replicate 32 2)" and ?tok = "b64url_nopad (replicate 32 3)"
  have tok: "canonical_token ?lease" "canonical_token ?tok" by (rule canonical_token_encode, simp)+
  have tneq: "?lease \<noteq> ?tok" "?lease \<notin> {b64url_nopad (replicate 32 0), b64url_nopad (replicate 32 1)}"
      "?tok \<notin> {b64url_nopad (replicate 32 0), b64url_nopad (replicate 32 1)}"
    by (simp_all add: b64url_nopad_inj)
  have due: "due_tuple (u ''art'') (u ''hold'') (replicate 64 48) 1 1000"
    using demo_texts by (simp add: due_tuple_def int_from_def MAX_SAFE_INTEGER_def)
  have c: "cand_artifact_id c = u ''art''" "cand_hold_id c = u ''hold''" "cand_expected_hold_digest c = replicate 64 48"
      "cand_expected_artifact_version c = 1" "cand_observed_expires_ms c = 1000" "cand_candidate_fencing_token c = 1"
      "cand_candidate_lease_id c = b64url_nopad (replicate 32 0)" "cand_candidate_token c = b64url_nopad (replicate 32 1)"
      "cand_owner_principal_id c = REAPER_PRINCIPAL_ID"
    using d(12) by (simp_all add: candidate_of_def due_candidate_def demo_hold_def demo_caller_def)
  have i: "artifact_hold_expiry_operation_id (u ''art'') (u ''hold'') (replicate 64 48) 1 1000 = Inr (com_expire_operation_id k)"
  proof -
    have "request_matches eq c" "artifact_hold_expiry_operation_id (ereq_artifact_id eq) (ereq_hold_id eq)
        (ereq_expected_hold_digest eq) (ereq_expected_artifact_version eq) (ereq_observed_expires_ms eq) =
        Inr (ereq_expire_operation_id eq)"
      using d(5) unfolding expiry_request_created_iff expiry_request_iff expiry_request_fields_ok_def by blast+
    then show ?thesis using c F(1) by (simp add: request_matches_def)
  qed
  have ish: "lower_sha256 (com_expire_operation_id k)" "lower_sha256 (com_commit_digest k)"
    using F(11) commit_digest_shape by (auto simp: commit_iff commit_fields_ok_def)
  obtain ri where ri: "artifact_hold_expiry_replay_claim_operation_id (com_expire_operation_id k) ?lease = Inr ri"
    using replay_claim_id_returns [of "com_expire_operation_id k" ?lease] ish tok by blast
  then have rid: "demo_replay_id = Inr ri" using i by (simp add: demo_replay_id_def)
  obtain rq where rq: "all_ok (replay_claim_request_checks jcs_dumps rq)"
      "rq = \<lparr> rreq_schema_version = u ''1'', rreq_operation = REPLAY_CLAIM, rreq_replay_operation_id = ri,
      rreq_expire_operation_id = com_expire_operation_id k, rreq_base_commit_digest = com_commit_digest k,
      rreq_artifact_id = u ''art'', rreq_hold_id = u ''hold'',
      rreq_expected_hold_digest = replicate 64 48, rreq_expected_artifact_version = 1, rreq_observed_expires_ms = 1000,
      rreq_candidate_lease_id = ?lease, rreq_candidate_token = ?tok, rreq_idempotency_key = ri,
      rreq_request_digest = rreq_request_digest rq \<rparr>"
    using jcs.replay_request_created [OF due i tok tneq(1) ish(2) ri] by blast
  have rf: "rreq_replay_operation_id rq = ri" "rreq_expire_operation_id rq = com_expire_operation_id k"
      "rreq_base_commit_digest rq = com_commit_digest k" "rreq_artifact_id rq = u ''art''" "rreq_hold_id rq = u ''hold''"
      "rreq_expected_hold_digest rq = replicate 64 48" "rreq_expected_artifact_version rq = 1"
      "rreq_observed_expires_ms rq = 1000" "rreq_candidate_lease_id rq = ?lease" "rreq_candidate_token rq = ?tok"
    by (subst rq(2), simp)+
  have e: "e \<in> set (led_candidate_entries (cas_candidate_ledger st))" using d(8) by (simp add: expire_step_def)
  then have en: "e = new_entry c" by (simp add: d(13) demo_start_def ledger_empty_def)
  have led: "led_candidate_entries (cas_candidate_ledger st') = [consumed_entry e (com_expire_operation_id k) 3000]"
      "led_scan_requests (cas_candidate_ledger st') = [q]" "led_candidate_fence_high_water (cas_candidate_ledger st') = 1"
      "led_replay_claim_requests (cas_candidate_ledger st') = []"
    using F(2) c(6) by (simp_all add: d(7,13) en demo_start_def ledger_empty_def)
  have "authority_tokens (cas_candidate_ledger st') = [b64url_nopad (replicate 32 0), b64url_nopad (replicate 32 1)]"
    using c d(10) by (simp add: authority_tokens_def led)
  moreover have "hold_artifact_id (cas_hold_state st') = u ''art''" "hold_hold_id (cas_hold_state st') = u ''hold''"
    by (simp_all add: d(7,13) demo_start_def demo_hold_def)
  moreover have "com_authorized_reaper_principal_id k = REAPER_PRINCIPAL_ID"
    using F(4) c(9) unfolding validate_result_iff d(10) by simp
  moreover have "ri \<noteq> demo_scan_id" using rid demo_scan_id_other by auto
  ultimately have g: "replay_claim_guard jcs_dumps rq st' 4000 5000 demo_caller k c"
    using rq(1) rf c led d(10,11,14) tneq F(2) demo_texts
    by (simp add: replay_claim_guard_def Let_def int_from_def MAX_SAFE_INTEGER_def lease_window_def LEASE_MAX_MS_def
        demo_caller_def d(7) claims_of_def)
  obtain cr where "apply_artifact_hold_expiry_replay_claim jcs_dumps rq st' 4000 5000 demo_caller = Inr (claimed_snapshot st' rq cr, cr)"
      "cas_ok jcs_dumps (claimed_snapshot st' rq cr)" "cand_candidate_fencing_token (rres_candidate cr) = 2"
    using jcs.replay_claim_succeeds [OF d(9) g] led(3) by fastforce
  moreover have "ereq_expire_operation_id eq = rreq_expire_operation_id rq" using F(1) rf(2) by simp
  ultimately show ?thesis using d g by blast
qed

text \<open>After the expiry the candidate that was consumed is the authority to replay it.\<close>

lemma demo_replay:
  "\<exists>q st st1 r k c. apply_artifact_hold_expiry jcs_dumps q st 3000 demo_caller 1 = Inr (st1, r) \<and> st1 \<noteq> st \<and>
     cas_ok jcs_dumps st1 \<and> k \<in> set (cas_commits st1) \<and> com_expire_operation_id k = ereq_expire_operation_id q \<and>
     expire_replay_guard jcs_dumps st1 q 3000 demo_caller 1 c \<and> expiry_result_from_json jcs_dumps (com_result_json k) = Inr r"
proof -
  obtain q st c st1 r k e a p where d: "cas_ok jcs_dumps st" "hold_candidate (cas_hold_state st) = Some c"
      "expire_guard jcs_dumps st q 3000 demo_caller 1 c"
      "apply_artifact_hold_expiry jcs_dumps q st 3000 demo_caller 1 = Inr (st1, r)" "st1 = expired_snapshot st e k a p"
      "expire_step jcs_dumps st q e r k a p 3000" "cas_ok jcs_dumps st1" "ent_candidate e = c"
      "replay_pairs (cas_candidate_ledger st1) = []"
    using demo_expire by (elim exE conjE) (rule that)
  note F = jcs.expire_step_facts [OF d(6)]
  have k: "k \<in> set (cas_commits st1)" "com_expire_operation_id k = ereq_expire_operation_id q" using d(5) F(1) by simp_all
  have ne: "st1 \<noteq> st" using d(2,5) by (metis expired_hold_simps(8) expired_snapshot_simps(1) option.distinct(1))
  obtain e' where e': "filter (\<lambda>e. ent_consumed_by e = Some (com_expire_operation_id k))
      (led_candidate_entries (cas_candidate_ledger st1)) = [e']"
    using commit_candidate [OF d(7) k(1)] by blast
  have em: "e \<in> set (led_candidate_entries (cas_candidate_ledger st))" using d(6) by (simp add: expire_step_def)
  have "consumed_entry e (com_expire_operation_id k) (com_committed_at_ms k) \<in> set (filter
      (\<lambda>e. ent_consumed_by e = Some (com_expire_operation_id k)) (led_candidate_entries (cas_candidate_ledger st1)))"
    using set_replace_first [OF entries_list_distinct [OF cas_okD(2) [OF d(1)]] em] by (simp add: d(5))
  then have "ent_candidate e' = c" using e' d(8) by auto
  then have "current_authority (cas_candidate_ledger st1) (ereq_expire_operation_id q) = Some c"
    using e' d(9) k(2) by (simp add: current_authority_def claims_of_def)
  moreover have "due_candidate (cas_hold_state st) c" "request_matches q c"
    using d(3) hold_with_candidate(2) [OF cas_okD(1) [OF d(1)] d(2)] unfolding expire_guard_def Let_def by blast+
  ultimately have "expire_replay_guard jcs_dumps st1 q 3000 demo_caller 1 c" using d(3,5,9)
    by (simp add: expire_replay_guard_def expire_guard_def Let_def claims_of_def due_candidate_def request_matches_def)
  with d(4,7) ne k F(12) show ?thesis by blast
qed

end
