(* ===== verification/HoldExact.thy ===== *)
theory HoldExact
  imports HoldRuns
begin

text \<open>
  The converse directions: a successful SCAN met its guard, and what the guards of the three operations say
  about each other (the authority a claim leaves behind, the candidate a scan leaves behind).
\<close>

section \<open>SCAN needs its guard\<close>

text \<open>
  The provenance check of the new snapshot makes the high-water equal the last recorded fence: a snapshot
  whose high-water is above it admits no new scan.
\<close>

lemma scanned_tight:
  assumes ok: "ledger_ok dumps (scanned l q r c a)" and "salloc_candidate a = c" and "c \<notin> set (entry_candidates l)"
    and "salloc_previous_fence_high_water a = led_candidate_fence_high_water l"
  shows "led_candidate_fence_high_water l = last_fence l"
proof -
  have "previous_fence_of c 0 (entry_candidates l @ [c]) = Some (led_candidate_fence_high_water l)"
    using ledger_okD(2) [OF ok] assms(2,4) by (simp add: provenance_ok_def)
  then show ?thesis using assms(3) by (simp add: previous_fence_snoc last_fence_alt split: if_splits)
qed

lemma scan_needs_guard:
  assumes ap: "apply_artifact_hold_expiry_scan dumps draws q st now who = Inr (st', r)"
    and new: "sreq_scan_operation_id q \<notin> set (map sreq_scan_operation_id (led_scan_requests (cas_candidate_ledger st)))"
  shows "\<exists>lease t. scan_guard dumps draws q st now who lease t"
proof -
  let ?s = "cas_hold_state st" and ?l = "cas_candidate_ledger st"
  note E = scan_effect [OF ap]
  have no: "(q, r) \<notin> set (scan_pairs ?l)" using new by (auto simp: scan_pairs_def dest: set_zip_leftD)
  obtain c a where e: "cas_ok dumps (scanned_snapshot st q r c a)" "fresh_candidate dumps ?l c" "due_candidate ?s c"
      "cand_observed_expires_ms c \<le> now" "cand_lease_until_ms c = now + LEASE_MAX_MS"
      "cand_candidate_fencing_token c = led_candidate_fence_high_water ?l + 1"
      "salloc_candidate a = c" "salloc_previous_fence_high_water a = led_candidate_fence_high_water ?l"
      "int_from 0 now" "draw_tokens draws = Some (cand_candidate_lease_id c, cand_candidate_token c)"
    using E no by blast
  have pre: "all_ok (scan_request_checks dumps q)" "scan_caller_ok who" "is_finite_active ?s" using E no by blast+
  have "led_candidate_fence_high_water ?l = last_fence ?l"
    using scanned_tight [of dumps ?l q r c a] cas_okD(2) [OF e(1)] fresh_not_entry [OF e(2)] e(7,8) by simp
  moreover have "candidate_fields_ok c" "cand_candidate_lease_id c \<notin> set (authority_tokens ?l)"
      "cand_candidate_token c \<notin> set (authority_tokens ?l)"
    using e(2) by (simp_all add: fresh_candidate_def candidate_iff)
  moreover have "hold_expires_ms ?s = Some (cand_observed_expires_ms c)" using e(3) by (simp add: due_candidate_def)
  ultimately have "scan_guard dumps draws q st now who (cand_candidate_lease_id c) (cand_candidate_token c)"
    using pre e(4-6,9,10) by (simp add: scan_guard_def Let_def candidate_fields_ok_def int_from_def)
  then show ?thesis by blast
qed

section \<open>Replay authorities\<close>

lemma latest_claim_max:
  assumes "p \<in> set (claims_of ps i)"
  shows "claim_fence p \<le> claim_fence (latest_claim ps i)"
proof -
  let ?s = "sort_key claim_fence (claims_of ps i)"
  have "p \<in> set ?s" using assms by simp
  moreover have "sorted (map claim_fence ?s)" by (rule sorted_sort_key)
  ultimately show ?thesis
    by (cases ?s rule: rev_cases) (auto simp: latest_claim_def sorted_append)
qed

lemma sorted_wrt_total:
  assumes "sorted_wrt P xs" and "x \<in> set xs" and "y \<in> set xs" and "x \<noteq> y"
  shows "P x y \<or> P y x"
  using assms by (induction xs) auto

text \<open>Claims of one operation hold their leases one after the other.\<close>

lemma claim_leases_disjoint:
  assumes L: "ledger_ok dumps l" and p: "p \<in> set (replay_pairs l)" "p' \<in> set (replay_pairs l)" "p \<noteq> p'"
    and i: "rreq_expire_operation_id (fst p) = rreq_expire_operation_id (fst p')"
  shows "cand_lease_until_ms (rres_candidate (snd p)) \<le> cand_issued_at_ms (rres_candidate (snd p')) \<or>
    cand_lease_until_ms (rres_candidate (snd p')) \<le> cand_issued_at_ms (rres_candidate (snd p))"
proof -
  let ?i = "rreq_expire_operation_id (fst p')" and ?P = "\<lambda>p c. cand_lease_until_ms p \<le> cand_issued_at_ms c"
  let ?cs = "claim_leases (replay_pairs l) ?i"
  have set: "set ?cs = (\<lambda>p. rres_candidate (snd p)) ` set (claims_of (replay_pairs l) ?i)"
    by (auto simp: claim_leases_def case_prod_unfold)
  have win: "cand_issued_at_ms c < cand_lease_until_ms c" if "c \<in> set ?cs" for c
    using that entry_candidate_valid [OF L] claims_in_entries [OF L] unfolding set
    by (auto simp: candidate_iff candidate_fields_ok_def lease_window_def)
  have "successively ?P ?cs" using L by (simp add: ledger_ok_def gaps_ok_def)
  moreover have "\<And>x y z. x \<in> set ?cs \<Longrightarrow> y \<in> set ?cs \<Longrightarrow> z \<in> set ?cs \<Longrightarrow> ?P x y \<Longrightarrow> ?P y z \<Longrightarrow> ?P x z"
    using win by force
  ultimately have "sorted_wrt ?P ?cs" using successively_iff_sorted_wrt_strong [of ?cs ?P] by blast
  moreover have "rres_candidate (snd p) \<in> set ?cs" "rres_candidate (snd p') \<in> set ?cs"
    using p i by (auto simp: set set_claims_of)
  moreover have "rres_candidate (snd p) \<noteq> rres_candidate (snd p')"
    using replay_candidates_distinct [OF L] p by (auto simp: distinct_map inj_on_def case_prod_unfold)
  ultimately show ?thesis by (rule sorted_wrt_total)
qed

section \<open>A due hold can be expired\<close>

text \<open>The candidate a scan hands out is the newest of all, so it passes the guard of EXPIRE while its lease is live.\<close>

lemma scanned_no_newer:
  assumes L: "ledger_ok dumps l" and c: "fresh_candidate dumps l c"
  shows "no_newer (scanned l q r c a) c"
  using fresh_above [OF L c] by (fastforce simp: no_newer_def entry_fence_def entry_candidates_def)

lemma scanned_expirable:
  assumes C: "cas_ok dumps st" and c: "fresh_candidate dumps (cas_candidate_ledger st) c" "due_candidate (cas_hold_state st) c"
    and s: "hold_artifact_status (cas_hold_state st) \<notin> {DELETING, DELETED}"
      "hold_artifact_version (cas_hold_state st) < MAX_SAFE_INTEGER"
      "int (fcard (hold_active_hold_ids (cas_hold_state st))) \<le> MAX_SAFE_INTEGER"
    and w: "scan_caller_ok who" "cand_owner_principal_id c = cal_principal who" "cand_owner_instance_id c = cal_instance who"
    and t: "cand_observed_expires_ms c \<le> now" "cand_issued_at_ms c \<le> now" "now < cand_lease_until_ms c"
    and q: "all_ok (expiry_request_checks dumps q)" "request_matches q c"
  shows "expire_guard dumps (scanned_snapshot st sq r c a) q now who (cand_candidate_fencing_token c) c"
proof -
  have f: "candidate_fields_ok c" using c(1) by (simp add: fresh_candidate_def candidate_iff)
  have "fcard (hold_active_hold_ids (cas_hold_state st) |-| {| hold_hold_id (cas_hold_state st) |})
      \<le> fcard (hold_active_hold_ids (cas_hold_state st))"
    by (rule fcard_mono) auto
  moreover have "int_from 0 now" using f t by (simp add: candidate_fields_ok_def int_from_def)
  ultimately show ?thesis
    using s w t q f scanned_no_newer [OF cas_okD(2) [OF C] c(1), of sq r a] reaper_stable
    by (simp add: expire_guard_def Let_def expiry_caller_checks_def scan_caller_ok_def candidate_fields_ok_def)
qed

end
