(* ===== verification/HoldProperties.thy ===== *)
theory HoldProperties
  imports HoldDemo HoldExact
begin

text \<open>
  The theorems on the hold-expiry contract. They hold for every encoder \<open>dumps\<close> with \<open>dumps_law\<close> (the
  documented behaviour of \<open>rfc8785.dumps\<close>: a value of the I-JSON domain is encoded, and its encoding parses
  back to it); the witnesses use \<open>jcs_dumps\<close> and the run of \<open>HoldDemo\<close>.
\<close>

lemma encoder: "dumps_law dumps \<Longrightarrow> canonical_encoder dumps"
  by (rule canonical_encoder.intro)

section \<open>EXPIRE\<close>

text \<open>
  C1. On a valid snapshot that has no commit for the operation, \<open>apply_artifact_hold_expiry\<close> succeeds
  exactly when its guard holds for the candidate projected on the hold: the caller is the reaper that owns
  the candidate and presents its fence, the request repeats the candidate, the artifact is not being
  deleted, the lease is live and the hold is due at server time, no unconsumed candidate of the same
  incarnation is newer, and the version and hold count stay in the safe-integer range. In particular the
  validation that closes the operation never rejects a request the guard admits.
\<close>
theorem expire_first_exact:
  assumes "dumps_law dumps" and "all_ok (cas_checks dumps st)" and "ereq_expire_operation_id q \<notin> set (commit_ids st)"
  shows "(\<exists>st' r. apply_artifact_hold_expiry dumps q st now who fence = Inr (st', r)) \<longleftrightarrow>
    (\<exists>c. expire_guard dumps st q now who fence c)"
proof -
  have C: "cas_ok dumps st" using assms(2) by (simp add: cas_iff)
  show ?thesis
    using canonical_encoder.expire_succeeds [OF encoder [OF assms(1)] C assms(3)]
      canonical_encoder.expire_needs_guard [OF encoder [OF assms(1)] C assms(3)] by blast
qed

text \<open>The demo snapshot after the scan satisfies the hypotheses, and the guard holds there.\<close>

theorem expire_first_exact_witness:
  "\<exists>q st c. all_ok (cas_checks jcs_dumps st) \<and> ereq_expire_operation_id q \<notin> set (commit_ids st) \<and>
     expire_guard jcs_dumps st q 3000 demo_caller 1 c \<and>
     (\<exists>st' r. apply_artifact_hold_expiry jcs_dumps q st 3000 demo_caller 1 = Inr (st', r))"
proof -
  obtain q st c where d: "cas_ok jcs_dumps st" "expire_guard jcs_dumps st q 3000 demo_caller 1 c" "commit_ids st = []"
    using demo_expire by (elim exE conjE) (rule that)
  have n: "ereq_expire_operation_id q \<notin> set (commit_ids st)" and v: "all_ok (cas_checks jcs_dumps st)"
    using d by (simp_all add: cas_iff)
  show ?thesis using expire_first_exact [OF jcs_dumps_law v n, of 3000 demo_caller 1] n v d(2) by blast
qed

text \<open>
  C2. What a first successful EXPIRE does: the hold becomes EXPIRED with the next artifact version, leaves
  the active set and the due index and loses its candidate, everything else of it unchanged; one commit for
  the operation is appended, with exactly one audit and one outbox record; the presented candidate is marked consumed at server
  time and no other entry changes; and the result reports the new version and whether retention still locks the artifact.
\<close>
theorem expire_effects:
  assumes "dumps_law dumps" and "apply_artifact_hold_expiry dumps q st now who fence = Inr (st', r)"
    and "ereq_expire_operation_id q \<notin> set (commit_ids st)"
  shows "\<exists>k a p e. cas_hold_state st' = (cas_hold_state st) \<lparr> hold_artifact_version := hold_artifact_version (cas_hold_state st) + 1,
        hold_hold_status := EXPIRED,
        hold_active_hold_ids := hold_active_hold_ids (cas_hold_state st) |-| {| hold_hold_id (cas_hold_state st) |},
        hold_due_indexed := False, hold_due_score_ms := None, hold_candidate := None \<rparr> \<and>
      cas_commits st' = cas_commits st @ [k] \<and> com_expire_operation_id k = ereq_expire_operation_id q \<and>
      com_committed_at_ms k = now \<and> expiry_result_from_json dumps (com_result_json k) = Inr r \<and>
      event_create dumps AUDIT k = Inr a \<and> cas_audit_records st' = cas_audit_records st @ [a] \<and>
      event_create dumps OUTBOX k = Inr p \<and> cas_outbox_records st' = cas_outbox_records st @ [p] \<and>
      e \<in> set (led_candidate_entries (cas_candidate_ledger st)) \<and> \<not> ent_consumed e \<and>
      hold_candidate (cas_hold_state st) = Some (ent_candidate e) \<and>
      set (led_candidate_entries (cas_candidate_ledger st')) =
        insert (e \<lparr> ent_consumed_by := Some (ereq_expire_operation_id q), ent_consumed_at_ms := Some now \<rparr>)
          (set (led_candidate_entries (cas_candidate_ledger st)) - {e}) \<and>
      eres_artifact_version r = hold_artifact_version (cas_hold_state st) + 1 \<and>
      eres_retention_locked r = retention_lock (cas_hold_state st') now"
proof -
  note E = encoder [OF assms(1)]
  note C = canonical_encoder.expire_valid_input [OF E assms(2)]
  obtain e k a p where x: "expire_step dumps st q e r k a p now" "st' = expired_snapshot st e k a p"
    using canonical_encoder.expire_effect [OF E C assms(3,2)] by blast
  note F = canonical_encoder.expire_step_facts [OF E x(1)]
  have s: "expired_hold (cas_hold_state st) = (cas_hold_state st) \<lparr> hold_artifact_version := hold_artifact_version (cas_hold_state st) + 1,
        hold_hold_status := EXPIRED,
        hold_active_hold_ids := hold_active_hold_ids (cas_hold_state st) |-| {| hold_hold_id (cas_hold_state st) |},
        hold_due_indexed := False, hold_due_score_ms := None, hold_candidate := None \<rparr>"
    by (simp add: expired_hold_def)
  have e: "e \<in> set (led_candidate_entries (cas_candidate_ledger st))" using x(1) by (simp add: expire_step_def)
  have "eres_artifact_version r = hold_artifact_version (cas_hold_state st) + 1"
    using F(5) by (simp add: transition_evidence_iff)
  with x F set_replace_first [OF entries_list_distinct [OF cas_okD(2) [OF C]] e] show ?thesis
    by (intro exI [of _ k] exI [of _ a] exI [of _ p] exI [of _ e])
      (simp add: expire_step_def s [symmetric] consumed_entry_def)
qed

theorem expire_effects_witness:
  "\<exists>q st st' r. apply_artifact_hold_expiry jcs_dumps q st 3000 demo_caller 1 = Inr (st', r) \<and>
     hold_hold_status (cas_hold_state st) = ACTIVE \<and> hold_hold_status (cas_hold_state st') = EXPIRED \<and>
     eres_artifact_version r = hold_artifact_version (cas_hold_state st) + 1"
proof -
  obtain q st c st' r where d: "cas_ok jcs_dumps st" "hold_candidate (cas_hold_state st) = Some c" "commit_ids st = []"
      "apply_artifact_hold_expiry jcs_dumps q st 3000 demo_caller 1 = Inr (st', r)"
    using demo_expire by (elim exE conjE) (rule that)
  have "ereq_expire_operation_id q \<notin> set (commit_ids st)" using d(3) by simp
  note x = expire_effects [OF jcs_dumps_law d(4) this]
  have "hold_hold_status (cas_hold_state st) = ACTIVE" using hold_with_candidate(3) [OF cas_okD(1) [OF d(1)] d(2)] .
  moreover have "hold_hold_status (cas_hold_state st') = EXPIRED" "eres_artifact_version r = hold_artifact_version (cas_hold_state st) + 1"
    using x by auto
  ultimately show ?thesis using d(4) by blast
qed

text \<open>
  C3. Replaying is idempotent: once an expire operation is committed, every later successful EXPIRE for the same
  operation, by whichever authority and after any further steps, returns the persisted result and leaves the
  snapshot unchanged. The hold is never expired twice.
\<close>
theorem expire_idempotent:
  assumes "dumps_law dumps" and "apply_artifact_hold_expiry dumps q st now who fence = Inr (st1, r)"
    and "hold_run dumps st1 st2" and "ereq_expire_operation_id q' = ereq_expire_operation_id q"
    and "apply_artifact_hold_expiry dumps q' st2 now' who' fence' = Inr (st3, r')"
  shows "st3 = st2 \<and> r' = r"
proof -
  note E = encoder [OF assms(1)]
  note C = canonical_encoder.expire_valid_input [OF E assms(2)]
  note C2 = canonical_encoder.expire_valid_input [OF E assms(5)]
  obtain k where k: "k \<in> set (cas_commits st1)" "com_expire_operation_id k = ereq_expire_operation_id q"
      "expiry_result_from_json dumps (com_result_json k) = Inr r"
  proof (cases "ereq_expire_operation_id q \<in> set (commit_ids st)")
    case True
    then obtain k where k: "k \<in> set (cas_commits st)" "com_expire_operation_id k = ereq_expire_operation_id q"
      by (auto simp: commit_ids_def)
    with expire_replay_effect [OF C k assms(2)] that show thesis by blast
  next
    case False
    obtain e k a p where x: "expire_step dumps st q e r k a p now" "st1 = expired_snapshot st e k a p"
      using canonical_encoder.expire_effect [OF E C False assms(2)] by blast
    with canonical_encoder.expire_step_facts(1,12) [OF E x(1)] that show thesis by auto
  qed
  have "prefix (cas_commits st1) (cas_commits st2)"
    using canonical_encoder.run_extends [OF E assms(3)] by (simp add: extends_history_def Let_def)
  then have "k \<in> set (cas_commits st2)" using k(1) by (auto simp: prefix_def)
  from expire_replay_effect [OF C2 this _ assms(5)] k assms(4) show ?thesis by simp
qed

theorem expire_idempotent_witness:
  "\<exists>q st st1 r st3 r'. apply_artifact_hold_expiry jcs_dumps q st 3000 demo_caller 1 = Inr (st1, r) \<and> st1 \<noteq> st \<and>
     apply_artifact_hold_expiry jcs_dumps q st1 3000 demo_caller 1 = Inr (st3, r') \<and> st3 = st1 \<and> r' = r"
proof -
  obtain q st st1 r k c where d: "apply_artifact_hold_expiry jcs_dumps q st 3000 demo_caller 1 = Inr (st1, r)" "st1 \<noteq> st"
      "cas_ok jcs_dumps st1" "k \<in> set (cas_commits st1)" "com_expire_operation_id k = ereq_expire_operation_id q"
      "expire_replay_guard jcs_dumps st1 q 3000 demo_caller 1 c"
    using demo_replay by (elim exE conjE) (rule that)
  obtain r' where r': "apply_artifact_hold_expiry jcs_dumps q st1 3000 demo_caller 1 = Inr (st1, r')"
    using expire_replays [OF d(3-6)] by blast
  with expire_idempotent [OF jcs_dumps_law d(1) hold_run.here refl r'] d(1,2) show ?thesis by blast
qed

text \<open>
  Replay is decided exactly: on a valid snapshot with a commit for the operation, EXPIRE returns the
  persisted result with the snapshot unchanged precisely when the caller is the current authority of that
  operation (the candidate the commit consumed until a replay claim exists, after that the candidate of the
  latest claim, within its lease), presents its fence, and the request repeats that candidate on the hold of the snapshot. Every other call is refused.
\<close>
theorem expire_replay_exact:
  assumes "all_ok (cas_checks dumps st)" and "k \<in> set (cas_commits st)"
    and "com_expire_operation_id k = ereq_expire_operation_id q"
  shows "apply_artifact_hold_expiry dumps q st now who fence = Inr (st', r) \<longleftrightarrow>
    st' = st \<and> expiry_result_from_json dumps (com_result_json k) = Inr r \<and>
    (\<exists>c. expire_replay_guard dumps st q now who fence c)"
proof -
  have C: "cas_ok dumps st" using assms(1) by (simp add: cas_iff)
  show ?thesis using expire_replay_effect [OF C assms(2,3)] expire_replays [OF C assms(2,3)] by fastforce
qed

theorem expire_replay_exact_witness:
  "\<exists>q st k c r. all_ok (cas_checks jcs_dumps st) \<and> k \<in> set (cas_commits st) \<and>
     com_expire_operation_id k = ereq_expire_operation_id q \<and> expire_replay_guard jcs_dumps st q 3000 demo_caller 1 c \<and>
     apply_artifact_hold_expiry jcs_dumps q st 3000 demo_caller 1 = Inr (st, r)"
proof -
  obtain q st r k c where d: "cas_ok jcs_dumps st" "k \<in> set (cas_commits st)"
      "com_expire_operation_id k = ereq_expire_operation_id q" "expire_replay_guard jcs_dumps st q 3000 demo_caller 1 c"
      "expiry_result_from_json jcs_dumps (com_result_json k) = Inr r"
    using demo_replay by (elim exE conjE) (rule that)
  have v: "all_ok (cas_checks jcs_dumps st)" using d(1) by (simp add: cas_iff)
  then show ?thesis using expire_replay_exact [OF v d(2,3), of 3000 demo_caller 1 st r] d by blast
qed

section \<open>SCAN\<close>



text \<open>
  C13. A burned fence blocks scanning. A snapshot whose fence high-water lies above the last fence handed out (a fence reserved but
  never issued) passes \<open>validate()\<close>, yet every new SCAN on it is refused: the allocation it records names the
  high-water as its predecessor, and the validation of the new ledger compares it with the last recorded fence.
\<close>
theorem burned_fence_blocks_scan:
  assumes "all_ok (cas_checks dumps st)"
    and "led_candidate_fence_high_water (cas_candidate_ledger st) \<noteq> last_fence (cas_candidate_ledger st)"
    and "sreq_scan_operation_id q \<notin> set (map sreq_scan_operation_id (led_scan_requests (cas_candidate_ledger st)))"
  shows "\<exists>e. apply_artifact_hold_expiry_scan dumps draws q st now who = Inl e"
proof (cases "apply_artifact_hold_expiry_scan dumps draws q st now who")
  case (Inr x)
  then obtain st' r where "apply_artifact_hold_expiry_scan dumps draws q st now who = Inr (st', r)" by (cases x) simp
  from scan_needs_guard [OF this assms(3)] assms(2) show ?thesis by (auto simp: scan_guard_def Let_def)
qed simp

theorem burned_fence_blocks_scan_witness:
  "\<exists>q st e. scan_request_create jcs_dumps demo_scan_id 1 = Inr q \<and> all_ok (cas_checks jcs_dumps st) \<and>
     is_finite_active (cas_hold_state st) \<and> led_candidate_fence_high_water (cas_candidate_ledger st) = 5 \<and>
     apply_artifact_hold_expiry_scan jcs_dumps demo_draws q st 2000 demo_caller = Inl e"
proof -
  let ?st = "demo_start \<lparr> cas_candidate_ledger := ledger_empty \<lparr> led_candidate_fence_high_water := 5 \<rparr> \<rparr>"
  obtain q where q: "scan_request_create jcs_dumps demo_scan_id 1 = Inr q"
    using jcs.scan_request_created [of demo_scan_id 1] demo_texts by auto
  have "ledger_ok jcs_dumps (ledger_empty \<lparr> led_candidate_fence_high_water := 5 \<rparr>)"
    using demo_ledger_ok [of jcs_dumps]
    by (simp add: ledger_ok_def ledger_empty_def int_from_def MAX_SAFE_INTEGER_def scan_pairs_def replay_pairs_def entries_ok_def
        entry_candidates_def persisted_candidates_def)
  then have "cas_ok jcs_dumps ?st"
    using demo_cas_ok [of jcs_dumps]
    by (simp add: cas_ok_def demo_start_def Let_def projection_ok_def live_candidates_def ledger_empty_def replay_pairs_def)
  then have v: "all_ok (cas_checks jcs_dumps ?st)" by (simp add: cas_iff)
  have "is_finite_active (cas_hold_state ?st)" by (simp add: demo_start_def demo_hold_def is_finite_active_def)
  moreover have "\<exists>e. apply_artifact_hold_expiry_scan jcs_dumps demo_draws q ?st 2000 demo_caller = Inl e"
    by (rule burned_fence_blocks_scan [OF v]) (simp_all add: demo_start_def ledger_empty_def last_fence_def)
  ultimately show ?thesis using q v by (intro exI [of _ q] exI [of _ ?st]) (simp add: ledger_empty_def)
qed

end
