(* ===== verification/HoldSafety.thy ===== *)
theory HoldSafety
  imports HoldDemo HoldExact
begin

text \<open>
  The theorems on replay claims, on the validated ledger and snapshot, and on runs of the contract. As in
  \<open>HoldProperties\<close>, the encoder is arbitrary with \<open>dumps_law\<close> and the witnesses use the run of \<open>HoldDemo\<close>.
\<close>

section \<open>REPLAY_CLAIM\<close>



text \<open>
  C6. A claim fences off every earlier authority: once a REPLAY_CLAIM has succeeded, then after any further
  steps an EXPIRE of that operation with a lower fence is refused.
\<close>
theorem superseded_authority_refused:
  assumes "dumps_law dumps" and "apply_artifact_hold_expiry_replay_claim dumps q st now until who = Inr (st1, r)"
    and "hold_run dumps st1 st2" and "ereq_expire_operation_id q' = rreq_expire_operation_id q"
    and "fence < cand_candidate_fencing_token (rres_candidate r)"
  shows "\<exists>e. apply_artifact_hold_expiry dumps q' st2 now' who' fence = Inl e"
proof (cases "apply_artifact_hold_expiry dumps q' st2 now' who' fence")
  case (Inr x)
  then obtain st3 r' where ap: "apply_artifact_hold_expiry dumps q' st2 now' who' fence = Inr (st3, r')" by (cases x) simp
  note E = canonical_encoder.intro [OF assms(1)]
  note C2 = canonical_encoder.expire_valid_input [OF E ap]
  let ?ps = "replay_pairs (cas_candidate_ledger st2)" and ?i = "rreq_expire_operation_id q"
  have "(q, r) \<in> set (replay_pairs (cas_candidate_ledger st1))"
    using replay_claim_effect [OF assms(2)] claimed_pairs cas_okD(2) by fastforce
  then have p: "(q, r) \<in> set ?ps"
    using canonical_encoder.run_extends [OF E assms(3)] by (auto simp: extends_history_def Let_def prefix_def)
  then obtain k where k: "k \<in> set (cas_commits st2)" "com_expire_operation_id k = ereq_expire_operation_id q'"
    using cas_claim_commit [OF C2 p] assms(4) by auto
  obtain c where c: "expire_replay_guard dumps st2 q' now' who' fence c" using expire_replay_effect [OF C2 k ap] by blast
  have mem: "(q, r) \<in> set (claims_of ?ps ?i)" using p by (simp add: set_claims_of)
  then have "c = rres_candidate (snd (latest_claim ?ps ?i))" "fence = cand_candidate_fencing_token c"
    using c assms(4) by (auto simp: expire_replay_guard_def Let_def current_authority_def split: if_splits)
  then have "cand_candidate_fencing_token (rres_candidate r) \<le> fence"
    using latest_claim_max [OF mem] by (simp add: claim_fence_alt)
  with assms(5) show ?thesis by simp
qed simp

theorem superseded_authority_refused_witness:
  "\<exists>q st st1 r eq st0 er e. apply_artifact_hold_expiry jcs_dumps eq st0 3000 demo_caller 1 = Inr (st, er) \<and>
     apply_artifact_hold_expiry_replay_claim jcs_dumps q st 4000 5000 demo_caller = Inr (st1, r) \<and>
     apply_artifact_hold_expiry jcs_dumps eq st1 4500 demo_caller 1 = Inl e"
proof -
  obtain eq st0 st er q st1 r k c0 where d: "apply_artifact_hold_expiry jcs_dumps eq st0 3000 demo_caller 1 = Inr (st, er)"
      "replay_claim_guard jcs_dumps q st 4000 5000 demo_caller k c0"
      "apply_artifact_hold_expiry_replay_claim jcs_dumps q st 4000 5000 demo_caller = Inr (st1, r)"
      "ereq_expire_operation_id eq = rreq_expire_operation_id q" "cand_candidate_fencing_token (rres_candidate r) = 2"
    using demo_claim by (elim exE conjE) (rule that)
  have "1 < cand_candidate_fencing_token (rres_candidate r)" using d(5) by simp
  from superseded_authority_refused [OF jcs_dumps_law d(3) hold_run.here d(4) this, of 4500 demo_caller] d(1,3)
  show ?thesis by blast
qed

text \<open>
  On a valid ledger the leases of the replay claims of one expire operation are disjoint: two claims
  live at the same instant are the same claim.
\<close>
theorem replay_leases_disjoint:
  assumes "all_ok (ledger_checks dumps l)" and "(q, r) \<in> set (replay_pairs l)" and "(q', r') \<in> set (replay_pairs l)"
    and "rreq_expire_operation_id q = rreq_expire_operation_id q'"
    and "cand_issued_at_ms (rres_candidate r) \<le> t" and "t < cand_lease_until_ms (rres_candidate r)"
    and "cand_issued_at_ms (rres_candidate r') \<le> t" and "t < cand_lease_until_ms (rres_candidate r')"
  shows "q = q' \<and> r = r'"
  using claim_leases_disjoint [of dumps l "(q, r)" "(q', r')"] assms by (auto simp: ledger_iff)

theorem replay_leases_disjoint_witness:
  "\<exists>l q r. all_ok (ledger_checks jcs_dumps l) \<and> (q, r) \<in> set (replay_pairs l) \<and>
     cand_issued_at_ms (rres_candidate r) \<le> 4500 \<and> 4500 < cand_lease_until_ms (rres_candidate r) \<and> (q, r) = (q, r)"
proof -
  obtain q st st1 r k c0 where d: "cas_ok jcs_dumps st" "replay_claim_guard jcs_dumps q st 4000 5000 demo_caller k c0"
      "apply_artifact_hold_expiry_replay_claim jcs_dumps q st 4000 5000 demo_caller = Inr (st1, r)"
      "st1 = claimed_snapshot st q r" "cas_ok jcs_dumps st1"
    using demo_claim by (elim exE conjE) (rule that)
  have t: "cand_issued_at_ms (rres_candidate r) \<le> 4500" "4500 < cand_lease_until_ms (rres_candidate r)"
    using jcs.replay_claim_succeeds [OF d(1,2)] d(3) by auto
  have v: "all_ok (ledger_checks jcs_dumps (cas_candidate_ledger st1))" using cas_okD(2) [OF d(5)] by (simp add: ledger_iff)
  have p: "(q, r) \<in> set (replay_pairs (cas_candidate_ledger st1))" using claimed_pairs [OF cas_okD(2) [OF d(1)]] d(4) by simp
  from replay_leases_disjoint [OF v p p refl t t] v p t show ?thesis by blast
qed

section \<open>The validated ledger and snapshot\<close>

text \<open>
  C11. The loops of \<open>ArtifactHoldExpiryLedgerState.validate\<close> accept a ledger exactly when it satisfies the
  declarative invariant: paired and valid requests and results, one seal and one allocation per scanned
  candidate, replay claims with distinct ids and disjoint leases, one current pointer per claimed operation
  naming its latest claim, entries in strictly increasing fence order with unique leases and tokens, and
  the entries being exactly the candidates persisted by scans and claims.
\<close>
theorem ledger_validate_exact: "all_ok (ledger_checks dumps l) \<longleftrightarrow> ledger_ok dumps l"
  by (rule ledger_iff)

text \<open>
  C12. On a valid ledger no fence, lease id or bearer token is ever reused: fences increase strictly in
  the order candidates were handed out and stay between 1 and the high-water, and all lease ids and
  tokens, across scans and replay claims, are pairwise different.
\<close>
theorem ledger_fences_and_tokens:
  assumes "all_ok (ledger_checks dumps l)"
  shows "sorted_wrt (<) (map (cand_candidate_fencing_token \<circ> ent_candidate) (led_candidate_entries l)) \<and>
    set (map (cand_candidate_fencing_token \<circ> ent_candidate) (led_candidate_entries l)) \<subseteq> {1..led_candidate_fence_high_water l} \<and>
    distinct (authority_tokens l)"
proof -
  have L: "ledger_ok dumps l" using assms by (simp add: ledger_iff)
  have "entry_fence e \<in> {1..led_candidate_fence_high_water l}" if "e \<in> set (led_candidate_entries l)" for e
    using that ledger_okD(1) [OF L] entry_candidate_valid [OF L, of "ent_candidate e"]
    by (auto simp: entries_ok_def entry_fence_def entry_candidates_def candidate_iff candidate_fields_ok_def int_from_def)
  then show ?thesis using ledger_okD(1) [OF L] by (auto simp: entries_ok_def authority_tokens_eq entry_fence_def [abs_def] comp_def)
qed

theorem ledger_fences_and_tokens_witness:
  "\<exists>l. all_ok (ledger_checks jcs_dumps l) \<and> led_candidate_entries l \<noteq> [] \<and> distinct (authority_tokens l)"
proof -
  obtain q st r c sa where d: "st = scanned_snapshot demo_start q r c sa" "cas_ok jcs_dumps st"
    using demo_expire by (elim exE conjE) (rule that)
  have v: "all_ok (ledger_checks jcs_dumps (cas_candidate_ledger st))" using cas_okD(2) [OF d(2)] by (simp add: ledger_iff)
  have "led_candidate_entries (cas_candidate_ledger st) \<noteq> []" by (simp add: d(1))
  with ledger_fences_and_tokens [OF v] v show ?thesis by blast
qed

text \<open>
  C10. Exactly-once evidence: in a valid snapshot every commit is backed by exactly one consumed candidate,
  consumed at the commit time within its lease and not before the hold was due, and by exactly one audit and one outbox
  record; conversely every consumed candidate and every record belongs to a commit.
\<close>
theorem evidence_exactly_once:
  assumes "all_ok (cas_checks dumps st)"
  shows "(\<forall>k. k \<in> set (cas_commits st) \<longrightarrow>
      (\<exists>!e. e \<in> set (led_candidate_entries (cas_candidate_ledger st)) \<and> ent_consumed_by e = Some (com_expire_operation_id k)) \<and>
      (\<exists>e. e \<in> set (led_candidate_entries (cas_candidate_ledger st)) \<and> ent_consumed_by e = Some (com_expire_operation_id k) \<and>
         ent_consumed_at_ms e = Some (com_committed_at_ms k) \<and>
         max (cand_issued_at_ms (ent_candidate e)) (cand_observed_expires_ms (ent_candidate e)) \<le> com_committed_at_ms k \<and>
         com_committed_at_ms k < cand_lease_until_ms (ent_candidate e)) \<and>
      (\<exists>a. event_create dumps AUDIT k = Inr a \<and> count_list (cas_audit_records st) a = 1) \<and>
      (\<exists>p. event_create dumps OUTBOX k = Inr p \<and> count_list (cas_outbox_records st) p = 1)) \<and>
    (\<forall>e i. e \<in> set (led_candidate_entries (cas_candidate_ledger st)) \<and> ent_consumed_by e = Some i \<longrightarrow> i \<in> set (commit_ids st)) \<and>
    (\<forall>a. a \<in> set (cas_audit_records st) \<longrightarrow> (\<exists>k. k \<in> set (cas_commits st) \<and> event_create dumps AUDIT k = Inr a)) \<and>
    (\<forall>p. p \<in> set (cas_outbox_records st) \<longrightarrow> (\<exists>k. k \<in> set (cas_commits st) \<and> event_create dumps OUTBOX k = Inr p))"
proof -
  have C: "cas_ok dumps st" using assms by (simp add: cas_iff)
  let ?es = "led_candidate_entries (cas_candidate_ledger st)"
  have one: "\<exists>!e. e \<in> set ?es \<and> ent_consumed_by e = Some (com_expire_operation_id k)" if k: "k \<in> set (cas_commits st)" for k
  proof -
    obtain e where "filter (\<lambda>e. ent_consumed_by e = Some (com_expire_operation_id k)) ?es = [e]"
      using commit_candidate [OF C k] by blast
    then have "x = e" if "x \<in> set ?es \<and> ent_consumed_by x = Some (com_expire_operation_id k)" for x
      using that by (metis (mono_tags, lifting) empty_set filter_set list.simps(15) singletonD mem_Collect_eq set_filter)
    with cas_evidence [OF C k] show ?thesis by blast
  qed
  have owner: "i \<in> set (commit_ids st)" if "e \<in> set ?es" "ent_consumed_by e = Some i" for e i
    using that cas_okD(7) [OF C] set_consumed_keys [of i ?es] unfolding commit_ids_def by blast
  show ?thesis
    using one owner cas_evidence [OF C] cas_records_cover [OF C] unfolding evidence_ok_def Let_def by fastforce
qed

theorem evidence_exactly_once_witness:
  "\<exists>st k. all_ok (cas_checks jcs_dumps st) \<and> k \<in> set (cas_commits st) \<and>
     (\<exists>a. event_create jcs_dumps AUDIT k = Inr a \<and> count_list (cas_audit_records st) a = 1)"
proof -
  obtain st k where d: "cas_ok jcs_dumps st" "k \<in> set (cas_commits st)"
    using demo_replay by (elim exE conjE) (rule that)
  have v: "all_ok (cas_checks jcs_dumps st)" using d(1) by (simp add: cas_iff)
  from evidence_exactly_once [OF v] v d(2) show ?thesis by blast
qed

section \<open>Runs\<close>

text \<open>
  C7. Every snapshot that any sequence of successful SCAN, REPLAY_CLAIM and EXPIRE calls reaches from a fresh
  one passes \<open>validate()\<close>, its fence high-water is the last fence handed out, and while the hold is ACTIVE it has no
  commit and every recorded candidate is unconsumed and bound to the current due tuple.
\<close>
theorem reachable_valid:
  assumes "dumps_law dumps" and "hold_reachable dumps st"
  shows "all_ok (cas_checks dumps st) \<and>
    led_candidate_fence_high_water (cas_candidate_ledger st) = last_fence (cas_candidate_ledger st) \<and>
    (hold_hold_status (cas_hold_state st) = ACTIVE \<longrightarrow> cas_commits st = [] \<and>
       (\<forall>e \<in> set (led_candidate_entries (cas_candidate_ledger st)). due_candidate (cas_hold_state st) (ent_candidate e) \<and> \<not> ent_consumed e))"
  using canonical_encoder.reachable_inv [OF canonical_encoder.intro [OF assms(1)] assms(2)]
  by (simp add: run_inv_def Let_def cas_iff)

theorem reachable_valid_witness:
  "\<exists>q st' r. apply_artifact_hold_expiry_scan jcs_dumps demo_draws q demo_start 2000 demo_caller = Inr (st', r) \<and>
     hold_reachable jcs_dumps st' \<and> all_ok (cas_checks jcs_dumps st')"
proof -
  obtain q st r where s: "apply_artifact_hold_expiry_scan jcs_dumps demo_draws q demo_start 2000 demo_caller = Inr (st, r)"
    using demo_scan by (elim exE conjE) (rule that)
  have r: "hold_reachable jcs_dumps st" by (rule hold_reachable.later [OF demo_reachable hold_step.scan [OF s]])
  from reachable_valid [OF jcs_dumps_law r] r s show ?thesis by blast
qed

text \<open>
  C8. Runs only add history: fences do not decrease, no candidate, scan, replay claim, commit, audit or outbox record is lost
  or reordered, a consumed candidate stays consumed, the hold keeps its identity and expiry, its version
  does not decrease, and a hold that is no longer ACTIVE never changes again.
\<close>
theorem run_history:
  assumes "dumps_law dumps" and "hold_run dumps st st'"
  shows "extends_history st st'"
  by (rule canonical_encoder.run_extends [OF canonical_encoder.intro [OF assms(1)] assms(2)])

theorem run_history_witness:
  "\<exists>q eq st st' r er. apply_artifact_hold_expiry_scan jcs_dumps demo_draws q demo_start 2000 demo_caller = Inr (st, r) \<and>
     apply_artifact_hold_expiry jcs_dumps eq st 3000 demo_caller 1 = Inr (st', er) \<and> extends_history demo_start st'"
proof -
  obtain q st r eq st' er where d: "apply_artifact_hold_expiry_scan jcs_dumps demo_draws q demo_start 2000 demo_caller = Inr (st, r)"
      "apply_artifact_hold_expiry jcs_dumps eq st 3000 demo_caller 1 = Inr (st', er)"
    using demo_expire by (elim exE conjE) (rule that)
  have "hold_run jcs_dumps demo_start st'"
    by (rule hold_run.more [OF hold_run.more [OF hold_run.here hold_step.scan [OF d(1)]] hold_step.expire [OF d(2)]])
  from run_history [OF jcs_dumps_law this] d show ?thesis by blast
qed

text \<open>
  C9. A hold that is due can be expired: from every reachable snapshot whose hold is ACTIVE, due, on an artifact that is
  not being deleted, with room left in the safe-integer range, a SCAN by the configured reaper with fresh random tokens and
  a new scan id succeeds, and an EXPIRE of the candidate it returns, at any time within the lease,
  succeeds as well and makes the hold EXPIRED.
\<close>
theorem due_hold_expires:
  assumes "dumps_law dumps" and "hold_reachable dumps st"
    and "hold_hold_status (cas_hold_state st) = ACTIVE" and "hold_expires_ms (cas_hold_state st) = Some ex" and "ex \<le> now"
    and "hold_artifact_status (cas_hold_state st) \<notin> {DELETING, DELETED}"
    and "hold_artifact_version (cas_hold_state st) < MAX_SAFE_INTEGER"
    and "int (fcard (hold_active_hold_ids (cas_hold_state st))) \<le> MAX_SAFE_INTEGER"
    and "led_candidate_fence_high_water (cas_candidate_ledger st) < MAX_SAFE_INTEGER"
    and "now + LEASE_MAX_MS \<le> MAX_SAFE_INTEGER" and "scan_caller_ok who"
    and "draw_tokens draws = Some (lease, t)" and "canonical_token lease" and "canonical_token t"
    and "lease \<notin> set (authority_tokens (cas_candidate_ledger st))" and "t \<notin> set (authority_tokens (cas_candidate_ledger st))"
    and "lower_sha256 i" and "i \<notin> set (map sreq_scan_operation_id (led_scan_requests (cas_candidate_ledger st)))"
    and "now \<le> now'" and "now' < now + LEASE_MAX_MS"
  shows "\<exists>q st1 r c eq st2 er. scan_request_create dumps i 1 = Inr q \<and>
    apply_artifact_hold_expiry_scan dumps draws q st now who = Inr (st1, r) \<and> sres_candidates r = [c] \<and>
    expiry_request_create dumps c = Inr eq \<and>
    apply_artifact_hold_expiry dumps eq st1 now' who (cand_candidate_fencing_token c) = Inr (st2, er) \<and>
    hold_hold_status (cas_hold_state st2) = EXPIRED"
proof -
  note E = canonical_encoder.intro [OF assms(1)]
  have inv: "run_inv dumps st" by (rule canonical_encoder.reachable_inv [OF E assms(2)])
  then have C: "cas_ok dumps st" and hw: "led_candidate_fence_high_water (cas_candidate_ledger st) = last_fence (cas_candidate_ledger st)"
    and nc: "cas_commits st = []" using assms(3) by (simp_all add: run_inv_def Let_def)
  have ex: "int_from 0 ex" using cas_okD(1) [OF C] assms(4) by (simp add: hold_state_iff hold_fields_ok_def)
  obtain q where q: "scan_request_create dumps i 1 = Inr q" "all_ok (scan_request_checks dumps q)" "sreq_scan_operation_id q = i"
    using canonical_encoder.scan_request_created [OF E assms(17), of 1] by auto
  have g: "scan_guard dumps draws q st now who lease t"
    using assms ex hw q by (simp add: scan_guard_def Let_def is_finite_active_def int_from_def)
  have new: "sreq_scan_operation_id q \<notin> set (map sreq_scan_operation_id (led_scan_requests (cas_candidate_ledger st)))"
    using assms(18) q(3) by simp
  obtain c a r where x: "apply_artifact_hold_expiry_scan dumps draws q st now who = Inr (scanned_snapshot st q r c a, r)"
      "all_ok (candidate_checks dumps c)" "sres_candidates r = [c]"
      "candidate_of (cas_hold_state st) (sreq_scan_operation_id q) lease
        (led_candidate_fence_high_water (cas_candidate_ledger st) + 1) t who now c"
      "cas_ok dumps (scanned_snapshot st q r c a)"
    using canonical_encoder.scan_succeeds [OF E C g new] by blast
  have fresh: "fresh_candidate dumps (cas_candidate_ledger st) c"
    using x(2,4) assms(15,16) by (simp add: fresh_candidate_def candidate_of_def)
  obtain eq where eq: "expiry_request_create dumps c = Inr eq" "all_ok (expiry_request_checks dumps eq)" "request_matches eq c"
    using canonical_encoder.expiry_request_created [OF E x(2)] by blast
  have due: "due_candidate (cas_hold_state st) c" and c: "cand_observed_expires_ms c = ex" "cand_issued_at_ms c = now"
      "cand_lease_until_ms c = now + LEASE_MAX_MS" "cand_owner_principal_id c = cal_principal who"
      "cand_owner_instance_id c = cal_instance who"
    using x(4) assms(4) by (auto simp: candidate_of_def due_candidate_def)
  have g2: "expire_guard dumps (scanned_snapshot st q r c a) eq now' who (cand_candidate_fencing_token c) c"
    by (rule scanned_expirable [OF C fresh due assms(6-8,11) c(4,5) _ _ _ eq(2,3)]) (use assms(5,19,20) c in simp_all)
  have "ereq_expire_operation_id eq \<notin> set (commit_ids (scanned_snapshot st q r c a))" by (simp add: commit_ids_def nc)
  then obtain e er k p a' where "apply_artifact_hold_expiry dumps eq (scanned_snapshot st q r c a) now' who
      (cand_candidate_fencing_token c) = Inr (expired_snapshot (scanned_snapshot st q r c a) e k a' p, er)"
    using canonical_encoder.expire_succeeds [OF E x(5) _ g2] by blast
  moreover have "hold_hold_status (cas_hold_state (expired_snapshot (scanned_snapshot st q r c a) e k a' p)) = EXPIRED" by simp
  ultimately show ?thesis using q(1) x(1,3) eq(1) by blast
qed

theorem due_hold_expires_witness:
  "\<exists>q st1 r c eq st2 er. scan_request_create jcs_dumps demo_scan_id 1 = Inr q \<and>
    apply_artifact_hold_expiry_scan jcs_dumps demo_draws q demo_start 2000 demo_caller = Inr (st1, r) \<and> sres_candidates r = [c] \<and>
    expiry_request_create jcs_dumps c = Inr eq \<and>
    apply_artifact_hold_expiry jcs_dumps eq st1 3000 demo_caller (cand_candidate_fencing_token c) = Inr (st2, er) \<and>
    hold_hold_status (cas_hold_state st2) = EXPIRED"
  by (rule due_hold_expires [where ex = 1000, OF jcs_dumps_law demo_reachable _ _ _ _ _ _ _ _ _ demo_draw demo_tokens])
    (use demo_texts in \<open>simp_all add: demo_start_def demo_hold_def ledger_empty_def authority_tokens_def demo_caller_def
      scan_caller_ok_def LEASE_MAX_MS_def MAX_SAFE_INTEGER_def fcard_finsert_if fcard_fempty\<close>)

end
