(* ===== verification/HoldWire.thy ===== *)
theory HoldWire
  imports HoldDemo
begin

text \<open>
  The theorems on identifiers, tokens and wire forms of the hold-expiry contract: what the decoders accept,
  what identifies an expiry, and that the token loop ends.
\<close>

section \<open>Wire forms\<close>

text \<open>
  \<open>ArtifactHoldExpiryCandidate.from_canonical_json\<close> inverts the canonical encoding exactly: bytes decode to a
  candidate precisely when the candidate passes \<open>validate()\<close> and the bytes are its canonical encoding. So
  encoding and decoding round-trip, and no other bytes (reordered keys, spaces, duplicate or extra fields) decode to it.
\<close>
theorem candidate_wire_exact:
  assumes "dumps_law dumps"
  shows "candidate_from_json dumps wire = Inr c \<longleftrightarrow>
    all_ok (candidate_checks dumps c) \<and> canonical_json dumps (candidate_wire_dict c) = Inr wire"
  by (rule canonical_encoder.candidate_json_iff [OF canonical_encoder.intro [OF assms]])

theorem candidate_wire_exact_witness:
  "\<exists>c wire. cand_issued_at_ms c = 2000 \<and> candidate_from_json jcs_dumps wire = Inr c"
proof -
  obtain c where c: "all_ok (candidate_checks jcs_dumps c)" "candidate_of demo_hold demo_scan_id (b64url_nopad (replicate 32 0)) 1
      (b64url_nopad (replicate 32 1)) demo_caller 2000 c"
    using demo_scan by (elim exE conjE) (rule that)
  obtain wire where "canonical_json jcs_dumps (candidate_wire_dict c) = Inr wire"
    using jcs.dumps_wf [OF candidate_wire_jwf [OF c(1)]] by auto
  with candidate_wire_exact [OF jcs_dumps_law] c show ?thesis by (auto simp: candidate_of_def)
qed

text \<open>
  The same for SCAN results, whose candidates are decoded one by one inside the array.
\<close>
theorem scan_result_wire_exact:
  assumes "dumps_law dumps"
  shows "scan_result_from_json dumps wire = Inr r \<longleftrightarrow>
    all_ok (scan_result_checks dumps r) \<and> canonical_json dumps (scan_result_wire_dict r) = Inr wire"
  by (rule canonical_encoder.scan_result_json_iff [OF canonical_encoder.intro [OF assms]])

theorem scan_result_wire_exact_witness:
  "\<exists>r c wire. sres_candidates r = [c] \<and> scan_result_from_json jcs_dumps wire = Inr r"
proof -
  obtain q c a r st where r: "sres_candidates r = [c]" "st = scanned_snapshot demo_start q r c a" "cas_ok jcs_dumps st"
    using demo_scan by (elim exE conjE) (rule that)
  have p: "(q, r) \<in> set (scan_pairs (cas_candidate_ledger st))"
    by (simp add: r(2) demo_start_def ledger_empty_def scan_pairs_def)
  have "scans_ok jcs_dumps (scan_pairs (cas_candidate_ledger st))" using cas_okD(2) [OF r(3)] by (simp add: ledger_ok_def)
  with p have v: "all_ok (scan_result_checks jcs_dumps r)" by (fastforce simp: scans_ok_def scan_result_for_iff)
  obtain wire where "canonical_json jcs_dumps (scan_result_wire_dict r) = Inr wire"
    using jcs.dumps_wf [OF scan_result_wire_jwf [OF v]] by auto
  with scan_result_wire_exact [OF jcs_dumps_law] v r(1) show ?thesis by blast
qed

text \<open>
  C14. The same for EXPIRE requests: a decoded request is valid (its operation id is the hash of its due tuple and
  its digest that of its fields) and its bytes are determined by it.
\<close>
theorem expiry_request_wire_exact:
  assumes "dumps_law dumps"
  shows "expiry_request_from_json dumps wire = Inr q \<longleftrightarrow>
    all_ok (expiry_request_checks dumps q) \<and> canonical_json dumps (expiry_request_wire_dict q) = Inr wire"
  by (rule canonical_encoder.expiry_request_json_iff [OF canonical_encoder.intro [OF assms]])

theorem expiry_request_wire_exact_witness:
  "\<exists>q wire. ereq_candidate_fencing_token q = 1 \<and> expiry_request_from_json jcs_dumps wire = Inr q"
proof -
  obtain c q where d: "expiry_request_create jcs_dumps c = Inr q" "candidate_of demo_hold demo_scan_id (b64url_nopad (replicate 32 0)) 1
      (b64url_nopad (replicate 32 1)) demo_caller 2000 c"
    using demo_expire by (elim exE conjE) (rule that)
  have q: "all_ok (expiry_request_checks jcs_dumps q)" "request_matches q c" using d(1) by (simp_all add: expiry_request_created_iff)
  obtain wire where "canonical_json jcs_dumps (expiry_request_wire_dict q) = Inr wire"
    using jcs.dumps_wf [OF expiry_request_wire_jwf [OF q(1)]] by auto
  with expiry_request_wire_exact [OF jcs_dumps_law] q d(2) show ?thesis by (auto simp: candidate_of_def request_matches_def)
qed

section \<open>Identity of an expiry\<close>

text \<open>
  The preimage of the expire operation id identifies the due tuple: two tuples that pass the guards and have the same
  preimage are equal. The NUL separators are unambiguous because no field may contain a control character.
\<close>
theorem expiry_preimage_injective:
  assumes "artifact_hold_expiry_preimage a h d v e = Inr p" and "artifact_hold_expiry_preimage a' h' d' v' e' = Inr p"
  shows "a = a' \<and> h = h' \<and> d = d' \<and> v = v' \<and> e = e'"
  using assms by (rule expiry_preimage_inj)

theorem expiry_preimage_injective_witness:
  "\<exists>p. artifact_hold_expiry_preimage (u ''art'') (u ''hold'') (replicate 64 48) 1 1000 = Inr p \<and>
     (\<nexists>e'. artifact_hold_expiry_preimage (u ''art'') (u ''hold'') (replicate 64 48) 2 e' = Inr p)"
proof -
  have "due_tuple (u ''art'') (u ''hold'') (replicate 64 48) 1 1000"
    using demo_texts by (simp add: due_tuple_def int_from_def MAX_SAFE_INTEGER_def)
  then obtain p where p: "artifact_hold_expiry_preimage (u ''art'') (u ''hold'') (replicate 64 48) 1 1000 = Inr p"
    using expiry_parts_exist unfolding expiry_preimage_eq by blast
  have "artifact_hold_expiry_preimage (u ''art'') (u ''hold'') (replicate 64 48) 2 e' \<noteq> Inr p" for e'
    using expiry_preimage_injective [OF p, of "u ''art''" "u ''hold''" "replicate 64 48" 2 e'] by linarith
  with p show ?thesis by blast
qed

section \<open>The token loop\<close>

text \<open>
  Drawing a lease id and a bearer token takes the first value of the random source for the lease and the first later value
  that differs from it for the token; the loop fails to end only on a source that repeats its first value forever.
\<close>
theorem token_loop_returns:
  "draw_tokens (d # ds) = map_option (\<lambda>d'. (b64url_nopad d, b64url_nopad d')) (find (\<lambda>d'. b64url_nopad d' \<noteq> b64url_nopad d) ds) \<and>
   (draw_tokens (d # ds) = None \<longleftrightarrow> b64url_nopad ` set ds \<subseteq> {b64url_nopad d})"
proof -
  have "fresh_token l ds = map_option b64url_nopad (find (\<lambda>d'. b64url_nopad d' \<noteq> l) ds)" for l
    by (induction ds) simp_all
  then have "draw_tokens (d # ds) = map_option (\<lambda>d'. (b64url_nopad d, b64url_nopad d')) (find (\<lambda>d'. b64url_nopad d' \<noteq> b64url_nopad d) ds)"
    by (simp add: draw_tokens_def option.map_comp comp_def)
  then show ?thesis by (auto simp: find_None_iff)
qed

end
