(* ===== verification/ConfigSlots.thy ===== *)
theory ConfigSlots
  imports Json "HOL-Library.Product_Lexorder"
begin

text \<open>
  The deterministic projection of the required stable slots of a signed configuration bundle
  (\<open>src/a2amesh/config_slots.py\<close>). Bundles and descriptors are JSON objects; \<open>dict.get(key, _MISSING)\<close> is
  a lookup whose \<open>None\<close> is \<open>_MISSING\<close>. The dictionaries the readers build are maps. Where a message
  prints \<open>repr()\<close> of a value, the model prints the texts in it.
\<close>

section \<open>Data\<close>

definition BASE_REQUIRED_SLOT_TYPES :: "ustr list" where
  "BASE_REQUIRED_SLOT_TYPES = map u [''CONFIG_CONTROLLER'', ''STATE_SERVICE'', ''GATEWAY'', ''NATS_JETSTREAM'',
     ''OBJECT_STORE'', ''ARTIFACT_BROKER'', ''AUDIT_SINK'']"

definition DELIVERY_PROFILE_SET :: "ustr list" where
  "DELIVERY_PROFILE_SET = map u [''CORE'', ''INTEROP'', ''EXTENDED'']"

record RecoveryAuthority =
  aut_verification_method :: ustr
  aut_expected_digest :: ustr

record StableSlot =
  slot_component_type :: ustr
  slot_component_principal :: ustr
  slot_node_id :: ustr

definition slot_sort_key :: "StableSlot \<Rightarrow> (bytes \<times> bytes \<times> bytes) result" where
  "slot_sort_key s = bindE (enc_utf8 (slot_component_type s)) (\<lambda>a. bindE (enc_utf8 (slot_component_principal s))
     (\<lambda>b. bindE (enc_utf8 (slot_node_id s)) (\<lambda>c. Inr (a, b, c))))"

definition slot_as_dict :: "StableSlot \<Rightarrow> dict" where
  "slot_as_dict s = dict_of [(u ''componentType'', JStr (slot_component_type s)),
     (u ''componentPrincipal'', JStr (slot_component_principal s)), (u ''nodeId'', JStr (slot_node_id s))]"

type_synonym owners = "ustr \<rightharpoonup> string"
type_synonym authorities = "StableSlot \<rightharpoonup> RecoveryAuthority"

section \<open>Reading values\<close>

definition mapping_value :: "json option \<Rightarrow> string \<Rightarrow> dict result" where
  "mapping_value v label = (case v of Some (JObj d) \<Rightarrow> Inr d | _ \<Rightarrow> Inl (RequiredSlotError [label, '' must be an object'']))"

definition sequence_value :: "json option \<Rightarrow> string \<Rightarrow> json list result" where
  "sequence_value v label = (case v of Some (JArr vs) \<Rightarrow> Inr vs | _ \<Rightarrow> Inl (RequiredSlotError [label, '' must be an array'']))"

definition stable_text_value :: "json option \<Rightarrow> string \<Rightarrow> ustr result" where
  "stable_text_value v label = (case v of
     Some (JStr s) \<Rightarrow>
       checked
         [Check (s \<noteq> [] \<and> s = strip s) (RequiredSlotError [label, '' must be a non-empty trimmed string'']),
          Check (\<not> list_ex is_control s) (RequiredSlotError [label, '' contains a control character'']),
          Check (utf8_encode s \<noteq> None) (RequiredSlotError [label, '' is not valid UTF-8''])]
         (Inr s)
   | _ \<Rightarrow> Inl (RequiredSlotError [label, '' must be a non-empty trimmed string'']))"

definition slot_from_mapping :: "dict \<Rightarrow> string \<Rightarrow> StableSlot result" where
  "slot_from_mapping d label =
     bindE (stable_text_value (map_of d (u ''componentType'')) (label @ ''.componentType'')) (\<lambda>t.
     bindE (stable_text_value (map_of d (u ''componentPrincipal'')) (label @ ''.componentPrincipal'')) (\<lambda>p.
     bindE (stable_text_value (map_of d (u ''nodeId'')) (label @ ''.nodeId'')) (\<lambda>n.
     Inr \<lparr> slot_component_type = t, slot_component_principal = p, slot_node_id = n \<rparr>)))"

definition slot_from_exact_mapping :: "json \<Rightarrow> string \<Rightarrow> StableSlot result" where
  "slot_from_exact_mapping v label =
     bindE (mapping_value (Some v) label) (\<lambda>d.
     checked [Check (fst ` set d = {u ''componentType'', u ''componentPrincipal'', u ''nodeId''})
                (RequiredSlotError [label, '' has missing or extra fields''])]
     (slot_from_mapping d label))"

definition read_recovery_authority :: "dict \<Rightarrow> string \<Rightarrow> RecoveryAuthority result" where
  "read_recovery_authority d label =
     bindE (stable_text_value (map_of d (u ''verificationMethod'')) (label @ ''.verificationMethod'')) (\<lambda>m.
     bindE (stable_text_value (map_of d (u ''expectedDigest'')) (label @ ''.expectedDigest'')) (\<lambda>e.
     checked [Check (lower_sha256 e) (RequiredSlotError [label, ''.expectedDigest must be lowercase SHA-256 hex''])]
     (Inr \<lparr> aut_verification_method = m, aut_expected_digest = e \<rparr>)))"

definition claim_unique_identity :: "owners \<Rightarrow> ustr \<Rightarrow> string \<Rightarrow> string \<Rightarrow> owners result" where
  "claim_unique_identity owners v identity_type owner =
     (case owners v of
        Some previous \<Rightarrow> Inl (RequiredSlotError [''duplicate global identity claimed by '', previous, '' and '', identity_type, '' '', owner])
      | None \<Rightarrow> Inr (owners(v \<mapsto> identity_type @ '' '' @ owner)))"

definition validate_profile_name :: "json \<Rightarrow> string \<Rightarrow> ustr result" where
  "validate_profile_name v label = (case v of
     JStr s \<Rightarrow> if s \<in> set DELIVERY_PROFILE_SET then stable_text_value (Some v) label
       else Inl (RequiredSlotError [label, '' has unsupported profile '', show_ustr s, ''; expected CORE, INTEROP, or EXTENDED''])
   | _ \<Rightarrow> Inl (RequiredSlotError [label, '' has unsupported profile '', ''; expected CORE, INTEROP, or EXTENDED'']))"

section \<open>Slots of the deployment descriptor and of the bundle\<close>

definition base_label :: "nat \<Rightarrow> string" where
  "base_label i = ''fixedBaseSlots['' @ show_int (int i) @ '']''"

fun base_loop :: "nat \<Rightarrow> json list \<Rightarrow> StableSlot list \<Rightarrow> owners \<Rightarrow> authorities
    \<Rightarrow> (StableSlot list \<times> owners \<times> authorities) result" where
  "base_loop i [] slots owners auths = Inr (slots, owners, auths)"
| "base_loop i (v # vs) slots owners auths =
     bindE (mapping_value (Some v) (base_label i)) (\<lambda>item.
     bindE (slot_from_mapping item (base_label i)) (\<lambda>slot.
     bindE (stable_text_value (map_of item (u ''readyReporterPrincipal'')) (base_label i @ ''.readyReporterPrincipal'')) (\<lambda>reporter.
     bindE (stable_text_value (map_of item (u ''probeNkeySelector'')) (base_label i @ ''.probeNkeySelector'')) (\<lambda>nkey.
     bindE (read_recovery_authority item (base_label i)) (\<lambda>authority.
     bindE (claim_unique_identity owners (slot_component_principal slot) ''Principal'' (base_label i @ ''.componentPrincipal'')) (\<lambda>o1.
     bindE (claim_unique_identity o1 reporter ''Principal'' (base_label i @ ''.readyReporterPrincipal'')) (\<lambda>o2.
     bindE (claim_unique_identity o2 nkey ''nkeySelector'' (base_label i @ ''.probeNkeySelector'')) (\<lambda>o3.
     base_loop (Suc i) vs (slots @ [slot]) o3 (auths(slot \<mapsto> authority))))))))))"

definition join_names :: "ustr list \<Rightarrow> string" where
  "join_names xs = concat (map show_ustr (case xs of [] \<Rightarrow> [] | x # ys \<Rightarrow> x # concat (map (\<lambda>y. [u '', '', y]) ys)))"

definition read_base_slots :: "dict \<Rightarrow> (StableSlot list \<times> owners \<times> authorities) result" where
  "read_base_slots descriptor =
     bindE (sequence_value (map_of descriptor (u ''fixedBaseSlots'')) ''fixedBaseSlots'') (\<lambda>values.
     bindE (base_loop 0 values [] Map.empty Map.empty) (\<lambda>(slots, owners, auths).
     let types = map slot_component_type slots;
         missing = filter (\<lambda>t. t \<notin> set types) BASE_REQUIRED_SLOT_TYPES;
         unknown = filter (\<lambda>t. t \<notin> set BASE_REQUIRED_SLOT_TYPES) types
     in checked
         [Check (missing = []) (RequiredSlotError [''fixedBaseSlots is missing required types: '', join_names (sort missing)]),
          Check (unknown = []) (RequiredSlotError [''fixedBaseSlots contains unknown types: '', join_names (sort (remdups unknown))])]
         (Inr (slots, owners, auths))))"

definition comp_label :: "nat \<Rightarrow> string" where
  "comp_label i = ''components['' @ show_int (int i) @ '']''"

definition profile_label :: "string \<Rightarrow> nat \<Rightarrow> string" where
  "profile_label label j = label @ ''.requiredForProfiles['' @ show_int (int j) @ '']''"

fun component_loop :: "ustr \<Rightarrow> nat \<Rightarrow> json list \<Rightarrow> StableSlot list \<Rightarrow> StableSlot list \<Rightarrow> owners \<Rightarrow> authorities
    \<Rightarrow> (StableSlot list \<times> StableSlot list \<times> authorities) result" where
  "component_loop profile i [] all_slots profile_slots owners auths = Inr (all_slots, profile_slots, auths)"
| "component_loop profile i (v # vs) all_slots profile_slots owners auths =
     bindE (mapping_value (Some v) (comp_label i)) (\<lambda>item.
     bindE (slot_from_mapping item (comp_label i)) (\<lambda>slot.
     checked [Check (slot_component_type slot \<noteq> u ''merge-broker'')
                (RequiredSlotError [''application-core owns Merge Broker; merge-broker is not a slot''])]
     (bindE (stable_text_value (map_of item (u ''nkeySelector'')) (comp_label i @ ''.nkeySelector'')) (\<lambda>nkey.
      bindE (claim_unique_identity owners (slot_component_principal slot) ''Principal'' (comp_label i @ ''.componentPrincipal'')) (\<lambda>o1.
      bindE (claim_unique_identity o1 nkey ''nkeySelector'' (comp_label i @ ''.nkeySelector'')) (\<lambda>o2.
      bindE (read_recovery_authority item (comp_label i)) (\<lambda>authority.
      bindE (sequence_value (map_of item (u ''requiredForProfiles'')) (comp_label i @ ''.requiredForProfiles'')) (\<lambda>profiles.
      bindE (mapE (\<lambda>(j, p). validate_profile_name p (profile_label (comp_label i) j)) (enumerate 0 profiles)) (\<lambda>names.
      checked [Check (distinct names) (RequiredSlotError [comp_label i, ''.requiredForProfiles contains duplicates''])]
      (component_loop profile (Suc i) vs (all_slots @ [slot])
         (if profile \<in> set names then profile_slots @ [slot] else profile_slots) o2 (auths(slot \<mapsto> authority))))))))))))"

definition read_component_slots ::
    "dict \<Rightarrow> ustr \<Rightarrow> owners \<Rightarrow> authorities \<Rightarrow> (StableSlot list \<times> StableSlot list \<times> authorities) result" where
  "read_component_slots bundle profile owners auths =
     bindE (sequence_value (map_of bundle (u ''components'')) ''components'') (\<lambda>values.
     component_loop profile 0 values [] [] owners auths)"

definition explicit_label :: "nat \<Rightarrow> string" where
  "explicit_label i = ''deliveryProfile.explicitlyRequiredOperationalSlots['' @ show_int (int i) @ '']''"

fun explicit_loop :: "StableSlot list \<Rightarrow> nat \<Rightarrow> json list \<Rightarrow> StableSlot list \<Rightarrow> StableSlot list result" where
  "explicit_loop known i [] result = Inr result"
| "explicit_loop known i (v # vs) result =
     bindE (mapping_value (Some v) (explicit_label i)) (\<lambda>d.
     checked [Check (fst ` set d = {u ''componentType'', u ''componentPrincipal'', u ''nodeId''})
                (RequiredSlotError [''explicit operational slot has missing or extra fields at index '', show_int (int i)])]
     (bindE (slot_from_mapping d (explicit_label i)) (\<lambda>slot.
      checked
        [Check (slot_component_type slot \<noteq> u ''merge-broker'')
           (RequiredSlotError [''merge-broker cannot be an operational slot'']),
         Check (slot \<in> set known)
           (RequiredSlotError [''explicit operational slot does not resolve to a signed stable slot: '',
              show_ustr (slot_component_type slot), show_ustr (slot_component_principal slot), show_ustr (slot_node_id slot)]),
         Check (slot \<notin> set result) (RequiredSlotError [''explicit operational slots contain a duplicate''])]
      (explicit_loop known (Suc i) vs (result @ [slot])))))"

definition read_explicit_slots :: "json option \<Rightarrow> StableSlot list \<Rightarrow> StableSlot list result" where
  "read_explicit_slots v known =
     bindE (sequence_value v ''deliveryProfile.explicitlyRequiredOperationalSlots'') (\<lambda>values.
     explicit_loop known 0 values [])"

section \<open>The projection\<close>

definition reject_duplicate_slots :: "StableSlot list \<Rightarrow> string \<Rightarrow> check list" where
  "reject_duplicate_slots slots label =
     [Check (card (set slots) = length slots) (RequiredSlotError [label, '' contains duplicate stable slots''])]"

text \<open>\<open>dict.setdefault\<close> in order: the first occurrence of each slot.\<close>

definition unique_slots :: "StableSlot list \<Rightarrow> StableSlot list" where
  "unique_slots slots = foldl (\<lambda>acc s. if s \<in> set acc then acc else acc @ [s]) [] slots"

definition sort_slots :: "StableSlot list \<Rightarrow> StableSlot list result" where
  "sort_slots slots = bindE (mapE slot_sort_key slots) (\<lambda>keys. Inr (map snd (sort_key fst (zip keys slots))))"

definition authority_for :: "StableSlot \<Rightarrow> authorities \<Rightarrow> RecoveryAuthority result" where
  "authority_for slot auths = (case auths slot of Some a \<Rightarrow> Inr a
     | None \<Rightarrow> Inl (RequiredSlotError [''required stable slot has no authoritative recovery proof metadata: '',
         show_ustr (slot_component_type slot), show_ustr (slot_component_principal slot), show_ustr (slot_node_id slot)]))"

definition required_label :: "nat \<Rightarrow> string" where
  "required_label i = ''deliveryProfile.requiredSlots['' @ show_int (int i) @ '']''"

definition validate_required_slots_projection :: "dict \<Rightarrow> StableSlot list \<Rightarrow> unit result" where
  "validate_required_slots_projection delivery_profile generated =
     (case map_of delivery_profile (u ''requiredSlots'') of
        None \<Rightarrow> Inl (RequiredSlotError [''deliveryProfile.requiredSlots is required''])
      | Some projection \<Rightarrow>
        bindE (sequence_value (Some projection) ''deliveryProfile.requiredSlots'') (\<lambda>values.
        bindE (mapE (\<lambda>(i, v). slot_from_exact_mapping v (required_label i)) (enumerate 0 values)) (\<lambda>parsed.
        checked [Check (parsed = generated)
                   (RequiredSlotError [''deliveryProfile.requiredSlots does not equal RequiredSlotSetV1''])] (Inr ()))))"

definition recovery_label :: "nat \<Rightarrow> string" where
  "recovery_label i = ''recoveryPolicy.requiredComponents['' @ show_int (int i) @ '']''"

fun recovery_loop :: "nat \<Rightarrow> json list \<Rightarrow> (StableSlot \<times> RecoveryAuthority) list
    \<Rightarrow> (StableSlot \<times> RecoveryAuthority) list result" where
  "recovery_loop i [] parsed = Inr parsed"
| "recovery_loop i (v # vs) parsed =
     bindE (mapping_value (Some v) (recovery_label i)) (\<lambda>item.
     checked [Check (fst ` set item = {u ''componentType'', u ''componentPrincipal'', u ''nodeId'',
                u ''verificationMethod'', u ''expectedDigest''})
                (RequiredSlotError [''recovery required component has missing or extra fields at index '', show_int (int i)])]
     (bindE (slot_from_mapping item (recovery_label i)) (\<lambda>slot.
      bindE (read_recovery_authority item (recovery_label i)) (\<lambda>authority.
      checked [Check (slot \<notin> set (map fst parsed)) (RequiredSlotError [''recovery required components contain a duplicate''])]
      (recovery_loop (Suc i) vs (parsed @ [(slot, authority)]))))))"

definition validate_recovery_projection :: "dict \<Rightarrow> StableSlot list \<Rightarrow> authorities \<Rightarrow> unit result" where
  "validate_recovery_projection bundle generated auths =
     (case map_of bundle (u ''recoveryPolicy'') of
        None \<Rightarrow> Inl (RequiredSlotError [''recoveryPolicy is required''])
      | Some recovery \<Rightarrow>
        bindE (mapping_value (Some recovery) ''recoveryPolicy'') (\<lambda>d.
        case map_of d (u ''requiredComponents'') of
          None \<Rightarrow> Inl (RequiredSlotError [''recoveryPolicy.requiredComponents is required''])
        | Some projection \<Rightarrow>
          bindE (sequence_value (Some projection) ''recoveryPolicy.requiredComponents'') (\<lambda>values.
          bindE (recovery_loop 0 values []) (\<lambda>parsed.
          bindE (mapE (\<lambda>slot. bindE (authority_for slot auths) (\<lambda>a. Inr (slot, a))) generated) (\<lambda>expected.
          checked [Check (parsed = expected)
                     (RequiredSlotError [''recoveryPolicy.requiredComponents does not equal '', ''RequiredSlotSetV1 proof metadata''])]
            (Inr ()))))))"

definition compute_required_slots ::
    "ustr \<Rightarrow> dict \<Rightarrow> dict \<Rightarrow> bool \<Rightarrow> (StableSlot list \<times> authorities) result" where
  "compute_required_slots profile_name bundle descriptor validate_projections =
     bindE (validate_profile_name (JStr profile_name) ''profile_name'') (\<lambda>_.
     bindE (read_base_slots descriptor) (\<lambda>(base_slots, owners, auths0).
     bindE (read_component_slots bundle profile_name owners auths0) (\<lambda>(all_slots, profile_slots, auths).
     let known = base_slots @ all_slots in
     checked (reject_duplicate_slots known ''base/component slots'')
     (bindE (mapping_value (map_of bundle (u ''deliveryProfile'')) ''deliveryProfile'') (\<lambda>delivery_profile.
      bindE (read_explicit_slots (Some (case map_of delivery_profile (u ''explicitlyRequiredOperationalSlots'') of
               None \<Rightarrow> JArr [] | Some v \<Rightarrow> v)) known) (\<lambda>explicit_slots.
      bindE (sort_slots (unique_slots (base_slots @ profile_slots @ explicit_slots))) (\<lambda>generated.
      if validate_projections then
        bindE (validate_required_slots_projection delivery_profile generated) (\<lambda>_.
        bindE (validate_recovery_projection bundle generated auths) (\<lambda>_. Inr (generated, auths)))
      else Inr (generated, auths))))))))"

definition required_slot_set :: "ustr \<Rightarrow> dict \<Rightarrow> dict \<Rightarrow> StableSlot list result" where
  "required_slot_set profile_name bundle descriptor =
     bindE (compute_required_slots profile_name bundle descriptor True) (\<lambda>(slots, _). Inr slots)"

definition required_slot_projection :: "ustr \<Rightarrow> dict \<Rightarrow> dict \<Rightarrow> dict list result" where
  "required_slot_projection profile_name bundle descriptor =
     bindE (compute_required_slots profile_name bundle descriptor False) (\<lambda>(slots, _). Inr (map slot_as_dict slots))"

definition render_recovery :: "StableSlot \<Rightarrow> RecoveryAuthority \<Rightarrow> dict" where
  "render_recovery slot a = dict_union (slot_as_dict slot)
     (dict_of [(u ''verificationMethod'', JStr (aut_verification_method a)), (u ''expectedDigest'', JStr (aut_expected_digest a))])"

definition render_recovery_projection :: "StableSlot list \<Rightarrow> authorities \<Rightarrow> dict list result" where
  "render_recovery_projection slots auths = mapE (\<lambda>slot. bindE (authority_for slot auths) (\<lambda>a. Inr (render_recovery slot a))) slots"

definition required_recovery_projection :: "ustr \<Rightarrow> dict \<Rightarrow> dict \<Rightarrow> dict list result" where
  "required_recovery_projection profile_name bundle descriptor =
     bindE (compute_required_slots profile_name bundle descriptor False) (\<lambda>(slots, auths). render_recovery_projection slots auths)"

end
