(* ===== verification/SlotFacts.thy ===== *)
theory SlotFacts
  imports ConfigSlots
begin

text \<open>
  What the slot projection computes, in terms of the items of the bundle and the descriptor, and the facts
  on signed projections the theorems rest on.
\<close>

section \<open>Readers\<close>

definition slot_ok :: "StableSlot \<Rightarrow> bool" where
  "slot_ok s \<longleftrightarrow> stable_text (slot_component_type s) \<and> stable_text (slot_component_principal s) \<and> stable_text (slot_node_id s)"

definition authority_ok :: "RecoveryAuthority \<Rightarrow> bool" where
  "authority_ok a \<longleftrightarrow> stable_text (aut_verification_method a) \<and> lower_sha256 (aut_expected_digest a)"

lemma stable_text_value_iff [simp]: "stable_text_value v label = Inr s \<longleftrightarrow> v = Some (JStr s) \<and> stable_text s"
  by (auto simp: stable_text_value_def stable_text_utf8 split: option.splits json.splits)

lemma mapping_value_iff [simp]: "mapping_value v label = Inr d \<longleftrightarrow> v = Some (JObj d)"
  by (auto simp: mapping_value_def split: option.splits json.splits)

lemma sequence_value_iff [simp]: "sequence_value v label = Inr vs \<longleftrightarrow> v = Some (JArr vs)"
  by (auto simp: sequence_value_def split: option.splits json.splits)

lemma slot_from_mapping_iff:
  "slot_from_mapping d label = Inr s \<longleftrightarrow> slot_ok s \<and> map_of d (u ''componentType'') = Some (JStr (slot_component_type s)) \<and>
     map_of d (u ''componentPrincipal'') = Some (JStr (slot_component_principal s)) \<and>
     map_of d (u ''nodeId'') = Some (JStr (slot_node_id s))"
  by (cases s) (auto simp: slot_from_mapping_def slot_ok_def)

lemma read_recovery_authority_iff:
  "read_recovery_authority d label = Inr a \<longleftrightarrow> authority_ok a \<and>
     map_of d (u ''verificationMethod'') = Some (JStr (aut_verification_method a)) \<and>
     map_of d (u ''expectedDigest'') = Some (JStr (aut_expected_digest a))"
  by (cases a) (auto simp: read_recovery_authority_def authority_ok_def lower_sha256_stable)

lemma claimed_identity:
  "claim_unique_identity owners v t w = Inr owners' \<Longrightarrow> v \<notin> dom owners \<and> dom owners' = insert v (dom owners)"
  by (auto simp: claim_unique_identity_def split: option.splits)

lemma profile_name_iff: "validate_profile_name v label = Inr s \<longleftrightarrow> v = JStr s \<and> s \<in> set DELIVERY_PROFILE_SET"
proof -
  have "stable_text s" if "s \<in> set DELIVERY_PROFILE_SET"
    using that by (auto simp: DELIVERY_PROFILE_SET_def u_def intro!: stable_text_graphic)
  then show ?thesis by (auto simp: validate_profile_name_def split: json.splits)
qed

section \<open>Items\<close>

definition text_at :: "json \<Rightarrow> string \<Rightarrow> ustr" where
  "text_at v k = (case v of JObj d \<Rightarrow> (case map_of d (u k) of Some (JStr s) \<Rightarrow> s | _ \<Rightarrow> []) | _ \<Rightarrow> [])"

definition slot_of :: "json \<Rightarrow> StableSlot" where
  "slot_of v = \<lparr> slot_component_type = text_at v ''componentType'', slot_component_principal = text_at v ''componentPrincipal'',
     slot_node_id = text_at v ''nodeId'' \<rparr>"

definition items :: "dict \<Rightarrow> string \<Rightarrow> json list" where
  "items d k = (case map_of d (u k) of Some (JArr vs) \<Rightarrow> vs | _ \<Rightarrow> [])"

definition profiles_of :: "json \<Rightarrow> ustr set" where
  "profiles_of v = (case v of JObj d \<Rightarrow> {s. JStr s \<in> set (items d ''requiredForProfiles'')} | _ \<Rightarrow> {})"

definition base_identities :: "json \<Rightarrow> ustr list" where
  "base_identities v = [text_at v ''componentPrincipal'', text_at v ''readyReporterPrincipal'', text_at v ''probeNkeySelector'']"

definition component_identities :: "json \<Rightarrow> ustr list" where
  "component_identities v = [text_at v ''componentPrincipal'', text_at v ''nkeySelector'']"

lemma items_eq [simp]: "map_of d (u k) = Some (JArr vs) \<Longrightarrow> items d k = vs"
  by (simp add: items_def)

lemma slot_of_mapping: "slot_from_mapping d label = Inr s \<Longrightarrow> slot_of (JObj d) = s"
  by (cases s) (auto simp: slot_from_mapping_iff slot_of_def text_at_def)

section \<open>The loops\<close>

lemma base_loop_result:
  assumes "base_loop i vs slots owners auths = Inr (slots', owners', auths')"
  shows "slots' = slots @ map slot_of vs \<and> list_all slot_ok (map slot_of vs) \<and>
    distinct (concat (map base_identities vs)) \<and> set (concat (map base_identities vs)) \<inter> dom owners = {} \<and>
    dom owners' = dom owners \<union> set (concat (map base_identities vs)) \<and>
    dom auths' = dom auths \<union> slot_of ` set vs \<and> (ran auths \<subseteq> Collect authority_ok \<longrightarrow> ran auths' \<subseteq> Collect authority_ok)"
  using assms
proof (induction vs arbitrary: i slots owners auths)
  case (Cons v vs)
  obtain d s rep nk a o1 o2 o3 where x: "v = JObj d" "slot_from_mapping d (base_label i) = Inr s"
      "map_of d (u ''readyReporterPrincipal'') = Some (JStr rep)" "map_of d (u ''probeNkeySelector'') = Some (JStr nk)"
      "read_recovery_authority d (base_label i) = Inr a"
      "claim_unique_identity owners (slot_component_principal s) ''Principal'' (base_label i @ ''.componentPrincipal'') = Inr o1"
      "claim_unique_identity o1 rep ''Principal'' (base_label i @ ''.readyReporterPrincipal'') = Inr o2"
      "claim_unique_identity o2 nk ''nkeySelector'' (base_label i @ ''.probeNkeySelector'') = Inr o3"
      "base_loop (Suc i) vs (slots @ [s]) o3 (auths(s \<mapsto> a)) = Inr (slots', owners', auths')"
    using Cons.prems unfolding base_loop.simps bindE_eq_Inr mapping_value_iff stable_text_value_iff option.inject
    by (elim exE conjE) (rule that)
  note c = claimed_identity [OF x(6)] claimed_identity [OF x(7)] claimed_identity [OF x(8)]
  have s: "slot_of v = s" "slot_ok s" "authority_ok a"
    using slot_of_mapping [OF x(2)] x(1,2,5) by (simp_all add: slot_from_mapping_iff read_recovery_authority_iff)
  have ids: "base_identities v = [slot_component_principal s, rep, nk]"
    using s(1) x(1,3,4) by (auto simp: base_identities_def text_at_def slot_of_def)
  have ran: "ran (auths(s \<mapsto> a)) \<subseteq> Collect authority_ok" if "ran auths \<subseteq> Collect authority_ok"
    using that s(3) by (auto simp: ran_def split: if_splits)
  have "ran auths \<subseteq> Collect authority_ok \<longrightarrow> ran auths' \<subseteq> Collect authority_ok" using Cons.IH [OF x(9)] ran by blast
  with Cons.IH [OF x(9)] c s ids show ?case by (auto simp del: fun_upd_apply)
qed auto

lemma profile_names:
  assumes "mapE (\<lambda>(j, p). validate_profile_name p (lab j)) (enumerate n ps) = Inr names"
  shows "ps = map JStr names"
  using assms by (induction ps arbitrary: n names) (auto simp: profile_name_iff)

lemma component_loop_result:
  assumes "component_loop profile i vs al ps owners auths = Inr (al', ps', auths')"
  shows "al' = al @ map slot_of vs \<and> list_all slot_ok (map slot_of vs) \<and>
    u ''merge-broker'' \<notin> slot_component_type ` slot_of ` set vs \<and>
    ps' = ps @ map slot_of (filter (\<lambda>v. profile \<in> profiles_of v) vs) \<and>
    distinct (concat (map component_identities vs)) \<and> set (concat (map component_identities vs)) \<inter> dom owners = {} \<and>
    dom auths' = dom auths \<union> slot_of ` set vs \<and> (ran auths \<subseteq> Collect authority_ok \<longrightarrow> ran auths' \<subseteq> Collect authority_ok)"
  using assms
proof (induction vs arbitrary: i al ps owners auths)
  case (Cons v vs)
  obtain d s nk a o1 o2 pvs names where x: "v = JObj d" "slot_from_mapping d (comp_label i) = Inr s"
      "slot_component_type s \<noteq> u ''merge-broker''" "map_of d (u ''nkeySelector'') = Some (JStr nk)"
      "claim_unique_identity owners (slot_component_principal s) ''Principal'' (comp_label i @ ''.componentPrincipal'') = Inr o1"
      "claim_unique_identity o1 nk ''nkeySelector'' (comp_label i @ ''.nkeySelector'') = Inr o2"
      "read_recovery_authority d (comp_label i) = Inr a" "map_of d (u ''requiredForProfiles'') = Some (JArr pvs)"
      "mapE (\<lambda>(j, p). validate_profile_name p (profile_label (comp_label i) j)) (enumerate 0 pvs) = Inr names"
      "component_loop profile (Suc i) vs (al @ [s]) (if profile \<in> set names then ps @ [s] else ps) o2 (auths(s \<mapsto> a)) = Inr (al', ps', auths')"
    using Cons.prems unfolding component_loop.simps bindE_eq_Inr checked_eq_Inr all_ok.simps mapping_value_iff sequence_value_iff
      stable_text_value_iff option.inject
    by (elim exE conjE) (rule that)
  note c = claimed_identity [OF x(5)] claimed_identity [OF x(6)]
  have s: "slot_of v = s" "slot_ok s" "authority_ok a"
    using slot_of_mapping [OF x(2)] x(1,2,7) by (simp_all add: slot_from_mapping_iff read_recovery_authority_iff)
  have ids: "component_identities v = [slot_component_principal s, nk]"
    using s(1) x(1,4) by (auto simp: component_identities_def text_at_def slot_of_def)
  have pn: "profile \<in> profiles_of v \<longleftrightarrow> profile \<in> set names"
    using x(1,8) profile_names [OF x(9)] by (auto simp: profiles_of_def)
  have ran: "ran (auths(s \<mapsto> a)) \<subseteq> Collect authority_ok" if "ran auths \<subseteq> Collect authority_ok"
    using that s(3) by (auto simp: ran_def split: if_splits)
  have "ran auths \<subseteq> Collect authority_ok \<longrightarrow> ran auths' \<subseteq> Collect authority_ok" using Cons.IH [OF x(10)] ran by blast
  with Cons.IH [OF x(10)] c s ids pn x(3) show ?case by (auto simp del: fun_upd_apply)
qed auto

lemma explicit_loop_result:
  assumes "explicit_loop known i vs res = Inr res'"
  shows "res' = res @ map slot_of vs \<and> slot_of ` set vs \<subseteq> set known"
  using assms
proof (induction vs arbitrary: i res)
  case (Cons v vs)
  then show ?case using slot_of_mapping by (fastforce split: prod.splits)
qed auto

section \<open>The generated list\<close>

definition slot_key :: "StableSlot \<Rightarrow> bytes \<times> bytes \<times> bytes" where
  "slot_key s = (the (utf8_encode (slot_component_type s)), the (utf8_encode (slot_component_principal s)),
     the (utf8_encode (slot_node_id s)))"

lemma slot_sort_key_ok: "slot_ok s \<Longrightarrow> slot_sort_key s = Inr (slot_key s)"
  using stable_text_encodes [of "slot_component_type s"] stable_text_encodes [of "slot_component_principal s"]
    stable_text_encodes [of "slot_node_id s"]
  by (auto simp: slot_sort_key_def slot_key_def slot_ok_def)

lemma slot_key_inj: "slot_ok s \<Longrightarrow> slot_ok t \<Longrightarrow> slot_key s = slot_key t \<Longrightarrow> s = t"
proof -
  assume a: "slot_ok s" "slot_ok t" and k: "slot_key s = slot_key t"
  have e: "\<exists>bs. utf8_encode x = Some bs" if "stable_text x" for x using stable_text_encodes [OF that] by blast
  have inj: "x = y" if "stable_text x" "stable_text y" "the (utf8_encode x) = the (utf8_encode y)" for x y
    using e [OF that(1)] e [OF that(2)] that(3) utf8_encode_inj by auto
  show "s = t" using a k inj by (cases s; cases t) (simp add: slot_ok_def slot_key_def)
qed

lemma sort_slots_ok:
  assumes "list_all slot_ok slots"
  shows "sort_slots slots = Inr (sort_key slot_key slots)"
proof -
  have k: "mapE slot_sort_key slots = Inr (map slot_key slots)"
    by (rule mapE_map_Inr) (use assms in \<open>auto simp: list_all_iff slot_sort_key_ok\<close>)
  have "zip (map slot_key slots) slots = map (\<lambda>s. (slot_key s, s)) slots" by (induction slots) simp_all
  then have "map snd (sort_key fst (zip (map slot_key slots) slots)) = sort_key slot_key slots"
    by (simp add: sort_key_map comp_def)
  with k show ?thesis by (simp add: sort_slots_def)
qed

lemma unique_slots_props: "distinct (unique_slots xs) \<and> set (unique_slots xs) = set xs"
proof -
  have "distinct acc \<Longrightarrow> distinct (foldl (\<lambda>acc s. if s \<in> set acc then acc else acc @ [s]) acc xs) \<and>
      set (foldl (\<lambda>acc s. if s \<in> set acc then acc else acc @ [s]) acc xs) = set acc \<union> set xs" for acc :: "StableSlot list"
    by (induction xs arbitrary: acc) auto
  then show ?thesis by (simp add: unique_slots_def)
qed

text \<open>What the recomputation yields, from the items of the descriptor and the bundle.\<close>

definition required_items :: "ustr \<Rightarrow> dict \<Rightarrow> dict \<Rightarrow> json set" where
  "required_items profile bundle descriptor = set (items descriptor ''fixedBaseSlots'') \<union>
     {v \<in> set (items bundle ''components''). profile \<in> profiles_of v} \<union>
     (case map_of bundle (u ''deliveryProfile'') of Some (JObj dp) \<Rightarrow> set (items dp ''explicitlyRequiredOperationalSlots'') | _ \<Rightarrow> {})"

text \<open>The steps of a successful computation, and the two projections it checked.\<close>

lemma compute_steps:
  assumes "compute_required_slots profile bundle descriptor flag = Inr (generated, auths)"
  obtains base owners a0 al prof dp ex where "read_base_slots descriptor = Inr (base, owners, a0)"
      "read_component_slots bundle profile owners a0 = Inr (al, prof, auths)"
      "map_of bundle (u ''deliveryProfile'') = Some (JObj dp)"
      "read_explicit_slots (Some (case map_of dp (u ''explicitlyRequiredOperationalSlots'') of None \<Rightarrow> JArr [] | Some v \<Rightarrow> v)) (base @ al) = Inr ex"
      "sort_slots (unique_slots (base @ prof @ ex)) = Inr generated"
      "flag \<longrightarrow> validate_required_slots_projection dp generated = Inr () \<and> validate_recovery_projection bundle generated auths = Inr ()"
proof -
  obtain nm base owners a0 al prof auths' dp ex gen where x: "read_base_slots descriptor = Inr (base, owners, a0)"
      "read_component_slots bundle profile owners a0 = Inr (al, prof, auths')"
      "map_of bundle (u ''deliveryProfile'') = Some (JObj dp)"
      "read_explicit_slots (Some (case map_of dp (u ''explicitlyRequiredOperationalSlots'') of None \<Rightarrow> JArr [] | Some v \<Rightarrow> v)) (base @ al) = Inr ex"
      "sort_slots (unique_slots (base @ prof @ ex)) = Inr gen"
      "(if flag then bindE (validate_required_slots_projection dp gen) (\<lambda>_. bindE (validate_recovery_projection bundle gen auths') (\<lambda>_. Inr (gen, auths')))
        else Inr (gen, auths')) = Inr (generated, auths)"
    using assms unfolding compute_required_slots_def Let_def checked_eq_Inr bindE_eq_Inr mapping_value_iff split_paired_Ex prod.case
    by (elim exE conjE) (rule that)
  have "gen = generated" "auths' = auths" using x(6) by (auto split: if_splits)
  with x that [of base owners a0 al prof dp ex] show thesis by (cases flag) auto
qed

lemma compute_result:
  assumes "compute_required_slots profile bundle descriptor flag = Inr (generated, auths)"
  shows "set generated = slot_of ` required_items profile bundle descriptor \<and> distinct generated \<and> list_all slot_ok generated \<and>
    sorted (map slot_key generated) \<and> set BASE_REQUIRED_SLOT_TYPES \<subseteq> slot_component_type ` set generated \<and>
    u ''merge-broker'' \<notin> slot_component_type ` set generated \<and>
    set generated \<subseteq> dom auths \<and> ran auths \<subseteq> Collect authority_ok \<and>
    distinct (concat (map base_identities (items descriptor ''fixedBaseSlots'')) @
      concat (map component_identities (items bundle ''components'')))"
proof -
  let ?bv = "items descriptor ''fixedBaseSlots''" and ?cv = "items bundle ''components''"
  obtain base owners a0 al prof dp ex where x: "read_base_slots descriptor = Inr (base, owners, a0)"
      "read_component_slots bundle profile owners a0 = Inr (al, prof, auths)"
      "map_of bundle (u ''deliveryProfile'') = Some (JObj dp)"
      "read_explicit_slots (Some (case map_of dp (u ''explicitlyRequiredOperationalSlots'') of None \<Rightarrow> JArr [] | Some v \<Rightarrow> v)) (base @ al) = Inr ex"
      "sort_slots (unique_slots (base @ prof @ ex)) = Inr generated"
    using compute_steps [OF assms] by metis
  have b: "base_loop 0 ?bv [] Map.empty Map.empty = Inr (base, owners, a0)"
      "set BASE_REQUIRED_SLOT_TYPES = slot_component_type ` set base"
    using x(1) unfolding read_base_slots_def bindE_eq_Inr Let_def checked_eq_Inr split_paired_Ex prod.case
    by (auto simp: filter_empty_conv)
  note B = base_loop_result [OF b(1), simplified]
  have c: "component_loop profile 0 ?cv [] [] owners a0 = Inr (al, prof, auths)"
    using x(2) by (auto simp: read_component_slots_def)
  note C = component_loop_result [OF c, simplified]
  let ?ev = "items dp ''explicitlyRequiredOperationalSlots''"
  have e: "explicit_loop (base @ al) 0 ?ev [] = Inr ex"
    using x(4) by (auto simp: read_explicit_slots_def items_def split: option.splits)
  note E = explicit_loop_result [OF e, simplified]
  have mb: "u ''merge-broker'' \<notin> slot_component_type ` set base"
    unfolding b(2) [symmetric] by (simp add: BASE_REQUIRED_SLOT_TYPES_def)
  have ok: "list_all slot_ok (unique_slots (base @ prof @ ex))"
  proof -
    have "slot_ok s" if "s \<in> set base \<union> set al" for s using that B C by (auto simp: list_all_iff)
    moreover have "set (base @ prof @ ex) \<subseteq> set base \<union> set al" using C E by auto
    ultimately show ?thesis using unique_slots_props [of "base @ prof @ ex"] unfolding list_all_iff by blast
  qed
  have g: "generated = sort_key slot_key (unique_slots (base @ prof @ ex))"
    using x(5) sort_slots_ok [OF ok] by simp
  have parts: "base = map slot_of ?bv" "al = map slot_of ?cv" "prof = map slot_of (filter (\<lambda>v. profile \<in> profiles_of v) ?cv)"
      "ex = map slot_of ?ev" "slot_of ` set ?ev \<subseteq> set base \<union> set al"
    using B C E by argo+
  have "set generated = set base \<union> set prof \<union> set ex" using unique_slots_props [of "base @ prof @ ex"] by (simp add: g Un_assoc)
  also have "\<dots> = slot_of ` required_items profile bundle descriptor"
    by (simp add: parts(1,3,4) required_items_def x(3) image_Un)
  finally have set: "set generated = slot_of ` required_items profile bundle descriptor" .
  have sub: "set generated \<subseteq> slot_of ` (set ?bv \<union> set ?cv)"
    using parts unfolding set required_items_def x(3) by (auto simp: image_Un)
  have "dom auths = slot_of ` (set ?bv \<union> set ?cv)" using B C by (simp add: image_Un)
  with sub have "set generated \<subseteq> dom auths" by simp
  moreover have "set BASE_REQUIRED_SLOT_TYPES \<subseteq> slot_component_type ` set generated"
    using B b(2) unfolding set required_items_def by auto
  moreover have "u ''merge-broker'' \<notin> slot_component_type ` slot_of ` (set ?bv \<union> set ?cv)" using mb B C by auto
  then have "u ''merge-broker'' \<notin> slot_component_type ` set generated" using sub by (meson image_mono subsetD)
  moreover have "distinct generated" "sorted (map slot_key generated)" "list_all slot_ok generated"
    using ok unique_slots_props [of "base @ prof @ ex"] by (simp_all add: g list_all_iff)
  moreover have "ran auths \<subseteq> Collect authority_ok" using B C by simp
  moreover have "distinct (concat (map base_identities ?bv) @ concat (map component_identities ?cv))" using B C by auto
  ultimately show ?thesis using set by blast
qed

section \<open>The signed projections\<close>

lemma slot_dict_keys: "fst ` set (slot_as_dict s) = {u ''componentType'', u ''componentPrincipal'', u ''nodeId''}"
  by (simp add: slot_as_dict_def keys_dict_of)

lemma recovery_dict_eq:
  "render_recovery s a = dict_of [(u ''componentType'', JStr (slot_component_type s)),
     (u ''componentPrincipal'', JStr (slot_component_principal s)), (u ''nodeId'', JStr (slot_node_id s)),
     (u ''verificationMethod'', JStr (aut_verification_method a)), (u ''expectedDigest'', JStr (aut_expected_digest a))]"
  by (simp add: render_recovery_def slot_as_dict_def)

lemma slot_dict_lookup:
  "map_of (slot_as_dict s) (u ''componentType'') = Some (JStr (slot_component_type s))"
  "map_of (slot_as_dict s) (u ''componentPrincipal'') = Some (JStr (slot_component_principal s))"
  "map_of (slot_as_dict s) (u ''nodeId'') = Some (JStr (slot_node_id s))"
  by (simp_all add: slot_as_dict_def map_of_dict_of)

lemma slot_as_dict_inj: "inj slot_as_dict"
proof (rule injI)
  fix s t
  assume "slot_as_dict s = slot_as_dict t"
  then show "s = t" using slot_dict_lookup [of s] slot_dict_lookup [of t] by simp
qed

lemma slot_dict_exact:
  assumes "dict_wf d"
  shows "fst ` set d = {u ''componentType'', u ''componentPrincipal'', u ''nodeId''} \<and> slot_from_mapping d label = Inr s
    \<longleftrightarrow> slot_ok s \<and> d = slot_as_dict s"
proof
  assume l: "fst ` set d = {u ''componentType'', u ''componentPrincipal'', u ''nodeId''} \<and> slot_from_mapping d label = Inr s"
  then have "d = slot_as_dict s"
    by (intro dict_eq_on_fields [of _ _ "[''componentType'', ''componentPrincipal'', ''nodeId'']"])
      (use assms in \<open>simp_all add: slot_from_mapping_iff slot_as_dict_def keys_dict_of map_of_dict_of\<close>)
  with l show "slot_ok s \<and> d = slot_as_dict s" by (simp add: slot_from_mapping_iff)
qed (simp add: slot_from_mapping_iff slot_as_dict_def keys_dict_of map_of_dict_of)

lemma recovery_dict_exact:
  assumes "dict_wf d"
  shows "fst ` set d = {u ''componentType'', u ''componentPrincipal'', u ''nodeId'', u ''verificationMethod'', u ''expectedDigest''} \<and>
    slot_from_mapping d label = Inr s \<and> read_recovery_authority d label = Inr a
    \<longleftrightarrow> slot_ok s \<and> authority_ok a \<and> d = render_recovery s a" (is "?L \<longleftrightarrow> ?R")
proof
  assume l: ?L
  then have "d = render_recovery s a"
    by (intro dict_eq_on_fields [of _ _ "[''componentType'', ''componentPrincipal'', ''nodeId'', ''verificationMethod'', ''expectedDigest'']"])
      (use assms in \<open>simp_all add: slot_from_mapping_iff read_recovery_authority_iff recovery_dict_eq keys_dict_of map_of_dict_of\<close>)
  with l show ?R by (simp add: slot_from_mapping_iff read_recovery_authority_iff)
qed (simp add: slot_from_mapping_iff read_recovery_authority_iff recovery_dict_eq keys_dict_of map_of_dict_of)

lemma exact_mapping_iff:
  "dicts_wf v \<Longrightarrow> slot_from_exact_mapping v label = Inr s \<longleftrightarrow> slot_ok s \<and> v = JObj (slot_as_dict s)"
  using slot_dict_exact by (cases v) (auto simp: slot_from_exact_mapping_def)

lemma required_projection_iff:
  assumes "list_all dicts_wf vs" and "list_all slot_ok generated"
  shows "mapE (\<lambda>(i, v). slot_from_exact_mapping v (required_label i)) (enumerate n vs) = Inr generated
    \<longleftrightarrow> vs = map (\<lambda>s. JObj (slot_as_dict s)) generated"
  using assms
proof (induction vs arbitrary: n generated)
  case Nil
  then show ?case by auto
next
  case (Cons v vs)
  then show ?case by (cases generated) (auto simp: exact_mapping_iff)
qed

lemma recovery_loop_step:
  assumes "dicts_wf v"
  shows "recovery_loop n (v # vs) parsed = Inr res \<longleftrightarrow> (\<exists>s a. slot_ok s \<and> authority_ok a \<and> v = JObj (render_recovery s a) \<and>
     s \<notin> set (map fst parsed) \<and> recovery_loop (Suc n) vs (parsed @ [(s, a)]) = Inr res)"
proof -
  have "recovery_loop n (v # vs) parsed = Inr res \<longleftrightarrow> (\<exists>d s a. v = JObj d \<and>
      (fst ` set d = {u ''componentType'', u ''componentPrincipal'', u ''nodeId'', u ''verificationMethod'', u ''expectedDigest''} \<and>
       slot_from_mapping d (recovery_label n) = Inr s \<and> read_recovery_authority d (recovery_label n) = Inr a) \<and>
      s \<notin> set (map fst parsed) \<and> recovery_loop (Suc n) vs (parsed @ [(s, a)]) = Inr res)"
    unfolding recovery_loop.simps bindE_eq_Inr checked_eq_Inr mapping_value_iff option.inject all_ok.simps by blast
  also have "\<dots> \<longleftrightarrow> (\<exists>d s a. v = JObj d \<and> (slot_ok s \<and> authority_ok a \<and> d = render_recovery s a) \<and>
      s \<notin> set (map fst parsed) \<and> recovery_loop (Suc n) vs (parsed @ [(s, a)]) = Inr res)"
  proof (rule ex_cong1, rule ex_cong1, rule ex_cong1, rule conj_cong [OF refl], rule conj_cong [OF _ refl])
    fix d s a
    assume "v = JObj d"
    then have "dict_wf d" using assms by simp
    then show "(fst ` set d = {u ''componentType'', u ''componentPrincipal'', u ''nodeId'', u ''verificationMethod'', u ''expectedDigest''} \<and>
       slot_from_mapping d (recovery_label n) = Inr s \<and> read_recovery_authority d (recovery_label n) = Inr a) \<longleftrightarrow>
       (slot_ok s \<and> authority_ok a \<and> d = render_recovery s a)" by (rule recovery_dict_exact)
  qed
  also have "\<dots> \<longleftrightarrow> (\<exists>s a. slot_ok s \<and> authority_ok a \<and> v = JObj (render_recovery s a) \<and>
     s \<notin> set (map fst parsed) \<and> recovery_loop (Suc n) vs (parsed @ [(s, a)]) = Inr res)" by blast
  finally show ?thesis .
qed

lemma recovery_loop_extends: "recovery_loop n vs parsed = Inr res \<Longrightarrow> \<exists>ps. res = parsed @ ps"
  by (induction n vs parsed rule: recovery_loop.induct) fastforce+

lemma render_recovery_lookup:
  "map_of (render_recovery s a) (u ''componentType'') = Some (JStr (slot_component_type s))"
  "map_of (render_recovery s a) (u ''componentPrincipal'') = Some (JStr (slot_component_principal s))"
  "map_of (render_recovery s a) (u ''nodeId'') = Some (JStr (slot_node_id s))"
  "map_of (render_recovery s a) (u ''verificationMethod'') = Some (JStr (aut_verification_method a))"
  "map_of (render_recovery s a) (u ''expectedDigest'') = Some (JStr (aut_expected_digest a))"
  by (simp_all add: recovery_dict_eq map_of_dict_of)

lemma render_recovery_inj: "render_recovery s a = render_recovery t b \<Longrightarrow> s = t \<and> a = b"
  using render_recovery_lookup [of s a] render_recovery_lookup [of t b] by simp

lemma recovery_loop_iff:
  assumes "list_all dicts_wf vs" and "list_all (\<lambda>(s, a). slot_ok s \<and> authority_ok a) ps"
    and "distinct (map fst (parsed @ ps))"
  shows "recovery_loop n vs parsed = Inr (parsed @ ps) \<longleftrightarrow> vs = map (\<lambda>(s, a). JObj (render_recovery s a)) ps"
  using assms
proof (induction vs arbitrary: n parsed ps)
  case Nil
  then show ?case by auto
next
  case (Cons v vs)
  have step: "recovery_loop n (v # vs) parsed = Inr (parsed @ ps) \<longleftrightarrow> (\<exists>s a. slot_ok s \<and> authority_ok a \<and> v = JObj (render_recovery s a) \<and>
     s \<notin> set (map fst parsed) \<and> recovery_loop (Suc n) vs (parsed @ [(s, a)]) = Inr (parsed @ ps))"
    by (rule recovery_loop_step) (use Cons.prems(1) in simp)
  show ?case
  proof (cases ps)
    case Nil
    have "recovery_loop (Suc n) vs (parsed @ [(s, a)]) \<noteq> Inr parsed" for s a
      using recovery_loop_extends [of "Suc n" vs "parsed @ [(s, a)]" parsed] by auto
    with step Nil show ?thesis by auto
  next
    case (Cons p qs)
    obtain s a where p: "p = (s, a)" by (cases p)
    have IH: "recovery_loop (Suc n) vs (parsed @ [(s, a)]) = Inr ((parsed @ [(s, a)]) @ qs) \<longleftrightarrow>
        vs = map (\<lambda>(s, a). JObj (render_recovery s a)) qs"
      by (rule Cons.IH) (use Cons.prems Cons p in simp_all)
    have "(t, b) = (s, a)" if "recovery_loop (Suc n) vs (parsed @ [(t, b)]) = Inr (parsed @ ps)" for t b
      using recovery_loop_extends [OF that] Cons p by auto
    with step IH Cons p Cons.prems show ?thesis by (auto dest: render_recovery_inj)
  qed
qed

lemma dicts_wf_lookup: "dicts_wf (JObj d) \<Longrightarrow> map_of d k = Some v \<Longrightarrow> dicts_wf v"
  by (auto simp: list_all_iff dest!: map_of_SomeD)

lemma validate_required_iff:
  assumes "dicts_wf (JObj dp)" and "list_all slot_ok generated"
  shows "validate_required_slots_projection dp generated = Inr () \<longleftrightarrow>
    map_of dp (u ''requiredSlots'') = Some (JArr (map (\<lambda>s. JObj (slot_as_dict s)) generated))"
proof (cases "map_of dp (u ''requiredSlots'')")
  case (Some v)
  have "list_all dicts_wf vs" if "v = JArr vs" for vs using dicts_wf_lookup [OF assms(1) Some] that by simp
  with Some assms(2) show ?thesis
    by (auto simp: validate_required_slots_projection_def required_projection_iff)
qed (simp add: validate_required_slots_projection_def)

lemma expected_authorities:
  assumes "set generated \<subseteq> dom auths"
  shows "mapE (\<lambda>slot. bindE (authority_for slot auths) (\<lambda>a. Inr (f slot a))) generated = Inr (map (\<lambda>s. f s (the (auths s))) generated)"
  by (rule mapE_map_Inr) (use assms in \<open>force simp: authority_for_def\<close>)

lemma validate_recovery_iff:
  assumes "dicts_wf (JObj bundle)" and g: "list_all slot_ok generated" "distinct generated" "set generated \<subseteq> dom auths"
    "ran auths \<subseteq> Collect authority_ok"
  shows "validate_recovery_projection bundle generated auths = Inr () \<longleftrightarrow> (\<exists>rp. map_of bundle (u ''recoveryPolicy'') = Some (JObj rp) \<and>
    map_of rp (u ''requiredComponents'') = Some (JArr (map (\<lambda>s. JObj (render_recovery s (the (auths s)))) generated)))"
proof -
  let ?ps = "map (\<lambda>s. (s, the (auths s))) generated"
  have ok: "list_all (\<lambda>(s, a). slot_ok s \<and> authority_ok a) ?ps" "distinct (map fst ([] @ ?ps))"
    using g by (force simp: list_all_iff ran_def subset_iff dom_def comp_def)+
  have loop: "recovery_loop 0 vs [] = Inr ?ps \<longleftrightarrow> vs = map (\<lambda>s. JObj (render_recovery s (the (auths s)))) generated"
    if "list_all dicts_wf vs" for vs
    using recovery_loop_iff [OF that ok, of 0] by (simp add: comp_def)
  have wf: "list_all dicts_wf vs" if "map_of bundle (u ''recoveryPolicy'') = Some (JObj rp)"
      "map_of rp (u ''requiredComponents'') = Some (JArr vs)" for rp vs
    using dicts_wf_lookup [OF dicts_wf_lookup [OF assms(1) that(1)] that(2)] by simp
  show ?thesis using loop wf
    by (auto simp: validate_recovery_projection_def expected_authorities [OF g(3), of Pair] split: option.splits)
qed

lemma compute_flag:
  "compute_required_slots p bundle d True = Inr (g, a) \<longleftrightarrow> compute_required_slots p bundle d False = Inr (g, a) \<and>
     (\<exists>dp. map_of bundle (u ''deliveryProfile'') = Some (JObj dp) \<and> validate_required_slots_projection dp g = Inr () \<and>
        validate_recovery_projection bundle g a = Inr ())"
  unfolding compute_required_slots_def Let_def bindE_eq_Inr checked_eq_Inr split_paired_Ex prod.case if_True if_False
    mapping_value_iff sum.inject prod.inject
  by auto

end
