(* ===== verification/SlotExact.thy ===== *)
theory SlotExact
  imports SlotFacts
begin

text \<open>
  When the projection succeeds: the conditions on the items of the descriptor and of the bundle, each loop
  being decided by them exactly.
\<close>

definition is_text :: "json \<Rightarrow> string \<Rightarrow> bool" where
  "is_text v k \<longleftrightarrow> (case v of JObj d \<Rightarrow> (case map_of d (u k) of Some (JStr s) \<Rightarrow> stable_text s | _ \<Rightarrow> False) | _ \<Rightarrow> False)"

definition slot_item_ok :: "json \<Rightarrow> bool" where
  "slot_item_ok v \<longleftrightarrow> is_text v ''componentType'' \<and> is_text v ''componentPrincipal'' \<and> is_text v ''nodeId''"

definition proof_item_ok :: "json \<Rightarrow> bool" where
  "proof_item_ok v \<longleftrightarrow> is_text v ''verificationMethod'' \<and> is_text v ''expectedDigest'' \<and> lower_sha256 (text_at v ''expectedDigest'')"

definition base_item_ok :: "json \<Rightarrow> bool" where
  "base_item_ok v \<longleftrightarrow> slot_item_ok v \<and> is_text v ''readyReporterPrincipal'' \<and> is_text v ''probeNkeySelector'' \<and> proof_item_ok v"

definition component_item_ok :: "json \<Rightarrow> bool" where
  "component_item_ok v \<longleftrightarrow> slot_item_ok v \<and> text_at v ''componentType'' \<noteq> u ''merge-broker'' \<and> is_text v ''nkeySelector'' \<and>
     proof_item_ok v \<and> (case v of JObj d \<Rightarrow> (\<exists>names. map_of d (u ''requiredForProfiles'') = Some (JArr (map JStr names)) \<and>
       set names \<subseteq> set DELIVERY_PROFILE_SET \<and> distinct names) | _ \<Rightarrow> False)"

definition explicit_item_ok :: "json \<Rightarrow> bool" where
  "explicit_item_ok v \<longleftrightarrow> slot_item_ok v \<and> text_at v ''componentType'' \<noteq> u ''merge-broker'' \<and>
     (case v of JObj d \<Rightarrow> fst ` set d = {u ''componentType'', u ''componentPrincipal'', u ''nodeId''} | _ \<Rightarrow> False)"

lemma is_text_iff: "is_text (JObj d) k \<longleftrightarrow> map_of d (u k) = Some (JStr (text_at (JObj d) k)) \<and> stable_text (text_at (JObj d) k)"
  by (auto simp: is_text_def text_at_def split: option.splits json.splits)

lemma is_text_value: "is_text (JObj d) k \<longleftrightarrow> (\<exists>s. map_of d (u k) = Some (JStr s) \<and> stable_text s)"
  by (auto simp: is_text_def split: option.splits json.splits)

lemma slot_item_iff: "slot_from_mapping d label = Inr s \<longleftrightarrow> slot_item_ok (JObj d) \<and> s = slot_of (JObj d)"
  by (cases s) (auto simp: slot_from_mapping_iff slot_item_ok_def is_text_iff slot_of_def slot_ok_def text_at_def)

lemma proof_item_iff: "read_recovery_authority d label = Inr a \<longleftrightarrow> proof_item_ok (JObj d) \<and>
    a = \<lparr> aut_verification_method = text_at (JObj d) ''verificationMethod'', aut_expected_digest = text_at (JObj d) ''expectedDigest'' \<rparr>"
  by (cases a) (auto simp: read_recovery_authority_iff proof_item_ok_def is_text_iff authority_ok_def text_at_def lower_sha256_stable)

lemma slot_of_fields [simp]:
  "slot_component_type (slot_of v) = text_at v ''componentType''"
  "slot_component_principal (slot_of v) = text_at v ''componentPrincipal''"
  "slot_node_id (slot_of v) = text_at v ''nodeId''"
  by (simp_all add: slot_of_def)

lemma claim_free: "v \<notin> dom owners \<Longrightarrow> \<exists>o'. claim_unique_identity owners v t w = Inr o' \<and> dom o' = insert v (dom owners)"
  by (auto simp: claim_unique_identity_def domIff)

lemma slot_item_object: "slot_item_ok v \<Longrightarrow> \<exists>d. v = JObj d"
  by (cases v) (auto simp: slot_item_ok_def is_text_def)

lemma base_loop_succeeds:
  assumes "list_all base_item_ok vs" and "distinct (concat (map base_identities vs))"
    and "set (concat (map base_identities vs)) \<inter> dom owners = {}"
  shows "\<exists>x. base_loop i vs slots owners auths = Inr x"
  using assms
proof (induction vs arbitrary: i slots owners auths)
  case (Cons v vs)
  obtain d where d: "v = JObj d" using slot_item_object [of v] Cons.prems(1) by (auto simp: base_item_ok_def)
  let ?p = "text_at v ''componentPrincipal''" and ?r = "text_at v ''readyReporterPrincipal''" and ?k = "text_at v ''probeNkeySelector''"
  have ids: "base_identities v = [?p, ?r, ?k]" by (simp add: base_identities_def)
  have f: "?p \<notin> dom owners" "?r \<notin> dom owners" "?k \<notin> dom owners" "?r \<noteq> ?p" "?k \<noteq> ?p" "?k \<noteq> ?r"
    using Cons.prems(2,3) ids by (auto simp: disjoint_iff)
  obtain o1 where o1: "claim_unique_identity owners ?p ''Principal'' (base_label i @ ''.componentPrincipal'') = Inr o1" "dom o1 = insert ?p (dom owners)"
    using claim_free [OF f(1)] by blast
  have "?r \<notin> dom o1" using f o1(2) by simp
  then obtain o2 where o2: "claim_unique_identity o1 ?r ''Principal'' (base_label i @ ''.readyReporterPrincipal'') = Inr o2" "dom o2 = insert ?r (dom o1)"
    using claim_free by blast
  have "?k \<notin> dom o2" using f o1(2) o2(2) by simp
  then obtain o3 where o3: "claim_unique_identity o2 ?k ''nkeySelector'' (base_label i @ ''.probeNkeySelector'') = Inr o3" "dom o3 = insert ?k (dom o2)"
    using claim_free by blast
  have "set (concat (map base_identities vs)) \<inter> dom o3 = {}"
    using Cons.prems(2,3) ids o1(2) o2(2) o3(2) by auto
  then have ih: "\<exists>x. base_loop (Suc i) vs s o3 a = Inr x" for s a using Cons by simp
  have t: "slot_from_mapping d (base_label i) = Inr (slot_of v)" "\<exists>a. read_recovery_authority d (base_label i) = Inr a"
      "map_of d (u ''readyReporterPrincipal'') = Some (JStr ?r)" "stable_text ?r"
      "map_of d (u ''probeNkeySelector'') = Some (JStr ?k)" "stable_text ?k"
    using Cons.prems(1) d by (simp_all add: base_item_ok_def slot_item_iff proof_item_iff is_text_iff)
  then obtain a where a: "read_recovery_authority d (base_label i) = Inr a" by blast
  have sr: "stable_text_value (Some (JStr ?r)) l = Inr ?r" "stable_text_value (Some (JStr ?k)) l = Inr ?k" for l using t(4,6) by simp_all
  show ?case using ih [of "slots @ [slot_of v]" "auths(slot_of v \<mapsto> a)"]
    by (simp add: d mapping_value_def t(1) [unfolded d] t(3,5) [unfolded d] sr [unfolded d] a o1(1) [unfolded d] o2(1) [unfolded d] o3(1) [unfolded d])
qed simp

lemma base_loop_items:
  assumes "base_loop i vs slots owners auths = Inr x"
  shows "list_all base_item_ok vs"
  using assms
proof (induction vs arbitrary: i slots owners auths)
  case (Cons v vs)
  obtain d s rep nk a o3 where y: "v = JObj d" "slot_from_mapping d (base_label i) = Inr s"
      "map_of d (u ''readyReporterPrincipal'') = Some (JStr rep)" "stable_text rep"
      "map_of d (u ''probeNkeySelector'') = Some (JStr nk)" "stable_text nk" "read_recovery_authority d (base_label i) = Inr a"
      "base_loop (Suc i) vs (slots @ [s]) o3 (auths(s \<mapsto> a)) = Inr x"
    using Cons.prems unfolding base_loop.simps bindE_eq_Inr mapping_value_iff stable_text_value_iff option.inject
    by (elim exE conjE) (rule that)
  then have "base_item_ok v" by (auto simp: base_item_ok_def slot_item_iff proof_item_iff is_text_value)
  with Cons.IH [OF y(8)] show ?case by simp
qed simp

lemma profile_names_subset:
  assumes "mapE (\<lambda>(j, p). validate_profile_name p (lab j)) (enumerate n pvs) = Inr names"
  shows "set names \<subseteq> set DELIVERY_PROFILE_SET"
  using assms
proof (induction pvs arbitrary: n names)
  case (Cons v vs)
  then obtain y ys where "names = y # ys" "y \<in> set DELIVERY_PROFILE_SET"
      "mapE (\<lambda>(j, p). validate_profile_name p (lab j)) (enumerate (Suc n) vs) = Inr ys"
    by (auto simp: profile_name_iff)
  with Cons.IH show ?case by simp
qed simp

lemma profile_names_ok:
  assumes "set names \<subseteq> set DELIVERY_PROFILE_SET"
  shows "mapE (\<lambda>(j, p). validate_profile_name p (lab j)) (enumerate n (map JStr names)) = Inr names"
  using assms
proof (induction names arbitrary: n)
  case (Cons x xs)
  have "validate_profile_name (JStr x) (lab n) = Inr x" using Cons.prems by (simp add: profile_name_iff)
  with Cons show ?case by simp
qed simp

lemma component_loop_succeeds:
  assumes "list_all component_item_ok vs" and "distinct (concat (map component_identities vs))"
    and "set (concat (map component_identities vs)) \<inter> dom owners = {}"
  shows "\<exists>x. component_loop profile i vs al ps owners auths = Inr x"
  using assms
proof (induction vs arbitrary: i al ps owners auths)
  case (Cons v vs)
  obtain d where d: "v = JObj d" using slot_item_object [of v] Cons.prems(1) by (auto simp: component_item_ok_def)
  let ?p = "text_at v ''componentPrincipal''" and ?k = "text_at v ''nkeySelector''"
  have ids: "component_identities v = [?p, ?k]" by (simp add: component_identities_def)
  have f: "?p \<notin> dom owners" "?k \<notin> dom owners" "?k \<noteq> ?p"
    using Cons.prems(2,3) ids by (auto simp: disjoint_iff)
  obtain o1 where o1: "claim_unique_identity owners ?p ''Principal'' (comp_label i @ ''.componentPrincipal'') = Inr o1" "dom o1 = insert ?p (dom owners)"
    using claim_free [OF f(1)] by blast
  have "?k \<notin> dom o1" using f o1(2) by simp
  then obtain o2 where o2: "claim_unique_identity o1 ?k ''nkeySelector'' (comp_label i @ ''.nkeySelector'') = Inr o2" "dom o2 = insert ?k (dom o1)"
    using claim_free by blast
  have "set (concat (map component_identities vs)) \<inter> dom o2 = {}" using Cons.prems(2,3) ids o1(2) o2(2) by auto
  then have ih: "\<exists>x. component_loop profile (Suc i) vs s t o2 a = Inr x" for s t a using Cons by simp
  have t: "slot_from_mapping d (comp_label i) = Inr (slot_of v)" "\<exists>a. read_recovery_authority d (comp_label i) = Inr a"
      "map_of d (u ''nkeySelector'') = Some (JStr ?k)" "stable_text ?k" "text_at v ''componentType'' \<noteq> u ''merge-broker''"
    using Cons.prems(1) d by (simp_all add: component_item_ok_def slot_item_iff proof_item_iff is_text_iff)
  obtain names where n: "map_of d (u ''requiredForProfiles'') = Some (JArr (map JStr names))"
      "set names \<subseteq> set DELIVERY_PROFILE_SET" "distinct names"
    using Cons.prems(1) d by (auto simp: component_item_ok_def)
  obtain a where a: "read_recovery_authority d (comp_label i) = Inr a" using t(2) by blast
  have sk: "stable_text_value (Some (JStr ?k)) l = Inr ?k" for l using t(4) by simp
  show ?case using ih [of "al @ [slot_of v]" "if profile \<in> set names then ps @ [slot_of v] else ps" "auths(slot_of v \<mapsto> a)", unfolded d] n(3) t(5)
    by (simp split del: if_split add: d mapping_value_def t(1) [unfolded d] t(3) [unfolded d] sk [unfolded d] a o1(1) [unfolded d] o2(1) [unfolded d]
        n(1) sequence_value_def profile_names_ok [OF n(2)] checked_Cons)
qed simp

lemma component_loop_items:
  assumes "component_loop profile i vs al ps owners auths = Inr x"
  shows "list_all component_item_ok vs"
  using assms
proof (induction vs arbitrary: i al ps owners auths)
  case (Cons v vs)
  obtain d s nk a o1 o2 pvs names where x: "v = JObj d" "slot_from_mapping d (comp_label i) = Inr s"
      "slot_component_type s \<noteq> u ''merge-broker''" "map_of d (u ''nkeySelector'') = Some (JStr nk)" "stable_text nk"
      "read_recovery_authority d (comp_label i) = Inr a" "map_of d (u ''requiredForProfiles'') = Some (JArr pvs)"
      "mapE (\<lambda>(j, p). validate_profile_name p (profile_label (comp_label i) j)) (enumerate 0 pvs) = Inr names" "distinct names"
      "component_loop profile (Suc i) vs (al @ [s]) (if profile \<in> set names then ps @ [s] else ps) o2 (auths(s \<mapsto> a)) = Inr x"
    using Cons.prems unfolding component_loop.simps bindE_eq_Inr checked_eq_Inr all_ok.simps mapping_value_iff sequence_value_iff
      stable_text_value_iff option.inject
    by (elim exE conjE) (rule that)
  have pv: "pvs = map JStr names" by (rule profile_names [OF x(8)])
  have "set names \<subseteq> set DELIVERY_PROFILE_SET" by (rule profile_names_subset [OF x(8)])
  then have "component_item_ok v"
    using x pv by (auto simp: component_item_ok_def slot_item_iff proof_item_iff is_text_value)
  with Cons.IH [OF x(10)] show ?case by simp
qed simp

lemma explicit_loop_iff:
  "(\<exists>x. explicit_loop known i vs res = Inr x) \<longleftrightarrow> list_all explicit_item_ok vs \<and> slot_of ` set vs \<subseteq> set known \<and>
     distinct (map slot_of vs) \<and> slot_of ` set vs \<inter> set res = {}"
proof (induction vs arbitrary: i res)
  case (Cons v vs)
  show ?case
  proof (cases "explicit_item_ok v \<and> slot_of v \<in> set known \<and> slot_of v \<notin> set res")
    case True
    then obtain d where d: "v = JObj d" using slot_item_object [of v] by (auto simp: explicit_item_ok_def)
    have "explicit_loop known i (v # vs) res = explicit_loop known (Suc i) vs (res @ [slot_of v])"
      using True d slot_item_iff [of d "explicit_label i" "slot_of v"]
      by (simp add: explicit_item_ok_def mapping_value_def checked_all_ok)
    with True Cons.IH [of "Suc i" "res @ [slot_of v]"] show ?thesis by auto
  next
    case False
    have "\<not> (\<exists>x. explicit_loop known i (v # vs) res = Inr x)"
      using False by (auto simp: explicit_item_ok_def slot_item_iff split: json.splits)
    with False show ?thesis by auto
  qed
qed simp

section \<open>The whole projection\<close>

definition slots_valid :: "ustr \<Rightarrow> dict \<Rightarrow> dict \<Rightarrow> bool" where
  "slots_valid profile bundle descriptor \<longleftrightarrow> profile \<in> set DELIVERY_PROFILE_SET \<and>
     (\<exists>bv cv dp ev. map_of descriptor (u ''fixedBaseSlots'') = Some (JArr bv) \<and> map_of bundle (u ''components'') = Some (JArr cv) \<and>
        map_of bundle (u ''deliveryProfile'') = Some (JObj dp) \<and>
        (case map_of dp (u ''explicitlyRequiredOperationalSlots'') of None \<Rightarrow> JArr [] | Some v \<Rightarrow> v) = JArr ev \<and>
        list_all base_item_ok bv \<and> list_all component_item_ok cv \<and> list_all explicit_item_ok ev \<and>
        (\<lambda>v. text_at v ''componentType'') ` set bv = set BASE_REQUIRED_SLOT_TYPES \<and>
        distinct (concat (map base_identities bv) @ concat (map component_identities cv)) \<and>
        slot_of ` set ev \<subseteq> slot_of ` (set bv \<union> set cv) \<and> distinct (map slot_of ev))"

lemma principals_distinct: "distinct (concat (map base_identities vs)) \<Longrightarrow> distinct (map slot_of vs)"
  and component_principals_distinct: "distinct (concat (map component_identities vs)) \<Longrightarrow> distinct (map slot_of vs)"
  by (induction vs) (fastforce simp: base_identities_def component_identities_def slot_of_def)+

lemma known_distinct:
  assumes "distinct (concat (map base_identities bv) @ concat (map component_identities cv))"
  shows "distinct (map slot_of bv @ map slot_of cv)"
proof -
  have "slot_component_principal ` slot_of ` set bv \<subseteq> set (concat (map base_identities bv))"
    "slot_component_principal ` slot_of ` set cv \<subseteq> set (concat (map component_identities cv))"
    by (auto simp: base_identities_def component_identities_def)
  moreover have "set (concat (map base_identities bv)) \<inter> set (concat (map component_identities cv)) = {}" using assms by simp
  ultimately have "slot_of ` set bv \<inter> slot_of ` set cv = {}" by (force simp: disjoint_iff)
  then show ?thesis using assms principals_distinct [of bv] component_principals_distinct [of cv] by simp
qed

lemma compute_exact: "(\<exists>x. compute_required_slots profile bundle descriptor False = Inr x) \<longleftrightarrow> slots_valid profile bundle descriptor"
proof
  assume "slots_valid profile bundle descriptor"
  then obtain bv cv dp ev where v: "profile \<in> set DELIVERY_PROFILE_SET"
      "map_of descriptor (u ''fixedBaseSlots'') = Some (JArr bv)" "map_of bundle (u ''components'') = Some (JArr cv)"
      "map_of bundle (u ''deliveryProfile'') = Some (JObj dp)"
      "(case map_of dp (u ''explicitlyRequiredOperationalSlots'') of None \<Rightarrow> JArr [] | Some v \<Rightarrow> v) = JArr ev"
      "list_all base_item_ok bv" "list_all component_item_ok cv" "list_all explicit_item_ok ev"
      "(\<lambda>v. text_at v ''componentType'') ` set bv = set BASE_REQUIRED_SLOT_TYPES"
      "distinct (concat (map base_identities bv) @ concat (map component_identities cv))"
      "slot_of ` set ev \<subseteq> slot_of ` (set bv \<union> set cv)" "distinct (map slot_of ev)"
    unfolding slots_valid_def by blast
  obtain base owners a0 where b: "base_loop 0 bv [] Map.empty Map.empty = Inr (base, owners, a0)"
    using base_loop_succeeds [OF v(6), of Map.empty 0 "[]" Map.empty] v(10) by auto
  have B: "base = map slot_of bv" "dom owners = set (concat (map base_identities bv))"
    using base_loop_result [OF b] by simp_all
  obtain al ps auths where c: "component_loop profile 0 cv [] [] owners a0 = Inr (al, ps, auths)"
    using component_loop_succeeds [OF v(7), of owners profile 0 "[]" "[]" a0] v(10) B(2) by (auto simp: Int_commute)
  have C: "al = map slot_of cv" "ps = map slot_of (filter (\<lambda>v. profile \<in> profiles_of v) cv)"
    using component_loop_result [OF c] by simp_all
  obtain ex where e: "explicit_loop (base @ al) 0 ev [] = Inr ex"
    using explicit_loop_iff [of "base @ al" 0 ev "[]"] v(8,11,12) B C by (auto simp: image_Un)
  have ok: "list_all slot_ok (unique_slots (base @ ps @ ex))"
  proof -
    have "list_all slot_ok base" "list_all slot_ok al" using base_loop_result [OF b] component_loop_result [OF c] B C by simp_all
    moreover have "set (base @ ps @ ex) \<subseteq> set base \<union> set al" using C explicit_loop_result [OF e] by auto
    ultimately show ?thesis using unique_slots_props [of "base @ ps @ ex"] unfolding list_all_iff by blast
  qed
  have types: "set (map slot_component_type base) = set BASE_REQUIRED_SLOT_TYPES" using v(9) B by (simp add: image_image)
  have rb: "read_base_slots descriptor = Inr (base, owners, a0)"
    using types by (simp add: read_base_slots_def v(2) sequence_value_def b Let_def checked_all_ok filter_empty_conv del: set_map)
  have rc: "read_component_slots bundle profile owners a0 = Inr (al, ps, auths)"
    by (simp add: read_component_slots_def v(3) sequence_value_def c)
  have re: "read_explicit_slots (Some (JArr ev)) (base @ al) = Inr ex"
    by (simp add: read_explicit_slots_def sequence_value_def e)
  have "card (set (base @ al)) = length (base @ al)"
    using known_distinct [OF v(10)] B(1) C(1) by (metis distinct_card)
  then have dup: "all_ok (reject_duplicate_slots (base @ al) l)" for l by (simp add: reject_duplicate_slots_def)
  have pn: "validate_profile_name (JStr profile) ''profile_name'' = Inr profile" using v(1) by (simp add: profile_name_iff)
  show "\<exists>x. compute_required_slots profile bundle descriptor False = Inr x"
    by (simp add: compute_required_slots_def pn rb rc Let_def checked_all_ok dup v(4) mapping_value_def v(5) re sort_slots_ok [OF ok])
next
  assume "\<exists>x. compute_required_slots profile bundle descriptor False = Inr x"
  then obtain g auths where x: "compute_required_slots profile bundle descriptor False = Inr (g, auths)" by auto
  obtain base owners a0 al prof dp ex where s: "read_base_slots descriptor = Inr (base, owners, a0)"
      "read_component_slots bundle profile owners a0 = Inr (al, prof, auths)"
      "map_of bundle (u ''deliveryProfile'') = Some (JObj dp)"
      "read_explicit_slots (Some (case map_of dp (u ''explicitlyRequiredOperationalSlots'') of None \<Rightarrow> JArr [] | Some v \<Rightarrow> v)) (base @ al) = Inr ex"
    using compute_steps [OF x] by metis
  have pn: "profile \<in> set DELIVERY_PROFILE_SET" using x by (auto simp: compute_required_slots_def profile_name_iff)
  obtain bv where b: "map_of descriptor (u ''fixedBaseSlots'') = Some (JArr bv)" "base_loop 0 bv [] Map.empty Map.empty = Inr (base, owners, a0)"
      "slot_component_type ` set base = set BASE_REQUIRED_SLOT_TYPES"
    using s(1) unfolding read_base_slots_def bindE_eq_Inr Let_def checked_eq_Inr split_paired_Ex prod.case
    by (fastforce simp: filter_empty_conv)
  obtain cv where c: "map_of bundle (u ''components'') = Some (JArr cv)" "component_loop profile 0 cv [] [] owners a0 = Inr (al, prof, auths)"
    using s(2) by (auto simp: read_component_slots_def)
  obtain ev where e: "(case map_of dp (u ''explicitlyRequiredOperationalSlots'') of None \<Rightarrow> JArr [] | Some v \<Rightarrow> v) = JArr ev"
      "explicit_loop (base @ al) 0 ev [] = Inr ex"
    using s(4) by (auto simp: read_explicit_slots_def)
  have parts: "base = map slot_of bv" "al = map slot_of cv"
    using base_loop_result [OF b(2)] component_loop_result [OF c(2)] by simp_all
  have E: "list_all explicit_item_ok ev" "slot_of ` set ev \<subseteq> set (base @ al)" "distinct (map slot_of ev)"
    using explicit_loop_iff [of "base @ al" 0 ev "[]"] e(2) by auto
  have "distinct (concat (map base_identities bv) @ concat (map component_identities cv))"
    using compute_result [OF x] b(1) c(1) by simp
  moreover have "(\<lambda>v. text_at v ''componentType'') ` set bv = set BASE_REQUIRED_SLOT_TYPES" using b(3) parts by (simp add: image_image)
  moreover have "slot_of ` set ev \<subseteq> slot_of ` (set bv \<union> set cv)" using E(2) parts by (simp add: image_Un)
  ultimately show "slots_valid profile bundle descriptor"
    unfolding slots_valid_def
    using pn b(1) c(1) s(3) e(1) E(1,3) base_loop_items [OF b(2)] component_loop_items [OF c(2)] by blast
qed

section \<open>Signed projections\<close>

lemma signed_exact:
  assumes "dicts_wf (JObj bundle)"
  shows "required_slot_set profile bundle descriptor = Inr slots \<longleftrightarrow>
    (\<exists>rs dp rp. required_slot_projection profile bundle descriptor = Inr (map slot_as_dict slots) \<and>
       required_recovery_projection profile bundle descriptor = Inr rs \<and>
       map_of bundle (u ''deliveryProfile'') = Some (JObj dp) \<and>
       map_of dp (u ''requiredSlots'') = Some (JArr (map (\<lambda>s. JObj (slot_as_dict s)) slots)) \<and>
       map_of bundle (u ''recoveryPolicy'') = Some (JObj rp) \<and> map_of rp (u ''requiredComponents'') = Some (JArr (map JObj rs)))"
    (is "?L \<longleftrightarrow> ?R")
proof -
  have inj: "g = slots" if "map slot_as_dict g = map slot_as_dict slots" for g
    using that by (rule map_injective) (rule slot_as_dict_inj)
  have rec: "required_recovery_projection profile bundle descriptor = Inr (map (\<lambda>s. render_recovery s (the (a s))) g)"
    if "compute_required_slots profile bundle descriptor False = Inr (g, a)" for g a
  proof -
    have "set g \<subseteq> dom a" using compute_result [OF that] by blast
    from expected_authorities [OF this, of render_recovery] that show ?thesis
      by (simp add: required_recovery_projection_def render_recovery_projection_def)
  qed
  have one: "?L \<longleftrightarrow> (\<exists>a. compute_required_slots profile bundle descriptor False = Inr (slots, a) \<and>
      (\<exists>dp. map_of bundle (u ''deliveryProfile'') = Some (JObj dp) \<and> validate_required_slots_projection dp slots = Inr () \<and>
        validate_recovery_projection bundle slots a = Inr ()))"
    by (auto simp: required_slot_set_def compute_flag)
  have val: "validate_required_slots_projection dp slots = Inr () \<longleftrightarrow>
        map_of dp (u ''requiredSlots'') = Some (JArr (map (\<lambda>s. JObj (slot_as_dict s)) slots))"
      "validate_recovery_projection bundle slots a = Inr () \<longleftrightarrow> (\<exists>rp. map_of bundle (u ''recoveryPolicy'') = Some (JObj rp) \<and>
        map_of rp (u ''requiredComponents'') = Some (JArr (map (\<lambda>s. JObj (render_recovery s (the (a s)))) slots)))"
    if "compute_required_slots profile bundle descriptor False = Inr (slots, a)" "map_of bundle (u ''deliveryProfile'') = Some (JObj dp)" for a dp
    using compute_result [OF that(1)] validate_required_iff [OF dicts_wf_lookup [OF assms that(2)], of slots]
      validate_recovery_iff [OF assms, of slots a] by auto
  show ?thesis
  proof
    assume ?L
    then obtain a dp where "compute_required_slots profile bundle descriptor False = Inr (slots, a)"
        "map_of bundle (u ''deliveryProfile'') = Some (JObj dp)" "validate_required_slots_projection dp slots = Inr ()"
        "validate_recovery_projection bundle slots a = Inr ()" unfolding one by blast
    with val rec show ?R by (auto simp: required_slot_projection_def comp_def)
  next
    assume ?R
    then obtain g a rs dp rp where x: "compute_required_slots profile bundle descriptor False = Inr (g, a)"
        "map slot_as_dict g = map slot_as_dict slots" "required_recovery_projection profile bundle descriptor = Inr rs"
        "map_of bundle (u ''deliveryProfile'') = Some (JObj dp)"
        "map_of dp (u ''requiredSlots'') = Some (JArr (map (\<lambda>s. JObj (slot_as_dict s)) slots))"
        "map_of bundle (u ''recoveryPolicy'') = Some (JObj rp)" "map_of rp (u ''requiredComponents'') = Some (JArr (map JObj rs))"
      by (auto simp: required_slot_projection_def)
    have g: "g = slots" by (rule inj [OF x(2)])
    have "rs = map (\<lambda>s. render_recovery s (the (a s))) slots" using rec [OF x(1)] x(3) g by simp
    with x g val [of a dp] show ?L unfolding one by (auto simp: comp_def)
  qed
qed

lemma compute_cong:
  assumes "map_of b' (u ''components'') = map_of b (u ''components'')"
    and "map_of b' (u ''deliveryProfile'') = Some (JObj dp')" and "map_of b (u ''deliveryProfile'') = Some (JObj dp)"
    and "map_of dp' (u ''explicitlyRequiredOperationalSlots'') = map_of dp (u ''explicitlyRequiredOperationalSlots'')"
  shows "compute_required_slots profile b' descriptor False = compute_required_slots profile b descriptor False"
  by (simp add: compute_required_slots_def read_component_slots_def mapping_value_def assms)

lemma set_dict_put: "set (dict_put k v d) \<subseteq> insert (k, v) (set d)"
  by (induction k v d rule: dict_put.induct) (auto split: if_splits)

lemma dicts_wf_put: "dicts_wf (JObj d) \<Longrightarrow> dicts_wf v \<Longrightarrow> dicts_wf (JObj (dict_put k v d))"
  using set_dict_put [of k v d] by (auto simp: dict_wf_put list_all_iff)

lemma slot_dicts_wf: "dicts_wf (JObj (slot_as_dict s))"
  using set_dict_of by (fastforce simp: slot_as_dict_def list_all_iff)

lemma recovery_dicts_wf: "render_recovery_projection slots auths = Inr rs \<Longrightarrow> d \<in> set rs \<Longrightarrow> dicts_wf (JObj d)"
proof -
  have "dicts_wf (JObj (render_recovery s a))" for s a using set_dict_of by (fastforce simp: recovery_dict_eq list_all_iff)
  then show "render_recovery_projection slots auths = Inr rs \<Longrightarrow> d \<in> set rs \<Longrightarrow> ?thesis"
    by (induction slots arbitrary: rs) (auto simp: render_recovery_projection_def)
qed

lemma signed_verifies:
  assumes "dicts_wf (JObj bundle)" and "map_of bundle (u ''deliveryProfile'') = Some (JObj dp)"
    and "required_slot_projection profile bundle descriptor = Inr ps"
    and "required_recovery_projection profile bundle descriptor = Inr rs"
  shows "\<exists>slots. map slot_as_dict slots = ps \<and>
    dicts_wf (JObj (dict_put (u ''recoveryPolicy'') (JObj [(u ''requiredComponents'', JArr (map JObj rs))])
        (dict_put (u ''deliveryProfile'') (JObj (dict_put (u ''requiredSlots'') (JArr (map JObj ps)) dp)) bundle))) \<and>
    required_slot_set profile
      (dict_put (u ''recoveryPolicy'') (JObj [(u ''requiredComponents'', JArr (map JObj rs))])
        (dict_put (u ''deliveryProfile'') (JObj (dict_put (u ''requiredSlots'') (JArr (map JObj ps)) dp)) bundle)) descriptor = Inr slots"
proof -
  let ?d = "dict_put (u ''deliveryProfile'') (JObj (dict_put (u ''requiredSlots'') (JArr (map JObj ps)) dp)) bundle"
  let ?b = "dict_put (u ''recoveryPolicy'') (JObj [(u ''requiredComponents'', JArr (map JObj rs))]) ?d"
  have wf: "dict_wf bundle" "dicts_wf (JObj dp)" "dict_wf dp" using assms(1) dicts_wf_lookup [OF assms(1,2)] by simp_all
  obtain slots auths where g: "compute_required_slots profile bundle descriptor False = Inr (slots, auths)" "ps = map slot_as_dict slots"
    using assms(3) by (auto simp: required_slot_projection_def)
  have look: "map_of ?b (u ''components'') = map_of bundle (u ''components'')"
      "map_of ?b (u ''deliveryProfile'') = Some (JObj (dict_put (u ''requiredSlots'') (JArr (map JObj ps)) dp))"
      "map_of ?b (u ''recoveryPolicy'') = Some (JObj [(u ''requiredComponents'', JArr (map JObj rs))])"
    using wf(1) by (simp_all add: map_of_dict_put dict_wf_put)
  have dpl: "map_of (dict_put (u ''requiredSlots'') (JArr (map JObj ps)) dp) (u ''requiredSlots'') = Some (JArr (map (\<lambda>s. JObj (slot_as_dict s)) slots))"
      "map_of (dict_put (u ''requiredSlots'') (JArr (map JObj ps)) dp) (u ''explicitlyRequiredOperationalSlots'') =
        map_of dp (u ''explicitlyRequiredOperationalSlots'')"
    using wf(3) g(2) by (simp_all add: map_of_dict_put comp_def)
  have same: "compute_required_slots profile ?b descriptor False = compute_required_slots profile bundle descriptor False"
    by (rule compute_cong [OF look(1) look(2) assms(2) dpl(2)])
  have "list_all dicts_wf (map JObj ps)" using g(2) slot_dicts_wf by (simp add: list_all_iff)
  moreover have "list_all dicts_wf (map JObj rs)"
    using assms(4) recovery_dicts_wf [of slots auths rs] g(1) by (simp add: required_recovery_projection_def list_all_iff)
  ultimately have bwf: "dicts_wf (JObj ?b)" using assms(1) wf(2) by (intro dicts_wf_put) (simp_all add: dict_wf_def)
  have "required_slot_projection profile ?b descriptor = Inr (map slot_as_dict slots)"
    "required_recovery_projection profile ?b descriptor = Inr rs"
    using same g assms(4) by (simp_all add: required_slot_projection_def required_recovery_projection_def)
  then have "required_slot_set profile ?b descriptor = Inr slots"
    using signed_exact [OF bwf, of profile descriptor slots] look(2,3) dpl(1) by auto
  with g(2) bwf show ?thesis by blast
qed

end
