(* ===== verification/SlotProperties.thy ===== *)
theory SlotProperties
  imports SlotExact
begin

text \<open>The theorems on the required-slot projection, and a concrete bundle for their witnesses.\<close>

section \<open>A concrete bundle\<close>

definition demo_slot :: "string \<Rightarrow> string \<Rightarrow> (string \<times> json) list \<Rightarrow> json" where
  "demo_slot t p kvs = JObj (dict_of (map (\<lambda>(k, v). (u k, v)) ([(''componentType'', JStr (u t)), (''componentPrincipal'', JStr (u p)),
     (''nodeId'', JStr (u ''n1'')), (''verificationMethod'', JStr (u ''sha'')), (''expectedDigest'', JStr (replicate 64 48))] @ kvs)))"

definition demo_base :: "string \<Rightarrow> string \<Rightarrow> json" where
  "demo_base t p = demo_slot t p [(''readyReporterPrincipal'', JStr (u (p @ ''r''))), (''probeNkeySelector'', JStr (u (p @ ''k'')))]"

definition demo_descriptor :: dict where
  "demo_descriptor = [(u ''fixedBaseSlots'', JArr [demo_base ''GATEWAY'' ''c'', demo_base ''CONFIG_CONTROLLER'' ''a'',
     demo_base ''STATE_SERVICE'' ''b'', demo_base ''NATS_JETSTREAM'' ''d'', demo_base ''OBJECT_STORE'' ''e'',
     demo_base ''ARTIFACT_BROKER'' ''f'', demo_base ''AUDIT_SINK'' ''g''])]"

definition demo_profile :: dict where
  "demo_profile = []"

definition demo_bundle :: dict where
  "demo_bundle = [(u ''components'', JArr [demo_slot ''worker'' ''h'' [(''nkeySelector'', JStr (u ''hk'')),
     (''requiredForProfiles'', JArr [JStr (u ''CORE'')])]]), (u ''deliveryProfile'', JObj demo_profile)]"

lemma demo_slot_facts:
  "text_at (demo_slot t p kvs) k = (case map_of (map (\<lambda>(k, v). (u k, v)) (rev kvs) @ [(u ''expectedDigest'', JStr (replicate 64 48)),
     (u ''verificationMethod'', JStr (u ''sha'')), (u ''nodeId'', JStr (u ''n1'')), (u ''componentPrincipal'', JStr (u p)),
     (u ''componentType'', JStr (u t))]) (u k) of Some (JStr s) \<Rightarrow> s | _ \<Rightarrow> [])"
  by (simp add: text_at_def demo_slot_def map_of_dict_of rev_map)

lemma demo_is_text:
  "is_text (demo_slot t p kvs) k = (case map_of (map (\<lambda>(k, v). (u k, v)) (rev kvs) @ [(u ''expectedDigest'', JStr (replicate 64 48)),
     (u ''verificationMethod'', JStr (u ''sha'')), (u ''nodeId'', JStr (u ''n1'')), (u ''componentPrincipal'', JStr (u p)),
     (u ''componentType'', JStr (u t))]) (u k) of Some (JStr s) \<Rightarrow> stable_text s | _ \<Rightarrow> False)"
  by (simp add: is_text_def demo_slot_def map_of_dict_of rev_map)

definition visible :: "string \<Rightarrow> bool" where
  "visible s \<longleftrightarrow> s \<noteq> [] \<and> list_all (\<lambda>c. (32 :: nat) < of_char c \<and> of_char c < (0x7F :: nat)) s"

lemma visible_stable: "visible s \<Longrightarrow> stable_text (u s)"
  by (rule stable_text_graphic) (auto simp: visible_def u_def list_all_iff)

lemma demo_base_ok:
  assumes "visible t" and "visible p"
  shows "base_item_ok (demo_base t p)"
proof -
  have "stable_text (u ''sha'')" "stable_text (u ''n1'')" "stable_text (u (p @ ''r''))" "stable_text (u (p @ ''k''))"
    using assms(2) by (auto intro!: visible_stable simp: visible_def)
  moreover have "lower_sha256 (replicate 64 48)" by (simp add: lower_sha256_def lower_hex_def list_all_iff)
  ultimately show ?thesis
    using visible_stable [OF assms(1)] visible_stable [OF assms(2)] lower_sha256_stable
    by (simp add: base_item_ok_def slot_item_ok_def proof_item_ok_def demo_base_def demo_is_text demo_slot_facts)
qed

lemma slots_validI:
  assumes "profile \<in> set DELIVERY_PROFILE_SET" and "map_of descriptor (u ''fixedBaseSlots'') = Some (JArr bv)"
    and "map_of b (u ''components'') = Some (JArr cv)" and "map_of b (u ''deliveryProfile'') = Some (JObj dp)"
    and "(case map_of dp (u ''explicitlyRequiredOperationalSlots'') of None \<Rightarrow> JArr [] | Some v \<Rightarrow> v) = JArr ev"
    and "list_all base_item_ok bv" and "list_all component_item_ok cv" and "list_all explicit_item_ok ev"
    and "(\<lambda>v. text_at v ''componentType'') ` set bv = set BASE_REQUIRED_SLOT_TYPES"
    and "distinct (concat (map base_identities bv) @ concat (map component_identities cv))"
    and "slot_of ` set ev \<subseteq> slot_of ` (set bv \<union> set cv)" and "distinct (map slot_of ev)"
  shows "slots_valid profile b descriptor"
  using assms unfolding slots_valid_def by blast

lemma demo_valid: "slots_valid (u ''CORE'') demo_bundle demo_descriptor"
proof -
  let ?bv = "[demo_base ''GATEWAY'' ''c'', demo_base ''CONFIG_CONTROLLER'' ''a'',
     demo_base ''STATE_SERVICE'' ''b'', demo_base ''NATS_JETSTREAM'' ''d'', demo_base ''OBJECT_STORE'' ''e'',
     demo_base ''ARTIFACT_BROKER'' ''f'', demo_base ''AUDIT_SINK'' ''g'']"
  let ?c = "demo_slot ''worker'' ''h'' [(''nkeySelector'', JStr (u ''hk'')), (''requiredForProfiles'', JArr [JStr (u ''CORE'')])]"
  have bv: "map_of demo_descriptor (u ''fixedBaseSlots'') = Some (JArr ?bv)" by (simp add: demo_descriptor_def)
  have cv: "map_of demo_bundle (u ''components'') = Some (JArr [?c])" "map_of demo_bundle (u ''deliveryProfile'') = Some (JObj demo_profile)"
    by (simp_all add: demo_bundle_def)
  have base: "list_all base_item_ok ?bv" by (simp, intro conjI; rule demo_base_ok; simp add: visible_def)
  have sh: "stable_text (u ''sha'')" "stable_text (u ''n1'')" "stable_text (u ''h'')" "stable_text (u ''hk'')" "stable_text (u ''worker'')"
    by (rule visible_stable, simp add: visible_def)+
  have hex: "lower_sha256 (replicate 64 48)" "stable_text (replicate 64 48)"
    using lower_sha256_stable [of "replicate 64 48"] by (simp_all add: lower_sha256_def lower_hex_def list_all_iff)
  have prof: "(case ?c of JObj d \<Rightarrow> (\<exists>names. map_of d (u ''requiredForProfiles'') = Some (JArr (map JStr names)) \<and>
       set names \<subseteq> set DELIVERY_PROFILE_SET \<and> distinct names) | _ \<Rightarrow> False)"
    by (simp add: demo_slot_def map_of_dict_of) (rule exI [of _ "[u ''CORE'']"], simp add: DELIVERY_PROFILE_SET_def)
  have comp: "component_item_ok ?c"
    unfolding component_item_ok_def using sh hex prof
    by (simp add: slot_item_ok_def proof_item_ok_def demo_is_text demo_slot_facts)
  have types: "(\<lambda>v. text_at v ''componentType'') ` set ?bv = set BASE_REQUIRED_SLOT_TYPES"
    by (simp add: demo_base_def demo_slot_facts BASE_REQUIRED_SLOT_TYPES_def) blast
  have ids: "distinct (concat (map base_identities ?bv) @ concat (map component_identities [?c]))"
    by (simp add: base_identities_def component_identities_def demo_base_def demo_slot_facts)
  have core: "u ''CORE'' \<in> set DELIVERY_PROFILE_SET" by (simp add: DELIVERY_PROFILE_SET_def)
  have cs: "list_all component_item_ok [?c]" using comp by simp
  have no: "(case map_of demo_profile (u ''explicitlyRequiredOperationalSlots'') of None \<Rightarrow> JArr [] | Some v \<Rightarrow> v) = JArr []"
    by (simp add: demo_profile_def)
  show ?thesis
    by (rule slots_validI [OF core bv cv no base cs _ types ids]) simp_all
qed

section \<open>Theorems\<close>

text \<open>
  C16. The projection is generated exactly for well-formed input: a known profile; a descriptor whose base slots are complete (text
  fields, recovery proof with a SHA-256 digest) and cover exactly the seven required types; components that are
  complete, not a Merge Broker and name distinct known profiles; explicit slots that are distinct and resolve to base or
  component slots; and identities (principals, ready reporters, NKey selectors) that are globally unique. Every other input is refused.
\<close>
theorem slot_projection_exact:
  "(\<exists>ps. required_slot_projection profile bundle descriptor = Inr ps) \<longleftrightarrow> slots_valid profile bundle descriptor"
  using compute_exact [of profile "bundle" descriptor] by (auto simp: required_slot_projection_def)

text \<open>
  C17. The generated slots are exactly those of the base items, of the components required for the profile and of the explicit
  items, without duplicates and in increasing order of their UTF-8 encodings; all seven base types are among them
  and no Merge Broker; and the identities of all items are pairwise different.
\<close>
theorem required_slots_content:
  assumes "required_slot_set profile bundle descriptor = Inr slots"
  shows "set slots = slot_of ` required_items profile bundle descriptor \<and> distinct slots \<and> sorted (map slot_key slots) \<and>
    set BASE_REQUIRED_SLOT_TYPES \<subseteq> slot_component_type ` set slots \<and> u ''merge-broker'' \<notin> slot_component_type ` set slots \<and>
    distinct (concat (map base_identities (items descriptor ''fixedBaseSlots'')) @
      concat (map component_identities (items bundle ''components'')))"
proof -
  obtain auths where "compute_required_slots profile bundle descriptor True = Inr (slots, auths)"
    using assms by (auto simp: required_slot_set_def)
  from compute_result [OF this] show ?thesis by blast
qed

text \<open>
  Verification accepts exactly what generation produces: \<open>required_slot_set\<close> returns \<open>slots\<close> for a bundle precisely when the
  bundle carries, value for value, the projection of these slots as \<open>deliveryProfile.requiredSlots\<close> and the recovery projection
  as \<open>recoveryPolicy.requiredComponents\<close>.
\<close>
theorem signed_projection_exact:
  assumes "dicts_wf (JObj bundle)"
  shows "required_slot_set profile bundle descriptor = Inr slots \<longleftrightarrow>
    (\<exists>rs dp rp. required_slot_projection profile bundle descriptor = Inr (map slot_as_dict slots) \<and>
       required_recovery_projection profile bundle descriptor = Inr rs \<and>
       map_of bundle (u ''deliveryProfile'') = Some (JObj dp) \<and>
       map_of dp (u ''requiredSlots'') = Some (JArr (map (\<lambda>s. JObj (slot_as_dict s)) slots)) \<and>
       map_of bundle (u ''recoveryPolicy'') = Some (JObj rp) \<and> map_of rp (u ''requiredComponents'') = Some (JArr (map JObj rs)))"
  by (rule signed_exact [OF assms])

text \<open>
  Generating, signing and verifying round-trips: whatever projections are generated for a bundle, writing them into it makes
  verification succeed and return the generated slots.
\<close>
theorem generated_projection_verifies:
  assumes "dicts_wf (JObj bundle)" and "map_of bundle (u ''deliveryProfile'') = Some (JObj dp)"
    and "required_slot_projection profile bundle descriptor = Inr ps"
    and "required_recovery_projection profile bundle descriptor = Inr rs"
  shows "\<exists>slots. map slot_as_dict slots = ps \<and>
    required_slot_set profile
      (dict_put (u ''recoveryPolicy'') (JObj [(u ''requiredComponents'', JArr (map JObj rs))])
        (dict_put (u ''deliveryProfile'') (JObj (dict_put (u ''requiredSlots'') (JArr (map JObj ps)) dp)) bundle)) descriptor = Inr slots"
  using signed_verifies [OF assms] by blast

text \<open>The demonstration bundle satisfies the hypotheses of the theorems.\<close>

lemma demo_wf: "dicts_wf (JObj demo_bundle)"
proof -
  have "dict_wf demo_bundle"
    by (simp add: demo_bundle_def dict_wf_def u_def)
  moreover have "dicts_wf (demo_slot t p kvs)" if "list_all (\<lambda>(k, v). dicts_wf v) kvs" for t p kvs
    using that set_dict_of by (fastforce simp: demo_slot_def list_all_iff)
  ultimately show ?thesis by (simp add: demo_bundle_def demo_profile_def dict_wf_def)
qed

lemma demo_generated:
  "\<exists>slots rs. required_slot_projection (u ''CORE'') demo_bundle demo_descriptor = Inr (map slot_as_dict slots) \<and>
     required_recovery_projection (u ''CORE'') demo_bundle demo_descriptor = Inr rs"
proof -
  obtain slots auths where g: "compute_required_slots (u ''CORE'') demo_bundle demo_descriptor False = Inr (slots, auths)"
    using compute_exact demo_valid by (metis surj_pair)
  have "set slots \<subseteq> dom auths" using compute_result [OF g] by blast
  from expected_authorities [OF this, of render_recovery] g show ?thesis
    by (auto simp: required_slot_projection_def required_recovery_projection_def render_recovery_projection_def)
qed

theorem generated_projection_verifies_witness:
  "\<exists>ps rs slots signed. required_slot_projection (u ''CORE'') demo_bundle demo_descriptor = Inr ps \<and> map slot_as_dict slots = ps \<and>
     signed = dict_put (u ''recoveryPolicy'') (JObj [(u ''requiredComponents'', JArr (map JObj rs))])
        (dict_put (u ''deliveryProfile'') (JObj (dict_put (u ''requiredSlots'') (JArr (map JObj ps)) demo_profile)) demo_bundle) \<and>
     required_slot_set (u ''CORE'') signed demo_descriptor = Inr slots"
proof -
  obtain ps rs where g: "required_slot_projection (u ''CORE'') demo_bundle demo_descriptor = Inr ps"
      "required_recovery_projection (u ''CORE'') demo_bundle demo_descriptor = Inr rs" using demo_generated by blast
  have dp: "map_of demo_bundle (u ''deliveryProfile'') = Some (JObj demo_profile)" by (simp add: demo_bundle_def)
  from generated_projection_verifies [OF demo_wf dp g] g show ?thesis by blast
qed

lemma demo_signed: "\<exists>signed slots. dicts_wf (JObj signed) \<and> required_slot_set (u ''CORE'') signed demo_descriptor = Inr slots"
proof -
  obtain ps rs where g: "required_slot_projection (u ''CORE'') demo_bundle demo_descriptor = Inr ps"
      "required_recovery_projection (u ''CORE'') demo_bundle demo_descriptor = Inr rs" using demo_generated by blast
  have dp: "map_of demo_bundle (u ''deliveryProfile'') = Some (JObj demo_profile)" by (simp add: demo_bundle_def)
  from signed_verifies [OF demo_wf dp g] show ?thesis by blast
qed

theorem required_slots_content_witness:
  "\<exists>signed slots. required_slot_set (u ''CORE'') signed demo_descriptor = Inr slots \<and> distinct slots \<and>
     set BASE_REQUIRED_SLOT_TYPES \<subseteq> slot_component_type ` set slots"
proof -
  obtain signed slots where s: "required_slot_set (u ''CORE'') signed demo_descriptor = Inr slots" using demo_signed by blast
  from required_slots_content [OF s] s show ?thesis by blast
qed

theorem signed_projection_exact_witness:
  "\<exists>signed slots dp. dicts_wf (JObj signed) \<and> required_slot_set (u ''CORE'') signed demo_descriptor = Inr slots \<and>
     map_of signed (u ''deliveryProfile'') = Some (JObj dp) \<and>
     map_of dp (u ''requiredSlots'') = Some (JArr (map (\<lambda>s. JObj (slot_as_dict s)) slots))"
proof -
  obtain signed slots where s: "dicts_wf (JObj signed)" "required_slot_set (u ''CORE'') signed demo_descriptor = Inr slots"
    using demo_signed by blast
  from signed_projection_exact [OF s(1), of "u ''CORE''" demo_descriptor slots] s show ?thesis by (auto simp del: dicts_wf.simps)
qed

end
