(* ===== verification/Identity.thy ===== *)
theory Identity
  imports Json
begin

text \<open>
  Canonical machine principals and the registry of aliases (\<open>identity/principal.py\<close>).

  \<open>AliasRegistry._targets\<close> is an association list in insertion order: the code only appends to it. The
  invariant \<open>registry_ok\<close> (unique sources, canonical principals, no alias chains, generations numbered
  \<open>1, 2, \<dots>\<close>) holds of the empty registry and is kept by \<open>add\<close>. The locale \<open>principal_resolver\<close> states what
  the credential store relies on; the registry is its instance.
\<close>

section \<open>Principals\<close>

definition principal_char :: "nat \<Rightarrow> bool" where
  "principal_char c \<longleftrightarrow> 65 \<le> c \<and> c \<le> 90 \<or> 97 \<le> c \<and> c \<le> 122 \<or> 48 \<le> c \<and> c \<le> 57 \<or> c = 46 \<or> c = 95 \<or> c = 58 \<or> c = 45"

definition PRINCIPAL_KINDS :: "ustr list" where
  "PRINCIPAL_KINDS = [u ''agent'', u ''a2a'', u ''mcp'', u ''system'']"

text \<open>\<open>_PRINCIPAL_RE.fullmatch\<close>.\<close>

definition principal_text :: "ustr \<Rightarrow> bool" where
  "principal_text s \<longleftrightarrow> list_ex (\<lambda>k. starts_with (k @ [58]) s \<and>
     (let rest = drop (Suc (length k)) s in 1 \<le> length rest \<and> length rest \<le> 240 \<and> list_all principal_char rest)) PRINCIPAL_KINDS"

text \<open>\<open>s.split(":", 1)[0]\<close>.\<close>

definition principal_prefix :: "ustr \<Rightarrow> ustr" where
  "principal_prefix s = takeWhile (\<lambda>c. c \<noteq> 58) s"

record Principal =
  p_id :: ustr
  p_kind :: ustr
  p_credential_id :: "ustr option"
  p_alias_generation :: int

text \<open>The constructor with its \<open>__post_init__\<close>.\<close>

definition make_principal :: "ustr \<Rightarrow> ustr \<Rightarrow> ustr option \<Rightarrow> int \<Rightarrow> Principal result" where
  "make_principal i k cred gen = checked
     [Check (principal_text i) (ValueError [''invalid canonical principal: '', show_ustr i]),
      Check (principal_prefix i = k) (ValueError [''principal kind must match its ID prefix''])]
     (Inr \<lparr> p_id = i, p_kind = k, p_credential_id = cred, p_alias_generation = gen \<rparr>)"

definition issuer_hash :: "(ustr \<Rightarrow> ustr) \<Rightarrow> ustr \<Rightarrow> ustr result" where
  "issuer_hash lower issuer =
     bindE (enc_utf8 (lower (rev (dropWhile (\<lambda>c. c = 47) (rev issuer))))) (\<lambda>normalized. Inr (take 24 (sha256_hex normalized)))"

section \<open>The alias registry\<close>

record AliasRegistry =
  ar_targets :: "(ustr \<times> ustr \<times> int) list"
  ar_next_generation :: int

definition empty_registry :: AliasRegistry where
  "empty_registry = \<lparr> ar_targets = [], ar_next_generation = 1 \<rparr>"

definition alias_add :: "AliasRegistry \<Rightarrow> ustr \<Rightarrow> ustr \<Rightarrow> (AliasRegistry \<times> int) result" where
  "alias_add r source target =
     bindE (make_principal source (principal_prefix source) None 0) (\<lambda>_.
     bindE (make_principal target (principal_prefix target) None 0) (\<lambda>_.
     checked [Check (source \<noteq> target) (ValueError [''an alias cannot target itself''])]
     (case map_of (ar_targets r) source of
        Some (t, gen) \<Rightarrow> checked [Check (t = target) (ValueError [''principal aliases are immutable''])] (Inr (r, gen))
      | None \<Rightarrow> checked
          [Check (map_of (ar_targets r) target = None) (ValueError [''alias chains are forbidden'']),
           Check (\<not> list_ex (\<lambda>e. fst (snd e) = source) (ar_targets r))
             (ValueError [''an existing alias target cannot become an alias source''])]
          (Inr (r\<lparr> ar_targets := ar_targets r @ [(source, target, ar_next_generation r)],
                  ar_next_generation := ar_next_generation r + 1 \<rparr>, ar_next_generation r)))))"

definition alias_resolve :: "AliasRegistry \<Rightarrow> ustr \<Rightarrow> ustr \<times> int" where
  "alias_resolve r source = (case map_of (ar_targets r) source of Some e \<Rightarrow> e | None \<Rightarrow> (source, 0))"

section \<open>Facts about principals\<close>

lemma make_principal_eq [simp]:
  "make_principal i k cred gen = Inr p \<longleftrightarrow> principal_text i \<and> principal_prefix i = k \<and>
     p = \<lparr> p_id = i, p_kind = k, p_credential_id = cred, p_alias_generation = gen \<rparr>"
  by (auto simp: make_principal_def)

lemma principal_textI:
  assumes "k \<in> set PRINCIPAL_KINDS" and "list_all principal_char rest" and "1 \<le> length rest" and "length rest \<le> 240"
  shows "principal_text (k @ 58 # rest)"
  unfolding principal_text_def list_ex_iff using assms by (intro bexI [of _ k]) (simp_all add: starts_with_def)

lemma principal_text_kind:
  assumes "principal_text s"
  obtains k rest where "k \<in> set PRINCIPAL_KINDS" and "s = k @ 58 # rest" and "list_all principal_char rest"
    and "1 \<le> length rest" and "length rest \<le> 240" and "principal_prefix s = k"
proof -
  obtain k where k: "k \<in> set PRINCIPAL_KINDS" "starts_with (k @ [58]) s" and
    b: "list_all principal_char (drop (Suc (length k)) s)" "1 \<le> length (drop (Suc (length k)) s)" "length (drop (Suc (length k)) s) \<le> 240"
    using assms by (auto simp: principal_text_def list_ex_iff Let_def)
  have s: "s = k @ 58 # drop (Suc (length k)) s"
    using k(2) append_take_drop_id [of "Suc (length k)" s] by (simp add: starts_with_def)
  have "58 \<notin> set k" using k(1) by (auto simp: PRINCIPAL_KINDS_def u_def)
  then have "principal_prefix (k @ 58 # drop (Suc (length k)) s) = k"
    by (subst principal_prefix_def, subst takeWhile_append2) auto
  then have "principal_prefix s = k" using s by simp
  with that k(1) s b show thesis by blast
qed

section \<open>The registry invariant\<close>

definition registry_ok :: "AliasRegistry \<Rightarrow> bool" where
  "registry_ok r \<longleftrightarrow> distinct (map fst (ar_targets r)) \<and>
     list_all (\<lambda>(s, t, g). principal_text s \<and> principal_text t) (ar_targets r) \<and>
     fst ` set (ar_targets r) \<inter> (fst \<circ> snd) ` set (ar_targets r) = {} \<and>
     map (snd \<circ> snd) (ar_targets r) = map int [1..<Suc (length (ar_targets r))] \<and>
     ar_next_generation r = 1 + int (length (ar_targets r))"

lemma empty_registry_ok [simp]: "registry_ok empty_registry"
  by (simp add: registry_ok_def empty_registry_def)

lemma alias_add_cases:
  assumes "alias_add r source target = Inr (r', gen)"
  obtains (again) "map_of (ar_targets r) source = Some (target, gen)" and "r' = r"
    | (new) "principal_text source" and "principal_text target" and "source \<noteq> target" and "source \<notin> fst ` set (ar_targets r)"
      and "target \<notin> fst ` set (ar_targets r)" and "source \<notin> (fst \<circ> snd) ` set (ar_targets r)" and "gen = ar_next_generation r"
      and "r' = r\<lparr> ar_targets := ar_targets r @ [(source, target, gen)], ar_next_generation := gen + 1 \<rparr>"
proof (cases "map_of (ar_targets r) source")
  case None
  then have f: "principal_text source \<and> principal_text target \<and> source \<noteq> target \<and> map_of (ar_targets r) target = None \<and>
      \<not> list_ex (\<lambda>e. fst (snd e) = source) (ar_targets r) \<and> gen = ar_next_generation r \<and>
      r' = r\<lparr> ar_targets := ar_targets r @ [(source, target, gen)], ar_next_generation := gen + 1 \<rparr>"
    using assms unfolding alias_add_def by auto
  have "source \<notin> fst ` set (ar_targets r)" "target \<notin> fst ` set (ar_targets r)" "source \<notin> (fst \<circ> snd) ` set (ar_targets r)"
    using None f unfolding map_of_eq_None_iff list_ex_iff image_iff o_apply by metis+
  then show thesis using f by (elim conjE) (rule new)
next
  case (Some e)
  then have "e = (target, gen) \<and> r' = r" using assms by (cases e) (auto simp: alias_add_def)
  with Some show thesis by (intro again) simp_all
qed

lemma alias_add_keeps:
  assumes "registry_ok r" and "alias_add r source target = Inr (r', gen)"
  shows "registry_ok r'"
  using assms(2)
proof (cases rule: alias_add_cases)
  case again
  with assms(1) show ?thesis by simp
next
  case new
  have "map int [1..<Suc (Suc (length (ar_targets r)))] = map int [1..<Suc (length (ar_targets r))] @ [1 + int (length (ar_targets r))]"
    by simp
  with new assms(1) show ?thesis
    unfolding registry_ok_def by (auto simp: image_iff)
qed

lemma alias_add_resolve:
  assumes "registry_ok r" and "alias_add r source target = Inr (r', gen)"
  shows "alias_resolve r' source = (target, gen)"
  using assms(2)
proof (cases rule: alias_add_cases)
  case again
  then show ?thesis by (simp add: alias_resolve_def)
next
  case new
  then have "map_of (ar_targets r) source = None" by (simp add: map_of_eq_None_iff)
  with new show ?thesis by (simp add: alias_resolve_def map_add_def)
qed

lemma alias_add_extends:
  assumes "alias_add r source target = Inr (r', gen)" and "map_of (ar_targets r) s = Some e"
  shows "map_of (ar_targets r') s = Some e"
  using assms(1)
proof (cases rule: alias_add_cases)
  case again
  with assms(2) show ?thesis by simp
next
  case new
  with assms(2) show ?thesis by (simp add: map_add_def)
qed

lemma alias_resolve_ok: "registry_ok r \<Longrightarrow> principal_text p \<Longrightarrow> principal_text (fst (alias_resolve r p))"
  by (auto simp: registry_ok_def alias_resolve_def list_all_iff dest!: map_of_SomeD split: option.splits)

lemma alias_resolve_once: "registry_ok r \<Longrightarrow> alias_resolve r (fst (alias_resolve r p)) = (fst (alias_resolve r p), 0) \<or>
    alias_resolve r p = (p, 0)"
proof (cases "map_of (ar_targets r) p")
  case (Some e)
  assume "registry_ok r"
  with Some have "fst e \<notin> fst ` set (ar_targets r)"
    by (force simp: registry_ok_def dest: map_of_SomeD)
  with Some show ?thesis by (simp add: alias_resolve_def map_of_eq_None_iff [THEN iffD2])
qed (simp add: alias_resolve_def)

section \<open>What a client relies on\<close>

locale principal_resolver =
  fixes reg_ok :: "'r \<Rightarrow> bool"
    and resolve :: "'r \<Rightarrow> ustr \<Rightarrow> ustr \<times> int"
  assumes resolve_canonical: "reg_ok r \<Longrightarrow> principal_text p \<Longrightarrow> principal_text (fst (resolve r p))"
    and resolve_stable: "reg_ok r \<Longrightarrow> fst (resolve r (fst (resolve r p))) = fst (resolve r p)"
begin

text \<open>Building the principal of a resolved identity does not raise, and resolving it again changes nothing.\<close>

lemma resolved_principal:
  assumes "reg_ok r" and "principal_text p"
  shows "make_principal (fst (resolve r p)) (principal_prefix (fst (resolve r p))) cred gen =
    Inr \<lparr> p_id = fst (resolve r p), p_kind = principal_prefix (fst (resolve r p)), p_credential_id = cred, p_alias_generation = gen \<rparr>"
  using resolve_canonical [OF assms] by simp

lemma resolved_id_fixed:
  assumes "reg_ok r" and "make_principal (fst (resolve r p)) k cred gen = Inr q"
  shows "fst (resolve r (p_id q)) = p_id q"
  using assms resolve_stable by simp

end

interpretation aliases: principal_resolver registry_ok alias_resolve
  by unfold_locales (use alias_resolve_ok alias_resolve_once in \<open>metis fst_conv\<close>)+

end
