(* ===== verification/Credentials.thy ===== *)
theory Credentials
  imports Identity
begin

text \<open>
  The credential store (\<open>identity/credentials.py\<close>): registration, disabling and resolution of bearer
  credentials, user NKeys and OAuth clients. Instants are values of any linear order: the code only compares
  them. \<open>str.lower\<close> depends on the Unicode tables and is an argument. \<open>hmac.new(\<dots>, sha256)\<close> is spelled out
  over the SHA-256 model.

  \<open>store_ok\<close> is the invariant of the store; the lemmas show that every operation keeps it, what each of
  them returns, and that the principal of a registered identity never changes.
\<close>

section \<open>HMAC-SHA256\<close>

definition hmac_key :: "bytes \<Rightarrow> bytes" where
  "hmac_key key = (let k = if 64 < length key then sha256 key else key in k @ replicate (64 - length k) 0)"

definition hmac_sha256 :: "bytes \<Rightarrow> bytes \<Rightarrow> bytes" where
  "hmac_sha256 key m =
     sha256 (map (\<lambda>b. b XOR 0x5C) (hmac_key key) @ sha256 (map (\<lambda>b. b XOR 0x36) (hmac_key key) @ m))"

section \<open>The store\<close>

record 't BearerCredential =
  bc_credential_id :: ustr
  bc_principal_id :: ustr
  bc_secret_digest :: bytes
  bc_expires_at :: "'t option"
  bc_enabled :: bool

record 't CredentialStore =
  cs_pepper :: bytes
  cs_bearers :: "ustr \<rightharpoonup> 't BearerCredential"
  cs_nkeys :: "ustr \<rightharpoonup> ustr \<times> ustr"
  cs_aliases :: AliasRegistry

definition credential_store :: "bytes \<Rightarrow> AliasRegistry option \<Rightarrow> 't CredentialStore result" where
  "credential_store pepper aliases = checked
     [Check (32 \<le> length pepper) (ValueError [''credential pepper must be at least 32 bytes''])]
     (Inr \<lparr> cs_pepper = pepper, cs_bearers = Map.empty, cs_nkeys = Map.empty,
        cs_aliases = (case aliases of None \<Rightarrow> empty_registry | Some r \<Rightarrow> r) \<rparr>)"

definition secret_digest :: "('t, 'm) CredentialStore_scheme \<Rightarrow> ustr \<Rightarrow> bytes result" where
  "secret_digest store secret = bindE (enc_utf8 secret) (\<lambda>bs. Inr (hmac_sha256 (cs_pepper store) bs))"

definition credential_text :: "ustr \<Rightarrow> bool" where
  "credential_text c \<longleftrightarrow> c \<noteq> [] \<and> \<not> list_ex (\<lambda>ch. ch \<in> set [46, 32, 9, 13, 10]) c"

text \<open>\<open>principal_id or f"a2a:{credential_id}"\<close>.\<close>

definition principal_or_default :: "ustr option \<Rightarrow> ustr \<Rightarrow> ustr" where
  "principal_or_default principal_id credential_id =
     (case principal_id of Some p \<Rightarrow> if p = [] then u ''a2a:'' @ credential_id else p | None \<Rightarrow> u ''a2a:'' @ credential_id)"

definition register_bearer ::
    "'t CredentialStore \<Rightarrow> ustr \<Rightarrow> ustr \<Rightarrow> ustr option \<Rightarrow> 't option \<Rightarrow> ('t CredentialStore \<times> ustr) result" where
  "register_bearer store credential_id secret principal_id expires_at =
     checked [Check (credential_text credential_id) (ValueError [''credential ID must be a non-empty token without dots''])]
     (bindE (enc_utf8 secret) (\<lambda>raw.
      checked [Check (32 \<le> length raw) (ValueError [''bearer secret must contain at least 32 bytes''])]
      (let pid = principal_or_default principal_id credential_id in
       bindE (make_principal pid (principal_prefix pid) None 0) (\<lambda>_.
       checked [Check (case cs_bearers store credential_id of None \<Rightarrow> True | Some c \<Rightarrow> bc_principal_id c = pid)
                 (ValueError [''credential principal is immutable''])]
       (bindE (secret_digest store secret) (\<lambda>digest.
        Inr (store\<lparr> cs_bearers := (cs_bearers store)(credential_id \<mapsto>
               \<lparr> bc_credential_id = credential_id, bc_principal_id = pid, bc_secret_digest = digest,
                 bc_expires_at = expires_at, bc_enabled = True \<rparr>) \<rparr>, credential_id @ 46 # secret)))))))"

definition disable_bearer :: "'t CredentialStore \<Rightarrow> ustr \<Rightarrow> 't CredentialStore result" where
  "disable_bearer store credential_id =
     (case cs_bearers store credential_id of None \<Rightarrow> Inl KeyError
      | Some c \<Rightarrow> Inr (store\<lparr> cs_bearers := (cs_bearers store)(credential_id \<mapsto>
          \<lparr> bc_credential_id = bc_credential_id c, bc_principal_id = bc_principal_id c, bc_secret_digest = bc_secret_digest c,
            bc_expires_at = bc_expires_at c, bc_enabled = False \<rparr>) \<rparr>))"

text \<open>\<open>Principal(principal_id, principal_id.split(":", 1)[0], credential_id, generation)\<close> of a resolved identity.\<close>

definition aliased_principal :: "AliasRegistry \<Rightarrow> ustr \<Rightarrow> ustr \<Rightarrow> Principal result" where
  "aliased_principal r initial cred = (case alias_resolve r initial of
     (pid, gen) \<Rightarrow> make_principal pid (principal_prefix pid) (Some cred) gen)"

definition resolve_bearer :: "('t :: linorder) CredentialStore \<Rightarrow> ustr \<Rightarrow> 't \<Rightarrow> Principal result" where
  "resolve_bearer store token now =
     (if 46 \<notin> set token then Inl (ValueError [''invalid bearer credential format''])
      else let credential_id = takeWhile (\<lambda>c. c \<noteq> 46) token;
               secret = tl (dropWhile (\<lambda>c. c \<noteq> 46) token);
               credential = cs_bearers store credential_id in
        bindE (secret_digest store secret) (\<lambda>supplied.
        let expected = (case credential of Some c \<Rightarrow> bc_secret_digest c | None \<Rightarrow> replicate (length supplied) 0);
            verified = (supplied = expected) in
        case credential of
          None \<Rightarrow> Inl (ValueError [''invalid or expired bearer credential''])
        | Some c \<Rightarrow> checked
            [Check (\<not> (\<not> verified \<or> \<not> bc_enabled c \<or> (case bc_expires_at c of None \<Rightarrow> False | Some e \<Rightarrow> e \<le> now)))
               (ValueError [''invalid or expired bearer credential''])]
            (aliased_principal (cs_aliases store) (bc_principal_id c) credential_id)))"

definition register_nkey :: "'t CredentialStore \<Rightarrow> ustr \<Rightarrow> ustr \<Rightarrow> 't CredentialStore result" where
  "register_nkey store public_key agent_id =
     checked [Check (starts_with (u ''U'') public_key) (ValueError [''peer identity must use a user NKey''])]
     (let pid = u ''agent:'' @ agent_id in
      bindE (make_principal pid (u ''agent'') None 0) (\<lambda>_.
      checked [Check (case cs_nkeys store public_key of None \<Rightarrow> True | Some e \<Rightarrow> e = (agent_id, pid))
                (ValueError [''NKey identity is immutable''])]
      (Inr (store\<lparr> cs_nkeys := (cs_nkeys store)(public_key \<mapsto> (agent_id, pid)) \<rparr>))))"

definition resolve_nkey :: "'t CredentialStore \<Rightarrow> ustr \<Rightarrow> Principal result" where
  "resolve_nkey store public_key =
     (case cs_nkeys store public_key of None \<Rightarrow> Inl (ValueError [''unknown NKey''])
      | Some (agent_id, initial) \<Rightarrow> aliased_principal (cs_aliases store) initial public_key)"

definition resolve_oauth :: "(ustr \<Rightarrow> ustr) \<Rightarrow> 't CredentialStore \<Rightarrow> ustr \<Rightarrow> ustr \<Rightarrow> Principal result" where
  "resolve_oauth lower store issuer client_id =
     checked [Check (starts_with (u ''https://'') issuer \<and> client_id \<noteq> []) (ValueError [''OAuth issuer and client_id are required''])]
     (bindE (issuer_hash lower issuer) (\<lambda>h.
        aliased_principal (cs_aliases store) (u ''mcp:'' @ h @ 58 # client_id) client_id))"

text \<open>The alias registry is shared: whoever holds the store may add aliases to it.\<close>

definition store_add_alias :: "'t CredentialStore \<Rightarrow> ustr \<Rightarrow> ustr \<Rightarrow> ('t CredentialStore \<times> int) result" where
  "store_add_alias store source target =
     bindE (alias_add (cs_aliases store) source target) (\<lambda>(r, gen). Inr (store\<lparr> cs_aliases := r \<rparr>, gen))"

section \<open>The invariant\<close>

definition store_ok :: "'t CredentialStore \<Rightarrow> bool" where
  "store_ok store \<longleftrightarrow> registry_ok (cs_aliases store) \<and>
     (\<forall>k c. cs_bearers store k = Some c \<longrightarrow> bc_credential_id c = k \<and> credential_text k \<and> principal_text (bc_principal_id c)) \<and>
     (\<forall>k a p. cs_nkeys store k = Some (a, p) \<longrightarrow> starts_with (u ''U'') k \<and> p = u ''agent:'' @ a \<and> principal_text p)"

lemma credential_store_ok:
  "credential_store pepper aliases = Inr store \<Longrightarrow> (case aliases of None \<Rightarrow> True | Some r \<Rightarrow> registry_ok r) \<Longrightarrow> store_ok store"
  by (auto simp: credential_store_def store_ok_def split: option.splits)

lemma register_bearer_eq:
  "register_bearer store cid secret pid ex = Inr (store', token) \<longleftrightarrow>
     (\<exists>raw p. p = principal_or_default pid cid \<and>
        credential_text cid \<and> utf8_encode secret = Some raw \<and> 32 \<le> length raw \<and> principal_text p \<and>
        (\<forall>c. cs_bearers store cid = Some c \<longrightarrow> bc_principal_id c = p) \<and> token = cid @ 46 # secret \<and>
        store' = store\<lparr> cs_bearers := (cs_bearers store)(cid \<mapsto>
               \<lparr> bc_credential_id = cid, bc_principal_id = p, bc_secret_digest = hmac_sha256 (cs_pepper store) raw,
                 bc_expires_at = ex, bc_enabled = True \<rparr>) \<rparr>)"
  unfolding register_bearer_def checked_eq_Inr bindE_eq_Inr secret_digest_def Let_def all_ok.simps enc_utf8_eq_Inr make_principal_eq
  by (auto split: option.splits)

lemma register_nkey_eq:
  "register_nkey store k a = Inr store' \<longleftrightarrow> starts_with (u ''U'') k \<and> principal_text (u ''agent:'' @ a) \<and>
     (\<forall>e. cs_nkeys store k = Some e \<longrightarrow> e = (a, u ''agent:'' @ a)) \<and>
     store' = store\<lparr> cs_nkeys := (cs_nkeys store)(k \<mapsto> (a, u ''agent:'' @ a)) \<rparr>"
proof -
  have "principal_prefix (u ''agent:'' @ a) = u ''agent''" by (simp add: principal_prefix_def u_def)
  then show ?thesis by (auto simp: register_nkey_def Let_def split: option.splits)
qed

lemma disable_bearer_eq:
  "disable_bearer store cid = Inr store' \<longleftrightarrow> (\<exists>c. cs_bearers store cid = Some c \<and>
     store' = store\<lparr> cs_bearers := (cs_bearers store)(cid \<mapsto> c\<lparr> bc_enabled := False \<rparr>) \<rparr>)"
proof -
  have e: "\<lparr> bc_credential_id = bc_credential_id c, bc_principal_id = bc_principal_id c, bc_secret_digest = bc_secret_digest c,
            bc_expires_at = bc_expires_at c, bc_enabled = False \<rparr> = c\<lparr> bc_enabled := False \<rparr>" for c :: "'a BearerCredential"
    by simp
  show ?thesis unfolding disable_bearer_def e by (auto split: option.splits)
qed

section \<open>Operations on the store as steps\<close>

text \<open>Any sequence of state-changing calls, failed ones included (they leave the store as it is).\<close>

inductive store_step :: "'t CredentialStore \<Rightarrow> 't CredentialStore \<Rightarrow> bool" where
  bearer: "register_bearer store cid secret pid ex = Inr (store', token) \<Longrightarrow> store_step store store'"
| disable: "disable_bearer store cid = Inr store' \<Longrightarrow> store_step store store'"
| nkey: "register_nkey store k a = Inr store' \<Longrightarrow> store_step store store'"
| add_alias: "store_add_alias store source target = Inr (store', gen) \<Longrightarrow> store_step store store'"

inductive_cases store_stepE: "store_step store store'"

abbreviation store_run :: "'t CredentialStore \<Rightarrow> 't CredentialStore \<Rightarrow> bool" where
  "store_run \<equiv> store_step\<^sup>*\<^sup>*"

lemma store_step_ok: "store_step store store' \<Longrightarrow> store_ok store \<Longrightarrow> store_ok store'"
proof (elim store_stepE)
  fix cid secret pid ex token assume "store_ok store" "register_bearer store cid secret pid ex = Inr (store', token)"
  then show "store_ok store'" by (auto simp: register_bearer_eq store_ok_def split: if_splits)
next
  fix cid assume "store_ok store" "disable_bearer store cid = Inr store'"
  then show "store_ok store'" by (auto simp: disable_bearer_eq store_ok_def split: if_splits)
next
  fix k a assume "store_ok store" "register_nkey store k a = Inr store'"
  then show "store_ok store'" by (auto simp: register_nkey_eq store_ok_def split: if_splits)
next
  fix s t gen assume "store_ok store" "store_add_alias store s t = Inr (store', gen)"
  then show "store_ok store'" by (auto simp: store_add_alias_def store_ok_def intro: alias_add_keeps)
qed

lemma store_run_ok: "store_run store store' \<Longrightarrow> store_ok store \<Longrightarrow> store_ok store'"
  by (induction rule: rtranclp_induct) (auto intro: store_step_ok)

text \<open>What a step never changes: the principal of a credential, the identity of an NKey, an alias.\<close>

definition identities_kept :: "'t CredentialStore \<Rightarrow> 't CredentialStore \<Rightarrow> bool" where
  "identities_kept store store' \<longleftrightarrow> cs_pepper store' = cs_pepper store \<and>
     map_option bc_principal_id \<circ> cs_bearers store \<subseteq>\<^sub>m map_option bc_principal_id \<circ> cs_bearers store' \<and>
     cs_nkeys store \<subseteq>\<^sub>m cs_nkeys store' \<and> map_of (ar_targets (cs_aliases store)) \<subseteq>\<^sub>m map_of (ar_targets (cs_aliases store'))"

lemma identities_kept_trans: "identities_kept a b \<Longrightarrow> identities_kept b c \<Longrightarrow> identities_kept a c"
  unfolding identities_kept_def by (auto intro: map_le_trans)

lemma store_step_keeps: "store_step store store' \<Longrightarrow> identities_kept store store'"
proof (elim store_stepE)
  fix cid secret pid ex token assume "register_bearer store cid secret pid ex = Inr (store', token)"
  then show "identities_kept store store'" by (auto simp: register_bearer_eq identities_kept_def map_le_def)
next
  fix cid assume "disable_bearer store cid = Inr store'"
  then show "identities_kept store store'" by (auto simp: disable_bearer_eq identities_kept_def map_le_def)
next
  fix k a assume "register_nkey store k a = Inr store'"
  then show "identities_kept store store'" by (auto simp: register_nkey_eq identities_kept_def map_le_def)
next
  fix s t gen assume "store_add_alias store s t = Inr (store', gen)"
  then show "identities_kept store store'"
    using alias_add_extends by (fastforce simp: store_add_alias_def identities_kept_def map_le_def)
qed

lemma store_run_keeps: "store_run store store' \<Longrightarrow> identities_kept store store'"
  by (induction rule: rtranclp_induct) (simp add: identities_kept_def, blast intro: identities_kept_trans store_step_keeps)

section \<open>Resolution\<close>

lemma aliased_principal_ok:
  assumes "registry_ok r" and "principal_text p"
  shows "aliased_principal r p cred = Inr \<lparr> p_id = fst (alias_resolve r p), p_kind = principal_prefix (fst (alias_resolve r p)),
      p_credential_id = Some cred, p_alias_generation = snd (alias_resolve r p) \<rparr>"
  using aliases.resolved_principal [OF assms] by (simp add: aliased_principal_def split_beta)

lemma token_split:
  assumes "46 \<notin> set cid"
  shows "takeWhile (\<lambda>c. c \<noteq> 46) (cid @ 46 # secret) = cid" and "tl (dropWhile (\<lambda>c. c \<noteq> 46) (cid @ 46 # secret)) = secret"
  using assms by (induction cid) auto

lemma token_parts:
  assumes "46 \<in> set (token :: ustr)"
  shows "token = takeWhile (\<lambda>c. c \<noteq> 46) token @ 46 # tl (dropWhile (\<lambda>c. c \<noteq> 46) token)"
  using assms by (induction token) auto

text \<open>When a token is good for a credential at an instant.\<close>

definition token_good :: "('t :: linorder) CredentialStore \<Rightarrow> ustr \<Rightarrow> ustr \<Rightarrow> 't \<Rightarrow> bool" where
  "token_good store cid secret now \<longleftrightarrow> (\<exists>c raw. cs_bearers store cid = Some c \<and> utf8_encode secret = Some raw \<and>
     bc_secret_digest c = hmac_sha256 (cs_pepper store) raw \<and> bc_enabled c \<and> (\<forall>e. bc_expires_at c = Some e \<longrightarrow> now < e))"

lemma resolve_bearer_split:
  assumes "46 \<notin> set cid"
  shows "resolve_bearer store (cid @ 46 # secret) now = Inr p \<longleftrightarrow> token_good store cid secret now \<and>
    aliased_principal (cs_aliases store) (bc_principal_id (the (cs_bearers store cid))) cid = Inr p"
proof (cases "cs_bearers store cid")
  case None
  then show ?thesis by (simp add: resolve_bearer_def token_split [OF assms] Let_def secret_digest_def token_good_def)
next
  case (Some c)
  show ?thesis
    by (cases "bc_expires_at c")
      (auto simp: Some resolve_bearer_def token_split [OF assms] Let_def secret_digest_def token_good_def not_le)
qed

lemma resolve_bearer_iff:
  assumes "store_ok store"
  shows "resolve_bearer store token now = Inr p \<longleftrightarrow>
    (\<exists>cid secret. token = cid @ 46 # secret \<and> 46 \<notin> set cid \<and> token_good store cid secret now \<and>
      aliased_principal (cs_aliases store) (bc_principal_id (the (cs_bearers store cid))) cid = Inr p)"
proof (cases "46 \<in> set token")
  case False
  then show ?thesis by (auto simp: resolve_bearer_def)
next
  case True
  have "46 \<notin> set (takeWhile (\<lambda>c. c \<noteq> 46) token)" by (auto dest: set_takeWhileD)
  with token_parts [OF True] resolve_bearer_split token_split show ?thesis by metis
qed

end
