(* ===== verification/IdentityProperties.thy ===== *)
theory IdentityProperties
  imports Credentials
begin

text \<open>The theorems on aliases and credentials.\<close>

section \<open>Aliases\<close>

lemma map_leD: "m \<subseteq>\<^sub>m m' \<Longrightarrow> m k = Some v \<Longrightarrow> m' k = Some v"
  unfolding map_le_def by (metis domI)

lemma alias_add_iff:
  assumes "registry_ok r"
  shows "(\<exists>r' gen. alias_add r source target = Inr (r', gen)) \<longleftrightarrow>
      principal_text source \<and> principal_text target \<and> source \<noteq> target \<and>
      (fst (alias_resolve r source) = target \<or> source \<notin> fst ` set (ar_targets r) \<and> target \<notin> fst ` set (ar_targets r) \<and>
         source \<notin> (fst \<circ> snd) ` set (ar_targets r))" (is "?L \<longleftrightarrow> ?R")
proof (cases "map_of (ar_targets r) source")
  case None
  then have "alias_resolve r source = (source, 0)" by (simp add: alias_resolve_def)
  moreover have "source \<notin> fst ` set (ar_targets r)" using None by (simp add: map_of_eq_None_iff)
  moreover have "alias_add r source target = Inr (r', gen) \<longleftrightarrow> principal_text source \<and> principal_text target \<and> source \<noteq> target \<and>
      target \<notin> fst ` set (ar_targets r) \<and> source \<notin> (fst \<circ> snd) ` set (ar_targets r) \<and> gen = ar_next_generation r \<and>
      r' = r\<lparr> ar_targets := ar_targets r @ [(source, target, gen)], ar_next_generation := gen + 1 \<rparr>" for r' gen
    using None map_of_eq_None_iff [of "ar_targets r" target] by (auto simp: alias_add_def list_ex_iff)
  ultimately show ?thesis by auto
next
  case (Some e)
  obtain t g where e: "e = (t, g)" by (cases e)
  from Some e have "source \<in> fst ` set (ar_targets r)" by (force dest: map_of_SomeD)
  moreover have "alias_resolve r source = (t, g)" using Some e by (simp add: alias_resolve_def)
  moreover have "alias_add r source target = Inr (r', gen) \<longleftrightarrow> principal_text source \<and> principal_text target \<and> source \<noteq> target \<and>
      t = target \<and> r' = r \<and> gen = g" for r' gen using Some e by (auto simp: alias_add_def)
  ultimately show ?thesis by auto
qed

lemma alias_add_others:
  assumes "alias_add r source target = Inr (r', gen)" and "s \<noteq> source"
  shows "alias_resolve r' s = alias_resolve r s"
  using assms(1)
proof (cases rule: alias_add_cases)
  case new
  with assms(2) show ?thesis by (simp add: alias_resolve_def map_add_def split: option.splits)
qed simp

text \<open>
  Adding an alias succeeds exactly for two different canonical principals of which the source is either already mapped to this
  target, or is neither a source nor a target while the target is no source; it keeps the registry invariant (no chains, unique
  sources, generations \<open>1, 2, \<dots>\<close>), makes the source resolve to the target under the returned generation, changes no other
  resolution, and resolving is idempotent.
\<close>
theorem alias_add_exact:
  assumes "registry_ok r"
  shows "((\<exists>r' gen. alias_add r source target = Inr (r', gen)) \<longleftrightarrow>
      principal_text source \<and> principal_text target \<and> source \<noteq> target \<and>
      (fst (alias_resolve r source) = target \<or> source \<notin> fst ` set (ar_targets r) \<and> target \<notin> fst ` set (ar_targets r) \<and>
         source \<notin> (fst \<circ> snd) ` set (ar_targets r))) \<and>
    (\<forall>r' gen. alias_add r source target = Inr (r', gen) \<longrightarrow> registry_ok r' \<and> alias_resolve r' source = (target, gen) \<and>
      (\<forall>s. s \<noteq> source \<longrightarrow> alias_resolve r' s = alias_resolve r s) \<and>
      (\<forall>s. fst (alias_resolve r' (fst (alias_resolve r' s))) = fst (alias_resolve r' s)))"
  by (intro conjI allI impI alias_add_iff [OF assms])
    (blast intro: alias_add_keeps [OF assms] alias_add_resolve [OF assms] alias_add_others aliases.resolve_stable)+

definition demo_aliases :: AliasRegistry where
  "demo_aliases = \<lparr> ar_targets = [(u ''a2a:x'', u ''agent:y'', 1)], ar_next_generation = 2 \<rparr>"

lemma demo_principals:
  "principal_text (u ''a2a:x'')" "principal_text (u ''agent:y'')" "principal_text (u ''mcp:z'')" "principal_text (u ''a2a:c'')"
  by (simp_all add: principal_text_def PRINCIPAL_KINDS_def starts_with_def principal_char_def u_def)

lemma demo_aliases_ok: "registry_ok demo_aliases"
  by (simp add: registry_ok_def demo_aliases_def demo_principals)

theorem alias_add_exact_witness:
  "registry_ok demo_aliases \<and> (\<exists>r' gen. alias_add demo_aliases (u ''mcp:z'') (u ''agent:y'') = Inr (r', gen)) \<and>
    \<not> (\<exists>r' gen. alias_add demo_aliases (u ''agent:y'') (u ''mcp:z'') = Inr (r', gen))"
  using alias_add_exact [OF demo_aliases_ok, of "u ''mcp:z''" "u ''agent:y''"]
    alias_add_exact [OF demo_aliases_ok, of "u ''agent:y''" "u ''mcp:z''"] demo_aliases_ok demo_principals
  by (simp add: demo_aliases_def alias_resolve_def)

section \<open>Credentials\<close>

text \<open>
  A bearer token resolves exactly when it splits at its first dot into the identifier of a registered, enabled, unexpired
  credential and a secret whose peppered HMAC is the stored digest; the principal is then the alias target of the credential's
  principal. No other token resolves.
\<close>
theorem resolve_bearer_exact:
  assumes "store_ok store"
  shows "resolve_bearer store token now = Inr p \<longleftrightarrow>
    (\<exists>cid secret raw c. token = cid @ 46 # secret \<and> 46 \<notin> set cid \<and> cs_bearers store cid = Some c \<and>
       utf8_encode secret = Some raw \<and> hmac_sha256 (cs_pepper store) raw = bc_secret_digest c \<and> bc_enabled c \<and>
       (case bc_expires_at c of None \<Rightarrow> True | Some e \<Rightarrow> now < e) \<and>
       p = \<lparr> p_id = fst (alias_resolve (cs_aliases store) (bc_principal_id c)),
             p_kind = principal_prefix (fst (alias_resolve (cs_aliases store) (bc_principal_id c))),
             p_credential_id = Some cid, p_alias_generation = snd (alias_resolve (cs_aliases store) (bc_principal_id c)) \<rparr>)"
proof -
  have "principal_text (bc_principal_id c)" if "cs_bearers store cid = Some c" for cid c
    using assms that by (auto simp: store_ok_def)
  moreover have "registry_ok (cs_aliases store)" using assms by (simp add: store_ok_def)
  ultimately have "aliased_principal (cs_aliases store) (bc_principal_id c) cid = Inr p \<longleftrightarrow>
      p = \<lparr> p_id = fst (alias_resolve (cs_aliases store) (bc_principal_id c)),
             p_kind = principal_prefix (fst (alias_resolve (cs_aliases store) (bc_principal_id c))),
             p_credential_id = Some cid, p_alias_generation = snd (alias_resolve (cs_aliases store) (bc_principal_id c)) \<rparr>"
    if "cs_bearers store cid = Some c" for cid c
    using that by (auto simp: aliased_principal_ok)
  then have "token_good store cid secret now \<and>
      aliased_principal (cs_aliases store) (bc_principal_id (the (cs_bearers store cid))) cid = Inr p \<longleftrightarrow>
      (\<exists>raw c. cs_bearers store cid = Some c \<and> utf8_encode secret = Some raw \<and> hmac_sha256 (cs_pepper store) raw = bc_secret_digest c \<and>
       bc_enabled c \<and> (case bc_expires_at c of None \<Rightarrow> True | Some e \<Rightarrow> now < e) \<and>
       p = \<lparr> p_id = fst (alias_resolve (cs_aliases store) (bc_principal_id c)),
             p_kind = principal_prefix (fst (alias_resolve (cs_aliases store) (bc_principal_id c))),
             p_credential_id = Some cid, p_alias_generation = snd (alias_resolve (cs_aliases store) (bc_principal_id c)) \<rparr>)" for cid secret
    by (cases "cs_bearers store cid") (auto simp: token_good_def split: option.splits)
  then show ?thesis unfolding resolve_bearer_iff [OF assms] by (simp only:) blast
qed

text \<open>
  C26. A registered credential can be used and revoked: the token returned by \<open>register_bearer\<close> resolves, before its expiry and
  after any later calls for other credentials, NKeys and aliases, to the alias target of its principal; and after \<open>disable_bearer\<close>
  no token of that credential resolves.
\<close>
theorem bearer_lifecycle:
  assumes "store_ok store" and "register_bearer store cid secret pid ex = Inr (registered, token)"
    and "store_run registered later" and "cs_bearers later cid = cs_bearers registered cid"
    and "case ex of None \<Rightarrow> True | Some e \<Rightarrow> now < e" and "disable_bearer later cid = Inr disabled"
  shows "(\<exists>p. resolve_bearer later token now = Inr p \<and> p_credential_id p = Some cid \<and>
      (p_id p, p_alias_generation p) = alias_resolve (cs_aliases later) (principal_or_default pid cid)) \<and>
    (\<forall>other now'. \<exists>e. resolve_bearer disabled (cid @ 46 # other) now' = Inl e)"
proof -
  obtain raw where raw: "credential_text cid" "utf8_encode secret = Some raw" "principal_text (principal_or_default pid cid)"
      "token = cid @ 46 # secret" and reg: "registered = store\<lparr> cs_bearers := (cs_bearers store)(cid \<mapsto>
        \<lparr> bc_credential_id = cid, bc_principal_id = principal_or_default pid cid, bc_secret_digest = hmac_sha256 (cs_pepper store) raw,
          bc_expires_at = ex, bc_enabled = True \<rparr>) \<rparr>"
    using assms(2) unfolding register_bearer_eq by blast
  have dot: "46 \<notin> set cid" using raw(1) by (auto simp: credential_text_def list_ex_iff)
  have ok: "store_ok later"
    using store_run_ok [OF assms(3)] store_step_ok [OF store_step.bearer [OF assms(2)] assms(1)] by blast
  have c: "cs_bearers later cid = Some \<lparr> bc_credential_id = cid, bc_principal_id = principal_or_default pid cid,
      bc_secret_digest = hmac_sha256 (cs_pepper store) raw, bc_expires_at = ex, bc_enabled = True \<rparr>"
    using assms(4) reg by simp
  have "cs_pepper later = cs_pepper store" using store_run_keeps [OF assms(3)] reg by (simp add: identities_kept_def)
  then have "token_good later cid secret now" using c raw(2) assms(5) by (auto simp: token_good_def)
  moreover have "registry_ok (cs_aliases later)" using ok by (simp add: store_ok_def)
  ultimately have "\<exists>p. resolve_bearer later token now = Inr p \<and> p_credential_id p = Some cid \<and>
      (p_id p, p_alias_generation p) = alias_resolve (cs_aliases later) (principal_or_default pid cid)"
    using raw(3) by (simp add: raw(4) resolve_bearer_split [OF dot] c aliased_principal_ok)
  moreover have "\<not> token_good disabled cid other now'" for other now'
    using assms(6) by (auto simp: disable_bearer_eq token_good_def)
  then have "\<exists>e. resolve_bearer disabled (cid @ 46 # other) now' = Inl e" for other now'
    using resolve_bearer_split [OF dot] by (metis sum.exhaust_sel)
  ultimately show ?thesis by blast
qed

text \<open>
  C27. Identities are stable: over any sequence of calls the store keeps its invariant, no credential or NKey changes its
  principal, no alias is retargeted, and so a principal that was resolved through an alias is resolved the same way for ever.
\<close>
theorem identities_immutable:
  assumes "store_ok store" and "store_run store later"
  shows "store_ok later \<and> identities_kept store later \<and>
    (\<forall>k p. resolve_nkey store k = Inr p \<longrightarrow> p_alias_generation p \<noteq> 0 \<longrightarrow> resolve_nkey later k = Inr p)"
proof -
  have ok: "store_ok later" and kept: "identities_kept store later"
    using store_run_ok [OF assms(2,1)] store_run_keeps [OF assms(2)] by auto
  have "resolve_nkey later k = Inr p" if r: "resolve_nkey store k = Inr p" and g: "p_alias_generation p \<noteq> 0" for k p
  proof -
    obtain a i where e: "cs_nkeys store k = Some (a, i)" and p: "aliased_principal (cs_aliases store) i k = Inr p"
      using r by (auto simp: resolve_nkey_def split: option.splits prod.splits)
    have "alias_resolve (cs_aliases store) i = (p_id p, p_alias_generation p)"
      using p by (auto simp: aliased_principal_def split: prod.splits)
    then have "map_of (ar_targets (cs_aliases store)) i = Some (p_id p, p_alias_generation p)"
      using g by (auto simp: alias_resolve_def split: option.splits)
    then have "map_of (ar_targets (cs_aliases later)) i = map_of (ar_targets (cs_aliases store)) i" "cs_nkeys later k = Some (a, i)"
      using kept e by (auto simp: identities_kept_def dest: map_leD)
    then show ?thesis using p by (simp add: resolve_nkey_def aliased_principal_def alias_resolve_def)
  qed
  with ok kept show ?thesis by blast
qed

section \<open>A concrete store\<close>

definition demo_store :: "int CredentialStore" where
  "demo_store = \<lparr> cs_pepper = replicate 32 7, cs_bearers = Map.empty,
     cs_nkeys = [u ''UK'' \<mapsto> (u ''n'', u ''agent:n'')],
     cs_aliases = \<lparr> ar_targets = [(u ''a2a:c'', u ''agent:y'', 1), (u ''agent:n'', u ''agent:y'', 2)], ar_next_generation = 3 \<rparr> \<rparr>"

definition demo_secret :: ustr where
  "demo_secret = replicate 32 97"

lemma demo_store_ok: "store_ok demo_store"
proof -
  have "principal_text (u ''agent:n'')"
    by (simp add: principal_text_def PRINCIPAL_KINDS_def starts_with_def principal_char_def u_def)
  moreover have "registry_ok (cs_aliases demo_store)"
    using demo_principals \<open>principal_text (u ''agent:n'')\<close> by (simp add: registry_ok_def demo_store_def)
  ultimately show ?thesis by (auto simp: store_ok_def demo_store_def starts_with_def u_def split: if_splits)
qed

lemma demo_registered:
  obtains registered token where "register_bearer demo_store (u ''c'') demo_secret None (Some 100) = Inr (registered, token)"
    and "registered = demo_store\<lparr> cs_bearers := [u ''c'' \<mapsto> \<lparr> bc_credential_id = u ''c'', bc_principal_id = u ''a2a:c'',
       bc_secret_digest = hmac_sha256 (replicate 32 7) (replicate 32 97), bc_expires_at = Some 100, bc_enabled = True \<rparr>] \<rparr>"
    and "token = u ''c'' @ 46 # demo_secret"
proof -
  have "credential_text (u ''c'')" by (simp add: credential_text_def u_def)
  moreover have "utf8_encode demo_secret = Some (replicate 32 97)"
    by (simp add: demo_secret_def utf8_encode_ascii byte_of_def list_all_length)
  moreover have "u ''a2a:'' @ u ''c'' = u ''a2a:c''" by (simp add: u_def)
  ultimately show thesis using demo_principals(4)
    by (intro that [OF _ refl refl]) (simp add: register_bearer_eq principal_or_default_def demo_store_def)
qed

theorem resolve_bearer_exact_witness:
  "\<exists>registered token p. register_bearer demo_store (u ''c'') demo_secret None (Some 100) = Inr (registered, token) \<and>
     resolve_bearer registered token 99 = Inr p \<and> p_id p = u ''agent:y'' \<and> (\<forall>q. resolve_bearer registered token 100 \<noteq> Inr q)"
proof -
  obtain registered token where r: "register_bearer demo_store (u ''c'') demo_secret None (Some 100) = Inr (registered, token)"
    and st: "registered = demo_store\<lparr> cs_bearers := [u ''c'' \<mapsto> \<lparr> bc_credential_id = u ''c'', bc_principal_id = u ''a2a:c'',
       bc_secret_digest = hmac_sha256 (replicate 32 7) (replicate 32 97), bc_expires_at = Some 100, bc_enabled = True \<rparr>] \<rparr>"
    and tok: "token = u ''c'' @ 46 # demo_secret" by (rule demo_registered)
  have ok: "store_ok registered" by (rule store_step_ok [OF store_step.bearer [OF r] demo_store_ok])
  have "utf8_encode demo_secret = Some (replicate 32 97)" "46 \<notin> set (u ''c'')"
    by (simp_all add: demo_secret_def utf8_encode_ascii byte_of_def list_all_length u_def)
  moreover have "alias_resolve (cs_aliases demo_store) (u ''a2a:c'') = (u ''agent:y'', 1)" "cs_pepper demo_store = replicate 32 7"
    by (simp_all add: demo_store_def alias_resolve_def)
  ultimately have "resolve_bearer registered token 99 = Inr \<lparr> p_id = u ''agent:y'', p_kind = principal_prefix (u ''agent:y''),
      p_credential_id = Some (u ''c''), p_alias_generation = 1 \<rparr>"
    unfolding resolve_bearer_exact [OF ok] tok by (intro exI [of _ "u ''c''"] exI [of _ demo_secret]) (simp add: st)
  moreover have "resolve_bearer registered token 100 \<noteq> Inr q" for q
    unfolding resolve_bearer_exact [OF ok] by (auto simp: st split: if_splits)
  ultimately show ?thesis using r by auto
qed

theorem bearer_lifecycle_witness:
  "\<exists>registered token disabled p. register_bearer demo_store (u ''c'') demo_secret None (Some 100) = Inr (registered, token) \<and>
     resolve_bearer registered token 99 = Inr p \<and> disable_bearer registered (u ''c'') = Inr disabled \<and>
     (\<exists>e. resolve_bearer disabled (u ''c'' @ 46 # demo_secret) 99 = Inl e)"
proof -
  obtain registered token where r: "register_bearer demo_store (u ''c'') demo_secret None (Some 100) = Inr (registered, token)"
    and st: "registered = demo_store\<lparr> cs_bearers := [u ''c'' \<mapsto> \<lparr> bc_credential_id = u ''c'', bc_principal_id = u ''a2a:c'',
       bc_secret_digest = hmac_sha256 (replicate 32 7) (replicate 32 97), bc_expires_at = Some 100, bc_enabled = True \<rparr>] \<rparr>"
    by (rule demo_registered)
  obtain disabled where d: "disable_bearer registered (u ''c'') = Inr disabled" by (auto simp: disable_bearer_eq st)
  have "case Some 100 of None \<Rightarrow> True | Some e \<Rightarrow> (99 :: int) < e" by simp
  from bearer_lifecycle [OF demo_store_ok r rtranclp.rtrancl_refl refl this d] r d show ?thesis by blast
qed

theorem identities_immutable_witness:
  "\<exists>registered token p. register_bearer demo_store (u ''c'') demo_secret None (Some 100) = Inr (registered, token) \<and>
     resolve_nkey demo_store (u ''UK'') = Inr p \<and> p_alias_generation p = 2 \<and> resolve_nkey registered (u ''UK'') = Inr p"
proof -
  obtain registered token where r: "register_bearer demo_store (u ''c'') demo_secret None (Some 100) = Inr (registered, token)"
    by (rule demo_registered)
  have run: "store_run demo_store registered" using store_step.bearer [OF r] by blast
  have "alias_resolve (cs_aliases demo_store) (u ''agent:n'') = (u ''agent:y'', 2)" by (simp add: demo_store_def alias_resolve_def)
  then obtain p where p: "resolve_nkey demo_store (u ''UK'') = Inr p" "p_alias_generation p = 2"
    using demo_principals(2) by (simp add: resolve_nkey_def demo_store_def aliased_principal_def)
  with identities_immutable [OF demo_store_ok run] r show ?thesis by auto
qed

end
