(* ===== verification/Nkey.thy ===== *)
theory Nkey
  imports Json Base64url
begin

text \<open>
  NKey signatures (\<open>identity/nkey.py\<close>). The base32 and base64 decoders of the Python library are spelled out.
  The checksum \<open>nkeys.crc16\<close>, the prefix test \<open>nkeys.valid_public_prefix_byte\<close> and the Ed25519 verification of
  PyNaCl come from other packages: they are the fields of \<open>nkey_lib\<close>, an argument of the functions.
\<close>

section \<open>The functions of the other packages\<close>

record nkey_lib =
  nk_crc16 :: "bytes \<Rightarrow> 16 word"
  nk_public_prefix :: "byte \<Rightarrow> bool"
  nk_ed25519_verify :: "bytes \<Rightarrow> bytes \<Rightarrow> bytes \<Rightarrow> bool"  \<comment> \<open>key, message, signature\<close>

section \<open>Base 32\<close>

definition b32_val :: "nat \<Rightarrow> nat option" where
  "b32_val c = (if 65 \<le> c \<and> c \<le> 90 then Some (c - 65) else if 50 \<le> c \<and> c \<le> 55 then Some (c - 24) else None)"

text \<open>\<open>acc = (acc << 5) + b32rev[c]\<close> over a quantum.\<close>

fun b32_acc :: "nat \<Rightarrow> ustr \<Rightarrow> nat option" where
  "b32_acc acc [] = Some acc"
| "b32_acc acc (c # cs) = (case b32_val c of None \<Rightarrow> None | Some v \<Rightarrow> b32_acc (acc * 32 + v) cs)"

text \<open>The quanta of eight characters; the last one may be partial and is shifted to five bytes, of which
  the whole ones are kept.\<close>

function b32_quanta :: "ustr \<Rightarrow> bytes option" where
  "b32_quanta s =
     (if s = [] then Some []
      else if length s < 8 then
        map_option (\<lambda>acc. take ((43 - 5 * (8 - length s)) div 8) (be_bytes 5 (acc * 32 ^ (8 - length s)))) (b32_acc 0 s)
      else case b32_acc 0 (take 8 s) of None \<Rightarrow> None
        | Some acc \<Rightarrow> map_option (append (be_bytes 5 acc)) (b32_quanta (drop 8 s)))"
  by pat_completeness auto
termination by (relation "measure length") auto

declare b32_quanta.simps [simp del]

text \<open>\<open>base64.b32decode(s + "=" * (-len(s) % 8))\<close>.\<close>

definition b32_decode :: "ustr \<Rightarrow> bytes option" where
  "b32_decode s = (let padchars = (8 - length s mod 8) mod 8 in
     case b32_quanta s of None \<Rightarrow> None
     | Some bs \<Rightarrow> if padchars \<in> set [0, 1, 3, 4, 6] then Some bs else None)"

section \<open>The module\<close>

definition nkey_char :: "nat \<Rightarrow> bool" where
  "nkey_char c \<longleftrightarrow> 65 \<le> c \<and> c \<le> 90 \<or> 50 \<le> c \<and> c \<le> 55"

definition b64url_decode :: "ustr \<Rightarrow> bytes result" where
  "b64url_decode value = checked
     [Check (value \<noteq> [] \<and> list_all token_char value) (ValueError [''invalid base64url signature encoding''])]
     (case b64_decode (value @ replicate ((4 - length value mod 4) mod 4) 61) of
        None \<Rightarrow> Inl (ValueError [''invalid base64url signature encoding''])
      | Some decoded \<Rightarrow> checked
          [Check (b64url_nopad decoded = value) (ValueError [''non-canonical base64url signature encoding''])] (Inr decoded))"

definition decode_nkey_public_key :: "nkey_lib \<Rightarrow> ustr \<Rightarrow> bytes result" where
  "decode_nkey_public_key lib public_key = checked
     [Check (public_key \<noteq> [] \<and> list_all nkey_char public_key) (ValueError [''invalid NKey encoding''])]
     (case b32_decode public_key of None \<Rightarrow> Inl (ValueError [''invalid NKey encoding''])
      | Some raw \<Rightarrow>
          checked [Check (length raw = 35) (ValueError [''invalid NKey public-key length''])]
          (let payload = take 33 raw; checksum = drop 33 raw in
           checked [Check ([ucast (nk_crc16 lib payload), ucast (drop_bit 8 (nk_crc16 lib payload))] = checksum) (ValueError [''invalid NKey checksum'']),
                    Check (nk_public_prefix lib (payload ! 0)) (ValueError [''invalid NKey public prefix''])]
           (Inr (drop 1 payload))))"

definition sign_nkey :: "bytes \<Rightarrow> (bytes \<Rightarrow> bytes) \<Rightarrow> ustr" where
  "sign_nkey payload sign = b64url_nopad (sign payload)"

definition verify_nkey_signature :: "nkey_lib \<Rightarrow> ustr \<Rightarrow> bytes \<Rightarrow> ustr \<Rightarrow> unit result" where
  "verify_nkey_signature lib public_key payload signature =
     bindE (decode_nkey_public_key lib public_key) (\<lambda>verify_key.
     bindE (b64url_decode signature) (\<lambda>decoded.
     checked [Check (length decoded = 64) (ValueError [''invalid NKey signature length'']),
              Check (nk_ed25519_verify lib verify_key payload decoded) (ValueError [''invalid NKey signature''])] (Inr ())))"

section \<open>What is accepted\<close>

lemma pad_count:
  fixes n k m :: nat
  assumes "n + k = 4 * m" and "k < 3"
  shows "(4 - n mod 4) mod 4 = k"
proof (cases m)
  case 0
  with assms show ?thesis by simp
next
  case (Suc j)
  then have "k = 0 \<and> n = 4 * m \<or> k = 1 \<and> n = 4 * j + 3 \<or> k = 2 \<and> n = 4 * j + 2" using assms by linarith
  moreover have "(4 * j + 2) mod 4 = 2" "(4 * j + 3) mod 4 = 3" by presburger+
  ultimately show ?thesis by (elim disjE conjE) (simp_all only:, simp_all)
qed

lemma b64url_decode_encode:
  assumes "bs \<noteq> []"
  shows "b64url_decode (b64url_nopad bs) = Inr bs"
proof -
  obtain s k where sk: "b64_encode bs = s @ replicate k 61" "list_all token_char s"
    "length (s @ replicate k 61) = 4 * ((length bs + 2) div 3)" "k = (3 - length bs mod 3) mod 3"
    using b64_encode_tokens [of bs] by blast
  have nopad: "b64url_nopad bs = s" using sk(1,2) by (simp add: b64url_nopad_def strip_pad del: rev_append)
  have len: "length s + k = 4 * ((length bs + 2) div 3)" using sk(3) by simp
  have "k < 3" using sk(4) by simp
  with len have k: "(4 - length s mod 4) mod 4 = k" by (rule pad_count)
  have "0 < (length bs + 2) div 3" using assms by (cases bs) auto
  then have "s \<noteq> []" using len \<open>k < 3\<close> by (cases s) auto
  then show ?thesis using sk(2) b64_decode_encode [of bs] by (simp add: b64url_decode_def nopad k sk(1))
qed

lemma b64url_decode_canonical: "b64url_decode s = Inr bs \<Longrightarrow> b64url_nopad bs = s"
  by (auto simp: b64url_decode_def split: option.splits)

lemma b64url_decode_nonempty: "b64url_decode s = Inr bs \<Longrightarrow> bs \<noteq> []"
  by (auto simp: b64url_decode_def b64url_nopad_def split: option.splits)

lemma b64url_decode_iff: "b64url_decode s = Inr bs \<longleftrightarrow> bs \<noteq> [] \<and> s = b64url_nopad bs"
  using b64url_decode_encode b64url_decode_canonical b64url_decode_nonempty by metis

lemma verify_nkey_iff:
  "verify_nkey_signature lib pk payload signature = Inr () \<longleftrightarrow>
    (\<exists>key sig. decode_nkey_public_key lib pk = Inr key \<and> signature = b64url_nopad sig \<and> length sig = 64 \<and>
       nk_ed25519_verify lib key payload sig)"
proof -
  have "length sig = 64 \<Longrightarrow> sig \<noteq> []" for sig :: bytes by auto
  then show ?thesis unfolding verify_nkey_signature_def by (simp add: b64url_decode_iff) blast
qed

end
