(* ===== verification/AuthContexts.thy ===== *)
theory AuthContexts
  imports Identity Nkey
begin

text \<open>
  Signed internal AuthContext envelopes (\<open>identity/auth_context.py\<close>): the envelope, its canonical bytes, and the
  verifier with its table of seen requests. \<open>verify\<close> prunes the table before it checks anything, so it returns
  the new verifier state beside the result, also when it raises. The clock reading is an argument.
\<close>

section \<open>The envelope\<close>

record AuthContext =
  ac_principal_id :: ustr
  ac_credential_id :: "ustr option"
  ac_method :: ustr
  ac_issuer :: ustr
  ac_subject :: ustr
  ac_issued_at :: int
  ac_expires_at :: int
  ac_request_id :: ustr
  ac_target_agent_id :: ustr
  ac_alias_generation :: int

record AuthProof =
  ap_signer :: ustr
  ap_algorithm :: ustr
  ap_signature :: ustr

record SignerPolicy =
  sp_principal_ids :: "ustr set"
  sp_methods :: "ustr set"
  sp_subjects :: "ustr set"

definition auth_context_create ::
    "Principal \<Rightarrow> ustr \<Rightarrow> ustr \<Rightarrow> ustr \<Rightarrow> ustr \<Rightarrow> ustr \<Rightarrow> int \<Rightarrow> int \<Rightarrow> AuthContext result" where
  "auth_context_create p meth issuer subject request_id target now ttl_seconds = checked
     [Check (\<not> (ttl_seconds \<le> 0 \<or> ttl_seconds > 900)) (ValueError [''AuthContext TTL must be between 1 and 900 seconds''])]
     (Inr \<lparr> ac_principal_id = p_id p, ac_credential_id = p_credential_id p, ac_method = meth, ac_issuer = issuer,
        ac_subject = subject, ac_issued_at = now, ac_expires_at = now + ttl_seconds, ac_request_id = request_id,
        ac_target_agent_id = target, ac_alias_generation = p_alias_generation p \<rparr>)"

definition auth_context_dict :: "AuthContext \<Rightarrow> dict" where
  "auth_context_dict c = dict_of
     [(u ''principal_id'', JStr (ac_principal_id c)),
      (u ''credential_id'', (case ac_credential_id c of None \<Rightarrow> JNull | Some s \<Rightarrow> JStr s)),
      (u ''method'', JStr (ac_method c)), (u ''issuer'', JStr (ac_issuer c)), (u ''subject'', JStr (ac_subject c)),
      (u ''issued_at'', JInt (ac_issued_at c)), (u ''expires_at'', JInt (ac_expires_at c)),
      (u ''request_id'', JStr (ac_request_id c)), (u ''target_agent_id'', JStr (ac_target_agent_id c)),
      (u ''alias_generation'', JInt (ac_alias_generation c))]"

text \<open>\<open>json.dumps(\<dots>, sort_keys=True, separators=(",", ":"), ensure_ascii=False)\<close> of this dictionary is its RFC 8785
  text: the names are ASCII, the values strings, integers and \<open>null\<close>, escaped alike.\<close>

definition context_canonical_bytes :: "AuthContext \<Rightarrow> bytes result" where
  "context_canonical_bytes c = enc_utf8 (jcs (JObj (auth_context_dict c)))"

definition sign_auth_context :: "ustr \<Rightarrow> (bytes \<Rightarrow> bytes) \<Rightarrow> AuthContext \<Rightarrow> AuthProof result" where
  "sign_auth_context public_key sign c = bindE (context_canonical_bytes c) (\<lambda>bs.
     Inr \<lparr> ap_signer = public_key, ap_algorithm = u ''nkey-ed25519'', ap_signature = sign_nkey bs sign \<rparr>)"

section \<open>The verifier\<close>

record AuthContextVerifier =
  av_signer_policies :: "ustr \<rightharpoonup> SignerPolicy"
  av_clock_skew_seconds :: int
  av_seen :: "ustr \<rightharpoonup> int"

definition prune_seen :: "int \<Rightarrow> (ustr \<rightharpoonup> int) \<Rightarrow> (ustr \<rightharpoonup> int)" where
  "prune_seen current seen = (\<lambda>key. case seen key of None \<Rightarrow> None | Some expiry \<Rightarrow> if expiry \<ge> current then Some expiry else None)"

definition policy_for :: "AuthContextVerifier \<Rightarrow> AuthProof \<Rightarrow> SignerPolicy result" where
  "policy_for v proof = (case av_signer_policies v (ap_signer proof) of
     Some policy \<Rightarrow> checked [Check (ap_algorithm proof = u ''nkey-ed25519'') (ValueError [''untrusted AuthContext signer''])] (Inr policy)
   | None \<Rightarrow> Inl (ValueError [''untrusted AuthContext signer'']))"

text \<open>The guards between the policy lookup and the signature, in source order.\<close>

definition context_checks ::
    "AuthContextVerifier \<Rightarrow> SignerPolicy \<Rightarrow> AuthContext \<Rightarrow> ustr \<Rightarrow> int \<Rightarrow> check list" where
  "context_checks v policy c expected_target current =
     [Check (ac_principal_id c \<in> sp_principal_ids policy) (ValueError [''signer cannot represent this principal'']),
      Check (ac_method c \<in> sp_methods policy) (ValueError [''signer cannot use this authentication method'']),
      Check (ac_subject c \<in> sp_subjects policy) (ValueError [''signer cannot represent this subject'']),
      Check (ac_target_agent_id c = expected_target) (ValueError [''AuthContext target mismatch'']),
      Check (\<not> ac_issued_at c > current + av_clock_skew_seconds v) (ValueError [''AuthContext was issued in the future'']),
      Check (\<not> ac_expires_at c < current - av_clock_skew_seconds v) (ValueError [''AuthContext expired'']),
      Check (\<not> (ac_expires_at c \<le> ac_issued_at c \<or> ac_expires_at c - ac_issued_at c > 900))
        (ValueError [''invalid AuthContext lifetime'']),
      Check (av_seen v (ac_request_id c) = None) (ValueError [''AuthContext replay detected''])]"

text \<open>\<open>except ValueError\<close> also catches the encoding error of the canonical bytes.\<close>

definition signature_valid :: "nkey_lib \<Rightarrow> AuthContext \<Rightarrow> AuthProof \<Rightarrow> bool" where
  "signature_valid lib c proof \<longleftrightarrow> returns (bindE (context_canonical_bytes c)
     (\<lambda>bs. verify_nkey_signature lib (ap_signer proof) bs (ap_signature proof)))"

definition auth_guards :: "nkey_lib \<Rightarrow> AuthContextVerifier \<Rightarrow> AuthContext \<Rightarrow> AuthProof \<Rightarrow> ustr \<Rightarrow> int \<Rightarrow> unit result" where
  "auth_guards lib v c proof expected_target current =
     bindE (policy_for v proof) (\<lambda>policy. checked (context_checks v policy c expected_target current @
       [Check (signature_valid lib c proof) (ValueError [''invalid AuthContext signature''])]) (Inr ()))"

definition auth_verify ::
    "nkey_lib \<Rightarrow> AuthContextVerifier \<Rightarrow> AuthContext \<Rightarrow> AuthProof \<Rightarrow> ustr \<Rightarrow> int \<Rightarrow> AuthContextVerifier \<times> Principal result" where
  "auth_verify lib v0 c proof expected_target current =
     (let v = v0\<lparr> av_seen := prune_seen current (av_seen v0) \<rparr> in
      case auth_guards lib v c proof expected_target current of
        Inl e \<Rightarrow> (v, Inl e)
      | Inr _ \<Rightarrow> (v\<lparr> av_seen := (av_seen v)(ac_request_id c \<mapsto> ac_expires_at c) \<rparr>,
          make_principal (ac_principal_id c) (principal_prefix (ac_principal_id c)) (ac_credential_id c) (ac_alias_generation c)))"

section \<open>What is accepted\<close>

text \<open>The static part of acceptance: everything but the table of seen requests.\<close>

definition context_valid :: "nkey_lib \<Rightarrow> AuthContextVerifier \<Rightarrow> AuthContext \<Rightarrow> AuthProof \<Rightarrow> ustr \<Rightarrow> int \<Rightarrow> bool" where
  "context_valid lib v c proof target now \<longleftrightarrow>
     (\<exists>policy. av_signer_policies v (ap_signer proof) = Some policy \<and> ac_principal_id c \<in> sp_principal_ids policy \<and>
        ac_method c \<in> sp_methods policy \<and> ac_subject c \<in> sp_subjects policy) \<and>
     ap_algorithm proof = u ''nkey-ed25519'' \<and> ac_target_agent_id c = target \<and>
     ac_issued_at c - av_clock_skew_seconds v \<le> now \<and> now \<le> ac_expires_at c + av_clock_skew_seconds v \<and>
     0 < ac_expires_at c - ac_issued_at c \<and> ac_expires_at c - ac_issued_at c \<le> 900 \<and> signature_valid lib c proof"

lemma prune_seen_None: "prune_seen now seen k = None \<longleftrightarrow> (case seen k of None \<Rightarrow> True | Some e \<Rightarrow> e < now)"
  by (auto simp: prune_seen_def split: option.splits)

lemma guards_iff:
  "auth_guards lib v c proof target now = Inr r \<longleftrightarrow>
    context_valid lib v c proof target now \<and> av_seen v (ac_request_id c) = None"
  by (cases "av_signer_policies v (ap_signer proof)")
    (auto simp: auth_guards_def policy_for_def context_valid_def context_checks_def)

text \<open>The two outcomes of a call.\<close>

lemma auth_verify_eq:
  "auth_verify lib v c proof target now =
    (if context_valid lib v c proof target now \<and> prune_seen now (av_seen v) (ac_request_id c) = None
     then (v\<lparr> av_seen := (prune_seen now (av_seen v))(ac_request_id c \<mapsto> ac_expires_at c) \<rparr>,
       make_principal (ac_principal_id c) (principal_prefix (ac_principal_id c)) (ac_credential_id c) (ac_alias_generation c))
     else (v\<lparr> av_seen := prune_seen now (av_seen v) \<rparr>, snd (auth_verify lib v c proof target now)))"
proof -
  let ?v = "v\<lparr> av_seen := prune_seen now (av_seen v) \<rparr>"
  let ?m = "auth_guards lib ?v c proof target now"
  have "returns ?m \<longleftrightarrow> context_valid lib v c proof target now \<and> prune_seen now (av_seen v) (ac_request_id c) = None"
    unfolding returns_iff guards_iff by (simp add: context_valid_def)
  then show ?thesis by (cases ?m) (auto simp: auth_verify_def Let_def)
qed

lemma auth_verify_raises:
  assumes "\<not> (context_valid lib v c proof target now \<and> prune_seen now (av_seen v) (ac_request_id c) = None)"
  shows "\<exists>e. snd (auth_verify lib v c proof target now) = Inl e"
proof -
  let ?v = "v\<lparr> av_seen := prune_seen now (av_seen v) \<rparr>"
  let ?m = "auth_guards lib ?v c proof target now"
  have "\<not> returns ?m" using assms unfolding returns_iff guards_iff by (simp add: context_valid_def)
  then show ?thesis by (cases ?m) (simp_all add: auth_verify_def Let_def)
qed

section \<open>Sequences of calls\<close>

type_synonym auth_call = "AuthContext \<times> AuthProof \<times> ustr \<times> int"

text \<open>The verifier after a sequence of calls, accepted and refused.\<close>

fun after_calls :: "nkey_lib \<Rightarrow> AuthContextVerifier \<Rightarrow> auth_call list \<Rightarrow> AuthContextVerifier" where
  "after_calls lib v [] = v"
| "after_calls lib v ((c, proof, target, now) # calls) = after_calls lib (fst (auth_verify lib v c proof target now)) calls"

lemma verify_config [simp]:
  "av_signer_policies (fst (auth_verify lib v c proof target now)) = av_signer_policies v"
  "av_clock_skew_seconds (fst (auth_verify lib v c proof target now)) = av_clock_skew_seconds v"
  by (subst auth_verify_eq, simp)+

text \<open>An entry of the table is kept until its expiry has passed.\<close>

lemma seen_kept:
  assumes "av_seen v k = Some e" and "now \<le> e"
  shows "av_seen (fst (auth_verify lib v c proof target now)) k = Some e"
proof -
  have p: "prune_seen now (av_seen v) k = Some e" using assms by (simp add: prune_seen_def)
  show ?thesis
  proof (cases "ac_request_id c = k")
    case True
    with p show ?thesis by (subst auth_verify_eq) simp
  next
    case False
    with p show ?thesis by (subst auth_verify_eq) (simp add: fun_upd_def)
  qed
qed

lemma seen_kept_calls:
  "av_seen v k = Some e \<Longrightarrow> \<forall>(c, proof, target, now) \<in> set calls. now \<le> e \<Longrightarrow> av_seen (after_calls lib v calls) k = Some e"
proof (induction calls arbitrary: v)
  case (Cons call calls)
  obtain c pf target now where "call = (c, pf, target, now)" by (cases call) auto
  with Cons show ?case using seen_kept by simp
qed simp

end
