(* ===== verification/AuthProperties.thy ===== *)
theory AuthProperties
  imports AuthContexts
begin

text \<open>The theorems on signed AuthContext envelopes and their replay protection.\<close>

section \<open>Canonical bytes\<close>

definition context_encodable :: "AuthContext \<Rightarrow> bool" where
  "context_encodable c \<longleftrightarrow> list_all (list_all scalar_value) [ac_principal_id c, ac_method c, ac_issuer c, ac_subject c,
       ac_request_id c, ac_target_agent_id c] \<and> (case ac_credential_id c of None \<Rightarrow> True | Some s \<Rightarrow> list_all scalar_value s) \<and>
     \<bar>ac_issued_at c\<bar> \<le> MAX_SAFE_INTEGER \<and> \<bar>ac_expires_at c\<bar> \<le> MAX_SAFE_INTEGER \<and> \<bar>ac_alias_generation c\<bar> \<le> MAX_SAFE_INTEGER"

lemma context_dict_jwf: "context_encodable c \<Longrightarrow> jwf (JObj (auth_context_dict c))"
  unfolding auth_context_dict_def
  by (rule jwf_dict_of) (auto simp: context_encodable_def u_def scalar_ascii split: option.splits)

lemma context_bytes_dumps:
  "context_encodable c \<Longrightarrow> context_canonical_bytes c = Inr bs \<longleftrightarrow> jcs_dumps (JObj (auth_context_dict c)) = Some bs"
  using context_dict_jwf by (simp add: context_canonical_bytes_def jcs_dumps_def)

lemma context_dict_inj:
  assumes "auth_context_dict c = auth_context_dict c'"
  shows "c = c'"
proof -
  have m: "map_of (auth_context_dict c) (u k) = map_of (auth_context_dict c') (u k)" for k using assms by simp
  note facts = m [of "''principal_id''"] m [of "''credential_id''"] m [of "''method''"] m [of "''issuer''"] m [of "''subject''"]
    m [of "''issued_at''"] m [of "''expires_at''"] m [of "''request_id''"] m [of "''target_agent_id''"] m [of "''alias_generation''"]
  show ?thesis
    using facts by (intro AuthContext.equality) (auto simp: auth_context_dict_def map_of_dict_of split: option.splits)
qed

lemma signed_valid:
  assumes "decode_nkey_public_key lib pk = Inr key" and "\<And>m. length (sign m) = 64 \<and> nk_ed25519_verify lib key m (sign m)"
    and "sign_auth_context pk sign c = Inr pf"
  shows "signature_valid lib c pf \<and> ap_signer pf = pk \<and> ap_algorithm pf = u ''nkey-ed25519''"
proof -
  obtain bs where bs: "context_canonical_bytes c = Inr bs" and
    p: "pf = \<lparr> ap_signer = pk, ap_algorithm = u ''nkey-ed25519'', ap_signature = b64url_nopad (sign bs) \<rparr>"
    using assms(3) by (auto simp: sign_auth_context_def sign_nkey_def)
  have "verify_nkey_signature lib pk bs (b64url_nopad (sign bs)) = Inr ()"
    unfolding verify_nkey_iff using assms(1,2) by blast
  with bs p show ?thesis by (simp add: signature_valid_def)
qed

section \<open>Theorems\<close>


lemma accepted_seen:
  assumes "snd (auth_verify lib v c pf target now) = Inr p"
  shows "av_seen (fst (auth_verify lib v c pf target now)) = (prune_seen now (av_seen v))(ac_request_id c \<mapsto> ac_expires_at c)"
    and "context_valid lib v c pf target now"
    and "make_principal (ac_principal_id c) (principal_prefix (ac_principal_id c)) (ac_credential_id c) (ac_alias_generation c) = Inr p"
proof -
  have g: "context_valid lib v c pf target now \<and> prune_seen now (av_seen v) (ac_request_id c) = None"
    using auth_verify_raises assms by (metis Inl_Inr_False)
  then show "context_valid lib v c pf target now" by blast
  from g have "auth_verify lib v c pf target now = (v\<lparr> av_seen := (prune_seen now (av_seen v))(ac_request_id c \<mapsto> ac_expires_at c) \<rparr>,
      make_principal (ac_principal_id c) (principal_prefix (ac_principal_id c)) (ac_credential_id c) (ac_alias_generation c))"
    by (subst auth_verify_eq) simp
  with assms show "av_seen (fst (auth_verify lib v c pf target now)) = (prune_seen now (av_seen v))(ac_request_id c \<mapsto> ac_expires_at c)"
    and "make_principal (ac_principal_id c) (principal_prefix (ac_principal_id c)) (ac_credential_id c) (ac_alias_generation c) = Inr p"
    by (simp_all del: make_principal_eq)
qed

text \<open>
  C24. Replays are refused while the first context is unexpired: once a context is accepted, then after any further calls no
  context with the same request identifier is accepted, as long as the clock has not passed the expiry of the first one.
\<close>
theorem auth_replay_refused:
  assumes "snd (auth_verify lib v c pf target t) = Inr p"
    and "\<forall>(c', pf', target', now') \<in> set calls. now' \<le> ac_expires_at c"
    and "ac_request_id c' = ac_request_id c" and "now \<le> ac_expires_at c"
  shows "\<exists>e. snd (auth_verify lib (after_calls lib (fst (auth_verify lib v c pf target t)) calls) c' pf' target' now) = Inl e"
proof -
  let ?v = "after_calls lib (fst (auth_verify lib v c pf target t)) calls"
  have "av_seen ?v (ac_request_id c) = Some (ac_expires_at c)"
    using accepted_seen(1) [OF assms(1)] assms(2) by (intro seen_kept_calls) simp_all
  then have "prune_seen now (av_seen ?v) (ac_request_id c') \<noteq> None"
    using assms(3,4) by (simp add: prune_seen_def)
  then show ?thesis by (intro auth_verify_raises) blast
qed

text \<open>
  C25. Replays are not refused in the skew window after expiry: a context that was accepted once is accepted again, with the same
  proof, at every instant after its expiry that the clock skew still tolerates, because the table entry is pruned as soon as the
  expiry itself has passed.
\<close>
theorem auth_replay_after_expiry:
  assumes "snd (auth_verify lib v c pf target t) = Inr p"
    and "ac_expires_at c < now" and "now \<le> ac_expires_at c + av_clock_skew_seconds v"
  shows "snd (auth_verify lib (fst (auth_verify lib v c pf target t)) c pf target now) = Inr p"
proof -
  let ?v = "fst (auth_verify lib v c pf target t)"
  note a = accepted_seen [OF assms(1)]
  have "context_valid lib ?v c pf target now" using a(2) assms(2,3) by (simp add: context_valid_def)
  moreover have "prune_seen now (av_seen ?v) (ac_request_id c) = None" using a(1) assms(2) by (simp add: prune_seen_def)
  ultimately have "snd (auth_verify lib ?v c pf target now) = make_principal (ac_principal_id c) (principal_prefix (ac_principal_id c))
      (ac_credential_id c) (ac_alias_generation c)" by (subst auth_verify_eq) simp
  then show ?thesis using a(3) by simp
qed

text \<open>
  Creating, signing and verifying round-trips, and binds the whole context: a context created for a canonical principal and
  signed with a key whose signatures verify is accepted, within its lifetime, by a verifier whose policy covers it, and yields
  that principal; and a context with the same signed bytes is the same context.
\<close>
theorem auth_context_roundtrip:
  assumes "decode_nkey_public_key lib pk = Inr key" and "\<And>m. length (sign m) = 64 \<and> nk_ed25519_verify lib key m (sign m)"
    and "auth_context_create q meth issuer subject rid target t ttl = Inr c" and "principal_text (p_id q)" and "p_kind q = principal_prefix (p_id q)"
    and "context_encodable c"
    and "av_signer_policies v pk = Some \<lparr> sp_principal_ids = ids, sp_methods = ms, sp_subjects = ss \<rparr>"
    and "p_id q \<in> ids" and "meth \<in> ms" and "subject \<in> ss" and "av_seen v rid = None" and "0 \<le> av_clock_skew_seconds v"
    and "t \<le> now" and "now \<le> t + ttl"
  shows "(\<exists>pf. sign_auth_context pk sign c = Inr pf \<and> snd (auth_verify lib v c pf target now) = Inr q) \<and>
    (\<forall>c'. context_encodable c' \<longrightarrow> context_canonical_bytes c' = context_canonical_bytes c \<longrightarrow> c' = c)"
proof -
  obtain bs where bs: "jcs_dumps (JObj (auth_context_dict c)) = Some bs"
    using jcs.dumps_wf [OF context_dict_jwf [OF assms(6)]] by blast
  then have cb: "context_canonical_bytes c = Inr bs" using context_bytes_dumps [OF assms(6)] by simp
  then obtain pf where pf: "sign_auth_context pk sign c = Inr pf" by (auto simp: sign_auth_context_def)
  have c: "0 < ttl" "ttl \<le> 900" "c = \<lparr> ac_principal_id = p_id q, ac_credential_id = p_credential_id q, ac_method = meth, ac_issuer = issuer,
        ac_subject = subject, ac_issued_at = t, ac_expires_at = t + ttl, ac_request_id = rid,
        ac_target_agent_id = target, ac_alias_generation = p_alias_generation q \<rparr>"
    using assms(3) by (auto simp: auth_context_create_def)
  have valid: "context_valid lib v c pf target now"
    using signed_valid [OF assms(1,2) pf] c assms(7-14) by (auto simp: context_valid_def)
  have "snd (auth_verify lib v c pf target now) = Inr q"
    using valid c(3) assms(4,5,11) by (subst auth_verify_eq) (simp add: prune_seen_None)
  moreover have "c' = c" if e: "context_encodable c'" and same: "context_canonical_bytes c' = context_canonical_bytes c" for c'
  proof -
    have "jcs_dumps (JObj (auth_context_dict c')) = Some bs" using same cb context_bytes_dumps [OF e] by simp
    with bs have "JObj (auth_context_dict c') = JObj (auth_context_dict c)"
      by (intro jcs.dumps_inj [OF context_dict_jwf [OF e] context_dict_jwf [OF assms(6)]])
    then show ?thesis using context_dict_inj by simp
  qed
  ultimately show ?thesis using pf by blast
qed

section \<open>A concrete signer and context\<close>

text \<open>An instance of the parameters with a signature that verifies: the hash of the message and the key.\<close>

definition demo_lib :: nkey_lib where
  "demo_lib = \<lparr> nk_crc16 = \<lambda>_. 0, nk_public_prefix = \<lambda>_. True, nk_ed25519_verify = \<lambda>key m s. s = sha256 m @ key \<rparr>"

definition demo_sign :: "bytes \<Rightarrow> bytes" where
  "demo_sign m = sha256 m @ replicate 32 0"

definition demo_pk :: ustr where
  "demo_pk = replicate 56 65"

definition demo_principal :: Principal where
  "demo_principal = \<lparr> p_id = u ''a2a:x'', p_kind = u ''a2a'', p_credential_id = Some (u ''x''), p_alias_generation = 0 \<rparr>"

definition demo_context :: AuthContext where
  "demo_context = \<lparr> ac_principal_id = u ''a2a:x'', ac_credential_id = Some (u ''x''), ac_method = u ''bearer'', ac_issuer = u ''gw'',
     ac_subject = u ''s'', ac_issued_at = 100, ac_expires_at = 400, ac_request_id = u ''r1'', ac_target_agent_id = u ''t'',
     ac_alias_generation = 0 \<rparr>"

definition demo_verifier :: AuthContextVerifier where
  "demo_verifier = \<lparr> av_signer_policies = [demo_pk \<mapsto> \<lparr> sp_principal_ids = {u ''a2a:x''}, sp_methods = {u ''bearer''}, sp_subjects = {u ''s''} \<rparr>],
     av_clock_skew_seconds = 30, av_seen = Map.empty \<rparr>"

lemma demo_pk_decodes: "decode_nkey_public_key demo_lib demo_pk = Inr (replicate 32 0)"
proof -
  have "b32_decode demo_pk = Some (replicate 35 0)" unfolding demo_pk_def by code_simp
  moreover have "demo_pk \<noteq> []" "list_all nkey_char demo_pk" by (simp_all add: demo_pk_def list_all_iff nkey_char_def)
  moreover have "drop 33 (replicate 35 (0 :: byte)) = [0, 0]" "drop (Suc 0) (replicate 33 (0 :: byte)) = replicate 32 0"
    by (simp_all add: numeral_2_eq_2)
  ultimately show ?thesis
    by (simp add: decode_nkey_public_key_def demo_lib_def checked_Cons del: drop_replicate)
qed

lemma demo_sign_verifies: "length (demo_sign m) = 64 \<and> nk_ed25519_verify demo_lib (replicate 32 0) m (demo_sign m)"
  by (simp add: demo_sign_def demo_lib_def length_sha256)

lemma demo_created:
  "auth_context_create demo_principal (u ''bearer'') (u ''gw'') (u ''s'') (u ''r1'') (u ''t'') 100 300 = Inr demo_context"
  by (simp add: auth_context_create_def demo_context_def demo_principal_def)

lemma demo_encodable: "context_encodable demo_context"
  by (simp add: context_encodable_def demo_context_def u_def scalar_value_def MAX_SAFE_INTEGER_def)

lemma demo_canonical: "principal_text (p_id demo_principal)" "p_kind demo_principal = principal_prefix (p_id demo_principal)"
  by (simp_all add: demo_principal_def principal_text_def PRINCIPAL_KINDS_def starts_with_def principal_char_def principal_prefix_def u_def)

lemma demo_policy: "av_signer_policies demo_verifier demo_pk =
    Some \<lparr> sp_principal_ids = {u ''a2a:x''}, sp_methods = {u ''bearer''}, sp_subjects = {u ''s''} \<rparr>"
  by (simp add: demo_verifier_def)

theorem auth_context_roundtrip_witness:
  "\<exists>pf. sign_auth_context demo_pk demo_sign demo_context = Inr pf \<and>
     snd (auth_verify demo_lib demo_verifier demo_context pf (u ''t'') 200) = Inr demo_principal"
  using auth_context_roundtrip [OF demo_pk_decodes demo_sign_verifies demo_created demo_canonical demo_encodable demo_policy, of 200]
  by (simp add: demo_principal_def demo_verifier_def)

text \<open>A valid proof for the demonstration context.\<close>

lemma demo_accepted:
  obtains pf where "snd (auth_verify demo_lib demo_verifier demo_context pf (u ''t'') 200) = Inr demo_principal"
proof -
  have "jwf (JObj (auth_context_dict demo_context))" by (rule context_dict_jwf [OF demo_encodable])
  then obtain bs where "context_canonical_bytes demo_context = Inr bs"
    using jcs.dumps_wf context_bytes_dumps [OF demo_encodable] by blast
  then obtain pf where pf: "sign_auth_context demo_pk demo_sign demo_context = Inr pf" by (auto simp: sign_auth_context_def)
  have "context_valid demo_lib demo_verifier demo_context pf (u ''t'') 200"
    using signed_valid [OF demo_pk_decodes demo_sign_verifies pf] by (simp add: context_valid_def demo_context_def demo_verifier_def)
  then have "snd (auth_verify demo_lib demo_verifier demo_context pf (u ''t'') 200) = Inr demo_principal"
    using demo_canonical by (subst auth_verify_eq) (simp add: prune_seen_None demo_verifier_def demo_context_def demo_principal_def)
  then show thesis by (rule that)
qed

theorem auth_replay_refused_witness:
  "\<exists>pf e. snd (auth_verify demo_lib demo_verifier demo_context pf (u ''t'') 200) = Inr demo_principal \<and>
     snd (auth_verify demo_lib (fst (auth_verify demo_lib demo_verifier demo_context pf (u ''t'') 200)) demo_context pf (u ''t'') 400) = Inl e"
proof -
  obtain pf where a: "snd (auth_verify demo_lib demo_verifier demo_context pf (u ''t'') 200) = Inr demo_principal" by (rule demo_accepted)
  have "400 \<le> ac_expires_at demo_context" by (simp add: demo_context_def)
  from auth_replay_refused [OF a _ refl this, of "[]"] a show ?thesis by auto
qed

theorem auth_replay_after_expiry_witness:
  "\<exists>pf. snd (auth_verify demo_lib demo_verifier demo_context pf (u ''t'') 200) = Inr demo_principal \<and>
     snd (auth_verify demo_lib (fst (auth_verify demo_lib demo_verifier demo_context pf (u ''t'') 200)) demo_context pf (u ''t'') 401) =
       Inr demo_principal"
proof -
  obtain pf where a: "snd (auth_verify demo_lib demo_verifier demo_context pf (u ''t'') 200) = Inr demo_principal" by (rule demo_accepted)
  have "ac_expires_at demo_context < 401" "401 \<le> ac_expires_at demo_context + av_clock_skew_seconds demo_verifier"
    by (simp_all add: demo_context_def demo_verifier_def)
  from auth_replay_after_expiry [OF a this] a show ?thesis by blast
qed

end
