(* ===== verification/Operations.thy ===== *)
theory Operations
  imports Identity
begin

text \<open>
  The registry of the eleven operations (\<open>core/operations.py\<close>) and unary dispatch to the application core
  (\<open>core/application.py\<close>). The message classes of the pinned SDK are names; a message is a value of any type
  \<open>'m\<close> of which the code reads its class and its \<open>tenant\<close> attribute (\<open>message_lib\<close>). The application is the
  partial map from handler names to its callable attributes; a handler is the application's own code, which may
  change its state \<open>'s\<close> and may raise.
\<close>

section \<open>The registry\<close>

datatype Operation = SEND_MESSAGE | SEND_STREAMING_MESSAGE | GET_TASK | LIST_TASKS | CANCEL_TASK | SUBSCRIBE_TO_TASK
  | CREATE_TASK_PUSH_NOTIFICATION_CONFIG | GET_TASK_PUSH_NOTIFICATION_CONFIG | LIST_TASK_PUSH_NOTIFICATION_CONFIGS
  | DELETE_TASK_PUSH_NOTIFICATION_CONFIG | GET_EXTENDED_AGENT_CARD

fun operation_name :: "Operation \<Rightarrow> string" where
  "operation_name SEND_MESSAGE = ''SendMessage''"
| "operation_name SEND_STREAMING_MESSAGE = ''SendStreamingMessage''"
| "operation_name GET_TASK = ''GetTask''"
| "operation_name LIST_TASKS = ''ListTasks''"
| "operation_name CANCEL_TASK = ''CancelTask''"
| "operation_name SUBSCRIBE_TO_TASK = ''SubscribeToTask''"
| "operation_name CREATE_TASK_PUSH_NOTIFICATION_CONFIG = ''CreateTaskPushNotificationConfig''"
| "operation_name GET_TASK_PUSH_NOTIFICATION_CONFIG = ''GetTaskPushNotificationConfig''"
| "operation_name LIST_TASK_PUSH_NOTIFICATION_CONFIGS = ''ListTaskPushNotificationConfigs''"
| "operation_name DELETE_TASK_PUSH_NOTIFICATION_CONFIG = ''DeleteTaskPushNotificationConfig''"
| "operation_name GET_EXTENDED_AGENT_CARD = ''GetExtendedAgentCard''"

definition all_operations :: "Operation list" where
  "all_operations = [SEND_MESSAGE, SEND_STREAMING_MESSAGE, GET_TASK, LIST_TASKS, CANCEL_TASK, SUBSCRIBE_TO_TASK,
     CREATE_TASK_PUSH_NOTIFICATION_CONFIG, GET_TASK_PUSH_NOTIFICATION_CONFIG, LIST_TASK_PUSH_NOTIFICATION_CONFIGS,
     DELETE_TASK_PUSH_NOTIFICATION_CONFIG, GET_EXTENDED_AGENT_CARD]"

text \<open>\<open>Operation(value)\<close>.\<close>

definition parse_rpc_operation :: "ustr \<Rightarrow> Operation option" where
  "parse_rpc_operation s = List.find (\<lambda>oper. u (operation_name oper) = s) all_operations"

datatype DeliveryProfile = CORE | INTEROP | EXTENDED

datatype CapabilityRequirement = NONE | PUSH_NOTIFICATIONS | EXTENDED_AGENT_CARD

datatype OperationAvailability = ENABLED | PUSH_NOTIFICATION_NOT_SUPPORTED | UNSUPPORTED_OPERATION

record CoreCapabilities =
  cc_push_notifications :: bool
  cc_extended_agent_card :: bool

type_synonym message_class = string

record OperationSpec =
  os_api_id :: string
  os_request_type :: message_class
  os_response_type :: message_class
  os_handler_name :: string
  os_streaming :: bool
  os_capability :: CapabilityRequirement

fun OPERATION_SPECS :: "Operation \<Rightarrow> OperationSpec" where
  "OPERATION_SPECS SEND_MESSAGE = OperationSpec.make ''API-A2A-001'' ''SendMessageRequest'' ''SendMessageResponse'' ''send_message'' False NONE"
| "OPERATION_SPECS SEND_STREAMING_MESSAGE =
     OperationSpec.make ''API-A2A-002'' ''SendMessageRequest'' ''StreamResponse'' ''send_streaming_message'' True NONE"
| "OPERATION_SPECS GET_TASK = OperationSpec.make ''API-A2A-003'' ''GetTaskRequest'' ''Task'' ''get_task'' False NONE"
| "OPERATION_SPECS LIST_TASKS = OperationSpec.make ''API-A2A-004'' ''ListTasksRequest'' ''ListTasksResponse'' ''list_tasks'' False NONE"
| "OPERATION_SPECS CANCEL_TASK = OperationSpec.make ''API-A2A-005'' ''CancelTaskRequest'' ''Task'' ''cancel_task'' False NONE"
| "OPERATION_SPECS SUBSCRIBE_TO_TASK =
     OperationSpec.make ''API-A2A-006'' ''SubscribeToTaskRequest'' ''StreamResponse'' ''subscribe_to_task'' True NONE"
| "OPERATION_SPECS CREATE_TASK_PUSH_NOTIFICATION_CONFIG = OperationSpec.make ''API-A2A-007'' ''TaskPushNotificationConfig''
     ''TaskPushNotificationConfig'' ''create_task_push_notification_config'' False PUSH_NOTIFICATIONS"
| "OPERATION_SPECS GET_TASK_PUSH_NOTIFICATION_CONFIG = OperationSpec.make ''API-A2A-008'' ''GetTaskPushNotificationConfigRequest''
     ''TaskPushNotificationConfig'' ''get_task_push_notification_config'' False PUSH_NOTIFICATIONS"
| "OPERATION_SPECS LIST_TASK_PUSH_NOTIFICATION_CONFIGS = OperationSpec.make ''API-A2A-009'' ''ListTaskPushNotificationConfigsRequest''
     ''ListTaskPushNotificationConfigsResponse'' ''list_task_push_notification_configs'' False PUSH_NOTIFICATIONS"
| "OPERATION_SPECS DELETE_TASK_PUSH_NOTIFICATION_CONFIG = OperationSpec.make ''API-A2A-010'' ''DeleteTaskPushNotificationConfigRequest''
     ''Empty'' ''delete_task_push_notification_config'' False PUSH_NOTIFICATIONS"
| "OPERATION_SPECS GET_EXTENDED_AGENT_CARD = OperationSpec.make ''API-A2A-011'' ''GetExtendedAgentCardRequest''
     ''AgentCard'' ''get_extended_agent_card'' False EXTENDED_AGENT_CARD"

definition operation_availability :: "Operation \<Rightarrow> DeliveryProfile \<Rightarrow> CoreCapabilities \<Rightarrow> OperationAvailability" where
  "operation_availability oper profile capabilities =
     (let requirement = os_capability (OPERATION_SPECS oper) in
      if requirement = NONE then ENABLED
      else if requirement = PUSH_NOTIFICATIONS then
        if profile = CORE \<or> \<not> cc_push_notifications capabilities then PUSH_NOTIFICATION_NOT_SUPPORTED else ENABLED
      else if \<not> cc_extended_agent_card capabilities then UNSUPPORTED_OPERATION
      else ENABLED)"

section \<open>Dispatch\<close>

text \<open>\<open>_AGENT_ID\<close>.\<close>

definition agent_id_char :: "nat \<Rightarrow> bool" where
  "agent_id_char c \<longleftrightarrow> 97 \<le> c \<and> c \<le> 122 \<or> 48 \<le> c \<and> c \<le> 57 \<or> c = 45"

definition agent_id_text :: "ustr \<Rightarrow> bool" where
  "agent_id_text s \<longleftrightarrow> s \<noteq> [] \<and> length s \<le> 63 \<and> list_all agent_id_char s \<and> hd s \<noteq> 45"

record CanonicalRequestContext =
  rc_request_id :: ustr
  rc_principal :: Principal
  rc_target_agent_id :: ustr
  rc_config_generation :: int

definition request_context :: "ustr \<Rightarrow> Principal \<Rightarrow> ustr \<Rightarrow> int \<Rightarrow> CanonicalRequestContext result" where
  "request_context request_id p target_agent_id config_generation = checked
     [Check (safe_token request_id) (ValueError [''request_id must be a safe token'']),
      Check (agent_id_text target_agent_id) (ValueError [''target_agent_id is invalid'']),
      Check (1 \<le> config_generation \<and> config_generation \<le> MAX_SAFE_INTEGER)
        (ValueError [''config_generation must be a positive JSON-safe integer''])]
     (Inr \<lparr> rc_request_id = request_id, rc_principal = p, rc_target_agent_id = target_agent_id,
        rc_config_generation = config_generation \<rparr>)"

record 'm message_lib =
  ml_class :: "'m \<Rightarrow> message_class"
  ml_tenant :: "'m \<Rightarrow> ustr"  \<comment> \<open>\<open>getattr(message, "tenant", "")\<close>\<close>

type_synonym ('m, 's) handler = "'m \<Rightarrow> CanonicalRequestContext \<Rightarrow> 's \<Rightarrow> 'm result \<times> 's"

definition dispatch_unary :: "'m message_lib \<Rightarrow> (string \<rightharpoonup> ('m, 's) handler) \<Rightarrow> Operation \<Rightarrow> 'm \<Rightarrow> CanonicalRequestContext \<Rightarrow> 's
    \<Rightarrow> 'm result \<times> 's" where
  "dispatch_unary lib application oper request ctx st =
     (let spec = OPERATION_SPECS oper in
      if os_streaming spec then
        (Inl (InvalidRequestError [operation_name oper, '' is streaming and requires streaming dispatch'']), st)
      else if ml_class lib request \<noteq> os_request_type spec then
        (Inl (InvalidParamsError [operation_name oper, '' requires '', os_request_type spec, '', got '', ml_class lib request]), st)
      else if ml_tenant lib request \<noteq> [] then
        (Inl (InvalidParamsError [''non-empty tenant is not supported by A2AMesh V1'']), st)
      else case application (os_handler_name spec) of
        None \<Rightarrow> (Inl (InvalidAgentResponseError [''canonical application does not implement '', os_handler_name spec]), st)
      | Some handler \<Rightarrow> (case handler request ctx st of
          (Inl e, st') \<Rightarrow> (Inl e, st')
        | (Inr res, st') \<Rightarrow>
            if ml_class lib res \<noteq> os_response_type spec then
              (Inl (InvalidAgentResponseError [operation_name oper, '' must return '', os_response_type spec, '', got '', ml_class lib res]), st')
            else (Inr res, st')))"

section \<open>Facts\<close>

lemma all_operations_complete: "oper \<in> set all_operations"
  by (cases oper) (simp_all add: all_operations_def)

lemma parse_operation_name: "parse_rpc_operation s = Some oper \<longleftrightarrow> s = u (operation_name oper)"
proof
  assume "parse_rpc_operation s = Some oper"
  then show "s = u (operation_name oper)" by (auto simp: parse_rpc_operation_def find_Some_iff)
next
  assume "s = u (operation_name oper)"
  then show "parse_rpc_operation s = Some oper" by (cases oper) (simp_all add: parse_rpc_operation_def all_operations_def)
qed

lemma availability_iff:
  "operation_availability oper profile caps = ENABLED \<longleftrightarrow>
     (os_capability (OPERATION_SPECS oper) = PUSH_NOTIFICATIONS \<longrightarrow> profile \<noteq> CORE \<and> cc_push_notifications caps) \<and>
     (os_capability (OPERATION_SPECS oper) = EXTENDED_AGENT_CARD \<longrightarrow> cc_extended_agent_card caps)"
  by (cases "os_capability (OPERATION_SPECS oper)") (auto simp: operation_availability_def)

text \<open>Before a handler is called, three facts about the request have been established.\<close>

definition dispatchable :: "'m message_lib \<Rightarrow> Operation \<Rightarrow> 'm \<Rightarrow> bool" where
  "dispatchable lib oper request \<longleftrightarrow> oper \<notin> {SEND_STREAMING_MESSAGE, SUBSCRIBE_TO_TASK} \<and>
     ml_class lib request = os_request_type (OPERATION_SPECS oper) \<and> ml_tenant lib request = []"

lemma streaming_operations: "os_streaming (OPERATION_SPECS oper) \<longleftrightarrow> oper \<in> {SEND_STREAMING_MESSAGE, SUBSCRIBE_TO_TASK}"
  by (cases oper) (simp_all add: OperationSpec.make_def)

text \<open>
  Unary dispatch calls the operation's own handler exactly for unary operations whose request has the registered class and no
  tenant, hands its result on exactly when it has the registered response class, and otherwise raises; unless a handler was
  called, the application state is untouched.
\<close>
theorem dispatch_unary_exact:
  "(fst (dispatch_unary lib application oper request ctx st) = Inr res \<longleftrightarrow>
     dispatchable lib oper request \<and> (\<exists>handler. application (os_handler_name (OPERATION_SPECS oper)) = Some handler \<and>
       fst (handler request ctx st) = Inr res) \<and> ml_class lib res = os_response_type (OPERATION_SPECS oper)) \<and>
   snd (dispatch_unary lib application oper request ctx st) =
     (case application (os_handler_name (OPERATION_SPECS oper)) of
        Some handler \<Rightarrow> if dispatchable lib oper request then snd (handler request ctx st) else st
      | None \<Rightarrow> st)"
proof (cases "dispatchable lib oper request")
  case True
  then have d: "\<not> os_streaming (OPERATION_SPECS oper)" "ml_class lib request = os_request_type (OPERATION_SPECS oper)" "ml_tenant lib request = []"
    by (simp_all add: dispatchable_def streaming_operations)
  show ?thesis
    by (cases "application (os_handler_name (OPERATION_SPECS oper))")
      (auto simp: dispatch_unary_def Let_def d True split: prod.splits sum.splits)
next
  case False
  then show ?thesis by (auto simp: dispatch_unary_def Let_def dispatchable_def streaming_operations split: option.splits)
qed

end
