(* ===== verification/PyTime.thy ===== *)
theory PyTime
  imports PyText
begin

text \<open>
  The part of \<open>datetime\<close> the bindings use: instants, whether they carry an offset, and the UTC text written for them. An
  instant is the number of microseconds since 0001-01-01T00:00:00 UTC. The calendar conversion is that of the Python library
  (\<open>_ord2ymd\<close>).
\<close>

record datetime =
  dt_micros :: int
  dt_aware :: bool  \<comment> \<open>\<open>tzinfo is not None\<close>\<close>

abbreviation instant :: "int \<Rightarrow> datetime" where
  "instant t \<equiv> \<lparr> dt_micros = t, dt_aware = True \<rparr>"

definition seconds :: "int \<Rightarrow> int" where
  "seconds n = n * 1000000"

definition days_before_month :: "nat list" where
  "days_before_month = [0, 0, 31, 59, 90, 120, 151, 181, 212, 243, 273, 304, 334]"

definition days_in_month :: "nat list" where
  "days_in_month = [0, 31, 28, 31, 30, 31, 30, 31, 31, 30, 31, 30, 31]"

text \<open>Year, month and day of a zero-based day number.\<close>

definition civil_date :: "nat \<Rightarrow> nat \<times> nat \<times> nat" where
  "civil_date day = (let n400 = day div 146097; a = day mod 146097; n100 = a div 36524; b = a mod 36524;
      n4 = b div 1461; c = b mod 1461; n1 = c div 365; n = c mod 365;
      year = n400 * 400 + 1 + n100 * 100 + n4 * 4 + n1 in
    if n1 = 4 \<or> n100 = 4 then (year - 1, 12, 31)
    else let leap = (n1 = 3 \<and> (n4 \<noteq> 24 \<or> n100 = 3)); month = (n + 50) div 32;
             preceding = days_before_month ! month + (if month > 2 \<and> leap then 1 else 0) in
      if preceding > n then
        let month' = month - 1; before = preceding - (days_in_month ! month' + (if month' = 2 \<and> leap then 1 else 0)) in
        (year, month', n - before + 1)
      else (year, month, n - preceding + 1))"

definition zero_fill :: "nat \<Rightarrow> nat \<Rightarrow> ustr" where
  "zero_fill k n = replicate (k - length (dec_nat n)) 48 @ dec_nat n"

text \<open>\<open>YYYY-MM-DDTHH:MM:SS\<close> in UTC.\<close>

definition iso_seconds :: "datetime \<Rightarrow> ustr" where
  "iso_seconds t = (let micros = nat (dt_micros t); secs = micros div 1000000; d = civil_date (secs div 86400); s = secs mod 86400 in
     zero_fill 4 (fst d) @ u ''-'' @ zero_fill 2 (fst (snd d)) @ u ''-'' @ zero_fill 2 (snd (snd d)) @ u ''T'' @
     zero_fill 2 (s div 3600) @ u '':'' @ zero_fill 2 (s div 60 mod 60) @ u '':'' @ zero_fill 2 (s mod 60))"

text \<open>\<open>value.astimezone(UTC).isoformat(timespec=\<dots>).replace("+00:00", "Z")\<close>.\<close>

definition format_timestamp :: "datetime \<Rightarrow> ustr" where
  "format_timestamp t = iso_seconds t @ u ''Z''"

definition format_timestamp_ms :: "datetime \<Rightarrow> ustr" where
  "format_timestamp_ms t = iso_seconds t @ u ''.'' @ zero_fill 3 (nat (dt_micros t) div 1000 mod 1000) @ u ''Z''"

lemma civil_date_examples:
  "civil_date 0 = (1, 1, 1)" "civil_date 738944 = (2024, 2, 29)" "civil_date 738945 = (2024, 3, 1)" "civil_date 3652058 = (9999, 12, 31)"
  "civil_date 730118 = (1999, 12, 31)" "civil_date 730484 = (2000, 12, 31)"
  by (simp_all add: civil_date_def days_before_month_def days_in_month_def)

lemma format_timestamp_example: "format_timestamp_ms (instant (738944 * 86400000000 + 3723004567)) = u ''2024-02-29T01:02:03.004Z''"
proof -
  have "replicate 2 (48 :: nat) = [48, 48]" by (simp add: numeral_2_eq_2)
  then show ?thesis
    by (simp add: format_timestamp_ms_def iso_seconds_def civil_date_examples zero_fill_def dec_nat.simps u_def Let_def)
qed

lemma zero_fill_ascii: "list_all (\<lambda>c. 44 < c \<and> c < 0x80) (zero_fill k n)"
  using dec_nat_digits [of n] by (auto simp: zero_fill_def list_all_iff)

lemma format_ascii:
  "list_all (\<lambda>c. 44 < c \<and> c < 0x80) (format_timestamp t)" "list_all (\<lambda>c. 44 < c \<and> c < 0x80) (format_timestamp_ms t)"
  by (simp_all add: format_timestamp_def format_timestamp_ms_def iso_seconds_def Let_def zero_fill_ascii u_def)

end
