(* ===== verification/Envelopes.thy ===== *)
theory Envelopes
  imports Operations AuthContexts HoldGuards PyTime
begin

text \<open>
  Request envelopes of the NATS binding (\<open>bindings/nats_v1/envelope.py\<close>). Messages are values of any type \<open>'m\<close>. What comes from
  other packages is collected in \<open>envelope_lib\<close>: ProtoJSON in both directions, the JSON-schema validators, RFC 8785 bytes, the
  NKey functions, and \<open>datetime.fromisoformat\<close>. A schema is the predicate that its validator reports no error.
\<close>

section \<open>What other packages provide\<close>

record 'm envelope_lib =
  el_message :: "'m message_lib"
  el_to_json :: "'m \<Rightarrow> dict option"                      \<comment> \<open>\<open>None\<close> is \<open>SerializeToJsonError\<close>\<close>
  el_from_json :: "message_class \<Rightarrow> json \<Rightarrow> 'm option"   \<comment> \<open>\<open>None\<close> is a parse error\<close>
  el_schema :: "dict \<Rightarrow> bool"
  el_dumps :: "json \<Rightarrow> bytes option"
  el_nkey :: nkey_lib
  el_fromiso :: "ustr \<Rightarrow> datetime option"

section \<open>Envelopes\<close>

record BindingAuthContext =
  ba_principal_id :: ustr
  ba_credential_id :: ustr
  ba_method :: ustr
  ba_issuer :: ustr
  ba_subject :: ustr
  ba_issued_at :: datetime
  ba_expires_at :: datetime

definition auth_context_to_dict :: "BindingAuthContext \<Rightarrow> dict" where
  "auth_context_to_dict c = dict_of
     [(u ''principalId'', JStr (ba_principal_id c)), (u ''credentialId'', JStr (ba_credential_id c)), (u ''method'', JStr (ba_method c)),
      (u ''issuer'', JStr (ba_issuer c)), (u ''subject'', JStr (ba_subject c)),
      (u ''issuedAt'', JStr (format_timestamp (ba_issued_at c))), (u ''expiresAt'', JStr (format_timestamp (ba_expires_at c)))]"

definition auth_proof_to_dict :: "AuthProof \<Rightarrow> dict" where
  "auth_proof_to_dict p = dict_of
     [(u ''signer'', JStr (ap_signer p)), (u ''algorithm'', JStr (ap_algorithm p)), (u ''signature'', JStr (ap_signature p))]"

record 'm BindingRequestEnvelope =
  be_operation :: Operation
  be_request_id :: ustr
  be_caller_instance_id :: ustr
  be_stream_open_id :: "ustr option"
  be_config_generation :: int
  be_caller_agent_id :: ustr
  be_auth_context :: BindingAuthContext
  be_auth_proof :: AuthProof
  be_target_agent_id :: ustr
  be_sent_at :: datetime
  be_deadline_at :: datetime
  be_reply_subject :: ustr
  be_payload :: 'm

definition BINDING_URI :: ustr where
  "BINDING_URI = u ''https://a2amesh.dev/bindings/nats/v1''"

definition STREAMING_OPERATIONS :: "Operation list" where
  "STREAMING_OPERATIONS = [SEND_STREAMING_MESSAGE, SUBSCRIBE_TO_TASK]"

text \<open>The checks on the times that both kinds of envelope make, in source order.\<close>

definition window_checks :: "BindingAuthContext \<Rightarrow> datetime \<Rightarrow> check list" where
  "window_checks ctx sent =
     [Check (\<not> (\<not> dt_aware (ba_issued_at ctx) \<or> \<not> dt_aware (ba_expires_at ctx)))
        (BindingValidationError [''AuthContext timestamps must be timezone-aware'']),
      Check (\<not> dt_micros (ba_expires_at ctx) \<le> dt_micros (ba_issued_at ctx))
        (BindingValidationError [''AuthContext expiresAt must be later than issuedAt'']),
      Check (dt_micros (ba_issued_at ctx) \<le> dt_micros sent \<and> dt_micros sent < dt_micros (ba_expires_at ctx))
        (BindingValidationError [''AuthContext is not valid at sentAt''])]"

definition envelope_checks :: "'m envelope_lib \<Rightarrow> 'm BindingRequestEnvelope \<Rightarrow> check list" where
  "envelope_checks lib e =
     [Check (safe_token (be_request_id e)) (BindingValidationError [''requestId is not a safe token'']),
      Check (safe_token (be_caller_instance_id e)) (BindingValidationError [''callerInstanceId is not a safe token'']),
      Check (agent_id_text (be_caller_agent_id e)) (BindingValidationError [''callerAgentId is invalid'']),
      Check (agent_id_text (be_target_agent_id e)) (BindingValidationError [''targetAgentId is invalid'']),
      Check (\<not> be_config_generation e < 1) (BindingValidationError [''configGeneration must be positive'']),
      (if be_operation e \<in> set STREAMING_OPERATIONS
       then Check (case be_stream_open_id e of None \<Rightarrow> False | Some s \<Rightarrow> safe_token s)
              (BindingValidationError [''streamOpenId is required for streaming operations''])
       else Check (be_stream_open_id e = None) (BindingValidationError [''streamOpenId must be null for unary operations''])),
      Check (dt_aware (be_sent_at e) \<and> dt_aware (be_deadline_at e)) (BindingValidationError [''sentAt and deadlineAt must be timezone-aware'']),
      Check (\<not> dt_micros (be_deadline_at e) \<le> dt_micros (be_sent_at e)) (BindingValidationError [''deadlineAt must be later than sentAt''])] @
     window_checks (be_auth_context e) (be_sent_at e) @
     [Check (ml_class (el_message lib) (be_payload e) = os_request_type (OPERATION_SPECS (be_operation e)))
        (BindingValidationError [''payload type for '', operation_name (be_operation e), '' must be '',
           os_request_type (OPERATION_SPECS (be_operation e))]),
      Check (ml_tenant (el_message lib) (be_payload e) = []) (BindingValidationError [''tenant must be empty in A2AMesh V1''])]"

definition make_envelope :: "'m envelope_lib \<Rightarrow> 'm BindingRequestEnvelope \<Rightarrow> 'm BindingRequestEnvelope result" where
  "make_envelope lib e = checked (envelope_checks lib e) (Inr e)"

text \<open>The dictionary with a given rendering of the proof; the fields are shared by the signed and the signing form.\<close>

definition envelope_fields :: "'m BindingRequestEnvelope \<Rightarrow> dict \<Rightarrow> dict \<Rightarrow> dict" where
  "envelope_fields e prf payload = dict_of
     [(u ''bindingUri'', JStr BINDING_URI), (u ''bindingSchemaVersion'', JStr (u ''1.1'')), (u ''a2aProtocolVersion'', JStr (u ''1.0'')),
      (u ''operation'', JStr (u (operation_name (be_operation e)))), (u ''requestId'', JStr (be_request_id e)),
      (u ''callerInstanceId'', JStr (be_caller_instance_id e)),
      (u ''streamOpenId'', (case be_stream_open_id e of None \<Rightarrow> JNull | Some s \<Rightarrow> JStr s)),
      (u ''configGeneration'', JInt (be_config_generation e)), (u ''callerAgentId'', JStr (be_caller_agent_id e)),
      (u ''authContext'', JObj (auth_context_to_dict (be_auth_context e))), (u ''authProof'', JObj prf),
      (u ''targetAgentId'', JStr (be_target_agent_id e)), (u ''sentAt'', JStr (format_timestamp (be_sent_at e))),
      (u ''deadlineAt'', JStr (format_timestamp (be_deadline_at e))), (u ''replySubject'', JStr (be_reply_subject e)),
      (u ''payload'', JObj payload)]"

definition validate_schema :: "'m envelope_lib \<Rightarrow> dict \<Rightarrow> check list" where
  "validate_schema lib d = [Check (el_schema lib d) (BindingValidationError [''request schema violation''])]"

text \<open>\<open>to_protojson_dict\<close> raises \<open>SerializeToJsonError\<close>, which is no \<open>ValueError\<close>; callers catch it by name.\<close>

definition envelope_to_dict :: "'m envelope_lib \<Rightarrow> 'm BindingRequestEnvelope \<Rightarrow> dict result" where
  "envelope_to_dict lib e = (case el_to_json lib (be_payload e) of None \<Rightarrow> Inl SerializeToJsonError
     | Some payload \<Rightarrow> let d = envelope_fields e (auth_proof_to_dict (be_auth_proof e)) payload in checked (validate_schema lib d) (Inr d))"

text \<open>\<open>del envelope["authProof"]["signature"]\<close>.\<close>

definition signing_payload_dict :: "'m envelope_lib \<Rightarrow> 'm BindingRequestEnvelope \<Rightarrow> dict result" where
  "signing_payload_dict lib e = bindE (envelope_to_dict lib e) (\<lambda>d. case map_of d (u ''authProof'') of
     Some (JObj prf) \<Rightarrow> Inr (dict_put (u ''authProof'') (JObj (filter (\<lambda>kv. fst kv \<noteq> u ''signature'') prf)) d)
   | _ \<Rightarrow> Inl KeyError)"

section \<open>Decoding\<close>

text \<open>\<open>datetime.fromisoformat(value.replace("Z", "+00:00"))\<close> with the two error messages of the caller.\<close>

definition iso_timestamp :: "(ustr \<Rightarrow> datetime option) \<Rightarrow> string list \<Rightarrow> string \<Rightarrow> ustr \<Rightarrow> datetime result" where
  "iso_timestamp fromiso invalid naive value = (case fromiso (concat (map (\<lambda>c. if c = 90 then u ''+00:00'' else [c]) value)) of
     None \<Rightarrow> Inl (BindingValidationError invalid)
   | Some t \<Rightarrow> checked [Check (dt_aware t) (BindingValidationError [naive])] (Inr t))"

definition parse_timestamp :: "'m envelope_lib \<Rightarrow> ustr \<Rightarrow> datetime result" where
  "parse_timestamp lib value = iso_timestamp (el_fromiso lib) [''invalid RFC 3339 timestamp: '', show_ustr value]
     ''timestamp must include an offset'' value"

text \<open>Reads of fields whose presence and type the schema has established; without a schema they would raise.\<close>

definition get_text :: "dict \<Rightarrow> string \<Rightarrow> ustr result" where
  "get_text d k = (case map_of d (u k) of Some (JStr s) \<Rightarrow> Inr s | Some _ \<Rightarrow> Inl (TypeError [k]) | None \<Rightarrow> Inl KeyError)"

definition get_int :: "dict \<Rightarrow> string \<Rightarrow> int result" where
  "get_int d k = (case map_of d (u k) of Some (JInt n) \<Rightarrow> Inr n | Some _ \<Rightarrow> Inl (TypeError [k]) | None \<Rightarrow> Inl KeyError)"

definition get_dict :: "dict \<Rightarrow> string \<Rightarrow> dict result" where
  "get_dict d k = (case map_of d (u k) of Some (JObj x) \<Rightarrow> Inr x | Some _ \<Rightarrow> Inl (TypeError [k]) | None \<Rightarrow> Inl KeyError)"

definition get_opt_text :: "dict \<Rightarrow> string \<Rightarrow> ustr option result" where
  "get_opt_text d k = (case map_of d (u k) of Some JNull \<Rightarrow> Inr None | Some (JStr s) \<Rightarrow> Inr (Some s)
     | Some _ \<Rightarrow> Inl (TypeError [k]) | None \<Rightarrow> Inl KeyError)"

definition auth_context_from_dict :: "(ustr \<Rightarrow> datetime result) \<Rightarrow> dict \<Rightarrow> BindingAuthContext result" where
  "auth_context_from_dict parse d =
     bindE (get_text d ''principalId'') (\<lambda>pid. bindE (get_text d ''credentialId'') (\<lambda>cid. bindE (get_text d ''method'') (\<lambda>meth.
     bindE (get_text d ''issuer'') (\<lambda>iss. bindE (get_text d ''subject'') (\<lambda>sub.
     bindE (get_text d ''issuedAt'') (\<lambda>i. bindE (parse i) (\<lambda>issued.
     bindE (get_text d ''expiresAt'') (\<lambda>x. bindE (parse x) (\<lambda>expires.
     Inr \<lparr> ba_principal_id = pid, ba_credential_id = cid, ba_method = meth, ba_issuer = iss, ba_subject = sub,
       ba_issued_at = issued, ba_expires_at = expires \<rparr>)))))))))"

definition auth_proof_from_dict :: "dict \<Rightarrow> AuthProof result" where
  "auth_proof_from_dict d =
     bindE (get_text d ''signer'') (\<lambda>s. bindE (get_text d ''algorithm'') (\<lambda>a. bindE (get_text d ''signature'') (\<lambda>g.
     Inr \<lparr> ap_signer = s, ap_algorithm = a, ap_signature = g \<rparr>)))"

definition payload_from_dict :: "'m envelope_lib \<Rightarrow> dict \<Rightarrow> (Operation \<times> 'm) result" where
  "payload_from_dict lib d =
     (case map_of d (u ''operation'') of
        Some (JStr name) \<Rightarrow> (case parse_rpc_operation name of
          None \<Rightarrow> Inl (BindingValidationError [''invalid official A2A payload''])
        | Some oper \<Rightarrow> (case map_of d (u ''payload'') of None \<Rightarrow> Inl (BindingValidationError [''invalid official A2A payload''])
            | Some v \<Rightarrow> (case el_from_json lib (os_request_type (OPERATION_SPECS oper)) v of
                None \<Rightarrow> Inl (BindingValidationError [''invalid official A2A payload'']) | Some m \<Rightarrow> Inr (oper, m))))
      | _ \<Rightarrow> Inl (BindingValidationError [''invalid official A2A payload'']))"

definition envelope_from_dict :: "'m envelope_lib \<Rightarrow> dict \<Rightarrow> 'm BindingRequestEnvelope result" where
  "envelope_from_dict lib d = checked (validate_schema lib d)
     (bindE (payload_from_dict lib d) (\<lambda>(oper, payload).
      bindE (get_dict d ''authContext'') (\<lambda>ctx. bindE (get_dict d ''authProof'') (\<lambda>prf.
      bindE (get_text d ''requestId'') (\<lambda>rid. bindE (get_text d ''callerInstanceId'') (\<lambda>inst.
      bindE (get_opt_text d ''streamOpenId'') (\<lambda>soid. bindE (get_int d ''configGeneration'') (\<lambda>gen.
      bindE (get_text d ''callerAgentId'') (\<lambda>caller. bindE (auth_context_from_dict (parse_timestamp lib) ctx) (\<lambda>ac.
      bindE (auth_proof_from_dict prf) (\<lambda>ap. bindE (get_text d ''targetAgentId'') (\<lambda>target.
      bindE (get_text d ''sentAt'') (\<lambda>s. bindE (parse_timestamp lib s) (\<lambda>sent.
      bindE (get_text d ''deadlineAt'') (\<lambda>dl. bindE (parse_timestamp lib dl) (\<lambda>deadline.
      bindE (get_text d ''replySubject'') (\<lambda>reply.
      make_envelope lib \<lparr> be_operation = oper, be_request_id = rid, be_caller_instance_id = inst, be_stream_open_id = soid,
        be_config_generation = gen, be_caller_agent_id = caller, be_auth_context = ac, be_auth_proof = ap,
        be_target_agent_id = target, be_sent_at = sent, be_deadline_at = deadline, be_reply_subject = reply,
        be_payload = payload \<rparr>)))))))))))))))))"

end
