(* ===== verification/BindingAuth.thy ===== *)
theory BindingAuth
  imports Envelopes
begin

text \<open>
  Authentication of signed envelopes (\<open>bindings/nats_v1/auth.py\<close>). The Protocol \<open>SignedBindingEnvelope\<close> is the record
  \<open>signed_envelope\<close>: the ten properties the verifier reads and the signing payload, which may raise. The Protocol
  \<open>RequestReplayGuard\<close> has no implementation in the repository: \<open>claim\<close> is an argument, a function on a guard state.
  Verification returns the guard state beside the result.
\<close>

section \<open>Signed envelopes\<close>

record signed_envelope =
  se_request_id :: ustr
  se_caller_instance_id :: ustr
  se_config_generation :: int
  se_caller_agent_id :: ustr
  se_auth_context :: BindingAuthContext
  se_auth_proof :: AuthProof
  se_target_agent_id :: ustr
  se_sent_at :: datetime
  se_deadline_at :: datetime
  se_reply_subject :: ustr
  se_signing_payload :: "dict result"

definition request_view :: "'m envelope_lib \<Rightarrow> 'm BindingRequestEnvelope \<Rightarrow> signed_envelope" where
  "request_view lib e = \<lparr> se_request_id = be_request_id e, se_caller_instance_id = be_caller_instance_id e,
     se_config_generation = be_config_generation e, se_caller_agent_id = be_caller_agent_id e, se_auth_context = be_auth_context e,
     se_auth_proof = be_auth_proof e, se_target_agent_id = be_target_agent_id e, se_sent_at = be_sent_at e,
     se_deadline_at = be_deadline_at e, se_reply_subject = be_reply_subject e, se_signing_payload = signing_payload_dict lib e \<rparr>"

text \<open>Errors that \<open>canonical_signing_bytes\<close> turns into a \<open>BindingValidationError\<close>, and those that are a \<open>ValueError\<close>.\<close>

fun uncanonical_error :: "pyerr \<Rightarrow> bool" where
  "uncanonical_error CanonicalizationError = True"
| "uncanonical_error SerializeToJsonError = True"
| "uncanonical_error (TypeError msg) = True"
| "uncanonical_error UnicodeError = True"
| "uncanonical_error e = False"

fun value_error :: "pyerr \<Rightarrow> bool" where
  "value_error (ValueError msg) = True"
| "value_error (BindingValidationError msg) = True"
| "value_error UnicodeError = True"
| "value_error e = False"

definition canonical_signing_bytes :: "(json \<Rightarrow> bytes option) \<Rightarrow> signed_envelope \<Rightarrow> bytes result" where
  "canonical_signing_bytes dumps se = (case se_signing_payload se of
     Inl e \<Rightarrow> Inl (if uncanonical_error e then BindingValidationError [''envelope cannot be RFC 8785 canonicalized''] else e)
   | Inr d \<Rightarrow> (case dumps (JObj d) of None \<Rightarrow> Inl (BindingValidationError [''envelope cannot be RFC 8785 canonicalized''])
       | Some bs \<Rightarrow> Inr bs))"

definition AUTH_ALGORITHM :: ustr where
  "AUTH_ALGORITHM = u ''nkey-ed25519''"

definition sign_request_envelope ::
    "'m envelope_lib \<Rightarrow> ustr \<Rightarrow> (bytes \<Rightarrow> bytes) \<Rightarrow> 'm BindingRequestEnvelope \<Rightarrow> 'm BindingRequestEnvelope result" where
  "sign_request_envelope lib signer sign e =
     bindE (make_envelope lib (e\<lparr> be_auth_proof := \<lparr> ap_signer = signer, ap_algorithm = AUTH_ALGORITHM, ap_signature = u ''unsigned'' \<rparr> \<rparr>)) (\<lambda>unsigned.
     bindE (canonical_signing_bytes (el_dumps lib) (request_view lib unsigned)) (\<lambda>bs.
     make_envelope lib (unsigned\<lparr> be_auth_proof := \<lparr> ap_signer = signer, ap_algorithm = AUTH_ALGORITHM, ap_signature = sign_nkey bs sign \<rparr> \<rparr>)))"

section \<open>The verifier\<close>

record BindingAuthVerifier =
  bv_signer_policies :: "(ustr \<times> SignerPolicy) list"
  bv_clock_skew :: int
  bv_max_auth_lifetime :: int

definition binding_auth_verifier :: "(ustr \<times> SignerPolicy) list \<Rightarrow> int \<Rightarrow> int \<Rightarrow> BindingAuthVerifier result" where
  "binding_auth_verifier signer_policies clock_skew_seconds max_auth_lifetime_seconds = checked
     [Check (signer_policies \<noteq> []) (ValueError [''at least one binding signer policy is required'']),
      Check (\<not> clock_skew_seconds < 0) (ValueError [''clock skew cannot be negative'']),
      Check (1 \<le> max_auth_lifetime_seconds \<and> max_auth_lifetime_seconds \<le> 900)
        (ValueError [''max AuthContext lifetime must be between 1 and 900 seconds''])]
     (Inr \<lparr> bv_signer_policies = signer_policies, bv_clock_skew = seconds clock_skew_seconds,
        bv_max_auth_lifetime = seconds max_auth_lifetime_seconds \<rparr>)"

record VerifiedBindingIdentity =
  vb_principal :: Principal
  vb_signer :: ustr
  vb_request_id :: ustr

text \<open>The keyword arguments of \<open>verify_subject\<close>: what the receiver knows of the connection, and its clock.\<close>

record expectation =
  ex_received_subject :: ustr
  ex_expected_subject :: ustr
  ex_connection_public_key :: ustr
  ex_target_agent_id :: ustr
  ex_caller_agent_id :: ustr
  ex_caller_instance_id :: ustr
  ex_reply_prefix :: ustr
  ex_config_generation :: int
  ex_now :: datetime

text \<open>\<open>_REPLY_PREFIX.fullmatch\<close>.\<close>

definition reply_prefix_text :: "ustr \<Rightarrow> bool" where
  "reply_prefix_text s \<longleftrightarrow> starts_with (u ''_INBOX.a2amesh.'') s \<and>
     (let rest = drop 15 s in 2 \<le> length rest \<and> last rest = 46 \<and> list_all token_char (butlast rest))"

definition identity_checks :: "SignerPolicy \<Rightarrow> signed_envelope \<Rightarrow> expectation \<Rightarrow> check list" where
  "identity_checks policy se ex =
     [Check (starts_with (u ''U'') (ap_signer (se_auth_proof se))) (BindingValidationError [''binding signer must be a user NKey'']),
      Check (ap_signer (se_auth_proof se) = ex_connection_public_key ex)
        (BindingValidationError [''AuthProof signer does not match NATS connection'']),
      Check (ba_principal_id (se_auth_context se) \<in> sp_principal_ids policy)
        (BindingValidationError [''signer cannot represent this principal'']),
      Check (ba_method (se_auth_context se) \<in> sp_methods policy)
        (BindingValidationError [''signer cannot use this authentication method'']),
      Check (ba_subject (se_auth_context se) \<in> sp_subjects policy) (BindingValidationError [''signer cannot represent this subject'']),
      Check (se_target_agent_id se = ex_target_agent_id ex) (BindingValidationError [''targetAgentId does not match the receiving agent'']),
      Check (ex_received_subject ex = ex_expected_subject ex) (BindingValidationError [''request arrived on the wrong NATS subject'']),
      Check (se_caller_agent_id se = ex_caller_agent_id ex)
        (BindingValidationError [''callerAgentId does not match authenticated presence'']),
      Check (se_caller_instance_id se = ex_caller_instance_id ex)
        (BindingValidationError [''callerInstanceId does not match authenticated presence'']),
      Check (reply_prefix_text (ex_reply_prefix ex)) (BindingValidationError [''allowed reply prefix is invalid'']),
      Check (starts_with (ex_reply_prefix ex) (se_reply_subject se))
        (BindingValidationError [''replySubject is outside the authenticated caller prefix'']),
      Check (se_config_generation se = ex_config_generation ex)
        (BindingValidationError [''configGeneration does not match expected generation''])]"

definition time_checks :: "BindingAuthVerifier \<Rightarrow> signed_envelope \<Rightarrow> int \<Rightarrow> check list" where
  "time_checks v se current =
     [Check (\<not> dt_micros (ba_issued_at (se_auth_context se)) > current + bv_clock_skew v)
        (BindingValidationError [''AuthContext was issued in the future'']),
      Check (\<not> dt_micros (ba_expires_at (se_auth_context se)) \<le> current - bv_clock_skew v)
        (BindingValidationError [''AuthContext expired'']),
      Check (\<not> dt_micros (ba_expires_at (se_auth_context se)) - dt_micros (ba_issued_at (se_auth_context se)) > bv_max_auth_lifetime v)
        (BindingValidationError [''AuthContext lifetime exceeds policy'']),
      Check (\<not> dt_micros (se_sent_at se) > current + bv_clock_skew v) (BindingValidationError [''request sentAt is in the future'']),
      Check (\<not> dt_micros (se_deadline_at se) \<le> current - bv_clock_skew v) (BindingValidationError [''request deadline expired''])]"

text \<open>The signature step: \<open>except ValueError\<close>.\<close>

definition signature_check :: "(json \<Rightarrow> bytes option) \<Rightarrow> nkey_lib \<Rightarrow> signed_envelope \<Rightarrow> unit result" where
  "signature_check dumps lib se =
     (case bindE (canonical_signing_bytes dumps se)
        (\<lambda>bs. verify_nkey_signature lib (ap_signer (se_auth_proof se)) bs (ap_signature (se_auth_proof se))) of
        Inr _ \<Rightarrow> Inr ()
      | Inl e \<Rightarrow> Inl (if value_error e then BindingValidationError [''invalid binding AuthProof signature''] else e))"

text \<open>Everything that precedes the replay claim.\<close>

definition authenticate :: "(json \<Rightarrow> bytes option) \<Rightarrow> nkey_lib \<Rightarrow> BindingAuthVerifier \<Rightarrow> signed_envelope \<Rightarrow> expectation \<Rightarrow> unit result" where
  "authenticate dumps lib v se ex =
     checked [Check (dt_aware (ex_now ex)) (BindingValidationError [''verification clock must be timezone-aware''])]
     (case map_of (bv_signer_policies v) (ap_signer (se_auth_proof se)) of
        None \<Rightarrow> Inl (BindingValidationError [''untrusted binding signer''])
      | Some policy \<Rightarrow>
          checked ([Check (ap_algorithm (se_auth_proof se) = AUTH_ALGORITHM) (BindingValidationError [''untrusted binding signer''])] @
            identity_checks policy se ex @ time_checks v se (dt_micros (ex_now ex)))
          (signature_check dumps lib se))"

type_synonym 'g claim = "'g \<Rightarrow> ustr \<Rightarrow> ustr \<Rightarrow> ustr \<Rightarrow> int \<Rightarrow> bool \<times> 'g"  \<comment> \<open>principal, target, request, expiry\<close>

definition verify_subject ::
    "(json \<Rightarrow> bytes option) \<Rightarrow> nkey_lib \<Rightarrow> 'g claim \<Rightarrow> BindingAuthVerifier \<Rightarrow> 'g \<Rightarrow> signed_envelope \<Rightarrow> expectation
      \<Rightarrow> 'g \<times> VerifiedBindingIdentity result" where
  "verify_subject dumps lib claim v g se ex =
     (case authenticate dumps lib v se ex of
        Inl e \<Rightarrow> (g, Inl e)
      | Inr _ \<Rightarrow>
          (let ctx = se_auth_context se;
               replay_expires_at = min (dt_micros (ba_expires_at ctx)) (dt_micros (se_deadline_at se)) in
           case claim g (ba_principal_id ctx) (se_target_agent_id se) (se_request_id se) replay_expires_at of
             (False, g') \<Rightarrow> (g', Inl (BindingValidationError [''binding request replay detected'']))
           | (True, g') \<Rightarrow> (g', bindE (make_principal (ba_principal_id ctx) (principal_prefix (ba_principal_id ctx))
                 (Some (ba_credential_id ctx)) 0) (\<lambda>p.
                 Inr \<lparr> vb_principal = p, vb_signer = ap_signer (se_auth_proof se), vb_request_id = se_request_id se \<rparr>))))"

definition RPC_SUBJECT_PREFIX :: ustr where
  "RPC_SUBJECT_PREFIX = u ''a2a.v1.rpc.''"

text \<open>\<open>verify\<close>: the expected subject is derived from the target.\<close>

definition binding_verify ::
    "'m envelope_lib \<Rightarrow> 'g claim \<Rightarrow> BindingAuthVerifier \<Rightarrow> 'g \<Rightarrow> 'm BindingRequestEnvelope \<Rightarrow> expectation \<Rightarrow> 'g \<times> VerifiedBindingIdentity result" where
  "binding_verify lib claim v g e ex = verify_subject (el_dumps lib) (el_nkey lib) claim v g (request_view lib e)
     (ex\<lparr> ex_expected_subject := RPC_SUBJECT_PREFIX @ ex_target_agent_id ex \<rparr>)"

section \<open>What is authenticated\<close>

definition binding_valid :: "(json \<Rightarrow> bytes option) \<Rightarrow> nkey_lib \<Rightarrow> BindingAuthVerifier \<Rightarrow> signed_envelope \<Rightarrow> expectation \<Rightarrow> bool" where
  "binding_valid dumps lib v se ex \<longleftrightarrow>
     (let ctx = se_auth_context se; prf = se_auth_proof se; now = dt_micros (ex_now ex); skew = bv_clock_skew v in
      dt_aware (ex_now ex) \<and>
      (\<exists>policy. map_of (bv_signer_policies v) (ap_signer prf) = Some policy \<and> ba_principal_id ctx \<in> sp_principal_ids policy \<and>
         ba_method ctx \<in> sp_methods policy \<and> ba_subject ctx \<in> sp_subjects policy) \<and>
      ap_algorithm prf = AUTH_ALGORITHM \<and> starts_with (u ''U'') (ap_signer prf) \<and> ap_signer prf = ex_connection_public_key ex \<and>
      se_target_agent_id se = ex_target_agent_id ex \<and> ex_received_subject ex = ex_expected_subject ex \<and>
      se_caller_agent_id se = ex_caller_agent_id ex \<and> se_caller_instance_id se = ex_caller_instance_id ex \<and>
      reply_prefix_text (ex_reply_prefix ex) \<and> starts_with (ex_reply_prefix ex) (se_reply_subject se) \<and>
      se_config_generation se = ex_config_generation ex \<and>
      dt_micros (ba_issued_at ctx) - skew \<le> now \<and> now < dt_micros (ba_expires_at ctx) + skew \<and>
      dt_micros (ba_expires_at ctx) - dt_micros (ba_issued_at ctx) \<le> bv_max_auth_lifetime v \<and>
      dt_micros (se_sent_at se) - skew \<le> now \<and> now < dt_micros (se_deadline_at se) + skew \<and>
      (\<exists>d bs. se_signing_payload se = Inr d \<and> dumps (JObj d) = Some bs \<and>
         verify_nkey_signature lib (ap_signer prf) bs (ap_signature prf) = Inr ()))"

lemma signature_check_iff: "signature_check dumps lib se = Inr () \<longleftrightarrow>
    (\<exists>d bs. se_signing_payload se = Inr d \<and> dumps (JObj d) = Some bs \<and>
       verify_nkey_signature lib (ap_signer (se_auth_proof se)) bs (ap_signature (se_auth_proof se)) = Inr ())"
  by (auto simp: signature_check_def canonical_signing_bytes_def split: sum.splits option.splits)

lemma authenticate_iff: "authenticate dumps lib v se ex = Inr () \<longleftrightarrow> binding_valid dumps lib v se ex"
  by (cases "map_of (bv_signer_policies v) (ap_signer (se_auth_proof se))")
    (auto simp: authenticate_def binding_valid_def Let_def identity_checks_def time_checks_def signature_check_iff)

text \<open>The three outcomes of a call: refused without a claim, refused by the guard, accepted.\<close>

lemma verify_subject_eq:
  "verify_subject dumps lib claim v g se ex =
     (if binding_valid dumps lib v se ex then
        case claim g (ba_principal_id (se_auth_context se)) (se_target_agent_id se) (se_request_id se)
            (min (dt_micros (ba_expires_at (se_auth_context se))) (dt_micros (se_deadline_at se))) of
          (False, g') \<Rightarrow> (g', Inl (BindingValidationError [''binding request replay detected'']))
        | (True, g') \<Rightarrow> (g', bindE (make_principal (ba_principal_id (se_auth_context se)) (principal_prefix (ba_principal_id (se_auth_context se)))
            (Some (ba_credential_id (se_auth_context se))) 0) (\<lambda>p.
            Inr \<lparr> vb_principal = p, vb_signer = ap_signer (se_auth_proof se), vb_request_id = se_request_id se \<rparr>))
      else (g, snd (verify_subject dumps lib claim v g se ex)))"
proof (cases "authenticate dumps lib v se ex")
  case (Inl e)
  then have "\<not> binding_valid dumps lib v se ex" using authenticate_iff [of dumps lib v se ex] by auto
  with Inl show ?thesis by (simp add: verify_subject_def)
next
  case (Inr x)
  then have "binding_valid dumps lib v se ex" using authenticate_iff [of dumps lib v se ex] by simp
  with Inr show ?thesis by (simp add: verify_subject_def Let_def)
qed

lemma verify_subject_refuses: "\<not> binding_valid dumps lib v se ex \<Longrightarrow> \<exists>e. verify_subject dumps lib claim v g se ex = (g, Inl e)"
  using authenticate_iff [of dumps lib v se ex] by (cases "authenticate dumps lib v se ex") (auto simp: verify_subject_def)

end
