(* ===== verification/StreamControl.thy ===== *)
theory StreamControl
  imports BindingAuth
begin

text \<open>
  Stream-session control (\<open>bindings/nats_v1/stream_control.py\<close> and \<open>stream_control_envelope.py\<close>): the open, ack and close
  requests, the result, the digest that binds an open request to trusted context, the signed envelope around a request and
  its verifier. The JSON-schema validators, RFC 8785 bytes, the NKey functions and \<open>fromisoformat\<close> are the fields of \<open>control_lib\<close>.
\<close>

record control_lib =
  cl_schema :: "string \<Rightarrow> dict \<Rightarrow> bool"
  cl_dumps :: "json \<Rightarrow> bytes option"
  cl_nkey :: nkey_lib
  cl_fromiso :: "ustr \<Rightarrow> datetime option"

section \<open>Kinds and states\<close>

datatype StreamControlOperation = OPEN | ACK | CLOSE

fun control_operation_name :: "StreamControlOperation \<Rightarrow> string" where
  "control_operation_name OPEN = ''StreamSessionOpen''"
| "control_operation_name ACK = ''StreamSessionAck''"
| "control_operation_name CLOSE = ''StreamSessionClose''"

text \<open>The kinds are the operations under other names.\<close>

fun control_kind :: "StreamControlOperation \<Rightarrow> string" where
  "control_kind OPEN = ''open''"
| "control_kind ACK = ''ack''"
| "control_kind CLOSE = ''close''"

definition control_subject :: "StreamControlOperation \<Rightarrow> ustr" where
  "control_subject oper = u ''a2a.v1.stream.'' @ u (control_kind oper)"

definition parse_control_operation :: "ustr \<Rightarrow> StreamControlOperation option" where
  "parse_control_operation s = List.find (\<lambda>oper. u (control_operation_name oper) = s) [OPEN, ACK, CLOSE]"

datatype StreamSessionState = OPENING | ACTIVE_SESSION | DRAINING_FINAL | CLOSING | CLOSED | EXPIRING | EXPIRED_SESSION

fun session_state_name :: "StreamSessionState \<Rightarrow> string" where
  "session_state_name OPENING = ''OPENING''"
| "session_state_name ACTIVE_SESSION = ''ACTIVE''"
| "session_state_name DRAINING_FINAL = ''DRAINING_FINAL''"
| "session_state_name CLOSING = ''CLOSING''"
| "session_state_name CLOSED = ''CLOSED''"
| "session_state_name EXPIRING = ''EXPIRING''"
| "session_state_name EXPIRED_SESSION = ''EXPIRED''"

definition parse_session_state :: "ustr \<Rightarrow> StreamSessionState option" where
  "parse_session_state s = List.find (\<lambda>st. u (session_state_name st) = s)
     [OPENING, ACTIVE_SESSION, DRAINING_FINAL, CLOSING, CLOSED, EXPIRING, EXPIRED_SESSION]"

section \<open>Guards\<close>

definition validate_safe_token :: "string \<Rightarrow> ustr \<Rightarrow> check" where
  "validate_safe_token name v = Check (safe_token v) (BindingValidationError [name, '' is not a safe token''])"

definition validate_digest :: "string \<Rightarrow> ustr \<Rightarrow> check" where
  "validate_digest name v = Check (lower_sha256 v) (BindingValidationError [name, '' must be lowercase SHA-256 hex''])"

definition validate_nonnegative_integer :: "string \<Rightarrow> int \<Rightarrow> check" where
  "validate_nonnegative_integer name v =
     Check (0 \<le> v \<and> v \<le> MAX_SAFE_INTEGER) (BindingValidationError [name, '' is outside JSON safe integer range''])"

definition validate_positive_integer :: "string \<Rightarrow> int \<Rightarrow> check" where
  "validate_positive_integer name v =
     Check (1 \<le> v \<and> v \<le> MAX_SAFE_INTEGER) (BindingValidationError [name, '' must be a positive JSON safe integer''])"

definition validate_timestamp :: "string \<Rightarrow> datetime \<Rightarrow> check" where
  "validate_timestamp name v = Check (dt_aware v) (BindingValidationError [name, '' must be timezone-aware''])"

definition validate_control :: "control_lib \<Rightarrow> string \<Rightarrow> dict \<Rightarrow> check" where
  "validate_control lib schema_name d = Check (cl_schema lib schema_name d) (BindingValidationError [''stream '', schema_name, '' schema violation''])"

definition streaming_check :: "Operation \<Rightarrow> check" where
  "streaming_check oper = Check (oper \<in> set STREAMING_OPERATIONS) (BindingValidationError [''stream open operation must be streaming''])"

definition control_canonical_bytes :: "control_lib \<Rightarrow> dict \<Rightarrow> bytes result" where
  "control_canonical_bytes lib d = (case cl_dumps lib (JObj d) of
     None \<Rightarrow> Inl (BindingValidationError [''stream control object cannot be canonicalized'']) | Some bs \<Rightarrow> Inr bs)"

section \<open>Open requests\<close>

record StreamOpenDigestContext =
  dc_caller_scope :: ustr
  dc_response_core_principal_hash :: ustr
  dc_consumer_config_digest :: ustr

definition digest_context_checks :: "StreamOpenDigestContext \<Rightarrow> check list" where
  "digest_context_checks c = [validate_safe_token ''callerScope'' (dc_caller_scope c),
     validate_digest ''responseCorePrincipalHash'' (dc_response_core_principal_hash c),
     validate_digest ''consumerConfigDigest'' (dc_consumer_config_digest c)]"

definition open_digest_input :: "ustr \<Rightarrow> Operation \<Rightarrow> ustr \<Rightarrow> ustr \<Rightarrow> datetime \<Rightarrow> int \<Rightarrow> StreamOpenDigestContext \<Rightarrow> dict" where
  "open_digest_input oid oper task inst expires gen c = dict_of
     [(u ''schemaVersion'', JStr (u ''1.0'')), (u ''streamOpenId'', JStr oid), (u ''operation'', JStr (u (operation_name oper))),
      (u ''taskId'', JStr task), (u ''callerScope'', JStr (dc_caller_scope c)), (u ''callerInstanceId'', JStr inst),
      (u ''responseCorePrincipalHash'', JStr (dc_response_core_principal_hash c)), (u ''configGeneration'', JInt gen),
      (u ''expiresAt'', JStr (format_timestamp_ms expires)), (u ''consumerConfigDigest'', JStr (dc_consumer_config_digest c))]"

definition compute_stream_open_request_digest ::
    "control_lib \<Rightarrow> ustr \<Rightarrow> Operation \<Rightarrow> ustr \<Rightarrow> ustr \<Rightarrow> datetime \<Rightarrow> int \<Rightarrow> StreamOpenDigestContext \<Rightarrow> ustr result" where
  "compute_stream_open_request_digest lib oid oper task inst expires gen c = checked
     [validate_safe_token ''streamOpenId'' oid, validate_safe_token ''taskId'' task, validate_safe_token ''callerInstanceId'' inst,
      streaming_check oper, validate_timestamp ''expiresAt'' expires, validate_positive_integer ''configGeneration'' gen]
     (bindE (control_canonical_bytes lib (open_digest_input oid oper task inst expires gen c)) (\<lambda>bs. Inr (sha256_hex bs)))"

record StreamOpenRequest =
  so_stream_open_id :: ustr
  so_operation :: Operation
  so_task_id :: ustr
  so_caller_instance_id :: ustr
  so_request_digest :: ustr
  so_expires_at :: datetime
  so_config_generation :: int

definition open_to_dict :: "StreamOpenRequest \<Rightarrow> dict" where
  "open_to_dict r = dict_of
     [(u ''schemaVersion'', JStr (u ''1.0'')), (u ''streamOpenId'', JStr (so_stream_open_id r)),
      (u ''operation'', JStr (u (operation_name (so_operation r)))), (u ''taskId'', JStr (so_task_id r)),
      (u ''callerInstanceId'', JStr (so_caller_instance_id r)), (u ''requestDigest'', JStr (so_request_digest r)),
      (u ''expiresAt'', JStr (format_timestamp_ms (so_expires_at r))), (u ''configGeneration'', JInt (so_config_generation r))]"

definition make_open :: "control_lib \<Rightarrow> StreamOpenRequest \<Rightarrow> StreamOpenRequest result" where
  "make_open lib r = checked
     [validate_safe_token ''streamOpenId'' (so_stream_open_id r), validate_safe_token ''taskId'' (so_task_id r),
      validate_safe_token ''callerInstanceId'' (so_caller_instance_id r), streaming_check (so_operation r),
      validate_digest ''requestDigest'' (so_request_digest r), validate_timestamp ''expiresAt'' (so_expires_at r),
      validate_positive_integer ''configGeneration'' (so_config_generation r), validate_control lib ''open'' (open_to_dict r)]
     (Inr r)"

definition open_digest :: "control_lib \<Rightarrow> StreamOpenRequest \<Rightarrow> StreamOpenDigestContext \<Rightarrow> ustr result" where
  "open_digest lib r c = compute_stream_open_request_digest lib (so_stream_open_id r) (so_operation r) (so_task_id r)
     (so_caller_instance_id r) (so_expires_at r) (so_config_generation r) c"

definition open_create ::
    "control_lib \<Rightarrow> ustr \<Rightarrow> Operation \<Rightarrow> ustr \<Rightarrow> ustr \<Rightarrow> datetime \<Rightarrow> int \<Rightarrow> StreamOpenDigestContext \<Rightarrow> StreamOpenRequest result" where
  "open_create lib oid oper task inst expires gen c =
     checked [validate_timestamp ''expiresAt'' expires]
     (bindE (compute_stream_open_request_digest lib oid oper task inst expires gen c) (\<lambda>digest.
      make_open lib \<lparr> so_stream_open_id = oid, so_operation = oper, so_task_id = task, so_caller_instance_id = inst,
        so_request_digest = digest, so_expires_at = expires, so_config_generation = gen \<rparr>))"

definition verify_request_digest :: "control_lib \<Rightarrow> StreamOpenRequest \<Rightarrow> StreamOpenDigestContext \<Rightarrow> unit result" where
  "verify_request_digest lib r c = bindE (open_digest lib r c) (\<lambda>expected.
     checked [Check (so_request_digest r = expected) (BindingValidationError [''stream open requestDigest mismatch''])] (Inr ()))"

definition control_timestamp :: "control_lib \<Rightarrow> ustr \<Rightarrow> datetime result" where
  "control_timestamp lib value = iso_timestamp (cl_fromiso lib) [''invalid stream control timestamp'']
     ''stream control timestamp must include an offset'' value"

definition open_from_dict :: "control_lib \<Rightarrow> dict \<Rightarrow> StreamOpenRequest result" where
  "open_from_dict lib d = checked [validate_control lib ''open'' d]
     (bindE (get_text d ''expiresAt'') (\<lambda>x. bindE (control_timestamp lib x) (\<lambda>expires.
      checked [Check (format_timestamp_ms expires = x) (BindingValidationError [''expiresAt must be canonical UTC milliseconds''])]
      (bindE (get_text d ''operation'') (\<lambda>name. case parse_rpc_operation name of
         None \<Rightarrow> Inl (BindingValidationError [''unknown stream open operation''])
       | Some oper \<Rightarrow>
           bindE (get_text d ''streamOpenId'') (\<lambda>oid. bindE (get_text d ''taskId'') (\<lambda>task.
           bindE (get_text d ''callerInstanceId'') (\<lambda>inst. bindE (get_text d ''requestDigest'') (\<lambda>digest.
           bindE (get_int d ''configGeneration'') (\<lambda>gen.
           make_open lib \<lparr> so_stream_open_id = oid, so_operation = oper, so_task_id = task, so_caller_instance_id = inst,
             so_request_digest = digest, so_expires_at = expires, so_config_generation = gen \<rparr>))))))))))"

section \<open>Ack, close and result\<close>

record StreamAckRequest =
  sa_stream_session_id :: ustr
  sa_stream_open_id :: ustr
  sa_sequence :: int
  sa_event_seq :: int
  sa_payload_digest :: ustr

definition ack_to_dict :: "StreamAckRequest \<Rightarrow> dict" where
  "ack_to_dict r = dict_of
     [(u ''schemaVersion'', JStr (u ''1.0'')), (u ''streamSessionId'', JStr (sa_stream_session_id r)),
      (u ''streamOpenId'', JStr (sa_stream_open_id r)), (u ''sequence'', JInt (sa_sequence r)),
      (u ''eventSeq'', JInt (sa_event_seq r)), (u ''payloadDigest'', JStr (sa_payload_digest r))]"

definition make_ack :: "control_lib \<Rightarrow> StreamAckRequest \<Rightarrow> StreamAckRequest result" where
  "make_ack lib r = checked
     [validate_safe_token ''streamSessionId'' (sa_stream_session_id r), validate_safe_token ''streamOpenId'' (sa_stream_open_id r),
      validate_positive_integer ''sequence'' (sa_sequence r), validate_nonnegative_integer ''eventSeq'' (sa_event_seq r),
      validate_digest ''payloadDigest'' (sa_payload_digest r), validate_control lib ''ack'' (ack_to_dict r)] (Inr r)"

definition ack_from_dict :: "control_lib \<Rightarrow> dict \<Rightarrow> StreamAckRequest result" where
  "ack_from_dict lib d = checked [validate_control lib ''ack'' d]
     (bindE (get_text d ''streamSessionId'') (\<lambda>sid. bindE (get_text d ''streamOpenId'') (\<lambda>oid.
      bindE (get_int d ''sequence'') (\<lambda>sequ. bindE (get_int d ''eventSeq'') (\<lambda>eseq. bindE (get_text d ''payloadDigest'') (\<lambda>digest.
      make_ack lib \<lparr> sa_stream_session_id = sid, sa_stream_open_id = oid, sa_sequence = sequ, sa_event_seq = eseq,
        sa_payload_digest = digest \<rparr>))))))"

record StreamCloseRequest =
  sc_stream_session_id :: ustr
  sc_stream_open_id :: ustr
  sc_reason :: ustr

text \<open>\<open>_CLOSE_REASON\<close>.\<close>

definition close_reason_text :: "ustr \<Rightarrow> bool" where
  "close_reason_text s \<longleftrightarrow> s \<noteq> [] \<and> length s \<le> 64 \<and> 65 \<le> hd s \<and> hd s \<le> 90 \<and>
     list_all (\<lambda>c. 65 \<le> c \<and> c \<le> 90 \<or> 48 \<le> c \<and> c \<le> 57 \<or> c = 95) s"

definition close_to_dict :: "StreamCloseRequest \<Rightarrow> dict" where
  "close_to_dict r = dict_of
     [(u ''schemaVersion'', JStr (u ''1.0'')), (u ''streamSessionId'', JStr (sc_stream_session_id r)),
      (u ''streamOpenId'', JStr (sc_stream_open_id r)), (u ''reason'', JStr (sc_reason r))]"

definition make_close :: "control_lib \<Rightarrow> StreamCloseRequest \<Rightarrow> StreamCloseRequest result" where
  "make_close lib r = checked
     [validate_safe_token ''streamSessionId'' (sc_stream_session_id r), validate_safe_token ''streamOpenId'' (sc_stream_open_id r),
      Check (close_reason_text (sc_reason r)) (BindingValidationError [''stream close reason must be a bounded code'']),
      validate_control lib ''close'' (close_to_dict r)] (Inr r)"

definition close_from_dict :: "control_lib \<Rightarrow> dict \<Rightarrow> StreamCloseRequest result" where
  "close_from_dict lib d = checked [validate_control lib ''close'' d]
     (bindE (get_text d ''streamSessionId'') (\<lambda>sid. bindE (get_text d ''streamOpenId'') (\<lambda>oid. bindE (get_text d ''reason'') (\<lambda>reason.
      make_close lib \<lparr> sc_stream_session_id = sid, sc_stream_open_id = oid, sc_reason = reason \<rparr>))))"

record StreamControlResult =
  sr_accepted :: bool
  sr_current_state :: StreamSessionState

definition result_to_dict :: "StreamControlResult \<Rightarrow> dict" where
  "result_to_dict r = dict_of [(u ''accepted'', JBool (sr_accepted r)), (u ''currentState'', JStr (u (session_state_name (sr_current_state r))))]"

definition make_result :: "control_lib \<Rightarrow> StreamControlResult \<Rightarrow> StreamControlResult result" where
  "make_result lib r = checked [validate_control lib ''result'' (result_to_dict r)] (Inr r)"

definition result_from_dict :: "control_lib \<Rightarrow> dict \<Rightarrow> StreamControlResult result" where
  "result_from_dict lib d = checked [validate_control lib ''result'' d]
     (bindE (get_text d ''currentState'') (\<lambda>name. case parse_session_state name of
        None \<Rightarrow> Inl (BindingValidationError [''unknown stream session currentState''])
      | Some st \<Rightarrow> (case map_of d (u ''accepted'') of
          Some (JBool b) \<Rightarrow> make_result lib \<lparr> sr_accepted = b, sr_current_state = st \<rparr>
        | Some _ \<Rightarrow> Inl (BindingValidationError [''accepted must be boolean'']) | None \<Rightarrow> Inl KeyError)))"

section \<open>The signed envelope\<close>

datatype StreamControlPayload = OpenPayload StreamOpenRequest | AckPayload StreamAckRequest | ClosePayload StreamCloseRequest

fun payload_operation :: "StreamControlPayload \<Rightarrow> StreamControlOperation" where
  "payload_operation (OpenPayload r) = OPEN"
| "payload_operation (AckPayload r) = ACK"
| "payload_operation (ClosePayload r) = CLOSE"

fun payload_stream_open_id :: "StreamControlPayload \<Rightarrow> ustr" where
  "payload_stream_open_id (OpenPayload r) = so_stream_open_id r"
| "payload_stream_open_id (AckPayload r) = sa_stream_open_id r"
| "payload_stream_open_id (ClosePayload r) = sc_stream_open_id r"

fun payload_to_dict :: "StreamControlPayload \<Rightarrow> dict" where
  "payload_to_dict (OpenPayload r) = open_to_dict r"
| "payload_to_dict (AckPayload r) = ack_to_dict r"
| "payload_to_dict (ClosePayload r) = close_to_dict r"

record StreamControlEnvelope =
  ce_operation :: StreamControlOperation
  ce_request_id :: ustr
  ce_caller_instance_id :: ustr
  ce_stream_open_id :: ustr
  ce_config_generation :: int
  ce_caller_agent_id :: ustr
  ce_auth_context :: BindingAuthContext
  ce_auth_proof :: AuthProof
  ce_target_agent_id :: ustr
  ce_sent_at :: datetime
  ce_deadline_at :: datetime
  ce_reply_subject :: ustr
  ce_payload :: StreamControlPayload

definition control_fields :: "StreamControlEnvelope \<Rightarrow> dict \<Rightarrow> dict" where
  "control_fields e prf = dict_of
     [(u ''bindingUri'', JStr BINDING_URI), (u ''bindingSchemaVersion'', JStr (u ''1.1'')), (u ''a2aProtocolVersion'', JStr (u ''1.0'')),
      (u ''operation'', JStr (u (control_operation_name (ce_operation e)))), (u ''requestId'', JStr (ce_request_id e)),
      (u ''callerInstanceId'', JStr (ce_caller_instance_id e)), (u ''streamOpenId'', JStr (ce_stream_open_id e)),
      (u ''configGeneration'', JInt (ce_config_generation e)), (u ''callerAgentId'', JStr (ce_caller_agent_id e)),
      (u ''authContext'', JObj (auth_context_to_dict (ce_auth_context e))), (u ''authProof'', JObj prf),
      (u ''targetAgentId'', JStr (ce_target_agent_id e)), (u ''sentAt'', JStr (format_timestamp (ce_sent_at e))),
      (u ''deadlineAt'', JStr (format_timestamp (ce_deadline_at e))), (u ''replySubject'', JStr (ce_reply_subject e)),
      (u ''payload'', JObj (payload_to_dict (ce_payload e)))]"

definition control_to_dict :: "StreamControlEnvelope \<Rightarrow> dict" where
  "control_to_dict e = control_fields e (auth_proof_to_dict (ce_auth_proof e))"

definition control_signing_payload :: "StreamControlEnvelope \<Rightarrow> dict result" where
  "control_signing_payload e = (let d = control_to_dict e in case map_of d (u ''authProof'') of
     Some (JObj prf) \<Rightarrow> Inr (dict_put (u ''authProof'') (JObj (filter (\<lambda>kv. fst kv \<noteq> u ''signature'') prf)) d)
   | _ \<Rightarrow> Inl KeyError)"

definition control_payload_checks :: "StreamControlEnvelope \<Rightarrow> check list" where
  "control_payload_checks e =
     [Check (payload_operation (ce_payload e) = ce_operation e)
        (BindingValidationError [''payload type for '', control_operation_name (ce_operation e), '' is wrong'']),
      Check (payload_stream_open_id (ce_payload e) = ce_stream_open_id e) (BindingValidationError [''outer and payload streamOpenId mismatch''])] @
     (case ce_payload e of
        OpenPayload r \<Rightarrow>
          [Check (so_caller_instance_id r = ce_caller_instance_id e) (BindingValidationError [''outer and payload callerInstanceId mismatch'']),
           Check (so_config_generation r = ce_config_generation e) (BindingValidationError [''outer and payload configGeneration mismatch''])]
      | _ \<Rightarrow> [])"

definition control_envelope_checks :: "control_lib \<Rightarrow> StreamControlEnvelope \<Rightarrow> check list" where
  "control_envelope_checks lib e =
     [validate_safe_token ''requestId'' (ce_request_id e), validate_safe_token ''callerInstanceId'' (ce_caller_instance_id e),
      validate_safe_token ''streamOpenId'' (ce_stream_open_id e),
      Check (agent_id_text (ce_caller_agent_id e)) (BindingValidationError [''callerAgentId is invalid'']),
      Check (agent_id_text (ce_target_agent_id e)) (BindingValidationError [''targetAgentId is invalid'']),
      Check (1 \<le> ce_config_generation e \<and> ce_config_generation e \<le> MAX_SAFE_INTEGER)
        (BindingValidationError [''configGeneration must be a positive safe integer''])] @
     control_payload_checks e @
     [validate_timestamp ''sentAt'' (ce_sent_at e), validate_timestamp ''deadlineAt'' (ce_deadline_at e),
      Check (\<not> dt_micros (ce_deadline_at e) \<le> dt_micros (ce_sent_at e)) (BindingValidationError [''deadlineAt must be later than sentAt''])] @
     window_checks (ce_auth_context e) (ce_sent_at e) @
     [validate_control lib ''control envelope'' (control_to_dict e)]"

definition make_control_envelope :: "control_lib \<Rightarrow> StreamControlEnvelope \<Rightarrow> StreamControlEnvelope result" where
  "make_control_envelope lib e = checked (control_envelope_checks lib e) (Inr e)"

definition control_view :: "StreamControlEnvelope \<Rightarrow> signed_envelope" where
  "control_view e = \<lparr> se_request_id = ce_request_id e, se_caller_instance_id = ce_caller_instance_id e,
     se_config_generation = ce_config_generation e, se_caller_agent_id = ce_caller_agent_id e, se_auth_context = ce_auth_context e,
     se_auth_proof = ce_auth_proof e, se_target_agent_id = ce_target_agent_id e, se_sent_at = ce_sent_at e,
     se_deadline_at = ce_deadline_at e, se_reply_subject = ce_reply_subject e, se_signing_payload = control_signing_payload e \<rparr>"

definition sign_stream_control_envelope ::
    "control_lib \<Rightarrow> ustr \<Rightarrow> (bytes \<Rightarrow> bytes) \<Rightarrow> StreamControlEnvelope \<Rightarrow> StreamControlEnvelope result" where
  "sign_stream_control_envelope lib signer sign e =
     bindE (make_control_envelope lib (e\<lparr> ce_auth_proof := \<lparr> ap_signer = signer, ap_algorithm = AUTH_ALGORITHM, ap_signature = u ''unsigned'' \<rparr> \<rparr>)) (\<lambda>unsigned.
     bindE (canonical_signing_bytes (cl_dumps lib) (control_view unsigned)) (\<lambda>bs.
     make_control_envelope lib (unsigned\<lparr> ce_auth_proof := \<lparr> ap_signer = signer, ap_algorithm = AUTH_ALGORITHM, ap_signature = sign_nkey bs sign \<rparr> \<rparr>)))"

definition control_payload_from_dict :: "control_lib \<Rightarrow> StreamControlOperation \<Rightarrow> dict \<Rightarrow> StreamControlPayload result" where
  "control_payload_from_dict lib oper d = (case oper of
     OPEN \<Rightarrow> bindE (open_from_dict lib d) (\<lambda>r. Inr (OpenPayload r))
   | ACK \<Rightarrow> bindE (ack_from_dict lib d) (\<lambda>r. Inr (AckPayload r))
   | CLOSE \<Rightarrow> bindE (close_from_dict lib d) (\<lambda>r. Inr (ClosePayload r)))"

definition control_envelope_timestamp :: "control_lib \<Rightarrow> ustr \<Rightarrow> datetime result" where
  "control_envelope_timestamp lib value = iso_timestamp (cl_fromiso lib) [''invalid stream control envelope timestamp'']
     ''stream control envelope timestamp must include an offset'' value"

definition control_from_dict :: "control_lib \<Rightarrow> dict \<Rightarrow> StreamControlEnvelope result" where
  "control_from_dict lib d = checked [validate_control lib ''control envelope'' d]
     (bindE (get_text d ''operation'') (\<lambda>name. case parse_control_operation name of
        None \<Rightarrow> Inl (BindingValidationError [''unknown stream control operation''])
      | Some oper \<Rightarrow>
          bindE (get_dict d ''payload'') (\<lambda>pd. bindE (control_payload_from_dict lib oper pd) (\<lambda>payload.
          bindE (get_dict d ''authContext'') (\<lambda>ctx. bindE (get_dict d ''authProof'') (\<lambda>prf.
          bindE (get_text d ''requestId'') (\<lambda>rid. bindE (get_text d ''callerInstanceId'') (\<lambda>inst.
          bindE (get_text d ''streamOpenId'') (\<lambda>oid. bindE (get_int d ''configGeneration'') (\<lambda>gen.
          bindE (get_text d ''callerAgentId'') (\<lambda>caller. bindE (auth_context_from_dict (control_envelope_timestamp lib) ctx) (\<lambda>ac.
          bindE (auth_proof_from_dict prf) (\<lambda>ap. bindE (get_text d ''targetAgentId'') (\<lambda>target.
          bindE (get_text d ''sentAt'') (\<lambda>s. bindE (control_envelope_timestamp lib s) (\<lambda>sent.
          bindE (get_text d ''deadlineAt'') (\<lambda>dl. bindE (control_envelope_timestamp lib dl) (\<lambda>deadline.
          bindE (get_text d ''replySubject'') (\<lambda>reply.
          make_control_envelope lib \<lparr> ce_operation = oper, ce_request_id = rid, ce_caller_instance_id = inst, ce_stream_open_id = oid,
            ce_config_generation = gen, ce_caller_agent_id = caller, ce_auth_context = ac, ce_auth_proof = ap,
            ce_target_agent_id = target, ce_sent_at = sent, ce_deadline_at = deadline, ce_reply_subject = reply,
            ce_payload = payload \<rparr>)))))))))))))))))))"

section \<open>The control verifier\<close>

definition digest_context_check :: "control_lib \<Rightarrow> StreamControlEnvelope \<Rightarrow> StreamOpenDigestContext option \<Rightarrow> unit result" where
  "digest_context_check lib e c =
     (if ce_operation e = OPEN then
        case c of None \<Rightarrow> Inl (BindingValidationError [''trusted digest context is required for stream open''])
        | Some dc \<Rightarrow> (case ce_payload e of OpenPayload r \<Rightarrow> verify_request_digest lib r dc | _ \<Rightarrow> Inl (TypeError [''payload is not an open request'']))
      else checked [Check (c = None) (BindingValidationError [''stream open digest context is invalid for ack/close''])] (Inr ()))"

definition control_verify ::
    "control_lib \<Rightarrow> 'g claim \<Rightarrow> BindingAuthVerifier \<Rightarrow> 'g \<Rightarrow> StreamControlEnvelope \<Rightarrow> StreamControlOperation \<Rightarrow> expectation
      \<Rightarrow> StreamOpenDigestContext option \<Rightarrow> 'g \<times> VerifiedBindingIdentity result" where
  "control_verify lib claim v g e expected_operation ex c =
     (case checked [Check (ce_operation e = expected_operation) (BindingValidationError [''stream control operation does not match handler''])]
        (digest_context_check lib e c) of
        Inl err \<Rightarrow> (g, Inl err)
      | Inr _ \<Rightarrow> verify_subject (cl_dumps lib) (cl_nkey lib) claim v g (control_view e)
          (ex\<lparr> ex_expected_subject := control_subject expected_operation \<rparr>))"

end
