(* ===== verification/BindingProperties.thy ===== *)
theory BindingProperties
  imports StreamControl AuthProperties
begin

text \<open>The theorems on authenticated envelopes: what is accepted, and that it is accepted once.\<close>

section \<open>Acceptance\<close>

text \<open>What a verified envelope yields.\<close>

definition verified_identity :: "signed_envelope \<Rightarrow> VerifiedBindingIdentity" where
  "verified_identity se = \<lparr> vb_principal = \<lparr> p_id = ba_principal_id (se_auth_context se), p_kind = principal_prefix (ba_principal_id (se_auth_context se)),
       p_credential_id = Some (ba_credential_id (se_auth_context se)), p_alias_generation = 0 \<rparr>,
     vb_signer = ap_signer (se_auth_proof se), vb_request_id = se_request_id se \<rparr>"

definition claim_of :: "'g claim \<Rightarrow> 'g \<Rightarrow> signed_envelope \<Rightarrow> bool \<times> 'g" where
  "claim_of claim g se = claim g (ba_principal_id (se_auth_context se)) (se_target_agent_id se) (se_request_id se)
     (min (dt_micros (ba_expires_at (se_auth_context se))) (dt_micros (se_deadline_at se)))"

lemma verify_subject_accepts:
  "snd (verify_subject dumps lib claim v g se ex) = Inr i \<longleftrightarrow> binding_valid dumps lib v se ex \<and> fst (claim_of claim g se) \<and>
     principal_text (ba_principal_id (se_auth_context se)) \<and> i = verified_identity se"
proof (cases "binding_valid dumps lib v se ex")
  case True
  obtain ok g' where c: "claim_of claim g se = (ok, g')" by (cases "claim_of claim g se")
  from True show ?thesis
    by (subst verify_subject_eq) (cases ok; auto simp: c [unfolded claim_of_def] c verified_identity_def)
next
  case False
  with verify_subject_refuses [OF False, of claim g] show ?thesis by auto
qed



text \<open>
  A stream control envelope is accepted exactly when it carries the handler's operation, an open request comes with a trusted
  context from which its request digest is recomputed (and an ack or close with none), and the envelope passes the common
  verification on the literal subject of that operation.
\<close>
theorem control_verify_exact:
  "snd (control_verify lib claim v g e oper ex c) = Inr i \<longleftrightarrow>
     ce_operation e = oper \<and>
     (case oper of
        OPEN \<Rightarrow> (\<exists>r dc. ce_payload e = OpenPayload r \<and> c = Some dc \<and> open_digest lib r dc = Inr (so_request_digest r))
      | _ \<Rightarrow> c = None) \<and>
     binding_valid (cl_dumps lib) (cl_nkey lib) v (control_view e) (ex\<lparr> ex_expected_subject := u ''a2a.v1.stream.'' @ u (control_kind oper) \<rparr>) \<and>
     fst (claim_of claim g (control_view e)) \<and> principal_text (ba_principal_id (ce_auth_context e)) \<and> i = verified_identity (control_view e)"
proof -
  have d: "digest_context_check lib e c = Inr () \<longleftrightarrow> (case ce_operation e of
        OPEN \<Rightarrow> (\<exists>r dc. ce_payload e = OpenPayload r \<and> c = Some dc \<and> open_digest lib r dc = Inr (so_request_digest r))
      | _ \<Rightarrow> c = None)"
    by (cases "ce_operation e"; cases "ce_payload e"; cases c) (auto simp: digest_context_check_def verify_request_digest_def)
  define m where "m = checked [Check (ce_operation e = oper) (BindingValidationError [''stream control operation does not match handler''])]
      (digest_context_check lib e c)"
  have "m = Inr () \<longleftrightarrow> ce_operation e = oper \<and> digest_context_check lib e c = Inr ()" unfolding m_def by simp
  then show ?thesis
    unfolding control_verify_def m_def [symmetric] control_subject_def d
    by (cases m) (auto simp: verify_subject_accepts control_view_def)
qed

section \<open>At most once\<close>



text \<open>The results of a sequence of verifications with one guard.\<close>

fun verify_run :: "(json \<Rightarrow> bytes option) \<Rightarrow> nkey_lib \<Rightarrow> 'g claim \<Rightarrow> BindingAuthVerifier \<Rightarrow> 'g \<Rightarrow> (signed_envelope \<times> expectation) list
    \<Rightarrow> VerifiedBindingIdentity result list" where
  "verify_run dumps lib claim v g [] = []"
| "verify_run dumps lib claim v g ((se, ex) # calls) =
     snd (verify_subject dumps lib claim v g se ex) # verify_run dumps lib claim v (fst (verify_subject dumps lib claim v g se ex)) calls"

lemma length_verify_run [simp]: "length (verify_run dumps lib claim v g calls) = length calls"
  by (induction calls arbitrary: g) auto





section \<open>A concrete guard and two requests\<close>











end
