(* ===== verification/Streams.thy ===== *)
theory Streams
  imports Envelopes TaskStates
begin

text \<open>
  Stream sessions (\<open>bindings/nats_v1/stream.py\<close>): frames with their payload digest, the sequence gate
  \<open>StreamFrameCursorV1\<close> and the open response.

  The protobuf \<open>StreamResponse\<close> is a value of any type \<open>'r\<close>; \<open>stream_lib\<close> collects what the code obtains from other
  packages: ProtoJSON in both directions, the populated member of the oneof with the fields the code reads, RFC 8785
  bytes, the enum numbers of the SDK.
\<close>

section \<open>Frames\<close>

datatype stream_payload =
    TaskPayload ustr int            \<comment> \<open>\<open>task.id\<close>, \<open>task.status.state\<close>\<close>
  | StatusUpdate ustr int           \<comment> \<open>\<open>status_update.task_id\<close>, \<open>status_update.status.state\<close>\<close>
  | ArtifactUpdate ustr             \<comment> \<open>\<open>artifact_update.task_id\<close>\<close>
  | MessagePayload
  | NoPayload

record 'r stream_lib =
  sl_to_json :: "'r \<Rightarrow> dict option"          \<comment> \<open>\<open>to_protojson_dict\<close>; \<open>None\<close> is \<open>SerializeToJsonError\<close>\<close>
  sl_from_json :: "json \<Rightarrow> 'r option"        \<comment> \<open>\<open>from_protojson\<close>; \<open>None\<close> is a parse error\<close>
  sl_payload :: "'r \<Rightarrow> stream_payload"
  sl_dumps :: "json \<Rightarrow> bytes option"
  sl_num :: "task_state \<Rightarrow> int"

record 'r StreamSessionFrame =
  fr_stream_session_id :: ustr
  fr_stream_open_id :: ustr
  fr_sequence :: int
  fr_event_seq :: int
  fr_final :: bool
  fr_response :: 'r
  fr_payload_digest :: ustr

definition STREAM_SCHEMA_VERSION :: ustr where
  "STREAM_SCHEMA_VERSION = u ''1.0''"

abbreviation binding_error :: "string \<Rightarrow> pyerr" where
  "binding_error msg \<equiv> BindingValidationError [msg]"

definition frame_core_dict :: "'r stream_lib \<Rightarrow> ustr \<Rightarrow> ustr \<Rightarrow> int \<Rightarrow> int \<Rightarrow> bool \<Rightarrow> 'r \<Rightarrow> dict result" where
  "frame_core_dict lib sid oid sequ eseq fin response =
     (case sl_to_json lib response of None \<Rightarrow> Inl (binding_error ''StreamResponse is not valid ProtoJSON'')
      | Some r \<Rightarrow> Inr (dict_of
          [(u ''schemaVersion'', JStr STREAM_SCHEMA_VERSION), (u ''streamSessionId'', JStr sid), (u ''streamOpenId'', JStr oid),
           (u ''sequence'', JInt sequ), (u ''eventSeq'', JInt eseq), (u ''final'', JBool fin),
           (u ''canonicalStreamResponse'', JObj r)]))"

definition rfc8785_bytes :: "'r stream_lib \<Rightarrow> dict \<Rightarrow> bytes result" where
  "rfc8785_bytes lib d = (case sl_dumps lib (JObj d) of None \<Rightarrow> Inl (binding_error ''stream object cannot be RFC 8785 canonicalized'')
     | Some bs \<Rightarrow> Inr bs)"

definition sha256_rfc8785 :: "'r stream_lib \<Rightarrow> dict \<Rightarrow> ustr result" where
  "sha256_rfc8785 lib d = bindE (rfc8785_bytes lib d) (\<lambda>bs. Inr (sha256_hex bs))"

definition frame_core :: "'r stream_lib \<Rightarrow> 'r StreamSessionFrame \<Rightarrow> dict result" where
  "frame_core lib f = frame_core_dict lib (fr_stream_session_id f) (fr_stream_open_id f) (fr_sequence f) (fr_event_seq f)
     (fr_final f) (fr_response f)"

definition compute_payload_digest :: "'r stream_lib \<Rightarrow> 'r StreamSessionFrame \<Rightarrow> ustr result" where
  "compute_payload_digest lib f = bindE (frame_core lib f) (sha256_rfc8785 lib)"

text \<open>\<open>__post_init__\<close>.\<close>

definition frame_checks :: "'r stream_lib \<Rightarrow> 'r StreamSessionFrame \<Rightarrow> check list" where
  "frame_checks lib f =
     [Check (safe_token (fr_stream_session_id f)) (binding_error ''streamSessionId is not a safe token''),
      Check (safe_token (fr_stream_open_id f)) (binding_error ''streamOpenId is not a safe token''),
      Check (0 \<le> fr_sequence f \<and> fr_sequence f \<le> MAX_SAFE_INTEGER) (binding_error ''sequence is outside JSON safe integer range''),
      Check (0 \<le> fr_event_seq f \<and> fr_event_seq f \<le> MAX_SAFE_INTEGER) (binding_error ''eventSeq is outside JSON safe integer range''),
      Check (lower_sha256 (fr_payload_digest f)) (binding_error ''payloadDigest must be lowercase SHA-256 hex'')] @
     digest_match (compute_payload_digest lib f) (fr_payload_digest f) (binding_error ''payloadDigest does not match canonical frame'')"

definition make_frame :: "'r stream_lib \<Rightarrow> 'r StreamSessionFrame \<Rightarrow> 'r StreamSessionFrame result" where
  "make_frame lib f = checked (frame_checks lib f) (Inr f)"

definition frame_create :: "'r stream_lib \<Rightarrow> ustr \<Rightarrow> ustr \<Rightarrow> int \<Rightarrow> int \<Rightarrow> bool \<Rightarrow> 'r \<Rightarrow> 'r StreamSessionFrame result" where
  "frame_create lib sid oid sequ eseq fin response =
     bindE (frame_core_dict lib sid oid sequ eseq fin response) (\<lambda>core.
     bindE (sha256_rfc8785 lib core) (\<lambda>digest.
     make_frame lib \<lparr> fr_stream_session_id = sid, fr_stream_open_id = oid, fr_sequence = sequ, fr_event_seq = eseq,
       fr_final = fin, fr_response = response, fr_payload_digest = digest \<rparr>))"

definition frame_to_dict :: "'r stream_lib \<Rightarrow> 'r StreamSessionFrame \<Rightarrow> dict result" where
  "frame_to_dict lib f = bindE (frame_core lib f) (\<lambda>d. Inr (dict_put (u ''payloadDigest'') (JStr (fr_payload_digest f)) d))"

definition frame_canonical_bytes :: "'r stream_lib \<Rightarrow> 'r StreamSessionFrame \<Rightarrow> bytes result" where
  "frame_canonical_bytes lib f = bindE (frame_to_dict lib f) (rfc8785_bytes lib)"

definition FRAME_FIELDS :: "string list" where
  "FRAME_FIELDS = [''schemaVersion'', ''streamSessionId'', ''streamOpenId'', ''sequence'', ''eventSeq'', ''final'',
     ''canonicalStreamResponse'', ''payloadDigest'']"

text \<open>Field reads of \<open>from_dict\<close>: a value of another JSON type is refused by the type guard of \<open>__post_init__\<close>.\<close>

definition text_value :: "dict \<Rightarrow> string \<Rightarrow> string \<Rightarrow> ustr result" where
  "text_value d k msg = (case map_of d (u k) of Some (JStr s) \<Rightarrow> Inr s | _ \<Rightarrow> Inl (binding_error msg))"

definition int_value :: "dict \<Rightarrow> string \<Rightarrow> string \<Rightarrow> int result" where
  "int_value d k msg = (case map_of d (u k) of Some (JInt n) \<Rightarrow> Inr n | _ \<Rightarrow> Inl (binding_error msg))"

definition bool_value :: "dict \<Rightarrow> string \<Rightarrow> string \<Rightarrow> bool result" where
  "bool_value d k msg = (case map_of d (u k) of Some (JBool b) \<Rightarrow> Inr b | _ \<Rightarrow> Inl (binding_error msg))"

definition frame_from_dict :: "'r stream_lib \<Rightarrow> dict \<Rightarrow> 'r StreamSessionFrame result" where
  "frame_from_dict lib d = checked
     [Check (set (map fst d) = set (map u FRAME_FIELDS)) (binding_error ''stream frame fields mismatch''),
      Check (map_of d (u ''schemaVersion'') = Some (JStr STREAM_SCHEMA_VERSION)) (binding_error ''unsupported stream frame schemaVersion'')]
     (case sl_from_json lib (the (map_of d (u ''canonicalStreamResponse''))) of
        None \<Rightarrow> Inl (binding_error ''invalid official StreamResponse payload'')
      | Some response \<Rightarrow>
          bindE (text_value d ''streamSessionId'' ''streamSessionId is not a safe token'') (\<lambda>sid.
          bindE (text_value d ''streamOpenId'' ''streamOpenId is not a safe token'') (\<lambda>oid.
          bindE (int_value d ''sequence'' ''sequence is outside JSON safe integer range'') (\<lambda>sequ.
          bindE (int_value d ''eventSeq'' ''eventSeq is outside JSON safe integer range'') (\<lambda>eseq.
          bindE (bool_value d ''final'' ''final must be boolean'') (\<lambda>fin.
          bindE (text_value d ''payloadDigest'' ''payloadDigest must be lowercase SHA-256 hex'') (\<lambda>digest.
          make_frame lib \<lparr> fr_stream_session_id = sid, fr_stream_open_id = oid, fr_sequence = sequ, fr_event_seq = eseq,
            fr_final = fin, fr_response = response, fr_payload_digest = digest \<rparr>)))))))"

section \<open>The cursor\<close>

datatype StreamFrameDisposition = NEW | REDELIVERY

record StreamFrameCursor =
  cu_stream_session_id :: ustr
  cu_stream_open_id :: ustr
  cu_task_id :: ustr
  cu_snapshot_event_seq :: int
  cu_last_sequence :: int
  cu_last_event_seq :: int
  cu_last_payload_digest :: "ustr option"
  cu_final :: bool

definition cursor_checks :: "StreamFrameCursor \<Rightarrow> check list" where
  "cursor_checks c =
     [Check (safe_token (cu_stream_session_id c)) (binding_error ''streamSessionId is not a safe token''),
      Check (safe_token (cu_stream_open_id c)) (binding_error ''streamOpenId is not a safe token''),
      Check (safe_token (cu_task_id c)) (binding_error ''taskId is not a safe token''),
      Check (0 \<le> cu_snapshot_event_seq c \<and> cu_snapshot_event_seq c \<le> MAX_SAFE_INTEGER)
        (binding_error ''snapshotEventSeq is outside JSON safe integer range''),
      Check (0 \<le> cu_last_sequence c \<and> cu_last_sequence c \<le> MAX_SAFE_INTEGER)
        (binding_error ''lastSequence is outside JSON safe integer range''),
      Check (0 \<le> cu_last_event_seq c \<and> cu_last_event_seq c \<le> MAX_SAFE_INTEGER)
        (binding_error ''lastEventSeq is outside JSON safe integer range'')] @
     (if cu_last_sequence c = 0 then
        [Check (cu_last_event_seq c = cu_snapshot_event_seq c) (binding_error ''empty cursor lastEventSeq must equal snapshotEventSeq''),
         Check (\<not> (cu_last_payload_digest c \<noteq> None \<or> cu_final c)) (binding_error ''empty cursor cannot have a payload digest or final state'')]
      else
        [Check (\<not> cu_last_event_seq c \<le> cu_snapshot_event_seq c) (binding_error ''advanced cursor lastEventSeq must exceed snapshotEventSeq''),
         Check (case cu_last_payload_digest c of None \<Rightarrow> False | Some d \<Rightarrow> lower_sha256 d)
           (binding_error ''advanced cursor requires a lowercase SHA-256 payload digest'')])"

text \<open>The constructor: a missing \<open>last_event_seq\<close> becomes the snapshot's.\<close>

definition make_cursor :: "ustr \<Rightarrow> ustr \<Rightarrow> ustr \<Rightarrow> int \<Rightarrow> int \<Rightarrow> int option \<Rightarrow> ustr option \<Rightarrow> bool \<Rightarrow> StreamFrameCursor result" where
  "make_cursor sid oid task snapshot last_sequence last_event_seq last_digest fin =
     (let c = \<lparr> cu_stream_session_id = sid, cu_stream_open_id = oid, cu_task_id = task, cu_snapshot_event_seq = snapshot,
        cu_last_sequence = last_sequence, cu_last_event_seq = (case last_event_seq of None \<Rightarrow> snapshot | Some e \<Rightarrow> e),
        cu_last_payload_digest = last_digest, cu_final = fin \<rparr> in
      checked (cursor_checks c) (Inr c))"

definition live_event_identity :: "'r stream_lib \<Rightarrow> 'r StreamSessionFrame \<Rightarrow> (ustr \<times> bool) result" where
  "live_event_identity lib f = (case sl_payload lib (fr_response f) of
     StatusUpdate task state \<Rightarrow> Inr (task, is_terminal_task_state (sl_num lib) state)
   | ArtifactUpdate task \<Rightarrow> Inr (task, False)
   | _ \<Rightarrow> Inl (binding_error ''live frame must contain committed statusUpdate or artifactUpdate''))"

definition cursor_accept ::
    "'r stream_lib \<Rightarrow> StreamFrameCursor \<Rightarrow> 'r StreamSessionFrame \<Rightarrow> (StreamFrameCursor \<times> StreamFrameDisposition) result" where
  "cursor_accept lib c f =
     checked [Check (fr_stream_session_id f = cu_stream_session_id c) (binding_error ''live frame streamSessionId mismatch''),
              Check (fr_stream_open_id f = cu_stream_open_id c) (binding_error ''live frame streamOpenId mismatch'')]
     (bindE (live_event_identity lib f) (\<lambda>(event_task_id, terminal).
      checked [Check (event_task_id = cu_task_id c) (binding_error ''live frame Task ID mismatch''),
               Check (fr_final f = terminal) (binding_error ''live frame final does not match committed Task terminal state'')]
      (if fr_sequence f = cu_last_sequence c \<and> cu_last_sequence c > 0 then
         if fr_event_seq f = cu_last_event_seq c \<and> cu_last_payload_digest c = Some (fr_payload_digest f) \<and> fr_final f = cu_final c
         then Inr (c, REDELIVERY)
         else Inl (binding_error ''conflicting live frame redelivery'')
       else checked
         [Check (\<not> cu_final c) (binding_error ''no new sequence is allowed after final frame''),
          Check (fr_sequence f = cu_last_sequence c + 1) (binding_error ''live frame sequence must increase by exactly one''),
          Check (\<not> fr_event_seq f \<le> cu_snapshot_event_seq c) (binding_error ''live frame eventSeq must exceed snapshotEventSeq''),
          Check (\<not> fr_event_seq f \<le> cu_last_event_seq c) (binding_error ''live frame eventSeq must strictly increase'')]
         (bindE (make_cursor (cu_stream_session_id c) (cu_stream_open_id c) (cu_task_id c) (cu_snapshot_event_seq c)
            (fr_sequence f) (Some (fr_event_seq f)) (Some (fr_payload_digest f)) (fr_final f)) (\<lambda>c'. Inr (c', NEW))))))"

section \<open>The open response\<close>

record 'r StreamSessionOpened =
  op_stream_session_id :: ustr
  op_stream_open_id :: ustr
  op_task_id :: ustr
  op_operation :: Operation
  op_caller_delivery_subject :: ustr
  op_snapshot_event_seq :: int
  op_expires_at :: datetime
  op_initial_frame :: "'r StreamSessionFrame"

text \<open>\<open>s.split(".")\<close>, of which \<open>s.rsplit(".", 1)[-1]\<close> is the last part.\<close>

fun split_dots :: "ustr \<Rightarrow> ustr list" where
  "split_dots [] = [[]]"
| "split_dots (c # s) = (if c = 46 then [] # split_dots s else (case split_dots s of p # ps \<Rightarrow> (c # p) # ps | [] \<Rightarrow> [[c]]))"

text \<open>\<open>_DELIVERY_SUBJECT.fullmatch\<close>.\<close>

definition delivery_subject :: "ustr \<Rightarrow> bool" where
  "delivery_subject s \<longleftrightarrow> (case split_dots s of
     [a, b, c, p, q, r] \<Rightarrow> a = u ''_DELIVER'' \<and> b = u ''a2amesh'' \<and> c = u ''stream'' \<and>
       list_all (\<lambda>x. x \<noteq> [] \<and> list_all token_char x) [p, q, r]
   | _ \<Rightarrow> False)"

definition opened_checks :: "'r stream_lib \<Rightarrow> 'r StreamSessionOpened \<Rightarrow> check list" where
  "opened_checks lib s = (let f = op_initial_frame s in
     [Check (safe_token (op_stream_session_id s)) (binding_error ''streamSessionId is not a safe token''),
      Check (safe_token (op_stream_open_id s)) (binding_error ''streamOpenId is not a safe token''),
      Check (safe_token (op_task_id s)) (binding_error ''taskId is not a safe token''),
      Check (op_operation s \<in> set STREAMING_OPERATIONS) (binding_error ''stream session operation must be streaming''),
      Check (delivery_subject (op_caller_delivery_subject s)) (binding_error ''callerDeliverySubject is invalid''),
      Check (last (split_dots (op_caller_delivery_subject s)) = op_stream_open_id s)
        (binding_error ''callerDeliverySubject is not bound to streamOpenId''),
      Check (0 \<le> op_snapshot_event_seq s \<and> op_snapshot_event_seq s \<le> MAX_SAFE_INTEGER)
        (binding_error ''snapshotEventSeq is outside JSON safe integer range''),
      Check (dt_aware (op_expires_at s)) (binding_error ''expiresAt must be timezone-aware''),
      Check (fr_stream_session_id f = op_stream_session_id s) (binding_error ''initialFrame streamSessionId mismatch''),
      Check (fr_stream_open_id f = op_stream_open_id s) (binding_error ''initialFrame streamOpenId mismatch''),
      Check (fr_sequence f = 0) (binding_error ''initialFrame sequence must be zero''),
      Check (fr_event_seq f = op_snapshot_event_seq s) (binding_error ''initialFrame eventSeq must equal snapshotEventSeq'')] @
     (case sl_payload lib (fr_response f) of
        TaskPayload task state \<Rightarrow>
          [Check (task = op_task_id s) (binding_error ''initialFrame Task ID mismatch''),
           Check (fr_final f = is_terminal_task_state (sl_num lib) state) (binding_error ''initialFrame final does not match Task terminal state'')]
      | _ \<Rightarrow> [Check False (binding_error ''initialFrame must contain an official Task snapshot'')]))"

definition make_opened :: "'r stream_lib \<Rightarrow> 'r StreamSessionOpened \<Rightarrow> 'r StreamSessionOpened result" where
  "make_opened lib s = checked (opened_checks lib s) (Inr s)"

definition opened_to_dict :: "'r stream_lib \<Rightarrow> (dict \<Rightarrow> bool) \<Rightarrow> 'r StreamSessionOpened \<Rightarrow> dict result" where
  "opened_to_dict lib schema s = bindE (frame_to_dict lib (op_initial_frame s)) (\<lambda>f.
     let d = dict_of
       [(u ''schemaVersion'', JStr STREAM_SCHEMA_VERSION), (u ''streamSessionId'', JStr (op_stream_session_id s)),
        (u ''streamOpenId'', JStr (op_stream_open_id s)), (u ''taskId'', JStr (op_task_id s)),
        (u ''operation'', JStr (u (operation_name (op_operation s)))), (u ''callerDeliverySubject'', JStr (op_caller_delivery_subject s)),
        (u ''snapshotEventSeq'', JInt (op_snapshot_event_seq s)), (u ''expiresAt'', JStr (format_timestamp_ms (op_expires_at s))),
        (u ''initialFrame'', JObj f)] in
     checked [Check (schema d) (binding_error ''stream open schema violation'')] (Inr d))"

definition opened_timestamp :: "(ustr \<Rightarrow> datetime option) \<Rightarrow> ustr \<Rightarrow> datetime result" where
  "opened_timestamp fromiso value = iso_timestamp fromiso [''invalid stream expiresAt timestamp''] ''stream expiresAt must include an offset'' value"

definition opened_from_dict :: "'r stream_lib \<Rightarrow> (dict \<Rightarrow> bool) \<Rightarrow> (ustr \<Rightarrow> datetime option) \<Rightarrow> dict \<Rightarrow> 'r StreamSessionOpened result" where
  "opened_from_dict lib schema fromiso d = checked [Check (schema d) (binding_error ''stream open schema violation'')]
     (bindE (get_text d ''expiresAt'') (\<lambda>x. bindE (opened_timestamp fromiso x) (\<lambda>expires.
      checked [Check (format_timestamp_ms expires = x) (binding_error ''expiresAt must be canonical UTC milliseconds'')]
      (bindE (get_text d ''operation'') (\<lambda>name. case parse_rpc_operation name of
         None \<Rightarrow> Inl (binding_error ''unknown stream operation'')
       | Some oper \<Rightarrow>
           bindE (get_text d ''streamSessionId'') (\<lambda>sid. bindE (get_text d ''streamOpenId'') (\<lambda>oid. bindE (get_text d ''taskId'') (\<lambda>task.
           bindE (get_text d ''callerDeliverySubject'') (\<lambda>subj. bindE (get_int d ''snapshotEventSeq'') (\<lambda>snap.
           bindE (get_dict d ''initialFrame'') (\<lambda>fd. bindE (frame_from_dict lib fd) (\<lambda>f.
           make_opened lib \<lparr> op_stream_session_id = sid, op_stream_open_id = oid, op_task_id = task, op_operation = oper,
             op_caller_delivery_subject = subj, op_snapshot_event_seq = snap, op_expires_at = expires, op_initial_frame = f \<rparr>))))))))))))"

text \<open>An open response determines a cursor at its snapshot.\<close>

lemma opened_cursor:
  assumes "make_opened lib s = Inr s'"
  shows "\<exists>c. make_cursor (op_stream_session_id s) (op_stream_open_id s) (op_task_id s) (op_snapshot_event_seq s) 0 None None False = Inr c"
  using assms by (auto simp: make_opened_def opened_checks_def Let_def make_cursor_def cursor_checks_def MAX_SAFE_INTEGER_def)

end
