(* ===== verification/StreamFacts.thy ===== *)
theory StreamFacts
  imports Streams
begin

text \<open>
  The sequence gate refines a log. The abstract state is the list of frames accepted as new; \<open>log_ok\<close> says what a
  consumer may rely on: one session and task, sequence numbers \<open>1, 2, \<dots>\<close> without gaps, strictly increasing event
  numbers above the snapshot, final exactly at a terminal task state and nothing after it. \<open>cursor_of\<close> is the cursor
  that stands for a log.
\<close>

section \<open>Logs\<close>

definition live_frame :: "'r stream_lib \<Rightarrow> StreamFrameCursor \<Rightarrow> 'r StreamSessionFrame \<Rightarrow> bool" where
  "live_frame lib c f \<longleftrightarrow> fr_stream_session_id f = cu_stream_session_id c \<and> fr_stream_open_id f = cu_stream_open_id c \<and>
     live_event_identity lib f = Inr (cu_task_id c, fr_final f)"

definition log_ok :: "'r stream_lib \<Rightarrow> StreamFrameCursor \<Rightarrow> 'r StreamSessionFrame list \<Rightarrow> bool" where
  "log_ok lib c0 L \<longleftrightarrow> list_all (live_frame lib c0) L \<and> map fr_sequence L = map int [1..<Suc (length L)] \<and>
     sorted_wrt (<) (cu_snapshot_event_seq c0 # map fr_event_seq L) \<and> list_all (\<lambda>f. \<not> fr_final f) (butlast L)"

definition fresh_cursor :: "StreamFrameCursor \<Rightarrow> bool" where
  "fresh_cursor c \<longleftrightarrow> all_ok (cursor_checks c) \<and> cu_last_sequence c = 0"

definition cursor_of :: "StreamFrameCursor \<Rightarrow> 'r StreamSessionFrame list \<Rightarrow> StreamFrameCursor" where
  "cursor_of c0 L = (if L = [] then c0 else c0\<lparr> cu_last_sequence := fr_sequence (last L), cu_last_event_seq := fr_event_seq (last L),
     cu_last_payload_digest := Some (fr_payload_digest (last L)), cu_final := fr_final (last L) \<rparr>)"

abbreviation valid_frame :: "'r stream_lib \<Rightarrow> 'r StreamSessionFrame \<Rightarrow> bool" where
  "valid_frame lib f \<equiv> all_ok (frame_checks lib f)"

text \<open>The frame repeats the last one of the log, as far as the digest can tell.\<close>

definition repeats_last :: "'r StreamSessionFrame list \<Rightarrow> 'r StreamSessionFrame \<Rightarrow> bool" where
  "repeats_last L f \<longleftrightarrow> L \<noteq> [] \<and> fr_sequence f = fr_sequence (last L) \<and> fr_event_seq f = fr_event_seq (last L) \<and>
     fr_payload_digest f = fr_payload_digest (last L) \<and> fr_final f = fr_final (last L)"

lemma log_ok_Nil [simp]: "log_ok lib c0 []"
  by (simp add: log_ok_def)

lemma last_sequence:
  assumes "log_ok lib c0 L" and "L \<noteq> []"
  shows "fr_sequence (last L) = int (length L)"
  using assms by (cases L rule: rev_cases) (simp_all add: log_ok_def)

lemma cursor_of_simps [simp]:
  "cu_stream_session_id (cursor_of c0 L) = cu_stream_session_id c0" "cu_stream_open_id (cursor_of c0 L) = cu_stream_open_id c0"
  "cu_task_id (cursor_of c0 L) = cu_task_id c0" "cu_snapshot_event_seq (cursor_of c0 L) = cu_snapshot_event_seq c0"
  by (simp_all add: cursor_of_def)

lemma cursor_of_sequence: "fresh_cursor c0 \<Longrightarrow> log_ok lib c0 L \<Longrightarrow> cu_last_sequence (cursor_of c0 L) = int (length L)"
  using last_sequence by (auto simp: cursor_of_def fresh_cursor_def)

lemma fresh_last_event: "fresh_cursor c0 \<Longrightarrow> cu_last_event_seq c0 = cu_snapshot_event_seq c0 \<and> \<not> cu_final c0 \<and> cu_last_payload_digest c0 = None"
  by (auto simp: fresh_cursor_def cursor_checks_def)

text \<open>Appending a frame to a log.\<close>

lemma log_ok_snoc:
  assumes "fresh_cursor c0" and "log_ok lib c0 L"
  shows "log_ok lib c0 (L @ [f]) \<longleftrightarrow> live_frame lib c0 f \<and> \<not> cu_final (cursor_of c0 L) \<and>
    fr_sequence f = cu_last_sequence (cursor_of c0 L) + 1 \<and> cu_snapshot_event_seq c0 < fr_event_seq f \<and>
    cu_last_event_seq (cursor_of c0 L) < fr_event_seq f"
proof (cases L rule: rev_cases)
  case Nil
  with assms fresh_last_event [OF assms(1)] show ?thesis
    by (auto simp: log_ok_def cursor_of_def fresh_cursor_def)
next
  case (snoc K g)
  have s: "cu_last_sequence (cursor_of c0 L) = int (length L)" by (rule cursor_of_sequence [OF assms])
  have c: "cu_final (cursor_of c0 L) = fr_final g" "cu_last_event_seq (cursor_of c0 L) = fr_event_seq g"
    by (simp_all add: cursor_of_def snoc)
  have lt: "sorted_wrt (<) (cu_snapshot_event_seq c0 # map fr_event_seq L)" using assms(2) by (simp add: log_ok_def)
  have "sorted_wrt (<) (cu_snapshot_event_seq c0 # map fr_event_seq (L @ [f])) \<longleftrightarrow>
      cu_snapshot_event_seq c0 < fr_event_seq f \<and> fr_event_seq g < fr_event_seq f"
    using lt by (fastforce simp: snoc sorted_wrt_append)
  moreover have "map fr_sequence (L @ [f]) = map int [1..<Suc (length (L @ [f]))] \<longleftrightarrow> fr_sequence f = int (length L) + 1"
    using assms(2) by (auto simp: log_ok_def)
  moreover have "list_all (\<lambda>f. \<not> fr_final f) (butlast (L @ [f])) \<longleftrightarrow> \<not> fr_final g"
    using assms(2) by (simp add: snoc log_ok_def butlast_append)
  ultimately show ?thesis using assms(2) unfolding log_ok_def s c by (simp del: map_append upt_Suc) argo
qed

section \<open>One frame\<close>

lemma cursor_of_snoc: "cursor_of c0 (L @ [f]) = (cursor_of c0 L)\<lparr> cu_last_sequence := fr_sequence f, cu_last_event_seq := fr_event_seq f,
     cu_last_payload_digest := Some (fr_payload_digest f), cu_final := fr_final f \<rparr>"
  by (simp add: cursor_of_def)

lemma fresh_ranges:
  assumes "fresh_cursor c0"
  shows "safe_token (cu_stream_session_id c0)" "safe_token (cu_stream_open_id c0)" "safe_token (cu_task_id c0)"
    "0 \<le> cu_snapshot_event_seq c0" "cu_snapshot_event_seq c0 \<le> MAX_SAFE_INTEGER"
  using assms by (simp_all add: fresh_cursor_def cursor_checks_def)

text \<open>The constructor does not fail when a frame is accepted.\<close>

lemma advance_ok:
  assumes "fresh_cursor c0" and "valid_frame lib f" and "0 < fr_sequence f" and "cu_snapshot_event_seq c0 < fr_event_seq f"
  shows "make_cursor (cu_stream_session_id c0) (cu_stream_open_id c0) (cu_task_id c0) (cu_snapshot_event_seq c0)
    (fr_sequence f) (Some (fr_event_seq f)) (Some (fr_payload_digest f)) (fr_final f) = Inr (cursor_of c0 (L @ [f]))"
  using fresh_ranges [OF assms(1)] assms(2-4)
  by (simp add: make_cursor_def cursor_checks_def frame_checks_def Let_def cursor_of_def)

lemma accept_live:
  "cursor_accept lib c f = Inr r \<longleftrightarrow> live_frame lib c f \<and>
     (if fr_sequence f = cu_last_sequence c \<and> cu_last_sequence c > 0 then
        fr_event_seq f = cu_last_event_seq c \<and> cu_last_payload_digest c = Some (fr_payload_digest f) \<and> fr_final f = cu_final c \<and>
        r = (c, REDELIVERY)
      else \<not> cu_final c \<and> fr_sequence f = cu_last_sequence c + 1 \<and> cu_snapshot_event_seq c < fr_event_seq f \<and>
        cu_last_event_seq c < fr_event_seq f \<and>
        (\<exists>c'. make_cursor (cu_stream_session_id c) (cu_stream_open_id c) (cu_task_id c) (cu_snapshot_event_seq c)
            (fr_sequence f) (Some (fr_event_seq f)) (Some (fr_payload_digest f)) (fr_final f) = Inr c' \<and> r = (c', NEW)))"
  unfolding cursor_accept_def live_frame_def by (cases "live_event_identity lib f") (auto simp: not_le)

lemma accept_log:
  assumes "fresh_cursor c0" and "log_ok lib c0 L" and "valid_frame lib f"
  shows "cursor_accept lib (cursor_of c0 L) f = Inr r \<longleftrightarrow>
    log_ok lib c0 (L @ [f]) \<and> r = (cursor_of c0 (L @ [f]), NEW) \<or>
    live_frame lib c0 f \<and> repeats_last L f \<and> r = (cursor_of c0 L, REDELIVERY)"
proof -
  have s: "cu_last_sequence (cursor_of c0 L) = int (length L)" by (rule cursor_of_sequence [OF assms(1,2)])
  have live: "live_frame lib (cursor_of c0 L) f = live_frame lib c0 f" by (simp add: live_frame_def)
  have adv: "make_cursor (cu_stream_session_id c0) (cu_stream_open_id c0) (cu_task_id c0) (cu_snapshot_event_seq c0)
      (fr_sequence f) (Some (fr_event_seq f)) (Some (fr_payload_digest f)) (fr_final f) = Inr (cursor_of c0 (L @ [f]))"
    if "fr_sequence f = int (length L) + 1" "cu_snapshot_event_seq c0 < fr_event_seq f"
    using that by (intro advance_ok [OF assms(1,3)]) simp_all
  show ?thesis
  proof (cases "fr_sequence f = int (length L) \<and> 0 < length L")
    case True
    then have last: "fr_sequence (last L) = fr_sequence f" using last_sequence [OF assms(2)] by auto
    have "\<not> log_ok lib c0 (L @ [f])" using True s unfolding log_ok_snoc [OF assms(1,2)] by simp
    moreover have "cursor_of c0 L = c0\<lparr> cu_last_sequence := fr_sequence (last L), cu_last_event_seq := fr_event_seq (last L),
       cu_last_payload_digest := Some (fr_payload_digest (last L)), cu_final := fr_final (last L) \<rparr>"
      using True by (auto simp: cursor_of_def)
    ultimately show ?thesis using True last unfolding accept_live live repeats_last_def by auto
  next
    case False
    then have "\<not> repeats_last L f" using last_sequence [OF assms(2)] by (auto simp: repeats_last_def)
    moreover have n: "\<not> (fr_sequence f = int (length L) \<and> 0 < int (length L))" using False by simp
    ultimately show ?thesis
      unfolding accept_live live log_ok_snoc [OF assms(1,2)] s if_not_P [OF n] cursor_of_simps using adv by (metis Inr_inject)
  qed
qed

section \<open>Sequences of deliveries\<close>

text \<open>A consumer that offers every delivery to the cursor, keeps the cursor when one is refused and hands on the new frames.\<close>

fun gate_run :: "'r stream_lib \<Rightarrow> StreamFrameCursor \<Rightarrow> 'r StreamSessionFrame list \<Rightarrow> StreamFrameCursor \<times> 'r StreamSessionFrame list" where
  "gate_run lib c [] = (c, [])"
| "gate_run lib c (f # fs) = (case cursor_accept lib c f of
     Inr (c', NEW) \<Rightarrow> (case gate_run lib c' fs of (c'', L) \<Rightarrow> (c'', f # L))
   | Inr (c', REDELIVERY) \<Rightarrow> gate_run lib c' fs
   | Inl e \<Rightarrow> gate_run lib c fs)"

text \<open>One delivery either extends the log or changes nothing.\<close>

lemma gate_step:
  assumes "fresh_cursor c0" and "log_ok lib c0 L" and "valid_frame lib f"
  shows "gate_run lib (cursor_of c0 L) (f # fs) =
    (if log_ok lib c0 (L @ [f]) then (case gate_run lib (cursor_of c0 (L @ [f])) fs of (c', K) \<Rightarrow> (c', f # K))
     else gate_run lib (cursor_of c0 L) fs)"
proof (cases "cursor_accept lib (cursor_of c0 L) f")
  case (Inl e)
  then have "\<not> log_ok lib c0 (L @ [f])" using accept_log [OF assms, of "(cursor_of c0 (L @ [f]), NEW)"] by auto
  with Inl show ?thesis by simp
next
  case (Inr r)
  with accept_log [OF assms, of r] consider "log_ok lib c0 (L @ [f])" "r = (cursor_of c0 (L @ [f]), NEW)"
    | "repeats_last L f" "r = (cursor_of c0 L, REDELIVERY)" by blast
  then show ?thesis
  proof cases
    case 1
    with Inr show ?thesis by simp
  next
    case 2
    then have "\<not> log_ok lib c0 (L @ [f])"
      using last_sequence [OF assms(2)] cursor_of_sequence [OF assms(1,2)] unfolding log_ok_snoc [OF assms(1,2)] repeats_last_def by auto
    with 2 Inr show ?thesis by simp
  qed
qed

lemma gate_run_log:
  "fresh_cursor c0 \<Longrightarrow> log_ok lib c0 L \<Longrightarrow> list_all (valid_frame lib) fs \<Longrightarrow>
    \<exists>K. gate_run lib (cursor_of c0 L) fs = (cursor_of c0 (L @ K), K) \<and> log_ok lib c0 (L @ K) \<and> set K \<subseteq> set fs"
proof (induction fs arbitrary: L)
  case Nil
  then show ?case by simp
next
  case (Cons f fs)
  have step: "gate_run lib (cursor_of c0 L) (f # fs) =
    (if log_ok lib c0 (L @ [f]) then (case gate_run lib (cursor_of c0 (L @ [f])) fs of (c', K) \<Rightarrow> (c', f # K))
     else gate_run lib (cursor_of c0 L) fs)" using Cons.prems by (intro gate_step) simp_all
  show ?case
  proof (cases "log_ok lib c0 (L @ [f])")
    case True
    with Cons.IH [OF Cons.prems(1) True] Cons.prems(3) obtain K where
      "gate_run lib (cursor_of c0 (L @ [f])) fs = (cursor_of c0 ((L @ [f]) @ K), K)" "log_ok lib c0 ((L @ [f]) @ K)" "set K \<subseteq> set fs" by auto
    with True step show ?thesis by (intro exI [of _ "f # K"]) auto
  next
    case False
    with Cons.IH [OF Cons.prems(1,2)] Cons.prems(3) step show ?thesis by auto
  qed
qed

text \<open>At-least-once delivery in order: every frame arrives when its turn comes, and earlier ones may arrive again at any time.\<close>

inductive delivered :: "'a list \<Rightarrow> 'a list \<Rightarrow> 'a list \<Rightarrow> bool" where
  finished: "delivered P [] []"
| first: "delivered (P @ [f]) L fs \<Longrightarrow> delivered P (f # L) (f # fs)"
| again: "g \<in> set P \<Longrightarrow> delivered P L fs \<Longrightarrow> delivered P L (g # fs)"

lemma log_ok_prefix: "log_ok lib c0 (L @ K) \<Longrightarrow> log_ok lib c0 L"
proof (induction K rule: rev_induct)
  case (snoc f K)
  have "log_ok lib c0 (M @ [f]) \<Longrightarrow> log_ok lib c0 M" for M
    by (cases M rule: rev_cases) (auto simp: log_ok_def sorted_wrt_append butlast_append)
  with snoc show ?case by (metis append_assoc)
qed simp

text \<open>A frame of the log does not extend it.\<close>

lemma old_frame_refused:
  assumes "fresh_cursor c0" and "log_ok lib c0 L" and "g \<in> set L"
  shows "\<not> log_ok lib c0 (L @ [g])"
proof
  assume "log_ok lib c0 (L @ [g])"
  then have "fr_sequence g = int (length L) + 1" using cursor_of_sequence [OF assms(1,2)] log_ok_snoc [OF assms(1,2)] by simp
  moreover have "fr_sequence g \<in> set (map int [1..<Suc (length L)])"
    using assms(2,3) by (metis log_ok_def image_eqI list.set_map)
  ultimately show False by auto
qed

lemma gate_run_delivered:
  "delivered P L fs \<Longrightarrow> fresh_cursor c0 \<Longrightarrow> log_ok lib c0 (P @ L) \<Longrightarrow> list_all (valid_frame lib) fs \<Longrightarrow>
    gate_run lib (cursor_of c0 P) fs = (cursor_of c0 (P @ L), L)"
proof (induction rule: delivered.induct)
  case (finished P)
  then show ?case by simp
next
  case (first P f L fs)
  from first.prems have ok: "log_ok lib c0 P" "log_ok lib c0 (P @ [f])"
    using log_ok_prefix [of lib c0 P "f # L"] log_ok_prefix [of lib c0 "P @ [f]" L] by simp_all
  have "gate_run lib (cursor_of c0 (P @ [f])) fs = (cursor_of c0 ((P @ [f]) @ L), L)"
    using first by simp
  with ok(2) show ?case using gate_step [OF first.prems(1) ok(1), of f fs] first.prems(3) by simp
next
  case (again g P L fs)
  have ok: "log_ok lib c0 P" by (rule log_ok_prefix [OF again.prems(2)])
  have "\<not> log_ok lib c0 (P @ [g])" by (rule old_frame_refused [OF again.prems(1) ok again.hyps(1)])
  then show ?case using gate_step [OF again.prems(1) ok, of g fs] again by simp
qed

end
