(* ===== verification/StreamProperties.thy ===== *)
theory StreamProperties
  imports StreamFacts
begin

text \<open>The theorems on stream frames and the sequence gate.\<close>

section \<open>The gate\<close>

text \<open>
  C21. The cursor implements the log: offered to the cursor of a log, a frame is accepted as new exactly when the log extended by
  it is a log (same session and task, next sequence number, larger event number, final exactly at a terminal state, nothing after
  a final frame), and the result is the cursor of the extended log; it is accepted as a redelivery exactly when it repeats the
  last frame, and then the cursor is unchanged; every other frame is refused.
\<close>
theorem stream_gate_refines:
  assumes "fresh_cursor c0" and "log_ok lib c0 L" and "valid_frame lib f"
  shows "((\<exists>c'. cursor_accept lib (cursor_of c0 L) f = Inr (c', NEW)) \<longleftrightarrow> log_ok lib c0 (L @ [f])) \<and>
    ((\<exists>c'. cursor_accept lib (cursor_of c0 L) f = Inr (c', REDELIVERY)) \<longleftrightarrow> live_frame lib c0 f \<and> repeats_last L f) \<and>
    (\<forall>c'. cursor_accept lib (cursor_of c0 L) f = Inr (c', NEW) \<longrightarrow> c' = cursor_of c0 (L @ [f])) \<and>
    (\<forall>c'. cursor_accept lib (cursor_of c0 L) f = Inr (c', REDELIVERY) \<longrightarrow> c' = cursor_of c0 L)"
  unfolding accept_log [OF assms] by simp

text \<open>
  C22. Exactly-once, in order: whatever valid frames are delivered, in whatever order and multiplicity, the frames handed on form a
  gap-free ordered log and the cursor stands for it; and when the frames of a log arrive in order, each at least once and with
  earlier ones repeated at any time, then exactly the log is handed on.
\<close>
theorem stream_exactly_once:
  assumes "fresh_cursor c0" and "list_all (valid_frame lib) fs"
  shows "log_ok lib c0 (snd (gate_run lib c0 fs)) \<and> fst (gate_run lib c0 fs) = cursor_of c0 (snd (gate_run lib c0 fs)) \<and>
    (\<forall>L. log_ok lib c0 L \<and> delivered [] L fs \<longrightarrow> snd (gate_run lib c0 fs) = L)"
proof -
  have e: "cursor_of c0 [] = c0" for c0 by (simp add: cursor_of_def)
  show ?thesis
    using gate_run_log [OF assms(1) log_ok_Nil assms(2)] gate_run_delivered [OF _ assms(1) _ assms(2), of "[]"] by (auto simp: e)
qed

section \<open>Frames on the wire\<close>

lemma frame_core_lookup:
  assumes "frame_core lib f = Inr d"
  obtains r where "sl_to_json lib (fr_response f) = Some r" and "dict_wf d" and "map_of d = map_of (rev
    [(u ''schemaVersion'', JStr STREAM_SCHEMA_VERSION), (u ''streamSessionId'', JStr (fr_stream_session_id f)),
     (u ''streamOpenId'', JStr (fr_stream_open_id f)), (u ''sequence'', JInt (fr_sequence f)), (u ''eventSeq'', JInt (fr_event_seq f)),
     (u ''final'', JBool (fr_final f)), (u ''canonicalStreamResponse'', JObj r)])"
proof -
  obtain r where r: "sl_to_json lib (fr_response f) = Some r" using assms by (auto simp: frame_core_def frame_core_dict_def split: option.splits)
  with assms have "d = dict_of
    [(u ''schemaVersion'', JStr STREAM_SCHEMA_VERSION), (u ''streamSessionId'', JStr (fr_stream_session_id f)),
     (u ''streamOpenId'', JStr (fr_stream_open_id f)), (u ''sequence'', JInt (fr_sequence f)), (u ''eventSeq'', JInt (fr_event_seq f)),
     (u ''final'', JBool (fr_final f)), (u ''canonicalStreamResponse'', JObj r)]"
    by (simp add: frame_core_def frame_core_dict_def)
  with r that show thesis by (simp add: map_of_dict_of)
qed

text \<open>A valid frame has a core dictionary, and its digest is the hash of its canonical bytes.\<close>

lemma valid_frame_core:
  assumes "valid_frame lib f"
  obtains d bs where "frame_core lib f = Inr d" and "sl_dumps lib (JObj d) = Some bs" and "fr_payload_digest f = sha256_hex bs"
  using assms that
  by (auto simp: frame_checks_def compute_payload_digest_def sha256_rfc8785_def rfc8785_bytes_def split: option.splits)

text \<open>
  Frames round-trip and their digest covers the whole content: a valid frame is written to a dictionary that reads back as the
  same frame (given that ProtoJSON reads back its response), and any frame that is accepted with the same digest has the same
  canonical content unless two different byte strings have the same SHA-256.
\<close>
theorem frame_roundtrip:
  assumes "valid_frame lib f" and "\<And>r. sl_to_json lib (fr_response f) = Some r \<Longrightarrow> sl_from_json lib (JObj r) = Some (fr_response f)"
  shows "(\<exists>d. frame_to_dict lib f = Inr d \<and> frame_from_dict lib d = Inr f) \<and>
    (\<forall>d' g. frame_from_dict lib d' = Inr g \<and> fr_payload_digest g = fr_payload_digest f \<longrightarrow>
       (\<exists>core core' bs bs'. frame_core lib f = Inr core \<and> frame_core lib g = Inr core' \<and> sl_dumps lib (JObj core) = Some bs \<and>
          sl_dumps lib (JObj core') = Some bs' \<and> sha256_hex bs = sha256_hex bs'))"
proof -
  obtain core bs where core: "frame_core lib f = Inr core" "sl_dumps lib (JObj core) = Some bs" "fr_payload_digest f = sha256_hex bs"
    by (rule valid_frame_core [OF assms(1)])
  obtain r where r: "sl_to_json lib (fr_response f) = Some r" and wf: "dict_wf core" and look: "map_of core = map_of (rev
    [(u ''schemaVersion'', JStr STREAM_SCHEMA_VERSION), (u ''streamSessionId'', JStr (fr_stream_session_id f)),
     (u ''streamOpenId'', JStr (fr_stream_open_id f)), (u ''sequence'', JInt (fr_sequence f)), (u ''eventSeq'', JInt (fr_event_seq f)),
     (u ''final'', JBool (fr_final f)), (u ''canonicalStreamResponse'', JObj r)])" by (rule frame_core_lookup [OF core(1)])
  let ?d = "dict_put (u ''payloadDigest'') (JStr (fr_payload_digest f)) core"
  have m: "map_of ?d = (map_of core)(u ''payloadDigest'' \<mapsto> JStr (fr_payload_digest f))" by (rule map_of_dict_put [OF wf])
  have keys: "fst ` set core = dom (map_of core)" by (rule dom_map_of_conv_image_fst [symmetric])
  have "set (map fst ?d) = set (map u FRAME_FIELDS)"
    unfolding set_map keys_dict_put keys look by (auto simp: FRAME_FIELDS_def)
  then have "frame_from_dict lib ?d = make_frame lib \<lparr> fr_stream_session_id = fr_stream_session_id f, fr_stream_open_id = fr_stream_open_id f,
      fr_sequence = fr_sequence f, fr_event_seq = fr_event_seq f, fr_final = fr_final f, fr_response = fr_response f,
      fr_payload_digest = fr_payload_digest f \<rparr>"
    using assms(2) [OF r] by (simp add: frame_from_dict_def checked_Cons m look text_value_def int_value_def bool_value_def)
  also have "\<dots> = make_frame lib f" by (rule arg_cong) simp
  finally have "frame_from_dict lib ?d = make_frame lib f" .
  then have "frame_from_dict lib ?d = Inr f" using assms(1) by (simp add: make_frame_def)
  moreover have "\<exists>core' bs'. frame_core lib g = Inr core' \<and> sl_dumps lib (JObj core') = Some bs' \<and> sha256_hex bs = sha256_hex bs'"
    if g: "frame_from_dict lib d' = Inr g" "fr_payload_digest g = fr_payload_digest f" for d' g
  proof -
    have "valid_frame lib g" using g(1) by (auto simp: frame_from_dict_def make_frame_def split: option.splits)
    then obtain core' bs' where "frame_core lib g = Inr core'" "sl_dumps lib (JObj core') = Some bs'" "fr_payload_digest g = sha256_hex bs'"
      by (rule valid_frame_core)
    with g(2) core(3) show ?thesis by auto
  qed
  ultimately show ?thesis using core by (auto simp: frame_to_dict_def)
qed

section \<open>A concrete session\<close>

definition demo_to_json :: "stream_payload \<Rightarrow> dict option" where
  "demo_to_json p = (case p of StatusUpdate t n \<Rightarrow> Some (dict_of [(u ''taskId'', JStr t), (u ''state'', JInt n)]) | _ \<Rightarrow> None)"

definition demo_from_json :: "json \<Rightarrow> stream_payload option" where
  "demo_from_json v = (case v of JObj d \<Rightarrow> (case (map_of d (u ''taskId''), map_of d (u ''state'')) of
     (Some (JStr t), Some (JInt n)) \<Rightarrow> Some (StatusUpdate t n) | _ \<Rightarrow> None) | _ \<Rightarrow> None)"

definition demo_stream :: "stream_payload stream_lib" where
  "demo_stream = \<lparr> sl_to_json = demo_to_json, sl_from_json = demo_from_json, sl_payload = (\<lambda>p. p), sl_dumps = jcs_dumps, sl_num = example_num \<rparr>"

definition demo_cursor :: StreamFrameCursor where
  "demo_cursor = \<lparr> cu_stream_session_id = u ''s'', cu_stream_open_id = u ''o'', cu_task_id = u ''t'', cu_snapshot_event_seq = 5,
     cu_last_sequence = 0, cu_last_event_seq = 5, cu_last_payload_digest = None, cu_final = False \<rparr>"

lemma demo_cursor_fresh: "fresh_cursor demo_cursor"
  by (simp add: fresh_cursor_def cursor_checks_def demo_cursor_def safe_token_def token_char_def u_def MAX_SAFE_INTEGER_def)

lemma demo_frame:
  assumes "0 \<le> n" and "n \<le> 10"
  obtains f where "valid_frame demo_stream f" and "fr_sequence f = n" and "fr_event_seq f = 5 + n" and "fr_final f \<longleftrightarrow> n = 2"
    and "live_frame demo_stream demo_cursor f"
    and "\<And>r. sl_to_json demo_stream (fr_response f) = Some r \<Longrightarrow> sl_from_json demo_stream (JObj r) = Some (fr_response f)"
proof -
  let ?p = "StatusUpdate (u ''t'') (if n = 2 then 3 else 2)"
  let ?core = "dict_of [(u ''schemaVersion'', JStr STREAM_SCHEMA_VERSION), (u ''streamSessionId'', JStr (u ''s'')), (u ''streamOpenId'', JStr (u ''o'')),
           (u ''sequence'', JInt n), (u ''eventSeq'', JInt (5 + n)), (u ''final'', JBool (n = 2)),
           (u ''canonicalStreamResponse'', JObj (dict_of [(u ''taskId'', JStr (u ''t'')), (u ''state'', JInt (if n = 2 then 3 else 2))]))]"
  have "jwf (JObj (dict_of [(u ''taskId'', JStr (u ''t'')), (u ''state'', JInt (if n = 2 then 3 else 2))]))"
    by (rule jwf_dict_of) (auto simp: u_def scalar_ascii MAX_SAFE_INTEGER_def)
  then have "jwf (JObj ?core)" using assms
    by (intro jwf_dict_of) (auto simp: u_def scalar_ascii MAX_SAFE_INTEGER_def STREAM_SCHEMA_VERSION_def)
  then obtain bs where bs: "jcs_dumps (JObj ?core) = Some bs" using jcs.dumps_wf by blast
  define f where "f = \<lparr> fr_stream_session_id = u ''s'', fr_stream_open_id = u ''o'', fr_sequence = n, fr_event_seq = 5 + n,
    fr_final = (n = 2), fr_response = ?p, fr_payload_digest = sha256_hex bs \<rparr>"
  have "compute_payload_digest demo_stream f = Inr (sha256_hex bs)"
    using bs by (simp add: compute_payload_digest_def frame_core_def frame_core_dict_def f_def demo_stream_def demo_to_json_def
        sha256_rfc8785_def rfc8785_bytes_def)
  then have "valid_frame demo_stream f" using assms sha256_hex_shape [of bs]
    by (simp add: frame_checks_def f_def safe_token_def token_char_def u_def MAX_SAFE_INTEGER_def)
  moreover have "live_frame demo_stream demo_cursor f"
    by (simp add: live_frame_def demo_cursor_def f_def live_event_identity_def demo_stream_def is_terminal_task_state_def
        TERMINAL_TASK_STATES_def example_num_def)
  moreover have "sl_from_json demo_stream (JObj r) = Some (fr_response f)" if "sl_to_json demo_stream (fr_response f) = Some r" for r
    using that by (auto simp: demo_stream_def f_def demo_to_json_def demo_from_json_def map_of_dict_of)
  ultimately show thesis using that [of f] by (simp add: f_def)
qed

text \<open>A frame and its final successor.\<close>

lemma demo_frames:
  obtains f g where "list_all (valid_frame demo_stream) [f, g]" and "log_ok demo_stream demo_cursor [f]" and "log_ok demo_stream demo_cursor [f, g]"
    and "\<not> log_ok demo_stream demo_cursor [g]"
proof -
  obtain f where f: "valid_frame demo_stream f" "fr_sequence f = 1" "fr_event_seq f = 6" "\<not> fr_final f" "live_frame demo_stream demo_cursor f"
    using demo_frame [of 1] by auto
  obtain g where g: "valid_frame demo_stream g" "fr_sequence g = 2" "fr_event_seq g = 7" "fr_final g" "live_frame demo_stream demo_cursor g"
    using demo_frame [of 2] by auto
  have snap: "cu_snapshot_event_seq demo_cursor = 5" by (simp add: demo_cursor_def)
  show thesis using f g by (intro that [of f g]) (simp_all add: log_ok_def snap)
qed

theorem stream_gate_refines_witness:
  "\<exists>f g c c'. cursor_accept demo_stream demo_cursor f = Inr (c, NEW) \<and> cursor_accept demo_stream c g = Inr (c', NEW) \<and>
     (\<exists>e. cursor_accept demo_stream demo_cursor g = Inl e)"
proof -
  obtain f g where fg: "list_all (valid_frame demo_stream) [f, g]" "log_ok demo_stream demo_cursor [f]" "log_ok demo_stream demo_cursor [f, g]"
    "\<not> log_ok demo_stream demo_cursor [g]" by (rule demo_frames)
  have e: "cursor_of demo_cursor ([] :: stream_payload StreamSessionFrame list) = demo_cursor" by (simp add: cursor_of_def)
  have v: "valid_frame demo_stream f" "valid_frame demo_stream g" using fg(1) by simp_all
  note R = stream_gate_refines [OF demo_cursor_fresh]
  have 1: "cursor_accept demo_stream demo_cursor f = Inr (cursor_of demo_cursor [f], NEW)"
    using R [OF log_ok_Nil v(1)] fg(2) by (auto simp: e)
  have 2: "\<exists>c'. cursor_accept demo_stream (cursor_of demo_cursor [f]) g = Inr (c', NEW)"
    using R [OF fg(2) v(2)] fg(3) by simp
  have 3: "cursor_accept demo_stream demo_cursor g \<noteq> Inr (c, d)" for c d
    using R [OF log_ok_Nil v(2)] fg(4) by (cases d) (auto simp: e repeats_last_def)
  then obtain x where "cursor_accept demo_stream demo_cursor g = Inl x"
    by (cases "cursor_accept demo_stream demo_cursor g") auto
  with 1 2 show ?thesis by blast
qed

theorem stream_exactly_once_witness:
  "\<exists>f g. snd (gate_run demo_stream demo_cursor [f, f, g, f]) = [f, g]"
proof -
  obtain f g where fg: "list_all (valid_frame demo_stream) [f, g]" "log_ok demo_stream demo_cursor [f, g]" by (rule demo_frames)
  have "delivered [] [f, g] [f, f, g, f]" by (intro delivered.intros) simp_all
  moreover have "list_all (valid_frame demo_stream) [f, f, g, f]" using fg(1) by simp
  ultimately show ?thesis using stream_exactly_once [OF demo_cursor_fresh] fg(2) by blast
qed

theorem frame_roundtrip_witness:
  "\<exists>f d. frame_to_dict demo_stream f = Inr d \<and> frame_from_dict demo_stream d = Inr f \<and> fr_final f"
proof -
  obtain g where g: "valid_frame demo_stream g" "fr_final g"
    "\<And>r. sl_to_json demo_stream (fr_response g) = Some r \<Longrightarrow> sl_from_json demo_stream (JObj r) = Some (fr_response g)"
    using demo_frame [of 2] by auto
  from frame_roundtrip [OF g(1,3)] g(2) show ?thesis by blast
qed

end
