(* ===== verification/Transport.thy ===== *)
theory Transport
  imports BindingAuth
begin

text \<open>
  The unary NATS transport (\<open>bindings/nats_v1/response.py\<close> and \<open>transport.py\<close>): response envelopes, the request a client
  builds and the response it accepts, and the handling of one message by the server, which composes decoding, authentication,
  dispatch and response. The connection itself is not modelled: an incoming message is its decoded body (or the fact that it is
  no JSON object text), its subject and reply subject; what the server does is the response it sends, if any, beside the new
  states of the replay guard and of the application.
\<close>

section \<open>Response envelopes\<close>

record BindingError =
  er_type :: ustr
  er_message :: ustr
  er_retryable :: bool

definition error_type_text :: "ustr \<Rightarrow> bool" where
  "error_type_text s \<longleftrightarrow> s \<noteq> [] \<and> length s \<le> 128 \<and> list_all (\<lambda>c. token_char c \<and> c \<noteq> 45) s \<and>
     (65 \<le> hd s \<and> hd s \<le> 90 \<or> 97 \<le> hd s \<and> hd s \<le> 122)"

definition make_binding_error :: "ustr \<Rightarrow> ustr \<Rightarrow> bool \<Rightarrow> BindingError result" where
  "make_binding_error type message retryable = checked
     [Check (error_type_text type) (BindingValidationError [''error.type is invalid'']),
      Check (\<not> (message = [] \<or> length message > 4096)) (BindingValidationError [''error.message length is invalid''])]
     (Inr \<lparr> er_type = type, er_message = message, er_retryable = retryable \<rparr>)"

definition error_to_dict :: "BindingError \<Rightarrow> dict" where
  "error_to_dict e = dict_of [(u ''type'', JStr (er_type e)), (u ''message'', JStr (er_message e)), (u ''retryable'', JBool (er_retryable e))]"

record 'm BindingResponseEnvelope =
  br_operation :: Operation
  br_request_id :: ustr
  br_config_generation :: int
  br_payload :: "'m option"
  br_error :: "BindingError option"

definition response_checks :: "'m envelope_lib \<Rightarrow> 'm BindingResponseEnvelope \<Rightarrow> check list" where
  "response_checks lib r =
     [Check (safe_token (br_request_id r)) (BindingValidationError [''requestId is not a safe token'']),
      Check (1 \<le> br_config_generation r \<and> br_config_generation r \<le> MAX_SAFE_INTEGER)
        (BindingValidationError [''configGeneration is outside JSON safe integer range'']),
      Check ((br_payload r = None) \<noteq> (br_error r = None)) (BindingValidationError [''response must contain exactly one of payload or error''])] @
     (case br_payload r of None \<Rightarrow> []
      | Some m \<Rightarrow>
          [Check (br_operation r \<notin> set STREAMING_OPERATIONS)
             (BindingValidationError [''streaming success must use StreamSessionOpenedV1, not a one-shot payload'']),
           Check (ml_class (el_message lib) m = os_response_type (OPERATION_SPECS (br_operation r)))
             (BindingValidationError [''response payload for '', operation_name (br_operation r), '' must be '',
                os_response_type (OPERATION_SPECS (br_operation r))])])"

definition make_response :: "'m envelope_lib \<Rightarrow> 'm BindingResponseEnvelope \<Rightarrow> 'm BindingResponseEnvelope result" where
  "make_response lib r = checked (response_checks lib r) (Inr r)"

definition response_fields :: "'m BindingResponseEnvelope \<Rightarrow> (ustr \<times> json) list \<Rightarrow> dict" where
  "response_fields r body = dict_of
     ([(u ''bindingUri'', JStr BINDING_URI), (u ''bindingSchemaVersion'', JStr (u ''1.1'')), (u ''a2aProtocolVersion'', JStr (u ''1.0'')),
       (u ''requestId'', JStr (br_request_id r)), (u ''configGeneration'', JInt (br_config_generation r)),
       (u ''sequence'', JInt 1), (u ''final'', JBool True)] @ body)"

text \<open>The response schema has its own validator.\<close>

definition response_to_dict :: "'m envelope_lib \<Rightarrow> (dict \<Rightarrow> bool) \<Rightarrow> 'm BindingResponseEnvelope \<Rightarrow> dict result" where
  "response_to_dict lib schema r =
     bindE (case br_payload r of
         Some m \<Rightarrow> (case el_to_json lib m of None \<Rightarrow> Inl SerializeToJsonError | Some p \<Rightarrow> Inr [(u ''payload'', JObj p)])
       | None \<Rightarrow> Inr [(u ''error'', (case br_error r of Some e \<Rightarrow> JObj (error_to_dict e) | None \<Rightarrow> JNull))])
     (\<lambda>body. let d = response_fields r body in
        checked [Check (schema d) (BindingValidationError [''response schema violation''])] (Inr d))"

definition get_bool :: "dict \<Rightarrow> string \<Rightarrow> bool result" where
  "get_bool d k = (case map_of d (u k) of Some (JBool b) \<Rightarrow> Inr b | Some _ \<Rightarrow> Inl (TypeError [k]) | None \<Rightarrow> Inl KeyError)"

definition response_from_dict :: "'m envelope_lib \<Rightarrow> (dict \<Rightarrow> bool) \<Rightarrow> dict \<Rightarrow> Operation \<Rightarrow> 'm BindingResponseEnvelope result" where
  "response_from_dict lib schema d oper = checked [Check (schema d) (BindingValidationError [''response schema violation''])]
     (if map_of d (u ''error'') \<noteq> None then
        bindE (get_dict d ''error'') (\<lambda>raw. bindE (get_text d ''requestId'') (\<lambda>rid. bindE (get_int d ''configGeneration'') (\<lambda>gen.
        bindE (get_text raw ''type'') (\<lambda>t. bindE (get_text raw ''message'') (\<lambda>msg. bindE (get_bool raw ''retryable'') (\<lambda>re.
        bindE (make_binding_error t msg re) (\<lambda>e.
        make_response lib \<lparr> br_operation = oper, br_request_id = rid, br_config_generation = gen, br_payload = None, br_error = Some e \<rparr>)))))))
      else checked [Check (oper \<notin> set STREAMING_OPERATIONS) (BindingValidationError [''streaming success must be parsed as StreamSessionOpenedV1''])]
        (case map_of d (u ''payload'') of None \<Rightarrow> Inl (BindingValidationError [''invalid official A2A response payload''])
         | Some v \<Rightarrow> (case el_from_json lib (os_response_type (OPERATION_SPECS oper)) v of
             None \<Rightarrow> Inl (BindingValidationError [''invalid official A2A response payload''])
           | Some m \<Rightarrow> bindE (get_text d ''requestId'') (\<lambda>rid. bindE (get_int d ''configGeneration'') (\<lambda>gen.
               make_response lib \<lparr> br_operation = oper, br_request_id = rid, br_config_generation = gen, br_payload = Some m, br_error = None \<rparr>)))))"

section \<open>The client\<close>

record V1NatsClient =
  vc_public_key :: ustr
  vc_sign :: "bytes \<Rightarrow> bytes"
  vc_principal_id :: ustr
  vc_credential_id :: ustr
  vc_caller_agent_id :: ustr
  vc_caller_instance_id :: ustr
  vc_issuer :: ustr
  vc_subject :: ustr
  vc_config_generation :: int
  vc_auth_method :: ustr
  vc_auth_ttl_seconds :: int

definition client_checks :: "V1NatsClient \<Rightarrow> check list" where
  "client_checks c =
     [Check (agent_id_text (vc_caller_agent_id c)) (ValueError [''caller agent ID is invalid'']),
      Check (safe_token (vc_caller_instance_id c)) (ValueError [''caller instance ID is invalid'']),
      Check (1 \<le> vc_config_generation c \<and> vc_config_generation c \<le> MAX_SAFE_INTEGER) (ValueError [''config generation is invalid'']),
      Check (1 \<le> vc_auth_ttl_seconds c \<and> vc_auth_ttl_seconds c \<le> 900) (ValueError [''AuthContext TTL must be between 1 and 900 seconds'']),
      Check (starts_with (u ''U'') (vc_public_key c)) (ValueError [''binding client key pair must be a user NKey''])]"

text \<open>The part of \<open>request\<close> before anything is sent. The clock reading, the inbox, the request identifier and the timeout in
  microseconds are arguments.\<close>

definition client_request ::
    "'m envelope_lib \<Rightarrow> V1NatsClient \<Rightarrow> Operation \<Rightarrow> 'm \<Rightarrow> ustr \<Rightarrow> int \<Rightarrow> ustr \<Rightarrow> datetime \<Rightarrow> ustr \<Rightarrow> 'm BindingRequestEnvelope result" where
  "client_request lib c oper payload target timeout rid now inbox = checked
     [Check (\<not> os_streaming (OPERATION_SPECS oper))
        (BindingTransportError [''streaming operations require StreamSession transport, not unary request'']),
      Check (\<not> timeout < seconds 1) (ValueError [''timeout must be at least one second'']),
      Check (agent_id_text target) (ValueError [''target agent ID is invalid'']),
      Check (starts_with (u ''_INBOX.a2amesh.'' @ vc_caller_agent_id c @ u ''.'') inbox)
        (BindingTransportError [''NATS connection inbox is outside the authenticated caller prefix''])]
     (let sent = dt_micros now; deadline = sent + timeout; expires = min (sent + seconds (vc_auth_ttl_seconds c)) deadline in
      bindE (make_envelope lib \<lparr> be_operation = oper, be_request_id = rid, be_caller_instance_id = vc_caller_instance_id c,
        be_stream_open_id = None, be_config_generation = vc_config_generation c, be_caller_agent_id = vc_caller_agent_id c,
        be_auth_context = \<lparr> ba_principal_id = vc_principal_id c, ba_credential_id = vc_credential_id c, ba_method = vc_auth_method c,
          ba_issuer = vc_issuer c, ba_subject = vc_subject c, ba_issued_at = instant sent, ba_expires_at = instant expires \<rparr>,
        be_auth_proof = \<lparr> ap_signer = vc_public_key c, ap_algorithm = u ''nkey-ed25519'', ap_signature = u ''unsigned'' \<rparr>,
        be_target_agent_id = target, be_sent_at = instant sent, be_deadline_at = instant deadline, be_reply_subject = inbox,
        be_payload = payload \<rparr>) (\<lambda>e. sign_request_envelope lib (vc_public_key c) (vc_sign c) e))"

text \<open>The part after a message has arrived: its subject and decoded body.\<close>

definition client_accept ::
    "'m envelope_lib \<Rightarrow> (dict \<Rightarrow> bool) \<Rightarrow> V1NatsClient \<Rightarrow> 'm BindingRequestEnvelope \<Rightarrow> ustr \<Rightarrow> json option \<Rightarrow> 'm result" where
  "client_accept lib schema c req subject body =
     checked [Check (subject = be_reply_subject req) (BindingTransportError [''response arrived on an unexpected NATS subject''])]
     (case body of
        None \<Rightarrow> Inl (BindingValidationError [''response is not valid UTF-8 JSON''])
      | Some (JObj d) \<Rightarrow> bindE (response_from_dict lib schema d (be_operation req)) (\<lambda>r.
          checked [Check (br_request_id r = be_request_id req) (BindingTransportError [''response requestId does not match request'']),
                   Check (br_config_generation r = vc_config_generation c) (BindingTransportError [''response configGeneration does not match request''])]
          (case br_error r of Some e \<Rightarrow> Inl (BindingTransportError [show_ustr (er_type e), '': '', show_ustr (er_message e)])
           | None \<Rightarrow> (case br_payload r of Some m \<Rightarrow> Inr m | None \<Rightarrow> Inl KeyError)))
      | Some _ \<Rightarrow> Inl (BindingValidationError [''response envelope must be a JSON object'']))"

section \<open>The server\<close>

record NatsCallerIdentity =
  ci_connection_public_key :: ustr
  ci_caller_agent_id :: ustr
  ci_caller_instance_id :: ustr
  ci_allowed_reply_prefix :: ustr

definition caller_identity :: "ustr \<Rightarrow> ustr \<Rightarrow> ustr \<Rightarrow> ustr \<Rightarrow> NatsCallerIdentity result" where
  "caller_identity key agent inst prefix = checked
     [Check (starts_with (u ''U'') key) (ValueError [''NATS caller connection key must be a user NKey'']),
      Check (agent_id_text agent) (ValueError [''caller agent ID is invalid'']),
      Check (safe_token inst) (ValueError [''caller instance ID is invalid'']),
      Check (reply_prefix_text prefix) (ValueError [''caller reply prefix is invalid''])]
     (Inr \<lparr> ci_connection_public_key = key, ci_caller_agent_id = agent, ci_caller_instance_id = inst, ci_allowed_reply_prefix = prefix \<rparr>)"

record nats_message =
  nm_body :: "json option"  \<comment> \<open>\<open>None\<close>: not UTF-8 JSON, or a duplicate key\<close>
  nm_subject :: ustr
  nm_reply :: "ustr option"

text \<open>The server's collaborators: the application, the resolver of connection facts and the replay guard.\<close>

record ('m, 's, 'g) V1NatsServer =
  sv_agent_id :: ustr
  sv_application :: "string \<rightharpoonup> ('m, 's) handler"
  sv_auth :: BindingAuthVerifier
  sv_claim :: "'g claim"
  sv_resolve :: "nats_message \<Rightarrow> 'm BindingRequestEnvelope \<Rightarrow> NatsCallerIdentity result"
  sv_active_config_generation :: int
  sv_response_schema :: "dict \<Rightarrow> bool"

definition server_checks :: "('m, 's, 'g) V1NatsServer \<Rightarrow> check list" where
  "server_checks srv =
     [Check (agent_id_text (sv_agent_id srv)) (ValueError [''agent ID is invalid'']),
      Check (1 \<le> sv_active_config_generation srv \<and> sv_active_config_generation srv \<le> MAX_SAFE_INTEGER)
        (ValueError [''active config generation must be a positive safe integer''])]"

definition decode_request :: "'m envelope_lib \<Rightarrow> nats_message \<Rightarrow> 'm BindingRequestEnvelope result" where
  "decode_request lib msg = (case nm_body msg of
     None \<Rightarrow> Inl (BindingValidationError [''request is not valid UTF-8 JSON''])
   | Some (JObj d) \<Rightarrow> envelope_from_dict lib d
   | Some _ \<Rightarrow> Inl (BindingValidationError [''request envelope must be a JSON object'']))"

definition server_expectation :: "('m, 's, 'g) V1NatsServer \<Rightarrow> nats_message \<Rightarrow> NatsCallerIdentity \<Rightarrow> datetime \<Rightarrow> expectation" where
  "server_expectation srv msg caller now = \<lparr> ex_received_subject = nm_subject msg, ex_expected_subject = [],
     ex_connection_public_key = ci_connection_public_key caller, ex_target_agent_id = sv_agent_id srv,
     ex_caller_agent_id = ci_caller_agent_id caller, ex_caller_instance_id = ci_caller_instance_id caller,
     ex_reply_prefix = ci_allowed_reply_prefix caller, ex_config_generation = sv_active_config_generation srv, ex_now = now \<rparr>"

text \<open>The body of the \<open>try\<close> after decoding, up to the response dictionary.\<close>

definition dispatch_verified ::
    "'m envelope_lib \<Rightarrow> ('m, 's, 'g) V1NatsServer \<Rightarrow> 'm BindingRequestEnvelope \<Rightarrow> VerifiedBindingIdentity \<Rightarrow> 's \<Rightarrow> dict result \<times> 's" where
  "dispatch_verified lib srv e verified st =
     (if os_streaming (OPERATION_SPECS (be_operation e)) then
        (Inl (BindingTransportError [''streaming operation must use the StreamSession transport'']), st)
      else case request_context (vb_request_id verified) (vb_principal verified) (sv_agent_id srv) (be_config_generation e) of
        Inl err \<Rightarrow> (Inl err, st)
      | Inr ctx \<Rightarrow> (case dispatch_unary (el_message lib) (sv_application srv) (be_operation e) (be_payload e) ctx st of
          (Inl err, st') \<Rightarrow> (Inl err, st')
        | (Inr m, st') \<Rightarrow> (bindE (make_response lib \<lparr> br_operation = be_operation e, br_request_id = be_request_id e,
              br_config_generation = sv_active_config_generation srv, br_payload = Some m, br_error = None \<rparr>)
              (response_to_dict lib (sv_response_schema srv)), st')))"

definition handle_envelope ::
    "'m envelope_lib \<Rightarrow> ('m, 's, 'g) V1NatsServer \<Rightarrow> nats_message \<Rightarrow> 'm BindingRequestEnvelope \<Rightarrow> datetime \<Rightarrow> 'g \<Rightarrow> 's \<Rightarrow> 'g \<times> 's \<times> dict result" where
  "handle_envelope lib srv msg e now g st =
     (if nm_reply msg \<noteq> Some (be_reply_subject e) then
        (g, st, Inl (BindingTransportError [''NATS reply subject does not match signed replySubject'']))
      else case sv_resolve srv msg e of
        Inl err \<Rightarrow> (g, st, Inl err)
      | Inr caller \<Rightarrow> (case binding_verify lib (sv_claim srv) (sv_auth srv) g e (server_expectation srv msg caller now) of
          (g', Inl err) \<Rightarrow> (g', st, Inl err)
        | (g', Inr verified) \<Rightarrow> (case dispatch_verified lib srv e verified st of (res, st') \<Rightarrow> (g', st', res))))"

text \<open>The error response for an exception: its wire name, text and whether it is retryable.\<close>

fun error_response :: "pyerr \<Rightarrow> string \<times> string list \<times> bool" where
  "error_response (BindingValidationError msg) = (''InvalidBindingRequest'', msg, False)"
| "error_response (BindingTransportError msg) = (''BindingTransportError'', msg, False)"
| "error_response (InvalidParamsError msg) = (''InvalidParamsError'', msg, False)"
| "error_response (InvalidRequestError msg) = (''InvalidRequestError'', msg, False)"
| "error_response (InvalidAgentResponseError msg) = (''InvalidAgentResponseError'', msg, False)"
| "error_response e = (''InternalError'', [''canonical application dispatch failed''], True)"

text \<open>\<open>_respond_error\<close> for a decoded envelope; a failure to build the error response is swallowed.\<close>

definition respond_error ::
    "'m envelope_lib \<Rightarrow> ('m, 's, 'g) V1NatsServer \<Rightarrow> nats_message \<Rightarrow> 'm BindingRequestEnvelope \<Rightarrow> pyerr \<Rightarrow> dict option" where
  "respond_error lib srv msg e err =
     (if nm_reply msg \<noteq> Some (be_reply_subject e) then None
      else case error_response err of (type, text, retryable) \<Rightarrow>
        (case bindE (make_binding_error (u type) (u (concat text)) retryable) (\<lambda>be.
           bindE (make_response lib \<lparr> br_operation = be_operation e, br_request_id = be_request_id e,
             br_config_generation = sv_active_config_generation srv, br_payload = None, br_error = Some be \<rparr>)
           (response_to_dict lib (sv_response_schema srv))) of
           Inl _ \<Rightarrow> None | Inr d \<Rightarrow> Some d))"

definition server_handle ::
    "'m envelope_lib \<Rightarrow> ('m, 's, 'g) V1NatsServer \<Rightarrow> nats_message \<Rightarrow> datetime \<Rightarrow> 'g \<Rightarrow> 's \<Rightarrow> 'g \<times> 's \<times> dict option" where
  "server_handle lib srv msg now g st = (case decode_request lib msg of
     Inl _ \<Rightarrow> (g, st, None)
   | Inr e \<Rightarrow> (case handle_envelope lib srv msg e now g st of
       (g', st', Inr d) \<Rightarrow> (g', st', Some d)
     | (g', st', Inl err) \<Rightarrow> (g', st', respond_error lib srv msg e err)))"

end
