(* ===== verification/EnvelopeWire.thy ===== *)
theory EnvelopeWire
  imports Transport
begin

text \<open>
  Request envelopes on the wire: reading back what was written, and that signing covers everything but the signature.
\<close>

section \<open>Reading back\<close>

text \<open>What the codecs promise for the values of one envelope: ProtoJSON reads back the payload, and the timestamps, which have whole
  seconds, are read back from their text.\<close>

definition codec_ok :: "'m envelope_lib \<Rightarrow> 'm BindingRequestEnvelope \<Rightarrow> bool" where
  "codec_ok lib e \<longleftrightarrow>
     (\<forall>p. el_to_json lib (be_payload e) = Some p \<longrightarrow>
        el_from_json lib (os_request_type (OPERATION_SPECS (be_operation e))) (JObj p) = Some (be_payload e)) \<and>
     list_all (\<lambda>t. parse_timestamp lib (format_timestamp t) = Inr t)
       [ba_issued_at (be_auth_context e), ba_expires_at (be_auth_context e), be_sent_at e, be_deadline_at e]"

lemma auth_context_wire:
  assumes "parse (format_timestamp (ba_issued_at c)) = Inr (ba_issued_at c)" and "parse (format_timestamp (ba_expires_at c)) = Inr (ba_expires_at c)"
  shows "auth_context_from_dict parse (auth_context_to_dict c) = Inr c"
  using assms by (simp add: auth_context_from_dict_def auth_context_to_dict_def get_text_def map_of_dict_of)

lemma auth_proof_wire: "auth_proof_from_dict (auth_proof_to_dict p) = Inr p"
  by (simp add: auth_proof_from_dict_def auth_proof_to_dict_def get_text_def map_of_dict_of)

lemmas field_reads = get_text_def get_int_def get_dict_def get_opt_text_def

lemma envelope_wire:
  assumes "all_ok (envelope_checks lib e)" and "codec_ok lib e" and "envelope_to_dict lib e = Inr d"
  shows "envelope_from_dict lib d = Inr e"
proof -
  obtain p where p: "el_to_json lib (be_payload e) = Some p" and d: "d = envelope_fields e (auth_proof_to_dict (be_auth_proof e)) p"
    and sch: "el_schema lib d"
    using assms(3) by (auto simp: envelope_to_dict_def validate_schema_def Let_def split: option.splits)
  have look: "map_of d = map_of (rev
     [(u ''bindingUri'', JStr BINDING_URI), (u ''bindingSchemaVersion'', JStr (u ''1.1'')), (u ''a2aProtocolVersion'', JStr (u ''1.0'')),
      (u ''operation'', JStr (u (operation_name (be_operation e)))), (u ''requestId'', JStr (be_request_id e)),
      (u ''callerInstanceId'', JStr (be_caller_instance_id e)),
      (u ''streamOpenId'', (case be_stream_open_id e of None \<Rightarrow> JNull | Some s \<Rightarrow> JStr s)),
      (u ''configGeneration'', JInt (be_config_generation e)), (u ''callerAgentId'', JStr (be_caller_agent_id e)),
      (u ''authContext'', JObj (auth_context_to_dict (be_auth_context e))), (u ''authProof'', JObj (auth_proof_to_dict (be_auth_proof e))),
      (u ''targetAgentId'', JStr (be_target_agent_id e)), (u ''sentAt'', JStr (format_timestamp (be_sent_at e))),
      (u ''deadlineAt'', JStr (format_timestamp (be_deadline_at e))), (u ''replySubject'', JStr (be_reply_subject e)),
      (u ''payload'', JObj p)])"
    unfolding d envelope_fields_def by (rule map_of_dict_of)
  have pl: "payload_from_dict lib d = Inr (be_operation e, be_payload e)"
    using assms(2) p parse_operation_name [of "u (operation_name (be_operation e))" "be_operation e"]
    by (simp add: payload_from_dict_def look codec_ok_def)
  have ac: "auth_context_from_dict (parse_timestamp lib) (auth_context_to_dict (be_auth_context e)) = Inr (be_auth_context e)"
    using assms(2) by (intro auth_context_wire) (simp_all add: codec_ok_def)
  have t: "parse_timestamp lib (format_timestamp (be_sent_at e)) = Inr (be_sent_at e)"
    "parse_timestamp lib (format_timestamp (be_deadline_at e)) = Inr (be_deadline_at e)" using assms(2) by (simp_all add: codec_ok_def)
  have so: "get_opt_text d ''streamOpenId'' = Inr (be_stream_open_id e)" by (simp add: get_opt_text_def look split: option.splits)
  have "envelope_from_dict lib d = make_envelope lib \<lparr> be_operation = be_operation e, be_request_id = be_request_id e,
      be_caller_instance_id = be_caller_instance_id e, be_stream_open_id = be_stream_open_id e, be_config_generation = be_config_generation e,
      be_caller_agent_id = be_caller_agent_id e, be_auth_context = be_auth_context e, be_auth_proof = be_auth_proof e,
      be_target_agent_id = be_target_agent_id e, be_sent_at = be_sent_at e, be_deadline_at = be_deadline_at e,
      be_reply_subject = be_reply_subject e, be_payload = be_payload e \<rparr>"
    by (simp add: envelope_from_dict_def validate_schema_def checked_Cons sch pl so get_text_def get_int_def get_dict_def look ac auth_proof_wire t)
  also have "\<dots> = make_envelope lib e" by (rule arg_cong) simp
  finally show ?thesis using assms(1) by (simp add: make_envelope_def)
qed

section \<open>What is signed\<close>

lemma map_of_filter_key: "map_of (filter (\<lambda>kv. fst kv \<noteq> k) d) = (map_of d)(k := None)"
  by (induction d) (auto simp: fun_eq_iff)

lemma dict_wf_filter: "dict_wf d \<Longrightarrow> dict_wf (filter P d)"
  by (simp add: dict_wf_def sorted_wrt_map sorted_wrt_filter)

lemma signing_payload_eq:
  assumes "envelope_to_dict lib e = Inr d" and "el_to_json lib (be_payload e) = Some p"
  shows "signing_payload_dict lib e = Inr (envelope_fields e (dict_of
    [(u ''signer'', JStr (ap_signer (be_auth_proof e))), (u ''algorithm'', JStr (ap_algorithm (be_auth_proof e)))]) p)"
proof -
  let ?apf = "auth_proof_to_dict (be_auth_proof e)"
  let ?f = "filter (\<lambda>kv. fst kv \<noteq> u ''signature'') ?apf"
  have d: "d = envelope_fields e ?apf p" using assms by (auto simp: envelope_to_dict_def Let_def)
  have look: "map_of d (u ''authProof'') = Some (JObj ?apf)" unfolding d envelope_fields_def map_of_dict_of by simp
  have "map_of ?f = (map_of ?apf)(u ''signature'' := None)" by (rule map_of_filter_key)
  moreover have "dict_wf ?f" by (rule dict_wf_filter) (simp add: auth_proof_to_dict_def)
  ultimately have f: "?f = dict_of [(u ''signer'', JStr (ap_signer (be_auth_proof e))), (u ''algorithm'', JStr (ap_algorithm (be_auth_proof e)))]"
    by (intro dict_eqI) (auto simp: auth_proof_to_dict_def map_of_dict_of fun_eq_iff)
  have "dict_put (u ''authProof'') (JObj x) d = envelope_fields e x p" for x
  proof (rule dict_eqI)
    show "map_of (dict_put (u ''authProof'') (JObj x) d) = map_of (envelope_fields e x p)"
      unfolding d by (subst map_of_dict_put) (simp_all add: envelope_fields_def map_of_dict_of fun_eq_iff)
  qed (simp_all add: d envelope_fields_def dict_wf_put)
  then show ?thesis using assms(1) look f by (simp add: signing_payload_dict_def)
qed

text \<open>A signed request carries a valid signature: the signed bytes do not depend on the signature field.\<close>

lemma signed_request:
  assumes "sign_request_envelope lib pk sign e = Inr s" and "el_schema lib = (\<lambda>_. True)"
  obtains d bs where "signing_payload_dict lib s = Inr d" and "el_dumps lib (JObj d) = Some bs"
    and "be_auth_proof s = \<lparr> ap_signer = pk, ap_algorithm = AUTH_ALGORITHM, ap_signature = b64url_nopad (sign bs) \<rparr>"
    and "s = e\<lparr> be_auth_proof := be_auth_proof s \<rparr>" and "all_ok (envelope_checks lib s)"
proof -
  define n where "n = e\<lparr> be_auth_proof := \<lparr> ap_signer = pk, ap_algorithm = AUTH_ALGORITHM, ap_signature = u ''unsigned'' \<rparr> \<rparr>"
  obtain bs where bs: "canonical_signing_bytes (el_dumps lib) (request_view lib n) = Inr bs"
    and s: "s = n\<lparr> be_auth_proof := \<lparr> ap_signer = pk, ap_algorithm = AUTH_ALGORITHM, ap_signature = b64url_nopad (sign bs) \<rparr> \<rparr>"
    and ok: "all_ok (envelope_checks lib s)"
    using assms(1) by (auto simp: sign_request_envelope_def make_envelope_def sign_nkey_def n_def [symmetric])
  obtain d where d: "signing_payload_dict lib n = Inr d" "el_dumps lib (JObj d) = Some bs"
    using bs by (auto simp: canonical_signing_bytes_def request_view_def split: sum.splits option.splits)
  obtain p where p: "el_to_json lib (be_payload e) = Some p"
    using d(1) by (auto simp: signing_payload_dict_def envelope_to_dict_def n_def split: option.splits)
  have td: "el_to_json lib (be_payload x) = Some p \<Longrightarrow> \<exists>y. envelope_to_dict lib x = Inr y" for x
    using assms(2) by (auto simp: envelope_to_dict_def validate_schema_def Let_def)
  have "envelope_fields s x p = envelope_fields n x p" for x by (simp add: s envelope_fields_def)
  moreover have "be_payload n = be_payload e" "be_payload s = be_payload e" by (simp_all add: n_def s)
  moreover obtain d1 d2 where "envelope_to_dict lib n = Inr d1" "envelope_to_dict lib s = Inr d2"
    using td [of n] td [of s] p calculation(2,3) by auto
  ultimately have "signing_payload_dict lib s = signing_payload_dict lib n"
    using signing_payload_eq [of lib n d1 p] signing_payload_eq [of lib s d2 p] p by (simp add: n_def s)
  then show thesis using d ok by (intro that) (simp_all add: s n_def)
qed

end
