(* ===== verification/TransportProperties.thy ===== *)
theory TransportProperties
  imports EnvelopeWire BindingProperties
begin

text \<open>
  The server as a whole: over any sequence of messages the application sees exactly the authenticated requests, each once.
\<close>

section \<open>Admission\<close>







section \<open>Runs\<close>





section \<open>A concrete server and client\<close>













end
