(* ===== verification/Models.thy ===== *)
theory Models
  imports Json
begin

text \<open>
  The private-prototype message models (\<open>contracts/models.py\<close>) that the runtime, the orchestrator and the legacy binding exchange:
  parts, messages, artifacts, tasks, and the plans of the orchestrator. A \<open>Literal\<close> field is a datatype with one constructor per
  literal; \<open>*_dump\<close> is \<open>model_dump(mode="json")\<close>, a dictionary in field order.
\<close>

datatype Part = TextPart ustr | FilePart dict | DataPart dict

datatype role = User_Role | Agent_Role

record Message =
  msg_role :: role
  msg_parts :: "Part list"

record Artifact =
  art_artifactId :: ustr
  art_parts :: "Part list"

datatype TaskStatus = Submitted | Working | Input_required | Completed | Failed | Canceled

record Task =
  task_id :: ustr
  task_status :: TaskStatus
  task_history :: "Message list"
  task_artifacts :: "Artifact list"

datatype runtime_name = Hermes | Codex | Claude | Opencode

datatype step_status = Step_pending | Step_running | Step_succeeded | Step_failed

record Step =
  step_id :: ustr
  step_target :: ustr
  step_prompt :: ustr
  step_state :: step_status
  step_depends_on :: "ustr list"
  step_runtime :: "runtime_name option"

record Plan =
  plan_task_id :: ustr
  plan_steps :: "Step list"

fun part_dump :: "Part \<Rightarrow> json" where
  "part_dump (TextPart t) = JObj (dict_of [(u ''kind'', JStr (u ''text'')), (u ''text'', JStr t)])"
| "part_dump (FilePart f) = JObj (dict_of [(u ''kind'', JStr (u ''file'')), (u ''file'', JObj f)])"
| "part_dump (DataPart d) = JObj (dict_of [(u ''kind'', JStr (u ''data'')), (u ''data'', JObj d)])"

fun role_value :: "role \<Rightarrow> string" where
  "role_value User_Role = ''user''"
| "role_value Agent_Role = ''agent''"

definition message_dump :: "Message \<Rightarrow> json" where
  "message_dump m = JObj (dict_of [(u ''role'', JStr (u (role_value (msg_role m)))), (u ''parts'', JArr (map part_dump (msg_parts m)))])"

definition artifact_dump :: "Artifact \<Rightarrow> json" where
  "artifact_dump a = JObj (dict_of [(u ''artifactId'', JStr (art_artifactId a)), (u ''parts'', JArr (map part_dump (art_parts a)))])"

fun task_status_value :: "TaskStatus \<Rightarrow> string" where
  "task_status_value Submitted = ''submitted''"
| "task_status_value Working = ''working''"
| "task_status_value Input_required = ''input-required''"
| "task_status_value Completed = ''completed''"
| "task_status_value Failed = ''failed''"
| "task_status_value Canceled = ''canceled''"

definition task_dump :: "Task \<Rightarrow> json" where
  "task_dump t = JObj (dict_of
     [(u ''id'', JStr (task_id t)), (u ''status'', JObj (dict_of [(u ''state'', JStr (u (task_status_value (task_status t))))])),
      (u ''history'', JArr (map message_dump (task_history t))), (u ''artifacts'', JArr (map artifact_dump (task_artifacts t)))])"

fun step_status_value :: "step_status \<Rightarrow> string" where
  "step_status_value Step_pending = ''pending''"
| "step_status_value Step_running = ''running''"
| "step_status_value Step_succeeded = ''succeeded''"
| "step_status_value Step_failed = ''failed''"

text \<open>The texts of the text parts of a list of parts: the comprehension with \<open>isinstance(p, TextPart)\<close>.\<close>

fun text_of :: "Part \<Rightarrow> ustr list" where
  "text_of (TextPart t) = [t]"
| "text_of p = []"

definition text_parts :: "Part list \<Rightarrow> ustr list" where
  "text_parts ps = concat (map text_of ps)"

text \<open>A task with one artifact of one text: the shape of every final task the code builds itself.\<close>

definition text_task :: "ustr \<Rightarrow> TaskStatus \<Rightarrow> Message list \<Rightarrow> string \<Rightarrow> ustr \<Rightarrow> Task" where
  "text_task tid state hist aid t = \<lparr> task_id = tid, task_status = state, task_history = hist,
     task_artifacts = [\<lparr> art_artifactId = u aid, art_parts = [TextPart t] \<rparr>] \<rparr>"

lemma text_task_sel [simp]:
  "task_id (text_task tid state hist aid t) = tid" "task_status (text_task tid state hist aid t) = state"
  by (simp_all add: text_task_def)

end
