(* ===== verification/Plans.thy ===== *)
theory Plans
  imports Models
begin

text \<open>
  Validation of orchestration plans: \<open>Dispatcher.validate_plan\<close> (\<open>orchestrator/dispatcher.py\<close>), with its recursive \<open>visit\<close> and the
  loop over dependencies as mutually recursive functions that thread the set \<open>visited\<close>; the set \<open>visiting\<close> is restored when a
  call returns, so it is an argument. The theorem about it is that exactly the plans whose dependency graph is acyclic pass.
\<close>

definition by_id :: "Step list \<Rightarrow> ustr \<rightharpoonup> Step" where
  "by_id steps = map_of (rev (map (\<lambda>s. (step_id s, s)) steps))"

lemma dom_by_id: "dom (by_id steps) = step_id ` set steps"
  by (auto simp: by_id_def dom_map_of_conv_image_fst image_image)

lemma by_id_Some: "by_id steps s = Some st \<Longrightarrow> st \<in> set steps \<and> step_id st = s"
  by (auto simp: by_id_def dest!: map_of_SomeD)

lemma by_id_known: "s \<in> step_id ` set steps \<Longrightarrow> \<exists>st. by_id steps s = Some st"
  by (metis dom_by_id domD)

lemma by_id_distinct: "distinct (map step_id steps) \<Longrightarrow> st \<in> set steps \<Longrightarrow> by_id steps (step_id st) = Some st"
  unfolding by_id_def by (rule map_of_is_SomeI) (simp_all add: rev_map [symmetric] comp_def)

lemma visiting_grows:
  assumes "by_id steps s = Some st" "s \<notin> visiting"
  shows "card (step_id ` set steps - insert s visiting) < card (step_id ` set steps - visiting)"
proof (rule psubset_card_mono)
  have "s \<in> step_id ` set steps" using by_id_Some [OF assms(1)] by auto
  then show "step_id ` set steps - insert s visiting \<subset> step_id ` set steps - visiting" using assms(2) by auto
qed simp

function visit :: "Step list \<Rightarrow> ustr set \<Rightarrow> ustr set \<Rightarrow> ustr \<Rightarrow> ustr set result"
  and visit_all :: "Step list \<Rightarrow> ustr set \<Rightarrow> ustr set \<Rightarrow> ustr list \<Rightarrow> ustr set result" where
  "visit steps visiting visited s =
     (if s \<in> visiting then Inl (ValueError [''plan dependency graph contains a cycle''])
      else if s \<in> visited then Inr visited
      else case by_id steps s of
          None \<Rightarrow> Inl KeyError
        | Some st \<Rightarrow> bindE (visit_all steps (insert s visiting) visited (step_depends_on st)) (\<lambda>v. Inr (insert s v)))"
| "visit_all steps visiting visited [] = Inr visited"
| "visit_all steps visiting visited (d # ds) =
     (case visit steps visiting visited d of Inl e \<Rightarrow> Inl e | Inr v \<Rightarrow> visit_all steps visiting v ds)"
  by pat_completeness auto

termination
  by (relation "measures [\<lambda>x. case x of Inl (steps, visiting, _, _) \<Rightarrow> card (step_id ` set steps - visiting)
       | Inr (steps, visiting, _, _) \<Rightarrow> card (step_id ` set steps - visiting),
     \<lambda>x. case x of Inl _ \<Rightarrow> 0 | Inr (_, _, _, ds) \<Rightarrow> length ds]") (auto simp: visiting_grows)

declare visit.simps [simp del]

text \<open>The guards of one step, in the order of the loop over \<open>plan.steps\<close>.\<close>

definition step_checks :: "ustr set \<Rightarrow> Step \<Rightarrow> check list" where
  "step_checks known st =
     [Check (set (step_depends_on st) \<subseteq> known) (ValueError [''step '', show_ustr (step_id st), '' has unknown dependencies'']),
      Check (step_id st \<notin> set (step_depends_on st)) (ValueError [''step '', show_ustr (step_id st), '' cannot depend on itself''])]"

definition validate_plan :: "Plan \<Rightarrow> unit result" where
  "validate_plan plan =
     (let steps = plan_steps plan; ids = map step_id steps in
      checked ([Check (list_all (\<lambda>s. step_state s = Step_pending) steps) (ValueError [''new plans must contain only pending steps'']),
                Check (distinct ids) (ValueError [''plan contains duplicate step ids''])] @
               concat (map (step_checks (set ids)) steps))
      (bindE (visit_all steps {} {} ids) (\<lambda>_. Inr ())))"

section \<open>The declarative meaning\<close>

text \<open>\<open>(s, d)\<close>: step \<open>s\<close> depends on \<open>d\<close>.\<close>

definition depends :: "Step list \<Rightarrow> (ustr \<times> ustr) set" where
  "depends steps = {(s, d). \<exists>st. by_id steps s = Some st \<and> d \<in> set (step_depends_on st)}"

definition plan_ok :: "Plan \<Rightarrow> bool" where
  "plan_ok plan \<longleftrightarrow> (\<forall>s \<in> set (plan_steps plan). step_state s = Step_pending) \<and> distinct (map step_id (plan_steps plan)) \<and>
     (\<forall>s \<in> set (plan_steps plan). set (step_depends_on s) \<subseteq> step_id ` set (plan_steps plan)) \<and> acyclic (depends (plan_steps plan))"

text \<open>A node all of whose descending paths end.\<close>

abbreviation grounded :: "Step list \<Rightarrow> ustr \<Rightarrow> bool" where
  "grounded steps \<equiv> Wellfounded.accp (\<lambda>d s. (s, d) \<in> depends steps)"

lemma grounded_step: "by_id steps s = Some st \<Longrightarrow> (\<And>d. d \<in> set (step_depends_on st) \<Longrightarrow> grounded steps d) \<Longrightarrow> grounded steps s"
  by (rule accp.accI) (auto simp: depends_def)

lemma grounded_no_cycle: "grounded steps s \<Longrightarrow> (s, s) \<notin> (depends steps)\<^sup>+"
proof (induction rule: accp.induct)
  case (accI s)
  show ?case
  proof
    assume "(s, s) \<in> (depends steps)\<^sup>+"
    then obtain d where d: "(s, d) \<in> depends steps" "(d, s) \<in> (depends steps)\<^sup>*" by (blast dest: tranclD)
    have "(d, d) \<in> (depends steps)\<^sup>+" by (rule rtrancl_into_trancl1 [OF d(2) d(1)])
    then show False using accI.IH [OF d(1)] by blast
  qed
qed

text \<open>Whatever the search marks visited is grounded, so a search that returns has met no cycle.\<close>

lemma visit_grounded:
  "visit steps visiting visited s = Inr v \<Longrightarrow> (\<forall>x \<in> visited. grounded steps x) \<Longrightarrow> visited \<subseteq> v \<and> s \<in> v \<and> (\<forall>x \<in> v. grounded steps x)"
  "visit_all steps visiting visited ds = Inr v \<Longrightarrow> (\<forall>x \<in> visited. grounded steps x) \<Longrightarrow>
     visited \<subseteq> v \<and> set ds \<subseteq> v \<and> (\<forall>x \<in> v. grounded steps x)"
proof (induction steps visiting visited s and steps visiting visited ds arbitrary: v and v rule: visit_visit_all.induct)
  case (1 steps visiting visited s)
  consider (seen) "s \<in> visited" "v = visited"
    | (new) st w where "s \<notin> visiting" "s \<notin> visited" "by_id steps s = Some st"
        "visit_all steps (insert s visiting) visited (step_depends_on st) = Inr w" "v = insert s w"
    using 1(2) by (auto simp: visit.simps [of steps visiting visited s] split: if_splits option.splits)
  then show ?case
  proof cases
    case seen
    then show ?thesis using 1(3) by simp
  next
    case new
    note w = 1(1) [OF new(1-4) 1(3)]
    have "grounded steps s" by (rule grounded_step [OF new(3)]) (use w in blast)
    then show ?thesis using w new(5) by auto
  qed
next
  case (3 steps visiting visited d ds)
  from 3(3) obtain v1 where v1: "visit steps visiting visited d = Inr v1" and v: "visit_all steps visiting v1 ds = Inr v"
    by (auto split: sum.splits)
  note a = 3(1) [OF v1 3(4)]
  note b = 3(2) [OF v1 v]
  show ?case using a b by auto
qed simp_all

text \<open>On an acyclic graph whose edges are closed the search raises nothing: every node on the stack reaches the current one.\<close>

lemma visit_returns:
  assumes "acyclic (depends steps)" "\<And>st. st \<in> set steps \<Longrightarrow> set (step_depends_on st) \<subseteq> step_id ` set steps"
  shows "(\<forall>x \<in> visiting. (x, s) \<in> (depends steps)\<^sup>+) \<Longrightarrow> s \<in> step_id ` set steps \<Longrightarrow> returns (visit steps visiting visited s)"
    and "(\<forall>x \<in> visiting. \<forall>d \<in> set ds. (x, d) \<in> (depends steps)\<^sup>+) \<Longrightarrow> set ds \<subseteq> step_id ` set steps \<Longrightarrow>
      returns (visit_all steps visiting visited ds)"
  using assms
proof (induction steps visiting visited s and steps visiting visited ds rule: visit_visit_all.induct)
  case (1 steps visiting visited s)
  have no: "s \<notin> visiting" using 1(2,4) by (auto simp: acyclic_def)
  obtain st where st: "by_id steps s = Some st" using by_id_known [OF 1(3)] by auto
  have e: "(s, d) \<in> depends steps" if "d \<in> set (step_depends_on st)" for d using that st by (auto simp: depends_def)
  have "\<forall>x \<in> insert s visiting. \<forall>d \<in> set (step_depends_on st). (x, d) \<in> (depends steps)\<^sup>+"
    using 1(2) e by (auto intro: trancl_into_trancl)
  then have "returns (visit_all steps (insert s visiting) visited (step_depends_on st))" if "s \<notin> visited"
    using 1(1) [OF no that st] 1(4,5) by_id_Some [OF st] by blast
  then show ?case using no st by (auto simp: visit.simps [of steps visiting visited s] returns_iff)
next
  case (3 steps visiting visited d ds)
  have "returns (visit steps visiting visited d)" using 3(1,3-6) by simp
  then obtain v where v: "visit steps visiting visited d = Inr v" by (auto simp: returns_iff)
  have "returns (visit_all steps visiting v ds)" using 3(2) [OF v] 3(3-6) by simp
  then show ?case using v by simp
qed simp_all

text \<open>\<open>validate_plan\<close> against its meaning.\<close>

lemma validate_plan_iff: "validate_plan plan = Inr () \<longleftrightarrow> plan_ok plan"
proof -
  let ?S = "plan_steps plan" and ?ids = "map step_id (plan_steps plan)"
  let ?deps = "\<forall>s \<in> set ?S. set (step_depends_on s) \<subseteq> step_id ` set ?S"
  have pre: "all_ok (concat (map (step_checks (set ?ids)) ?S)) \<longleftrightarrow> ?deps \<and> (\<forall>s \<in> set ?S. step_id s \<notin> set (step_depends_on s))"
    by (auto simp: step_checks_def)
  have sound: "acyclic (depends ?S)" if "visit_all ?S {} {} ?ids = Inr v" for v
  proof -
    have "\<forall>s \<in> step_id ` set ?S. grounded ?S s" using visit_grounded(2) [OF that] by auto
    moreover have "s \<in> step_id ` set ?S" if "(s, s) \<in> (depends ?S)\<^sup>+" for s
    proof -
      from that obtain d where "(s, d) \<in> depends ?S" by (blast dest: tranclD)
      then show ?thesis using by_id_Some by (fastforce simp: depends_def)
    qed
    ultimately show ?thesis unfolding acyclic_def using grounded_no_cycle by blast
  qed
  have complete: "returns (visit_all ?S {} {} ?ids)" if "acyclic (depends ?S)" "?deps"
    using visit_returns(2) [OF that(1), of "{}" ?ids "{}"] that(2) by auto
  have self: "s \<in> set ?S \<Longrightarrow> step_id s \<notin> set (step_depends_on s)" if "acyclic (depends ?S)" "distinct ?ids" for s
    using by_id_distinct [OF that(2)] that(1) by (force simp: acyclic_def depends_def)
  show ?thesis
    unfolding validate_plan_def plan_ok_def Let_def
    using sound complete self pre by (auto simp: list_all_iff returns_iff simp del: all_ok_concat)
qed

end
