(* ===== verification/Dispatch.thy ===== *)
theory Dispatch
  imports Plans
begin

text \<open>
  The dispatcher, tracker and aggregator of the orchestrator (\<open>orchestrator/dispatcher.py\<close>, \<open>tracker.py\<close>, \<open>aggregator.py\<close>).

  \<open>Dispatcher.run\<close> starts one coroutine per ready step and sleeps until some of them are done. The coroutines meet the event loop
  at their awaits only, so a run is a sequence of events: the answer to a pending \<open>send_message\<close> (\<open>Answer\<close>), the end of a
  back-off sleep (\<open>Retry\<close>), and the return of \<open>asyncio.wait\<close> after some coroutine has ended (\<open>Wake\<close>), in any order the loop
  allows. What the remote agents answer is the parameter \<open>client\<close>: the outcome of a step's \<open>n\<close>-th attempt. Each event carries
  the clock reading of the tracker.
\<close>

section \<open>The tracker\<close>

record Tracker =
  tk_attempts :: "ustr \<rightharpoonup> int"
  tk_started :: "ustr \<rightharpoonup> int"
  tk_finished :: "ustr \<rightharpoonup> int"

definition empty_tracker :: Tracker where
  "empty_tracker = \<lparr> tk_attempts = Map.empty, tk_started = Map.empty, tk_finished = Map.empty \<rparr>"

definition tracker_start :: "Tracker \<Rightarrow> ustr \<Rightarrow> int \<Rightarrow> int \<Rightarrow> Tracker" where
  "tracker_start tk key attempt now = tk\<lparr> tk_attempts := (tk_attempts tk)(key \<mapsto> attempt), tk_started := (tk_started tk)(key \<mapsto> now) \<rparr>"

definition tracker_finish :: "Tracker \<Rightarrow> ustr \<Rightarrow> int \<Rightarrow> Tracker" where
  "tracker_finish tk key now = tk\<lparr> tk_finished := (tk_finished tk)(key \<mapsto> now) \<rparr>"

definition tracker_duration :: "Tracker \<Rightarrow> ustr \<Rightarrow> int \<Rightarrow> int" where
  "tracker_duration tk key now = (case tk_finished tk key of None \<Rightarrow> now | Some t \<Rightarrow> t) - (case tk_started tk key of None \<Rightarrow> now | Some t \<Rightarrow> t)"

section \<open>The run\<close>

text \<open>What \<open>client.send_message\<close> does: it returns a task or raises an exception with a text.\<close>

datatype outcome = Answered Task | Raised ustr

type_synonym client = "ustr \<Rightarrow> int \<Rightarrow> outcome"

fun completed :: "outcome \<Rightarrow> bool" where
  "completed (Answered t) = (task_status t = Completed)"
| "completed (Raised e) = False"

fun exception_text :: "outcome \<Rightarrow> ustr" where
  "exception_text (Answered t) = u ''task returned non-completed status: '' @ u (task_status_value (task_status t))"
| "exception_text (Raised e) = e"

definition failed_task :: "ustr \<Rightarrow> outcome \<Rightarrow> Task" where
  "failed_task sid out = text_task sid Failed [] ''err'' (u ''step failed: '' @ exception_text out)"

definition blocked_task :: "ustr \<Rightarrow> Task" where
  "blocked_task sid = text_task sid Failed [] ''blocked'' (u ''step blocked by a failed dependency'')"

text \<open>Where the coroutine of a step stands: in \<open>send_message\<close>, in the back-off sleep before an attempt, or ended.\<close>

datatype phase = Waiting int | Sleeping int | Ended

definition backoff :: "int \<Rightarrow> int" where
  "backoff attempt = 2 ^ nat (attempt - 1)"

record run_state =
  rn_steps :: "Step list"
  rn_results :: "ustr \<rightharpoonup> Task"
  rn_running :: "(ustr \<times> phase) list"
  rn_tracker :: Tracker

definition set_status :: "ustr \<Rightarrow> step_status \<Rightarrow> Step list \<Rightarrow> Step list" where
  "set_status sid x steps = map (\<lambda>s. if step_id s = sid then s\<lparr> step_state := x \<rparr> else s) steps"

definition set_phase :: "ustr \<Rightarrow> phase \<Rightarrow> (ustr \<times> phase) list \<Rightarrow> (ustr \<times> phase) list" where
  "set_phase sid ph = map (\<lambda>(k, p). (k, if k = sid then ph else p))"

definition state_of :: "Step list \<Rightarrow> ustr \<rightharpoonup> step_status" where
  "state_of steps = map_option step_state \<circ> by_id steps"

definition ready_steps :: "Step list \<Rightarrow> Step list" where
  "ready_steps steps = filter (\<lambda>s. step_state s = Step_pending \<and> list_all (\<lambda>d. state_of steps d = Some Step_succeeded) (step_depends_on s)) steps"

definition tracker_key :: "ustr \<Rightarrow> ustr \<Rightarrow> ustr" where
  "tracker_key pid sid = pid @ u '':'' @ sid"

text \<open>Starting the coroutine of a step: its first attempt, or, with no attempts allowed, its end.\<close>

definition launch :: "int \<Rightarrow> ustr \<Rightarrow> int \<Rightarrow> run_state \<Rightarrow> Step \<Rightarrow> run_state" where
  "launch m pid now st s =
     (if 1 \<le> m then
        st\<lparr> rn_steps := set_status (step_id s) Step_running (rn_steps st), rn_running := rn_running st @ [(step_id s, Waiting 1)],
            rn_tracker := tracker_start (rn_tracker st) (tracker_key pid (step_id s)) 1 now \<rparr>
      else st\<lparr> rn_steps := set_status (step_id s) Step_failed (rn_steps st), rn_running := rn_running st @ [(step_id s, Ended)] \<rparr>)"

definition launch_ready :: "int \<Rightarrow> ustr \<Rightarrow> int \<Rightarrow> run_state \<Rightarrow> run_state" where
  "launch_ready m pid now st = foldl (launch m pid now) st (ready_steps (rn_steps st))"

datatype event = Answer ustr int | Retry ustr int | Wake int

text \<open>The \<open>except\<close> branch of an attempt and the end of the loop over attempts; the branch of a completed task.\<close>

definition attempt_failed :: "int \<Rightarrow> ustr \<Rightarrow> int \<Rightarrow> outcome \<Rightarrow> run_state \<Rightarrow> run_state" where
  "attempt_failed m sid a out st =
     (if a < m then
        st\<lparr> rn_results := (rn_results st)(sid \<mapsto> failed_task sid out), rn_running := set_phase sid (Sleeping (a + 1)) (rn_running st) \<rparr>
      else st\<lparr> rn_results := (rn_results st)(sid \<mapsto> failed_task sid out), rn_steps := set_status sid Step_failed (rn_steps st),
               rn_running := set_phase sid Ended (rn_running st) \<rparr>)"

definition attempt_done :: "ustr \<Rightarrow> ustr \<Rightarrow> Task \<Rightarrow> int \<Rightarrow> run_state \<Rightarrow> run_state" where
  "attempt_done pid sid t now st =
     st\<lparr> rn_results := (rn_results st)(sid \<mapsto> t), rn_steps := set_status sid Step_succeeded (rn_steps st),
         rn_tracker := tracker_finish (rn_tracker st) (tracker_key pid sid) now, rn_running := set_phase sid Ended (rn_running st) \<rparr>"

definition after_attempt :: "client \<Rightarrow> int \<Rightarrow> ustr \<Rightarrow> ustr \<Rightarrow> int \<Rightarrow> int \<Rightarrow> run_state \<Rightarrow> run_state" where
  "after_attempt client m pid sid a now st =
     (case client sid a of
        Answered t \<Rightarrow> if task_status t \<noteq> Completed then attempt_failed m sid a (Answered t) st else attempt_done pid sid t now st
      | Raised e \<Rightarrow> attempt_failed m sid a (Raised e) st)"

text \<open>One event; \<open>None\<close> when the event loop has no such event to deliver.\<close>

fun dispatch_step :: "client \<Rightarrow> int \<Rightarrow> ustr \<Rightarrow> run_state \<Rightarrow> event \<Rightarrow> run_state option" where
  "dispatch_step client m pid st (Answer sid now) =
     (case map_of (rn_running st) sid of Some (Waiting a) \<Rightarrow> Some (after_attempt client m pid sid a now st) | _ \<Rightarrow> None)"
| "dispatch_step client m pid st (Retry sid now) =
     (case map_of (rn_running st) sid of
        Some (Sleeping a) \<Rightarrow> Some (st\<lparr> rn_running := set_phase sid (Waiting a) (rn_running st),
          rn_tracker := tracker_start (rn_tracker st) (tracker_key pid sid) a now \<rparr>)
      | _ \<Rightarrow> None)"
| "dispatch_step client m pid st (Wake now) =
     (if Ended \<in> snd ` set (rn_running st) then
        Some (launch_ready m pid now (st\<lparr> rn_running := filter (\<lambda>e. snd e \<noteq> Ended) (rn_running st) \<rparr>))
      else None)"

fun run_events :: "client \<Rightarrow> int \<Rightarrow> ustr \<Rightarrow> run_state \<Rightarrow> event list \<Rightarrow> run_state option" where
  "run_events client m pid st [] = Some st"
| "run_events client m pid st (e # es) =
     (case dispatch_step client m pid st e of None \<Rightarrow> None | Some st' \<Rightarrow> run_events client m pid st' es)"

definition dispatch_start :: "int \<Rightarrow> Plan \<Rightarrow> Tracker \<Rightarrow> int \<Rightarrow> run_state" where
  "dispatch_start m plan tk now = launch_ready m (plan_task_id plan) now
     \<lparr> rn_steps = plan_steps plan, rn_results = Map.empty, rn_running = [], rn_tracker = tk \<rparr>"

text \<open>The closing loop over the steps that were never started.\<close>

definition block_pending :: "run_state \<Rightarrow> run_state" where
  "block_pending st = foldl (\<lambda>st s. if step_state s = Step_pending
     then st\<lparr> rn_steps := set_status (step_id s) Step_failed (rn_steps st), rn_results := (rn_results st)(step_id s \<mapsto> blocked_task (step_id s)) \<rparr>
     else st) st (rn_steps st)"

text \<open>\<open>run\<close>: refused plans raise; the result is \<open>None\<close> while coroutines are still running after the events.\<close>

definition dispatcher_run :: "client \<Rightarrow> int \<Rightarrow> Plan \<Rightarrow> Tracker \<Rightarrow> int \<Rightarrow> event list \<Rightarrow> run_state option result" where
  "dispatcher_run client m plan tk now es = bindE (validate_plan plan) (\<lambda>_.
     Inr (case run_events client m (plan_task_id plan) (dispatch_start m plan tk now) es of
       Some st \<Rightarrow> if rn_running st = [] then Some (block_pending st) else None
     | None \<Rightarrow> None))"

section \<open>The aggregator\<close>

fun join_lines :: "ustr list \<Rightarrow> ustr" where
  "join_lines [] = []"
| "join_lines [t] = t"
| "join_lines (t # ts) = t @ 10 # join_lines ts"

definition task_text :: "Task option \<Rightarrow> ustr" where
  "task_text r = (case r of None \<Rightarrow> [] | Some t \<Rightarrow> join_lines (concat (map (\<lambda>a. text_parts (art_parts a)) (task_artifacts t))))"

definition collect_part :: "(ustr \<rightharpoonup> Task) \<Rightarrow> Step \<Rightarrow> Part" where
  "collect_part results s = TextPart (strip (u ''['' @ step_id s @ u ''@'' @ step_target s @ u ''] '' @ u (step_status_value (step_state s)) @
     10 # task_text (results (step_id s))))"

definition collect :: "ustr \<Rightarrow> Step list \<Rightarrow> (ustr \<rightharpoonup> Task) \<Rightarrow> Task" where
  "collect pid steps results =
     \<lparr> task_id = pid, task_status = (if list_all (\<lambda>s. step_state s = Step_succeeded) steps then Completed else Failed), task_history = [],
       task_artifacts = [\<lparr> art_artifactId = u ''plan'', art_parts = map (collect_part results) steps \<rparr>] \<rparr>"

end
