(* ===== verification/DispatchFacts.thy ===== *)
theory DispatchFacts
  imports Dispatch
begin

text \<open>
  The invariant of a dispatcher run and what a complete run returns. A step's coroutine is described by \<open>phase_ok\<close>: how its
  status, phase and result follow from the answers it has received so far. With it every complete run ends in the state that
  \<open>succeeds\<close> and \<open>own_result\<close> compute from the plan and the client alone.
\<close>

section \<open>Statuses and phases\<close>

lemma by_id_map: "(\<And>s. step_id (f s) = step_id s) \<Longrightarrow> by_id (map f steps) d = map_option f (by_id steps d)"
  unfolding by_id_def by (induction steps rule: rev_induct) auto

lemma state_of_set_status:
  "state_of (set_status sid x steps) d = (if d = sid then map_option (\<lambda>_. x) (by_id steps d) else state_of steps d)"
  unfolding state_of_def set_status_def by (auto simp: by_id_map option.map_comp comp_def dest: by_id_Some intro!: option.map_cong)

lemma step_ids_set_status [simp]: "map step_id (set_status sid x steps) = map step_id steps"
  by (simp add: set_status_def comp_def if_distrib cong: if_cong)

definition erased :: "Step list \<Rightarrow> Step list" where
  "erased = map (\<lambda>s. s\<lparr> step_state := Step_pending \<rparr>)"

lemma erased_set_status [simp]: "erased (set_status sid x steps) = erased steps"
  by (simp add: erased_def set_status_def)

lemma erased_ids: "map step_id (erased steps) = map step_id steps"
  by (simp add: erased_def comp_def)

lemma map_fst_set_phase [simp]: "map fst (set_phase sid ph r) = map fst r"
  by (simp add: set_phase_def comp_def case_prod_beta)

lemma map_of_set_phase: "map_of (set_phase sid ph r) k = (if k = sid then map_option (\<lambda>_. ph) (map_of r k) else map_of r k)"
  by (induction r) (auto simp: set_phase_def)

text \<open>The dependencies of a step, whatever the statuses.\<close>

definition deps_of :: "Step list \<Rightarrow> ustr \<Rightarrow> ustr list" where
  "deps_of steps sid = (case by_id steps sid of None \<Rightarrow> [] | Some s \<Rightarrow> step_depends_on s)"

lemma deps_erased: "deps_of (erased steps) = deps_of steps"
  by (rule ext) (simp add: deps_of_def erased_def by_id_map split: option.splits)

lemma deps_set_status [simp]: "deps_of (set_status sid x steps) = deps_of steps"
  by (metis deps_erased erased_set_status)

lemma dom_state_of: "dom (state_of steps) = step_id ` set steps"
  by (simp add: state_of_def dom_map_option_comp dom_by_id)

section \<open>The invariant\<close>

definition tried :: "client \<Rightarrow> ustr \<Rightarrow> int \<Rightarrow> Task option \<Rightarrow> bool" where
  "tried client sid a res \<longleftrightarrow> (\<forall>b. 1 \<le> b \<and> b < a \<longrightarrow> \<not> completed (client sid b)) \<and>
     res = (if a \<le> 1 then None else Some (failed_task sid (client sid (a - 1))))"

fun phase_ok :: "client \<Rightarrow> int \<Rightarrow> ustr \<Rightarrow> step_status \<Rightarrow> phase option \<Rightarrow> Task option \<Rightarrow> bool" where
  "phase_ok client m sid Step_pending ph res \<longleftrightarrow> ph = None \<and> res = None"
| "phase_ok client m sid Step_running ph res \<longleftrightarrow>
     (\<exists>a. (ph = Some (Waiting a) \<or> ph = Some (Sleeping a)) \<and> 1 \<le> a \<and> a \<le> m \<and> tried client sid a res)"
| "phase_ok client m sid Step_succeeded ph res \<longleftrightarrow> ph \<in> {None, Some Ended} \<and>
     (\<exists>a t. 1 \<le> a \<and> a \<le> m \<and> (\<forall>b. 1 \<le> b \<and> b < a \<longrightarrow> \<not> completed (client sid b)) \<and> client sid a = Answered t \<and>
        task_status t = Completed \<and> res = Some t)"
| "phase_ok client m sid Step_failed ph res \<longleftrightarrow> ph \<in> {None, Some Ended} \<and> tried client sid (max m 0 + 1) res"

definition deps_met :: "Step list \<Rightarrow> ustr \<Rightarrow> bool" where
  "deps_met steps sid \<longleftrightarrow> (\<forall>d \<in> set (deps_of steps sid). state_of steps d = Some Step_succeeded)"

definition core_inv :: "client \<Rightarrow> int \<Rightarrow> Plan \<Rightarrow> run_state \<Rightarrow> bool" where
  "core_inv client m plan st \<longleftrightarrow> erased (rn_steps st) = plan_steps plan \<and> distinct (map step_id (rn_steps st)) \<and>
     distinct (map fst (rn_running st)) \<and> fst ` set (rn_running st) \<subseteq> step_id ` set (rn_steps st) \<and>
     (\<forall>sid x. state_of (rn_steps st) sid = Some x \<longrightarrow>
        phase_ok client m sid x (map_of (rn_running st) sid) (rn_results st sid) \<and> (x \<noteq> Step_pending \<longrightarrow> deps_met (rn_steps st) sid))"

definition dispatch_inv :: "client \<Rightarrow> int \<Rightarrow> Plan \<Rightarrow> run_state \<Rightarrow> bool" where
  "dispatch_inv client m plan st \<longleftrightarrow> core_inv client m plan st \<and> (Ended \<notin> snd ` set (rn_running st) \<longrightarrow> ready_steps (rn_steps st) = [])"

lemma state_of_mem: "distinct (map step_id steps) \<Longrightarrow> s \<in> set steps \<Longrightarrow> state_of steps (step_id s) = Some (step_state s)"
  by (simp add: state_of_def by_id_distinct)

lemma ready_iff:
  assumes "distinct (map step_id steps)"
  shows "s \<in> set (ready_steps steps) \<longleftrightarrow> s \<in> set steps \<and> state_of steps (step_id s) = Some Step_pending \<and> deps_met steps (step_id s)"
  using state_of_mem [OF assms] by_id_distinct [OF assms]
  by (auto simp: ready_steps_def deps_met_def deps_of_def list_all_iff)

lemma not_ready:
  assumes "distinct (map step_id steps)" "ready_steps steps = []" "state_of steps sid = Some Step_pending"
  shows "\<not> deps_met steps sid"
proof
  assume "deps_met steps sid"
  moreover obtain s where "s \<in> set steps" "step_id s = sid" using assms(3) by (auto simp: state_of_def dest: by_id_Some)
  ultimately have "s \<in> set (ready_steps steps)" using ready_iff [OF assms(1)] assms(3) by auto
  then show False using assms(2) by simp
qed

text \<open>A change of one step's status that touches no succeeded step keeps what the others rely on.\<close>

lemma deps_met_mono:
  assumes "deps_met steps sid" "state_of steps c \<noteq> Some Step_succeeded \<or> x = Step_succeeded"
  shows "deps_met (set_status c x steps) sid"
proof -
  have "state_of (set_status c x steps) d = Some Step_succeeded" if "state_of steps d = Some Step_succeeded" for d
    using that assms(2) unfolding state_of_set_status by (auto simp: state_of_def)
  then show ?thesis using assms(1) by (simp add: deps_met_def)
qed

text \<open>The one way a running coroutine changes the state: its step's status, phase and result.\<close>

lemma core_update:
  assumes "core_inv client m plan st" "state_of (rn_steps st) sid = Some y" "y \<noteq> Step_succeeded" "x \<noteq> Step_pending"
    and "rn_steps st' = set_status sid x (rn_steps st)"
    and "distinct (map fst (rn_running st'))" "fst ` set (rn_running st') \<subseteq> step_id ` set (rn_steps st)"
    and "\<And>k. k \<noteq> sid \<Longrightarrow> map_of (rn_running st') k = map_of (rn_running st) k \<and> rn_results st' k = rn_results st k"
    and "phase_ok client m sid x (map_of (rn_running st') sid) (rn_results st' sid)" "deps_met (rn_steps st) sid"
  shows "core_inv client m plan st'"
proof -
  have ids: "step_id ` set (rn_steps st') = step_id ` set (rn_steps st)"
    by (metis assms(5) list.set_map step_ids_set_status)
  have "phase_ok client m k z (map_of (rn_running st') k) (rn_results st' k) \<and> (z \<noteq> Step_pending \<longrightarrow> deps_met (rn_steps st') k)"
    if k: "state_of (rn_steps st') k = Some z" for k z
  proof (cases "k = sid")
    case True
    then have "z = x" using k by (auto simp: assms(5) state_of_set_status)
    then show ?thesis using True assms(9) deps_met_mono [OF assms(10)] assms(2,3) by (auto simp: assms(5))
  next
    case False
    then have "state_of (rn_steps st) k = Some z" using k by (simp add: assms(5) state_of_set_status)
    then show ?thesis using False assms(1,8) deps_met_mono assms(2,3) by (auto simp: core_inv_def assms(5))
  qed
  moreover have "distinct (map step_id (rn_steps st'))" using assms(1) by (simp add: core_inv_def assms(5))
  moreover have "erased (rn_steps st') = plan_steps plan" using assms(1) by (simp add: core_inv_def assms(5))
  ultimately show ?thesis using assms(6,7) unfolding core_inv_def ids by blast
qed

section \<open>Launching\<close>

lemma launch_core:
  assumes "core_inv client m plan st" "state_of (rn_steps st) (step_id s) = Some Step_pending" "deps_met (rn_steps st) (step_id s)"
  shows "core_inv client m plan (launch m pid now st s)"
proof -
  have p: "map_of (rn_running st) (step_id s) = None" "rn_results st (step_id s) = None"
    using assms(1,2) unfolding core_inv_def by (metis phase_ok.simps(1))+
  then have f: "step_id s \<notin> fst ` set (rn_running st)" by (simp add: map_of_eq_None_iff)
  have i: "step_id s \<in> step_id ` set (rn_steps st)" using assms(2) dom_state_of by (metis domI)
  have d: "distinct (map fst (rn_running st))" "fst ` set (rn_running st) \<subseteq> step_id ` set (rn_steps st)"
    using assms(1) by (auto simp: core_inv_def)
  show ?thesis
    by (rule core_update [OF assms(1,2), where x = "if 1 \<le> m then Step_running else Step_failed"])
      (use p f i d assms(3) in \<open>auto simp: launch_def tried_def map_add_def split: option.splits\<close>)
qed

lemma launch_state_of:
  "state_of (rn_steps (launch m pid now st s)) k =
    (if k = step_id s then map_option (\<lambda>_. if 1 \<le> m then Step_running else Step_failed) (by_id (rn_steps st) k) else state_of (rn_steps st) k)"
  by (simp add: launch_def state_of_set_status)

lemma launch_deps: "deps_of (rn_steps (launch m pid now st s)) = deps_of (rn_steps st)"
  by (simp add: launch_def deps_set_status)

lemma launch_all_core:
  assumes "core_inv client m plan st" "distinct (map step_id ss)"
    and "\<forall>s \<in> set ss. state_of (rn_steps st) (step_id s) = Some Step_pending \<and> deps_met (rn_steps st) (step_id s)"
  shows "core_inv client m plan (foldl (launch m pid now) st ss) \<and>
    (\<forall>k. state_of (rn_steps (foldl (launch m pid now) st ss)) k =
      (if k \<in> step_id ` set ss then Some (if 1 \<le> m then Step_running else Step_failed) else state_of (rn_steps st) k)) \<and>
    (\<forall>k. map_of (rn_running (foldl (launch m pid now) st ss)) k =
      (if k \<in> step_id ` set ss then Some (if 1 \<le> m then Waiting 1 else Ended) else map_of (rn_running st) k))"
  using assms
proof (induction ss arbitrary: st)
  case (Cons s ss)
  let ?st = "launch m pid now st s"
  have s: "state_of (rn_steps st) (step_id s) = Some Step_pending" "deps_met (rn_steps st) (step_id s)" using Cons.prems(3) by simp_all
  have c: "core_inv client m plan ?st" by (rule launch_core [OF Cons.prems(1) s])
  have other: "state_of (rn_steps ?st) (step_id t) = Some Step_pending \<and> deps_met (rn_steps ?st) (step_id t)" if t: "t \<in> set ss" for t
  proof -
    have "step_id t \<noteq> step_id s" using imageI [OF t, of step_id] Cons.prems(2) by auto
    moreover have "deps_met (rn_steps ?st) (step_id t)"
      using Cons.prems(3) t s(1) by (auto simp: launch_def intro: deps_met_mono)
    ultimately show ?thesis using Cons.prems(3) t by (simp add: launch_state_of)
  qed
  have "state_of (rn_steps ?st) (step_id s) = Some (if 1 \<le> m then Step_running else Step_failed)"
    using s(1) unfolding launch_state_of by (auto simp: state_of_def)
  moreover have "map_of (rn_running st) (step_id s) = None" using Cons.prems(1) s(1) unfolding core_inv_def by (metis phase_ok.simps(1))
  then have "map_of (rn_running ?st) k = (if k = step_id s then Some (if 1 \<le> m then Waiting 1 else Ended) else map_of (rn_running st) k)" for k
    by (auto simp: launch_def map_add_def split: option.splits)
  ultimately show ?case using Cons.IH [OF c] Cons.prems(2) other by (auto simp: launch_state_of)
qed simp

lemma launch_ready_inv:
  assumes "core_inv client m plan st"
  shows "dispatch_inv client m plan (launch_ready m pid now st)"
proof -
  let ?ss = "ready_steps (rn_steps st)" and ?st = "launch_ready m pid now st"
  have d: "distinct (map step_id (rn_steps st))" using assms by (simp add: core_inv_def)
  have ss: "\<forall>s \<in> set ?ss. state_of (rn_steps st) (step_id s) = Some Step_pending \<and> deps_met (rn_steps st) (step_id s)"
    using ready_iff [OF d] by blast
  have "distinct (map step_id ?ss)" using d by (simp add: ready_steps_def distinct_map_filter)
  note l = launch_all_core [OF assms this ss, of pid now, folded launch_ready_def]
  have d': "distinct (map step_id (rn_steps ?st))" and e: "deps_of (rn_steps ?st) = deps_of (rn_steps st)"
    using l assms unfolding core_inv_def by (metis deps_erased)+
  have "s \<notin> set (ready_steps (rn_steps ?st))" for s
  proof
    assume "s \<in> set (ready_steps (rn_steps ?st))"
    then have r: "state_of (rn_steps ?st) (step_id s) = Some Step_pending" "deps_met (rn_steps ?st) (step_id s)"
      using ready_iff [OF d'] by auto
    have old: "state_of (rn_steps st) (step_id s) = Some Step_pending" "step_id s \<notin> step_id ` set ?ss"
      using r(1) l by (auto split: if_splits)
    have "state_of (rn_steps st) x = Some Step_succeeded" if "state_of (rn_steps ?st) x = Some Step_succeeded" for x
      using that l by (auto split: if_splits)
    then have "deps_met (rn_steps st) (step_id s)" using r(2) by (simp add: deps_met_def e)
    moreover obtain t where "t \<in> set (rn_steps st)" "step_id t = step_id s"
      using old(1) by (auto simp: state_of_def dest: by_id_Some)
    ultimately have "t \<in> set ?ss" using ready_iff [OF d] old(1) by auto
    from imageI [OF this, of step_id] show False using old(2) \<open>step_id t = step_id s\<close> by simp
  qed
  then have "ready_steps (rn_steps ?st) = []" by (metis list.set_intros(1) neq_Nil_conv)
  then show ?thesis using l by (simp add: dispatch_inv_def)
qed

section \<open>Events\<close>

lemma running_state:
  assumes "core_inv client m plan st" "map_of (rn_running st) sid = Some ph" "ph \<noteq> Ended"
  shows "state_of (rn_steps st) sid = Some Step_running"
proof -
  have "sid \<in> step_id ` set (rn_steps st)" using assms(1,2) unfolding core_inv_def by (metis map_of_SomeD fst_conv imageI subsetD)
  then obtain x where x: "state_of (rn_steps st) sid = Some x" using dom_state_of by (metis domD)
  then have "phase_ok client m sid x (Some ph) (rn_results st sid)" using assms(1,2) unfolding core_inv_def by metis
  then show ?thesis using x assms(3) by (cases x) auto
qed

lemma set_phase_running:
  assumes "core_inv client m plan st"
  shows "distinct (map fst (set_phase sid ph (rn_running st)))" "fst ` set (set_phase sid ph (rn_running st)) \<subseteq> step_id ` set (rn_steps st)"
proof -
  have "fst ` set (set_phase sid ph (rn_running st)) = fst ` set (rn_running st)" by (metis list.set_map map_fst_set_phase)
  then show "distinct (map fst (set_phase sid ph (rn_running st)))" "fst ` set (set_phase sid ph (rn_running st)) \<subseteq> step_id ` set (rn_steps st)"
    using assms by (auto simp: core_inv_def)
qed

lemma set_status_same: "state_of steps sid = Some x \<Longrightarrow> distinct (map step_id steps) \<Longrightarrow> set_status sid x steps = steps"
  unfolding set_status_def by (rule map_idI) (auto dest: state_of_mem)

lemma tried_next: "tried client sid a res \<Longrightarrow> 1 \<le> a \<Longrightarrow> \<not> completed (client sid a) \<Longrightarrow>
    tried client sid (a + 1) (Some (failed_task sid (client sid a)))"
  by (auto simp: tried_def) (metis add1_zle_eq le_less less_add_one zle_add1_eq_le)

lemma answer_core:
  assumes "core_inv client m plan st" "map_of (rn_running st) sid = Some (Waiting a)"
  shows "core_inv client m plan (after_attempt client m pid sid a now st)"
proof -
  have run: "state_of (rn_steps st) sid = Some Step_running" using running_state [OF assms] by simp
  then have ph: "phase_ok client m sid Step_running (Some (Waiting a)) (rn_results st sid)" "deps_met (rn_steps st) sid"
    using assms unfolding core_inv_def by (metis step_status.distinct(1))+
  then have a: "1 \<le> a" "a \<le> m" "tried client sid a (rn_results st sid)" by auto
  have same: "set_status sid Step_running (rn_steps st) = rn_steps st"
    using set_status_same [OF run] assms(1) by (simp add: core_inv_def)
  note sp = set_phase_running [OF assms(1)]
  show ?thesis
  proof (cases "completed (client sid a)")
    case True
    then obtain t where t: "client sid a = Answered t" "task_status t = Completed" by (cases "client sid a") auto
    have b: "\<forall>b. 1 \<le> b \<and> b < a \<longrightarrow> \<not> completed (client sid b)" using a(3) by (simp add: tried_def)
    show ?thesis
      by (rule core_update [OF assms(1) run, where x = Step_succeeded])
        (use t a b ph sp assms(2) in \<open>auto simp: after_attempt_def attempt_done_def map_of_set_phase\<close>)
  next
    case False
    then have f: "after_attempt client m pid sid a now st = attempt_failed m sid a (client sid a) st"
      by (cases "client sid a") (simp_all add: after_attempt_def)
    note tr = tried_next [OF a(3,1) False]
    show ?thesis
    proof (cases "a < m")
      case True
      show ?thesis unfolding f
        by (rule core_update [OF assms(1) run, where x = Step_running])
          (use True a tr ph sp same assms(2) in \<open>auto simp: attempt_failed_def map_of_set_phase\<close>)
    next
      case no: False
      then have "a = m" "max m 0 + 1 = a + 1" using a by auto
      then show ?thesis unfolding f
        by (intro core_update [OF assms(1) run, where x = Step_failed])
          (use no a tr ph sp assms(2) in \<open>auto simp: attempt_failed_def map_of_set_phase\<close>)
    qed
  qed
qed

lemma retry_core:
  assumes "core_inv client m plan st" "map_of (rn_running st) sid = Some (Sleeping a)"
  shows "core_inv client m plan (st\<lparr> rn_running := set_phase sid (Waiting a) (rn_running st), rn_tracker := tk \<rparr>)"
proof -
  have run: "state_of (rn_steps st) sid = Some Step_running" using running_state [OF assms] by simp
  then have ph: "phase_ok client m sid Step_running (Some (Sleeping a)) (rn_results st sid)" "deps_met (rn_steps st) sid"
    using assms unfolding core_inv_def by (metis step_status.distinct(1))+
  have same: "set_status sid Step_running (rn_steps st) = rn_steps st"
    using set_status_same [OF run] assms(1) by (simp add: core_inv_def)
  show ?thesis
    by (rule core_update [OF assms(1) run, where x = Step_running])
      (use ph same set_phase_running [OF assms(1)] assms(2) in \<open>auto simp: map_of_set_phase\<close>)
qed

lemma map_of_live: "distinct (map fst r) \<Longrightarrow>
    map_of (filter (\<lambda>e. snd e \<noteq> Ended) r) k = (case map_of r k of Some Ended \<Rightarrow> None | ph \<Rightarrow> ph)"
  by (induction r) (auto simp: map_of_eq_None_iff dest: imageI split: option.splits phase.splits)

lemma prune_core:
  assumes "core_inv client m plan st"
  shows "core_inv client m plan (st\<lparr> rn_running := filter (\<lambda>e. snd e \<noteq> Ended) (rn_running st) \<rparr>)"
proof -
  have d: "distinct (map fst (rn_running st))" using assms by (simp add: core_inv_def)
  have "phase_ok client m k x (map_of (filter (\<lambda>e. snd e \<noteq> Ended) (rn_running st)) k) r"
    if "phase_ok client m k x (map_of (rn_running st) k) r" for k x r
    using that by (cases x) (auto simp: map_of_live [OF d] split: option.splits phase.splits)
  then show ?thesis using assms by (auto simp: core_inv_def distinct_map_filter)
qed

text \<open>Every event keeps the invariant.\<close>

lemma dispatch_step_inv:
  assumes "dispatch_inv client m plan st" "dispatch_step client m pid st e = Some st'"
  shows "dispatch_inv client m plan st'"
proof (cases e)
  case (Wake now)
  then have "st' = launch_ready m pid now (st\<lparr> rn_running := filter (\<lambda>e. snd e \<noteq> Ended) (rn_running st) \<rparr>)"
    using assms(2) by (simp split: if_splits)
  moreover have "core_inv client m plan st" using assms(1) by (simp add: dispatch_inv_def)
  ultimately show ?thesis using launch_ready_inv [OF prune_core] by simp
next
  case (Retry sid now)
  then obtain a where a: "map_of (rn_running st) sid = Some (Sleeping a)"
    "st' = st\<lparr> rn_running := set_phase sid (Waiting a) (rn_running st), rn_tracker := tracker_start (rn_tracker st) (tracker_key pid sid) a now \<rparr>"
    using assms(2) by (auto split: option.splits phase.splits)
  have "core_inv client m plan st'" unfolding a(2) by (rule retry_core [OF _ a(1)]) (use assms(1) in \<open>simp add: dispatch_inv_def\<close>)
  moreover have "Ended \<in> snd ` set (rn_running st')" if "Ended \<in> snd ` set (rn_running st)"
  proof -
    from that obtain k where "(k, Ended) \<in> set (rn_running st)" by auto
    moreover have "k \<noteq> sid" using calculation a(1) assms(1) unfolding dispatch_inv_def core_inv_def by (metis map_of_is_SomeI option.inject phase.distinct(5))
    ultimately have "(k, Ended) \<in> set (rn_running st')" by (force simp: a(2) set_phase_def)
    then show ?thesis by force
  qed
  ultimately show ?thesis using assms(1) by (auto simp: dispatch_inv_def a(2))
next
  case (Answer sid now)
  then obtain a where a: "map_of (rn_running st) sid = Some (Waiting a)" "st' = after_attempt client m pid sid a now st"
    using assms(2) by (auto split: option.splits phase.splits)
  have c: "core_inv client m plan st" "core_inv client m plan st'"
    using answer_core [OF _ a(1)] assms(1) by (auto simp: dispatch_inv_def a(2))
  have run: "state_of (rn_steps st) sid = Some Step_running" by (rule running_state [OF c(1) a(1)]) simp
  have live: "Ended \<in> snd ` set (set_phase sid ph (rn_running st))" if e: "ph = Ended \<or> Ended \<in> snd ` set (rn_running st)" for ph
  proof -
    have m: "(sid, Waiting a) \<in> set (rn_running st)" by (rule map_of_SomeD [OF a(1)])
    show ?thesis
    proof (cases "ph = Ended")
      case True
      then have "(sid, Ended) \<in> set (set_phase sid ph (rn_running st))" using m by (force simp: set_phase_def)
      then show ?thesis by force
    next
      case False
      then obtain k where k: "(k, Ended) \<in> set (rn_running st)" using e by auto
      then have "k \<noteq> sid" using a(1) c(1) unfolding core_inv_def by (metis map_of_is_SomeI option.inject phase.distinct(3))
      then have "(k, Ended) \<in> set (set_phase sid ph (rn_running st))" using k by (force simp: set_phase_def)
      then show ?thesis by force
    qed
  qed
  show ?thesis
  proof (cases "Ended \<in> snd ` set (rn_running st')")
    case True
    then show ?thesis using c(2) by (simp add: dispatch_inv_def)
  next
    case False
    have "rn_steps st' = rn_steps st \<and> Ended \<notin> snd ` set (rn_running st)"
      using False live by (auto simp: a(2) after_attempt_def attempt_failed_def attempt_done_def split: outcome.splits if_splits)
    then show ?thesis using c(2) assms(1) by (simp add: dispatch_inv_def)
  qed
qed

lemma start_inv:
  assumes "plan_ok plan"
  shows "dispatch_inv client m plan (dispatch_start m plan tk now)"
  unfolding dispatch_start_def
proof (rule launch_ready_inv)
  have p: "erased (plan_steps plan) = plan_steps plan" using assms by (auto simp: erased_def plan_ok_def intro!: map_idI)
  have x: "x = Step_pending" if "state_of (plan_steps plan) sid = Some x" for sid x
    using that assms by (auto simp: state_of_def plan_ok_def dest: by_id_Some)
  have "phase_ok client m sid x None None" if "state_of (plan_steps plan) sid = Some x" for sid x
    using x [OF that] by simp
  then show "core_inv client m plan \<lparr> rn_steps = plan_steps plan, rn_results = Map.empty, rn_running = [], rn_tracker = tk \<rparr>"
    using p x assms by (auto simp: core_inv_def plan_ok_def)
qed

lemma events_inv: "run_events client m pid st es = Some st' \<Longrightarrow> dispatch_inv client m plan st \<Longrightarrow> dispatch_inv client m plan st'"
  by (induction es arbitrary: st) (auto split: option.splits dest: dispatch_step_inv)

section \<open>Every run ends\<close>

fun weight :: "int \<Rightarrow> step_status \<Rightarrow> phase option \<Rightarrow> nat" where
  "weight m Step_pending ph = nat (2 * max m 0 + 3)"
| "weight m x (Some (Waiting a)) = nat (2 * (m - a) + 2)"
| "weight m x (Some (Sleeping a)) = nat (2 * (m - a) + 3)"
| "weight m x (Some Ended) = 1"
| "weight m x None = 0"

definition total :: "int \<Rightarrow> run_state \<Rightarrow> nat" where
  "total m st = (\<Sum>sid \<in> step_id ` set (rn_steps st). weight m (the (state_of (rn_steps st) sid)) (map_of (rn_running st) sid))"

lemma total_less:
  assumes "core_inv client m plan st" "core_inv client m plan st'" "k \<in> step_id ` set (rn_steps st)"
    and "weight m (the (state_of (rn_steps st') k)) (map_of (rn_running st') k) < weight m (the (state_of (rn_steps st) k)) (map_of (rn_running st) k)"
    and "\<And>k. k \<in> step_id ` set (rn_steps st) \<Longrightarrow>
      weight m (the (state_of (rn_steps st') k)) (map_of (rn_running st') k) \<le> weight m (the (state_of (rn_steps st) k)) (map_of (rn_running st) k)"
  shows "total m st' < total m st"
proof -
  have "map step_id (rn_steps st') = map step_id (rn_steps st)" using assms(1,2) unfolding core_inv_def by (metis erased_ids)
  then have "step_id ` set (rn_steps st') = step_id ` set (rn_steps st)" by (metis list.set_map)
  then show ?thesis using assms(3-5) unfolding total_def by (auto intro!: sum_strict_mono_ex1)
qed

lemma step_total:
  assumes "dispatch_inv client m plan st" "dispatch_step client m pid st e = Some st'"
  shows "total m st' < total m st"
proof -
  have c: "core_inv client m plan st" "core_inv client m plan st'" using assms dispatch_step_inv [OF assms] by (simp_all add: dispatch_inv_def)
  have known: "k \<in> step_id ` set (rn_steps st)" if "map_of (rn_running st) k = Some ph" for k ph
    using c(1) that unfolding core_inv_def by (metis map_of_SomeD fst_conv imageI subsetD)
  show ?thesis
  proof (cases e)
    case (Wake now)
    let ?st = "st\<lparr> rn_running := filter (\<lambda>e. snd e \<noteq> Ended) (rn_running st) \<rparr>" and ?ss = "ready_steps (rn_steps st)"
    have w: "Ended \<in> snd ` set (rn_running st)" "st' = foldl (launch m pid now) ?st ?ss"
      using assms(2) Wake by (auto simp: launch_ready_def split: if_splits)
    have d: "distinct (map step_id (rn_steps st))" and dr: "distinct (map fst (rn_running st))" using c(1) by (simp_all add: core_inv_def)
    have r: "\<forall>s \<in> set ?ss. state_of (rn_steps ?st) (step_id s) = Some Step_pending \<and> deps_met (rn_steps ?st) (step_id s)"
      using ready_iff [OF d] by auto
    have "distinct (map step_id ?ss)" using d by (simp add: ready_steps_def distinct_map_filter)
    note l = launch_all_core [OF prune_core [OF c(1)] this r, of pid now, folded w(2)]
    obtain k where "(k, Ended) \<in> set (rn_running st)" using w(1) by auto
    then have k: "map_of (rn_running st) k = Some Ended" using dr by simp
    obtain x where x: "state_of (rn_steps st) k = Some x" using known [OF k] dom_state_of by (metis domD)
    then have "phase_ok client m k x (Some Ended) (rn_results st k)" using c(1) k unfolding core_inv_def by metis
    then have np: "x \<noteq> Step_pending" by auto
    have pend: "state_of (rn_steps st) j = Some Step_pending" if "j \<in> step_id ` set ?ss" for j using that r by auto
    show ?thesis
    proof (rule total_less [OF c known [OF k]])
      show "weight m (the (state_of (rn_steps st') k)) (map_of (rn_running st') k) < weight m (the (state_of (rn_steps st) k)) (map_of (rn_running st) k)"
        using l k x np pend [of k] by (cases x) (auto simp: map_of_live [OF dr])
      show "weight m (the (state_of (rn_steps st') j)) (map_of (rn_running st') j) \<le> weight m (the (state_of (rn_steps st) j)) (map_of (rn_running st) j)" for j
        using l pend [of j] by (cases "j \<in> step_id ` set ?ss"; cases "the (state_of (rn_steps st) j)")
          (auto simp: map_of_live [OF dr] split: option.splits phase.splits)
    qed
  next
    case (Retry sid now)
    then obtain a where a: "map_of (rn_running st) sid = Some (Sleeping a)" "rn_steps st' = rn_steps st"
      "rn_running st' = set_phase sid (Waiting a) (rn_running st)"
      using assms(2) by (auto split: option.splits phase.splits)
    have s: "state_of (rn_steps st) sid = Some Step_running" by (rule running_state [OF c(1) a(1)]) simp
    then have "\<exists>a'. a' = a \<and> 1 \<le> a \<and> a \<le> m" using c(1) a(1) unfolding core_inv_def by (metis option.inject phase.distinct(1) phase.inject(2) phase_ok.simps(2))
    then show ?thesis using a s known [OF a(1)] by (intro total_less [OF c known [OF a(1)]]) (auto simp: map_of_set_phase)
  next
    case (Answer sid now)
    then obtain a where a: "map_of (rn_running st) sid = Some (Waiting a)" "st' = after_attempt client m pid sid a now st"
      using assms(2) by (auto split: option.splits phase.splits)
    have s: "state_of (rn_steps st) sid = Some Step_running" by (rule running_state [OF c(1) a(1)]) simp
    then obtain y where y: "by_id (rn_steps st) sid = Some y" by (auto simp: state_of_def)
    have "1 \<le> a \<and> a \<le> m" using s c(1) a(1) unfolding core_inv_def by (metis option.inject phase.distinct(1) phase.inject(1) phase_ok.simps(2))
    then show ?thesis using a s y
      by (intro total_less [OF c known [OF a(1)]])
        (auto simp: map_of_set_phase after_attempt_def attempt_failed_def attempt_done_def state_of_set_status split: outcome.splits)
  qed
qed

lemma run_bounded: "run_events client m pid st es = Some st' \<Longrightarrow> dispatch_inv client m plan st \<Longrightarrow> length es + total m st' \<le> total m st"
proof (induction es arbitrary: st)
  case (Cons e es)
  then obtain st1 where "dispatch_step client m pid st e = Some st1" "run_events client m pid st1 es = Some st'"
    by (auto split: option.splits)
  then show ?case using Cons.IH [of st1] dispatch_step_inv [OF Cons.prems(2)] step_total [OF Cons.prems(2)] by fastforce
qed simp

lemma enabled: "rn_running st \<noteq> [] \<Longrightarrow> \<exists>e st'. dispatch_step client m pid st e = Some st'"
proof -
  assume "rn_running st \<noteq> []"
  then obtain k ph r where r: "rn_running st = (k, ph) # r" by (metis neq_Nil_conv surj_pair)
  show ?thesis
  proof (cases ph)
    case (Waiting a) then show ?thesis by (intro exI [of _ "Answer k 0"]) (simp add: r)
  next
    case (Sleeping a) then show ?thesis by (intro exI [of _ "Retry k 0"]) (simp add: r)
  next
    case Ended then show ?thesis by (intro exI [of _ "Wake 0"]) (simp add: r)
  qed
qed

end
