(* ===== verification/OrchestratorProperties.thy ===== *)
theory OrchestratorProperties
  imports DispatchFacts
begin

text \<open>
  The orchestrator's properties: which plans are accepted, that every run of the dispatcher ends, and that its outcome does not
  depend on the order in which coroutines are scheduled.
\<close>

section \<open>What a plan comes to\<close>

definition first_completed :: "client \<Rightarrow> int \<Rightarrow> ustr \<Rightarrow> int option" where
  "first_completed client m sid = find (\<lambda>a. completed (client sid a)) [1..m]"

text \<open>A step succeeds when its dependencies do and one of its attempts is answered with a completed task.\<close>

inductive succeeds :: "client \<Rightarrow> int \<Rightarrow> Step list \<Rightarrow> ustr \<Rightarrow> bool" for client m steps where
  succeedsI: "\<lbrakk> \<And>d. d \<in> set (deps_of steps sid) \<Longrightarrow> succeeds client m steps d; first_completed client m sid \<noteq> None \<rbrakk>
    \<Longrightarrow> succeeds client m steps sid"

definition final_result :: "client \<Rightarrow> int \<Rightarrow> Step list \<Rightarrow> ustr \<Rightarrow> Task option \<Rightarrow> bool" where
  "final_result client m steps sid res \<longleftrightarrow>
     (if \<exists>d \<in> set (deps_of steps sid). \<not> succeeds client m steps d then res = Some (blocked_task sid)
      else case first_completed client m sid of
          Some a \<Rightarrow> (\<exists>t. client sid a = Answered t \<and> res = Some t)
        | None \<Rightarrow> res = (if 1 \<le> m then Some (failed_task sid (client sid m)) else None))"

lemma find_upto:
  "find P [i..j] = Some a \<longleftrightarrow> i \<le> a \<and> a \<le> j \<and> P a \<and> (\<forall>b. i \<le> b \<and> b < a \<longrightarrow> \<not> P b)"
proof (induction i j rule: upto.induct)
  case (1 i j)
  show ?case
  proof (cases "i \<le> j")
    case True
    have first: "i \<le> b \<longleftrightarrow> b = i \<or> i + 1 \<le> b" for b by auto
    have "(\<forall>b. i \<le> b \<and> b < a \<longrightarrow> \<not> P b) \<longleftrightarrow> (i < a \<longrightarrow> \<not> P i) \<and> (\<forall>b. i + 1 \<le> b \<and> b < a \<longrightarrow> \<not> P b)"
      unfolding first by blast
    moreover have "i \<le> a \<and> a \<le> j \<and> P a \<longleftrightarrow> a = i \<and> P i \<or> i + 1 \<le> a \<and> a \<le> j \<and> P a" using True first [of a] by auto
    ultimately show ?thesis using 1 [OF True] True by (auto simp: upto.simps [of i j])
  qed auto
qed

lemma find_upto_None: "find P [i..j] = None \<longleftrightarrow> (\<forall>b. i \<le> b \<and> b \<le> j \<longrightarrow> \<not> P b)"
  by (auto simp: find_None_iff)

lemma depends_deps: "(s, d) \<in> depends steps \<longleftrightarrow> d \<in> set (deps_of steps s)"
  by (cases "by_id steps s") (auto simp: depends_def deps_of_def)

lemma plan_grounded:
  assumes "validate_plan plan = Inr ()" "s \<in> set (plan_steps plan)"
  shows "grounded (plan_steps plan) (step_id s)"
proof -
  obtain v where "visit_all (plan_steps plan) {} {} (map step_id (plan_steps plan)) = Inr v"
    using assms(1) by (auto simp: validate_plan_def Let_def)
  from visit_grounded(2) [OF this] show ?thesis using assms(2) by auto
qed

text \<open>When no coroutine is left, a step has succeeded exactly if \<open>succeeds\<close> says so.\<close>

lemma ended_state:
  assumes "dispatch_inv client m plan st" "rn_running st = []" "state_of (rn_steps st) sid = Some x"
  shows "x \<noteq> Step_running \<and>
    (x = Step_succeeded \<longrightarrow> deps_met (rn_steps st) sid \<and>
       (\<exists>a t. first_completed client m sid = Some a \<and> client sid a = Answered t \<and> rn_results st sid = Some t)) \<and>
    (x = Step_failed \<longrightarrow> deps_met (rn_steps st) sid \<and> first_completed client m sid = None \<and>
       rn_results st sid = (if 1 \<le> m then Some (failed_task sid (client sid m)) else None)) \<and>
    (x = Step_pending \<longrightarrow> \<not> deps_met (rn_steps st) sid)"
proof -
  have c: "core_inv client m plan st" and r: "ready_steps (rn_steps st) = []" using assms(1,2) by (auto simp: dispatch_inv_def)
  have p: "phase_ok client m sid x None (rn_results st sid)" "x \<noteq> Step_pending \<longrightarrow> deps_met (rn_steps st) sid"
    using c assms(2,3) unfolding core_inv_def by (metis map_of.simps(1))+
  have "\<not> deps_met (rn_steps st) sid" if "x = Step_pending"
    using not_ready [OF _ r] c assms(3) that by (simp add: core_inv_def)
  then show ?thesis using p
    by (cases x) (auto simp: tried_def first_completed_def find_upto find_upto_None max_def split: if_splits)
qed

lemma ended_succeeds:
  assumes "dispatch_inv client m plan st" "rn_running st = []"
  shows "succeeds client m (plan_steps plan) sid \<Longrightarrow> sid \<in> step_id ` set (plan_steps plan) \<Longrightarrow>
      (\<forall>s \<in> set (plan_steps plan). set (step_depends_on s) \<subseteq> step_id ` set (plan_steps plan)) \<Longrightarrow>
      state_of (rn_steps st) sid = Some Step_succeeded"
    and "grounded (plan_steps plan) sid \<Longrightarrow> state_of (rn_steps st) sid = Some Step_succeeded \<Longrightarrow> succeeds client m (plan_steps plan) sid"
proof -
  have e: "erased (rn_steps st) = plan_steps plan" using assms(1) by (simp add: dispatch_inv_def core_inv_def)
  then have deps: "deps_of (plan_steps plan) = deps_of (rn_steps st)" by (metis deps_erased)
  have ids: "step_id ` set (plan_steps plan) = step_id ` set (rn_steps st)" by (metis e erased_ids list.set_map)
  show "state_of (rn_steps st) sid = Some Step_succeeded"
    if "succeeds client m (plan_steps plan) sid" "sid \<in> step_id ` set (plan_steps plan)"
      "\<forall>s \<in> set (plan_steps plan). set (step_depends_on s) \<subseteq> step_id ` set (plan_steps plan)"
    using that
  proof (induction rule: succeeds.induct)
    case (succeedsI sid)
    obtain x where x: "state_of (rn_steps st) sid = Some x" using succeedsI.prems(1) ids dom_state_of by (metis domD)
    have "set (deps_of (plan_steps plan) sid) \<subseteq> step_id ` set (plan_steps plan)"
      using succeedsI.prems(2) by (cases "by_id (plan_steps plan) sid") (auto simp: deps_of_def dest!: by_id_Some)
    then have "deps_met (rn_steps st) sid" using succeedsI.IH succeedsI.prems(2) by (auto simp: deps_met_def deps)
    then show ?case using ended_state [OF assms x] succeedsI.hyps(2) x by (cases x) auto
  qed
  show "succeeds client m (plan_steps plan) sid" if "grounded (plan_steps plan) sid" "state_of (rn_steps st) sid = Some Step_succeeded"
    using that
  proof (induction rule: accp.induct)
    case (accI sid)
    have "deps_met (rn_steps st) sid" "first_completed client m sid \<noteq> None" using ended_state [OF assms accI.prems] by auto
    then show ?case using accI.IH by - (rule succeedsI, auto simp: depends_deps deps deps_met_def)
  qed
qed

text \<open>The closing loop.\<close>

lemma block_pending_fold:
  "let st' = foldl (\<lambda>st s. if step_state s = Step_pending
     then st\<lparr> rn_steps := set_status (step_id s) Step_failed (rn_steps st), rn_results := (rn_results st)(step_id s \<mapsto> blocked_task (step_id s)) \<rparr>
     else st) st ss in
   erased (rn_steps st') = erased (rn_steps st) \<and>
   state_of (rn_steps st') k = (if \<exists>s \<in> set ss. step_id s = k \<and> step_state s = Step_pending
     then map_option (\<lambda>_. Step_failed) (state_of (rn_steps st) k) else state_of (rn_steps st) k) \<and>
   rn_results st' k = (if \<exists>s \<in> set ss. step_id s = k \<and> step_state s = Step_pending then Some (blocked_task k) else rn_results st k)"
proof (induction ss arbitrary: st)
  case (Cons s ss)
  have "map_option (\<lambda>_. Step_failed) (by_id steps k) = map_option (\<lambda>_. Step_failed) (state_of steps k)" for steps
    by (simp add: state_of_def option.map_comp comp_def)
  then show ?case using Cons.IH by (auto simp: Let_def state_of_set_status option.map_comp comp_def)
qed simp

lemma block_pending_state:
  assumes "distinct (map step_id (rn_steps st))"
  shows "erased (rn_steps (block_pending st)) = erased (rn_steps st)"
    "state_of (rn_steps (block_pending st)) k = (case state_of (rn_steps st) k of Some Step_pending \<Rightarrow> Some Step_failed | x \<Rightarrow> x)"
    "rn_results (block_pending st) k = (if state_of (rn_steps st) k = Some Step_pending then Some (blocked_task k) else rn_results st k)"
proof -
  have "(\<exists>s \<in> set (rn_steps st). step_id s = k \<and> step_state s = Step_pending) \<longleftrightarrow> state_of (rn_steps st) k = Some Step_pending"
  proof
    assume "\<exists>s \<in> set (rn_steps st). step_id s = k \<and> step_state s = Step_pending"
    then show "state_of (rn_steps st) k = Some Step_pending" using state_of_mem [OF assms] by metis
  qed (auto simp: state_of_def dest: by_id_Some)
  then show "erased (rn_steps (block_pending st)) = erased (rn_steps st)"
    "state_of (rn_steps (block_pending st)) k = (case state_of (rn_steps st) k of Some Step_pending \<Rightarrow> Some Step_failed | x \<Rightarrow> x)"
    "rn_results (block_pending st) k = (if state_of (rn_steps st) k = Some Step_pending then Some (blocked_task k) else rn_results st k)"
    using block_pending_fold [of st "rn_steps st" k]
    by (auto simp: block_pending_def Let_def split: option.splits step_status.splits)
qed

lemma validated_run:
  assumes "dispatcher_run client m plan tk now es = Inr (Some fin)"
  obtains st where "validate_plan plan = Inr ()" "plan_ok plan" "dispatch_inv client m plan st" "rn_running st = []" "fin = block_pending st"
proof -
  from assms obtain st where st: "validate_plan plan = Inr ()"
    "run_events client m (plan_task_id plan) (dispatch_start m plan tk now) es = Some st" "rn_running st = []" "fin = block_pending st"
    by (auto simp: dispatcher_run_def split: option.splits if_splits)
  have ok: "plan_ok plan" using st(1) validate_plan_iff by simp
  show thesis by (rule that [OF st(1) ok events_inv [OF st(2) start_inv [OF ok]] st(3,4)])
qed

section \<open>Properties\<close>

text \<open>
  C28. A plan is accepted exactly when all its steps are pending, their identifiers are distinct, every dependency is a step of the
  plan and the dependency graph has no cycle: the recursive search finds a cycle whenever there is one and always ends.
\<close>
theorem validate_plan_exact:
  "validate_plan plan = Inr () \<longleftrightarrow>
     (\<forall>s \<in> set (plan_steps plan). step_state s = Step_pending \<and> set (step_depends_on s) \<subseteq> step_id ` set (plan_steps plan)) \<and>
     distinct (map step_id (plan_steps plan)) \<and>
     acyclic {(step_id s, d) |s d. s \<in> set (plan_steps plan) \<and> d \<in> set (step_depends_on s)}"
proof -
  have "depends (plan_steps plan) = {(step_id s, d) |s d. s \<in> set (plan_steps plan) \<and> d \<in> set (step_depends_on s)}"
    if d: "distinct (map step_id (plan_steps plan))"
    using by_id_distinct [OF d] by (force simp: depends_def dest: by_id_Some)
  then show ?thesis unfolding validate_plan_iff plan_ok_def by (metis (no_types, lifting))
qed

text \<open>
  C29. The outcome of a run does not depend on the scheduling: whenever the events bring all coroutines to an end, every step is
  \<open>succeeded\<close> if it and all steps it depends on have an attempt answered with a completed task, and \<open>failed\<close> otherwise; its result
  is the first completed answer, the failure of the last attempt, or, exactly when a dependency has not succeeded, the
  blocked task; and the aggregated task is completed exactly when every step has succeeded.
\<close>
theorem dispatch_outcome:
  assumes "dispatcher_run client m plan tk now es = Inr (Some fin)" and "s \<in> set (plan_steps plan)"
  shows "state_of (rn_steps fin) (step_id s) =
      Some (if succeeds client m (plan_steps plan) (step_id s) then Step_succeeded else Step_failed) \<and>
    final_result client m (plan_steps plan) (step_id s) (rn_results fin (step_id s)) \<and>
    map step_id (rn_steps fin) = map step_id (plan_steps plan) \<and>
    (task_status (collect (plan_task_id plan) (rn_steps fin) (rn_results fin)) = Completed \<longleftrightarrow>
       (\<forall>t \<in> set (plan_steps plan). succeeds client m (plan_steps plan) (step_id t)))"
proof -
  obtain st where v: "validate_plan plan = Inr ()" and ok: "plan_ok plan" and st: "dispatch_inv client m plan st" "rn_running st = []"
    and fin: "fin = block_pending st" by (rule validated_run [OF assms(1)])
  have e: "erased (rn_steps st) = plan_steps plan" and d: "distinct (map step_id (rn_steps st))"
    using st(1) by (simp_all add: dispatch_inv_def core_inv_def)
  have ids: "map step_id (rn_steps fin) = map step_id (plan_steps plan)"
    unfolding fin by (metis block_pending_state(1) [OF d] e erased_ids)
  have deps: "deps_of (plan_steps plan) = deps_of (rn_steps st)" by (metis e deps_erased)
  have closed: "\<forall>s \<in> set (plan_steps plan). set (step_depends_on s) \<subseteq> step_id ` set (plan_steps plan)" using ok by (simp add: plan_ok_def)
  have suc: "succeeds client m (plan_steps plan) k \<longleftrightarrow> state_of (rn_steps st) k = Some Step_succeeded"
    if "k \<in> step_id ` set (plan_steps plan)" for k
    using that ended_succeeds [OF st] plan_grounded [OF v] closed by blast
  have known: "\<exists>x. state_of (rn_steps st) k = Some x" if "k \<in> step_id ` set (plan_steps plan)" for k
    using that e dom_state_of by (metis domD erased_ids list.set_map)
  have state: "state_of (rn_steps fin) k = Some (if succeeds client m (plan_steps plan) k then Step_succeeded else Step_failed)"
    if k: "k \<in> step_id ` set (plan_steps plan)" for k
  proof -
    obtain x where x: "state_of (rn_steps st) k = Some x" using known [OF k] by blast
    show ?thesis using ended_state [OF st x] x suc [OF k] unfolding fin block_pending_state(2) [OF d] by (cases x) auto
  qed
  have met: "deps_met (rn_steps st) k \<longleftrightarrow> (\<forall>d \<in> set (deps_of (plan_steps plan) k). succeeds client m (plan_steps plan) d)" for k
  proof -
    have "set (deps_of (plan_steps plan) k) \<subseteq> step_id ` set (plan_steps plan)"
      using closed by (cases "by_id (plan_steps plan) k") (auto simp: deps_of_def dest!: by_id_Some)
    then show ?thesis using suc by (auto simp: deps_met_def deps)
  qed
  let ?k = "step_id s"
  have k: "?k \<in> step_id ` set (plan_steps plan)" using assms(2) by simp
  obtain x where x: "state_of (rn_steps st) ?k = Some x" using known [OF k] by blast
  have res: "final_result client m (plan_steps plan) ?k (rn_results fin ?k)"
    using ended_state [OF st x] x met [of ?k] unfolding fin block_pending_state(3) [OF d] by (cases x) (auto simp: final_result_def)
  have dfin: "distinct (map step_id (rn_steps fin))" using ok by (simp add: ids plan_ok_def)
  have "(\<forall>t \<in> set (rn_steps fin). step_state t = Step_succeeded) \<longleftrightarrow>
      (\<forall>k \<in> step_id ` set (rn_steps fin). state_of (rn_steps fin) k = Some Step_succeeded)"
    using state_of_mem [OF dfin] by auto
  also have "step_id ` set (rn_steps fin) = step_id ` set (plan_steps plan)" by (metis ids list.set_map)
  finally show ?thesis using state [OF k] res ids state by (simp add: collect_def list_all_iff)
qed

lemma total_bound:
  assumes "core_inv client m plan st"
  shows "total m st \<le> length (plan_steps plan) * nat (2 * max m 0 + 3)"
proof -
  have "weight m (the (state_of (rn_steps st) k)) (map_of (rn_running st) k) \<le> nat (2 * max m 0 + 3)" if k: "k \<in> step_id ` set (rn_steps st)" for k
  proof -
    obtain x where x: "state_of (rn_steps st) k = Some x" using k dom_state_of by (metis domD)
    then have "phase_ok client m k x (map_of (rn_running st) k) (rn_results st k)" using assms unfolding core_inv_def by blast
    then show ?thesis using x by (cases x) auto
  qed
  then have "total m st \<le> card (step_id ` set (rn_steps st)) * nat (2 * max m 0 + 3)"
    unfolding total_def
    by (intro order_trans [OF sum_bounded_above [where K = "nat (2 * max m 0 + 3)"]]) simp_all
  moreover have "card (step_id ` set (rn_steps st)) \<le> length (plan_steps plan)"
    using assms unfolding core_inv_def by (metis card_length erased_ids length_map list.set_map)
  ultimately show ?thesis by (meson le_trans mult_le_mono1)
qed

lemma run_completes:
  "dispatch_inv client m plan st \<Longrightarrow> \<exists>es st'. run_events client m pid st es = Some st' \<and> rn_running st' = []"
proof (induction "total m st" arbitrary: st rule: less_induct)
  case less
  show ?case
  proof (cases "rn_running st = []")
    case True
    then show ?thesis by (intro exI [of _ "[]"]) simp
  next
    case False
    then obtain e st1 where e: "dispatch_step client m pid st e = Some st1" using enabled by blast
    obtain es st' where "run_events client m pid st1 es = Some st'" "rn_running st' = []"
      using less.hyps [OF step_total [OF less.prems e] dispatch_step_inv [OF less.prems e]] by blast
    then show ?thesis using e by (intro exI [of _ "e # es"]) auto
  qed
qed

lemma run_events_append:
  "run_events client m pid st (es @ es') = (case run_events client m pid st es of None \<Rightarrow> None | Some st' \<Rightarrow> run_events client m pid st' es')"
  by (induction es arbitrary: st) (auto split: option.splits)

text \<open>
  C30. Every run of an accepted plan ends: it has at most \<open>2 m + 3\<close> events per step, while coroutines are left there is an event
  to deliver, and from every point of a run the remaining events lead to its end.
\<close>
theorem dispatch_terminates:
  assumes "validate_plan plan = Inr ()" and "run_events client m (plan_task_id plan) (dispatch_start m plan tk now) es = Some st"
  shows "length es \<le> length (plan_steps plan) * nat (2 * max m 0 + 3) \<and>
    (rn_running st \<noteq> [] \<longrightarrow> (\<exists>e st'. dispatch_step client m (plan_task_id plan) st e = Some st')) \<and>
    (\<exists>es' fin. dispatcher_run client m plan tk now (es @ es') = Inr (Some fin))"
proof -
  have i: "dispatch_inv client m plan (dispatch_start m plan tk now)" using start_inv validate_plan_iff assms(1) by simp
  have st: "dispatch_inv client m plan st" by (rule events_inv [OF assms(2) i])
  have "length es \<le> total m (dispatch_start m plan tk now)" using run_bounded [OF assms(2) i] by simp
  also have "\<dots> \<le> length (plan_steps plan) * nat (2 * max m 0 + 3)" by (rule total_bound [of client]) (use i in \<open>simp add: dispatch_inv_def\<close>)
  finally have "length es \<le> length (plan_steps plan) * nat (2 * max m 0 + 3)" .
  moreover obtain es' st' where "run_events client m (plan_task_id plan) st es' = Some st'" "rn_running st' = []"
    using run_completes [OF st] by blast
  then have "dispatcher_run client m plan tk now (es @ es') = Inr (Some (block_pending st'))"
    using assms by (simp add: dispatcher_run_def run_events_append)
  ultimately show ?thesis using enabled by blast
qed

section \<open>A plan of three steps\<close>

text \<open>The second step fails twice, so the third, which depends on it, is blocked; the first succeeds at its second attempt.\<close>

definition demo_step :: "string \<Rightarrow> string list \<Rightarrow> Step" where
  "demo_step i ds = \<lparr> step_id = u i, step_target = u ''worker'', step_prompt = u ''do'', step_state = Step_pending,
     step_depends_on = map u ds, step_runtime = None \<rparr>"

definition demo_plan :: Plan where
  "demo_plan = \<lparr> plan_task_id = u ''p'', plan_steps = [demo_step ''a'' [], demo_step ''b'' [''a''], demo_step ''c'' [''a'', ''b'']] \<rparr>"

definition demo_agents :: client where
  "demo_agents sid a = (if sid = u ''a'' \<and> a = 2 then Answered (text_task sid Completed [] ''a1'' (u ''ok'')) else Raised (u ''no''))"

definition demo_events :: "event list" where
  "demo_events = [Answer (u ''a'') 1, Retry (u ''a'') 2, Answer (u ''a'') 3, Wake 4, Answer (u ''b'') 5, Retry (u ''b'') 6,
     Answer (u ''b'') 7, Wake 8]"

definition demo_finished :: "pyerr + run_state option \<Rightarrow> bool" where
  "demo_finished r = (case r of Inr (Some fin) \<Rightarrow> True | _ \<Rightarrow> False)"

lemma demo_run: "demo_finished (dispatcher_run demo_agents 2 demo_plan empty_tracker 0 demo_events)"
  by code_simp

lemma demo_plan_valid: "validate_plan demo_plan = Inr ()"
  by code_simp

lemma demo_a_completed: "first_completed demo_agents 2 (u ''a'') = Some 2" "first_completed demo_agents 2 (u ''b'') = None"
  by code_simp+

theorem validate_plan_exact_witness:
  "validate_plan demo_plan = Inr () \<and> distinct (map step_id (plan_steps demo_plan)) \<and>
     acyclic {(step_id s, d) |s d. s \<in> set (plan_steps demo_plan) \<and> d \<in> set (step_depends_on s)}"
  using demo_plan_valid validate_plan_exact [of demo_plan] by blast

theorem dispatch_outcome_witness:
  "\<exists>fin. dispatcher_run demo_agents 2 demo_plan empty_tracker 0 demo_events = Inr (Some fin) \<and>
    state_of (rn_steps fin) (u ''a'') = Some Step_succeeded \<and> state_of (rn_steps fin) (u ''c'') = Some Step_failed \<and>
    task_status (collect (plan_task_id demo_plan) (rn_steps fin) (rn_results fin)) = Failed"
proof -
  obtain fin where fin: "dispatcher_run demo_agents 2 demo_plan empty_tracker 0 demo_events = Inr (Some fin)"
    using demo_run by (auto simp: demo_finished_def split: sum.splits option.splits)
  have m: "demo_step ''a'' [] \<in> set (plan_steps demo_plan)" "demo_step ''c'' [''a'', ''b''] \<in> set (plan_steps demo_plan)"
    by (simp_all add: demo_plan_def)
  have deps: "deps_of (plan_steps demo_plan) (u ''a'') = []" "u ''b'' \<in> set (deps_of (plan_steps demo_plan) (u ''c''))" by code_simp+
  have a: "succeeds demo_agents 2 (plan_steps demo_plan) (u ''a'')" by (rule succeedsI) (simp_all add: deps demo_a_completed)
  have b: "\<not> succeeds demo_agents 2 (plan_steps demo_plan) (u ''b'')" using demo_a_completed(2) by (auto elim: succeeds.cases)
  have c: "\<not> succeeds demo_agents 2 (plan_steps demo_plan) (u ''c'')" using b deps(2) by (auto elim: succeeds.cases)
  have "task_status (collect (plan_task_id demo_plan) (rn_steps fin) (rn_results fin)) \<noteq> Completed"
    using dispatch_outcome [OF fin m(2)] c m(2) by (auto simp: demo_step_def)
  then show ?thesis using fin dispatch_outcome [OF fin m(1)] dispatch_outcome [OF fin m(2)] a c
    by (auto simp: demo_step_def collect_def)
qed

theorem dispatch_terminates_witness:
  "length demo_events \<le> length (plan_steps demo_plan) * 7 \<and>
    (\<exists>es' fin. dispatcher_run demo_agents 2 demo_plan empty_tracker 0 ([Answer (u ''a'') 1] @ es') = Inr (Some fin))"
proof -
  obtain st where st: "run_events demo_agents 2 (plan_task_id demo_plan) (dispatch_start 2 demo_plan empty_tracker 0) demo_events = Some st"
    using demo_run by (auto simp: demo_finished_def dispatcher_run_def split: sum.splits option.splits)
  obtain st1 where "run_events demo_agents 2 (plan_task_id demo_plan) (dispatch_start 2 demo_plan empty_tracker 0) [Answer (u ''a'') 1] = Some st1"
    using st by (auto simp: demo_events_def split: option.splits)
  then show ?thesis using dispatch_terminates [OF demo_plan_valid st] dispatch_terminates [OF demo_plan_valid] by fastforce
qed

end
