(* ===== verification/Claims.thy ===== *)
theory Claims
  imports Models
begin

text \<open>
  Idempotent submission. The agent runtime, the orchestrator's runtime and the MCP bridge each keep a table from task identifiers
  to the digest of the payload they were first used with: a new identifier is claimed and its work started, the same payload
  joins the first submission, a different payload is refused. The locale \<open>claim_table\<close> states what such a component promises
  for one step, and proves what follows for every sequence of steps.

  Also here: \<open>json.dumps\<close> as these components call it. The members of a dictionary are kept in key order, so \<open>sort_keys\<close> is the
  order of the list.
\<close>

section \<open>JSON text of the standard library\<close>

function py_dumps :: "(ustr \<Rightarrow> ustr) \<Rightarrow> json \<Rightarrow> ustr" where
  "py_dumps str JNull = u ''null''"
| "py_dumps str (JBool b) = (if b then u ''true'' else u ''false'')"
| "py_dumps str (JInt n) = str_int n"
| "py_dumps str (JFloat s) = s"
| "py_dumps str (JStr s) = str s"
| "py_dumps str (JArr vs) = 91 # comma_join (map (py_dumps str) vs) @ [93]"
| "py_dumps str (JObj d) = 123 # comma_join (map (\<lambda>kv. str (fst kv) @ 58 # py_dumps str (snd kv)) d) @ [125]"
  by pat_completeness auto
termination
  by (relation "measure (size \<circ> snd)") (auto intro: size_snd_mem simp: size_list_estimation' less_Suc_eq_le)

text \<open>\<open>ensure_ascii=True\<close>: everything outside printable ASCII becomes \<open>\uXXXX\<close>, with a surrogate pair above the basic plane.\<close>

definition hex4_text :: "nat \<Rightarrow> ustr" where
  "hex4_text c = [92, 117, hex_digit (c div 4096 mod 16), hex_digit (c div 256 mod 16), hex_digit (c div 16 mod 16), hex_digit (c mod 16)]"

definition ascii_escape :: "nat \<Rightarrow> ustr" where
  "ascii_escape c = (if c < 127 then escape_char c else concat (map hex4_text (utf16 [c])))"

definition ascii_string :: "ustr \<Rightarrow> ustr" where
  "ascii_string s = 34 # concat (map ascii_escape s) @ [34]"

section \<open>Sequences of steps\<close>

fun run_steps :: "('e \<Rightarrow> 's \<Rightarrow> 's \<times> 'r) \<Rightarrow> 's \<Rightarrow> 'e list \<Rightarrow> 'r list \<times> 's" where
  "run_steps step s [] = ([], s)"
| "run_steps step s (e # es) = (case step e s of (s', r) \<Rightarrow> case run_steps step s' es of (rs, s'') \<Rightarrow> (r # rs, s''))"

lemma run_steps_inv:
  assumes "I s" "\<And>e s. I s \<Longrightarrow> I (fst (step e s))"
  shows "I (snd (run_steps step s es))"
  using assms(1)
proof (induction es arbitrary: s)
  case (Cons e es)
  show ?case using Cons.IH [OF assms(2) [OF Cons.prems], of e] by (simp add: case_prod_beta)
qed simp

lemma run_steps_append:
  "run_steps step s (es @ es') = (case run_steps step s es of (rs, s') \<Rightarrow> case run_steps step s' es' of (rs', s'') \<Rightarrow> (rs @ rs', s''))"
  by (induction es arbitrary: s) (auto split: prod.splits)

definition accepted :: "('r \<Rightarrow> ('k \<times> 'f) option) \<Rightarrow> ('r \<Rightarrow> ('k \<times> 'f) option) \<Rightarrow> 'r \<Rightarrow> ('k \<times> 'f) option" where
  "accepted started joined r = (case started r of None \<Rightarrow> joined r | a \<Rightarrow> a)"

lemma accepted_simps:
  "started r = None \<Longrightarrow> accepted started joined r = joined r" "started r = Some a \<Longrightarrow> accepted started joined r = Some a"
  by (simp_all add: accepted_def)

locale claim_table =
  fixes step :: "'e \<Rightarrow> 's \<Rightarrow> 's \<times> 'r" and inv :: "'s \<Rightarrow> bool" and digest_of :: "'s \<Rightarrow> 'k \<rightharpoonup> 'f"
    and started :: "'r \<Rightarrow> ('k \<times> 'f) option" and joined :: "'r \<Rightarrow> ('k \<times> 'f) option"
  assumes inv_step: "inv s \<Longrightarrow> inv (fst (step e s))"
    and started_new: "inv s \<Longrightarrow> started (snd (step e s)) = Some (k, f) \<Longrightarrow>
      digest_of s k = None \<and> digest_of (fst (step e s)) = (digest_of s)(k \<mapsto> f)"
    and joined_same: "inv s \<Longrightarrow> joined (snd (step e s)) = Some (k, f) \<Longrightarrow> started (snd (step e s)) = None \<Longrightarrow> digest_of s k = Some f"
    and otherwise_kept: "inv s \<Longrightarrow> started (snd (step e s)) = None \<Longrightarrow> digest_of (fst (step e s)) = digest_of s"
begin

lemma digest_kept: "inv s \<Longrightarrow> digest_of s k = Some f \<Longrightarrow> digest_of (fst (step e s)) k = Some f"
  using started_new [of s e] otherwise_kept [of s e] by (cases "started (snd (step e s))") auto

lemma inv_run: "inv s \<Longrightarrow> inv (snd (run_steps step s es))"
  by (rule run_steps_inv) (simp_all add: inv_step)

lemma digest_kept_run: "inv s \<Longrightarrow> digest_of s k = Some f \<Longrightarrow> digest_of (snd (run_steps step s es)) k = Some f"
  by (rule conjunct2 [OF run_steps_inv [where I = "\<lambda>s. inv s \<and> digest_of s k = Some f"]]) (auto simp: inv_step digest_kept)

text \<open>No identifier is started twice, and everything accepted under an identifier has the digest it was started with.\<close>

lemma claims_once:
  "inv s \<Longrightarrow> case run_steps step s es of (rs, s') \<Rightarrow>
     distinct (map fst (List.map_filter started rs)) \<and>
     dom (digest_of s') = dom (digest_of s) \<union> fst ` set (List.map_filter started rs) \<and>
     dom (digest_of s) \<inter> fst ` set (List.map_filter started rs) = {} \<and>
     (\<forall>(k, f) \<in> set (List.map_filter (accepted started joined) rs). digest_of s' k = Some f)"
proof (induction es arbitrary: s)
  case (Cons e es)
  obtain s1 r where e: "step e s = (s1, r)" by fastforce
  obtain rs s' where r: "run_steps step s1 es = (rs, s')" by fastforce
  have i: "inv s1" using inv_step [OF Cons.prems, of e] e by simp
  note ih = Cons.IH [OF i, unfolded r prod.case]
  have keep: "digest_of s1 k = Some f \<Longrightarrow> digest_of s' k = Some f" for k f using digest_kept_run [OF i, of k f es] r by simp
  show ?case
  proof (cases "started r")
    case None
    have "digest_of s1 = digest_of s" using otherwise_kept [OF Cons.prems, of e] e None by simp
    moreover have "digest_of s k = Some f" if "joined r = Some (k, f)" for k f using joined_same [OF Cons.prems, of e] e None that by simp
    ultimately show ?thesis using ih keep None
      by (cases "joined r") (auto simp: e r List.map_filter_simps accepted_simps)
  next
    case (Some kf)
    obtain k f where kf: "kf = (k, f)" by fastforce
    have "digest_of s k = None" "digest_of s1 = (digest_of s)(k \<mapsto> f)" using started_new [OF Cons.prems, of e k f] e Some kf by simp_all
    then show ?thesis using ih keep [of k f] Some kf by (auto simp: e r List.map_filter_simps accepted_simps)
  qed
qed (simp add: List.map_filter_simps)

end

end
