(* ===== verification/Workspace.thy ===== *)
theory Workspace
  imports Claims
begin

text \<open>
  Confinement to a directory and the tool registry: \<open>AgentRuntime._resolve_workdir\<close> (\<open>runtime/agent.py\<close>), the workspace tools
  (\<open>tools/builtin\<close>) and \<open>ToolRegistry\<close> (\<open>tools/registry.py\<close>).

  A path is what \<open>pathlib\<close> makes of a text: whether it is absolute, and its components. What the file system contributes is the
  parameter \<open>fs\<close>: \<open>~\<close> expansion and \<open>Path.resolve\<close>, which follows symbolic links and returns an absolute path (its components).
\<close>

section \<open>Paths\<close>

record pypath =
  pp_absolute :: bool
  pp_parts :: "ustr list"

record filesystem =
  fs_path :: "ustr \<Rightarrow> pypath"          \<comment> \<open>\<open>Path(text)\<close>\<close>
  fs_expanduser :: "pypath \<Rightarrow> pypath"
  fs_resolve :: "pypath \<Rightarrow> ustr list"   \<comment> \<open>the components of the absolute result\<close>

definition parents :: "ustr list \<Rightarrow> ustr list list" where
  "parents p = map (\<lambda>n. take n p) (rev [0..<length p])"

text \<open>\<open>root / candidate\<close> for a candidate that is not absolute.\<close>

definition join_path :: "ustr list \<Rightarrow> pypath \<Rightarrow> pypath" where
  "join_path root p = (if pp_absolute p then p else \<lparr> pp_absolute = True, pp_parts = root @ pp_parts p \<rparr>)"

definition FORBIDDEN :: int where "FORBIDDEN = -32003"
definition UNAVAILABLE :: int where "UNAVAILABLE = -32000"
definition INVALID_PARAMS :: int where "INVALID_PARAMS = -32602"
definition METHOD_NOT_FOUND :: int where "METHOD_NOT_FOUND = -32601"

definition resolve_workdir :: "filesystem \<Rightarrow> ustr option \<Rightarrow> ustr option \<Rightarrow> ustr list option result" where
  "resolve_workdir fs workdir requested = (case workdir of
     None \<Rightarrow> (case requested of
         Some _ \<Rightarrow> Inl (JsonRpcError FORBIDDEN [''remote workdir override requires agent.workdir to be configured''])
       | None \<Rightarrow> Inr None)
   | Some configured \<Rightarrow>
       (let root = fs_resolve fs (fs_expanduser fs (fs_path fs configured));
            candidate = (case requested of
                Some (c # cs) \<Rightarrow> fs_expanduser fs (fs_path fs (c # cs))
              | _ \<Rightarrow> \<lparr> pp_absolute = True, pp_parts = root \<rparr>);
            resolved = fs_resolve fs (join_path root candidate) in
        checked [Check (\<not> (resolved \<noteq> root \<and> root \<notin> set (parents resolved))) (JsonRpcError FORBIDDEN [''workdir is outside configured workspace''])]
        (Inr (Some resolved))))"

section \<open>Sensitive files\<close>

definition SENSITIVE_DIRECTORIES :: "string list" where
  "SENSITIVE_DIRECTORIES = [''.git'', ''.ssh'', ''.aws'', ''.gnupg'', ''.kube'']"

definition SENSITIVE_FILES :: "string list" where
  "SENSITIVE_FILES = [''.env'', ''.git-credentials'', ''.netrc'', ''.npmrc'', ''.pypirc'', ''credentials'', ''credentials.json'',
     ''id_ed25519'', ''id_rsa'', ''secrets.json'']"

text \<open>The patterns have one \<open>*\<close> each: \<open>fnmatch\<close> compares the text before it and the text after it.\<close>

definition SENSITIVE_PATTERNS :: "(string \<times> string) list" where
  "SENSITIVE_PATTERNS = [(''.env.'', ''''), ('''', ''.key''), ('''', ''.pem''), ('''', ''.p12''), ('''', ''.pfx''), ('''', ''.seed''),
     ('''', ''seeds.env'')]"

definition SENSITIVE_BASENAMES :: "string list" where
  "SENSITIVE_BASENAMES = [''apikey'', ''api_key'', ''credential'', ''credentials'', ''passwd'', ''password'', ''passwords'', ''secret'',
     ''secrets'', ''token'', ''tokens'']"

definition fnmatch1 :: "ustr \<Rightarrow> string \<times> string \<Rightarrow> bool" where
  "fnmatch1 name pat = (case pat of (pre, suf) \<Rightarrow> length pre + length suf \<le> length name \<and> take (length pre) name = u pre \<and>
     drop (length name - length suf) name = u suf)"

definition path_name :: "ustr list \<Rightarrow> ustr" where
  "path_name parts = (if parts = [] then [] else last parts)"

text \<open>\<open>lower\<close> is \<open>str.lower\<close>, the full Unicode mapping.\<close>

definition is_sensitive :: "(ustr \<Rightarrow> ustr) \<Rightarrow> ustr list \<Rightarrow> bool" where
  "is_sensitive lower parts \<longleftrightarrow>
     (if \<exists>p \<in> set parts. lower p \<in> u ` set SENSITIVE_DIRECTORIES then True
      else let name = lower (path_name parts); basename = takeWhile (\<lambda>c. c \<noteq> 46) name in
        name \<in> u ` set SENSITIVE_FILES \<or> basename \<in> u ` set SENSITIVE_BASENAMES \<or> list_ex (fnmatch1 name) SENSITIVE_PATTERNS)"

definition workspace_root :: "filesystem \<Rightarrow> ustr option \<Rightarrow> ustr list" where
  "workspace_root fs root = fs_resolve fs (fs_path fs (case root of Some (c # cs) \<Rightarrow> c # cs | _ \<Rightarrow> u ''.''))"

definition relative_to :: "ustr list \<Rightarrow> ustr list \<Rightarrow> ustr list" where
  "relative_to path root = drop (length root) path"

definition workspace_resolve :: "(ustr \<Rightarrow> ustr) \<Rightarrow> filesystem \<Rightarrow> ustr list \<Rightarrow> ustr \<Rightarrow> ustr list result" where
  "workspace_resolve lower fs root v =
     (let resolved = fs_resolve fs (join_path root (fs_path fs v)) in
      checked [Check (\<not> (resolved \<noteq> root \<and> root \<notin> set (parents resolved))) (JsonRpcError FORBIDDEN [''path is outside workspace: '', show_ustr v]),
               Check (\<not> is_sensitive lower (relative_to resolved root)) (JsonRpcError FORBIDDEN [''access to sensitive workspace files is forbidden''])]
      (Inr resolved))"

text \<open>\<open>list_dir\<close>: the entries of the directory, without the sensitive ones, sorted. \<open>listdir\<close> is the file system's answer.\<close>

definition workspace_list :: "(ustr \<Rightarrow> ustr) \<Rightarrow> filesystem \<Rightarrow> ustr list \<Rightarrow> (ustr list \<Rightarrow> ustr list) \<Rightarrow> ustr \<Rightarrow> ustr list result" where
  "workspace_list lower fs root listdir v = bindE (workspace_resolve lower fs root v) (\<lambda>directory.
     Inr (sort (filter (\<lambda>name. \<not> is_sensitive lower (relative_to (directory @ [name]) root)) (listdir directory))))"

section \<open>The tool registry\<close>

datatype risk = Low_risk | Medium_risk | High_risk
datatype tool_source = Builtin_source | Custom_source | Runtime_source | Mcp_source

record 'h Tool =
  tl_name :: ustr
  tl_description :: ustr
  tl_parameters :: dict
  tl_handler :: 'h
  tl_source :: tool_source
  tl_risk :: risk
  tl_public :: bool

text \<open>The registry's dictionary, in insertion order.\<close>

type_synonym 'h registry = "(ustr \<times> 'h Tool) list"

definition register_tool :: "'h registry \<Rightarrow> 'h Tool \<Rightarrow> bool \<Rightarrow> 'h registry result" where
  "register_tool reg t replace =
     checked [Check (\<not> (map_of reg (tl_name t) \<noteq> None \<and> \<not> replace)) (ValueError [''duplicate tool name: '', show_ustr (tl_name t)])]
     (Inr (if map_of reg (tl_name t) = None then reg @ [(tl_name t, t)] else map (\<lambda>(k, x). (k, if k = tl_name t then t else x)) reg))"

text \<open>\<open>AgentRuntime.start\<close> publishes exactly the configured tools.\<close>

definition publish_tools :: "ustr set \<Rightarrow> 'h registry \<Rightarrow> 'h registry" where
  "publish_tools pub reg = map (\<lambda>(k, t). (k, t\<lparr> tl_public := tl_name t \<in> pub \<rparr>)) reg"

text \<open>\<open>jsonschema.validate\<close> is the parameter \<open>valid\<close>; calling a handler is the parameter \<open>invoke\<close>.\<close>

definition call_tool :: "(dict \<Rightarrow> dict \<Rightarrow> bool) \<Rightarrow> ('h \<Rightarrow> dict \<Rightarrow> dict result) \<Rightarrow> 'h registry \<Rightarrow> ustr \<Rightarrow> dict \<Rightarrow> bool \<Rightarrow> dict result" where
  "call_tool valid invoke reg name arguments remote = (case map_of reg name of
     None \<Rightarrow> Inl (JsonRpcError UNAVAILABLE [''tool not found: '', show_ustr name])
   | Some t \<Rightarrow> checked
       [Check (\<not> (remote \<and> \<not> tl_public t)) (JsonRpcError FORBIDDEN [''tool is not public: '', show_ustr name]),
        Check (\<not> (remote \<and> tl_risk t = High_risk)) (JsonRpcError FORBIDDEN [''high-risk tool requires an approval mechanism: '', show_ustr name]),
        Check (valid arguments (tl_parameters t)) (JsonRpcError INVALID_PARAMS [''invalid tool arguments''])]
       (invoke (tl_handler t) arguments))"

section \<open>Confinement\<close>

lemma set_parents: "root \<in> set (parents p) \<longleftrightarrow> (\<exists>rest. rest \<noteq> [] \<and> p = root @ rest)"
proof
  assume "root \<in> set (parents p)"
  then obtain n where "n < length p" "root = take n p" by (auto simp: parents_def)
  then show "\<exists>rest. rest \<noteq> [] \<and> p = root @ rest" by (intro exI [of _ "drop n p"]) simp
next
  assume "\<exists>rest. rest \<noteq> [] \<and> p = root @ rest"
  then obtain rest where "rest \<noteq> []" "p = root @ rest" by blast
  then show "root \<in> set (parents p)" by (auto simp: parents_def intro!: image_eqI [of _ _ "length root"])
qed

lemma confined_iff: "\<not> (p \<noteq> root \<and> root \<notin> set (parents p)) \<longleftrightarrow> (\<exists>rest. p = root @ rest)"
  unfolding set_parents by auto

lemma workspace_resolve_iff:
  "workspace_resolve lower fs root v = Inr p \<longleftrightarrow>
     p = fs_resolve fs (join_path root (fs_path fs v)) \<and> (\<exists>rest. p = root @ rest \<and> \<not> is_sensitive lower rest)"
  by (auto simp: workspace_resolve_def Let_def relative_to_def set_parents)

end
