(* ===== verification/OrchRuntime.thy ===== *)
theory OrchRuntime
  imports OrchestratorProperties Workspace
begin

text \<open>
  The planner and the orchestrator as a peer (\<open>orchestrator/planner.py\<close>, \<open>orchestrator.py\<close>): extraction of the plan from the text an
  LLM returns, the retries of the planner, the orchestration of one request, and the task table of \<open>OrchestratorRuntime\<close>.

  The LLM is the parameter \<open>exec\<close> (prompt to output); reading a plan from JSON text (\<open>json\<close>, \<open>jsonschema\<close> with \<open>schemas/plan.json\<close>,
  pydantic) is the parameter \<open>read_plan\<close>; the wording of the prompts is the parameters \<open>base\<close> and \<open>retry\<close>.
\<close>

section \<open>The planner\<close>

text \<open>\<open>re.sub(r"```(?:json)?|```", "", text)\<close>.\<close>

fun strip_fences :: "ustr \<Rightarrow> ustr" where
  "strip_fences [] = []"
| "strip_fences (c # cs) =
     (if starts_with (u ''```json'') (c # cs) then strip_fences (drop 6 cs)
      else if starts_with (u ''```'') (c # cs) then strip_fences (drop 2 cs)
      else c # strip_fences cs)"

text \<open>From the first opening to the last closing brace; \<open>end <= start\<close> is refused.\<close>

definition extract_json :: "ustr \<Rightarrow> ustr result" where
  "extract_json output =
     (let from_start = dropWhile (\<lambda>c. c \<noteq> 123) (strip_fences output); slice = rev (dropWhile (\<lambda>c. c \<noteq> 125) (rev from_start)) in
      checked [Check (slice \<noteq> []) (ValueError [''no JSON in the output''])] (Inr slice))"

definition validate_output :: "(ustr \<Rightarrow> Plan result) \<Rightarrow> ustr \<Rightarrow> Plan result" where
  "validate_output read_plan output = bindE (extract_json output) read_plan"

fun plan_attempts :: "(ustr \<Rightarrow> ustr result) \<Rightarrow> (ustr \<Rightarrow> Plan result) \<Rightarrow> (pyerr \<Rightarrow> ustr) \<Rightarrow> ustr \<Rightarrow> ustr \<Rightarrow> nat \<Rightarrow> Plan result" where
  "plan_attempts exec read_plan retry base p 0 = Inl (RuntimeError [''planner failed''])"
| "plan_attempts exec read_plan retry base p (Suc n) = bindE (exec p) (\<lambda>output.
     case validate_output read_plan output of
       Inr plan \<Rightarrow> Inr plan
     | Inl e \<Rightarrow> plan_attempts exec read_plan retry base (base @ retry e) n)"

definition planner_plan :: "(ustr \<Rightarrow> ustr result) \<Rightarrow> (ustr \<Rightarrow> Plan result) \<Rightarrow> (pyerr \<Rightarrow> ustr) \<Rightarrow> ustr \<Rightarrow> nat \<Rightarrow> Plan result" where
  "planner_plan exec read_plan retry base max_retries = plan_attempts exec read_plan retry base base max_retries"

lemma dropWhile_to: "x \<notin> set xs \<Longrightarrow> dropWhile (\<lambda>c. c \<noteq> x) (xs @ x # ys) = x # ys"
  by (induction xs) auto

lemma extract_json_iff:
  "extract_json output = Inr t \<longleftrightarrow> (\<exists>before after. strip_fences output = before @ t @ after \<and> 123 \<notin> set before \<and> 125 \<notin> set after \<and>
     t \<noteq> [] \<and> hd t = 123 \<and> last t = 125)"
proof
  let ?x = "strip_fences output"
  let ?b = "takeWhile (\<lambda>c. c \<noteq> 123) ?x" and ?r = "dropWhile (\<lambda>c. c \<noteq> 123) ?x"
  let ?a = "takeWhile (\<lambda>c. c \<noteq> 125) (rev ?r)" and ?d = "dropWhile (\<lambda>c. c \<noteq> 125) (rev ?r)"
  assume "extract_json output = Inr t"
  then have t: "t = rev ?d" "?d \<noteq> []" by (auto simp: extract_json_def Let_def)
  have app: "?r = t @ rev ?a" unfolding t(1) by (metis rev_append rev_rev_ident takeWhile_dropWhile_id)
  have "hd ?r = 123" using t(2) hd_dropWhile [of "\<lambda>c. c \<noteq> 123" ?x] by (cases "?r = []") auto
  then have "hd t = 123" using app t by (metis hd_append2 rev_is_Nil_conv)
  moreover have "last t = 125" using t hd_dropWhile [of "\<lambda>c. c \<noteq> 125" "rev ?r"] by (simp add: last_rev)
  moreover have "?x = ?b @ t @ rev ?a" using app by (metis takeWhile_dropWhile_id)
  ultimately show "\<exists>before after. ?x = before @ t @ after \<and> 123 \<notin> set before \<and> 125 \<notin> set after \<and> t \<noteq> [] \<and> hd t = 123 \<and> last t = 125"
    using t by (intro exI [of _ ?b] exI [of _ "rev ?a"]) (auto dest: set_takeWhileD)
next
  assume "\<exists>before after. strip_fences output = before @ t @ after \<and> 123 \<notin> set before \<and> 125 \<notin> set after \<and> t \<noteq> [] \<and> hd t = 123 \<and> last t = 125"
  then obtain before after where h: "strip_fences output = before @ t @ after" "123 \<notin> set before" "125 \<notin> set after" "t \<noteq> []" "hd t = 123" "last t = 125"
    by blast
  have r: "dropWhile (\<lambda>c. c \<noteq> 123) (strip_fences output) = t @ after"
    unfolding h(1) using h(2,4,5) by (cases t) (auto simp: dropWhile_to)
  obtain t0 where t0: "t = t0 @ [125]" using h(4,6) by (metis append_butlast_last_id)
  have dw: "dropWhile (\<lambda>c. c \<noteq> 125) (rev (t @ after)) = rev t" unfolding t0 using h(3) by (simp add: dropWhile_to)
  show "extract_json output = Inr t" unfolding extract_json_def Let_def r dw using h(4) by simp
qed

text \<open>A plan the planner returns was read from some output.\<close>

lemma planner_plan_read: "planner_plan exec read_plan retry base n = Inr plan \<Longrightarrow> \<exists>p out. exec p = Inr out \<and> validate_output read_plan out = Inr plan"
proof -
  have "\<exists>p out. exec p = Inr out \<and> validate_output read_plan out = Inr plan" if "plan_attempts exec read_plan retry base p n = Inr plan" for p
    using that
  proof (induction n arbitrary: p)
    case (Suc n)
    then obtain out where out: "exec p = Inr out" by auto
    show ?case using Suc out by (cases "validate_output read_plan out") auto
  qed simp
  then show "planner_plan exec read_plan retry base n = Inr plan \<Longrightarrow> ?thesis" by (simp add: planner_plan_def)
qed

section \<open>One orchestration\<close>

definition orchestrate :: "client \<Rightarrow> int \<Rightarrow> Plan result \<Rightarrow> ustr option \<Rightarrow> Tracker \<Rightarrow> int \<Rightarrow> event list \<Rightarrow> Task option result" where
  "orchestrate client m planned tid tk now es = bindE planned (\<lambda>plan0.
     let plan = (case tid of None \<Rightarrow> plan0 | Some t \<Rightarrow> plan0\<lparr> plan_task_id := t \<rparr>) in
     bindE (dispatcher_run client m plan tk now es) (\<lambda>r. Inr (map_option (\<lambda>fin. collect (plan_task_id plan) (rn_steps fin) (rn_results fin)) r)))"

section \<open>The task table of the orchestrator\<close>

text \<open>A future holds nothing, a task or an exception.\<close>

record orch_state =
  os_tasks :: "ustr \<rightharpoonup> Task"
  os_fingerprints :: "ustr \<rightharpoonup> ustr"
  os_futures :: "ustr \<rightharpoonup> Task result option"

definition empty_orch :: orch_state where
  "empty_orch = \<lparr> os_tasks = Map.empty, os_fingerprints = Map.empty, os_futures = Map.empty \<rparr>"

datatype orch_reply = Orch_refused pyerr | Orch_started ustr ustr | Orch_joined ustr ustr "Task result option" | Orch_final Task | Orch_quiet

text \<open>The block under the lock.\<close>

definition orch_claim :: "orch_state \<Rightarrow> ustr \<Rightarrow> ustr \<Rightarrow> Message \<Rightarrow> orch_state \<times> orch_reply" where
  "orch_claim st tid fp msg =
     (if os_fingerprints st tid \<noteq> None \<and> os_fingerprints st tid \<noteq> Some fp then
        (st, Orch_refused (JsonRpcError INVALID_PARAMS [''taskId already exists with different payload'']))
      else case os_futures st tid of
        Some fut \<Rightarrow> (st, Orch_joined tid fp fut)
      | None \<Rightarrow> (st\<lparr> os_futures := (os_futures st)(tid \<mapsto> None), os_fingerprints := (os_fingerprints st)(tid \<mapsto> fp),
          os_tasks := (os_tasks st)(tid \<mapsto> \<lparr> task_id = tid, task_status = Working, task_history = [msg], task_artifacts = [] \<rparr>) \<rparr>,
          Orch_started tid fp))"

definition orch_handle_task :: "orch_state \<Rightarrow> Message \<Rightarrow> ustr option \<Rightarrow> ustr \<Rightarrow> orch_state \<times> orch_reply" where
  "orch_handle_task st msg meta_task_id fresh =
     (case enc_utf8 (concat (text_parts (msg_parts msg))) of
        Inl e \<Rightarrow> (st, Orch_refused e)
      | Inr bytes \<Rightarrow> orch_claim st (case meta_task_id of Some (c # cs) \<Rightarrow> c # cs | _ \<Rightarrow> fresh) (sha256_hex bytes) msg)"

text \<open>The owner's part after \<open>orch.handle\<close> has returned or raised.\<close>

definition orch_end_task :: "orch_state \<Rightarrow> ustr \<Rightarrow> Task result \<Rightarrow> orch_state \<times> orch_reply" where
  "orch_end_task st tid out = (case os_futures st tid of
     Some None \<Rightarrow> (case out of
         Inr t \<Rightarrow> (st\<lparr> os_tasks := (os_tasks st)(tid \<mapsto> t), os_futures := (os_futures st)(tid \<mapsto> Some (Inr t)) \<rparr>, Orch_final t)
       | Inl e \<Rightarrow> (st\<lparr> os_futures := (os_futures st)(tid \<mapsto> Some (Inl e)) \<rparr>, Orch_refused e))
   | _ \<Rightarrow> (st, Orch_quiet))"

definition orch_get_task :: "orch_state \<Rightarrow> ustr \<Rightarrow> orch_reply" where
  "orch_get_task st tid = (case os_tasks st tid of Some t \<Rightarrow> Orch_final t
     | None \<Rightarrow> Orch_refused (JsonRpcError UNAVAILABLE [''task not found: '', show_ustr tid]))"

datatype orch_event = Orch_send Message "ustr option" ustr | Orch_end ustr "Task result" | Orch_get ustr

fun orch_step :: "orch_event \<Rightarrow> orch_state \<Rightarrow> orch_state \<times> orch_reply" where
  "orch_step (Orch_send msg tid fresh) st = orch_handle_task st msg tid fresh"
| "orch_step (Orch_end tid out) st = orch_end_task st tid out"
| "orch_step (Orch_get tid) st = (st, orch_get_task st tid)"

fun orch_claims :: "orch_reply \<Rightarrow> (ustr \<times> ustr) option" where
  "orch_claims (Orch_started tid fp) = Some (tid, fp)"
| "orch_claims r = None"

text \<open>A reply joins when it hands out the future and the payload is that of the claim.\<close>

fun orch_joins :: "orch_reply \<Rightarrow> (ustr \<times> ustr) option" where
  "orch_joins (Orch_joined tid fp fut) = Some (tid, fp)"
| "orch_joins r = None"

text \<open>Futures, fingerprints and tasks are entered together.\<close>

definition orch_inv :: "orch_state \<Rightarrow> bool" where
  "orch_inv st \<longleftrightarrow> dom (os_futures st) = dom (os_fingerprints st) \<and> dom (os_tasks st) = dom (os_fingerprints st)"

lemma empty_orch_inv: "orch_inv empty_orch"
  by (simp add: orch_inv_def empty_orch_def)

lemma orch_known: "orch_inv st \<Longrightarrow> os_futures st tid = None \<longleftrightarrow> os_fingerprints st tid = None" "orch_inv st \<Longrightarrow> os_tasks st tid = None \<longleftrightarrow> os_fingerprints st tid = None"
  unfolding orch_inv_def by (metis domIff)+

lemma orch_claim_inv: "orch_inv st \<Longrightarrow> orch_inv (fst (orch_claim st tid fp msg))"
  by (auto simp: orch_inv_def orch_claim_def split: option.splits)

lemma orch_end_inv: "orch_inv st \<Longrightarrow> orch_inv (fst (orch_end_task st tid out))"
proof -
  assume i: "orch_inv st"
  show ?thesis
  proof (cases "os_futures st tid = Some None")
    case True
    then have "tid \<in> dom (os_fingerprints st)" using orch_known(1) [OF i, of tid] by auto
    then show ?thesis using True i by (auto simp: orch_inv_def orch_end_task_def insert_absorb split: sum.splits)
  next
    case False
    then show ?thesis using i by (auto simp: orch_end_task_def split: option.splits)
  qed
qed

lemma orch_send_cases:
  obtains e where "orch_handle_task st msg t fresh = (st, Orch_refused e)" | tid fp where "orch_handle_task st msg t fresh = orch_claim st tid fp msg"
  by (cases "enc_utf8 (concat (text_parts (msg_parts msg)))") (auto simp: orch_handle_task_def)

lemma orch_step_inv: "orch_inv st \<Longrightarrow> orch_inv (fst (orch_step e st))"
  by (cases e) (auto simp: orch_handle_task_def orch_claim_inv orch_end_inv split: sum.splits)

interpretation orch: claim_table orch_step orch_inv os_fingerprints orch_claims orch_joins
proof (unfold_locales, rule orch_step_inv)
  fix e and s :: orch_state and k f
  assume i: "orch_inv s"
  have c: "(orch_claims (snd (orch_claim s tid fp msg)) = Some (k, f) \<longrightarrow>
        os_fingerprints s k = None \<and> os_fingerprints (fst (orch_claim s tid fp msg)) = (os_fingerprints s)(k \<mapsto> f)) \<and>
      (orch_joins (snd (orch_claim s tid fp msg)) = Some (k, f) \<longrightarrow> os_fingerprints s k = Some f) \<and>
      (orch_claims (snd (orch_claim s tid fp msg)) = None \<longrightarrow> os_fingerprints (fst (orch_claim s tid fp msg)) = os_fingerprints s)" for tid fp msg
    using orch_known(1) [OF i, of tid] by (auto simp: orch_claim_def split: option.splits)
  have e: "orch_claims (snd (orch_end_task s tid out)) = None \<and> orch_joins (snd (orch_end_task s tid out)) = None \<and>
      os_fingerprints (fst (orch_end_task s tid out)) = os_fingerprints s" for tid out
    by (auto simp: orch_end_task_def split: option.splits sum.splits)
  have h: "(orch_claims (snd (orch_handle_task s msg t fr)) = Some (k, f) \<longrightarrow>
        os_fingerprints s k = None \<and> os_fingerprints (fst (orch_handle_task s msg t fr)) = (os_fingerprints s)(k \<mapsto> f)) \<and>
      (orch_joins (snd (orch_handle_task s msg t fr)) = Some (k, f) \<longrightarrow> os_fingerprints s k = Some f) \<and>
      (orch_claims (snd (orch_handle_task s msg t fr)) = None \<longrightarrow> os_fingerprints (fst (orch_handle_task s msg t fr)) = os_fingerprints s)" for msg t fr
    by (rule orch_send_cases [of s msg t fr]) (use c in simp_all)
  have g: "orch_claims (orch_get_task s tid) = None \<and> orch_joins (orch_get_task s tid) = None" for tid
    by (simp add: orch_get_task_def split: option.splits)
  show "os_fingerprints s k = None \<and> os_fingerprints (fst (orch_step e s)) = (os_fingerprints s)(k \<mapsto> f)"
    if "orch_claims (snd (orch_step e s)) = Some (k, f)"
    using that h e g by (cases e) auto
  show "os_fingerprints s k = Some f" if "orch_joins (snd (orch_step e s)) = Some (k, f)"
    using that h e g by (cases e) auto
  show "os_fingerprints (fst (orch_step e s)) = os_fingerprints s" if "orch_claims (snd (orch_step e s)) = None"
    using that h e g by (cases e) auto
qed

section \<open>Properties\<close>

text \<open>
  C38. The orchestrator forgets its failures in \<open>get_task\<close>: when an orchestration raises, the waiting callers get the exception, but
  after any further requests \<open>get_task\<close> still reports the task as \<open>working\<close>, and every resubmission of the same payload gets the
  old exception without a new attempt.
\<close>
theorem orchestrator_failure_stays_working:
  assumes "orch_inv st" and "orch_claim st tid fp msg = (claimed, Orch_started tid fp)"
  shows "let failed = fst (orch_end_task claimed tid (Inl err)); later = snd (run_steps orch_step failed es) in
    orch_get_task later tid = Orch_final \<lparr> task_id = tid, task_status = Working, task_history = [msg], task_artifacts = [] \<rparr> \<and>
    orch_claim later tid fp msg' = (later, Orch_joined tid fp (Some (Inl err)))"
proof -
  let ?w = "\<lparr> task_id = tid, task_status = Working, task_history = [msg], task_artifacts = [] \<rparr>"
  let ?I = "\<lambda>s. orch_inv s \<and> os_fingerprints s tid = Some fp \<and> os_futures s tid = Some (Some (Inl err)) \<and> os_tasks s tid = Some ?w"
  let ?f = "fst (orch_end_task claimed tid (Inl err))"
  have c: "claimed = st\<lparr> os_futures := (os_futures st)(tid \<mapsto> None), os_fingerprints := (os_fingerprints st)(tid \<mapsto> fp), os_tasks := (os_tasks st)(tid \<mapsto> ?w) \<rparr>"
    using assms(2) by (auto simp: orch_claim_def split: if_splits option.splits)
  have "orch_inv claimed" using orch_claim_inv [OF assms(1), of tid fp msg] assms(2) by simp
  then have "orch_inv ?f" by (rule orch_end_inv)
  moreover have "os_fingerprints ?f tid = Some fp \<and> os_futures ?f tid = Some (Some (Inl err)) \<and> os_tasks ?f tid = Some ?w"
    by (simp add: c orch_end_task_def)
  ultimately have start: "?I ?f" by blast
  have keep: "?I (fst (orch_step e s))" if h: "?I s" for e s
  proof -
    have "orch_inv (fst (orch_step e s))" using orch_step_inv h by blast
    moreover have "os_fingerprints (fst (orch_step e s)) tid = Some fp \<and> os_futures (fst (orch_step e s)) tid = Some (Some (Inl err)) \<and>
        os_tasks (fst (orch_step e s)) tid = Some ?w"
      using h by (cases e) (auto simp: orch_handle_task_def orch_claim_def orch_end_task_def split: sum.splits option.splits)
    ultimately show ?thesis by blast
  qed
  have "?I (snd (run_steps orch_step ?f es))" by (rule run_steps_inv [where I = ?I, OF start keep])
  then show ?thesis by (simp add: Let_def orch_get_task_def orch_claim_def)
qed

definition demo_msg :: Message where
  "demo_msg = \<lparr> msg_role = User_Role, msg_parts = [TextPart (u ''plan'')] \<rparr>"

theorem orchestrator_failure_stays_working_witness:
  "orch_get_task (fst (orch_end_task (fst (orch_claim empty_orch (u ''t'') (u ''fp'') demo_msg)) (u ''t'') (Inl KeyError))) (u ''t'') =
     Orch_final \<lparr> task_id = u ''t'', task_status = Working, task_history = [demo_msg], task_artifacts = [] \<rparr>"
proof -
  have "orch_claim empty_orch (u ''t'') (u ''fp'') demo_msg = (fst (orch_claim empty_orch (u ''t'') (u ''fp'') demo_msg), Orch_started (u ''t'') (u ''fp''))"
    by (simp add: orch_claim_def empty_orch_def)
  from orchestrator_failure_stays_working [OF empty_orch_inv this, of KeyError "[]" demo_msg] show ?thesis by (simp add: Let_def)
qed

end
