(* ===== verification/AgentTasks.thy ===== *)
theory AgentTasks
  imports Workspace
begin

text \<open>
  The task table of the agent runtime (\<open>runtime/agent.py\<close>): \<open>handle_task\<close>, \<open>handle_task_stream\<close>, \<open>get_task\<close> and \<open>cancel\<close> over
  the dictionaries of tasks, fingerprints, futures, cancel events and running handlers.

  A handler coroutine meets the event loop only while it waits for the session store, the executor or the network: the lock
  of the task table is never held across such a wait. So a handler is two steps, the part up to the call of the executor
  (\<open>Send\<close>, \<open>Stream\<close>) and the part after it (\<open>Finish\<close>), between which any other steps may come. The executor's answer is part of
  the event. A future is \<open>None\<close> while it is pending. Parsing of the request (pydantic) and the metadata dictionary are a
  \<open>Message\<close> and a record of optional texts.
\<close>

section \<open>State\<close>

record metadata =
  md_runtime :: "ustr option"
  md_workdir :: "ustr option"
  md_task_id :: "ustr option"
  md_session_id :: "ustr option"

record agent_config =
  ag_default_runtime :: ustr
  ag_workdir :: "ustr option"
  ag_adapters :: "ustr list"
  ag_fs :: filesystem

record agent_state =
  at_tasks :: "ustr \<rightharpoonup> Task"
  at_cancels :: "ustr \<rightharpoonup> bool"
  at_inflight :: "ustr \<rightharpoonup> Message"
  at_futures :: "ustr \<rightharpoonup> Task option"
  at_fingerprints :: "ustr \<rightharpoonup> ustr"

definition empty_agent :: agent_state where
  "empty_agent = \<lparr> at_tasks = Map.empty, at_cancels = Map.empty, at_inflight = Map.empty, at_futures = Map.empty,
     at_fingerprints = Map.empty \<rparr>"

text \<open>\<open>a or b\<close> on optional texts.\<close>

definition or_text :: "ustr option \<Rightarrow> ustr \<Rightarrow> ustr" where
  "or_text a b = (case a of Some (c # cs) \<Rightarrow> c # cs | _ \<Rightarrow> b)"

definition opt_text :: "ustr option \<Rightarrow> json" where
  "opt_text a = (case a of None \<Rightarrow> JNull | Some s \<Rightarrow> JStr s)"

definition fingerprint_payload :: "Message \<Rightarrow> metadata \<Rightarrow> json" where
  "fingerprint_payload msg meta = JObj (dict_of
     [(u ''message'', message_dump msg),
      (u ''metadata'', JObj (dict_of [(u ''runtime'', opt_text (md_runtime meta)), (u ''workdir'', opt_text (md_workdir meta)),
         (u ''sessionId'', opt_text (md_session_id meta))]))])"

definition task_fingerprint :: "Message \<Rightarrow> metadata \<Rightarrow> ustr result" where
  "task_fingerprint msg meta = bindE (enc_utf8 (py_dumps jcs_string (fingerprint_payload msg meta))) (\<lambda>canonical. Inr (sha256_hex canonical))"

section \<open>Operations\<close>

text \<open>\<open>_claim_task\<close>: whether the caller owns the task, and the future.\<close>

definition claim_task :: "agent_state \<Rightarrow> ustr \<Rightarrow> ustr \<Rightarrow> Task \<Rightarrow> agent_state \<times> (bool \<times> Task option) result" where
  "claim_task st tid fp current = (case at_fingerprints st tid of
     Some known \<Rightarrow>
       if known \<noteq> fp then (st, Inl (JsonRpcError INVALID_PARAMS [''task id already used with different payload: '', show_ustr tid]))
       else (st, case at_futures st tid of Some fut \<Rightarrow> Inr (False, fut)
         | None \<Rightarrow> (case at_tasks st tid of Some t \<Rightarrow> Inr (False, Some t) | None \<Rightarrow> Inl KeyError))
   | None \<Rightarrow> (st\<lparr> at_fingerprints := (at_fingerprints st)(tid \<mapsto> fp), at_futures := (at_futures st)(tid \<mapsto> None),
        at_tasks := (at_tasks st)(tid \<mapsto> current) \<rparr>, Inr (True, None)))"

text \<open>\<open>_finish_task\<close>: a future is resolved once.\<close>

definition finish_task :: "agent_state \<Rightarrow> ustr \<Rightarrow> Task \<Rightarrow> agent_state" where
  "finish_task st tid final = st\<lparr> at_tasks := (at_tasks st)(tid \<mapsto> final),
     at_futures := (case at_futures st tid of Some None \<Rightarrow> (at_futures st)(tid \<mapsto> Some final) | _ \<Rightarrow> at_futures st) \<rparr>"

datatype reply =
    Refused pyerr
  | Started ustr ustr "ustr list option"      \<comment> \<open>task, fingerprint and working directory: the executor is called\<close>
  | Joined ustr ustr "Task option"            \<comment> \<open>task, fingerprint and the future of the first submission\<close>
  | Orphaned ustr ustr pyerr                  \<comment> \<open>claimed, but the handler raised before it ran\<close>
  | Final Task
  | Cancelling ustr
  | Quiet

datatype outcome = Executed bool ustr | Execution_error | Execution_cancelled

text \<open>The part that \<open>handle_task\<close> and \<open>handle_task_stream\<close> share, up to the claim. \<open>fresh\<close> is \<open>uuid4().hex\<close>.\<close>

definition begin_task :: "agent_config \<Rightarrow> Message \<Rightarrow> metadata \<Rightarrow> ustr \<Rightarrow> (ustr \<times> ustr \<times> ustr list option) result" where
  "begin_task cfg msg meta fresh =
     (let runtime = or_text (md_runtime meta) (ag_default_runtime cfg) in
      checked [Check (runtime \<in> set (ag_adapters cfg)) (JsonRpcError UNAVAILABLE [''runtime not available: '', show_ustr runtime])]
      (bindE (resolve_workdir (ag_fs cfg) (ag_workdir cfg) (md_workdir meta)) (\<lambda>workdir.
       bindE (task_fingerprint msg meta) (\<lambda>fp. Inr (or_text (md_task_id meta) fresh, fp, workdir)))))"

definition working_task :: "ustr \<Rightarrow> Message \<Rightarrow> Task" where
  "working_task tid msg = \<lparr> task_id = tid, task_status = Working, task_history = [msg], task_artifacts = [] \<rparr>"

definition own_task :: "agent_state \<Rightarrow> ustr \<Rightarrow> Message \<Rightarrow> agent_state" where
  "own_task st tid msg = st\<lparr> at_cancels := (at_cancels st)(tid \<mapsto> False), at_inflight := (at_inflight st)(tid \<mapsto> msg) \<rparr>"

definition handle_task :: "agent_config \<Rightarrow> agent_state \<Rightarrow> Message \<Rightarrow> metadata \<Rightarrow> ustr \<Rightarrow> agent_state \<times> reply" where
  "handle_task cfg st msg meta fresh = (case begin_task cfg msg meta fresh of
     Inl e \<Rightarrow> (st, Refused e)
   | Inr (tid, fp, workdir) \<Rightarrow> (case claim_task st tid fp (working_task tid msg) of
       (st', Inl e) \<Rightarrow> (st', Refused e)
     | (st', Inr (True, _)) \<Rightarrow> (own_task st' tid msg, Started tid fp workdir)
     | (st', Inr (False, fut)) \<Rightarrow> (st', Joined tid fp fut)))"

text \<open>The streaming handler first announces the task on the reply subject; \<open>emit\<close> says whether that publish succeeds.\<close>

definition handle_task_stream :: "agent_config \<Rightarrow> agent_state \<Rightarrow> Message \<Rightarrow> metadata \<Rightarrow> ustr \<Rightarrow> unit result \<Rightarrow> agent_state \<times> reply" where
  "handle_task_stream cfg st msg meta fresh emit = (case begin_task cfg msg meta fresh of
     Inl e \<Rightarrow> (st, Refused e)
   | Inr (tid, fp, workdir) \<Rightarrow> (case claim_task st tid fp (working_task tid msg) of
       (st', Inl e) \<Rightarrow> (st', Refused e)
     | (st', Inr (owner, fut)) \<Rightarrow> (case emit of
         Inl e \<Rightarrow> (st', if owner then Orphaned tid fp e else Refused e)
       | Inr _ \<Rightarrow> if owner then (own_task st' tid msg, Started tid fp workdir) else (st', Joined tid fp fut))))"

text \<open>The part of both handlers after the executor: the final task, the \<open>finally\<close> block and \<open>_finish_task\<close>.\<close>

definition final_task :: "ustr \<Rightarrow> Message \<Rightarrow> bool \<Rightarrow> outcome \<Rightarrow> Task" where
  "final_task tid msg cancel_set out = (case out of
     Executed ok output \<Rightarrow> text_task tid (if cancel_set \<or> output = u ''canceled'' then Canceled else if ok then Completed else Failed) [msg] ''a1'' output
   | Execution_error \<Rightarrow> text_task tid Failed [msg] ''a1'' (u ''task execution failed'')
   | Execution_cancelled \<Rightarrow> text_task tid Canceled [msg] ''a1'' (u ''canceled''))"

definition end_task :: "agent_state \<Rightarrow> ustr \<Rightarrow> outcome \<Rightarrow> agent_state \<times> reply" where
  "end_task st tid out = (case at_inflight st tid of
     None \<Rightarrow> (st, Quiet)
   | Some msg \<Rightarrow> (let final = final_task tid msg (at_cancels st tid = Some True) out in
       (finish_task (st\<lparr> at_cancels := (at_cancels st)(tid := None), at_inflight := (at_inflight st)(tid := None) \<rparr>) tid final, Final final)))"

definition get_task :: "agent_state \<Rightarrow> ustr \<Rightarrow> reply" where
  "get_task st tid = (case at_tasks st tid of Some t \<Rightarrow> Final t
     | None \<Rightarrow> Refused (JsonRpcError UNAVAILABLE [''task not found: '', show_ustr tid]))"

text \<open>\<open>cancel\<close> up to the wait for the future.\<close>

definition cancel_task :: "agent_state \<Rightarrow> ustr \<Rightarrow> agent_state \<times> reply" where
  "cancel_task st tid = (case (at_cancels st tid, at_tasks st tid, at_futures st tid) of
     (Some _, Some t, Some _) \<Rightarrow>
       if task_status t = Working then (st\<lparr> at_cancels := (at_cancels st)(tid \<mapsto> True) \<rparr>, Cancelling tid)
       else (st, Refused (JsonRpcError UNAVAILABLE [''task not cancelable: '', show_ustr tid]))
   | _ \<Rightarrow> (st, Refused (JsonRpcError UNAVAILABLE [''task not cancelable: '', show_ustr tid])))"

datatype agent_event = Send Message metadata ustr | Stream Message metadata ustr "unit result" | Finish ustr outcome | Cancel ustr | Get ustr

fun agent_step :: "agent_config \<Rightarrow> agent_event \<Rightarrow> agent_state \<Rightarrow> agent_state \<times> reply" where
  "agent_step cfg (Send msg meta fresh) st = handle_task cfg st msg meta fresh"
| "agent_step cfg (Stream msg meta fresh emit) st = handle_task_stream cfg st msg meta fresh emit"
| "agent_step cfg (Finish tid out) st = end_task st tid out"
| "agent_step cfg (Cancel tid) st = cancel_task st tid"
| "agent_step cfg (Get tid) st = (st, get_task st tid)"

section \<open>The table is a claim table\<close>

text \<open>A reply that has claimed the identifier, and one that has found it claimed with the same payload.\<close>

fun reply_claims :: "reply \<Rightarrow> (ustr \<times> ustr) option" where
  "reply_claims (Started tid fp w) = Some (tid, fp)"
| "reply_claims (Orphaned tid fp e) = Some (tid, fp)"
| "reply_claims r = None"

fun reply_joins :: "reply \<Rightarrow> (ustr \<times> ustr) option" where
  "reply_joins (Joined tid fp fut) = Some (tid, fp)"
| "reply_joins r = None"

lemmas agent_defs = handle_task_def handle_task_stream_def claim_task_def own_task_def end_task_def finish_task_def cancel_task_def get_task_def

interpretation agent: claim_table "agent_step cfg" "\<lambda>_. True" at_fingerprints reply_claims reply_joins
proof (unfold_locales, rule TrueI)
  fix e s k f
  show "at_fingerprints s k = None \<and> at_fingerprints (fst (agent_step cfg e s)) = (at_fingerprints s)(k \<mapsto> f)"
    if "reply_claims (snd (agent_step cfg e s)) = Some (k, f)"
    using that by (cases e) (auto simp: agent_defs Let_def split: sum.splits option.splits prod.splits if_splits bool.splits)
  show "at_fingerprints s k = Some f" if "reply_joins (snd (agent_step cfg e s)) = Some (k, f)" "reply_claims (snd (agent_step cfg e s)) = None"
    using that by (cases e) (auto simp: agent_defs Let_def split: sum.splits option.splits prod.splits if_splits bool.splits)
  show "at_fingerprints (fst (agent_step cfg e s)) = at_fingerprints s" if "reply_claims (snd (agent_step cfg e s)) = None"
    using that by (cases e) (auto simp: agent_defs Let_def split: sum.splits option.splits prod.splits if_splits bool.splits)
qed

end
