(* ===== verification/RuntimeProperties.thy ===== *)
theory RuntimeProperties
  imports AgentTasks
begin

text \<open>
  Properties of the agent runtime: the invariant of its task table, that an identifier is executed at most once and its final task
  never changes, what cancellation guarantees, and that remote callers are confined to the workspace and the public tools.
\<close>

section \<open>The invariant of the task table\<close>

text \<open>What the five dictionaries hold for one identifier.\<close>

definition entry_ok :: "ustr \<Rightarrow> ustr option \<Rightarrow> Task option \<Rightarrow> Task option option \<Rightarrow> bool option \<Rightarrow> Message option \<Rightarrow> bool" where
  "entry_ok tid fp task fut cancel msg \<longleftrightarrow> (case task of
     None \<Rightarrow> fp = None \<and> fut = None \<and> cancel = None \<and> msg = None
   | Some t \<Rightarrow> fp \<noteq> None \<and> task_id t = tid \<and> (cancel = None \<longleftrightarrow> msg = None) \<and>
       (fut = Some None \<and> task_status t = Working \<and> (\<forall>m. msg = Some m \<longrightarrow> task_history t = [m]) \<or>
        fut = Some (Some t) \<and> task_status t \<in> {Completed, Failed, Canceled} \<and> msg = None))"

definition entry_of :: "agent_state \<Rightarrow> ustr \<Rightarrow> bool" where
  "entry_of st tid \<longleftrightarrow> entry_ok tid (at_fingerprints st tid) (at_tasks st tid) (at_futures st tid) (at_cancels st tid) (at_inflight st tid)"

definition agent_inv :: "agent_state \<Rightarrow> bool" where
  "agent_inv st \<longleftrightarrow> (\<forall>tid. entry_of st tid)"

lemma empty_agent_inv: "agent_inv empty_agent"
  by (simp add: agent_inv_def entry_of_def entry_ok_def empty_agent_def)

lemma agent_entry: "agent_inv st \<Longrightarrow> entry_of st tid"
  by (simp add: agent_inv_def)

text \<open>A step that touches one identifier.\<close>

lemma agent_inv_update:
  assumes "agent_inv st" "entry_of st' tid"
    and "\<And>k. k \<noteq> tid \<Longrightarrow> at_fingerprints st' k = at_fingerprints st k \<and> at_tasks st' k = at_tasks st k \<and> at_futures st' k = at_futures st k \<and>
      at_cancels st' k = at_cancels st k \<and> at_inflight st' k = at_inflight st k"
  shows "agent_inv st'"
  unfolding agent_inv_def
proof
  fix k
  show "entry_of st' k" by (cases "k = tid") (use assms in \<open>auto simp: agent_inv_def entry_of_def\<close>)
qed

lemmas entry_defs = entry_of_def entry_ok_def

lemma future_known:
  assumes "agent_inv st" "at_futures st tid = Some fut"
  shows "\<exists>t. at_tasks st tid = Some t \<and> (fut = None \<and> task_status t = Working \<or> fut = Some t \<and> task_status t \<noteq> Working)"
  using agent_entry [OF assms(1), of tid] assms(2) by (auto simp: entry_defs split: option.splits)

lemma final_task_sel [simp]: "task_id (final_task tid msg c out) = tid" "task_status (final_task tid msg c out) \<in> {Completed, Failed, Canceled}"
  by (auto simp: final_task_def split: outcome.splits)

lemma claim_inv:
  assumes "agent_inv st" "claim_task st tid fp (working_task tid msg) = (st', r)"
  shows "agent_inv st' \<and> (r = Inr (True, None) \<longrightarrow> agent_inv (own_task st' tid msg))"
proof (cases "at_fingerprints st tid")
  case None
  have e: "entry_of st tid" by (rule agent_entry [OF assms(1)])
  have "agent_inv st'"
    by (rule agent_inv_update [OF assms(1), of _ tid])
      (use e None assms(2) in \<open>auto simp: entry_defs claim_task_def working_task_def split: option.splits\<close>)
  moreover have "agent_inv (own_task st' tid msg)"
    by (rule agent_inv_update [OF assms(1), of _ tid])
      (use e None assms(2) in \<open>auto simp: entry_defs claim_task_def working_task_def own_task_def split: option.splits\<close>)
  ultimately show ?thesis by simp
next
  case (Some known)
  then have "st' = st \<and> r \<noteq> Inr (True, None)" using assms(2) by (auto simp: claim_task_def split: if_splits option.splits)
  then show ?thesis using assms(1) by simp
qed

lemma owner_future: "claim_task st tid fp current = (st', Inr (True, fut)) \<Longrightarrow> fut = None"
  by (auto simp: claim_task_def split: if_splits option.splits)

lemma end_inv:
  assumes "agent_inv st"
  shows "agent_inv (fst (end_task st tid out))"
proof (cases "at_inflight st tid")
  case (Some msg)
  show ?thesis
    by (rule agent_inv_update [OF assms, of _ tid])
      (use agent_entry [OF assms, of tid] Some final_task_sel [of tid msg "at_cancels st tid = Some True" out] in
        \<open>auto simp: entry_defs end_task_def finish_task_def Let_def split: option.splits\<close>)
qed (use assms in \<open>simp add: end_task_def\<close>)

lemma cancel_inv:
  assumes "agent_inv st"
  shows "agent_inv (fst (cancel_task st tid))"
  by (rule agent_inv_update [OF assms, of _ tid])
    (use agent_entry [OF assms, of tid] in \<open>auto simp: entry_defs cancel_task_def split: option.splits\<close>)

lemma agent_step_inv:
  assumes "agent_inv st"
  shows "agent_inv (fst (agent_step cfg e st))"
proof (cases e)
  case (Send msg meta fresh)
  show ?thesis unfolding Send
    by (auto simp: handle_task_def assms dest: claim_inv [OF assms] owner_future split: sum.splits prod.splits bool.splits)
next
  case (Stream msg meta fresh em)
  show ?thesis unfolding Stream
    by (auto simp: handle_task_stream_def assms dest: claim_inv [OF assms] owner_future split: sum.splits prod.splits)
qed (use assms end_inv cancel_inv in simp_all)

lemma agent_run_inv: "agent_inv st \<Longrightarrow> agent_inv (snd (run_steps (agent_step cfg) st es))"
  by (rule run_steps_inv) (simp_all add: agent_step_inv)

text \<open>A resolved future, and with it the task, is never touched again.\<close>

lemma final_kept:
  assumes "agent_inv st" "at_futures st tid = Some (Some t)"
  shows "at_futures (fst (agent_step cfg e st)) tid = Some (Some t)"
proof -
  have "at_inflight st tid = None" "at_fingerprints st tid \<noteq> None"
    using agent_entry [OF assms(1), of tid] assms(2) by (auto simp: entry_defs split: option.splits)
  then show ?thesis using assms(2)
    by (cases e) (auto simp: agent_defs Let_def split: sum.splits option.splits prod.splits if_splits bool.splits)
qed

lemma final_kept_run:
  assumes "agent_inv st" "at_futures st tid = Some (Some t)"
  shows "at_futures (snd (run_steps (agent_step cfg) st es)) tid = Some (Some t)"
  by (rule conjunct2 [OF run_steps_inv [where I = "\<lambda>s. agent_inv s \<and> at_futures s tid = Some (Some t)"]])
    (use assms in \<open>auto intro: agent_step_inv final_kept\<close>)

text \<open>A cancel request survives every step but the end of its task.\<close>

lemma cancel_kept:
  assumes "at_cancels st tid = Some True" "at_inflight st tid = Some msg" "at_fingerprints st tid \<noteq> None" "\<forall>out. e \<noteq> Finish tid out"
  shows "at_cancels (fst (agent_step cfg e st)) tid = Some True \<and> at_inflight (fst (agent_step cfg e st)) tid = Some msg \<and>
    at_fingerprints (fst (agent_step cfg e st)) tid \<noteq> None"
  using assms by (cases e) (auto simp: agent_defs Let_def split: sum.splits option.splits prod.splits if_splits bool.splits)

lemma cancel_kept_run:
  "at_cancels st tid = Some True \<Longrightarrow> at_inflight st tid = Some msg \<Longrightarrow> at_fingerprints st tid \<noteq> None \<Longrightarrow>
    \<forall>out. Finish tid out \<notin> set es \<Longrightarrow>
    at_cancels (snd (run_steps (agent_step cfg) st es)) tid = Some True \<and> at_inflight (snd (run_steps (agent_step cfg) st es)) tid = Some msg"
proof (induction es arbitrary: st)
  case (Cons e es)
  have "\<forall>out. e \<noteq> Finish tid out" using Cons.prems(4) by auto
  note k = cancel_kept [OF Cons.prems(1-3) this, of cfg]
  then show ?case using Cons.IH [of "fst (agent_step cfg e st)"] Cons.prems(4) by (simp add: case_prod_beta)
qed simp

text \<open>A claimed identifier without a running handler stays as it is.\<close>

definition orphan :: "ustr \<Rightarrow> Task \<Rightarrow> agent_state \<Rightarrow> bool" where
  "orphan tid t st \<longleftrightarrow> at_tasks st tid = Some t \<and> at_futures st tid = Some None \<and> at_inflight st tid = None \<and> at_cancels st tid = None \<and>
     at_fingerprints st tid \<noteq> None"

lemma orphan_kept: "orphan tid t st \<Longrightarrow> orphan tid t (fst (agent_step cfg e st))"
  by (cases e) (auto simp: orphan_def agent_defs Let_def split: sum.splits option.splits prod.splits if_splits bool.splits)

section \<open>Properties\<close>

text \<open>
  C31. A task identifier is executed at most once: in every sequence of requests, completions and cancellations the handlers that
  claim an identifier claim different ones, the known tasks are exactly the claimed ones, every request accepted under an
  identifier has the payload fingerprint it was claimed with, and the task table keeps its invariant.
\<close>
theorem agent_runs_once:
  "case run_steps (agent_step cfg) empty_agent es of (rs, st) \<Rightarrow>
     distinct (map fst (List.map_filter reply_claims rs)) \<and> dom (at_tasks st) = fst ` set (List.map_filter reply_claims rs) \<and>
     (\<forall>(tid, fp) \<in> set (List.map_filter (accepted reply_claims reply_joins) rs). at_fingerprints st tid = Some fp) \<and> agent_inv st"
proof -
  obtain rs st where r: "run_steps (agent_step cfg) empty_agent es = (rs, st)" by fastforce
  have inv: "agent_inv st" using agent_run_inv [OF empty_agent_inv, of cfg es] r by simp
  have "(at_fingerprints st k = None) = (at_tasks st k = None)" for k using agent_entry [OF inv, of k] by (auto simp: entry_defs split: option.splits)
  then have "dom (at_tasks st) = dom (at_fingerprints st)" by (auto simp: dom_def)
  moreover have "at_fingerprints empty_agent = Map.empty" by (simp add: empty_agent_def)
  ultimately show ?thesis using agent.claims_once [OF TrueI, of empty_agent cfg es] inv by (simp add: r)
qed

text \<open>
  A final task is final: once the future of a task is resolved, then after any further steps \<open>get_task\<close> returns that task, it is
  not \<open>working\<close>, and a request with the same identifier gets it without running anything if its payload is the same, and
  is refused otherwise.
\<close>
theorem agent_final_stable:
  assumes "agent_inv st" and "at_futures st tid = Some (Some t)" and "at_fingerprints st tid = Some known"
    and "begin_task cfg msg meta fresh = Inr (tid, fp, workdir)"
  shows "let later = snd (run_steps (agent_step cfg) st es) in
    get_task later tid = Final t \<and> task_status t \<noteq> Working \<and>
    handle_task cfg later msg meta fresh = (later, if fp = known then Joined tid fp (Some t)
      else Refused (JsonRpcError INVALID_PARAMS [''task id already used with different payload: '', show_ustr tid]))"
proof -
  let ?s = "snd (run_steps (agent_step cfg) st es)"
  have i: "agent_inv ?s" and f: "at_futures ?s tid = Some (Some t)" by (rule agent_run_inv [OF assms(1)], rule final_kept_run [OF assms(1,2)])
  have k: "at_fingerprints ?s tid = Some known" by (rule agent.digest_kept_run [OF TrueI assms(3)])
  have "at_tasks ?s tid = Some t" "task_status t \<noteq> Working" using future_known [OF i f] by auto
  then show ?thesis using f k assms(4) by (auto simp: Let_def get_task_def handle_task_def claim_task_def)
qed

text \<open>
  C32. Cancellation is honoured: a cancel request is accepted exactly while a handler of the task is running, and after an accepted
  request, whatever happens in between, a result of the executor makes the task \<open>canceled\<close>, even a successful one.
\<close>
theorem agent_cancel_exact:
  assumes "agent_inv st"
  shows "(snd (cancel_task st tid) = Cancelling tid \<longleftrightarrow> at_inflight st tid \<noteq> None) \<and>
    (at_inflight st tid \<noteq> None \<and> (\<forall>out. Finish tid out \<notin> set es) \<longrightarrow>
      (\<exists>t. snd (agent_step cfg (Finish tid (Executed ok output)) (snd (run_steps (agent_step cfg) (fst (cancel_task st tid)) es))) = Final t \<and>
         task_status t = Canceled))"
proof (intro conjI impI)
  show one: "snd (cancel_task st tid) = Cancelling tid \<longleftrightarrow> at_inflight st tid \<noteq> None"
    using agent_entry [OF assms, of tid] by (auto simp: entry_defs cancel_task_def split: option.splits)
  assume run: "at_inflight st tid \<noteq> None \<and> (\<forall>out. Finish tid out \<notin> set es)"
  then obtain msg where msg: "at_inflight st tid = Some msg" by auto
  let ?st = "fst (cancel_task st tid)"
  have "at_cancels ?st tid = Some True" "at_inflight ?st tid = Some msg" "at_fingerprints ?st tid \<noteq> None"
    using agent_entry [OF assms, of tid] msg by (auto simp: entry_defs cancel_task_def split: option.splits)
  from cancel_kept_run [OF this, of es cfg] run show "\<exists>t. snd (agent_step cfg (Finish tid (Executed ok output))
      (snd (run_steps (agent_step cfg) ?st es))) = Final t \<and> task_status t = Canceled"
    by (simp add: end_task_def final_task_def Let_def)
qed

text \<open>
  C33. A streaming request whose first event cannot be published leaves its task behind for good: the identifier is claimed and the
  task is \<open>working\<close>, but no handler runs, so after any further steps the future is still pending, the task cannot be cancelled
  and nothing ends it; every later submission of the same request waits for that future.
\<close>
theorem stream_orphans_task:
  assumes "agent_inv st" and "agent_step cfg (Stream msg meta fresh (Inl err)) st = (claimed, Orphaned tid fp err)"
  shows "let later = snd (run_steps (agent_step cfg) claimed es) in
    get_task later tid = Final (working_task tid msg) \<and> at_futures later tid = Some None \<and> (\<exists>e. cancel_task later tid = (later, Refused e)) \<and>
    (\<forall>out. end_task later tid out = (later, Quiet)) \<and>
    (\<forall>fresh' workdir. begin_task cfg msg meta fresh' = Inr (tid, fp, workdir) \<longrightarrow> handle_task cfg later msg meta fresh' = (later, Joined tid fp None))"
proof -
  obtain wd where b: "begin_task cfg msg meta fresh = Inr (tid, fp, wd)"
    and c: "claim_task st tid fp (working_task tid msg) = (claimed, Inr (True, None))"
    using assms(2) by (auto simp: handle_task_stream_def dest: owner_future split: sum.splits prod.splits if_splits)
  have new: "at_fingerprints st tid = None" using c by (auto simp: claim_task_def split: option.splits if_splits)
  have "at_inflight st tid = None" "at_cancels st tid = None" using agent_entry [OF assms(1), of tid] new by (auto simp: entry_defs split: option.splits)
  then have o: "orphan tid (working_task tid msg) claimed" and f: "at_fingerprints claimed tid = Some fp"
    using c new by (auto simp: claim_task_def orphan_def)
  let ?s = "snd (run_steps (agent_step cfg) claimed es)"
  have "orphan tid (working_task tid msg) ?s" by (rule run_steps_inv [where I = "orphan tid (working_task tid msg)"]) (auto intro: o orphan_kept)
  moreover have "at_fingerprints ?s tid = Some fp" by (rule agent.digest_kept_run [OF TrueI f])
  ultimately show ?thesis by (auto simp: Let_def orphan_def get_task_def cancel_task_def end_task_def handle_task_def claim_task_def)
qed

text \<open>
  Remote tool calls reach exactly the published tools: after the runtime has published the configured names, a remote call
  returns a result exactly if the tool exists, is configured as public, is not high-risk and the arguments satisfy its
  schema, and then it is the handler's result.
\<close>
theorem remote_tool_exact:
  "call_tool valid invoke (publish_tools pub reg) name arguments True = Inr r \<longleftrightarrow>
     (\<exists>t. map_of reg name = Some t \<and> tl_name t \<in> pub \<and> tl_risk t \<noteq> High_risk \<and> valid arguments (tl_parameters t) \<and>
        invoke (tl_handler t) arguments = Inr r)"
proof -
  have "map_of (publish_tools pub reg) name = map_option (\<lambda>t. t\<lparr> tl_public := tl_name t \<in> pub \<rparr>) (map_of reg name)"
    unfolding publish_tools_def by (induction reg) auto
  then show ?thesis by (auto simp: call_tool_def split: option.splits)
qed

text \<open>
  C34. Remote paths are confined: without a configured directory no working directory is accepted, and otherwise a request is accepted
  exactly if the configured directory is a prefix of the resolved one, which is the one used; a tool path is accepted exactly if it resolves into the workspace to a path without sensitive components; and a listing
  shows exactly the entries of such a directory that are not sensitive, in order.
\<close>
theorem workspace_confined:
  "resolve_workdir fs None requested \<noteq> Inr (Some p) \<and>
   (let home = fs_resolve fs (fs_expanduser fs (fs_path fs w)) in
      resolve_workdir fs (Some w) requested = Inr (Some p) \<longleftrightarrow>
        p = fs_resolve fs (case requested of Some (c # cs) \<Rightarrow> join_path home (fs_expanduser fs (fs_path fs (c # cs)))
              | _ \<Rightarrow> \<lparr> pp_absolute = True, pp_parts = home \<rparr>) \<and> (\<exists>rest. p = home @ rest)) \<and>
   (workspace_resolve lower fs root v = Inr q \<longleftrightarrow>
      q = fs_resolve fs (join_path root (fs_path fs v)) \<and> (\<exists>rest. q = root @ rest \<and> \<not> is_sensitive lower rest)) \<and>
   (workspace_list lower fs root listdir v = Inr names \<longrightarrow> sorted names \<and>
      (\<exists>rest. workspace_resolve lower fs root v = Inr (root @ rest) \<and>
         set names = {n \<in> set (listdir (root @ rest)). \<not> is_sensitive lower (rest @ [n])}))"
proof (intro conjI impI workspace_resolve_iff)
  show "resolve_workdir fs None requested \<noteq> Inr (Some p)" by (simp add: resolve_workdir_def split: option.splits)
  let ?home = "fs_resolve fs (fs_expanduser fs (fs_path fs w))"
  let ?to = "case requested of Some (c # cs) \<Rightarrow> join_path ?home (fs_expanduser fs (fs_path fs (c # cs))) | _ \<Rightarrow> \<lparr> pp_absolute = True, pp_parts = ?home \<rparr>"
  have "resolve_workdir fs (Some w) requested = checked
      [Check (\<not> (fs_resolve fs ?to \<noteq> ?home \<and> ?home \<notin> set (parents (fs_resolve fs ?to)))) (JsonRpcError FORBIDDEN [''workdir is outside configured workspace''])]
      (Inr (Some (fs_resolve fs ?to)))"
    by (simp add: resolve_workdir_def Let_def join_path_def split: option.splits list.splits)
  then have "resolve_workdir fs (Some w) requested = Inr (Some p) \<longleftrightarrow> p = fs_resolve fs ?to \<and> (\<exists>rest. p = ?home @ rest)"
    using confined_iff [of "fs_resolve fs ?to" ?home] by auto
  then show "let home = ?home in resolve_workdir fs (Some w) requested = Inr (Some p) \<longleftrightarrow>
      p = fs_resolve fs (case requested of Some (c # cs) \<Rightarrow> join_path home (fs_expanduser fs (fs_path fs (c # cs)))
            | _ \<Rightarrow> \<lparr> pp_absolute = True, pp_parts = home \<rparr>) \<and> (\<exists>rest. p = home @ rest)"
    unfolding Let_def .
next
  assume l: "workspace_list lower fs root listdir v = Inr names"
  then show "sorted names" by (auto simp: workspace_list_def)
  from l show "\<exists>rest. workspace_resolve lower fs root v = Inr (root @ rest) \<and>
      set names = {n \<in> set (listdir (root @ rest)). \<not> is_sensitive lower (rest @ [n])}"
    by (auto simp: workspace_list_def workspace_resolve_iff relative_to_def)
qed

section \<open>Witnesses\<close>

definition demo_fs :: filesystem where
  "demo_fs = \<lparr> fs_path = (\<lambda>t. \<lparr> pp_absolute = False, pp_parts = [t] \<rparr>), fs_expanduser = id, fs_resolve = pp_parts \<rparr>"

definition demo_cfg :: agent_config where
  "demo_cfg = \<lparr> ag_default_runtime = u ''hermes'', ag_workdir = None, ag_adapters = [u ''hermes''], ag_fs = demo_fs \<rparr>"

definition demo_message :: "string \<Rightarrow> Message" where
  "demo_message t = \<lparr> msg_role = User_Role, msg_parts = [TextPart (u t)] \<rparr>"

definition demo_meta :: metadata where
  "demo_meta = \<lparr> md_runtime = None, md_workdir = None, md_task_id = Some (u ''t1''), md_session_id = None \<rparr>"

definition demo_fp :: "string \<Rightarrow> ustr" where
  "demo_fp t = (case enc_utf8 (py_dumps jcs_string (fingerprint_payload (demo_message t) demo_meta)) of Inr bs \<Rightarrow> sha256_hex bs | Inl _ \<Rightarrow> [])"

lemma demo_begin: "begin_task demo_cfg (demo_message ''hi'') demo_meta fresh = Inr (u ''t1'', demo_fp ''hi'', None)"
proof -
  have "returns (enc_utf8 (py_dumps jcs_string (fingerprint_payload (demo_message ''hi'') demo_meta)))" by code_simp
  then obtain bs where "enc_utf8 (py_dumps jcs_string (fingerprint_payload (demo_message ''hi'') demo_meta)) = Inr bs" by (auto simp: returns_iff)
  then have "task_fingerprint (demo_message ''hi'') demo_meta = Inr (demo_fp ''hi'')" unfolding task_fingerprint_def demo_fp_def by (simp only: bindE.simps sum.case)
  moreover have "or_text (md_task_id demo_meta) fresh = u ''t1''" by (simp add: demo_meta_def or_text_def u_def)
  moreover have "or_text (md_runtime demo_meta) d = d" "md_workdir demo_meta = None" for d by (simp_all add: demo_meta_def or_text_def)
  ultimately show ?thesis by (simp add: begin_task_def Let_def demo_cfg_def resolve_workdir_def)
qed

definition demo_started :: agent_state where
  "demo_started = fst (agent_step demo_cfg (Send (demo_message ''hi'') demo_meta (u ''x'')) empty_agent)"

lemma demo_send:
  "agent_step demo_cfg (Send (demo_message ''hi'') demo_meta (u ''x'')) empty_agent = (demo_started, Started (u ''t1'') (demo_fp ''hi'') None)"
  by (simp add: demo_started_def handle_task_def demo_begin claim_task_def empty_agent_def)

lemma demo_started_inv: "agent_inv demo_started" "at_inflight demo_started (u ''t1'') = Some (demo_message ''hi'')"
  "at_cancels demo_started (u ''t1'') = Some False" "at_fingerprints demo_started (u ''t1'') = Some (demo_fp ''hi'')"
  "at_futures demo_started (u ''t1'') = Some None"
  unfolding demo_started_def
  by (rule agent_step_inv [OF empty_agent_inv]) (simp_all add: handle_task_def demo_begin claim_task_def own_task_def empty_agent_def)

theorem agent_runs_once_witness:
  "case run_steps (agent_step demo_cfg) empty_agent [Send (demo_message ''hi'') demo_meta (u ''x'')] of (rs, st) \<Rightarrow>
     rs = [Started (u ''t1'') (demo_fp ''hi'') None] \<and> dom (at_tasks st) = {u ''t1''} \<and> at_fingerprints st (u ''t1'') = Some (demo_fp ''hi'') \<and>
     agent_inv st"
proof -
  have "run_steps (agent_step demo_cfg) empty_agent [Send (demo_message ''hi'') demo_meta (u ''x'')] =
      ([Started (u ''t1'') (demo_fp ''hi'') None], demo_started)" using demo_send by simp
  then show ?thesis using agent_runs_once [of demo_cfg "[Send (demo_message ''hi'') demo_meta (u ''x'')]"]
    by (auto simp: List.map_filter_simps accepted_def)
qed

theorem agent_final_stable_witness:
  "let ended = fst (agent_step demo_cfg (Finish (u ''t1'') (Executed True (u ''ok''))) demo_started);
       later = snd (run_steps (agent_step demo_cfg) ended [Cancel (u ''t1'')]);
       final = text_task (u ''t1'') Completed [demo_message ''hi''] ''a1'' (u ''ok'') in
   get_task later (u ''t1'') = Final final \<and>
   handle_task demo_cfg later (demo_message ''hi'') demo_meta [] = (later, Joined (u ''t1'') (demo_fp ''hi'') (Some final))"
proof -
  let ?e = "fst (agent_step demo_cfg (Finish (u ''t1'') (Executed True (u ''ok''))) demo_started)"
  let ?f = "text_task (u ''t1'') Completed [demo_message ''hi''] ''a1'' (u ''ok'')"
  have ne: "u ''ok'' \<noteq> u ''canceled''" by (simp add: u_eq_iff)
  have f: "at_futures ?e (u ''t1'') = Some (Some ?f)" "at_fingerprints ?e (u ''t1'') = Some (demo_fp ''hi'')"
    using demo_started_inv ne by (simp_all add: end_task_def finish_task_def final_task_def Let_def)
  show ?thesis
    using agent_final_stable [OF agent_step_inv [OF demo_started_inv(1)] f demo_begin, of "[Cancel (u ''t1'')]" "[]"]
    unfolding Let_def by simp
qed

theorem agent_cancel_exact_witness:
  "\<exists>t. snd (agent_step demo_cfg (Finish (u ''t1'') (Executed True (u ''ok''))) (fst (cancel_task demo_started (u ''t1'')))) = Final t \<and>
    task_status t = Canceled"
  using agent_cancel_exact [OF demo_started_inv(1), of "u ''t1''" "[]" demo_cfg True "u ''ok''"] demo_started_inv(2) by simp

theorem stream_orphans_task_witness:
  "let claimed = fst (agent_step demo_cfg (Stream (demo_message ''hi'') demo_meta (u ''x'') (Inl KeyError)) empty_agent) in
   get_task claimed (u ''t1'') = Final (working_task (u ''t1'') (demo_message ''hi'')) \<and> (\<exists>e. cancel_task claimed (u ''t1'') = (claimed, Refused e))"
proof -
  let ?c = "fst (agent_step demo_cfg (Stream (demo_message ''hi'') demo_meta (u ''x'') (Inl KeyError)) empty_agent)"
  have "agent_step demo_cfg (Stream (demo_message ''hi'') demo_meta (u ''x'') (Inl KeyError)) empty_agent =
      (?c, Orphaned (u ''t1'') (demo_fp ''hi'') KeyError)"
    by (simp add: handle_task_stream_def demo_begin claim_task_def empty_agent_def)
  from stream_orphans_task [OF empty_agent_inv this, of "[]"] show ?thesis by (simp add: Let_def)
qed

theorem workspace_confined_witness:
  "\<exists>rest. workspace_resolve id demo_fs [] (u ''notes'') = Inr ([] @ rest) \<and>
    set [u ''a''] = {n \<in> set [u ''.git'', u ''a'']. \<not> is_sensitive id (rest @ [n])}"
proof -
  have "workspace_list id demo_fs [] (\<lambda>_. [u ''.git'', u ''a'']) (u ''notes'') = Inr [u ''a'']" by code_simp
  then show ?thesis using workspace_confined [of demo_fs None "[]" "[]" id "[]" "u ''notes''" "[]" "\<lambda>_. [u ''.git'', u ''a'']" "[u ''a'']"] by blast
qed

end
