(* ===== verification/ToolCatalog.thy ===== *)
theory ToolCatalog
  imports RuntimeProperties
begin

text \<open>
  The tools an agent offers: the built-in tools (\<open>register_all\<close> of \<open>tools/builtin\<close>), declared custom tools (\<open>tools/decorator.py\<close>), the
  tools of MCP servers (\<open>McpConnection._adapt_tool\<close>), the memory tools (\<open>AgentRuntime._register_memory_tools\<close>), and their
  registration in the order of \<open>AgentRuntime.start\<close>. Handlers are named by a datatype; what a custom handler or an MCP server does
  is not modelled.
\<close>

section \<open>The tools\<close>

datatype 'c handler =
    Read_file | Write_file | Run_shell | List_dir
  | Memory_get | Memory_set | Shared_get | Shared_set
  | Custom_handler 'c
  | Mcp_call ustr ustr     \<comment> \<open>the connection's alias and the server's name of the tool\<close>

text \<open>The JSON schema of an object with text fields, some required, and nothing else. A schema without required fields has no
  such entry.\<close>

definition text_schema :: "string list \<Rightarrow> string list \<Rightarrow> dict" where
  "text_schema props required = dict_of (
     [(u ''type'', JStr (u ''object'')),
      (u ''properties'', JObj (dict_of (map (\<lambda>f. (u f, JObj (dict_of [(u ''type'', JStr (u ''string''))]))) props)))] @
     (if required = [] then [] else [(u ''required'', JArr (map (JStr \<circ> u) required))]) @
     [(u ''additionalProperties'', JBool False)])"

definition builtin_tool :: "string \<Rightarrow> ustr \<Rightarrow> dict \<Rightarrow> risk \<Rightarrow> 'c handler \<Rightarrow> 'c handler Tool" where
  "builtin_tool name description parameters risk handler = \<lparr> tl_name = u name, tl_description = description, tl_parameters = parameters,
     tl_handler = handler, tl_source = Builtin_source, tl_risk = risk, tl_public = False \<rparr>"

text \<open>The descriptions are Chinese texts, written as code points.\<close>

definition builtin_tools :: "'c handler Tool list" where
  "builtin_tools =
     [builtin_tool ''read_file'' [35835, 21462, 24037, 20316, 30446, 24405, 20869, 30340, 25991, 20214, 20869, 23481]
        (text_schema [''path''] [''path'']) Low_risk Read_file,
      builtin_tool ''write_file'' [20889, 20837, 24037, 20316, 30446, 24405, 20869, 30340, 25991, 20214]
        (text_schema [''path'', ''content''] [''path'', ''content'']) Medium_risk Write_file,
      builtin_tool ''run_shell'' ([25191, 34892] @ u '' shell '' @ [21629, 20196, 65288, 40664, 35748, 19981, 20844, 24320, 65289])
        (text_schema [''command''] [''command'']) High_risk Run_shell,
      builtin_tool ''list_dir'' [21015, 20986, 24037, 20316, 30446, 24405, 20869, 30340, 30446, 24405]
        (text_schema [''path''] []) Low_risk List_dir]"

definition memory_tools :: "'c handler Tool list" where
  "memory_tools =
     [builtin_tool ''memory_get'' ([35835, 21462] @ u '' agent '' @ [38271, 26399, 35760, 24518]) (text_schema [''key''] [''key'']) Low_risk Memory_get,
      builtin_tool ''memory_set'' ([20889, 20837] @ u '' agent '' @ [38271, 26399, 35760, 24518])
        (text_schema [''key'', ''value''] [''key'', ''value'']) Medium_risk Memory_set,
      builtin_tool ''memory_shared_get'' [35835, 21462, 22242, 38431, 20849, 20139, 35760, 24518] (text_schema [''key''] [''key'']) Low_risk Shared_get,
      builtin_tool ''memory_shared_set'' [20889, 20837, 22242, 38431, 20849, 20139, 35760, 24518]
        (text_schema [''key'', ''value''] [''key'', ''value'']) Medium_risk Shared_set]"

text \<open>The decorator of custom tools: the declared values and the source \<open>custom\<close>.\<close>

definition declare_tool :: "ustr \<Rightarrow> ustr \<Rightarrow> dict \<Rightarrow> risk \<Rightarrow> bool \<Rightarrow> 'c \<Rightarrow> 'c handler Tool" where
  "declare_tool name description parameters risk public f = \<lparr> tl_name = name, tl_description = description, tl_parameters = parameters,
     tl_handler = Custom_handler f, tl_source = Custom_source, tl_risk = risk, tl_public = public \<rparr>"

record mcp_spec =
  ms_name :: ustr
  ms_description :: "ustr option"
  ms_input_schema :: dict

definition adapt_tool :: "ustr \<Rightarrow> mcp_spec \<Rightarrow> 'c handler Tool" where
  "adapt_tool name spec = \<lparr> tl_name = name @ u ''__'' @ ms_name spec,
     tl_description = (case ms_description spec of Some (c # cs) \<Rightarrow> c # cs | _ \<Rightarrow> u ''MCP tool '' @ ms_name spec),
     tl_parameters = ms_input_schema spec, tl_handler = Mcp_call name (ms_name spec), tl_source = Mcp_source, tl_risk = Medium_risk,
     tl_public = False \<rparr>"

section \<open>Assembly\<close>

text \<open>A loop over \<open>registry.register(tool)\<close>.\<close>

fun register_each :: "'h registry \<Rightarrow> 'h Tool list \<Rightarrow> 'h registry result" where
  "register_each reg [] = Inr reg"
| "register_each reg (t # ts) = bindE (register_tool reg t False) (\<lambda>reg'. register_each reg' ts)"

text \<open>\<open>start\<close>: the built-in tools, the declared custom tools, the tools of each MCP server (its alias and its listing), the memory tools;
  then the configured tools are made public.\<close>

definition assemble_tools :: "'c handler Tool list \<Rightarrow> (ustr \<times> mcp_spec list) list \<Rightarrow> ustr set \<Rightarrow> 'c handler registry result" where
  "assemble_tools customs servers pub =
     bindE (register_each [] builtin_tools) (\<lambda>reg1.
     bindE (register_each reg1 customs) (\<lambda>reg2.
     bindE (register_each reg2 (concat (map (\<lambda>(name, specs). map (adapt_tool name) specs) servers))) (\<lambda>reg3.
     bindE (register_each reg3 memory_tools) (\<lambda>reg4. Inr (publish_tools pub reg4)))))"

text \<open>\<open>ToolRegistry.list\<close> and the skills of the card: the public tools.\<close>

definition list_tools :: "'h registry \<Rightarrow> 'h Tool list" where
  "list_tools reg = map snd reg"

definition card_skills :: "'h registry \<Rightarrow> (ustr \<times> ustr \<times> ustr) list" where
  "card_skills reg = map (\<lambda>t. (tl_name t, tl_name t, tl_description t)) (filter tl_public (list_tools reg))"

section \<open>Facts\<close>

abbreviation all_tools :: "'c handler Tool list \<Rightarrow> (ustr \<times> mcp_spec list) list \<Rightarrow> 'c handler Tool list" where
  "all_tools customs servers \<equiv> builtin_tools @ customs @ concat (map (\<lambda>(name, specs). map (adapt_tool name) specs) servers) @ memory_tools"

lemma register_tool_fresh:
  "register_tool reg t False = Inr reg' \<longleftrightarrow> tl_name t \<notin> fst ` set reg \<and> reg' = reg @ [(tl_name t, t)]"
  by (auto simp: register_tool_def map_of_eq_None_iff image_iff)

lemma register_each_iff:
  "register_each reg ts = Inr reg' \<longleftrightarrow>
     reg' = reg @ map (\<lambda>t. (tl_name t, t)) ts \<and> distinct (map tl_name ts) \<and> fst ` set reg \<inter> tl_name ` set ts = {}"
  by (induction ts arbitrary: reg) (auto simp: register_tool_fresh)

lemma register_each_append: "register_each reg (ts @ us) = bindE (register_each reg ts) (\<lambda>reg'. register_each reg' us)"
proof (induction ts arbitrary: reg)
  case (Cons t ts)
  then show ?case by (cases "register_tool reg t False") simp_all
qed simp

lemma bindE_assoc: "bindE (bindE m f) g = bindE m (\<lambda>x. bindE (f x) g)"
  by (cases m) simp_all

text \<open>The stages are one loop over all tools.\<close>

lemma assemble_tools_eq:
  "assemble_tools customs servers pub = bindE (register_each [] (all_tools customs servers)) (\<lambda>reg. Inr (publish_tools pub reg))"
  unfolding assemble_tools_def register_each_append
  by (simp add: bindE_assoc)

lemma map_of_tools:
  assumes "distinct (map tl_name ts)"
  shows "map_of (map (\<lambda>t. (tl_name t, t)) ts) name = Some t \<longleftrightarrow> t \<in> set ts \<and> tl_name t = name"
proof -
  have "distinct (map fst (map (\<lambda>t. (tl_name t, t)) ts))" using assms by (simp add: comp_def)
  from map_of_eq_Some_iff [OF this] show ?thesis by auto
qed

text \<open>Under distinct names the name of the shell is that of the built-in tool, which is of high risk.\<close>

lemma run_shell_risk:
  assumes "distinct (map tl_name (all_tools customs servers))" "t \<in> set (all_tools customs servers)" "tl_name t = u ''run_shell''"
  shows "tl_risk t = High_risk"
proof -
  obtain s :: "'a handler Tool" where s: "s \<in> set builtin_tools" "tl_name s = u ''run_shell''" "tl_risk s = High_risk"
    by (rule that [of "builtin_tools ! 2"]) (simp_all add: builtin_tools_def builtin_tool_def)
  then have "s \<in> set (all_tools customs servers)" by simp
  then have "s = t" using assms s(2) map_of_tools [OF assms(1), of "u ''run_shell''" s] map_of_tools [OF assms(1), of "u ''run_shell''" t]
    by (simp del: set_append)
  then show ?thesis using s(3) by simp
qed

text \<open>
  C35. An agent starts exactly with distinct tool names: custom, MCP and memory tools never replace a built-in one. Then a remote call
  returns exactly if the tool is one of these tools, is configured as public, is not of high risk and accepts the arguments, so that
  the shell is refused whatever the configuration says; and the card advertises exactly the public tools, in registration order.
\<close>

theorem assembled_tools_exact:
  "case assemble_tools customs servers pub of
     Inl e \<Rightarrow> \<not> distinct (map tl_name (all_tools customs servers))
   | Inr reg \<Rightarrow> distinct (map tl_name (all_tools customs servers)) \<and>
       (\<forall>name arguments r. call_tool valid invoke reg name arguments True = Inr r \<longleftrightarrow>
          (\<exists>t. t \<in> set (all_tools customs servers) \<and> tl_name t = name \<and> name \<in> pub \<and> tl_risk t \<noteq> High_risk \<and>
             valid arguments (tl_parameters t) \<and> invoke (tl_handler t) arguments = Inr r)) \<and>
       (\<forall>arguments r. call_tool valid invoke reg (u ''run_shell'') arguments True \<noteq> Inr r) \<and>
       map fst (card_skills reg) = filter (\<lambda>name. name \<in> pub) (map tl_name (all_tools customs servers))"
proof (cases "distinct (map tl_name (all_tools customs servers))")
  case dist: True
  let ?ts = "all_tools customs servers" and ?reg = "map (\<lambda>t. (tl_name t, t)) (all_tools customs servers)"
  have reg: "register_each [] ?ts = Inr ?reg" using dist by (simp only: register_each_iff) simp
  then have ok: "assemble_tools customs servers pub = Inr (publish_tools pub ?reg)" by (simp add: assemble_tools_eq)
  have call: "call_tool valid invoke (publish_tools pub ?reg) name arguments True = Inr r \<longleftrightarrow>
      (\<exists>t. t \<in> set ?ts \<and> tl_name t = name \<and> name \<in> pub \<and> tl_risk t \<noteq> High_risk \<and> valid arguments (tl_parameters t) \<and>
         invoke (tl_handler t) arguments = Inr r)" for name arguments r
    unfolding remote_tool_exact map_of_tools [OF dist] by blast
  have shell: "call_tool valid invoke (publish_tools pub ?reg) (u ''run_shell'') arguments True \<noteq> Inr r" for arguments r
    unfolding call using run_shell_risk [OF dist] by blast
  have card: "map fst (card_skills (publish_tools pub (map (\<lambda>t. (tl_name t, t)) ts))) = filter (\<lambda>name. name \<in> pub) (map tl_name ts)" for ts :: "'a handler Tool list"
    by (induction ts) (simp_all add: card_skills_def list_tools_def publish_tools_def)
  show ?thesis unfolding ok sum.case using dist call shell card by blast
next
  case False
  have "register_each [] (all_tools customs servers) \<noteq> Inr reg" for reg using False by (simp only: register_each_iff) blast
  then obtain e where err: "assemble_tools customs servers pub = Inl e"
    unfolding assemble_tools_eq by (cases "register_each [] (all_tools customs servers)") (simp, blast)
  show ?thesis unfolding err sum.case by (rule False)
qed

end
