(* ===== verification/Legacy.thy ===== *)
theory Legacy
  imports Workspace
begin

text \<open>
  The deprecated private RPC binding (\<open>a2anats/compatibility_policy.py\<close>, \<open>compatibility.py\<close>): its default-off policy, the client's
  request with retries, and the server's handler of one message.

  The network is an argument: \<open>net n\<close> is what the \<open>n\<close>-th \<open>nc.request\<close> does, raise a transient error, raise another one, or return
  a body (\<open>None\<close>: not JSON). \<open>jsonschema.validate\<close> on the request schema is the parameter \<open>violation\<close>, which reports the chosen
  error's validator and message; the law \<open>schema_law\<close> says that it reports one exactly for a request outside the schema.
\<close>

section \<open>Policy\<close>

definition LEGACY_PRIVATE_RPC_METHODS :: "string list" where
  "LEGACY_PRIVATE_RPC_METHODS = [''message/send'', ''message/stream'', ''tasks/get'', ''tasks/cancel'', ''tools/call'']"

definition require_enabled :: "bool \<Rightarrow> string list \<Rightarrow> check list" where
  "require_enabled enabled action = [Check enabled (RuntimeError ([''legacy private NATS RPC compatibility is disabled; cannot ''] @ action @
     [''; use the a2a.v1 binding or explicitly opt in'']))]"

definition safe_agent_token :: "ustr \<Rightarrow> bool" where
  "safe_agent_token v \<longleftrightarrow> v \<noteq> [] \<and> length v \<le> 63 \<and> list_all (\<lambda>c. c \<notin> {46, 42, 62, 32, 9, 13, 10}) v"

definition legacy_subject :: "string \<Rightarrow> ustr \<Rightarrow> ustr result" where
  "legacy_subject prefix agent = checked [Check (safe_agent_token agent) (ValueError [''legacy agent ID must be one safe NATS subject token''])]
     (Inr (u prefix @ agent))"

definition rpc_subject :: "ustr \<Rightarrow> ustr result" where
  "rpc_subject = legacy_subject ''a2a.rpc.''"

definition card_subject :: "ustr \<Rightarrow> ustr result" where
  "card_subject = legacy_subject ''a2a.cards.''"

section \<open>The client\<close>

datatype network = Transient pyerr | Broken pyerr | Reply "json option"

definition rpc_request :: "ustr \<Rightarrow> string \<Rightarrow> dict \<Rightarrow> json" where
  "rpc_request rid method params = JObj (dict_of
     [(u ''jsonrpc'', JStr (u ''2.0'')), (u ''id'', JStr rid), (u ''method'', JStr (u method)), (u ''params'', JObj params)])"

text \<open>\<open>error["code"]\<close>, \<open>error["message"]\<close>: a missing key or a value that is no dictionary raises.\<close>

definition rpc_error :: "json \<Rightarrow> pyerr" where
  "rpc_error err = (case err of
     JObj d \<Rightarrow> (case (map_of d (u ''code''), map_of d (u ''message'')) of
         (Some (JInt c), Some (JStr m)) \<Rightarrow> JsonRpcError c [show_ustr m]
       | _ \<Rightarrow> KeyError)
   | _ \<Rightarrow> TypeError [''string indices must be integers''])"

text \<open>The checks on a decoded response.\<close>

definition read_response :: "ustr \<Rightarrow> json option \<Rightarrow> json result" where
  "read_response rid body = (case body of
     None \<Rightarrow> Inl JSONDecodeError
   | Some (JObj d) \<Rightarrow> checked
       [Check (map_of d (u ''jsonrpc'') = Some (JStr (u ''2.0'')) \<and> map_of d (u ''id'') = Some (JStr rid))
          (RuntimeError [''invalid legacy RPC response envelope'']),
        Check ((map_of d (u ''result'') \<noteq> None) \<noteq> (map_of d (u ''error'') \<noteq> None))
          (RuntimeError [''invalid legacy RPC response: expected result xor error''])]
       (case map_of d (u ''error'') of
          Some err \<Rightarrow> Inl (rpc_error err)
        | None \<Rightarrow> (case map_of d (u ''result'') of Some r \<Rightarrow> Inr r | None \<Rightarrow> Inl KeyError))
   | Some _ \<Rightarrow> Inl (RuntimeError [''invalid legacy RPC response: expected an object'']))"

text \<open>The loop over attempts, and the sleeps it makes. \<open>left\<close> counts the attempts after this one.\<close>

fun rpc_attempts :: "(int \<Rightarrow> network) \<Rightarrow> ustr \<Rightarrow> int \<Rightarrow> nat \<Rightarrow> json result \<times> int list" where
  "rpc_attempts net rid attempt left = (case net attempt of
     Reply body \<Rightarrow> (read_response rid body, [])
   | Broken e \<Rightarrow> (Inl e, [])
   | Transient e \<Rightarrow> (case left of
       0 \<Rightarrow> (Inl e, [])
     | Suc n \<Rightarrow> (case rpc_attempts net rid (attempt + 1) n of (r, sleeps) \<Rightarrow> (r, 2 ^ nat (attempt - 1) # sleeps))))"

declare rpc_attempts.simps [simp del]

definition legacy_rpc :: "bool \<Rightarrow> (int \<Rightarrow> network) \<Rightarrow> ustr \<Rightarrow> ustr \<Rightarrow> string \<Rightarrow> int \<Rightarrow> json result \<times> int list" where
  "legacy_rpc enabled net agent rid method retries =
     (case checked (require_enabled enabled [''invoke legacy method '', method] @
        [Check (method \<in> set LEGACY_PRIVATE_RPC_METHODS) (ValueError [''method is outside the closed legacy compatibility set: '', method]),
         Check (\<not> retries < 1) (ValueError [''retries must be at least 1''])]) (rpc_subject agent) of
        Inl e \<Rightarrow> (Inl e, [])
      | Inr subject \<Rightarrow> rpc_attempts net rid 1 (nat (retries - 1)))"

text \<open>The parameters of \<open>message/send\<close> and \<open>message/stream\<close>, of the task methods and of \<open>tools/call\<close>.\<close>

definition message_params :: "Message \<Rightarrow> ustr option \<Rightarrow> ustr option \<Rightarrow> ustr option \<Rightarrow> ustr \<Rightarrow> dict" where
  "message_params msg runtime workdir session_id tid =
     (let opt = (\<lambda>a. case a of None \<Rightarrow> JNull | Some s \<Rightarrow> JStr s) in
      dict_of [(u ''message'', message_dump msg), (u ''metadata'', JObj (dict_of [(u ''runtime'', opt runtime), (u ''workdir'', opt workdir),
        (u ''sessionId'', opt session_id), (u ''taskId'', JStr tid)]))])"

definition task_params :: "ustr \<Rightarrow> dict" where
  "task_params tid = dict_of [(u ''id'', JStr tid)]"

definition tool_params :: "ustr \<Rightarrow> dict \<Rightarrow> dict" where
  "tool_params tool arguments = dict_of [(u ''tool'', JStr tool), (u ''arguments'', JObj arguments)]"

text \<open>The loop of \<open>send_message_stream\<close> over the bodies that arrive before the deadline; \<open>None\<close>: the deadline passes first. \<open>task\<close>
  says whether pydantic reads a task from the terminal result.\<close>

definition terminal_body :: "ustr \<Rightarrow> dict \<Rightarrow> bool" where
  "terminal_body rid d \<longleftrightarrow> map_of d (u ''jsonrpc'') = Some (JStr (u ''2.0'')) \<and> map_of d (u ''id'') = Some (JStr rid)"

fun collect_stream :: "(json \<Rightarrow> unit result) \<Rightarrow> ustr \<Rightarrow> dict list \<Rightarrow> json option list \<Rightarrow> dict list result option" where
  "collect_stream task rid events [] = None"
| "collect_stream task rid events (None # bs) = Some (Inl JSONDecodeError)"
| "collect_stream task rid events (Some (JObj d) # bs) =
     (if terminal_body rid d then Some (case map_of d (u ''error'') of
          Some err \<Rightarrow> Inl (rpc_error err)
        | None \<Rightarrow> (case map_of d (u ''result'') of
            None \<Rightarrow> Inl (RuntimeError [''invalid legacy streaming terminal response''])
          | Some r \<Rightarrow> bindE (task r) (\<lambda>_. Inr events)))
      else if map_of d (u ''kind'') = None then Some (Inl (RuntimeError [''invalid legacy streaming event'']))
      else collect_stream task rid (events @ [d]) bs)"
| "collect_stream task rid events (Some _ # bs) = Some (Inl (RuntimeError [''invalid legacy streaming event'']))"

section \<open>The server\<close>

text \<open>The handler's methods over a state, as \<open>_dispatch\<close> routes to them.\<close>

record 's legacy_handler =
  lh_handle_task :: "dict \<Rightarrow> 's \<Rightarrow> json result \<times> 's"
  lh_handle_task_stream :: "dict \<Rightarrow> 's \<Rightarrow> json result \<times> 's"
  lh_get_task :: "dict \<Rightarrow> 's \<Rightarrow> json result \<times> 's"
  lh_cancel :: "dict \<Rightarrow> 's \<Rightarrow> json result \<times> 's"
  lh_call_tool :: "dict \<Rightarrow> 's \<Rightarrow> json result \<times> 's"

definition legacy_dispatch :: "'s legacy_handler \<Rightarrow> ustr \<Rightarrow> dict \<Rightarrow> 's \<Rightarrow> json result \<times> 's" where
  "legacy_dispatch h method params st =
     (if method = u ''message/send'' then lh_handle_task h params st
      else if method = u ''message/stream'' then lh_handle_task_stream h params st
      else if method = u ''tasks/get'' then lh_get_task h params st
      else if method = u ''tasks/cancel'' then lh_cancel h params st
      else if method = u ''tools/call'' then lh_call_tool h params st
      else (Inl (JsonRpcError METHOD_NOT_FOUND [''unknown method: '', show_ustr method]), st))"

text \<open>The schema of a request (\<open>schemas/rpc.json\<close>).\<close>

definition rpc_schema :: "json \<Rightarrow> bool" where
  "rpc_schema v \<longleftrightarrow> (case v of JObj d \<Rightarrow>
     map_of d (u ''jsonrpc'') = Some (JStr (u ''2.0'')) \<and> (\<exists>i. map_of d (u ''id'') = Some (JStr i)) \<and>
     (\<exists>m. map_of d (u ''method'') = Some (JStr (u m)) \<and> m \<in> set LEGACY_PRIVATE_RPC_METHODS) \<and>
     (case map_of d (u ''params'') of None \<Rightarrow> True | Some (JObj p) \<Rightarrow> True | Some _ \<Rightarrow> False)
   | _ \<Rightarrow> False)"

type_synonym violation = "json \<Rightarrow> (bool \<times> ustr) option"  \<comment> \<open>whether the validator is \<open>enum\<close>, and the message\<close>

definition schema_law :: "violation \<Rightarrow> bool" where
  "schema_law violation \<longleftrightarrow> (\<forall>v. violation v = None \<longleftrightarrow> rpc_schema v)"

definition error_body :: "json \<Rightarrow> int \<Rightarrow> ustr \<Rightarrow> dict" where
  "error_body rid code message = dict_of
     [(u ''jsonrpc'', JStr (u ''2.0'')), (u ''id'', rid), (u ''error'', JObj (dict_of [(u ''code'', JInt code), (u ''message'', JStr message)]))]"

definition result_body :: "json \<Rightarrow> json \<Rightarrow> dict" where
  "result_body rid r = dict_of [(u ''jsonrpc'', JStr (u ''2.0'')), (u ''id'', rid), (u ''result'', r)]"

definition request_id :: "json \<Rightarrow> json" where
  "request_id request = (case request of JObj d \<Rightarrow> (case map_of d (u ''id'') of Some i \<Rightarrow> i | None \<Rightarrow> JNull) | _ \<Rightarrow> JNull)"

definition dispatch_request :: "'s legacy_handler \<Rightarrow> json \<Rightarrow> 's \<Rightarrow> json result \<times> 's" where
  "dispatch_request h request st = (case request of
     JObj d \<Rightarrow> (case map_of d (u ''method'') of
         Some (JStr m) \<Rightarrow> legacy_dispatch h m (case map_of d (u ''params'') of Some (JObj p) \<Rightarrow> p | _ \<Rightarrow> []) st
       | _ \<Rightarrow> (Inl KeyError, st))
   | _ \<Rightarrow> (Inl KeyError, st))"

text \<open>\<open>_on_rpc\<close> for an enabled server: the response to one message body.\<close>

definition on_rpc :: "violation \<Rightarrow> 's legacy_handler \<Rightarrow> json option \<Rightarrow> 's \<Rightarrow> dict \<times> 's" where
  "on_rpc violation h body st = (case body of
     None \<Rightarrow> (error_body JNull (-32700) (u ''invalid JSON''), st)
   | Some request \<Rightarrow> (case violation request of
       Some (True, msg) \<Rightarrow> (error_body (request_id request) METHOD_NOT_FOUND (u ''unknown method''), st)
     | Some (False, msg) \<Rightarrow> (error_body (request_id request) INVALID_PARAMS msg, st)
     | None \<Rightarrow> (case dispatch_request h request st of
         (Inr r, st') \<Rightarrow> (result_body (request_id request) r, st')
       | (Inl (JsonRpcError c m), st') \<Rightarrow> (error_body (request_id request) c (u (concat m)), st')
       | (Inl _, st') \<Rightarrow> (error_body (request_id request) (-32603) (u ''internal error''), st'))))"

section \<open>Facts\<close>

lemma body_lookup:
  "map_of (error_body rid c m) (u ''jsonrpc'') = Some (JStr (u ''2.0''))" "map_of (error_body rid c m) (u ''id'') = Some rid"
  "map_of (error_body rid c m) (u ''result'') = None"
  "map_of (error_body rid c m) (u ''error'') = Some (JObj (dict_of [(u ''code'', JInt c), (u ''message'', JStr m)]))"
  "map_of (result_body rid r) (u ''jsonrpc'') = Some (JStr (u ''2.0''))" "map_of (result_body rid r) (u ''id'') = Some rid"
  "map_of (result_body rid r) (u ''result'') = Some r" "map_of (result_body rid r) (u ''error'') = None"
  by (simp_all add: error_body_def result_body_def map_of_dict_of u_eq_iff)

lemma read_result: "read_response rid (Some (JObj (result_body (JStr rid) r))) = Inr r"
  by (simp add: read_response_def body_lookup)

lemma read_error: "read_response rid (Some (JObj (error_body (JStr rid) c m))) = Inl (JsonRpcError c [show_ustr m])"
  by (simp add: read_response_def body_lookup checked.simps rpc_error_def map_of_dict_of u_eq_iff)

lemma request_lookup:
  "map_of (dict_of [(u ''jsonrpc'', JStr (u ''2.0'')), (u ''id'', JStr rid), (u ''method'', JStr (u method)), (u ''params'', JObj params)]) =
     [u ''jsonrpc'' \<mapsto> JStr (u ''2.0''), u ''id'' \<mapsto> JStr rid, u ''method'' \<mapsto> JStr (u method), u ''params'' \<mapsto> JObj params]"
  by (rule ext) (simp add: map_of_dict_of u_eq_iff)

lemma rpc_request_facts:
  assumes "method \<in> set LEGACY_PRIVATE_RPC_METHODS"
  shows "rpc_schema (rpc_request rid method params)" "request_id (rpc_request rid method params) = JStr rid"
    "dispatch_request h (rpc_request rid method params) st = legacy_dispatch h (u method) params st"
  using assms by (auto simp: rpc_schema_def request_id_def dispatch_request_def rpc_request_def request_lookup u_eq_iff)

text \<open>The retry loop.\<close>

lemma rpc_attempts_eq:
  assumes "k \<le> left" "\<And>i. i < k \<Longrightarrow> \<exists>e. net (attempt + int i) = Transient e" "\<forall>e. net (attempt + int k) \<noteq> Transient e"
  shows "rpc_attempts net rid attempt left =
    (case net (attempt + int k) of Reply body \<Rightarrow> read_response rid body | Broken e \<Rightarrow> Inl e, map (\<lambda>i. 2 ^ nat (attempt + int i - 1)) [0..<k])"
  using assms
proof (induction k arbitrary: attempt left)
  case 0
  then show ?case by (subst rpc_attempts.simps) (auto split: network.splits)
next
  case (Suc k)
  obtain e where e: "net attempt = Transient e" using Suc.prems(2) [of 0] by auto
  obtain n where n: "left = Suc n" using Suc.prems(1) by (cases left) auto
  have ih: "rpc_attempts net rid (attempt + 1) n = (case net (attempt + 1 + int k) of Reply body \<Rightarrow> read_response rid body | Broken e \<Rightarrow> Inl e,
      map (\<lambda>i. 2 ^ nat (attempt + 1 + int i - 1)) [0..<k])"
  proof (rule Suc.IH)
    show "\<exists>e. net (attempt + 1 + int i) = Transient e" if "i < k" for i using Suc.prems(2) [of "Suc i"] that by (simp add: add_ac)
    show "\<forall>e. net (attempt + 1 + int k) \<noteq> Transient e" using Suc.prems(3) by (simp add: add_ac)
  qed (use Suc.prems(1) n in simp)
  have "map (\<lambda>i. 2 ^ nat (attempt + int i - 1)) [0..<Suc k] = (2 ^ nat (attempt - 1) :: int) # map (\<lambda>i. 2 ^ nat (attempt + 1 + int i - 1)) [0..<k]"
    by (simp add: upt_conv_Cons map_Suc_upt [symmetric] comp_def add_ac del: upt_Suc)
  moreover have "attempt + int (Suc k) = attempt + 1 + int k" by simp
  moreover have "rpc_attempts net rid attempt left = (case net (attempt + 1 + int k) of Reply body \<Rightarrow> read_response rid body | Broken e \<Rightarrow> Inl e,
      2 ^ nat (attempt - 1) # map (\<lambda>i. 2 ^ nat (attempt + 1 + int i - 1)) [0..<k])"
    by (subst rpc_attempts.simps) (simp only: e n ih network.case nat.case prod.case)
  ultimately show ?case by (simp only:)
qed

lemma legacy_rpc_enabled:
  assumes "method \<in> set LEGACY_PRIVATE_RPC_METHODS" "safe_agent_token agent" "1 \<le> retries"
  shows "legacy_rpc True net agent rid method retries = rpc_attempts net rid 1 (nat (retries - 1))"
  using assms by (simp add: legacy_rpc_def require_enabled_def rpc_subject_def legacy_subject_def checked.simps)

text \<open>The stream collector hands on exactly the events before the terminal response, in order.\<close>

lemma collect_stream_events:
  assumes "\<forall>d \<in> set ds. \<not> terminal_body rid d \<and> map_of d (u ''kind'') \<noteq> None" "terminal_body rid t" "map_of t (u ''error'') = None"
    "map_of t (u ''result'') = Some r" "task r = Inr x"
  shows "collect_stream task rid events (map (\<lambda>d. Some (JObj d)) ds @ Some (JObj t) # bs) = Some (Inr (events @ ds))"
  using assms by (induction ds arbitrary: events) auto

section \<open>Properties\<close>

text \<open>
  C37. The client and the server of the binding fit together: when the server's response to the request reaches the client, after
  any number of transient failures the retries allow, the call returns the handler's result or raises the handler's JSON-RPC
  error (an internal error for any other exception), with back-off sleeps of 1, 2, 4, \<dots> seconds between the attempts; and with
  the compatibility switched off the call raises without using the network.
\<close>
theorem legacy_rpc_roundtrip:
  assumes "schema_law violation" and "method \<in> set LEGACY_PRIVATE_RPC_METHODS" and "safe_agent_token agent" and "int k < retries"
    and "\<forall>i < k. \<exists>e. net (1 + int i) = Transient e"
    and "net (1 + int k) = Reply (Some (JObj (fst (on_rpc violation h (Some (rpc_request rid method params)) st))))"
  shows "legacy_rpc True net agent rid method retries =
      (case fst (legacy_dispatch h (u method) params st) of
         Inr r \<Rightarrow> Inr r
       | Inl (JsonRpcError c m) \<Rightarrow> Inl (JsonRpcError c [show_ustr (u (concat m))])
       | Inl _ \<Rightarrow> Inl (JsonRpcError (-32603) [show_ustr (u ''internal error'')]), map (\<lambda>i. 2 ^ i) [0..<k]) \<and>
    legacy_rpc False net' agent rid method retries =
      (Inl (RuntimeError [''legacy private NATS RPC compatibility is disabled; cannot '', ''invoke legacy method '', method,
         ''; use the a2a.v1 binding or explicitly opt in'']), [])"
proof
  have "violation (rpc_request rid method params) = None"
    using assms(1) rpc_request_facts(1) [OF assms(2), of rid params] by (simp add: schema_law_def)
  then have r: "on_rpc violation h (Some (rpc_request rid method params)) st = (case legacy_dispatch h (u method) params st of
         (Inr r, st') \<Rightarrow> (result_body (JStr rid) r, st')
       | (Inl (JsonRpcError c m), st') \<Rightarrow> (error_body (JStr rid) c (u (concat m)), st')
       | (Inl _, st') \<Rightarrow> (error_body (JStr rid) (-32603) (u ''internal error''), st'))"
    by (cases "legacy_dispatch h (u method) params st")
      (auto simp: on_rpc_def rpc_request_facts(2,3) [OF assms(2)] split: sum.splits pyerr.splits)
  have "rpc_attempts net rid 1 (nat (retries - 1)) =
      (read_response rid (Some (JObj (fst (on_rpc violation h (Some (rpc_request rid method params)) st)))), map (\<lambda>i. 2 ^ nat (1 + int i - 1)) [0..<k])"
    using rpc_attempts_eq [of k "nat (retries - 1)" net 1 rid] assms(4-6) by simp
  moreover have "read_response rid (Some (JObj (fst (on_rpc violation h (Some (rpc_request rid method params)) st)))) =
      (case fst (legacy_dispatch h (u method) params st) of
         Inr r \<Rightarrow> Inr r
       | Inl (JsonRpcError c m) \<Rightarrow> Inl (JsonRpcError c [show_ustr (u (concat m))])
       | Inl _ \<Rightarrow> Inl (JsonRpcError (-32603) [show_ustr (u ''internal error'')]))"
    unfolding r by (cases "legacy_dispatch h (u method) params st") (auto simp: read_result read_error split: sum.splits pyerr.splits)
  ultimately show "legacy_rpc True net agent rid method retries =
      (case fst (legacy_dispatch h (u method) params st) of
         Inr r \<Rightarrow> Inr r
       | Inl (JsonRpcError c m) \<Rightarrow> Inl (JsonRpcError c [show_ustr (u (concat m))])
       | Inl _ \<Rightarrow> Inl (JsonRpcError (-32603) [show_ustr (u ''internal error'')]), map (\<lambda>i. 2 ^ i) [0..<k])"
    using legacy_rpc_enabled [OF assms(2,3)] assms(4) by simp
qed (simp add: legacy_rpc_def require_enabled_def checked.simps)

text \<open>Every message gets one response, with the identifier of the request and either a result or an error.\<close>

lemma on_rpc_answers:
  "\<exists>rid r c m. fst (on_rpc violation h body st) = result_body rid r \<or> fst (on_rpc violation h body st) = error_body rid c m"
  by (auto simp: on_rpc_def split: option.splits prod.splits bool.splits sum.splits pyerr.splits)

text \<open>A handler that answers with the state, behind a network that fails once.\<close>

definition demo_handler :: "ustr legacy_handler" where
  "demo_handler = (let h = (\<lambda>p st. (Inr (JStr st), st)) in \<lparr> lh_handle_task = h, lh_handle_task_stream = h, lh_get_task = h, lh_cancel = h, lh_call_tool = h \<rparr>)"

definition demo_violation :: violation where
  "demo_violation v = (if rpc_schema v then None else Some (False, []))"

definition demo_net :: "int \<Rightarrow> network" where
  "demo_net n = (if n = 1 then Transient (RuntimeError [''timeout'']) else
     Reply (Some (JObj (fst (on_rpc demo_violation demo_handler (Some (rpc_request (u ''r1'') ''tasks/get'' [])) (u ''done''))))))"

theorem legacy_rpc_roundtrip_witness:
  "legacy_rpc True demo_net (u ''worker'') (u ''r1'') ''tasks/get'' 3 = (Inr (JStr (u ''done'')), [1])"
proof -
  have "schema_law demo_violation" by (simp add: schema_law_def demo_violation_def)
  moreover have "''tasks/get'' \<in> set LEGACY_PRIVATE_RPC_METHODS" "safe_agent_token (u ''worker'')" by code_simp+
  moreover have "fst (legacy_dispatch demo_handler (u ''tasks/get'') [] (u ''done'')) = Inr (JStr (u ''done''))"
    by (simp add: legacy_dispatch_def demo_handler_def Let_def u_eq_iff)
  ultimately show ?thesis
    using legacy_rpc_roundtrip [of demo_violation "''tasks/get''" "u ''worker''" 1 3 demo_net demo_handler "u ''r1''" "[]" "u ''done''"]
    by (simp add: demo_net_def)
qed

end
