(* ===== verification/Memory.thy ===== *)
theory Memory
  imports Models
begin

text \<open>
  The session store (\<open>memory/store.py\<close>): \<open>session_append\<close>, an optimistic update of a key of a JetStream key-value bucket, retried up to
  eight times when another writer was faster.

  The bucket is not part of the sources: its operations are the parameter \<open>kv\<close>, with their documented behaviour as the predicate
  \<open>kv_law\<close>. A write gives its key a revision that was never used before, \<open>create\<close> succeeds exactly when the key is absent, and
  \<open>update\<close> exactly when the key still has the revision that was read. A stored history is the list that \<open>json.loads\<close> reads
  from the stored text. Between reading and writing, an appender waits for the network, so other appenders may come in between:
  a run is a list of the appenders' identifiers, each entry letting that appender do its next call of the bucket.
\<close>

section \<open>The bucket\<close>

record 'b kv =
  kv_get :: "'b \<Rightarrow> ustr \<Rightarrow> (json list \<times> nat) option"
  kv_create :: "'b \<Rightarrow> ustr \<Rightarrow> json list \<Rightarrow> 'b option"           \<comment> \<open>\<open>None\<close>: \<open>KeyWrongLastSequenceError\<close>\<close>
  kv_update :: "'b \<Rightarrow> ustr \<Rightarrow> json list \<Rightarrow> nat \<Rightarrow> 'b option"
  kv_high :: "'b \<Rightarrow> nat"                                    \<comment> \<open>the last revision of the bucket\<close>

definition wrote :: "'b kv \<Rightarrow> 'b \<Rightarrow> ustr \<Rightarrow> json list \<Rightarrow> 'b \<Rightarrow> bool" where
  "wrote kv b k v b' \<longleftrightarrow> (\<exists>r. kv_high kv b < r \<and> kv_high kv b' = r \<and> kv_get kv b' k = Some (v, r)) \<and> (\<forall>j. j \<noteq> k \<longrightarrow> kv_get kv b' j = kv_get kv b j)"

definition kv_law :: "'b kv \<Rightarrow> bool" where
  "kv_law kv \<longleftrightarrow>
     (\<forall>b k v. (kv_create kv b k v = None \<longleftrightarrow> kv_get kv b k \<noteq> None) \<and> (\<forall>b'. kv_create kv b k v = Some b' \<longrightarrow> wrote kv b k v b')) \<and>
     (\<forall>b k v rvn. (kv_update kv b k v rvn = None \<longleftrightarrow> (\<nexists>w. kv_get kv b k = Some (w, rvn))) \<and>
        (\<forall>b'. kv_update kv b k v rvn = Some b' \<longrightarrow> wrote kv b k v b')) \<and>
     (\<forall>b k v r. kv_get kv b k = Some (v, r) \<longrightarrow> r \<le> kv_high kv b)"

section \<open>Appending\<close>

text \<open>Where an appender stands: about to read, with the attempts left; about to write what it has read; ended.\<close>

datatype append_phase = Reading nat | Writing nat "(json list \<times> nat) option" | Appended | Gave_up

record appender =
  ap_session :: ustr
  ap_message :: json
  ap_phase :: append_phase

definition session_append :: "ustr \<Rightarrow> json \<Rightarrow> appender" where
  "session_append session_id message = \<lparr> ap_session = session_id, ap_message = message, ap_phase = Reading 8 \<rparr>"

text \<open>\<open>continue\<close> after a lost race, with the error after the last attempt.\<close>

definition next_attempt :: "nat \<Rightarrow> append_phase" where
  "next_attempt n = (if n = 0 then Gave_up else Reading n)"

fun append_call :: "'b kv \<Rightarrow> appender \<Rightarrow> 'b \<Rightarrow> append_phase \<times> 'b" where
  "append_call kv a b = (case ap_phase a of
     Reading n \<Rightarrow> (Writing (n - 1) (kv_get kv b (ap_session a)), b)
   | Writing n None \<Rightarrow> (case kv_create kv b (ap_session a) [ap_message a] of
       Some b' \<Rightarrow> (Appended, b') | None \<Rightarrow> (next_attempt n, b))
   | Writing n (Some (hist, rvn)) \<Rightarrow> (case kv_update kv b (ap_session a) (hist @ [ap_message a]) rvn of
       Some b' \<Rightarrow> (Appended, b') | None \<Rightarrow> (next_attempt n, b))
   | ph \<Rightarrow> (ph, b))"

definition session_get :: "'b kv \<Rightarrow> 'b \<Rightarrow> ustr \<Rightarrow> json list" where
  "session_get kv b session_id = (case kv_get kv b session_id of None \<Rightarrow> [] | Some (hist, _) \<Rightarrow> hist)"

text \<open>The appenders and the bucket, and one call of appender \<open>i\<close>.\<close>

type_synonym 'b store = "appender list \<times> 'b"

definition store_call :: "'b kv \<Rightarrow> nat \<Rightarrow> 'b store \<Rightarrow> 'b store" where
  "store_call kv i s = (case s of (as, b) \<Rightarrow>
     if i < length as then (case append_call kv (as ! i) b of (ph, b') \<Rightarrow> (as[i := (as ! i)\<lparr> ap_phase := ph \<rparr>], b')) else s)"

fun store_calls :: "'b kv \<Rightarrow> nat list \<Rightarrow> 'b store \<Rightarrow> 'b store" where
  "store_calls kv [] s = s"
| "store_calls kv (i # is) s = store_calls kv is (store_call kv i s)"

section \<open>No append is lost\<close>

text \<open>The appenders whose write succeeds, in the order of the writes.\<close>

fun winners :: "'b kv \<Rightarrow> nat list \<Rightarrow> 'b store \<Rightarrow> nat list" where
  "winners kv [] s = []"
| "winners kv (i # is) s = (if i < length (fst s) \<and> ap_phase (fst s ! i) \<noteq> Appended \<and> ap_phase (fst (store_call kv i s) ! i) = Appended
     then [i] else []) @ winners kv is (store_call kv i s)"

text \<open>What an appender has read is still the value of that revision, as long as the revision is current.\<close>

definition read_ok :: "'b kv \<Rightarrow> 'b \<Rightarrow> appender \<Rightarrow> bool" where
  "read_ok kv b a \<longleftrightarrow> (\<forall>n hist rvn. ap_phase a = Writing n (Some (hist, rvn)) \<longrightarrow>
     rvn \<le> kv_high kv b \<and> (\<forall>w. kv_get kv b (ap_session a) = Some (w, rvn) \<longrightarrow> w = hist))"

lemma wrote_read_ok:
  assumes "wrote kv b k v b'" "read_ok kv b a"
  shows "read_ok kv b' a"
proof -
  obtain r where r: "kv_high kv b < r" "kv_high kv b' = r" "kv_get kv b' k = Some (v, r)" "\<forall>j. j \<noteq> k \<longrightarrow> kv_get kv b' j = kv_get kv b j"
    using assms(1) by (auto simp: wrote_def)
  show ?thesis using assms(2) r by (cases "ap_session a = k") (fastforce simp: read_ok_def)+
qed

lemma read_ok_other: "read_ok kv b (a\<lparr> ap_phase := ph \<rparr>)" if "\<forall>n e. ph \<noteq> Writing n (Some e)"
  using that by (auto simp: read_ok_def)

lemma kv_create_ok: "kv_law kv \<Longrightarrow> kv_create kv b k v = Some b' \<Longrightarrow> kv_get kv b k = None \<and> wrote kv b k v b'"
  unfolding kv_law_def by (metis option.distinct(1))

lemma kv_update_ok: "kv_law kv \<Longrightarrow> kv_update kv b k v rvn = Some b' \<Longrightarrow> (\<exists>w. kv_get kv b k = Some (w, rvn)) \<and> wrote kv b k v b'"
  unfolding kv_law_def by (metis option.distinct(1))

text \<open>One call: either it appends the appender's message to its session, or it leaves the bucket alone.\<close>

lemma append_call_effect:
  assumes "kv_law kv" "read_ok kv b a" "append_call kv a b = (ph, b')"
  shows "(\<forall>a'. read_ok kv b a' \<longrightarrow> read_ok kv b' a') \<and> read_ok kv b' (a\<lparr> ap_phase := ph \<rparr>) \<and>
    (\<forall>k. session_get kv b' k = session_get kv b k @ (if ph = Appended \<and> ap_phase a \<noteq> Appended \<and> k = ap_session a then [ap_message a] else []))"
proof (cases "ap_phase a")
  case (Reading n)
  then have "ph = Writing (n - 1) (kv_get kv b (ap_session a))" "b' = b" using assms(3) by auto
  moreover have "\<forall>v r. kv_get kv b (ap_session a) = Some (v, r) \<longrightarrow> r \<le> kv_high kv b" using assms(1) by (auto simp: kv_law_def)
  ultimately show ?thesis by (auto simp: read_ok_def)
next
  case (Writing n seen)
  let ?s = "ap_session a"
  define old where "old = (case seen of None \<Rightarrow> [] | Some (hist, _) \<Rightarrow> hist)"
  have cases: "b' = b \<and> ph = next_attempt n \<or> ph = Appended \<and> session_get kv b ?s = old \<and> wrote kv b ?s (old @ [ap_message a]) b'"
  proof (cases seen)
    case None
    then show ?thesis using kv_create_ok [OF assms(1)] assms(3) Writing by (fastforce simp: old_def session_get_def split: option.splits)
  next
    case (Some e)
    obtain hist rvn where e: "e = (hist, rvn)" by fastforce
    have same: "kv_get kv b ?s = Some (w, rvn) \<Longrightarrow> w = hist" for w using assms(2) Writing Some e by (auto simp: read_ok_def)
    have upd: "kv_update kv b ?s (hist @ [ap_message a]) rvn = Some b1 \<Longrightarrow> wrote kv b ?s (hist @ [ap_message a]) b1 \<and> kv_get kv b ?s = Some (hist, rvn)" for b1
      using kv_update_ok [OF assms(1)] same by blast
    show ?thesis using assms(3) Writing Some e upd by (auto simp: old_def session_get_def split: option.splits)
  qed
  then show ?thesis
  proof
    assume k: "b' = b \<and> ph = next_attempt n"
    then have "ph \<noteq> Appended" "read_ok kv b (a\<lparr> ap_phase := ph \<rparr>)" by (auto simp: next_attempt_def intro!: read_ok_other)
    then show ?thesis using k by simp
  next
    assume w: "ph = Appended \<and> session_get kv b ?s = old \<and> wrote kv b ?s (old @ [ap_message a]) b'"
    then have g: "session_get kv b' k = (if k = ?s then old @ [ap_message a] else session_get kv b k)" for k
      by (auto simp: wrote_def session_get_def)
    have "read_ok kv b' (a\<lparr> ap_phase := ph \<rparr>)" using w by (auto intro!: read_ok_other)
    then show ?thesis using w g Writing wrote_read_ok by auto
  qed
qed (use assms(2,3) in \<open>simp_all add: read_ok_def\<close>)

lemma store_call_effect:
  assumes "kv_law kv" "\<forall>a \<in> set as. read_ok kv b a" "store_call kv i (as, b) = (as', b')"
  shows "(\<forall>a \<in> set as'. read_ok kv b' a) \<and> map ap_session as' = map ap_session as \<and> map ap_message as' = map ap_message as \<and>
    (\<forall>k. session_get kv b' k = session_get kv b k @
      (if i < length as \<and> ap_phase (as ! i) \<noteq> Appended \<and> ap_phase (as' ! i) = Appended \<and> ap_session (as ! i) = k then [ap_message (as ! i)] else []))"
proof (cases "i < length as")
  case True
  obtain ph b1 where c: "append_call kv (as ! i) b = (ph, b1)" by fastforce
  then have r: "as' = as[i := (as ! i)\<lparr> ap_phase := ph \<rparr>]" "b' = b1" using assms(3) True by (simp_all add: store_call_def)
  note e = append_call_effect [OF assms(1) _ c]
  have "read_ok kv b (as ! i)" using assms(2) True by simp
  note e = append_call_effect [OF assms(1) this c]
  have "\<forall>a \<in> set as'. read_ok kv b' a" using e assms(2) unfolding r by (auto dest!: set_update_subset_insert [THEN subsetD])
  moreover have "map ap_session as' = map ap_session as" "map ap_message as' = map ap_message as"
    by (simp_all add: r map_update True list_update_same_conv)
  ultimately show ?thesis using e True unfolding r by auto
qed (use assms in \<open>simp add: store_call_def\<close>)

lemma store_call_ended: "ap_phase (fst s ! i) = Appended \<Longrightarrow> i < length (fst s) \<Longrightarrow> ap_phase (fst (store_call kv j s) ! i) = Appended"
  by (cases s) (auto simp: store_call_def nth_list_update split: prod.splits)

lemma store_call_length: "length (fst (store_call kv j s)) = length (fst s)"
  by (cases s) (auto simp: store_call_def split: prod.splits)

lemma store_call_other: "i \<noteq> j \<Longrightarrow> fst (store_call kv j s) ! i = fst s ! i"
  by (cases s) (auto simp: store_call_def split: prod.splits)

lemma winners_ended:
  "set (winners kv is s) = {i. i < length (fst s) \<and> ap_phase (fst s ! i) \<noteq> Appended \<and> ap_phase (fst (store_calls kv is s) ! i) = Appended} \<and>
   distinct (winners kv is s)"
proof (induction "is" arbitrary: s)
  case (Cons j js)
  let ?s = "store_call kv j s"
  have e: "ap_phase (fst (store_calls kv is s) ! i) = Appended" if "ap_phase (fst s ! i) = Appended" "i < length (fst s)" for i s "is"
    using that by (induction "is" arbitrary: s) (simp_all add: store_call_ended store_call_length)
  show ?case using Cons.IH [of ?s] e [of ?s j js] store_call_other [of _ j kv s] store_call_ended [of s j kv j]
    by (auto simp: store_call_length) (metis store_call_other)+
qed auto

lemma appends_recorded:
  assumes "kv_law kv" "\<forall>a \<in> set as. read_ok kv b a"
  shows "session_get kv (snd (store_calls kv is (as, b))) k =
    session_get kv b k @ map (\<lambda>i. ap_message (as ! i)) (filter (\<lambda>i. ap_session (as ! i) = k) (winners kv is (as, b)))"
  using assms(2)
proof (induction "is" arbitrary: as b)
  case (Cons j js)
  obtain as' b' where s: "store_call kv j (as, b) = (as', b')" by fastforce
  note e = store_call_effect [OF assms(1) Cons.prems s]
  have len: "length as' = length as" using e by (metis length_map)
  have same: "ap_session (as' ! i) = ap_session (as ! i)" "ap_message (as' ! i) = ap_message (as ! i)" if "i < length as" for i
    using e that len by (metis nth_map)+
  have lt: "i < length as" if "i \<in> set (winners kv js (as', b'))" for i using that winners_ended [of kv js "(as', b')"] len by auto
  have f: "filter (\<lambda>i. ap_session (as' ! i) = k) (winners kv js (as', b')) = filter (\<lambda>i. ap_session (as ! i) = k) (winners kv js (as', b'))"
    by (rule filter_cong) (auto simp: same lt)
  have "map (\<lambda>i. ap_message (as' ! i)) (filter (\<lambda>i. ap_session (as ! i) = k) (winners kv js (as', b'))) =
      map (\<lambda>i. ap_message (as ! i)) (filter (\<lambda>i. ap_session (as ! i) = k) (winners kv js (as', b')))"
    by (rule map_cong) (auto simp: same lt)
  then show ?case using Cons.IH [of as' b'] e by (simp add: s f)
qed simp

section \<open>Property\<close>

text \<open>
  C36. No append is lost or doubled: however the reads and writes of concurrent appenders to any sessions interleave, the history of
  a session is its old history followed by the messages of exactly those of its appenders that returned, once each, in the
  order of their writes; an appender that gave up has left no trace. An appender alone on its session succeeds.
\<close>
theorem session_append_linearizable:
  assumes "kv_law kv" and "as = map (\<lambda>(sid, m). session_append sid m) requests"
  shows "(let done_order = winners kv calls (as, b); final = store_calls kv calls (as, b) in
      distinct done_order \<and> set done_order = {i. i < length requests \<and> ap_phase (fst final ! i) = Appended} \<and>
      session_get kv (snd final) k = session_get kv b k @ map (\<lambda>i. snd (requests ! i)) (filter (\<lambda>i. fst (requests ! i) = k) done_order)) \<and>
    ap_phase (fst (store_calls kv [0, 0] ([session_append k m], b)) ! 0) = Appended"
proof
  have r: "\<forall>a \<in> set as. read_ok kv b a" by (auto simp: assms(2) session_append_def read_ok_def)
  have nth: "ap_phase (as ! i) \<noteq> Appended" "ap_session (as ! i) = fst (requests ! i)" "ap_message (as ! i) = snd (requests ! i)"
    if "i < length requests" for i using that by (simp_all add: assms(2) session_append_def case_prod_beta)
  have len: "length as = length requests" by (simp add: assms(2))
  note w = winners_ended [of kv calls "(as, b)"]
  have lt: "i < length requests" if "i \<in> set (winners kv calls (as, b))" for i using w that len by auto
  have "filter (\<lambda>i. ap_session (as ! i) = k) (winners kv calls (as, b)) = filter (\<lambda>i. fst (requests ! i) = k) (winners kv calls (as, b))"
    by (rule filter_cong) (auto simp: nth lt)
  moreover have "map (\<lambda>i. ap_message (as ! i)) (filter (\<lambda>i. fst (requests ! i) = k) (winners kv calls (as, b))) =
      map (\<lambda>i. snd (requests ! i)) (filter (\<lambda>i. fst (requests ! i) = k) (winners kv calls (as, b)))"
    by (rule map_cong) (auto simp: nth lt)
  ultimately show "let done_order = winners kv calls (as, b); final = store_calls kv calls (as, b) in
      distinct done_order \<and> set done_order = {i. i < length requests \<and> ap_phase (fst final ! i) = Appended} \<and>
      session_get kv (snd final) k = session_get kv b k @ map (\<lambda>i. snd (requests ! i)) (filter (\<lambda>i. fst (requests ! i) = k) done_order)"
    using w appends_recorded [OF assms(1) r, of calls k] nth len by (auto simp: Let_def)
  show "ap_phase (fst (store_calls kv [0, 0] ([session_append k m], b)) ! 0) = Appended"
    using assms(1) by (auto simp: store_call_def session_append_def kv_law_def split: option.splits prod.splits)
qed

text \<open>A bucket as the log of its writes, newest first, and two appenders that both read before either writes.\<close>

type_synonym demo_bucket = "(ustr \<times> json list) list"

fun log_get :: "demo_bucket \<Rightarrow> ustr \<Rightarrow> (json list \<times> nat) option" where
  "log_get [] k = None"
| "log_get ((j, v) # log) k = (if j = k then Some (v, Suc (length log)) else log_get log k)"

definition demo_kv :: "demo_bucket kv" where
  "demo_kv = \<lparr> kv_get = log_get,
     kv_create = (\<lambda>log k v. if log_get log k = None then Some ((k, v) # log) else None),
     kv_update = (\<lambda>log k v r. case log_get log k of None \<Rightarrow> None | Some (w, r') \<Rightarrow> if r' = r then Some ((k, v) # log) else None),
     kv_high = length \<rparr>"

lemma demo_kv_law: "kv_law demo_kv"
proof -
  have "r \<le> length log" if "log_get log k = Some (v, r)" for log k v r
    using that by (induction log k rule: log_get.induct) (auto split: if_splits)
  then show ?thesis by (auto simp: kv_law_def demo_kv_def wrote_def split: option.splits if_splits)
qed

theorem session_append_linearizable_witness:
  "session_get demo_kv (snd (store_calls demo_kv [0, 1, 1, 0, 0, 0] (map (\<lambda>(sid, m). session_append sid m) [(u ''s'', JInt 1), (u ''s'', JInt 2)], []))) (u ''s'')
    = [JInt 2, JInt 1]"
proof -
  let ?as = "map (\<lambda>(sid, m). session_append sid m) [(u ''s'', JInt 1), (u ''s'', JInt 2)]"
  have "winners demo_kv [0, 1, 1, 0, 0, 0] (?as, []) = [1, 0]" by code_simp
  then show ?thesis using session_append_linearizable [OF demo_kv_law refl, of "[0, 1, 1, 0, 0, 0]" "[(u ''s'', JInt 1), (u ''s'', JInt 2)]" "[]" "u ''s''"]
    by (simp add: Let_def session_get_def demo_kv_def)
qed

end
