(* ===== verification/McpBridge.thy ===== *)
theory McpBridge
  imports Claims Operations
begin

text \<open>
  The MCP server bridge (\<open>mcp_bridge/server.py\<close>): the tools that submit, read and cancel tasks of the mesh, with the table of
  submissions that makes \<open>mesh_submit_task\<close> idempotent. What the mesh client answers is an argument.
\<close>

definition message_id_char :: "nat \<Rightarrow> bool" where
  "message_id_char c \<longleftrightarrow> 65 \<le> c \<and> c \<le> 90 \<or> 97 \<le> c \<and> c \<le> 122 \<or> 48 \<le> c \<and> c \<le> 57 \<or> c \<in> {46, 95, 58, 45}"

definition message_id_text :: "ustr \<Rightarrow> bool" where
  "message_id_text s \<longleftrightarrow> 8 \<le> length s \<and> length s \<le> 128 \<and> list_all message_id_char s"

definition validate_target :: "ustr \<Rightarrow> check list" where
  "validate_target target = [Check (agent_id_text target) (ValueError [''invalid targetAgentId''])]"

definition validate_message_id :: "ustr \<Rightarrow> check list" where
  "validate_message_id mid = [Check (message_id_text mid) (ValueError [''messageId must be 8-128 safe characters''])]"

record TaskHandle =
  th_task_id :: ustr
  th_state :: string
  th_resource_uri :: ustr
  th_deduplication :: "string option"

definition task_handle :: "Task \<Rightarrow> string option \<Rightarrow> TaskHandle" where
  "task_handle t dedup = \<lparr> th_task_id = task_id t, th_state = task_status_value (task_status t),
     th_resource_uri = u ''a2amesh://tasks/'' @ task_id t, th_deduplication = dedup \<rparr>"

definition payload_hash :: "ustr \<Rightarrow> ustr option \<Rightarrow> ustr result" where
  "payload_hash text runtime = bindE (enc_utf8 (py_dumps ascii_string (JObj (dict_of
     [(u ''text'', JStr text), (u ''runtime'', (case runtime of None \<Rightarrow> JNull | Some r \<Rightarrow> JStr r))])))) (\<lambda>bs. Inr (sha256_hex bs))"

type_synonym submissions = "ustr \<times> ustr \<rightharpoonup> ustr"

datatype bridge_reply =
    Bridge_refused pyerr
  | Bridge_created "ustr \<times> ustr" ustr "TaskHandle result"
  | Bridge_duplicate "ustr \<times> ustr" ustr "TaskHandle result"

text \<open>The guards of \<open>mesh_submit_task\<close> and the hash of its payload.\<close>

definition submission_hash :: "ustr \<Rightarrow> ustr \<Rightarrow> ustr \<Rightarrow> ustr option \<Rightarrow> ustr result" where
  "submission_hash target mid text runtime = checked (validate_target target @ validate_message_id mid @
     [Check (text \<noteq> [] \<and> length text \<le> 65536) (ValueError [''text must contain 1-65536 characters''])]) (payload_hash text runtime)"

text \<open>\<open>answer\<close> is what \<open>client.send_message\<close> does with the task identifier \<open>messageId\<close>.\<close>

definition mesh_submit_task :: "submissions \<Rightarrow> ustr \<Rightarrow> ustr \<Rightarrow> ustr \<Rightarrow> ustr option \<Rightarrow> Task result \<Rightarrow> submissions \<times> bridge_reply" where
  "mesh_submit_task subs target mid text runtime answer =
     (case submission_hash target mid text runtime of
        Inl e \<Rightarrow> (subs, Bridge_refused e)
      | Inr hash \<Rightarrow> (case subs (target, mid) of
          Some existing \<Rightarrow>
            if existing \<noteq> hash then (subs, Bridge_refused (ValueError [''messageId already used with different payload'']))
            else (subs((target, mid) \<mapsto> hash), Bridge_duplicate (target, mid) hash (bindE answer (\<lambda>t. Inr (task_handle t (Some ''DUPLICATE_SAME'')))))
        | None \<Rightarrow> (subs((target, mid) \<mapsto> hash), Bridge_created (target, mid) hash (bindE answer (\<lambda>t. Inr (task_handle t (Some ''CREATED'')))))))"

definition mesh_get_task :: "ustr \<Rightarrow> Task result \<Rightarrow> TaskHandle result" where
  "mesh_get_task target answer = checked (validate_target target) (bindE answer (\<lambda>t. Inr (task_handle t None)))"

definition mesh_cancel_task :: "ustr \<Rightarrow> Task result \<Rightarrow> TaskHandle result" where
  "mesh_cancel_task target answer = checked (validate_target target) (bindE answer (\<lambda>t. Inr (task_handle t None)))"

datatype submission = Submit ustr ustr ustr "ustr option" "Task result"

fun bridge_step :: "submission \<Rightarrow> submissions \<Rightarrow> submissions \<times> bridge_reply" where
  "bridge_step (Submit target mid text runtime answer) subs = mesh_submit_task subs target mid text runtime answer"

fun bridge_claims :: "bridge_reply \<Rightarrow> ((ustr \<times> ustr) \<times> ustr) option" where
  "bridge_claims (Bridge_created key hash r) = Some (key, hash)"
| "bridge_claims r = None"

fun bridge_joins :: "bridge_reply \<Rightarrow> ((ustr \<times> ustr) \<times> ustr) option" where
  "bridge_joins (Bridge_duplicate key hash r) = Some (key, hash)"
| "bridge_joins r = None"

interpretation bridge: claim_table bridge_step "\<lambda>_. True" "\<lambda>subs. subs" bridge_claims bridge_joins
proof (unfold_locales, rule TrueI)
  fix e s k f
  show "s k = None \<and> fst (bridge_step e s) = s(k \<mapsto> f)" if "bridge_claims (snd (bridge_step e s)) = Some (k, f)"
    using that by (cases e) (auto simp: mesh_submit_task_def split: sum.splits option.splits if_splits)
  show "s k = Some f" if "bridge_joins (snd (bridge_step e s)) = Some (k, f)"
    using that by (cases e) (auto simp: mesh_submit_task_def split: sum.splits option.splits if_splits)
  show "fst (bridge_step e s) = s" if "bridge_claims (snd (bridge_step e s)) = None"
    using that by (cases e) (auto simp: mesh_submit_task_def fun_upd_idem split: sum.splits option.splits if_splits)
qed

text \<open>Over any sequence of submissions, \<open>CREATED\<close> is reported at most once per target and message identifier, and the payloads
  accepted under one identifier have one hash.\<close>

lemma bridge_created_once:
  "case run_steps bridge_step Map.empty es of (rs, subs) \<Rightarrow>
     distinct (map fst (List.map_filter bridge_claims rs)) \<and>
     (\<forall>(key, hash) \<in> set (List.map_filter (accepted bridge_claims bridge_joins) rs). subs key = Some hash)"
  using bridge.claims_once [of Map.empty es] by (auto split: prod.splits)

end
