(* ===== verification/PeerRuntime.thy ===== *)
theory PeerRuntime
  imports Claims
begin




















end
