(* ===== verification/Adapters.thy ===== *)
theory Adapters
  imports Models
begin

text \<open>
  The runtime adapters (\<open>runtime/adapters\<close>), the decision logic of the executor (\<open>runtime/executor.py\<close>) and the validation of the
  configuration (\<open>config.py\<close>, the alias of \<open>tools/mcp/connector.py\<close>).

  Processes are not modelled: the executor is given what happened first, and the texts a process printed, decoded with
  \<open>errors="replace"\<close>. \<open>urlsplit\<close> is the parameter \<open>split_url\<close> (scheme and host name). The patterns of regular expressions are
  predicates.
\<close>

section \<open>Command lines\<close>

text \<open>The options the adapters read.\<close>

record opts =
  opt_full_auto :: bool
  opt_danger_full_access :: bool
  opt_max_turns :: int            \<comment> \<open>\<open>0\<close>: absent\<close>
  opt_output_json :: bool
  opt_model :: ustr               \<comment> \<open>empty: absent\<close>

definition no_opts :: opts where
  "no_opts = \<lparr> opt_full_auto = False, opt_danger_full_access = False, opt_max_turns = 0, opt_output_json = False, opt_model = [] \<rparr>"

definition claude_flags :: "opts \<Rightarrow> ustr list" where
  "claude_flags opts = (if opt_max_turns opts \<noteq> 0 then [u ''--max-turns'', str_int (opt_max_turns opts)] else []) @
     (if opt_output_json opts then [u ''--output-format'', u ''json''] else [])"

definition model_flags :: "opts \<Rightarrow> ustr list" where
  "model_flags opts = (if opt_model opts \<noteq> [] then [u ''--model'', opt_model opts] else [])"

definition danger_flags :: "opts \<Rightarrow> ustr list" where
  "danger_flags opts = (if opt_danger_full_access opts then [u ''--dangerously-bypass-approvals-and-sandbox''] else [])"

definition hermes_command :: "ustr \<Rightarrow> opts \<Rightarrow> ustr list" where
  "hermes_command prompt opts = [u ''hermes'', u ''chat'', u ''-q'', prompt, u ''-Q'']"

definition codex_command :: "ustr \<Rightarrow> opts \<Rightarrow> ustr list" where
  "codex_command prompt opts = [u ''codex'', u ''exec''] @ (if opt_full_auto opts then [u ''--approve-for-me''] else []) @ danger_flags opts @ [prompt]"

definition claude_command :: "ustr \<Rightarrow> opts \<Rightarrow> ustr list" where
  "claude_command prompt opts = [u ''claude'', u ''-p''] @ claude_flags opts @ [prompt]"

definition opencode_command :: "ustr \<Rightarrow> opts \<Rightarrow> ustr list" where
  "opencode_command prompt opts = [u ''opencode'', u ''run'', prompt] @ model_flags opts"

fun adapter_command :: "runtime_name \<Rightarrow> ustr \<Rightarrow> opts \<Rightarrow> ustr list" where
  "adapter_command Hermes = hermes_command"
| "adapter_command Codex = codex_command"
| "adapter_command Claude = claude_command"
| "adapter_command Opencode = opencode_command"

definition hermes_resume :: "ustr \<Rightarrow> ustr \<Rightarrow> opts \<Rightarrow> ustr list" where
  "hermes_resume sid prompt opts = [u ''hermes'', u ''chat'', u ''--resume'', sid, u ''-q'', prompt, u ''-Q'']"

definition codex_resume :: "ustr \<Rightarrow> ustr \<Rightarrow> opts \<Rightarrow> ustr list" where
  "codex_resume sid prompt opts = [u ''codex'', u ''exec'', u ''resume''] @ danger_flags opts @ [sid, prompt]"

definition claude_resume :: "ustr \<Rightarrow> ustr \<Rightarrow> opts \<Rightarrow> ustr list" where
  "claude_resume sid prompt opts = [u ''claude'', u ''-p'', u ''--resume'', sid] @ claude_flags opts @ [prompt]"

definition opencode_resume :: "ustr \<Rightarrow> ustr \<Rightarrow> opts \<Rightarrow> ustr list" where
  "opencode_resume sid prompt opts = [u ''opencode'', u ''run'', u ''--session'', sid] @ model_flags opts @ [prompt]"

fun resume_command :: "runtime_name \<Rightarrow> ustr \<Rightarrow> ustr \<Rightarrow> opts \<Rightarrow> ustr list" where
  "resume_command Hermes = hermes_resume"
| "resume_command Codex = codex_resume"
| "resume_command Claude = claude_resume"
| "resume_command Opencode = opencode_resume"

lemmas command_defs = hermes_command_def codex_command_def claude_command_def opencode_command_def
  hermes_resume_def codex_resume_def claude_resume_def opencode_resume_def

fun adapter_binary :: "runtime_name \<Rightarrow> ustr" where
  "adapter_binary Hermes = u ''hermes''"
| "adapter_binary Codex = u ''codex''"
| "adapter_binary Claude = u ''claude''"
| "adapter_binary Opencode = u ''opencode''"

definition ALL_ADAPTERS :: "runtime_name list" where
  "ALL_ADAPTERS = [Hermes, Codex, Claude, Opencode]"

text \<open>\<open>which\<close> says whether a binary is on the path.\<close>

definition detect_adapters :: "(ustr \<Rightarrow> bool) \<Rightarrow> runtime_name list" where
  "detect_adapters which = filter (\<lambda>a. which (adapter_binary a)) ALL_ADAPTERS"

section \<open>The executor\<close>

record TaskResult =
  tr_ok :: bool
  tr_output :: ustr

definition adapter_parse :: "ustr \<Rightarrow> ustr \<Rightarrow> int \<Rightarrow> TaskResult" where
  "adapter_parse stdout stderr rc = (let out = strip stdout; err = strip stderr in
     \<lparr> tr_ok = (rc = 0), tr_output = (if out \<noteq> [] then out else if err \<noteq> [] then err else u ''exit '' @ str_int rc) \<rparr>)"

text \<open>What ends a run: \<open>asyncio.wait\<close> finds the process done (with the lines and the exit code) or the cancel event set, or both;
  the timeout; a cancellation of the caller; or an exception of the reader, which forwards lines to the stream of the caller.\<close>

datatype race = Exited bool "ustr list" ustr "int option" | Cancel_event | Timed_out | Caller_cancelled | Reader_failed pyerr

datatype run_end = Run_result TaskResult | Run_cancelled | Run_raised pyerr

definition executor_command :: "runtime_name \<Rightarrow> ustr \<Rightarrow> ustr option \<Rightarrow> opts \<Rightarrow> ustr list" where
  "executor_command a prompt session_id opts = (case session_id of
     Some (c # cs) \<Rightarrow> resume_command a (c # cs) prompt opts
   | _ \<Rightarrow> adapter_command a prompt opts)"

text \<open>A cancel event wins over a process that has ended as well: the flag of \<open>Exited\<close> says that both were done.\<close>

definition canceled_result :: TaskResult where
  "canceled_result = \<lparr> tr_ok = False, tr_output = u ''canceled'' \<rparr>"

fun executor_result :: "race \<Rightarrow> run_end" where
  "executor_result (Exited cancelled chunks stderr rc) =
     Run_result (if cancelled then canceled_result else adapter_parse (concat chunks) stderr (case rc of None \<Rightarrow> 0 | Some r \<Rightarrow> r))"
| "executor_result Cancel_event = Run_result canceled_result"
| "executor_result Timed_out = Run_result \<lparr> tr_ok = False, tr_output = u ''timeout'' \<rparr>"
| "executor_result Caller_cancelled = Run_cancelled"
| "executor_result (Reader_failed e) = Run_raised e"

text \<open>The line events of a streaming run.\<close>

definition artifact_update :: "ustr \<Rightarrow> dict" where
  "artifact_update line = dict_of [(u ''kind'', JStr (u ''artifact-update'')),
     (u ''artifact'', JObj (dict_of [(u ''artifactId'', JStr (u ''a1'')),
        (u ''parts'', JArr [JObj (dict_of [(u ''kind'', JStr (u ''text'')), (u ''text'', JStr line)])])]))]"

text \<open>The prompt is always one argument of the command, and a command starts with the adapter's binary.\<close>

lemma command_shape:
  "hd (executor_command a prompt sid opts) = adapter_binary a \<and> prompt \<in> set (executor_command a prompt sid opts)"
  by (cases a) (auto simp: executor_command_def command_defs split: option.splits list.splits)

lemma output_nonempty: "tr_output (adapter_parse out err rc) \<noteq> []"
  by (auto simp: adapter_parse_def Let_def u_def)

text \<open>A run succeeds only when the process ended with code 0 and no cancel event was set.\<close>

lemma run_ok_iff: "(\<exists>r. executor_result x = Run_result r \<and> tr_ok r) \<longleftrightarrow> (\<exists>chunks stderr rc. x = Exited False chunks stderr rc \<and> rc \<in> {None, Some 0})"
  by (cases x) (auto simp: canceled_result_def adapter_parse_def Let_def split: option.splits)

section \<open>The Codex preflight\<close>

definition CODEX_CLI_VERSION :: string where
  "CODEX_CLI_VERSION = ''0.147.0''"

definition REQUIRED_EXEC_HELP :: "string list" where
  "REQUIRED_EXEC_HELP = [''--sandbox'', ''--approve-for-me'', ''--dangerously-bypass-approvals-and-sandbox'', ''--ephemeral'', ''--skip-git-repo-check'']"

record CodexPreflightResult =
  cp_executable :: "ustr option"
  cp_version :: "ustr option"
  cp_version_supported :: bool
  cp_help_contract_valid :: bool
  cp_authenticated :: bool
  cp_diagnostics :: "ustr list"

definition preflight_available :: "CodexPreflightResult \<Rightarrow> bool" where
  "preflight_available r \<longleftrightarrow> cp_executable r \<noteq> None \<and> cp_version_supported r \<and> cp_help_contract_valid r \<and> cp_authenticated r"

definition contains :: "ustr \<Rightarrow> ustr \<Rightarrow> bool" where
  "contains needle text \<longleftrightarrow> list_ex (\<lambda>i. take (length needle) (drop i text) = needle) [0..<Suc (length text)]"

fun join_comma :: "string list \<Rightarrow> string" where
  "join_comma [] = []"
| "join_comma [t] = t"
| "join_comma (t # ts) = t @ '', '' @ join_comma ts"

text \<open>The three probes are arguments: exit code and output; \<open>version_of\<close> is the regular expression's group, \<open>lower\<close> is \<open>str.lower\<close>.
  The timeout is in milliseconds.\<close>

definition preflight_result :: "(ustr \<Rightarrow> ustr option) \<Rightarrow> (ustr \<Rightarrow> ustr) \<Rightarrow> ustr \<Rightarrow> int \<times> ustr \<Rightarrow> int \<times> ustr \<Rightarrow> int \<times> ustr \<Rightarrow> CodexPreflightResult" where
  "preflight_result version_of lower exe vers help login =
       (let version = version_of (snd vers);
            version_supported = (fst vers = 0 \<and> version = Some (u CODEX_CLI_VERSION));
            missing = filter (\<lambda>flag. \<not> contains (u flag) (snd help)) REQUIRED_EXEC_HELP;
            help_ok = (fst help = 0 \<and> missing = []);
            auth = (fst login = 0 \<and> \<not> contains (u ''not logged in'') (lower (snd login))) in
        \<lparr> cp_executable = Some exe, cp_version = version, cp_version_supported = version_supported, cp_help_contract_valid = help_ok,
          cp_authenticated = auth,
          cp_diagnostics =
            (if version_supported then [] else
               [u ''unsupported Codex CLI version: '' @ (case version of Some (c # cs) \<Rightarrow> c # cs | _ \<Rightarrow> u ''unknown'') @ u ''; expected '' @ u CODEX_CLI_VERSION]) @
            (if help_ok then [] else
               [u ''Codex exec help contract missing: '' @ u (if missing \<noteq> [] then join_comma missing else ''command failed'')]) @
            (if auth then [] else [u ''Codex CLI is not authenticated'']) \<rparr>)"

lemma preflight_result_available:
  "preflight_available (preflight_result version_of lower exe v h l) \<longleftrightarrow> cp_diagnostics (preflight_result version_of lower exe v h l) = []"
  by (simp add: preflight_result_def preflight_available_def Let_def) blast

definition preflight :: "(ustr \<Rightarrow> ustr option) \<Rightarrow> (ustr \<Rightarrow> ustr) \<Rightarrow> int \<Rightarrow> ustr option \<Rightarrow> int \<times> ustr \<Rightarrow> int \<times> ustr \<Rightarrow> int \<times> ustr \<Rightarrow> CodexPreflightResult result" where
  "preflight version_of lower timeout executable vers help login =
     checked [Check (\<not> timeout \<le> 0) (ValueError [''Codex preflight timeout must be positive''])]
     (Inr (case executable of
        None \<Rightarrow> \<lparr> cp_executable = None, cp_version = None, cp_version_supported = False, cp_help_contract_valid = False, cp_authenticated = False,
          cp_diagnostics = [u ''codex executable not found''] \<rparr>
      | Some exe \<Rightarrow> preflight_result version_of lower exe vers help login))"

text \<open>The adapter is available exactly when there is nothing to diagnose.\<close>

lemma preflight_available_iff:
  "preflight version_of lower timeout exe v h l = Inr r \<Longrightarrow> preflight_available r \<longleftrightarrow> cp_diagnostics r = []"
  by (cases exe) (auto simp: preflight_def preflight_result_available, simp add: preflight_available_def)

section \<open>Configuration\<close>

type_synonym split_url = "ustr \<Rightarrow> string \<times> ustr option"

definition validate_nats_url :: "split_url \<Rightarrow> ustr \<Rightarrow> check list" where
  "validate_nats_url split_url v =
     [Check (\<not> list_ex is_space v) (ValueError [''NATS URL must not contain whitespace'']),
      Check (fst (split_url v) \<in> {''nats'', ''tls'', ''ws'', ''wss''}) (ValueError [''NATS URL scheme must be nats, tls, ws, or wss'']),
      Check (snd (split_url v) \<notin> {None, Some []}) (ValueError [''NATS URL must include a hostname''])]"

definition subject_token :: "ustr \<Rightarrow> bool" where
  "subject_token v \<longleftrightarrow> v \<noteq> [] \<and> list_all (\<lambda>c. c \<notin> {46, 42, 62, 32, 9, 13, 10}) v"

record AgentConfig =
  gc_name :: ustr
  gc_description :: ustr
  gc_default_runtime :: runtime_name
  gc_workdir :: "ustr option"
  gc_runtimes :: "runtime_name list"
  gc_tools_dir :: ustr
  gc_public_tools :: "ustr list"
  gc_session_ttl_seconds :: int
  gc_task_timeout_seconds :: int

text \<open>The constraints in the order of the fields, then the validator of the whole model; the error of a check stands for the report
  pydantic makes of it.\<close>

definition agent_config_checks :: "AgentConfig \<Rightarrow> check list" where
  "agent_config_checks c =
     [Check (subject_token (gc_name c)) (ValueError [''agent name must be a non-empty NATS subject token'']),
      Check (gc_session_ttl_seconds c > 0) (ValueError [''session_ttl_seconds'']),
      Check (gc_task_timeout_seconds c > 0) (ValueError [''task_timeout_seconds'']),
      Check (gc_default_runtime c \<in> set (gc_runtimes c)) (ValueError [''default_runtime must be included in runtimes''])]"

datatype mcp_type = Mcp_stdio | Mcp_http | Mcp_sse | Mcp_streamable_http

record McpConfig =
  mc_type :: mcp_type
  mc_name :: "ustr option"
  mc_command :: "ustr option"
  mc_args :: "ustr list"
  mc_env :: "(ustr \<times> ustr) list"
  mc_cwd :: "ustr option"
  mc_url :: "ustr option"
  mc_headers :: "(ustr \<times> ustr) list"
  mc_timeout_ms :: int

abbreviation given :: "ustr option \<Rightarrow> bool" where
  "given a \<equiv> a \<notin> {None, Some []}"

text \<open>\<open>timeout_seconds\<close> is bounded by its field, in milliseconds here.\<close>

definition mcp_timeout_checks :: "McpConfig \<Rightarrow> check list" where
  "mcp_timeout_checks c = [Check (0 < mc_timeout_ms c \<and> mc_timeout_ms c \<le> 300000) (ValueError [''timeout_seconds''])]"

definition validate_transport :: "split_url \<Rightarrow> McpConfig \<Rightarrow> check list" where
  "validate_transport split_url c =
     (if mc_type c = Mcp_sse then [Check False (ValueError [''legacy MCP SSE transport is not supported''])]
      else if mc_type c = Mcp_stdio then
        [Check (\<not> (\<not> given (mc_command c) \<or> given (mc_url c))) (ValueError [''MCP stdio requires command and forbids url''])]
      else
        [Check (\<not> (\<not> given (mc_url c) \<or> given (mc_command c))) (ValueError [''MCP Streamable HTTP requires url and forbids command'']),
         Check (\<not> (fst (split_url (case mc_url c of Some x \<Rightarrow> x | None \<Rightarrow> [])) \<notin> {''http'', ''https''} \<or>
             snd (split_url (case mc_url c of Some x \<Rightarrow> x | None \<Rightarrow> [])) \<in> {None, Some []}))
           (ValueError [''invalid MCP Streamable HTTP URL''])])"

definition alias_text :: "ustr \<Rightarrow> bool" where
  "alias_text s \<longleftrightarrow> s \<noteq> [] \<and> length s \<le> 63 \<and> list_all token_char s \<and> hd s \<notin> {45, 95}"

text \<open>\<open>stem\<close> is \<open>Path(command).stem\<close>.\<close>

definition mcp_alias :: "split_url \<Rightarrow> (ustr \<Rightarrow> ustr) \<Rightarrow> McpConfig \<Rightarrow> ustr result" where
  "mcp_alias split_url stem c =
     (let raw = (if given (mc_name c) then the (mc_name c)
          else if given (mc_command c) then stem (the (mc_command c))
          else if given (mc_url c) then (case snd (split_url (the (mc_url c))) of Some (h # hs) \<Rightarrow> h # hs | _ \<Rightarrow> u ''mcp'')
          else u ''mcp'');
          name = map (\<lambda>ch. if ch = 46 \<or> ch = 45 then 95 else ch) raw in
      checked [Check (alias_text name) (ValueError [''invalid MCP server alias''])] (Inr name))"

text \<open>An MCP configuration that passes has exactly the endpoint its transport needs; a valid agent name is one subject token.\<close>

lemma transport_exact:
  "all_ok (validate_transport split_url c) \<longleftrightarrow>
     (mc_type c = Mcp_stdio \<and> given (mc_command c) \<and> \<not> given (mc_url c) \<or>
      mc_type c \<in> {Mcp_http, Mcp_streamable_http} \<and> \<not> given (mc_command c) \<and>
        (\<exists>url. mc_url c = Some url \<and> url \<noteq> [] \<and> fst (split_url url) \<in> {''http'', ''https''} \<and> given (snd (split_url url))))"
  by (cases "mc_type c"; cases "mc_url c") (auto simp: validate_transport_def)

end
