(* ===== verification/Spec2Isabelle.thy ===== *)
theory Spec2Isabelle
  imports TaskStates ReconIds Sha256_Vectors HoldProperties HoldSafety HoldWire SlotProperties
    IdentityProperties AuthProperties BindingProperties StreamProperties TransportProperties
    OrchRuntime ToolCatalog Legacy Memory McpBridge PeerRuntime Adapters
begin

text \<open>
  \<^bold>\<open>Verification of a2amesh.\<close> a2amesh connects coding agents over NATS: a signed request binding in front of a canonical application, a state
  plane of contracts for artifact holds and recovery, an older private RPC with its agent runtime, and an orchestrator that splits a task
  into a plan and dispatches its steps. The sources are in \<open>src/src/a2amesh\<close>; the paths below are relative to it.

  \<^bold>\<open>How the parts interact.\<close> A request comes as a NATS message to \<open>V1NatsServer\<close> (\<open>bindings/nats_v1/transport.py\<close>), is read as an envelope,
  authenticated (\<open>bindings/nats_v1/auth.py\<close> on \<open>identity\<close>) against a replay guard, and dispatched to the canonical application (\<open>core\<close>);
  streams have their own control envelopes and a cursor that filters frames. Deferred expiry of artifact holds is a compare-and-swap
  protocol on a snapshot (\<open>state_contracts\<close>). On the legacy side \<open>AgentRuntime\<close> keeps a table of tasks, calls an executor, offers tools,
  and stores sessions in a key-value bucket; \<open>OrchestratorRuntime\<close> is a peer that plans, dispatches and aggregates; the MCP bridge submits
  tasks for MCP clients.

  \<^bold>\<open>Shared layers.\<close>
  \<^item> \<open>Prelude\<close>: results as \<open>pyerr + 'a\<close>, guards as lists of \<open>Check\<close> run by \<open>checked\<close> in source order, the lemma that a checked value is
    returned exactly if all guards hold, and list lemmas. An error is a constructor and the pieces of its text; texts that print a Python
    collection are abridged to their fixed part.
  \<^item> \<open>PyText\<close>, \<open>PyTime\<close>, \<open>Base64url\<close>, \<open>Sha256\<close> (vectors in \<open>Sha256_Vectors\<close>), \<open>Json\<close>: Python strings as lists of code points with UTF-8,
    dates, Base64, SHA-256 and HMAC on words, and the JSON parser with canonical output. The parser has fuel, twice the length of
    the text plus one; \<open>json_loads_fuel\<close> shows that it never runs out.
  \<^item> \<open>Claims\<close>: \<open>json.dumps\<close> as the fingerprints use it, runs of a step function, and the locale \<open>claim_table\<close>, a table of digests
    claimed once. It is interpreted for the agent runtime, the orchestrator and the MCP bridge.

  \<^bold>\<open>State contracts.\<close>
  \<^item> \<open>TaskStates\<close> (\<open>protocol/state_machine.py\<close>): which transitions are accepted; terminal states are absorbing.
  \<^item> \<open>ReconIds\<close> (\<open>state_contracts/reconciliation.py\<close>): preimages are injective, identities are total.
  \<^item> \<open>HoldGuards\<close>, \<open>HoldScan\<close>, \<open>HoldReplay\<close>, \<open>HoldExpiry\<close>, \<open>HoldCommit\<close>, \<open>HoldLedger\<close>, \<open>HoldCas\<close>, \<open>HoldOps\<close>
    (\<open>state_contracts/artifact_hold.py\<close>): the dataclasses as records, every \<open>validate\<close>, \<open>create\<close> and wire form, and the operations SCAN,
    REPLAY_CLAIM and EXPIRE. \<open>LedgerFacts\<close>, \<open>LedgerIff\<close>, \<open>LedgerOps\<close>, \<open>CasFacts\<close> give the declarative meaning of the validation loops;
    \<open>ExpireFacts\<close>, \<open>ScanFacts\<close>, \<open>ReplayFacts\<close>, \<open>HoldExact\<close> the exact guard of each operation; \<open>HoldRuns\<close> the step relation and its
    invariant; \<open>HoldProperties\<close>, \<open>HoldSafety\<close>, \<open>HoldWire\<close> the properties, on the example of \<open>HoldDemo\<close>.
  \<^item> \<open>ConfigSlots\<close>, \<open>SlotFacts\<close>, \<open>SlotExact\<close>, \<open>SlotProperties\<close> (\<open>config_slots.py\<close>): the slot projection of a signed configuration is
    generated exactly for well-formed input and verified exactly when it is the generated one.

  \<^bold>\<open>Identity and the v1 binding.\<close>
  \<^item> \<open>Identity\<close>, \<open>Credentials\<close>, \<open>IdentityProperties\<close>, \<open>Nkey\<close>, \<open>AuthContexts\<close>, \<open>AuthProperties\<close> (\<open>identity\<close>): principals, aliases, credentials and
    signed contexts; credentials can be used and revoked, identities never change, accepted contexts are not accepted again before
    their expiry, and are accepted again in the clock-skew window after it.
  \<^item> \<open>Operations\<close> (\<open>core\<close>), \<open>Envelopes\<close>, \<open>EnvelopeWire\<close>, \<open>BindingAuth\<close>, \<open>BindingProperties\<close>, \<open>Transport\<close>, \<open>TransportProperties\<close>
    (\<open>bindings/nats_v1\<close>): the verifier accepts exactly the authenticated requests, and the server dispatches each at most once.
  \<^item> \<open>Streams\<close>, \<open>StreamControl\<close>, \<open>StreamFacts\<close>, \<open>StreamProperties\<close>: the cursor refines a gate on the log of frames.
  \<^item> \<open>PeerRuntime\<close> (\<open>runtime/v1_peer.py\<close>, start and close of the server): the life of the listener.

  \<^bold>\<open>Agents and the orchestrator.\<close>
  \<^item> \<open>Models\<close> (\<open>contracts/models.py\<close>), \<open>Plans\<close>, \<open>Dispatch\<close>, \<open>DispatchFacts\<close>, \<open>OrchestratorProperties\<close>
    (\<open>orchestrator/dispatcher.py\<close>, \<open>tracker.py\<close>, \<open>aggregator.py\<close>): plan validation is acyclicity and more; a run, as any sequence of the
    events of its coroutines, ends and has the outcome the agents' answers determine. \<open>OrchRuntime\<close> (\<open>planner.py\<close>, \<open>orchestrator.py\<close>).
  \<^item> \<open>Workspace\<close>, \<open>AgentTasks\<close>, \<open>RuntimeProperties\<close>, \<open>ToolCatalog\<close> (\<open>runtime/agent.py\<close>, \<open>tools\<close>): at most one execution per task identifier,
    cancellation, confinement of paths, and which tools a remote caller reaches.
  \<^item> \<open>Memory\<close> (\<open>memory/store.py\<close>): concurrent session appends are linearizable. \<open>Legacy\<close> (\<open>a2anats\<close>): client and server of the private
    RPC fit together. \<open>McpBridge\<close> (\<open>mcp_bridge/server.py\<close>). \<open>Adapters\<close> (\<open>runtime/adapters\<close>, \<open>runtime/executor.py\<close>, \<open>config.py\<close>): command
    lines, outcomes of a run, preflight and configuration checks.

  \<^bold>\<open>Concurrency.\<close> Coroutines meet the event loop only at their awaits, so a component that waits is a step function on the state between two
  waits, and properties quantify over all sequences of steps: \<open>hold_step\<close>, \<open>dispatch_step\<close>, \<open>agent_step\<close>, \<open>orch_step\<close>, \<open>store_call\<close>,
  \<open>peer_step\<close>.

  \<^bold>\<open>Parameters.\<close> Code outside the sources is an argument with its documented behaviour as a named hypothesis: the RFC 8785 encoder
  (\<open>dumps\<close>, law \<open>dumps_law\<close>, which \<open>jcs_dumps_law\<close> proves for the encoder of \<open>Json\<close>), Ed25519 and the NKey library, protobuf messages and
  their JSON form, the replay guard (\<open>durable_guard\<close>), the key-value bucket (\<open>kv_law\<close>), the JSON schema validator (\<open>schema_law\<close>), the file
  system, the network, the executor's and the agents' answers, the clock and random draws.

  \<^bold>\<open>Not modelled.\<close> Connecting and subscribing, processes and signals, file contents, YAML and pydantic coercion, logging, the wording of
  prompts, agent discovery, the command line (\<open>cli.py\<close>, \<open>runtime/cli_mesh.py\<close>), the type aliases of \<open>protocol\<close>, the fixtures of
  \<open>conformance\<close> and the repository's scripts: they are input and output, re-exports or calls of a library, with no decision of the
  program in them that the definitions do not already contain.
\<close>

end
